(* ===== verification/Prelude.thy ===== *)
theory Prelude
  imports Main
begin

text \<open>
  Shared vocabulary of the development: the result type of fallible operations, the
  model of a Django table with the query operations the sources use, the arithmetic of
  Python's \<open>decimal\<close> module on integral amounts, and the small collection of list
  lemmas that the component proofs rely on.
\<close>

section \<open>Results and errors\<close>

text \<open>
  Every \<open>raise\<close> of the sources is a value: an operation returns \<open>Inl e\<close> where the code
  raises and \<open>Inr (s, x)\<close> where it returns \<open>x\<close> leaving the database in \<open>s\<close>. Under
  \<open>transaction.atomic\<close> an exception rolls the database back, so an \<open>Inl\<close> result carries
  no state.
\<close>

type_synonym uuid = nat
type_synonym timestamp = int
type_synonym ('e, 'a) res = "'e + 'a"

text \<open>Instants and durations are whole microseconds, the resolution of Python's \<open>datetime\<close>.\<close>

definition seconds :: "int \<Rightarrow> int" where
  "seconds n = n * 1000000"

text \<open>The exceptions the Django ORM raises on its own account.\<close>

datatype db_error = DoesNotExist | MultipleObjectsReturned | IntegrityError string

named_theorems db_defs \<open>unfolding rules of the table operations\<close>
named_theorems res_simps \<open>inversion of sequenced results\<close>

definition rbind :: "('e, 'a) res \<Rightarrow> ('a \<Rightarrow> ('e, 'b) res) \<Rightarrow> ('e, 'b) res" where
  "rbind m f = (case m of Inl e \<Rightarrow> Inl e | Inr x \<Rightarrow> f x)"

definition require :: "bool \<Rightarrow> 'e \<Rightarrow> ('e, unit) res" where
  "require b e = (if b then Inr () else Inl e)"

lemma rbind_Inr [simp]: "rbind (Inr x) f = f x"
  by (simp add: rbind_def)

lemma rbind_Inl [simp]: "rbind (Inl e) f = Inl e"
  by (simp add: rbind_def)

lemma rbind_eq_Inr [res_simps]: "rbind m f = Inr y \<longleftrightarrow> (\<exists>x. m = Inr x \<and> f x = Inr y)"
  by (cases m) (simp_all add: rbind_def)

lemma case_sum_eq_Inr [res_simps]:
  "(case m of Inl e \<Rightarrow> Inl e | Inr x \<Rightarrow> f x) = Inr y \<longleftrightarrow> (\<exists>x. m = Inr x \<and> f x = Inr y)"
  by (cases m) simp_all

lemma if_Inl_eq_Inr [res_simps]:
  "(if b then Inl e else m) = Inr y \<longleftrightarrow> \<not> b \<and> m = Inr y"
  "(if b then m else Inl e) = Inr y \<longleftrightarrow> b \<and> m = Inr y"
  by simp_all

lemma require_eq_Inr [res_simps]: "require b e = Inr u \<longleftrightarrow> b"
  by (simp add: require_def)

lemma require_True [simp]: "require True e = Inr ()"
  by (simp add: require_def)

lemma require_False [simp]: "require False e = Inl e"
  by (simp add: require_def)

section \<open>Tables\<close>

text \<open>
  A table is the list of its rows in primary-key order: a \<open>uuid4\<close> default is a counter
  that hands out fresh identifiers, so \<open>create\<close> appends. \<open>obj_first\<close> is
  \<open>filter(...).first()\<close>, \<open>obj_get\<close> is \<open>get(...)\<close> with its two exceptions,
  \<open>obj_exists\<close> is \<open>filter(...).exists()\<close> and \<open>upd_where\<close> is
  \<open>filter(...).update(...)\<close>, which is also what \<open>save\<close> does to the one row with the
  object's key.
\<close>

definition obj_first :: "('r \<Rightarrow> bool) \<Rightarrow> 'r list \<Rightarrow> 'r option" where
  [db_defs]: "obj_first p t = find p t"

definition obj_get :: "('r \<Rightarrow> bool) \<Rightarrow> 'r list \<Rightarrow> (db_error, 'r) res" where
  "obj_get p t =
     (case filter p t of
        [] \<Rightarrow> Inl DoesNotExist
      | [r] \<Rightarrow> Inr r
      | _ \<Rightarrow> Inl MultipleObjectsReturned)"

definition obj_exists :: "('r \<Rightarrow> bool) \<Rightarrow> 'r list \<Rightarrow> bool" where
  [db_defs]: "obj_exists p t = list_ex p t"

definition upd_where :: "('r \<Rightarrow> bool) \<Rightarrow> ('r \<Rightarrow> 'r) \<Rightarrow> 'r list \<Rightarrow> 'r list" where
  [db_defs]: "upd_where p f t = map (\<lambda>r. if p r then f r else r) t"

definition obj_count :: "('r \<Rightarrow> bool) \<Rightarrow> 'r list \<Rightarrow> nat" where
  [db_defs]: "obj_count p t = length (filter p t)"

definition sum_where :: "('r \<Rightarrow> bool) \<Rightarrow> ('r \<Rightarrow> 'n::linordered_idom) \<Rightarrow> 'r list \<Rightarrow> 'n" where
  "sum_where p f t = sum_list (map f (filter p t))"

lemma obj_first_Some:
  "obj_first p t = Some r \<Longrightarrow> r \<in> set t \<and> p r"
  by (auto simp: obj_first_def find_Some_iff)

lemma obj_first_None:
  "obj_first p t = None \<longleftrightarrow> (\<forall>r \<in> set t. \<not> p r)"
  by (auto simp: obj_first_def find_None_iff)

lemma obj_first_simps [simp]:
  "obj_first p [] = None"
  "obj_first p (x # t) = (if p x then Some x else obj_first p t)"
  by (simp_all add: obj_first_def)

lemma obj_first_append:
  "obj_first p (s @ t) = (case obj_first p s of None \<Rightarrow> obj_first p t | Some x \<Rightarrow> Some x)"
  by (induction s) auto

lemma obj_first_upd_where:
  assumes "obj_first p t = Some r" "\<And>x. q x \<Longrightarrow> p (f x) = p x" "q r"
  shows "obj_first p (upd_where q f t) = Some (f r)"
  using assms by (induction t) (auto simp: obj_first_def upd_where_def split: if_splits)

lemma obj_first_snoc:
  "obj_first p t = None \<Longrightarrow> obj_first p (t @ [r]) = (if p r then Some r else None)"
  by (induction t) (auto simp: obj_first_def split: if_splits)

lemma obj_get_Inr_filter: "obj_get p t = Inr r \<longleftrightarrow> filter p t = [r]"
  by (auto simp: obj_get_def split: list.splits)

lemma obj_get_set: "obj_get p t = Inr r \<Longrightarrow> {x \<in> set t. p x} = {r}"
  by (metis list.set(1,2) obj_get_Inr_filter set_filter)

lemma obj_get_Inr: "obj_get p t = Inr r \<Longrightarrow> r \<in> set t \<and> p r"
  by (drule obj_get_set) auto

lemma obj_get_unique:
  "obj_get p t = Inr r \<Longrightarrow> x \<in> set t \<Longrightarrow> p x \<Longrightarrow> x = r"
  by (drule obj_get_set) auto

lemma obj_get_first: "obj_get p t = Inr r \<Longrightarrow> obj_first p t = Some r"
  using obj_get_unique [of p t r] obj_get_Inr [of p t r] obj_first_Some [of p t] obj_first_None [of p t]
  by (cases "obj_first p t") auto

lemma obj_get_snoc:
  "(\<And>x. x \<in> set t \<Longrightarrow> \<not> p x) \<Longrightarrow> p r \<Longrightarrow> obj_get p (t @ [r]) = Inr r"
  by (simp add: obj_get_Inr_filter filter_empty_conv)

lemma obj_exists_iff [simp]: "obj_exists p t \<longleftrightarrow> (\<exists>r \<in> set t. p r)"
  by (simp add: obj_exists_def list_ex_iff)

lemma upd_where_Nil [simp]: "upd_where p f [] = []"
  by (simp add: upd_where_def)

lemma upd_where_Cons [simp]:
  "upd_where p f (r # t) = (if p r then f r else r) # upd_where p f t"
  by (simp add: upd_where_def)

lemma upd_where_append [simp]:
  "upd_where p f (s @ t) = upd_where p f s @ upd_where p f t"
  by (simp add: upd_where_def)

lemma length_upd_where [simp]: "length (upd_where p f t) = length t"
  by (simp add: upd_where_def)

lemma map_upd_where:
  "(\<And>r. r \<in> set t \<Longrightarrow> p r \<Longrightarrow> g (f r) = g r) \<Longrightarrow> map g (upd_where p f t) = map g t"
  by (auto simp: upd_where_def)

lemma key_unique:
  "distinct (map f t) \<Longrightarrow> x \<in> set t \<Longrightarrow> y \<in> set t \<Longrightarrow> f x = f y \<Longrightarrow> x = y"
  by (metis distinct_map inj_onD)

lemma set_upd_where: "set (upd_where p f t) = (\<lambda>r. if p r then f r else r) ` set t"
  by (simp add: upd_where_def)

lemma upd_where_id: "(\<And>r. r \<in> set t \<Longrightarrow> \<not> p r) \<Longrightarrow> upd_where p f t = t"
  by (simp add: upd_where_def map_idI)

lemma sum_where_Nil [simp]: "sum_where p f [] = 0"
  by (simp add: sum_where_def)

lemma sum_where_Cons [simp]:
  "sum_where p f (r # t) = (if p r then f r else 0) + sum_where p f t"
  by (simp add: sum_where_def)

lemma sum_where_append [simp]:
  "sum_where p f (s @ t) = sum_where p f s + sum_where p f t"
  by (simp add: sum_where_def)

lemma sum_where_cong:
  "(\<And>r. r \<in> set t \<Longrightarrow> p r = q r) \<Longrightarrow> (\<And>r. r \<in> set t \<Longrightarrow> q r \<Longrightarrow> f r = g r) \<Longrightarrow>
   sum_where p f t = sum_where q g t"
  by (induction t) auto

lemma sum_where_nonneg:
  "(\<And>r. r \<in> set t \<Longrightarrow> p r \<Longrightarrow> 0 \<le> f r) \<Longrightarrow> 0 \<le> sum_where p f t"
  by (induction t) (auto intro: add_nonneg_nonneg)

lemma sum_where_zero:
  "(\<And>r. r \<in> set t \<Longrightarrow> \<not> p r) \<Longrightarrow> sum_where p f t = 0"
  by (induction t) auto

lemma sum_where_member_le:
  assumes "r \<in> set t" "p r" "\<And>x. x \<in> set t \<Longrightarrow> p x \<Longrightarrow> 0 \<le> f x"
  shows "f r \<le> sum_where p f t"
  using assms
proof (induction t)
  case (Cons x t)
  then have "0 \<le> sum_where p f t" by (auto intro: sum_where_nonneg)
  with Cons show ?case by (cases "r = x") fastforce+
qed simp

text \<open>Changing the one row that carries a key moves a sum by what that row contributes.\<close>

lemma upd_where_row:
  assumes "distinct (map k t)" "r \<in> set t"
  shows "upd_where (\<lambda>x. k x = k r) (\<lambda>_. g r) t = upd_where (\<lambda>x. k x = k r) g t"
  using key_unique [OF assms(1) _ assms(2)] by (auto simp: upd_where_def)

lemma obj_get_upd_row:
  assumes "obj_get (\<lambda>x. k x = i) t = Inr r" "k r' = i"
  shows "obj_get (\<lambda>x. k x = i) (upd_where (\<lambda>x. k x = k r) (\<lambda>_. r') t) = Inr r'"
proof -
  from assms have "k r = i" "filter (\<lambda>x. k x = i) t = [r]"
    by (auto dest: obj_get_Inr) (simp add: obj_get_Inr_filter)
  moreover have "filter (\<lambda>x. k x = i) (upd_where (\<lambda>x. k x = i) (\<lambda>_. r') t) =
      map (\<lambda>_. r') (filter (\<lambda>x. k x = i) t)"
    using assms(2) by (induction t) auto
  ultimately show ?thesis by (simp add: obj_get_Inr_filter)
qed

lemma sum_where_upd_row:
  assumes "distinct (map k t)" "r \<in> set t" "k r' = k r"
  shows "sum_where p f (upd_where (\<lambda>x. k x = k r) (\<lambda>_. r') t) =
         sum_where p f t - (if p r then f r else 0) + (if p r' then f r' else 0)"
  using assms
proof (induction t)
  case (Cons x t)
  show ?case
  proof (cases "k x = k r")
    case True
    with Cons.prems have "x = r" by (auto simp: image_iff)
    moreover from Cons.prems True have "upd_where (\<lambda>x. k x = k r) (\<lambda>_. r') t = t"
      by (intro upd_where_id) (auto simp: image_iff)
    ultimately show ?thesis by simp
  next
    case False
    with Cons show ?thesis by auto
  qed
qed simp

section \<open>Python's decimal arithmetic on integral amounts\<close>

text \<open>
  \<open>decimal.Decimal\<close> arithmetic rounds every result to the context precision, 28
  significant digits by default, half to even; the constructor and comparisons are exact.
  Atomic amounts are integral, so the model keeps them as \<open>int\<close> and writes the rounding
  out: \<open>dec_add\<close> and \<open>dec_sub\<close> are exact below \<open>10 ^ 28\<close> and lose low digits above.
\<close>

definition prec :: nat where
  "prec = 28"

function ndigits :: "int \<Rightarrow> nat" where
  "ndigits n = (if n < 10 then 1 else Suc (ndigits (n div 10)))"
  by pat_completeness auto
termination
  by (relation "measure nat") auto

declare ndigits.simps [simp del]

definition half_even_div :: "int \<Rightarrow> int \<Rightarrow> int" where
  "half_even_div x d =
     (let q = x div d; r = x mod d
      in if 2 * r < d \<or> (2 * r = d \<and> even q) then q else q + 1)"

definition dec_round :: "int \<Rightarrow> int" where
  "dec_round x =
     (let n = ndigits \<bar>x\<bar>
      in if n \<le> prec then x
         else let d = 10 ^ (n - prec) in sgn x * (half_even_div \<bar>x\<bar> d * d))"

definition dec_add :: "int \<Rightarrow> int \<Rightarrow> int" where
  "dec_add x y = dec_round (x + y)"

definition dec_sub :: "int \<Rightarrow> int \<Rightarrow> int" where
  "dec_sub x y = dec_round (x - y)"

abbreviation dec_limit :: int where
  "dec_limit \<equiv> 10 ^ 28"

lemma ndigits_le: "0 < k \<Longrightarrow> n < 10 ^ k \<Longrightarrow> ndigits n \<le> k"
proof (induction n arbitrary: k rule: ndigits.induct)
  case (1 n)
  show ?case
  proof (cases "n < 10")
    case True
    with 1 show ?thesis by (simp add: ndigits.simps [of n])
  next
    case False
    with "1.prems" have "1 < k"
      by (cases "k = 1") auto
    then obtain j where j: "k = Suc j" "0 < j" by (cases k) auto
    with "1.prems" have "n div 10 < 10 ^ j" by (simp add: div_less_iff_less_mult)
    with "1.IH" False j have "ndigits (n div 10) \<le> j" by simp
    with False j show ?thesis by (simp add: ndigits.simps [of n])
  qed
qed

lemma dec_round_exact: "\<bar>x\<bar> < dec_limit \<Longrightarrow> dec_round x = x"
  using ndigits_le [of prec "\<bar>x\<bar>"] by (simp add: dec_round_def prec_def Let_def)

lemma dec_add_exact: "\<bar>x + y\<bar> < dec_limit \<Longrightarrow> dec_add x y = x + y"
  by (simp add: dec_add_def dec_round_exact)

lemma dec_sub_exact: "\<bar>x - y\<bar> < dec_limit \<Longrightarrow> dec_sub x y = x - y"
  by (simp add: dec_sub_def dec_round_exact)

lemma dec_add_loses_unit: "dec_add (10 ^ 28) 1 = 10 ^ 28"
  by (simp add: dec_add_def dec_round_def half_even_div_def prec_def ndigits.simps Let_def)

section \<open>Text\<close>

text \<open>\<open>str.upper\<close>, \<open>str.lower\<close>, \<open>startswith\<close> and \<open>endswith\<close> on ASCII text.\<close>

definition upper_char :: "char \<Rightarrow> char" where
  "upper_char c = (if 97 \<le> (of_char c :: nat) \<and> (of_char c :: nat) \<le> 122 then char_of ((of_char c :: nat) - 32) else c)"

definition lower_char :: "char \<Rightarrow> char" where
  "lower_char c = (if 65 \<le> (of_char c :: nat) \<and> (of_char c :: nat) \<le> 90 then char_of ((of_char c :: nat) + 32) else c)"

definition upper :: "string \<Rightarrow> string" where
  "upper s = map upper_char s"

definition lower :: "string \<Rightarrow> string" where
  "lower s = map lower_char s"

definition startswith :: "string \<Rightarrow> string \<Rightarrow> bool" where
  "startswith s p \<longleftrightarrow> take (length p) s = p"

definition endswith :: "string \<Rightarrow> string \<Rightarrow> bool" where
  "endswith s p \<longleftrightarrow> length p \<le> length s \<and> drop (length s - length p) s = p"

text \<open>\<open>char_in lo hi c\<close>: the character class range of a regular expression.\<close>

definition char_in :: "char \<Rightarrow> char \<Rightarrow> char \<Rightarrow> bool" where
  "char_in lo hi c \<longleftrightarrow> (of_char lo :: nat) \<le> of_char c \<and> (of_char c :: nat) \<le> of_char hi"

abbreviation is_lower_az :: "char \<Rightarrow> bool" where "is_lower_az \<equiv> char_in CHR ''a'' CHR ''z''"
abbreviation is_upper_az :: "char \<Rightarrow> bool" where "is_upper_az \<equiv> char_in CHR ''A'' CHR ''Z''"
abbreviation is_digit_09 :: "char \<Rightarrow> bool" where "is_digit_09 \<equiv> char_in CHR ''0'' CHR ''9''"

text \<open>\<open>s.split(d)\<close> for a one-character separator.\<close>

fun split_on :: "char \<Rightarrow> string \<Rightarrow> string list" where
  "split_on d [] = [[]]"
| "split_on d (c # s) =
     (case split_on d s of
        [] \<Rightarrow> [[c]]
      | w # ws \<Rightarrow> if c = d then [] # w # ws else (c # w) # ws)"

end
