(* ===== verification/Json.thy ===== *)
theory Json
  imports Prelude "HOL-Library.List_Lexorder" "HOL-Library.Char_ord" "HOL-Library.Multiset"
begin

text \<open>
  JSON values and the canonical text \<open>json.dumps(payload, sort_keys=True,
  separators=(",", ":"), default=str)\<close> that the sources hash, with Python's ASCII
  escaping, and the decimal and hexadecimal texts of integers and UUIDs
  (\<open>str(n)\<close>, \<open>str(uuid)\<close>).
\<close>

section \<open>Numerals and identifiers as text\<close>

definition digit_char :: "nat \<Rightarrow> char" where
  "digit_char d = (if d < 10 then char_of (48 + d) else char_of (87 + d))"

fun str_nat :: "nat \<Rightarrow> string" where
  "str_nat n = (if n < 10 then [digit_char n] else str_nat (n div 10) @ [digit_char (n mod 10)])"

declare str_nat.simps [simp del]

definition str_int :: "int \<Rightarrow> string" where
  "str_int i = (if i < 0 then CHR ''-'' # str_nat (nat (- i)) else str_nat (nat i))"

text \<open>\<open>hex_text w n\<close> is the \<open>w\<close>-digit lower-case hexadecimal text of \<open>n\<close>.\<close>

fun hex_text :: "nat \<Rightarrow> nat \<Rightarrow> string" where
  "hex_text 0 n = []"
| "hex_text (Suc w) n = hex_text w (n div 16) @ [digit_char (n mod 16)]"

text \<open>The 8-4-4-4-12 text of a 128-bit UUID.\<close>

definition str_uuid :: "uuid \<Rightarrow> string" where
  "str_uuid n =
     (let h = hex_text 32 n
      in take 8 h @ ''-'' @ take 4 (drop 8 h) @ ''-'' @ take 4 (drop 12 h) @ ''-'' @
         take 4 (drop 16 h) @ ''-'' @ drop 20 h)"

lemma digit_char_inj: "a < 16 \<Longrightarrow> b < 16 \<Longrightarrow> digit_char a = digit_char b \<longleftrightarrow> a = b"
  by (auto simp: digit_char_def char_of_eq_iff take_bit_eq_mod split: if_splits)

lemma length_hex_text [simp]: "length (hex_text w n) = w"
  by (induction w arbitrary: n) auto

lemma hex_text_inj:
  "m < 16 ^ w \<Longrightarrow> n < 16 ^ w \<Longrightarrow> hex_text w m = hex_text w n \<longleftrightarrow> m = n"
proof (induction w arbitrary: m n)
  case (Suc w)
  then have "m div 16 < 16 ^ w" "n div 16 < 16 ^ w"
    by (simp_all add: div_less_iff_less_mult mult.commute)
  with Suc.IH show ?case
    by (auto simp: digit_char_inj) (metis div_mult_mod_eq)
qed simp

lemma str_uuid_inj:
  assumes "m < 2 ^ 128" "n < 2 ^ 128"
  shows "str_uuid m = str_uuid n \<longleftrightarrow> m = n"
proof
  assume eq: "str_uuid m = str_uuid n"
  have cut: "h = take 8 h @ take 4 (drop 8 h) @ take 4 (drop 12 h) @ take 4 (drop 16 h) @ drop 20 h"
    for h :: string
  proof -
    have "drop 16 h = take 4 (drop 16 h) @ drop 20 h"
      using append_take_drop_id [of 4 "drop 16 h"] by simp
    moreover have "drop 12 h = take 4 (drop 12 h) @ drop 16 h"
      using append_take_drop_id [of 4 "drop 12 h"] by simp
    moreover have "drop 8 h = take 4 (drop 8 h) @ drop 12 h"
      using append_take_drop_id [of 4 "drop 8 h"] by simp
    ultimately show ?thesis
      by (metis append_take_drop_id)
  qed
  have "hex_text 32 m = hex_text 32 n"
    using eq by (subst cut, subst (2) cut) (simp add: str_uuid_def Let_def)
  with assms show "m = n"
    by (simp add: hex_text_inj del: hex_text.simps)
qed simp

section \<open>Values and canonical text\<close>

datatype json =
    JNull
  | JBool bool
  | JInt int
  | JStr string
  | JArr "json list"
  | JObj "(string \<times> json) list"

definition escape_char :: "char \<Rightarrow> string" where
  "escape_char c =
     (if c = CHR 0x22 then [CHR 0x5C, CHR 0x22]
      else if c = CHR 0x5C then [CHR 0x5C, CHR 0x5C]
      else if c = CHR 0x0A then [CHR 0x5C, CHR ''n'']
      else if c = CHR 0x0D then [CHR 0x5C, CHR ''r'']
      else if c = CHR 0x09 then [CHR 0x5C, CHR ''t'']
      else if c = CHR 0x0C then [CHR 0x5C, CHR ''f'']
      else if c = CHR 0x08 then [CHR 0x5C, CHR ''b'']
      else if 32 \<le> (of_char c :: nat) \<and> (of_char c :: nat) \<le> 126 then [c]
      else CHR 0x5C # CHR ''u'' # hex_text 4 (of_char c))"

definition quote :: "string \<Rightarrow> string" where
  "quote s = CHR 0x22 # concat (map escape_char s) @ [CHR 0x22]"

fun join :: "string \<Rightarrow> string list \<Rightarrow> string" where
  "join sep [] = []"
| "join sep [x] = x"
| "join sep (x # y # xs) = x @ sep @ join sep (y # xs)"

fun dumps :: "json \<Rightarrow> string" where
  "dumps JNull = ''null''"
| "dumps (JBool b) = (if b then ''true'' else ''false'')"
| "dumps (JInt i) = str_int i"
| "dumps (JStr s) = quote s"
| "dumps (JArr xs) = ''['' @ join '','' (map dumps xs) @ '']''"
| "dumps (JObj kvs) =
     ''{'' @ join '',''
       (map (\<lambda>(k, v). quote k @ '':'' @ v)
         (sort_key fst (map (\<lambda>(k, v). (k, dumps v)) kvs))) @ ''}''"

text \<open>
  The text of an object does not depend on the order in which its keys were inserted.
\<close>

lemma sort_key_mset_eq:
  assumes "mset xs = mset ys" "distinct (map f xs)"
  shows "sort_key f xs = sort_key f ys"
proof (rule sort_key_inj_key_eq)
  show "mset xs = mset (sort_key f ys)" using assms by simp
  show "inj_on f (set xs)" using assms by (simp add: distinct_map)
qed simp

lemma dumps_key_order:
  assumes "mset kvs = mset kvs'" "distinct (map fst kvs)"
  shows "dumps (JObj kvs) = dumps (JObj kvs')"
proof -
  let ?d = "\<lambda>(k, v). (k, dumps v)"
  have "mset (map ?d kvs) = mset (map ?d kvs')" using assms(1) by simp
  moreover have "map fst (map ?d kvs) = map fst kvs" by (simp add: case_prod_beta)
  with assms(2) have "distinct (map fst (map ?d kvs))" by (simp only:)
  ultimately have "sort_key fst (map ?d kvs) = sort_key fst (map ?d kvs')"
    by (rule sort_key_mset_eq)
  then show ?thesis by simp
qed

text \<open>
  \<open>json.loads(json.dumps(...))\<close> with sorted keys: the same value with its object keys in
  order; its canonical text is unchanged.
\<close>

fun canon :: "json \<Rightarrow> json" where
  "canon (JArr xs) = JArr (map canon xs)"
| "canon (JObj kvs) = JObj (sort_key fst (map (\<lambda>(k, v). (k, canon v)) kvs))"
| "canon j = j"

lemma sort_key_map_snd:
  "sort_key fst (map (\<lambda>(k, v). (k, g v)) xs) = map (\<lambda>(k, v). (k, g v)) (sort_key fst xs)"
proof -
  have ins: "insort_key fst (case x of (k, v) \<Rightarrow> (k, g v)) (map (\<lambda>(k, v). (k, g v)) ys) =
      map (\<lambda>(k, v). (k, g v)) (insort_key fst x ys)" for x ys
    by (induction ys) (auto split: prod.splits)
  show ?thesis by (induction xs) (simp_all add: ins)
qed

lemma sort_key_sorted: "sort_key fst (sort_key fst xs) = sort_key fst xs"
  by (rule sort_key_id_if_sorted) simp

lemma dumps_canon: "dumps (canon j) = dumps j"
proof (induction j rule: canon.induct)
  case (1 xs)
  then have "map (dumps \<circ> canon) xs = map dumps xs" by simp
  then show ?case by (simp only: canon.simps dumps.simps map_map)
next
  case (2 kvs)
  have "map (\<lambda>(k, v). (k, dumps v)) (sort_key fst (map (\<lambda>(k, v). (k, canon v)) kvs)) =
      sort_key fst (map (\<lambda>(k, v). (k, dumps (canon v))) kvs)"
    by (simp only: sort_key_map_snd [symmetric] map_map) (simp add: comp_def case_prod_unfold)
  also have "map (\<lambda>(k, v). (k, dumps (canon v))) kvs = map (\<lambda>(k, v). (k, dumps v)) kvs"
    using 2 by auto
  finally show ?case
    by (simp only: canon.simps dumps.simps sort_key_sorted)
qed auto

section \<open>Python's view of a JSON value\<close>

text \<open>\<open>repr\<close> of a text: single quotes unless the text has one and no double quote.\<close>

definition repr_char :: "char \<Rightarrow> char \<Rightarrow> string" where
  "repr_char q c =
     (let n = of_char c :: nat
      in if c = q \<or> n = 92 then [CHR 0x5C, c]
         else if n = 10 then [CHR 0x5C, CHR ''n'']
         else if n = 13 then [CHR 0x5C, CHR ''r'']
         else if n = 9 then [CHR 0x5C, CHR ''t'']
         else if n < 32 \<or> (127 \<le> n \<and> n \<le> 160) \<or> n = 173 then CHR 0x5C # CHR ''x'' # hex_text 2 n
         else [c])"

definition repr_text :: "string \<Rightarrow> string" where
  "repr_text s =
     (let q = (if CHR 0x27 \<in> set s \<and> CHR 0x22 \<notin> set s then CHR 0x22 else CHR 0x27)
      in [q] @ concat (map (repr_char q) s) @ [q])"

fun py_repr :: "json \<Rightarrow> string" where
  "py_repr JNull = ''None''"
| "py_repr (JBool b) = (if b then ''True'' else ''False'')"
| "py_repr (JInt i) = str_int i"
| "py_repr (JStr s) = repr_text s"
| "py_repr (JArr xs) = ''['' @ join '', '' (map py_repr xs) @ '']''"
| "py_repr (JObj kvs) = ''{'' @ join '', '' (map (\<lambda>(k, v). repr_text k @ '': '' @ py_repr v) kvs) @ ''}''"

text \<open>\<open>str(x)\<close>, \<open>bool(x)\<close> and \<open>x == y\<close>; a Boolean equals the integer it stands for.\<close>

definition py_text :: "json \<Rightarrow> string" where
  "py_text j = (case j of JStr s \<Rightarrow> s | _ \<Rightarrow> py_repr j)"

definition truthy :: "json \<Rightarrow> bool" where
  "truthy j = (case j of JNull \<Rightarrow> False | JBool b \<Rightarrow> b | JInt i \<Rightarrow> i \<noteq> 0 | JStr s \<Rightarrow> s \<noteq> []
     | JArr xs \<Rightarrow> xs \<noteq> [] | JObj kvs \<Rightarrow> kvs \<noteq> [])"

fun py_norm :: "json \<Rightarrow> json" where
  "py_norm (JBool b) = JInt (if b then 1 else 0)"
| "py_norm (JArr xs) = JArr (map py_norm xs)"
| "py_norm (JObj kvs) = JObj (sort_key fst (map (\<lambda>(k, v). (k, py_norm v)) kvs))"
| "py_norm j = j"

definition py_eq :: "json \<Rightarrow> json \<Rightarrow> bool" where
  "py_eq a b \<longleftrightarrow> py_norm a = py_norm b"

definition hashable :: "json \<Rightarrow> bool" where
  "hashable j = (case j of JArr _ \<Rightarrow> False | JObj _ \<Rightarrow> False | _ \<Rightarrow> True)"

text \<open>A \<open>dict\<close> as its list of items, and \<open>row.get(key)\<close>.\<close>

type_synonym row = "(string \<times> json) list"

definition row_get :: "row \<Rightarrow> string \<Rightarrow> json" where
  "row_get r k = (case map_of r k of None \<Rightarrow> JNull | Some j \<Rightarrow> j)"

end
