(* ===== verification/Wallet_Models.thy ===== *)
theory Wallet_Models
  imports Json
begin

text \<open>
  The rows of \<open>real_wallet/models.py\<close> and the tables of the real-money wallet. Each model
  class is a record; the abstract base \<open>UUIDModel\<close> is the parent record \<open>uuid_model\<close>. A
  foreign key is the identifier of the row it names, \<open>null=True\<close> is an option, a
  \<open>CharField\<close> that the code compares with literals stays a string.
\<close>

section \<open>Rows\<close>

record uuid_model =
  um_id :: uuid
  created_at :: timestamp
  updated_at :: timestamp

record asset = uuid_model +
  asset_symbol :: string
  asset_name :: string
  asset_decimals :: nat
  asset_enabled :: bool

record network = uuid_model +
  network_code :: string
  network_name :: string
  network_enabled :: bool

record asset_network = uuid_model +
  an_asset :: uuid
  an_network :: uuid
  an_enabled :: bool
  confirmations_required :: nat

record real_wallet = uuid_model +
  rw_tenant :: uuid
  rw_owner :: uuid
  rw_status :: string
  restricted_reason :: string

record asset_balance = uuid_model +
  bal_wallet :: uuid
  bal_asset_network :: uuid
  posted_atomic :: int
  pending_credit_atomic :: int
  held_atomic :: int
  reserved_atomic :: int

definition available_atomic :: "asset_balance \<Rightarrow> int" where
  "available_atomic b = dec_sub (dec_sub (posted_atomic b) (held_atomic b)) (reserved_atomic b)"

record ledger_account = uuid_model +
  la_tenant :: uuid
  la_owner_type :: string
  la_owner_id :: "uuid option"
  la_asset :: uuid
  la_account_code :: string
  la_account_type :: string
  la_normal_side :: string
  la_status :: string

record ledger_transaction = uuid_model +
  lt_tenant :: uuid
  lt_transaction_type :: string
  lt_external_reference :: string
  lt_idempotency_key :: string
  lt_status :: string
  lt_effective_at :: timestamp
  lt_posted_at :: "timestamp option"
  lt_correlation_id :: "uuid option"
  lt_reversal_of :: "uuid option"
  lt_metadata :: json

record ledger_entry = uuid_model +
  le_transaction :: uuid
  le_account :: uuid
  le_asset :: uuid
  le_direction :: string
  le_amount_atomic :: int

record balance_hold = uuid_model +
  hold_tenant :: uuid
  hold_wallet :: uuid
  hold_asset_network :: uuid
  hold_amount_atomic :: int
  hold_state :: string
  hold_reason :: string
  hold_reference_id :: "uuid option"
  hold_idempotency_key :: string
  hold_expires_at :: "timestamp option"

record idempotency_record = uuid_model +
  ir_tenant :: uuid
  ir_actor :: uuid
  ir_endpoint :: string
  ir_method :: string
  ir_key :: string
  ir_request_hash :: string
  ir_resource_type :: string
  ir_resource_id :: "uuid option"
  ir_response_status :: "nat option"
  ir_response_body :: "json option"
  ir_expires_at :: timestamp

record outbox_event = uuid_model +
  ob_tenant :: "uuid option"
  ob_aggregate_type :: string
  ob_aggregate_id :: uuid
  ob_event_type :: string
  ob_event_version :: nat
  ob_payload :: json
  ob_correlation_id :: "uuid option"
  ob_causation_id :: "uuid option"
  ob_occurred_at :: timestamp
  ob_published_at :: "timestamp option"
  ob_attempt_count :: nat
  ob_next_attempt_at :: "timestamp option"

record deposit = uuid_model +
  dep_tenant :: uuid
  dep_wallet :: uuid
  dep_asset_network :: uuid
  dep_transaction_hash :: string
  dep_output_index :: "nat option"
  dep_amount_atomic :: int
  dep_state :: string
  dep_confirmations :: nat
  dep_ledger_transaction :: "uuid option"

record withdrawal = uuid_model +
  wd_tenant :: uuid
  wd_wallet :: uuid
  wd_asset_network :: uuid
  wd_destination :: string
  wd_amount_atomic :: int
  wd_fee_atomic :: int
  wd_state :: string
  wd_hold :: "uuid option"
  wd_blockchain_transaction :: string
  wd_idempotency_key :: string

record withdrawal_address = uuid_model +
  wa_tenant :: uuid
  wa_wallet :: uuid
  wa_asset_network :: uuid
  wa_address :: string
  wa_status :: string
  wa_risk_state :: string
  wa_cooling_until :: "timestamp option"
  wa_verified_at :: "timestamp option"

record withdrawal_approval = uuid_model +
  ap_withdrawal :: uuid
  ap_approver :: uuid
  ap_decision :: string
  ap_reason :: string

record internal_transfer = uuid_model +
  tr_tenant :: uuid
  tr_source_wallet :: uuid
  tr_destination_wallet :: uuid
  tr_asset_network :: uuid
  tr_amount_atomic :: int
  tr_state :: string
  tr_idempotency_key :: string

record feature_flag =
  ff_key :: string
  ff_enabled :: bool

record audit_event = uuid_model +
  ae_tenant :: "uuid option"
  ae_actor :: "uuid option"
  ae_action :: string
  ae_resource_type :: string
  ae_resource_id :: "uuid option"
  ae_request_id :: string
  ae_correlation_id :: "uuid option"
  ae_outcome :: string
  ae_reason :: string
  ae_metadata :: json

text \<open>\<open>integrations.models.OrganizationMembership\<close>, the tenant membership of a user.\<close>

record organization_membership =
  om_user :: uuid
  om_organization :: uuid
  om_role :: string
  om_is_active :: bool

text \<open>The attributes of the requesting user that the withdrawal path reads.\<close>

record actor =
  actor_id :: uuid
  is_mfa_enabled :: bool
  two_factor_authentication_enabled :: bool

section \<open>Tables\<close>

record wallet_db =
  next_id :: uuid
  feature_flags :: "feature_flag list"
  memberships :: "organization_membership list"
  asset_networks :: "asset_network list"
  wallets :: "real_wallet list"
  balances :: "asset_balance list"
  ledger_accounts :: "ledger_account list"
  ledger_transactions :: "ledger_transaction list"
  ledger_entries :: "ledger_entry list"
  holds :: "balance_hold list"
  idempotency_records :: "idempotency_record list"
  outbox_events :: "outbox_event list"
  deposits :: "deposit list"
  withdrawals :: "withdrawal list"
  withdrawal_addresses :: "withdrawal_address list"
  withdrawal_approvals :: "withdrawal_approval list"
  internal_transfers :: "internal_transfer list"
  audit_events :: "audit_event list"

text \<open>The exceptions of \<open>real_wallet/services.py\<close>.\<close>

datatype wallet_error =
    RealWalletFeatureDisabled string
  | IdempotencyConflict
  | WithdrawalMFARequired
  | ValueError string
  | DbError db_error

definition lift_db :: "(db_error, 'a) res \<Rightarrow> (wallet_error, 'a) res" where
  "lift_db m = (case m of Inl e \<Rightarrow> Inl (DbError e) | Inr x \<Rightarrow> Inr x)"

lemma lift_db_Inr [simp]: "lift_db m = Inr x \<longleftrightarrow> m = Inr x"
  by (cases m) (simp_all add: lift_db_def)

abbreviation get_by_id :: "uuid \<Rightarrow> 'a uuid_model_scheme list \<Rightarrow> (wallet_error, 'a uuid_model_scheme) res" where
  "get_by_id i t \<equiv> lift_db (obj_get (\<lambda>r. um_id r = i) t)"

text \<open>The check constraints of \<open>real_wallet_balances\<close>, tested by every save.\<close>

definition balance_constraints :: "asset_balance \<Rightarrow> bool" where
  "balance_constraints b \<longleftrightarrow>
     0 \<le> posted_atomic b \<and> 0 \<le> pending_credit_atomic b \<and>
     0 \<le> held_atomic b \<and> 0 \<le> reserved_atomic b"

definition save_balance :: "asset_balance \<Rightarrow> wallet_db \<Rightarrow> (wallet_error, wallet_db) res" where
  "save_balance b db =
     (if balance_constraints b
      then Inr (db\<lparr>balances := upd_where (\<lambda>r. um_id r = um_id b) (\<lambda>_. b) (balances db)\<rparr>)
      else Inl (DbError (IntegrityError ''real_wallet_balances'')))"

end
