(* ===== verification/Wallet_Ledger.thy ===== *)
theory Wallet_Ledger
  imports Wallet_Models "HOL-Library.AList"
begin

text \<open>
  The building blocks of \<open>real_wallet/services.py\<close>: feature gates, request
  idempotency, the transactional outbox, the audit trail and the double-entry ledger.
\<close>

section \<open>Feature gates\<close>

type_synonym settings = "string \<Rightarrow> bool option"

definition getattr :: "settings \<Rightarrow> string \<Rightarrow> bool \<Rightarrow> bool" where
  "getattr st name dflt = (case st name of None \<Rightarrow> dflt | Some v \<Rightarrow> v)"

definition settings_gate :: "string \<rightharpoonup> string" where
  "settings_gate = map_of
     [(''real_wallet_read_enabled'', ''REAL_WALLET_READ_ENABLED''),
      (''real_wallet_deposits_enabled'', ''REAL_DEPOSITS_ENABLED''),
      (''real_wallet_withdrawals_enabled'', ''REAL_WITHDRAWALS_ENABLED''),
      (''real_wallet_internal_transfers_enabled'', ''REAL_INTERNAL_TRANSFERS_ENABLED''),
      (''real_trading_enabled'', ''REAL_TRADING_ENABLED''),
      (''external_execution_enabled'', ''EXTERNAL_EXECUTION_ENABLED'')]"

definition is_feature_enabled :: "settings \<Rightarrow> string \<Rightarrow> wallet_db \<Rightarrow> bool" where
  "is_feature_enabled st key db =
     ((case settings_gate key of None \<Rightarrow> True | Some g \<Rightarrow> getattr st g False) \<and>
      obj_exists (\<lambda>f. ff_key f = key \<and> ff_enabled f) (feature_flags db))"

section \<open>Request idempotency\<close>

text \<open>\<open>sha\<close> stands for \<open>hashlib.sha256(...).hexdigest()\<close>.\<close>

definition canonical_request_hash :: "(string \<Rightarrow> string) \<Rightarrow> json \<Rightarrow> string" where
  "canonical_request_hash sha payload = sha (dumps payload)"

definition idempotency_scope ::
  "uuid \<Rightarrow> uuid \<Rightarrow> string \<Rightarrow> string \<Rightarrow> string \<Rightarrow> idempotency_record \<Rightarrow> bool" where
  "idempotency_scope tenant act endpoint meth key r \<longleftrightarrow>
     ir_tenant r = tenant \<and> ir_actor r = act \<and> ir_endpoint r = endpoint \<and>
     ir_method r = meth \<and> ir_key r = key"

definition reserve_idempotency ::
  "(string \<Rightarrow> string) \<Rightarrow> timestamp \<Rightarrow> uuid \<Rightarrow> uuid \<Rightarrow> string \<Rightarrow> string \<Rightarrow> string \<Rightarrow> json \<Rightarrow> int \<Rightarrow>
   wallet_db \<Rightarrow> (wallet_error, wallet_db \<times> idempotency_record \<times> bool) res" where
  "reserve_idempotency sha now tenant act endpoint meth key request_payload ttl_seconds db =
     (let request_hash = canonical_request_hash sha request_payload
      in case obj_first (idempotency_scope tenant act endpoint meth key) (idempotency_records db) of
           Some r \<Rightarrow>
             if ir_request_hash r \<noteq> request_hash then Inl IdempotencyConflict
             else Inr (db, r, False)
         | None \<Rightarrow>
             let r = \<lparr>um_id = next_id db, created_at = now, updated_at = now,
                      ir_tenant = tenant, ir_actor = act, ir_endpoint = endpoint,
                      ir_method = meth, ir_key = key, ir_request_hash = request_hash,
                      ir_resource_type = '''', ir_resource_id = None,
                      ir_response_status = None, ir_response_body = None,
                      ir_expires_at = now + seconds ttl_seconds\<rparr>
             in Inr (db\<lparr>next_id := Suc (next_id db),
                       idempotency_records := idempotency_records db @ [r]\<rparr>, r, True))"

definition complete_idempotency ::
  "timestamp \<Rightarrow> idempotency_record \<Rightarrow> string \<Rightarrow> uuid \<Rightarrow> nat \<Rightarrow> json \<Rightarrow> wallet_db \<Rightarrow> wallet_db" where
  "complete_idempotency now r resource_type resource_id response_status response_body db =
     db\<lparr>idempotency_records :=
          upd_where (\<lambda>x. um_id x = um_id r)
            (\<lambda>x. x\<lparr>ir_resource_type := resource_type, ir_resource_id := Some resource_id,
                  ir_response_status := Some response_status,
                  ir_response_body := Some response_body, updated_at := now\<rparr>)
            (idempotency_records db)\<rparr>"

section \<open>Outbox and audit\<close>

definition enqueue_outbox ::
  "timestamp \<Rightarrow> uuid \<Rightarrow> string \<Rightarrow> uuid \<Rightarrow> string \<Rightarrow> json \<Rightarrow> wallet_db \<Rightarrow> wallet_db" where
  "enqueue_outbox now tenant aggregate_type aggregate_id event_type payload db =
     db\<lparr>next_id := Suc (next_id db),
        outbox_events := outbox_events db @
          [\<lparr>um_id = next_id db, created_at = now, updated_at = now, ob_tenant = Some tenant,
            ob_aggregate_type = aggregate_type, ob_aggregate_id = aggregate_id,
            ob_event_type = event_type, ob_event_version = 1, ob_payload = payload,
            ob_correlation_id = None, ob_causation_id = None, ob_occurred_at = now,
            ob_published_at = None, ob_attempt_count = 0, ob_next_attempt_at = None\<rparr>]\<rparr>"

definition record_audit ::
  "timestamp \<Rightarrow> uuid \<Rightarrow> uuid option \<Rightarrow> string \<Rightarrow> string \<Rightarrow> uuid \<Rightarrow> string \<Rightarrow> string \<Rightarrow>
   wallet_db \<Rightarrow> wallet_db" where
  "record_audit now tenant act action resource_type resource_id outcome reason db =
     db\<lparr>next_id := Suc (next_id db),
        audit_events := audit_events db @
          [\<lparr>um_id = next_id db, created_at = now, updated_at = now, ae_tenant = Some tenant,
            ae_actor = act, ae_action = action, ae_resource_type = resource_type,
            ae_resource_id = Some resource_id, ae_request_id = '''', ae_correlation_id = None,
            ae_outcome = outcome, ae_reason = take 2000 reason, ae_metadata = JObj []\<rparr>]\<rparr>"

section \<open>Ledger\<close>

text \<open>One element of the \<open>entries\<close> argument of \<open>post_transaction\<close>.\<close>

record entry_item =
  ei_account :: uuid
  ei_asset :: uuid
  ei_direction :: string
  ei_amount_atomic :: int

type_synonym totals = "(uuid \<times> (int \<times> int)) list"

definition bump :: "entry_item \<Rightarrow> totals \<Rightarrow> totals" where
  "bump i t =
     (let (d, c) = (case map_of t (ei_asset i) of None \<Rightarrow> (0, 0) | Some p \<Rightarrow> p)
      in AList.update (ei_asset i)
           (if ei_direction i = ''DEBIT'' then (dec_add d (ei_amount_atomic i), c)
            else (d, dec_add c (ei_amount_atomic i))) t)"

fun tally :: "entry_item list \<Rightarrow> totals \<Rightarrow> (wallet_error, totals) res" where
  "tally [] t = Inr t"
| "tally (i # is) t =
     (if ei_amount_atomic i \<le> 0 then Inl (ValueError ''ledger amounts must be positive'')
      else if ei_direction i \<notin> {''DEBIT'', ''CREDIT''} then Inl (ValueError ''invalid ledger direction'')
      else tally is (bump i t))"

fun bulk_create_entries ::
  "timestamp \<Rightarrow> uuid \<Rightarrow> entry_item list \<Rightarrow> wallet_db \<Rightarrow> wallet_db" where
  "bulk_create_entries now tx [] db = db"
| "bulk_create_entries now tx (i # is) db =
     bulk_create_entries now tx is
       (db\<lparr>next_id := Suc (next_id db),
           ledger_entries := ledger_entries db @
             [\<lparr>um_id = next_id db, created_at = now, updated_at = now, le_transaction = tx,
               le_account = ei_account i, le_asset = ei_asset i,
               le_direction = ei_direction i, le_amount_atomic = ei_amount_atomic i\<rparr>]\<rparr>)"

definition ledger_key :: "uuid \<Rightarrow> string \<Rightarrow> ledger_transaction \<Rightarrow> bool" where
  "ledger_key tenant key t \<longleftrightarrow> lt_tenant t = tenant \<and> lt_idempotency_key t = key"

definition post_transaction ::
  "timestamp \<Rightarrow> uuid \<Rightarrow> string \<Rightarrow> string \<Rightarrow> entry_item list \<Rightarrow> json \<Rightarrow>
   wallet_db \<Rightarrow> (wallet_error, wallet_db \<times> ledger_transaction) res" where
  "post_transaction now tenant transaction_type idempotency_key entries metadata db =
     (if entries = [] then Inl (ValueError ''ledger transaction requires entries'')
      else case tally entries [] of
        Inl e \<Rightarrow> Inl e
      | Inr [(_, d, c)] \<Rightarrow>
          if d \<noteq> c then Inl (ValueError ''ledger transaction is unbalanced'')
          else (case obj_first (ledger_key tenant idempotency_key) (ledger_transactions db) of
                  Some t \<Rightarrow> Inr (db, t)
                | None \<Rightarrow>
                    let t = \<lparr>um_id = next_id db, created_at = now, updated_at = now,
                             lt_tenant = tenant, lt_transaction_type = transaction_type,
                             lt_external_reference = '''', lt_idempotency_key = idempotency_key,
                             lt_status = ''POSTED'', lt_effective_at = now,
                             lt_posted_at = Some now, lt_correlation_id = None,
                             lt_reversal_of = None, lt_metadata = metadata\<rparr>
                    in Inr (bulk_create_entries now (um_id t) entries
                              (db\<lparr>next_id := Suc (next_id db),
                                  ledger_transactions := ledger_transactions db @ [t]\<rparr>), t))
      | Inr _ \<Rightarrow> Inl (ValueError ''ledger transaction cannot mix assets''))"

definition account_key ::
  "uuid \<Rightarrow> string \<Rightarrow> uuid option \<Rightarrow> uuid \<Rightarrow> string \<Rightarrow> ledger_account \<Rightarrow> bool" where
  "account_key tenant owner_type owner_id ass account_code a \<longleftrightarrow>
     la_tenant a = tenant \<and> la_owner_type a = owner_type \<and> la_owner_id a = owner_id \<and>
     la_asset a = ass \<and> la_account_code a = account_code"

definition get_or_create_account ::
  "timestamp \<Rightarrow> uuid \<Rightarrow> string \<Rightarrow> uuid option \<Rightarrow> uuid \<Rightarrow> string \<Rightarrow> string \<Rightarrow> string \<Rightarrow>
   wallet_db \<Rightarrow> (wallet_error, wallet_db \<times> ledger_account) res" where
  "get_or_create_account now tenant owner_type owner_id ass account_code account_type normal_side db =
     (case obj_get (account_key tenant owner_type owner_id ass account_code) (ledger_accounts db) of
        Inr a \<Rightarrow> Inr (db, a)
      | Inl DoesNotExist \<Rightarrow>
          let a = \<lparr>um_id = next_id db, created_at = now, updated_at = now, la_tenant = tenant,
                   la_owner_type = owner_type, la_owner_id = owner_id, la_asset = ass,
                   la_account_code = account_code, la_account_type = account_type,
                   la_normal_side = normal_side, la_status = ''ACTIVE''\<rparr>
          in Inr (db\<lparr>next_id := Suc (next_id db), ledger_accounts := ledger_accounts db @ [a]\<rparr>, a)
      | Inl e \<Rightarrow> Inl (DbError e))"

abbreviation customer_account ::
  "timestamp \<Rightarrow> uuid \<Rightarrow> uuid \<Rightarrow> uuid \<Rightarrow> wallet_db \<Rightarrow> (wallet_error, wallet_db \<times> ledger_account) res" where
  "customer_account now tenant wallet ass \<equiv>
     get_or_create_account now tenant ''WALLET'' (Some wallet) ass ''CUSTOMER_AVAILABLE''
       ''LIABILITY'' ''CREDIT''"

abbreviation platform_account ::
  "timestamp \<Rightarrow> uuid \<Rightarrow> uuid \<Rightarrow> wallet_db \<Rightarrow> (wallet_error, wallet_db \<times> ledger_account) res" where
  "platform_account now tenant ass \<equiv>
     get_or_create_account now tenant ''PLATFORM'' None ass ''PLATFORM_HOT_WALLET''
       ''ASSET'' ''DEBIT''"

end
