(* ===== verification/Wallet_Services.thy ===== *)
theory Wallet_Services
  imports Wallet_Ledger
begin

text \<open>
  The value-changing operations of \<open>real_wallet/services.py\<close>: holds, withdrawals,
  internal transfers and deposits, each as one atomic transaction from the tables and the
  clock to an error or the new tables and the returned row.
\<close>

section \<open>Holds\<close>

definition hold_key :: "uuid \<Rightarrow> string \<Rightarrow> balance_hold \<Rightarrow> bool" where
  "hold_key tenant key h \<longleftrightarrow> hold_tenant h = tenant \<and> hold_idempotency_key h = key"

definition balance_key :: "uuid \<Rightarrow> uuid \<Rightarrow> asset_balance \<Rightarrow> bool" where
  "balance_key w an b \<longleftrightarrow> bal_wallet b = w \<and> bal_asset_network b = an"

definition create_hold ::
  "timestamp \<Rightarrow> uuid \<Rightarrow> uuid \<Rightarrow> uuid \<Rightarrow> int \<Rightarrow> string \<Rightarrow> string \<Rightarrow> uuid option \<Rightarrow> timestamp option \<Rightarrow>
   wallet_db \<Rightarrow> (wallet_error, wallet_db \<times> balance_hold) res" where
  "create_hold now tenant wallet asset_net amount reason idempotency_key reference_id expires_at db =
     (if amount \<le> 0 then Inl (ValueError ''hold amount must be positive'')
      else case obj_first (hold_key tenant idempotency_key) (holds db) of
        Some h \<Rightarrow> Inr (db, h)
      | None \<Rightarrow>
        (case lift_db (obj_get (balance_key wallet asset_net) (balances db)) of
           Inl e \<Rightarrow> Inl e
         | Inr b \<Rightarrow>
           if available_atomic b < amount then Inl (ValueError ''insufficient available balance'')
           else (case save_balance (b\<lparr>held_atomic := dec_add (held_atomic b) amount, updated_at := now\<rparr>) db of
              Inl e \<Rightarrow> Inl e
            | Inr db1 \<Rightarrow>
              let h = \<lparr>um_id = next_id db1, created_at = now, updated_at = now,
                       hold_tenant = tenant, hold_wallet = wallet,
                       hold_asset_network = asset_net, hold_amount_atomic = amount,
                       hold_state = ''ACTIVE'', hold_reason = reason,
                       hold_reference_id = reference_id,
                       hold_idempotency_key = idempotency_key, hold_expires_at = expires_at\<rparr>
              in Inr (db1\<lparr>next_id := Suc (next_id db1), holds := holds db1 @ [h]\<rparr>, h))))"

definition transition_hold ::
  "timestamp \<Rightarrow> uuid \<Rightarrow> string \<Rightarrow> wallet_db \<Rightarrow> (wallet_error, wallet_db \<times> balance_hold) res" where
  "transition_hold now hold_id target db =
     (case get_by_id hold_id (holds db) of
        Inl e \<Rightarrow> Inl e
      | Inr h \<Rightarrow>
        if hold_state h \<noteq> ''ACTIVE'' then Inl (ValueError ''hold is not active'')
        else case lift_db (obj_get (balance_key (hold_wallet h) (hold_asset_network h)) (balances db)) of
          Inl e \<Rightarrow> Inl e
        | Inr b \<Rightarrow>
          (let held = dec_sub (held_atomic b) (hold_amount_atomic h);
               posted = (if target = ''CAPTURED'' then dec_sub (posted_atomic b) (hold_amount_atomic h)
                         else posted_atomic b)
           in case save_balance (b\<lparr>held_atomic := held, posted_atomic := posted, updated_at := now\<rparr>) db of
                Inl e \<Rightarrow> Inl e
              | Inr db1 \<Rightarrow>
                let h' = h\<lparr>hold_state := target, updated_at := now\<rparr>
                in Inr (db1\<lparr>holds := upd_where (\<lambda>x. um_id x = um_id h) (\<lambda>_. h') (holds db1)\<rparr>, h')))"

definition capture_hold ::
  "timestamp \<Rightarrow> uuid \<Rightarrow> wallet_db \<Rightarrow> (wallet_error, wallet_db \<times> balance_hold) res" where
  "capture_hold now hold_id = transition_hold now hold_id ''CAPTURED''"

definition release_hold ::
  "timestamp \<Rightarrow> uuid \<Rightarrow> wallet_db \<Rightarrow> (wallet_error, wallet_db \<times> balance_hold) res" where
  "release_hold now hold_id = transition_hold now hold_id ''RELEASED''"

section \<open>Withdrawal requests\<close>

text \<open>The unique constraints of \<open>real_wallet_withdrawals\<close> checked by the insert.\<close>

definition withdrawal_constraints :: "withdrawal \<Rightarrow> wallet_db \<Rightarrow> bool" where
  "withdrawal_constraints w db \<longleftrightarrow>
     0 < wd_amount_atomic w \<and>
     \<not> obj_exists (\<lambda>x. wd_tenant x = wd_tenant w \<and> wd_idempotency_key x = wd_idempotency_key w)
        (withdrawals db) \<and>
     \<not> obj_exists (\<lambda>x. wd_hold x \<noteq> None \<and> wd_hold x = wd_hold w) (withdrawals db)"

definition insert_withdrawal :: "withdrawal \<Rightarrow> wallet_db \<Rightarrow> (wallet_error, wallet_db) res" where
  "insert_withdrawal w db =
     (if withdrawal_constraints w db
      then Inr (db\<lparr>next_id := Suc (next_id db), withdrawals := withdrawals db @ [w]\<rparr>)
      else Inl (DbError (IntegrityError ''real_wallet_withdrawals'')))"

definition usable_address :: "uuid \<Rightarrow> uuid \<Rightarrow> uuid \<Rightarrow> withdrawal_address \<Rightarrow> bool" where
  "usable_address addr tenant wallet a \<longleftrightarrow>
     um_id a = addr \<and> wa_tenant a = tenant \<and> wa_wallet a = wallet \<and>
     wa_status a = ''ACTIVE'' \<and> wa_risk_state a = ''CLEARED''"

definition mfa_satisfied :: "settings \<Rightarrow> actor \<Rightarrow> bool" where
  "mfa_satisfied st act \<longleftrightarrow>
     \<not> getattr st ''REAL_WALLET_REQUIRE_MFA'' True \<or>
     is_mfa_enabled act \<or> two_factor_authentication_enabled act"

text \<open>The part of \<open>request_withdrawal\<close> after the idempotency record was reserved.\<close>

definition perform_withdrawal ::
  "timestamp \<Rightarrow> uuid \<Rightarrow> actor \<Rightarrow> uuid \<Rightarrow> uuid \<Rightarrow> int \<Rightarrow> string \<Rightarrow> idempotency_record \<Rightarrow>
   wallet_db \<Rightarrow> (wallet_error, wallet_db \<times> withdrawal) res" where
  "perform_withdrawal now tenant act wallet withdrawal_address amount idempotency_key rec db =
     (case obj_first (usable_address withdrawal_address tenant wallet) (withdrawal_addresses db) of
        None \<Rightarrow> Inl (ValueError ''withdrawal address is not active'')
      | Some a \<Rightarrow>
        if (case wa_cooling_until a of None \<Rightarrow> False | Some c \<Rightarrow> now < c)
        then Inl (ValueError ''withdrawal address is in a cooling period'')
        else case create_hold now tenant wallet (wa_asset_network a) amount ''WITHDRAWAL''
                    (''withdrawal:'' @ idempotency_key) None None db of
          Inl e \<Rightarrow> Inl e
        | Inr (db1, h) \<Rightarrow>
          let w = \<lparr>um_id = next_id db1, created_at = now, updated_at = now,
                   wd_tenant = tenant, wd_wallet = wallet,
                   wd_asset_network = wa_asset_network a, wd_destination = wa_address a,
                   wd_amount_atomic = amount, wd_fee_atomic = 0, wd_state = ''REQUESTED'',
                   wd_hold = Some (um_id h), wd_blockchain_transaction = '''',
                   wd_idempotency_key = idempotency_key\<rparr>;
              body = JObj [(''withdrawal_id'', JStr (str_uuid (um_id w)))]
          in case insert_withdrawal w db1 of
               Inl e \<Rightarrow> Inl e
             | Inr db2 \<Rightarrow>
               let db3 = enqueue_outbox now tenant ''withdrawal'' (um_id w)
                           ''wallet.withdrawal.requested'' body db2;
                   db4 = complete_idempotency now rec ''withdrawal'' (um_id w) 202 body db3;
                   db5 = record_audit now tenant (Some (actor_id act)) ''withdrawal.requested''
                           ''withdrawal'' (um_id w) ''accepted'' '''' db4
               in Inr (db5, w))"

definition request_withdrawal ::
  "settings \<Rightarrow> (string \<Rightarrow> string) \<Rightarrow> timestamp \<Rightarrow> uuid \<Rightarrow> actor \<Rightarrow> uuid \<Rightarrow> uuid \<Rightarrow> int \<Rightarrow> string \<Rightarrow> json \<Rightarrow>
   wallet_db \<Rightarrow> (wallet_error, wallet_db \<times> withdrawal) res" where
  "request_withdrawal st sha now tenant act wallet withdrawal_address amount idempotency_key
     request_payload db =
     (if \<not> is_feature_enabled st ''real_wallet_withdrawals_enabled'' db
      then Inl (RealWalletFeatureDisabled ''real_wallet_withdrawals_enabled'')
      else if \<not> mfa_satisfied st act then Inl WithdrawalMFARequired
      else if amount \<le> 0 then Inl (ValueError ''withdrawal amount must be positive'')
      else case reserve_idempotency sha now tenant (actor_id act) ''/api/v1/withdrawals'' ''POST''
                  idempotency_key request_payload 86400 db of
        Inl e \<Rightarrow> Inl e
      | Inr (db1, rec, created) \<Rightarrow>
        (case (created, ir_resource_id rec) of
           (False, Some rid) \<Rightarrow>
             (case get_by_id rid (withdrawals db1) of Inl e \<Rightarrow> Inl e | Inr w \<Rightarrow> Inr (db1, w))
         | _ \<Rightarrow> perform_withdrawal now tenant act wallet withdrawal_address amount
                  idempotency_key rec db1))"

section \<open>Internal transfers\<close>

definition insert_transfer :: "internal_transfer \<Rightarrow> wallet_db \<Rightarrow> (wallet_error, wallet_db) res" where
  "insert_transfer t db =
     (if 0 < tr_amount_atomic t \<and>
         \<not> obj_exists (\<lambda>x. tr_tenant x = tr_tenant t \<and> tr_idempotency_key x = tr_idempotency_key t)
            (internal_transfers db)
      then Inr (db\<lparr>next_id := Suc (next_id db), internal_transfers := internal_transfers db @ [t]\<rparr>)
      else Inl (DbError (IntegrityError ''real_wallet_transfers'')))"

definition move_entries :: "uuid \<Rightarrow> uuid \<Rightarrow> uuid \<Rightarrow> int \<Rightarrow> entry_item list" where
  "move_entries debit_account credit_account ass amount =
     [\<lparr>ei_account = debit_account, ei_asset = ass, ei_direction = ''DEBIT'', ei_amount_atomic = amount\<rparr>,
      \<lparr>ei_account = credit_account, ei_asset = ass, ei_direction = ''CREDIT'', ei_amount_atomic = amount\<rparr>]"

text \<open>The part of \<open>create_internal_transfer\<close> after both balances were read and checked.\<close>

definition post_transfer ::
  "timestamp \<Rightarrow> uuid \<Rightarrow> actor \<Rightarrow> uuid \<Rightarrow> uuid \<Rightarrow> asset_network \<Rightarrow> int \<Rightarrow> string \<Rightarrow>
   idempotency_record \<Rightarrow> asset_balance \<Rightarrow> asset_balance \<Rightarrow>
   wallet_db \<Rightarrow> (wallet_error, wallet_db \<times> internal_transfer) res" where
  "post_transfer now tenant act source destination an amount idempotency_key rec sb dbal db =
     (case customer_account now tenant source (an_asset an) db of
        Inl e \<Rightarrow> Inl e
      | Inr (db1, source_account) \<Rightarrow>
      case customer_account now tenant destination (an_asset an) db1 of
        Inl e \<Rightarrow> Inl e
      | Inr (db2, destination_account) \<Rightarrow>
      let t = \<lparr>um_id = next_id db2, created_at = now, updated_at = now, tr_tenant = tenant,
               tr_source_wallet = source, tr_destination_wallet = destination,
               tr_asset_network = um_id an, tr_amount_atomic = amount,
               tr_state = ''COMPLETED'', tr_idempotency_key = idempotency_key\<rparr>;
          body = JObj [(''transfer_id'', JStr (str_uuid (um_id t)))]
      in case insert_transfer t db2 of
        Inl e \<Rightarrow> Inl e
      | Inr db3 \<Rightarrow>
      case post_transaction now tenant ''INTERNAL_TRANSFER'' (''transfer-ledger:'' @ idempotency_key)
             (move_entries (um_id source_account) (um_id destination_account) (an_asset an) amount)
             body db3 of
        Inl e \<Rightarrow> Inl e
      | Inr (db4, _) \<Rightarrow>
      case save_balance (sb\<lparr>posted_atomic := dec_sub (posted_atomic sb) amount, updated_at := now\<rparr>) db4 of
        Inl e \<Rightarrow> Inl e
      | Inr db5 \<Rightarrow>
      case save_balance (dbal\<lparr>posted_atomic := dec_add (posted_atomic dbal) amount, updated_at := now\<rparr>) db5 of
        Inl e \<Rightarrow> Inl e
      | Inr db6 \<Rightarrow>
      let db7 = enqueue_outbox now tenant ''transfer'' (um_id t) ''wallet.transfer.completed'' body db6;
          db8 = complete_idempotency now rec ''internal_transfer'' (um_id t) 201 body db7;
          db9 = record_audit now tenant (Some (actor_id act)) ''transfer.completed''
                  ''internal_transfer'' (um_id t) ''completed'' '''' db8
      in Inr (db9, t))"

text \<open>
  The dictionary comprehension over the locked balances keeps the last row per wallet; the
  unique constraint of the table leaves one.
\<close>

definition wallet_balance :: "uuid \<Rightarrow> uuid \<Rightarrow> wallet_db \<Rightarrow> asset_balance option" where
  "wallet_balance w an db = obj_first (balance_key w an) (rev (balances db))"

definition create_internal_transfer ::
  "settings \<Rightarrow> (string \<Rightarrow> string) \<Rightarrow> timestamp \<Rightarrow> uuid \<Rightarrow> actor \<Rightarrow> real_wallet \<Rightarrow> real_wallet \<Rightarrow>
   asset_network \<Rightarrow> int \<Rightarrow> string \<Rightarrow> json \<Rightarrow>
   wallet_db \<Rightarrow> (wallet_error, wallet_db \<times> internal_transfer) res" where
  "create_internal_transfer st sha now tenant act source_wallet destination_wallet an amount
     idempotency_key request_payload db =
     (if \<not> is_feature_enabled st ''real_wallet_internal_transfers_enabled'' db
      then Inl (RealWalletFeatureDisabled ''real_wallet_internal_transfers_enabled'')
      else if um_id source_wallet = um_id destination_wallet \<or> rw_tenant source_wallet \<noteq> tenant \<or>
              rw_tenant destination_wallet \<noteq> tenant
      then Inl (ValueError ''invalid transfer wallets'')
      else if amount \<le> 0 then Inl (ValueError ''transfer amount must be positive'')
      else case reserve_idempotency sha now tenant (actor_id act) ''/api/v1/transfers'' ''POST''
                  idempotency_key request_payload 86400 db of
        Inl e \<Rightarrow> Inl e
      | Inr (db1, rec, created) \<Rightarrow>
        (case (created, ir_resource_id rec) of
           (False, Some rid) \<Rightarrow>
             (case get_by_id rid (internal_transfers db1) of Inl e \<Rightarrow> Inl e | Inr t \<Rightarrow> Inr (db1, t))
         | _ \<Rightarrow>
           (case (wallet_balance (um_id source_wallet) (um_id an) db1,
                  wallet_balance (um_id destination_wallet) (um_id an) db1) of
              (Some sb, Some dbal) \<Rightarrow>
                if available_atomic sb < amount
                then Inl (ValueError ''insufficient available balance'')
                else post_transfer now tenant act (um_id source_wallet) (um_id destination_wallet)
                       an amount idempotency_key rec sb dbal db1
            | _ \<Rightarrow> Inl (ValueError ''insufficient available balance''))))"

section \<open>Deposits\<close>

definition deposit_key :: "uuid \<Rightarrow> string \<Rightarrow> nat option \<Rightarrow> deposit \<Rightarrow> bool" where
  "deposit_key an transaction_hash output_index d \<longleftrightarrow>
     dep_asset_network d = an \<and> dep_transaction_hash d = transaction_hash \<and>
     dep_output_index d = output_index"

definition record_detected_deposit ::
  "settings \<Rightarrow> timestamp \<Rightarrow> uuid \<Rightarrow> uuid \<Rightarrow> uuid \<Rightarrow> string \<Rightarrow> nat option \<Rightarrow> int \<Rightarrow> nat \<Rightarrow>
   wallet_db \<Rightarrow> (wallet_error, wallet_db \<times> deposit) res" where
  "record_detected_deposit st now tenant wallet asset_net transaction_hash output_index amount
     confirmations db =
     (if \<not> is_feature_enabled st ''real_wallet_deposits_enabled'' db
      then Inl (RealWalletFeatureDisabled ''real_wallet_deposits_enabled'')
      else if amount \<le> 0 then Inl (ValueError ''deposit amount must be positive'')
      else case obj_get (deposit_key asset_net transaction_hash output_index) (deposits db) of
        Inr d \<Rightarrow> Inr (db, d)
      | Inl DoesNotExist \<Rightarrow>
        (let d = \<lparr>um_id = next_id db, created_at = now, updated_at = now, dep_tenant = tenant,
                  dep_wallet = wallet, dep_asset_network = asset_net,
                  dep_transaction_hash = transaction_hash, dep_output_index = output_index,
                  dep_amount_atomic = amount,
                  dep_state = (if confirmations \<noteq> 0 then ''CONFIRMING'' else ''DETECTED''),
                  dep_confirmations = confirmations, dep_ledger_transaction = None\<rparr>;
             db1 = db\<lparr>next_id := Suc (next_id db), deposits := deposits db @ [d]\<rparr>;
             db2 = enqueue_outbox now tenant ''deposit'' (um_id d) ''wallet.deposit.detected''
                     (JObj [(''deposit_id'', JStr (str_uuid (um_id d)))]) db1;
             db3 = record_audit now tenant None ''deposit.detected'' ''deposit'' (um_id d)
                     ''accepted'' '''' db2
         in Inr (db3, d))
      | Inl e \<Rightarrow> Inl (DbError e))"

definition get_or_create_balance ::
  "timestamp \<Rightarrow> uuid \<Rightarrow> uuid \<Rightarrow> wallet_db \<Rightarrow> (wallet_error, wallet_db \<times> asset_balance) res" where
  "get_or_create_balance now wallet an db =
     (case obj_get (balance_key wallet an) (balances db) of
        Inr b \<Rightarrow> Inr (db, b)
      | Inl DoesNotExist \<Rightarrow>
          let b = \<lparr>um_id = next_id db, created_at = now, updated_at = now, bal_wallet = wallet,
                   bal_asset_network = an, posted_atomic = 0, pending_credit_atomic = 0,
                   held_atomic = 0, reserved_atomic = 0\<rparr>
          in Inr (db\<lparr>next_id := Suc (next_id db), balances := balances db @ [b]\<rparr>, b)
      | Inl e \<Rightarrow> Inl (DbError e))"

definition save_deposit :: "deposit \<Rightarrow> wallet_db \<Rightarrow> wallet_db" where
  "save_deposit d db = db\<lparr>deposits := upd_where (\<lambda>r. um_id r = um_id d) (\<lambda>_. d) (deposits db)\<rparr>"

text \<open>The part of \<open>credit_deposit\<close> after its guards.\<close>

definition apply_credit ::
  "timestamp \<Rightarrow> deposit \<Rightarrow> uuid \<Rightarrow> wallet_db \<Rightarrow> (wallet_error, wallet_db \<times> deposit) res" where
  "apply_credit now d ass db =
     (case get_or_create_balance now (dep_wallet d) (dep_asset_network d) db of
        Inl e \<Rightarrow> Inl e
      | Inr (db1, b) \<Rightarrow>
      case platform_account now (dep_tenant d) ass db1 of
        Inl e \<Rightarrow> Inl e
      | Inr (db2, platform) \<Rightarrow>
      case customer_account now (dep_tenant d) (dep_wallet d) ass db2 of
        Inl e \<Rightarrow> Inl e
      | Inr (db3, customer) \<Rightarrow>
      let body = JObj [(''deposit_id'', JStr (str_uuid (um_id d)))]
      in case post_transaction now (dep_tenant d) ''DEPOSIT_CREDIT''
             (''deposit-credit:'' @ str_uuid (um_id d))
             (move_entries (um_id platform) (um_id customer) ass (dep_amount_atomic d)) body db3 of
        Inl e \<Rightarrow> Inl e
      | Inr (db4, ledger_tx) \<Rightarrow>
      case save_balance (b\<lparr>posted_atomic := dec_add (posted_atomic b) (dep_amount_atomic d),
                           updated_at := now\<rparr>) db4 of
        Inl e \<Rightarrow> Inl e
      | Inr db5 \<Rightarrow>
      let d' = d\<lparr>dep_state := ''CREDITED'', dep_ledger_transaction := Some (um_id ledger_tx),
                 updated_at := now\<rparr>;
          db6 = save_deposit d' db5;
          db7 = enqueue_outbox now (dep_tenant d) ''deposit'' (um_id d) ''wallet.deposit.credited''
                  body db6;
          db8 = record_audit now (dep_tenant d) None ''deposit.credited'' ''deposit'' (um_id d)
                  ''completed'' '''' db7
      in Inr (db8, d'))"

definition credit_deposit ::
  "settings \<Rightarrow> timestamp \<Rightarrow> uuid \<Rightarrow> int \<Rightarrow> wallet_db \<Rightarrow> (wallet_error, wallet_db \<times> deposit) res" where
  "credit_deposit st now deposit_id required_confirmations db =
     (if \<not> is_feature_enabled st ''real_wallet_deposits_enabled'' db
      then Inl (RealWalletFeatureDisabled ''real_wallet_deposits_enabled'')
      else case get_by_id deposit_id (deposits db) of
        Inl e \<Rightarrow> Inl e
      | Inr d \<Rightarrow>
      case get_by_id (dep_asset_network d) (asset_networks db) of
        Inl e \<Rightarrow> Inl e
      | Inr an \<Rightarrow>
        if dep_state d = ''CREDITED'' then Inr (db, d)
        else if dep_state d \<in> {''REJECTED'', ''REVERSED'', ''REORGED''}
        then Inl (ValueError ''deposit cannot be credited'')
        else if int (dep_confirmations d) < required_confirmations
        then Inl (ValueError ''deposit confirmations are insufficient'')
        else apply_credit now d (an_asset an) db)"

section \<open>Withdrawal lifecycle\<close>

definition save_withdrawal :: "withdrawal \<Rightarrow> wallet_db \<Rightarrow> wallet_db" where
  "save_withdrawal w db =
     db\<lparr>withdrawals := upd_where (\<lambda>r. um_id r = um_id w) (\<lambda>_. w) (withdrawals db)\<rparr>"

definition withdrawal_body :: "withdrawal \<Rightarrow> json" where
  "withdrawal_body w = JObj [(''withdrawal_id'', JStr (str_uuid (um_id w)))]"

definition cancellable :: "string set" where
  "cancellable = {''REQUESTED'', ''USER_CONFIRMATION_REQUIRED'', ''COMPLIANCE_REVIEW'',
                  ''RISK_REVIEW'', ''MANUAL_REVIEW''}"

text \<open>\<open>if withdrawal.hold_id: release_hold(withdrawal.hold_id)\<close>.\<close>

definition release_withdrawal_hold ::
  "timestamp \<Rightarrow> withdrawal \<Rightarrow> wallet_db \<Rightarrow> (wallet_error, wallet_db) res" where
  "release_withdrawal_hold now w db =
     (case wd_hold w of
        None \<Rightarrow> Inr db
      | Some h \<Rightarrow> (case release_hold now h db of Inl e \<Rightarrow> Inl e | Inr (db1, _) \<Rightarrow> Inr db1))"

definition cancel_withdrawal ::
  "timestamp \<Rightarrow> uuid \<Rightarrow> uuid \<Rightarrow> wallet_db \<Rightarrow> (wallet_error, wallet_db \<times> withdrawal) res" where
  "cancel_withdrawal now withdrawal_id act db =
     (case get_by_id withdrawal_id (withdrawals db) of
        Inl e \<Rightarrow> Inl e
      | Inr w \<Rightarrow>
      case get_by_id (wd_wallet w) (wallets db) of
        Inl e \<Rightarrow> Inl e
      | Inr rw \<Rightarrow>
        if rw_owner rw \<noteq> act then Inl (ValueError ''withdrawal is not owned by actor'')
        else if wd_state w \<notin> cancellable then Inl (ValueError ''withdrawal is not cancellable'')
        else case release_withdrawal_hold now w db of
          Inl e \<Rightarrow> Inl e
        | Inr db1 \<Rightarrow>
          let w' = w\<lparr>wd_state := ''CANCELLED'', updated_at := now\<rparr>;
              db2 = save_withdrawal w' db1;
              db3 = enqueue_outbox now (wd_tenant w) ''withdrawal'' (um_id w)
                      ''wallet.withdrawal.cancelled'' (withdrawal_body w) db2;
              db4 = record_audit now (wd_tenant w) (Some act) ''withdrawal.cancelled''
                      ''withdrawal'' (um_id w) ''accepted'' '''' db3
          in Inr (db4, w'))"

text \<open>\<open>withdrawal.hold if withdrawal.hold_id else None\<close>.\<close>

definition withdrawal_hold :: "withdrawal \<Rightarrow> wallet_db \<Rightarrow> (wallet_error, balance_hold option) res" where
  "withdrawal_hold w db =
     (case wd_hold w of
        None \<Rightarrow> Inr None
      | Some h \<Rightarrow> (case get_by_id h (holds db) of Inl e \<Rightarrow> Inl e | Inr x \<Rightarrow> Inr (Some x)))"

text \<open>\<open>if hold and hold.state == "ACTIVE": release_hold(...)\<close>, and the same with capture.\<close>

definition settle_active_hold ::
  "timestamp \<Rightarrow> string \<Rightarrow> balance_hold option \<Rightarrow> wallet_db \<Rightarrow> (wallet_error, wallet_db) res" where
  "settle_active_hold now target ho db =
     (case ho of
        None \<Rightarrow> Inr db
      | Some h \<Rightarrow>
          if hold_state h = ''ACTIVE''
          then (case transition_hold now (um_id h) target db of Inl e \<Rightarrow> Inl e | Inr (db1, _) \<Rightarrow> Inr db1)
          else Inr db)"

definition fail_withdrawal ::
  "timestamp \<Rightarrow> uuid \<Rightarrow> string \<Rightarrow> wallet_db \<Rightarrow> (wallet_error, wallet_db \<times> withdrawal) res" where
  "fail_withdrawal now withdrawal_id reason db =
     (case get_by_id withdrawal_id (withdrawals db) of
        Inl e \<Rightarrow> Inl e
      | Inr w \<Rightarrow>
      case withdrawal_hold w db of
        Inl e \<Rightarrow> Inl e
      | Inr ho \<Rightarrow>
        if wd_state w \<in> {''COMPLETED'', ''CANCELLED''}
        then Inl (ValueError ''withdrawal cannot be failed'')
        else if wd_state w = ''FAILED'' then Inr (db, w)
        else case settle_active_hold now ''RELEASED'' ho db of
          Inl e \<Rightarrow> Inl e
        | Inr db1 \<Rightarrow>
          let w' = w\<lparr>wd_state := ''FAILED'', updated_at := now\<rparr>;
              db2 = save_withdrawal w' db1;
              db3 = enqueue_outbox now (wd_tenant w) ''withdrawal'' (um_id w)
                      ''wallet.withdrawal.failed''
                      (JObj [(''withdrawal_id'', JStr (str_uuid (um_id w))), (''reason'', JStr reason)]) db2;
              db4 = record_audit now (wd_tenant w) None ''withdrawal.failed''
                      ''withdrawal'' (um_id w) ''failed'' reason db3
          in Inr (db4, w'))"

text \<open>The part of \<open>complete_withdrawal\<close> after its guards.\<close>

definition apply_completion ::
  "timestamp \<Rightarrow> withdrawal \<Rightarrow> balance_hold option \<Rightarrow> uuid \<Rightarrow> string \<Rightarrow>
   wallet_db \<Rightarrow> (wallet_error, wallet_db \<times> withdrawal) res" where
  "apply_completion now w ho ass blockchain_transaction db =
     (case platform_account now (wd_tenant w) ass db of
        Inl e \<Rightarrow> Inl e
      | Inr (db1, platform) \<Rightarrow>
      case customer_account now (wd_tenant w) (wd_wallet w) ass db1 of
        Inl e \<Rightarrow> Inl e
      | Inr (db2, customer) \<Rightarrow>
      case post_transaction now (wd_tenant w) ''WITHDRAWAL_CAPTURE''
             (''withdrawal-capture:'' @ str_uuid (um_id w))
             (move_entries (um_id customer) (um_id platform) ass (wd_amount_atomic w))
             (JObj [(''withdrawal_id'', JStr (str_uuid (um_id w))),
                    (''blockchain_transaction'', JStr blockchain_transaction)]) db2 of
        Inl e \<Rightarrow> Inl e
      | Inr (db3, _) \<Rightarrow>
      case settle_active_hold now ''CAPTURED'' ho db3 of
        Inl e \<Rightarrow> Inl e
      | Inr db4 \<Rightarrow>
      let w' = w\<lparr>wd_state := ''COMPLETED'', wd_blockchain_transaction := blockchain_transaction,
                 updated_at := now\<rparr>;
          db5 = save_withdrawal w' db4;
          db6 = enqueue_outbox now (wd_tenant w) ''withdrawal'' (um_id w)
                  ''wallet.withdrawal.completed'' (withdrawal_body w) db5;
          db7 = record_audit now (wd_tenant w) None ''withdrawal.completed''
                  ''withdrawal'' (um_id w) ''completed'' '''' db6
      in Inr (db7, w'))"

definition complete_withdrawal ::
  "timestamp \<Rightarrow> uuid \<Rightarrow> string \<Rightarrow> wallet_db \<Rightarrow> (wallet_error, wallet_db \<times> withdrawal) res" where
  "complete_withdrawal now withdrawal_id blockchain_transaction db =
     (case get_by_id withdrawal_id (withdrawals db) of
        Inl e \<Rightarrow> Inl e
      | Inr w \<Rightarrow>
      case withdrawal_hold w db of
        Inl e \<Rightarrow> Inl e
      | Inr ho \<Rightarrow>
      case get_by_id (wd_asset_network w) (asset_networks db) of
        Inl e \<Rightarrow> Inl e
      | Inr an \<Rightarrow>
        if wd_state w = ''COMPLETED'' then Inr (db, w)
        else if wd_state w \<notin> {''SIGNED'', ''BROADCAST'', ''CONFIRMING''}
        then Inl (ValueError ''withdrawal is not ready for completion'')
        else apply_completion now w ho (an_asset an) blockchain_transaction db)"

section \<open>Withdrawal approval\<close>

definition approval_key :: "uuid \<Rightarrow> uuid \<Rightarrow> withdrawal_approval \<Rightarrow> bool" where
  "approval_key w approver a \<longleftrightarrow> ap_withdrawal a = w \<and> ap_approver a = approver"

definition approved_count :: "uuid \<Rightarrow> withdrawal_approval list \<Rightarrow> nat" where
  "approved_count w t = obj_count (\<lambda>a. ap_withdrawal a = w \<and> ap_decision a = ''APPROVED'') t"

definition approve_withdrawal ::
  "timestamp \<Rightarrow> uuid \<Rightarrow> uuid \<Rightarrow> string \<Rightarrow> string \<Rightarrow> wallet_db \<Rightarrow> (wallet_error, wallet_db \<times> withdrawal) res" where
  "approve_withdrawal now withdrawal_id approver decision reason db =
     (case get_by_id withdrawal_id (withdrawals db) of
        Inl e \<Rightarrow> Inl e
      | Inr w \<Rightarrow>
      case get_by_id (wd_wallet w) (wallets db) of
        Inl e \<Rightarrow> Inl e
      | Inr rw \<Rightarrow>
        if \<not> obj_exists (\<lambda>m. om_organization m = wd_tenant w \<and> om_user m = approver) (memberships db)
        then Inl (ValueError ''approver is not a tenant member'')
        else if rw_owner rw = approver
        then Inl (ValueError ''initiator cannot approve own withdrawal'')
        else if decision \<notin> {''APPROVED'', ''REJECTED''}
        then Inl (ValueError ''invalid approval decision'')
        else case obj_get (approval_key (um_id w) approver) (withdrawal_approvals db) of
          Inr _ \<Rightarrow> Inr (db, w)
        | Inl DoesNotExist \<Rightarrow>
          (let a = \<lparr>um_id = next_id db, created_at = now, updated_at = now,
                    ap_withdrawal = um_id w, ap_approver = approver, ap_decision = decision,
                    ap_reason = take 2000 reason\<rparr>;
               db1 = db\<lparr>next_id := Suc (next_id db),
                        withdrawal_approvals := withdrawal_approvals db @ [a]\<rparr>;
               state = (if decision = ''REJECTED'' then ''REJECTED''
                        else if 2 \<le> approved_count (um_id w) (withdrawal_approvals db1)
                        then ''APPROVED'' else wd_state w);
               w' = w\<lparr>wd_state := state, updated_at := now\<rparr>;
               db2 = save_withdrawal w' db1;
               db3 = record_audit now (wd_tenant w) (Some approver)
                       ''withdrawal.approval_recorded'' ''withdrawal'' (um_id w)
                       (if decision = ''APPROVED'' then ''approved'' else ''rejected'') '''' db2
           in Inr (db3, w'))
        | Inl e \<Rightarrow> Inl (DbError e))"

end
