(* ===== verification/Wallet_Invariant.thy ===== *)
theory Wallet_Invariant
  imports Wallet_Services
begin

text \<open>
  Solvency of the wallet: the invariant that ties each balance row to the holds placed on
  it, and its preservation by every operation of \<open>real_wallet/services.py\<close>.
\<close>

section \<open>The invariant\<close>

definition hold_sum :: "balance_hold list \<Rightarrow> uuid \<Rightarrow> uuid \<Rightarrow> int" where
  "hold_sum hs w an =
     sum_where (\<lambda>h. hold_state h = ''ACTIVE'' \<and> hold_wallet h = w \<and> hold_asset_network h = an)
       hold_amount_atomic hs"

definition balance_ok :: "balance_hold list \<Rightarrow> asset_balance \<Rightarrow> bool" where
  "balance_ok hs b \<longleftrightarrow>
     held_atomic b = hold_sum hs (bal_wallet b) (bal_asset_network b) \<and>
     0 \<le> pending_credit_atomic b \<and> 0 \<le> reserved_atomic b \<and>
     held_atomic b + reserved_atomic b \<le> posted_atomic b \<and> posted_atomic b < dec_limit"

abbreviation bal_key :: "asset_balance \<Rightarrow> uuid \<times> uuid" where
  "bal_key b \<equiv> (bal_wallet b, bal_asset_network b)"

definition hold_ok :: "uuid \<Rightarrow> asset_balance list \<Rightarrow> balance_hold \<Rightarrow> bool" where
  "hold_ok n bs h \<longleftrightarrow>
     um_id h < n \<and> 0 < hold_amount_atomic h \<and>
     (hold_state h = ''ACTIVE'' \<longrightarrow> (hold_wallet h, hold_asset_network h) \<in> set (map bal_key bs))"

definition funds_ok :: "uuid \<Rightarrow> asset_balance list \<Rightarrow> balance_hold list \<Rightarrow> bool" where
  "funds_ok n bs hs \<longleftrightarrow>
     distinct (map um_id bs) \<and> distinct (map bal_key bs) \<and>
     (\<forall>b \<in> set bs. um_id b < n \<and> balance_ok hs b) \<and>
     distinct (map um_id hs) \<and> (\<forall>h \<in> set hs. hold_ok n bs h)"

definition solvent :: "wallet_db \<Rightarrow> bool" where
  "solvent db \<longleftrightarrow> funds_ok (next_id db) (balances db) (holds db)"

section \<open>Arithmetic of a sound balance\<close>

lemma hold_sum_nonneg:
  "(\<And>h. h \<in> set hs \<Longrightarrow> 0 < hold_amount_atomic h) \<Longrightarrow> 0 \<le> hold_sum hs w an"
  unfolding hold_sum_def by (rule sum_where_nonneg) (auto intro: less_imp_le)

lemma funds_ok_nonneg:
  "funds_ok n bs hs \<Longrightarrow> b \<in> set bs \<Longrightarrow> balance_ok hs b \<and> 0 \<le> held_atomic b"
  unfolding funds_ok_def by (auto simp: balance_ok_def hold_ok_def intro!: hold_sum_nonneg)

lemma available_exact:
  assumes "balance_ok hs b" "0 \<le> held_atomic b"
  shows "available_atomic b = posted_atomic b - held_atomic b - reserved_atomic b"
proof -
  from assms have "dec_sub (posted_atomic b) (held_atomic b) = posted_atomic b - held_atomic b"
    by (intro dec_sub_exact) (auto simp: balance_ok_def)
  with assms show ?thesis
    by (simp add: available_atomic_def dec_sub_exact balance_ok_def)
qed

lemma funds_ok_mono: "funds_ok n bs hs \<Longrightarrow> n \<le> m \<Longrightarrow> funds_ok m bs hs"
  by (auto simp: funds_ok_def hold_ok_def)

lemma active_hold_le:
  assumes "funds_ok n bs hs" "b \<in> set bs" "h \<in> set hs" "hold_state h = ''ACTIVE''"
    "balance_key (hold_wallet h) (hold_asset_network h) b"
  shows "hold_amount_atomic h \<le> held_atomic b"
proof -
  from assms have "held_atomic b = hold_sum hs (hold_wallet h) (hold_asset_network h)"
    by (auto simp: funds_ok_def balance_ok_def balance_key_def)
  also have "hold_amount_atomic h \<le> hold_sum hs (hold_wallet h) (hold_asset_network h)"
    unfolding hold_sum_def using assms
    by (intro sum_where_member_le) (auto simp: funds_ok_def hold_ok_def intro: less_imp_le)
  ultimately show ?thesis by simp
qed

section \<open>Changing one balance row\<close>

lemma funds_ok_put:
  assumes ok: "funds_ok n bs hs" and b: "b \<in> set bs"
    and same: "um_id b' = um_id b" "bal_key b' = bal_key b"
    and new: "balance_ok hs' b'"
    and rest: "\<And>c. c \<in> set bs \<Longrightarrow> bal_key c \<noteq> bal_key b \<Longrightarrow> balance_ok hs c \<Longrightarrow> balance_ok hs' c"
    and hs': "distinct (map um_id hs')" "\<And>h. h \<in> set hs' \<Longrightarrow> hold_ok m bs h"
    and m: "n \<le> m"
  shows "funds_ok m (upd_where (\<lambda>r. um_id r = um_id b) (\<lambda>_. b') bs) hs'"
proof -
  from ok have d: "distinct (map um_id bs)" "distinct (map bal_key bs)" by (auto simp: funds_ok_def)
  have uniq: "c = b" if "c \<in> set bs" "um_id c = um_id b" for c
    using key_unique [OF d(1) that(1) b that(2)] .
  have key: "c = b" if "c \<in> set bs" "bal_key c = bal_key b" for c
    using key_unique [OF d(2) that(1) b that(2)] .
  have keys: "map bal_key (upd_where (\<lambda>r. um_id r = um_id b) (\<lambda>_. b') bs) = map bal_key bs"
    using same(2) uniq by (intro map_upd_where) auto
  have "distinct (map um_id (upd_where (\<lambda>r. um_id r = um_id b) (\<lambda>_. b') bs))"
    using d(1) same(1) by (subst map_upd_where) auto
  moreover have "distinct (map bal_key (upd_where (\<lambda>r. um_id r = um_id b) (\<lambda>_. b') bs))"
    using d(2) by (simp only: keys)
  moreover have "um_id c < m \<and> balance_ok hs' c"
    if "c \<in> set (upd_where (\<lambda>r. um_id r = um_id b) (\<lambda>_. b') bs)" for c
    using that ok b same new rest key m
    by (auto simp: set_upd_where funds_ok_def split: if_splits)
  ultimately show ?thesis
    using hs' by (simp add: funds_ok_def hold_ok_def keys del: set_map)
qed

text \<open>A change of the posted amount alone.\<close>

lemma funds_ok_repost:
  assumes "funds_ok n bs hs" "b \<in> set bs"
    "held_atomic b + reserved_atomic b \<le> p" "p < dec_limit"
  shows "funds_ok n (upd_where (\<lambda>r. um_id r = um_id b)
           (\<lambda>_. b\<lparr>posted_atomic := p, updated_at := now\<rparr>) bs) hs"
  using assms
  by (intro funds_ok_put [where hs = hs and n = n]) (auto simp: funds_ok_def balance_ok_def hold_ok_def)

section \<open>Holds\<close>

lemma hold_sum_snoc:
  "hold_sum (hs @ [h]) w an = hold_sum hs w an +
     (if hold_state h = ''ACTIVE'' \<and> hold_wallet h = w \<and> hold_asset_network h = an
      then hold_amount_atomic h else 0)"
  by (simp add: hold_sum_def)

lemma hold_sum_close:
  assumes "distinct (map um_id hs)" "h \<in> set hs" "hold_state h = ''ACTIVE''" "target \<noteq> ''ACTIVE''"
  shows "hold_sum (upd_where (\<lambda>x. um_id x = um_id h)
                     (\<lambda>_. h\<lparr>hold_state := target, updated_at := now\<rparr>) hs) w an =
         hold_sum hs w an -
           (if hold_wallet h = w \<and> hold_asset_network h = an then hold_amount_atomic h else 0)"
  using assms by (simp add: hold_sum_def sum_where_upd_row)

lemma create_hold_fresh:
  assumes "create_hold now tenant w an amount reason key ref ex db = Inr (db', h)"
    "obj_first (hold_key tenant key) (holds db) = None"
  obtains b where "b \<in> set (balances db)" "bal_key b = (w, an)" "0 < amount"
    "amount \<le> available_atomic b"
    "db' = db\<lparr>balances := upd_where (\<lambda>r. um_id r = um_id b)
              (\<lambda>_. b\<lparr>held_atomic := dec_add (held_atomic b) amount, updated_at := now\<rparr>) (balances db),
            next_id := Suc (next_id db), holds := holds db @ [h]\<rparr>"
    "um_id h = next_id db" "hold_state h = ''ACTIVE''" "hold_wallet h = w"
    "hold_asset_network h = an" "hold_amount_atomic h = amount"
    "hold_tenant h = tenant" "hold_idempotency_key h = key"
proof -
  from assms obtain b where "obj_get (balance_key w an) (balances db) = Inr b" "0 < amount"
      "amount \<le> available_atomic b" and
    res: "(db', h) = (db\<lparr>balances := upd_where (\<lambda>r. um_id r = um_id b)
              (\<lambda>_. b\<lparr>held_atomic := dec_add (held_atomic b) amount, updated_at := now\<rparr>) (balances db),
            next_id := Suc (next_id db), holds := holds db @ [h]\<rparr>,
            \<lparr>um_id = next_id db, created_at = now, updated_at = now,
             hold_tenant = tenant, hold_wallet = w, hold_asset_network = an,
             hold_amount_atomic = amount, hold_state = ''ACTIVE'', hold_reason = reason,
             hold_reference_id = ref, hold_idempotency_key = key, hold_expires_at = ex\<rparr>)"
    unfolding create_hold_def save_balance_def
    by (fastforce simp: res_simps Let_def not_le not_less)
  then show thesis
    using that [of b] by (auto simp: balance_key_def dest!: obj_get_Inr)
qed

lemma create_hold_replay:
  "obj_first (hold_key tenant key) (holds db) = Some h \<Longrightarrow> 0 < amount \<Longrightarrow>
   create_hold now tenant w an amount reason key ref ex db = Inr (db, h)"
  by (simp add: create_hold_def)

lemma create_hold_solvent:
  assumes "create_hold now tenant w an amount reason key ref ex db = Inr (db', h)" "solvent db"
  shows "solvent db'"
proof (cases "obj_first (hold_key tenant key) (holds db)")
  case (Some h0)
  with assms show ?thesis by (auto simp: create_hold_def split: if_splits)
next
  case None
  obtain b where b:
    "b \<in> set (balances db)" "bal_key b = (w, an)" "0 < amount" "amount \<le> available_atomic b"
    "db' = db\<lparr>balances := upd_where (\<lambda>r. um_id r = um_id b)
              (\<lambda>_. b\<lparr>held_atomic := dec_add (held_atomic b) amount, updated_at := now\<rparr>) (balances db),
            next_id := Suc (next_id db), holds := holds db @ [h]\<rparr>"
    "um_id h = next_id db" "hold_state h = ''ACTIVE''" "hold_wallet h = w"
    "hold_asset_network h = an" "hold_amount_atomic h = amount"
    "hold_tenant h = tenant" "hold_idempotency_key h = key"
    by (rule create_hold_fresh [OF assms(1) None])
  from assms(2) have ok: "funds_ok (next_id db) (balances db) (holds db)" by (simp add: solvent_def)
  with b(1) have bok: "balance_ok (holds db) b" "0 \<le> held_atomic b" by (auto dest: funds_ok_nonneg)
  with b(4) have room: "held_atomic b + amount + reserved_atomic b \<le> posted_atomic b"
    by (simp add: available_exact)
  with bok b(3) have add: "dec_add (held_atomic b) amount = held_atomic b + amount"
    by (intro dec_add_exact) (auto simp: balance_ok_def)
  show ?thesis
    unfolding solvent_def b(5)
  proof (simp, rule funds_ok_put [OF ok b(1)])
    show "balance_ok (holds db @ [h]) (b\<lparr>held_atomic := dec_add (held_atomic b) amount, updated_at := now\<rparr>)"
      unfolding add using bok b(2,7-10) room by (auto simp: balance_ok_def hold_sum_snoc)
    show "balance_ok (holds db @ [h]) c" if "bal_key c \<noteq> bal_key b" "balance_ok (holds db) c" for c
      using that b(2,8,9) by (auto simp: balance_ok_def hold_sum_snoc)
  qed (use ok b in \<open>force simp: funds_ok_def hold_ok_def less_Suc_eq\<close>)+
qed

lemma transition_hold_cases:
  assumes "transition_hold now hold_id target db = Inr (db', h')"
  obtains h b p where "h \<in> set (holds db)" "um_id h = hold_id" "hold_state h = ''ACTIVE''"
    "b \<in> set (balances db)" "balance_key (hold_wallet h) (hold_asset_network h) b"
    "p = (if target = ''CAPTURED'' then dec_sub (posted_atomic b) (hold_amount_atomic h)
          else posted_atomic b)"
    "h' = h\<lparr>hold_state := target, updated_at := now\<rparr>"
    "db' = db\<lparr>balances := upd_where (\<lambda>r. um_id r = um_id b)
               (\<lambda>_. b\<lparr>held_atomic := dec_sub (held_atomic b) (hold_amount_atomic h),
                     posted_atomic := p, updated_at := now\<rparr>) (balances db),
             holds := upd_where (\<lambda>x. um_id x = um_id h) (\<lambda>_. h') (holds db)\<rparr>"
proof -
  from assms obtain h b where g: "obj_get (\<lambda>r. um_id r = hold_id) (holds db) = Inr h"
      "obj_get (balance_key (hold_wallet h) (hold_asset_network h)) (balances db) = Inr b" and
    act: "hold_state h = ''ACTIVE''" and
    res: "(db', h') = (db\<lparr>balances := upd_where (\<lambda>r. um_id r = um_id b)
               (\<lambda>_. b\<lparr>held_atomic := dec_sub (held_atomic b) (hold_amount_atomic h),
                     posted_atomic := (if target = ''CAPTURED''
                         then dec_sub (posted_atomic b) (hold_amount_atomic h) else posted_atomic b),
                     updated_at := now\<rparr>) (balances db),
             holds := upd_where (\<lambda>x. um_id x = um_id h) (\<lambda>_. h') (holds db)\<rparr>,
             h\<lparr>hold_state := target, updated_at := now\<rparr>)"
    unfolding transition_hold_def save_balance_def
    by (fastforce simp: res_simps Let_def)
  then show thesis
    using that [of h b] by (auto dest!: obj_get_Inr)
qed

lemma transition_hold_solvent:
  assumes "transition_hold now hold_id target db = Inr (db', h')" "solvent db" "target \<noteq> ''ACTIVE''"
  shows "solvent db'"
proof -
  obtain h b p where h:
    "h \<in> set (holds db)" "um_id h = hold_id" "hold_state h = ''ACTIVE''"
    "b \<in> set (balances db)" "balance_key (hold_wallet h) (hold_asset_network h) b"
    "p = (if target = ''CAPTURED'' then dec_sub (posted_atomic b) (hold_amount_atomic h)
          else posted_atomic b)"
    "h' = h\<lparr>hold_state := target, updated_at := now\<rparr>"
    "db' = db\<lparr>balances := upd_where (\<lambda>r. um_id r = um_id b)
               (\<lambda>_. b\<lparr>held_atomic := dec_sub (held_atomic b) (hold_amount_atomic h),
                     posted_atomic := p, updated_at := now\<rparr>) (balances db),
             holds := upd_where (\<lambda>x. um_id x = um_id h) (\<lambda>_. h') (holds db)\<rparr>"
    by (rule transition_hold_cases [OF assms(1)])
  from assms(2) have ok: "funds_ok (next_id db) (balances db) (holds db)" by (simp add: solvent_def)
  have le: "hold_amount_atomic h \<le> held_atomic b" "0 < hold_amount_atomic h"
    using active_hold_le [OF ok h(4,1,3,5)] ok h(1) by (auto simp: funds_ok_def hold_ok_def)
  from ok h(4) have bok: "balance_ok (holds db) b" by (simp add: funds_ok_nonneg)
  have ex: "dec_sub (held_atomic b) (hold_amount_atomic h) = held_atomic b - hold_amount_atomic h"
    "dec_sub (posted_atomic b) (hold_amount_atomic h) = posted_atomic b - hold_amount_atomic h"
    using le bok by (auto simp: balance_ok_def intro!: dec_sub_exact)
  have ids: "distinct (map um_id (holds db))" using ok by (simp add: funds_ok_def)
  note close = hold_sum_close [OF ids h(1,3) assms(3)]
  show ?thesis
    unfolding solvent_def h(8)
  proof (simp, rule funds_ok_put [OF ok h(4)])
    let ?hs = "upd_where (\<lambda>x. um_id x = um_id h) (\<lambda>_. h') (holds db)"
    show "balance_ok ?hs (b\<lparr>held_atomic := dec_sub (held_atomic b) (hold_amount_atomic h),
                     posted_atomic := p, updated_at := now\<rparr>)"
      unfolding h(7) ex using bok le h(5,6)
      by (cases "target = ''CAPTURED''") (auto simp: balance_ok_def balance_key_def hold_sum_close [OF ids h(1,3)] close ex)
    show "balance_ok ?hs c" if "bal_key c \<noteq> bal_key b" "balance_ok (holds db) c" for c
      using that h(5) unfolding h(7) by (auto simp: balance_ok_def balance_key_def close)
    show "distinct (map um_id ?hs)"
      using ids by (subst map_upd_where) (auto simp: h(7))
  qed (use ok h(1,7) assms(3) in \<open>auto simp: funds_ok_def hold_ok_def set_upd_where split: if_splits\<close>)
qed

section \<open>Frames: operations that leave balances and holds alone\<close>

named_theorems frame \<open>tables an operation does not touch\<close>

lemma enqueue_outbox_frame [frame]:
  "balances (enqueue_outbox now t at ai et p db) = balances db"
  "holds (enqueue_outbox now t at ai et p db) = holds db"
  "next_id (enqueue_outbox now t at ai et p db) = Suc (next_id db)"
  "ledger_entries (enqueue_outbox now t at ai et p db) = ledger_entries db"
  "ledger_accounts (enqueue_outbox now t at ai et p db) = ledger_accounts db"
  "ledger_transactions (enqueue_outbox now t at ai et p db) = ledger_transactions db"
  "deposits (enqueue_outbox now t at ai et p db) = deposits db"
  "withdrawals (enqueue_outbox now t at ai et p db) = withdrawals db"
  "idempotency_records (enqueue_outbox now t at ai et p db) = idempotency_records db"
  "internal_transfers (enqueue_outbox now t at ai et p db) = internal_transfers db"
  "asset_networks (enqueue_outbox now t at ai et p db) = asset_networks db"
  "feature_flags (enqueue_outbox now t at ai et p db) = feature_flags db"
  by (simp_all add: enqueue_outbox_def)

lemma record_audit_frame [frame]:
  "balances (record_audit now t a ac rt ri oc re db) = balances db"
  "holds (record_audit now t a ac rt ri oc re db) = holds db"
  "next_id (record_audit now t a ac rt ri oc re db) = Suc (next_id db)"
  "ledger_entries (record_audit now t a ac rt ri oc re db) = ledger_entries db"
  "ledger_accounts (record_audit now t a ac rt ri oc re db) = ledger_accounts db"
  "ledger_transactions (record_audit now t a ac rt ri oc re db) = ledger_transactions db"
  "deposits (record_audit now t a ac rt ri oc re db) = deposits db"
  "withdrawals (record_audit now t a ac rt ri oc re db) = withdrawals db"
  "idempotency_records (record_audit now t a ac rt ri oc re db) = idempotency_records db"
  "internal_transfers (record_audit now t a ac rt ri oc re db) = internal_transfers db"
  "asset_networks (record_audit now t a ac rt ri oc re db) = asset_networks db"
  "feature_flags (record_audit now t a ac rt ri oc re db) = feature_flags db"
  by (simp_all add: record_audit_def)

lemma complete_idempotency_frame [frame]:
  "balances (complete_idempotency now r rt ri s b db) = balances db"
  "holds (complete_idempotency now r rt ri s b db) = holds db"
  "next_id (complete_idempotency now r rt ri s b db) = next_id db"
  "ledger_entries (complete_idempotency now r rt ri s b db) = ledger_entries db"
  "ledger_accounts (complete_idempotency now r rt ri s b db) = ledger_accounts db"
  "ledger_transactions (complete_idempotency now r rt ri s b db) = ledger_transactions db"
  "deposits (complete_idempotency now r rt ri s b db) = deposits db"
  "withdrawals (complete_idempotency now r rt ri s b db) = withdrawals db"
  "internal_transfers (complete_idempotency now r rt ri s b db) = internal_transfers db"
  "asset_networks (complete_idempotency now r rt ri s b db) = asset_networks db"
  "feature_flags (complete_idempotency now r rt ri s b db) = feature_flags db"
  by (simp_all add: complete_idempotency_def)

lemma save_withdrawal_frame [frame]:
  "balances (save_withdrawal w db) = balances db"
  "holds (save_withdrawal w db) = holds db"
  "next_id (save_withdrawal w db) = next_id db"
  "ledger_entries (save_withdrawal w db) = ledger_entries db"
  "ledger_accounts (save_withdrawal w db) = ledger_accounts db"
  "ledger_transactions (save_withdrawal w db) = ledger_transactions db"
  "asset_networks (save_withdrawal w db) = asset_networks db"
  by (simp_all add: save_withdrawal_def)

lemma save_deposit_frame [frame]:
  "balances (save_deposit d db) = balances db"
  "holds (save_deposit d db) = holds db"
  "next_id (save_deposit d db) = next_id db"
  "ledger_entries (save_deposit d db) = ledger_entries db"
  "ledger_accounts (save_deposit d db) = ledger_accounts db"
  "ledger_transactions (save_deposit d db) = ledger_transactions db"
  "asset_networks (save_deposit d db) = asset_networks db"
  by (simp_all add: save_deposit_def)

lemma bulk_create_entries_frame [frame]:
  "balances (bulk_create_entries now tx is db) = balances db"
  "holds (bulk_create_entries now tx is db) = holds db"
  "next_id (bulk_create_entries now tx is db) = next_id db + length is"
  "ledger_accounts (bulk_create_entries now tx is db) = ledger_accounts db"
  "ledger_transactions (bulk_create_entries now tx is db) = ledger_transactions db"
  "asset_networks (bulk_create_entries now tx is db) = asset_networks db"
  "deposits (bulk_create_entries now tx is db) = deposits db"
  "withdrawals (bulk_create_entries now tx is db) = withdrawals db"
  by (induction "is" arbitrary: db) simp_all

text \<open>\<open>keeps_funds db db'\<close>: no balance or hold changed, and no identifier was taken back.\<close>

definition keeps_funds :: "wallet_db \<Rightarrow> wallet_db \<Rightarrow> bool" where
  "keeps_funds db db' \<longleftrightarrow>
     balances db' = balances db \<and> holds db' = holds db \<and> next_id db \<le> next_id db'"

lemma keeps_funds_refl [simp, intro]: "keeps_funds db db"
  by (simp add: keeps_funds_def)

lemma keeps_funds_trans [trans]: "keeps_funds a b \<Longrightarrow> keeps_funds b c \<Longrightarrow> keeps_funds a c"
  by (auto simp: keeps_funds_def)

lemma keeps_funds_solvent: "keeps_funds db db' \<Longrightarrow> solvent db \<Longrightarrow> solvent db'"
  by (auto simp: keeps_funds_def solvent_def intro: funds_ok_mono)

lemma reserve_idempotency_keeps:
  "reserve_idempotency sha now t a e m k p ttl db = Inr (db', r, c) \<Longrightarrow> keeps_funds db db'"
  by (auto simp: reserve_idempotency_def keeps_funds_def Let_def split: option.splits if_splits)

lemma get_or_create_account_keeps:
  "get_or_create_account now t ot oi a c aty ns db = Inr (db', acc) \<Longrightarrow> keeps_funds db db'"
  by (auto simp: get_or_create_account_def keeps_funds_def Let_def split: sum.splits db_error.splits)

lemma insert_withdrawal_keeps: "insert_withdrawal w db = Inr db' \<Longrightarrow> keeps_funds db db'"
  by (auto simp: insert_withdrawal_def keeps_funds_def split: if_splits)

lemma insert_transfer_keeps: "insert_transfer t db = Inr db' \<Longrightarrow> keeps_funds db db'"
  by (auto simp: insert_transfer_def keeps_funds_def split: if_splits)

lemma post_transaction_keeps:
  "post_transaction now t ty k es md db = Inr (db', tx) \<Longrightarrow> keeps_funds db db'"
  by (auto simp: post_transaction_def keeps_funds_def Let_def frame
      split: sum.splits list.splits option.splits if_splits)

lemma record_detected_deposit_keeps:
  "record_detected_deposit st now t w an h oi amt c db = Inr (db', d) \<Longrightarrow> keeps_funds db db'"
  by (auto simp: record_detected_deposit_def keeps_funds_def Let_def frame
      split: sum.splits db_error.splits if_splits)

lemma approve_withdrawal_keeps:
  "approve_withdrawal now wid ap dec re db = Inr (db', w) \<Longrightarrow> keeps_funds db db'"
  by (auto simp: approve_withdrawal_def keeps_funds_def Let_def frame
      split: sum.splits db_error.splits if_splits)

end
