(* ===== verification/Wallet_Safety.thy ===== *)
theory Wallet_Safety
  imports Wallet_Invariant
begin

text \<open>
  Solvency of every wallet operation and of every reachable state, and the behaviour of
  each operation on balances: conservation of an internal transfer, single credit of a
  deposit, capture of a completed withdrawal.
\<close>

section \<open>Solvency of the operations\<close>

lemma settle_active_hold_solvent:
  "settle_active_hold now target ho db = Inr db' \<Longrightarrow> solvent db \<Longrightarrow> target \<noteq> ''ACTIVE'' \<Longrightarrow> solvent db'"
  by (auto simp: settle_active_hold_def res_simps split: option.splits if_splits
      intro: transition_hold_solvent)

lemma release_withdrawal_hold_solvent:
  "release_withdrawal_hold now w db = Inr db' \<Longrightarrow> solvent db \<Longrightarrow> solvent db'"
  by (auto simp: release_withdrawal_hold_def release_hold_def res_simps split: option.splits
      intro: transition_hold_solvent)

lemma perform_withdrawal_cases:
  assumes "perform_withdrawal now tenant act wallet addr amount key rec db = Inr (db', w)"
  obtains a db1 h db2 where
    "obj_first (usable_address addr tenant wallet) (withdrawal_addresses db) = Some a"
    "\<And>c. wa_cooling_until a = Some c \<Longrightarrow> c \<le> now"
    "create_hold now tenant wallet (wa_asset_network a) amount ''WITHDRAWAL''
       (''withdrawal:'' @ key) None None db = Inr (db1, h)"
    "insert_withdrawal w db1 = Inr db2" "um_id w = next_id db1" "wd_tenant w = tenant"
    "wd_wallet w = wallet" "wd_asset_network w = wa_asset_network a" "wd_amount_atomic w = amount"
    "wd_state w = ''REQUESTED''" "wd_hold w = Some (um_id h)" "wd_destination w = wa_address a"
    "wd_idempotency_key w = key"
    "db' = record_audit now tenant (Some (actor_id act)) ''withdrawal.requested'' ''withdrawal'' (um_id w)
             ''accepted'' [] (complete_idempotency now rec ''withdrawal'' (um_id w) 202 (withdrawal_body w)
               (enqueue_outbox now tenant ''withdrawal'' (um_id w) ''wallet.withdrawal.requested''
                 (withdrawal_body w) db2))"
proof -
  from assms obtain a where a:
    "obj_first (usable_address addr tenant wallet) (withdrawal_addresses db) = Some a"
    by (auto simp: perform_withdrawal_def split: option.splits)
  note r = assms [unfolded perform_withdrawal_def a option.case Let_def res_simps split_paired_Ex
      prod.case]
  from r obtain db1 h where h: "create_hold now tenant wallet (wa_asset_network a) amount ''WITHDRAWAL''
       (''withdrawal:'' @ key) None None db = Inr (db1, h)" by blast
  show thesis
    using r h by (elim conjE exE) (rule that [OF a _ h], auto simp: withdrawal_body_def split: option.splits)
qed

lemma perform_withdrawal_solvent:
  assumes "perform_withdrawal now tenant act wallet addr amount key rec db = Inr (db', w)" "solvent db"
  shows "solvent db'"
  using assms(1)
proof (cases rule: perform_withdrawal_cases)
  case (1 a db1 h db2)
  from create_hold_solvent [OF 1(3) assms(2)] have "solvent db1" .
  moreover have "keeps_funds db1 db2" using 1(4) by (rule insert_withdrawal_keeps)
  moreover have "keeps_funds db2 db'" unfolding 1(14) by (simp add: keeps_funds_def frame)
  ultimately show ?thesis by (blast intro: keeps_funds_solvent)
qed

lemma request_withdrawal_cases:
  assumes "request_withdrawal st sha now tenant act wallet addr amount key payload db = Inr (db', w)"
  obtains
    (replay) rec rid where
      "reserve_idempotency sha now tenant (actor_id act) ''/api/v1/withdrawals'' ''POST'' key payload 86400 db
         = Inr (db', rec, False)" "ir_resource_id rec = Some rid" "w \<in> set (withdrawals db')" "um_id w = rid"
  | (fresh) db1 rec c where "is_feature_enabled st ''real_wallet_withdrawals_enabled'' db"
      "mfa_satisfied st act" "0 < amount"
      "reserve_idempotency sha now tenant (actor_id act) ''/api/v1/withdrawals'' ''POST'' key payload 86400 db
         = Inr (db1, rec, c)" "c \<or> ir_resource_id rec = None"
      "perform_withdrawal now tenant act wallet addr amount key rec db1 = Inr (db', w)"
proof -
  from assms obtain db1 rec c where rd:
    "reserve_idempotency sha now tenant (actor_id act) ''/api/v1/withdrawals'' ''POST'' key payload 86400 db
         = Inr (db1, rec, c)" and
    g: "is_feature_enabled st ''real_wallet_withdrawals_enabled'' db" "mfa_satisfied st act" "0 < amount"
    by (auto simp: request_withdrawal_def res_simps not_le)
  show thesis
  proof (cases "c \<or> ir_resource_id rec = None")
    case True
    with assms rd g have "perform_withdrawal now tenant act wallet addr amount key rec db1 = Inr (db', w)"
      by (auto simp: request_withdrawal_def split: bool.splits option.splits)
    with fresh g rd True show thesis by blast
  next
    case False
    with assms rd g obtain rid where "ir_resource_id rec = Some rid"
      "obj_get (\<lambda>r. um_id r = rid) (withdrawals db1) = Inr w" "db1 = db'"
      by (auto simp: request_withdrawal_def res_simps)
    with replay rd False show thesis by (auto dest: obj_get_Inr)
  qed
qed

lemma request_withdrawal_solvent:
  assumes "request_withdrawal st sha now tenant act wallet addr amount key payload db = Inr (db', w)"
    "solvent db"
  shows "solvent db'"
  using assms(1)
proof (cases rule: request_withdrawal_cases)
  case replay
  with assms(2) show ?thesis by (blast intro: keeps_funds_solvent reserve_idempotency_keeps)
next
  case fresh
  with assms(2) show ?thesis
    by (blast intro: keeps_funds_solvent reserve_idempotency_keeps perform_withdrawal_solvent)
qed

lemma cancel_withdrawal_solvent:
  assumes "cancel_withdrawal now wid act db = Inr (db', w)" "solvent db"
  shows "solvent db'"
proof -
  from assms(1) obtain w0 db1 where "release_withdrawal_hold now w0 db = Inr db1" "keeps_funds db1 db'"
    by (auto simp: cancel_withdrawal_def res_simps Let_def keeps_funds_def frame)
  with assms(2) show ?thesis by (blast intro: keeps_funds_solvent release_withdrawal_hold_solvent)
qed

lemma fail_withdrawal_solvent:
  assumes "fail_withdrawal now wid reason db = Inr (db', w)" "solvent db"
  shows "solvent db'"
proof -
  from assms(1) consider "db' = db"
    | ho db1 where "settle_active_hold now ''RELEASED'' ho db = Inr db1" "keeps_funds db1 db'"
    by (auto simp: fail_withdrawal_def res_simps Let_def keeps_funds_def frame split: if_splits)
  then show ?thesis
    using assms(2) by cases (auto intro: keeps_funds_solvent settle_active_hold_solvent)
qed

lemma apply_completion_cases:
  assumes "apply_completion now w ho ass chain db = Inr (db', w')"
  obtains db1 pa db2 ca db3 tx db4 where
    "platform_account now (wd_tenant w) ass db = Inr (db1, pa)"
    "customer_account now (wd_tenant w) (wd_wallet w) ass db1 = Inr (db2, ca)"
    "post_transaction now (wd_tenant w) ''WITHDRAWAL_CAPTURE''
       (''withdrawal-capture:'' @ str_uuid (um_id w))
       (move_entries (um_id ca) (um_id pa) ass (wd_amount_atomic w))
       (JObj [(''withdrawal_id'', JStr (str_uuid (um_id w))), (''blockchain_transaction'', JStr chain)]) db2
       = Inr (db3, tx)"
    "settle_active_hold now ''CAPTURED'' ho db3 = Inr db4"
    "w' = w\<lparr>wd_state := ''COMPLETED'', wd_blockchain_transaction := chain, updated_at := now\<rparr>"
    "keeps_funds db4 db'" "ledger_entries db' = ledger_entries db4"
    "ledger_accounts db' = ledger_accounts db4"
    "ledger_transactions db' = ledger_transactions db4" "asset_networks db' = asset_networks db4"
    "withdrawals db' = upd_where (\<lambda>r. um_id r = um_id w) (\<lambda>_. w') (withdrawals db4)"
  using assms unfolding apply_completion_def Let_def res_simps split_paired_Ex prod.case
  by (elim exE conjE) (rule that, assumption, assumption, assumption, assumption,
      auto simp: keeps_funds_def frame save_withdrawal_def)

lemma apply_completion_solvent:
  assumes "apply_completion now w ho ass chain db = Inr (db', w')" "solvent db"
  shows "solvent db'"
  using assms(1)
proof (cases rule: apply_completion_cases)
  case (1 db1 pa db2 ca db3 tx db4)
  have "solvent db3"
    using assms(2) get_or_create_account_keeps [OF 1(1)] get_or_create_account_keeps [OF 1(2)]
      post_transaction_keeps [OF 1(3)] by (blast intro: keeps_funds_solvent)
  with 1(4,6) show ?thesis by (auto intro: keeps_funds_solvent settle_active_hold_solvent)
qed

lemma complete_withdrawal_cases:
  assumes "complete_withdrawal now wid chain db = Inr (db', w')"
  obtains (replay) "db' = db" "w' \<in> set (withdrawals db)" "um_id w' = wid" "wd_state w' = ''COMPLETED''"
  | (capture) w ho an where "obj_get (\<lambda>r. um_id r = wid) (withdrawals db) = Inr w"
      "withdrawal_hold w db = Inr ho" "obj_get (\<lambda>r. um_id r = wd_asset_network w) (asset_networks db) = Inr an"
      "wd_state w \<in> {''SIGNED'', ''BROADCAST'', ''CONFIRMING''}"
      "apply_completion now w ho (an_asset an) chain db = Inr (db', w')"
  using assms
  by (auto simp: complete_withdrawal_def res_simps split: if_splits dest: obj_get_Inr)

lemma complete_withdrawal_solvent:
  assumes "complete_withdrawal now wid chain db = Inr (db', w')" "solvent db"
  shows "solvent db'"
  using assms by (auto elim: complete_withdrawal_cases intro: apply_completion_solvent)

section \<open>Deposits and transfers\<close>

lemma save_balance_eq:
  "save_balance b db = Inr db' \<longleftrightarrow> balance_constraints b \<and>
     db' = db\<lparr>balances := upd_where (\<lambda>r. um_id r = um_id b) (\<lambda>_. b) (balances db)\<rparr>"
  by (auto simp: save_balance_def)

lemma save_posted_solvent:
  assumes "save_balance (b\<lparr>posted_atomic := p, updated_at := now\<rparr>) db = Inr db'" "solvent db"
    "b \<in> set (balances db)" "held_atomic b + reserved_atomic b \<le> p" "p < dec_limit"
  shows "solvent db'"
  using assms funds_ok_repost by (auto simp: save_balance_eq solvent_def)

lemma tally_positive: "tally is t = Inr t' \<Longrightarrow> i \<in> set is \<Longrightarrow> 0 < ei_amount_atomic i"
  by (induction "is" arbitrary: t) (auto split: if_splits)

lemma post_transaction_positive:
  "post_transaction now t ty k es md db = Inr (db', tx) \<Longrightarrow> i \<in> set es \<Longrightarrow> 0 < ei_amount_atomic i"
  by (auto simp: post_transaction_def split: if_splits sum.splits dest: tally_positive)

lemma post_move_positive:
  "post_transaction now t ty k (move_entries a c ass amt) md db = Inr (db', tx) \<Longrightarrow> 0 < amt"
  by (drule post_transaction_positive [where i = "hd (move_entries a c ass amt)"])
     (simp_all add: move_entries_def)

lemma get_or_create_balance_solvent:
  assumes "get_or_create_balance now w an db = Inr (db', b)" "solvent db"
  shows "solvent db' \<and> b \<in> set (balances db') \<and> balance_key w an b"
proof (cases "obj_get (balance_key w an) (balances db)")
  case (Inr c)
  with assms show ?thesis
    by (auto simp: get_or_create_balance_def dest: obj_get_Inr)
next
  case (Inl e)
  with assms(1) have e: "e = DoesNotExist"
    by (auto simp: get_or_create_balance_def split: db_error.splits)
  with Inl have none: "\<forall>c \<in> set (balances db). \<not> balance_key w an c"
    by (auto simp: obj_get_def filter_empty_conv split: list.splits)
  from assms(2) have ok: "funds_ok (next_id db) (balances db) (holds db)" by (simp add: solvent_def)
  have zero: "hold_sum (holds db) w an = 0"
    unfolding hold_sum_def using ok none
    by (intro sum_where_zero) (fastforce simp: funds_ok_def hold_ok_def balance_key_def)
  have fresh: "next_id db \<notin> um_id ` set (balances db)" "(w, an) \<notin> bal_key ` set (balances db)"
    using ok none by (auto simp: funds_ok_def balance_key_def)
  show ?thesis
    using assms(1) Inl e ok zero fresh
    by (auto simp: get_or_create_balance_def Let_def solvent_def funds_ok_def balance_ok_def
        balance_key_def hold_ok_def less_Suc_eq)
qed

lemma apply_credit_cases:
  assumes "apply_credit now d ass db = Inr (db', d')"
  obtains db1 b db2 pa db3 ca db4 tx db5 where
    "get_or_create_balance now (dep_wallet d) (dep_asset_network d) db = Inr (db1, b)"
    "platform_account now (dep_tenant d) ass db1 = Inr (db2, pa)"
    "customer_account now (dep_tenant d) (dep_wallet d) ass db2 = Inr (db3, ca)"
    "post_transaction now (dep_tenant d) ''DEPOSIT_CREDIT'' (''deposit-credit:'' @ str_uuid (um_id d))
       (move_entries (um_id pa) (um_id ca) ass (dep_amount_atomic d))
       (JObj [(''deposit_id'', JStr (str_uuid (um_id d)))]) db3 = Inr (db4, tx)"
    "save_balance (b\<lparr>posted_atomic := dec_add (posted_atomic b) (dep_amount_atomic d),
                     updated_at := now\<rparr>) db4 = Inr db5"
    "d' = d\<lparr>dep_state := ''CREDITED'', dep_ledger_transaction := Some (um_id tx), updated_at := now\<rparr>"
    "keeps_funds db5 db'" "ledger_entries db' = ledger_entries db5"
    "ledger_accounts db' = ledger_accounts db5"
    "ledger_transactions db' = ledger_transactions db5" "asset_networks db' = asset_networks db5"
    "deposits db' = upd_where (\<lambda>r. um_id r = um_id d) (\<lambda>_. d') (deposits db5)"
    "feature_flags db' = feature_flags db5"
  using assms unfolding apply_credit_def Let_def res_simps split_paired_Ex prod.case
  by (elim exE conjE) (rule that, assumption, assumption, assumption, assumption, assumption,
      auto simp: keeps_funds_def frame save_deposit_def)

lemma apply_credit_solvent:
  assumes "apply_credit now d ass db = Inr (db', d')" "solvent db"
    and room: "dep_amount_atomic d < dec_limit"
      "\<And>b. b \<in> set (balances db) \<Longrightarrow> balance_key (dep_wallet d) (dep_asset_network d) b \<Longrightarrow>
         posted_atomic b + dep_amount_atomic d < dec_limit"
  shows "solvent db'"
  using assms(1)
proof (cases rule: apply_credit_cases)
  case (1 db1 b db2 pa db3 ca db4 tx db5)
  have b: "solvent db1" "b \<in> set (balances db1)" "balance_key (dep_wallet d) (dep_asset_network d) b"
    using get_or_create_balance_solvent [OF 1(1) assms(2)] by auto
  have k: "keeps_funds db1 db4"
    using get_or_create_account_keeps [OF 1(2)] get_or_create_account_keeps [OF 1(3)]
      post_transaction_keeps [OF 1(4)] by (blast intro: keeps_funds_trans)
  have pos: "0 < dep_amount_atomic d"
    using 1(4) by (rule post_move_positive)
  have lim: "posted_atomic b + dep_amount_atomic d < dec_limit"
    using 1(1) room b(2,3)
    by (auto simp: get_or_create_balance_def Let_def split: sum.splits db_error.splits)
  have bok: "balance_ok (holds db1) b" "0 \<le> held_atomic b"
    using b by (auto simp: solvent_def dest: funds_ok_nonneg)
  have ex: "dec_add (posted_atomic b) (dep_amount_atomic d) = posted_atomic b + dep_amount_atomic d"
    using lim pos bok by (intro dec_add_exact) (auto simp: balance_ok_def)
  have "solvent db5"
  proof (rule save_posted_solvent [OF 1(5)])
    show "solvent db4" using k b(1) by (rule keeps_funds_solvent)
    show "b \<in> set (balances db4)" using k b(2) by (simp add: keeps_funds_def)
  qed (use ex lim bok pos in \<open>simp_all add: balance_ok_def\<close>)
  with 1(7) show ?thesis by (blast intro: keeps_funds_solvent)
qed

lemma post_transfer_cases:
  assumes "post_transfer now tenant act s d an amount key rec sb dbal db = Inr (db', t)"
  obtains db1 sa db2 da db3 db4 tx db5 db6 where
    "customer_account now tenant s (an_asset an) db = Inr (db1, sa)"
    "customer_account now tenant d (an_asset an) db1 = Inr (db2, da)"
    "insert_transfer t db2 = Inr db3"
    "post_transaction now tenant ''INTERNAL_TRANSFER'' (''transfer-ledger:'' @ key)
       (move_entries (um_id sa) (um_id da) (an_asset an) amount)
       (JObj [(''transfer_id'', JStr (str_uuid (um_id t)))]) db3 = Inr (db4, tx)"
    "save_balance (sb\<lparr>posted_atomic := dec_sub (posted_atomic sb) amount, updated_at := now\<rparr>) db4 = Inr db5"
    "save_balance (dbal\<lparr>posted_atomic := dec_add (posted_atomic dbal) amount, updated_at := now\<rparr>) db5 = Inr db6"
    "keeps_funds db6 db'" "ledger_entries db' = ledger_entries db6"
    "ledger_accounts db' = ledger_accounts db6"
    "ledger_transactions db' = ledger_transactions db6" "asset_networks db' = asset_networks db6"
    "um_id t = next_id db2" "tr_amount_atomic t = amount" "tr_state t = ''COMPLETED''"
    "tr_tenant t = tenant" "tr_idempotency_key t = key"
  using assms unfolding post_transfer_def Let_def res_simps split_paired_Ex prod.case sum.inject prod.inject
  by (elim exE conjE, simp only:) (rule that, assumption, assumption, assumption, assumption,
      assumption, assumption, auto simp: keeps_funds_def frame)

lemma obj_first_rev_key:
  "wallet_balance w an db = Some b \<Longrightarrow> b \<in> set (balances db) \<and> balance_key w an b"
  by (auto simp: wallet_balance_def dest: obj_first_Some)

text \<open>What a posted transfer does to the balance table.\<close>

lemma post_transfer_effect:
  assumes "post_transfer now tenant act s d an amount key rec sb dbal db = Inr (db', t)" "solvent db"
    and sb: "sb \<in> set (balances db)" "balance_key s a sb" "amount \<le> available_atomic sb"
    and dbal: "dbal \<in> set (balances db)" "balance_key d a dbal" "posted_atomic dbal + amount < dec_limit"
    and "s \<noteq> d"
  shows "solvent db' \<and> 0 < amount \<and> um_id sb \<noteq> um_id dbal \<and>
    balances db' =
      upd_where (\<lambda>r. um_id r = um_id dbal)
        (\<lambda>_. dbal\<lparr>posted_atomic := posted_atomic dbal + amount, updated_at := now\<rparr>)
      (upd_where (\<lambda>r. um_id r = um_id sb)
        (\<lambda>_. sb\<lparr>posted_atomic := posted_atomic sb - amount, updated_at := now\<rparr>) (balances db))"
  using assms(1)
proof (cases rule: post_transfer_cases)
  case (1 db1 sa db2 da db3 db4 tx db5 db6)
  have k: "keeps_funds db db4"
    using get_or_create_account_keeps [OF 1(1)] get_or_create_account_keeps [OF 1(2)]
      insert_transfer_keeps [OF 1(3)] post_transaction_keeps [OF 1(4)]
    by (blast intro: keeps_funds_trans)
  then have s4: "solvent db4" and b4: "balances db4 = balances db"
    using assms(2) by (auto simp: keeps_funds_def intro: keeps_funds_solvent)
  from s4 have ok: "funds_ok (next_id db4) (balances db) (holds db4)" by (simp add: solvent_def b4)
  have pos: "0 < amount" using 1(4) by (rule post_move_positive)
  have sok: "balance_ok (holds db4) sb" "0 \<le> held_atomic sb" and
       dok: "balance_ok (holds db4) dbal" "0 \<le> held_atomic dbal"
    using funds_ok_nonneg [OF ok] sb(1) dbal(1) by auto
  have ne: "um_id sb \<noteq> um_id dbal"
    using key_unique [of um_id "balances db" sb dbal] ok sb(1,2) dbal(1,2) \<open>s \<noteq> d\<close>
    by (auto simp: funds_ok_def balance_key_def)
  have room: "held_atomic sb + reserved_atomic sb \<le> posted_atomic sb - amount"
    using sb(3) sok by (simp add: available_exact)
  have sub: "dec_sub (posted_atomic sb) amount = posted_atomic sb - amount"
    using room sok pos by (intro dec_sub_exact) (auto simp: balance_ok_def)
  have add: "dec_add (posted_atomic dbal) amount = posted_atomic dbal + amount"
    using dbal(3) dok pos by (intro dec_add_exact) (auto simp: balance_ok_def)
  have s5: "solvent db5"
    by (rule save_posted_solvent [OF 1(5) s4]) (use b4 sb(1) room sub pos sok in \<open>auto simp: balance_ok_def\<close>)
  have "dbal \<in> set (balances db5)"
    using 1(5) b4 dbal(1) ne by (auto simp: save_balance_eq set_upd_where)
  then have "solvent db6"
    by (rule save_posted_solvent [OF 1(6) s5]) (use dbal(3) dok pos add in \<open>auto simp: balance_ok_def\<close>)
  with 1(7) have "solvent db'" by (rule keeps_funds_solvent)
  moreover have "balances db' = balances db6" using 1(7) by (simp add: keeps_funds_def)
  ultimately show ?thesis
    using 1(5,6) pos ne b4 by (simp add: save_balance_eq add sub)
qed

lemma create_internal_transfer_cases:
  assumes "create_internal_transfer st sha now tenant act sw dw an amount key payload db = Inr (db', t)"
  obtains
    (replay) rec where
      "reserve_idempotency sha now tenant (actor_id act) ''/api/v1/transfers'' ''POST'' key payload 86400 db
         = Inr (db', rec, False)" "ir_resource_id rec = Some (um_id t)" "t \<in> set (internal_transfers db')"
  | (fresh) db1 rec c sb dbal where
      "reserve_idempotency sha now tenant (actor_id act) ''/api/v1/transfers'' ''POST'' key payload 86400 db
         = Inr (db1, rec, c)"
      "wallet_balance (um_id sw) (um_id an) db1 = Some sb"
      "wallet_balance (um_id dw) (um_id an) db1 = Some dbal"
      "amount \<le> available_atomic sb" "um_id sw \<noteq> um_id dw"
      "post_transfer now tenant act (um_id sw) (um_id dw) an amount key rec sb dbal db1 = Inr (db', t)"
proof -
  from assms obtain db1 rec c where rd:
    "reserve_idempotency sha now tenant (actor_id act) ''/api/v1/transfers'' ''POST'' key payload 86400 db
         = Inr (db1, rec, c)" and ne: "um_id sw \<noteq> um_id dw"
    by (auto simp: create_internal_transfer_def res_simps not_le)
  show thesis
  proof (cases "c \<or> ir_resource_id rec = None")
    case True
    with assms rd obtain sb dbal where
      "wallet_balance (um_id sw) (um_id an) db1 = Some sb"
      "wallet_balance (um_id dw) (um_id an) db1 = Some dbal" "\<not> available_atomic sb < amount"
      "post_transfer now tenant act (um_id sw) (um_id dw) an amount key rec sb dbal db1 = Inr (db', t)"
      by (auto simp: create_internal_transfer_def split: bool.splits option.splits if_splits)
    with fresh rd ne show thesis by (auto simp: not_less)
  next
    case False
    with assms rd obtain rid where "ir_resource_id rec = Some rid"
      "obj_get (\<lambda>r. um_id r = rid) (internal_transfers db1) = Inr t" "db1 = db'"
      by (auto simp: create_internal_transfer_def res_simps)
    with replay rd False show thesis by (auto dest: obj_get_Inr)
  qed
qed

lemma create_internal_transfer_solvent:
  assumes "create_internal_transfer st sha now tenant act sw dw an amount key payload db = Inr (db', t)"
    "solvent db"
    and room: "\<And>b. b \<in> set (balances db) \<Longrightarrow> balance_key (um_id dw) (um_id an) b \<Longrightarrow>
                 posted_atomic b + amount < dec_limit"
  shows "solvent db'"
  using assms(1)
proof (cases rule: create_internal_transfer_cases)
  case (replay rec)
  with assms(2) show ?thesis by (blast intro: keeps_funds_solvent reserve_idempotency_keeps)
next
  case (fresh db1 rec c sb dbal)
  have k: "keeps_funds db db1" using fresh(1) by (rule reserve_idempotency_keeps)
  then have "solvent db1" "balances db1 = balances db"
    using assms(2) by (auto simp: keeps_funds_def intro: keeps_funds_solvent)
  with post_transfer_effect [OF fresh(6)] fresh(2-5) room show ?thesis
    by (auto dest!: obj_first_rev_key)
qed

lemma credit_deposit_cases:
  assumes "credit_deposit st now did req db = Inr (db', d')"
  obtains (replay) "db' = db" "obj_get (\<lambda>r. um_id r = did) (deposits db) = Inr d'" "dep_state d' = ''CREDITED''"
  | (credit) d an where "obj_get (\<lambda>r. um_id r = did) (deposits db) = Inr d"
      "obj_get (\<lambda>r. um_id r = dep_asset_network d) (asset_networks db) = Inr an"
      "dep_state d \<notin> {''CREDITED'', ''REJECTED'', ''REVERSED'', ''REORGED''}"
      "req \<le> int (dep_confirmations d)"
      "apply_credit now d (an_asset an) db = Inr (db', d')"
proof -
  from assms obtain d an where g: "obj_get (\<lambda>r. um_id r = did) (deposits db) = Inr d"
    "obj_get (\<lambda>r. um_id r = dep_asset_network d) (asset_networks db) = Inr an"
    unfolding credit_deposit_def res_simps by auto
  show thesis
  proof (cases "dep_state d = ''CREDITED''")
    case True
    with assms g have "db' = db" "d' = d" by (simp_all add: credit_deposit_def res_simps)
    with True g replay show thesis by simp
  next
    case False
    with assms g have "dep_state d \<notin> {''REJECTED'', ''REVERSED'', ''REORGED''}"
        "req \<le> int (dep_confirmations d)" "apply_credit now d (an_asset an) db = Inr (db', d')"
      by (simp_all add: credit_deposit_def res_simps not_less)
    with False g credit show thesis by blast
  qed
qed

lemma credit_deposit_solvent:
  assumes "credit_deposit st now did req db = Inr (db', d')" "solvent db"
    and room: "\<And>d. d \<in> set (deposits db) \<Longrightarrow> um_id d = did \<Longrightarrow>
                 dep_amount_atomic d < dec_limit \<and>
                 (\<forall>b \<in> set (balances db). balance_key (dep_wallet d) (dep_asset_network d) b \<longrightarrow>
                    posted_atomic b + dep_amount_atomic d < dec_limit)"
  shows "solvent db'"
  using assms(1)
proof (cases rule: credit_deposit_cases)
  case (credit d an)
  from obj_get_Inr [OF credit(1)] room assms(2) show ?thesis
    by (intro apply_credit_solvent [OF credit(5)]) auto
qed (use assms(2) in simp)

section \<open>Rows the ledger and hold primitives leave alone\<close>

definition keeps_rows :: "wallet_db \<Rightarrow> wallet_db \<Rightarrow> bool" where
  "keeps_rows db db' \<longleftrightarrow>
     asset_networks db' = asset_networks db \<and> feature_flags db' = feature_flags db \<and>
     deposits db' = deposits db \<and> withdrawals db' = withdrawals db \<and>
     idempotency_records db' = idempotency_records db \<and> wallets db' = wallets db \<and>
     memberships db' = memberships db \<and> withdrawal_approvals db' = withdrawal_approvals db \<and>
     withdrawal_addresses db' = withdrawal_addresses db"

lemma keeps_rows_refl [simp, intro]: "keeps_rows db db"
  by (simp add: keeps_rows_def)

lemma keeps_rows_trans [trans]: "keeps_rows a b \<Longrightarrow> keeps_rows b c \<Longrightarrow> keeps_rows a c"
  by (simp add: keeps_rows_def)

lemma bulk_create_entries_rows: "keeps_rows db (bulk_create_entries now tx is db)"
  by (induction "is" arbitrary: db) (auto simp: keeps_rows_def)

lemma get_or_create_account_rows:
  "get_or_create_account now t ot oi a c aty ns db = Inr (db', acc) \<Longrightarrow> keeps_rows db db'"
  by (auto simp: get_or_create_account_def keeps_rows_def Let_def split: sum.splits db_error.splits)

lemma get_or_create_balance_rows:
  "get_or_create_balance now w an db = Inr (db', b) \<Longrightarrow> keeps_rows db db'"
  by (auto simp: get_or_create_balance_def keeps_rows_def Let_def split: sum.splits db_error.splits)

lemma save_balance_rows: "save_balance b db = Inr db' \<Longrightarrow> keeps_rows db db'"
  by (auto simp: save_balance_eq keeps_rows_def)

lemma post_transaction_rows:
  "post_transaction now t ty k es md db = Inr (db', tx) \<Longrightarrow> keeps_rows db db'"
  by (auto simp: post_transaction_def Let_def keeps_rows_def
      bulk_create_entries_rows [unfolded keeps_rows_def]
      split: sum.splits list.splits option.splits if_splits)

lemma create_hold_rows:
  "create_hold now tenant w an amount reason key ref ex db = Inr (db', h) \<Longrightarrow> keeps_rows db db'"
  by (auto simp: create_hold_def Let_def res_simps save_balance_eq keeps_rows_def split: option.splits)

lemma transition_hold_rows:
  "transition_hold now hid target db = Inr (db', h) \<Longrightarrow> keeps_rows db db'"
  by (auto simp: transition_hold_def Let_def res_simps save_balance_eq keeps_rows_def)

section \<open>Reachable states\<close>

text \<open>
  One atomic request against the wallet. Requests are serialised by the row locks the code
  takes. The two operations that raise a posted amount carry the side condition that it
  stays within the 28 digits the decimal context represents exactly. \<open>custody_progress\<close> is
  the custody provider moving a withdrawal along (\<open>SIGNED\<close>, \<open>BROADCAST\<close>, ...), which
  no function of the repository does.
\<close>

inductive wallet_step :: "settings \<Rightarrow> (string \<Rightarrow> string) \<Rightarrow> wallet_db \<Rightarrow> wallet_db \<Rightarrow> bool"
  for st :: settings and sha :: "string \<Rightarrow> string" where
  step_hold: "create_hold now tenant w an amount reason key ref ex db = Inr (db', h) \<Longrightarrow>
     wallet_step st sha db db'"
| step_capture: "capture_hold now hid db = Inr (db', h) \<Longrightarrow> wallet_step st sha db db'"
| step_release: "release_hold now hid db = Inr (db', h) \<Longrightarrow> wallet_step st sha db db'"
| step_request: "request_withdrawal st sha now tenant act wallet addr amount key payload db = Inr (db', w) \<Longrightarrow>
     wallet_step st sha db db'"
| step_transfer: "create_internal_transfer st sha now tenant act sw dw asn amount key payload db = Inr (db', t) \<Longrightarrow>
     (\<And>b. b \<in> set (balances db) \<Longrightarrow> balance_key (um_id dw) (um_id asn) b \<Longrightarrow>
        posted_atomic b + amount < dec_limit) \<Longrightarrow>
     wallet_step st sha db db'"
| step_detect: "record_detected_deposit st now tenant wallet an txh oi amount c db = Inr (db', d) \<Longrightarrow>
     wallet_step st sha db db'"
| step_credit: "credit_deposit st now did req db = Inr (db', d) \<Longrightarrow>
     (\<And>d. d \<in> set (deposits db) \<Longrightarrow> um_id d = did \<Longrightarrow>
        dep_amount_atomic d < dec_limit \<and>
        (\<forall>b \<in> set (balances db). balance_key (dep_wallet d) (dep_asset_network d) b \<longrightarrow>
           posted_atomic b + dep_amount_atomic d < dec_limit)) \<Longrightarrow>
     wallet_step st sha db db'"
| step_cancel: "cancel_withdrawal now wid actor db = Inr (db', w) \<Longrightarrow> wallet_step st sha db db'"
| step_fail: "fail_withdrawal now wid reason db = Inr (db', w) \<Longrightarrow> wallet_step st sha db db'"
| step_complete: "complete_withdrawal now wid chain db = Inr (db', w) \<Longrightarrow> wallet_step st sha db db'"
| step_approve: "approve_withdrawal now wid approver decision reason db = Inr (db', w) \<Longrightarrow>
     wallet_step st sha db db'"
| custody_progress: "w \<in> set (withdrawals db) \<Longrightarrow>
     wallet_step st sha db (save_withdrawal (w\<lparr>wd_state := s\<rparr>) db)"

lemma wallet_step_solvent: "wallet_step st sha db db' \<Longrightarrow> solvent db \<Longrightarrow> solvent db'"
proof (induction rule: wallet_step.induct)
  case (custody_progress w db s)
  then show ?case by (auto simp: solvent_def frame)
qed (auto simp: capture_hold_def release_hold_def
    intro: create_hold_solvent transition_hold_solvent request_withdrawal_solvent
      create_internal_transfer_solvent credit_deposit_solvent cancel_withdrawal_solvent
      fail_withdrawal_solvent complete_withdrawal_solvent
      keeps_funds_solvent record_detected_deposit_keeps approve_withdrawal_keeps)

lemma wallet_reachable_solvent:
  "(wallet_step st sha)\<^sup>*\<^sup>* db db' \<Longrightarrow> solvent db \<Longrightarrow> solvent db'"
  by (induction rule: rtranclp_induct) (auto intro: wallet_step_solvent)

end
