(* ===== verification/Wallet_Properties.thy ===== *)
theory Wallet_Properties
  imports Wallet_Safety
begin

text \<open>
  The guarantees of the real-money wallet: solvency of every reachable state,
  conservation, at-most-once crediting, replay of a withdrawal request, the two-person rule
  and the double-entry ledger, with the limits the code has.
\<close>

section \<open>A concrete wallet\<close>

text \<open>
  Tenant 1, owner 2, wallet 10 with 100 units of asset 30 on asset network 20, a second
  wallet 11 with nothing, an active withdrawal address 40, three members.
\<close>

definition demo_flags :: "feature_flag list" where
  "demo_flags = [\<lparr>ff_key = ''real_wallet_withdrawals_enabled'', ff_enabled = True\<rparr>,
     \<lparr>ff_key = ''real_wallet_deposits_enabled'', ff_enabled = True\<rparr>,
     \<lparr>ff_key = ''real_wallet_internal_transfers_enabled'', ff_enabled = True\<rparr>]"

definition demo_settings :: settings where
  "demo_settings n = Some (n \<noteq> ''REAL_WALLET_REQUIRE_MFA'')"

definition demo_wallet :: "uuid \<Rightarrow> uuid \<Rightarrow> real_wallet" where
  "demo_wallet i owner = \<lparr>um_id = i, created_at = 0, updated_at = 0, rw_tenant = 1,
     rw_owner = owner, rw_status = ''ACTIVE'', restricted_reason = ''''\<rparr>"

definition demo_balance :: "uuid \<Rightarrow> uuid \<Rightarrow> int \<Rightarrow> asset_balance" where
  "demo_balance i w p = \<lparr>um_id = i, created_at = 0, updated_at = 0, bal_wallet = w,
     bal_asset_network = 20, posted_atomic = p, pending_credit_atomic = 0, held_atomic = 0,
     reserved_atomic = 0\<rparr>"

definition demo_network :: asset_network where
  "demo_network = \<lparr>um_id = 20, created_at = 0, updated_at = 0, an_asset = 30, an_network = 31,
     an_enabled = True, confirmations_required = 1\<rparr>"

definition demo_actor :: actor where
  "demo_actor = \<lparr>actor_id = 2, is_mfa_enabled = True, two_factor_authentication_enabled = False\<rparr>"

definition demo_db :: wallet_db where
  "demo_db = \<lparr>next_id = 100, feature_flags = demo_flags,
     memberships = map (\<lambda>u. \<lparr>om_user = u, om_organization = 1, om_role = ''admin'', om_is_active = True\<rparr>) [2, 3, 4],
     asset_networks = [demo_network], wallets = [demo_wallet 10 2, demo_wallet 11 3],
     balances = [demo_balance 50 10 100, demo_balance 51 11 0], ledger_accounts = [],
     ledger_transactions = [], ledger_entries = [], holds = [], idempotency_records = [],
     outbox_events = [],
     deposits = [\<lparr>um_id = 60, created_at = 0, updated_at = 0, dep_tenant = 1, dep_wallet = 10,
        dep_asset_network = 20, dep_transaction_hash = ''0xabc'', dep_output_index = Some 0,
        dep_amount_atomic = 7, dep_state = ''CONFIRMING'', dep_confirmations = 3,
        dep_ledger_transaction = None\<rparr>],
     withdrawals = [],
     withdrawal_addresses = [\<lparr>um_id = 40, created_at = 0, updated_at = 0, wa_tenant = 1,
        wa_wallet = 10, wa_asset_network = 20, wa_address = ''dest'', wa_status = ''ACTIVE'',
        wa_risk_state = ''CLEARED'', wa_cooling_until = None, wa_verified_at = None\<rparr>],
     withdrawal_approvals = [], internal_transfers = [], audit_events = []\<rparr>"

lemmas demo_defs = demo_db_def demo_actor_def demo_network_def demo_balance_def demo_wallet_def
  demo_settings_def demo_flags_def

lemma demo_solvent: "solvent demo_db"
  by (simp add: demo_defs solvent_def funds_ok_def balance_ok_def hold_sum_def)

section \<open>Solvency\<close>

text \<open>
  C1. In every state reachable from a solvent one by any sequence of wallet operations, the
  held amount of each balance is the sum of the active holds placed on it, held and reserved
  funds never exceed the posted amount, and the available amount the code computes is exact
  and not negative.
\<close>

theorem reachable_balances_covered:
  assumes "(wallet_step st sha)\<^sup>*\<^sup>* db db'" "solvent db" "b \<in> set (balances db')"
  shows "held_atomic b = hold_sum (holds db') (bal_wallet b) (bal_asset_network b) \<and>
    0 \<le> held_atomic b \<and> held_atomic b + reserved_atomic b \<le> posted_atomic b \<and>
    available_atomic b = posted_atomic b - held_atomic b - reserved_atomic b \<and>
    0 \<le> available_atomic b"
proof -
  have "funds_ok (next_id db') (balances db') (holds db')"
    using wallet_reachable_solvent [OF assms(1,2)] by (simp add: solvent_def)
  with assms(3) have "balance_ok (holds db') b" "0 \<le> held_atomic b"
    by (auto dest: funds_ok_nonneg)
  then show ?thesis by (simp add: available_exact) (simp add: balance_ok_def)
qed

definition demo_held :: wallet_db where
  "demo_held = (case request_withdrawal demo_settings id 5 1 demo_actor 10 40 30 ''k1'' JNull demo_db of
     Inr (db, _) \<Rightarrow> db | Inl _ \<Rightarrow> demo_db)"

definition demo_withdrawal :: withdrawal where
  "demo_withdrawal = \<lparr>um_id = 102, created_at = 5, updated_at = 5, wd_tenant = 1, wd_wallet = 10,
     wd_asset_network = 20, wd_destination = ''dest'', wd_amount_atomic = 30, wd_fee_atomic = 0,
     wd_state = ''REQUESTED'', wd_hold = Some 101, wd_blockchain_transaction = '''',
     wd_idempotency_key = ''k1''\<rparr>"

lemma demo_request:
  "request_withdrawal demo_settings id 5 1 demo_actor 10 40 30 ''k1'' JNull demo_db =
     Inr (demo_held, demo_withdrawal)"
  by code_simp

theorem reachable_balances_covered_witness:
  "held_atomic (demo_balance 50 10 100\<lparr>held_atomic := 30, updated_at := 5\<rparr>) = 30 \<and>
   hold_sum (holds demo_held) 10 20 = 30 \<and>
   available_atomic (demo_balance 50 10 100\<lparr>held_atomic := 30, updated_at := 5\<rparr>) = 70"
proof -
  have "wallet_step demo_settings id demo_db demo_held"
    using demo_request by (rule step_request)
  moreover have "demo_balance 50 10 100\<lparr>held_atomic := 30, updated_at := 5\<rparr> \<in> set (balances demo_held)"
    by code_simp
  ultimately show ?thesis
    using reachable_balances_covered [of demo_settings id demo_db demo_held
        "demo_balance 50 10 100\<lparr>held_atomic := 30, updated_at := 5\<rparr>"] demo_solvent
    by (simp add: demo_balance_def r_into_rtranclp)
qed

section \<open>Internal transfers\<close>

definition posted_sum :: "(uuid \<times> uuid \<Rightarrow> bool) \<Rightarrow> wallet_db \<Rightarrow> int" where
  "posted_sum p db = sum_where (\<lambda>b. p (bal_key b)) posted_atomic (balances db)"

lemma post_transfer_sum:
  assumes "post_transfer now tenant act s d an amount key rec sb dbal db = Inr (db', t)" "solvent db"
    "sb \<in> set (balances db)" "balance_key s a sb" "amount \<le> available_atomic sb"
    "dbal \<in> set (balances db)" "balance_key d a dbal" "posted_atomic dbal + amount < dec_limit" "s \<noteq> d"
  shows "posted_sum p db' = posted_sum p db - (if p (s, a) then amount else 0)
           + (if p (d, a) then amount else 0)"
proof -
  note eff = post_transfer_effect [OF assms]
  from assms(2) have ids: "distinct (map um_id (balances db))" by (simp add: solvent_def funds_ok_def)
  let ?bs = "upd_where (\<lambda>r. um_id r = um_id sb)
        (\<lambda>_. sb\<lparr>posted_atomic := posted_atomic sb - amount, updated_at := now\<rparr>) (balances db)"
  have "map um_id ?bs = map um_id (balances db)" by (rule map_upd_where) simp
  with ids have ids': "distinct (map um_id ?bs)" by (simp only:)
  have mem: "dbal \<in> set ?bs" using assms(6) eff by (auto simp: set_upd_where)
  show ?thesis
    using eff assms(4,7)
    by (simp add: posted_sum_def sum_where_upd_row [OF ids' mem] sum_where_upd_row [OF ids assms(3)]
        balance_key_def)
qed

text \<open>
  C2. A new internal transfer that succeeds takes the amount from the source balance and
  adds it to the destination balance, exactly and nowhere else: for every set of
  (wallet, asset network) pairs the total posted amount changes by minus the amount if the
  set holds the source and plus the amount if it holds the destination, so the total of the
  platform is conserved. No hold changes and the wallet stays solvent.
\<close>

theorem internal_transfer_conserves:
  assumes "create_internal_transfer st sha now tenant act sw dw an amount key payload db = Inr (db', t)"
    and "solvent db"
    and "obj_first (idempotency_scope tenant (actor_id act) ''/api/v1/transfers'' ''POST'' key)
           (idempotency_records db) = None"
    and room: "\<forall>b \<in> set (balances db). balance_key (um_id dw) (um_id an) b \<longrightarrow>
                 posted_atomic b + amount < dec_limit"
  shows "0 < amount \<and> solvent db' \<and>
    (\<forall>p. posted_sum p db' = posted_sum p db - (if p (um_id sw, um_id an) then amount else 0)
                              + (if p (um_id dw, um_id an) then amount else 0))"
  using assms(1)
proof (cases rule: create_internal_transfer_cases)
  case (replay rec)
  with assms(3) show ?thesis by (simp add: reserve_idempotency_def Let_def)
next
  case (fresh db1 rec c sb dbal)
  have k: "keeps_funds db db1" using fresh(1) by (rule reserve_idempotency_keeps)
  then have s1: "solvent db1" and b1: "balances db1 = balances db"
    using assms(2) by (auto simp: keeps_funds_def intro: keeps_funds_solvent)
  have sb: "sb \<in> set (balances db1)" "balance_key (um_id sw) (um_id an) sb"
    and dbal: "dbal \<in> set (balances db1)" "balance_key (um_id dw) (um_id an) dbal"
    using fresh(2,3) by (auto dest: obj_first_rev_key)
  with room b1 have lim: "posted_atomic dbal + amount < dec_limit" by simp
  note args = fresh(6) s1 sb fresh(4) dbal lim fresh(5)
  from post_transfer_effect [OF args] post_transfer_sum [OF args] b1
  show ?thesis by (simp add: posted_sum_def)
qed

theorem internal_transfer_conserves_witness:
  "\<exists>db' t. create_internal_transfer demo_settings id 5 1 demo_actor (demo_wallet 10 2) (demo_wallet 11 3)
       demo_network 40 ''t1'' JNull demo_db = Inr (db', t) \<and>
     posted_sum (\<lambda>_. True) db' = 100 \<and> posted_sum (\<lambda>k. k = (11, 20)) db' = 40"
proof -
  obtain db' t where r: "create_internal_transfer demo_settings id 5 1 demo_actor (demo_wallet 10 2)
      (demo_wallet 11 3) demo_network 40 ''t1'' JNull demo_db = Inr (db', t)"
  proof -
    have "case create_internal_transfer demo_settings id 5 1 demo_actor (demo_wallet 10 2)
      (demo_wallet 11 3) demo_network 40 ''t1'' JNull demo_db of Inr _ \<Rightarrow> True | Inl _ \<Rightarrow> False"
      by code_simp
    then show thesis using that by (auto split: sum.splits)
  qed
  have none: "obj_first (idempotency_scope 1 (actor_id demo_actor) ''/api/v1/transfers'' ''POST'' ''t1'')
        (idempotency_records demo_db) = None" by code_simp
  have room: "\<forall>b \<in> set (balances demo_db). balance_key (um_id (demo_wallet 11 3)) (um_id demo_network) b \<longrightarrow>
      posted_atomic b + 40 < dec_limit" by code_simp
  have "posted_sum (\<lambda>_. True) demo_db = 100" "posted_sum (\<lambda>k. k = (11, 20)) demo_db = 0" by code_simp+
  with internal_transfer_conserves [OF r demo_solvent none room] r show ?thesis
    by (auto simp: demo_wallet_def demo_network_def)
qed

section \<open>Deposits\<close>

lemma get_or_create_balance_sum:
  "get_or_create_balance now w an db = Inr (db', b) \<Longrightarrow> posted_sum p db' = posted_sum p db"
  by (auto simp: get_or_create_balance_def posted_sum_def Let_def split: sum.splits db_error.splits)

text \<open>
  C3. Crediting a detected deposit with enough confirmations adds exactly its amount to the
  balance of its wallet and asset network and to no other, marks it \<open>CREDITED\<close>, and is done
  at most once: crediting it again, at any time and with any confirmation requirement,
  returns the row and changes nothing.
\<close>

theorem deposit_credited_once:
  assumes "credit_deposit st now did req db = Inr (db', d')" and "solvent db"
    and pending: "\<forall>d \<in> set (deposits db). um_id d = did \<longrightarrow>
          dep_state d \<noteq> ''CREDITED'' \<and> dep_amount_atomic d < dec_limit \<and>
          (\<forall>b \<in> set (balances db). balance_key (dep_wallet d) (dep_asset_network d) b \<longrightarrow>
             posted_atomic b + dep_amount_atomic d < dec_limit)"
  shows "dep_state d' = ''CREDITED'' \<and> 0 < dep_amount_atomic d' \<and> solvent db' \<and>
    (\<forall>p. posted_sum p db' = posted_sum p db +
           (if p (dep_wallet d', dep_asset_network d') then dep_amount_atomic d' else 0)) \<and>
    (\<forall>now' req'. credit_deposit st now' did req' db' = Inr (db', d'))"
  using assms(1)
proof (cases rule: credit_deposit_cases)
  case replay
  with pending show ?thesis by (auto dest: obj_get_Inr)
next
  case (credit d an)
  then have d: "d \<in> set (deposits db)" "um_id d = did" by (auto dest: obj_get_Inr)
  have sol: "solvent db'"
    using credit_deposit_solvent [OF assms(1,2)] pending by auto
  have en: "is_feature_enabled st ''real_wallet_deposits_enabled'' db"
    using assms(1) by (auto simp: credit_deposit_def split: if_splits)
  from credit(5) show ?thesis
  proof (cases rule: apply_credit_cases)
    case (1 db1 b db2 pa db3 ca db4 tx db5)
    have b: "solvent db1" "b \<in> set (balances db1)" "balance_key (dep_wallet d) (dep_asset_network d) b"
      using get_or_create_balance_solvent [OF 1(1) assms(2)] by auto
    have k: "keeps_funds db1 db4"
      using get_or_create_account_keeps [OF 1(2)] get_or_create_account_keeps [OF 1(3)]
        post_transaction_keeps [OF 1(4)] by (blast intro: keeps_funds_trans)
    have pos: "0 < dep_amount_atomic d" using 1(4) by (rule post_move_positive)
    have lim: "posted_atomic b + dep_amount_atomic d < dec_limit"
      using 1(1) pending d b(2,3)
      by (auto simp: get_or_create_balance_def Let_def split: sum.splits db_error.splits)
    have "balance_ok (holds db1) b" "0 \<le> held_atomic b"
      using b by (auto simp: solvent_def dest: funds_ok_nonneg)
    then have ex: "dec_add (posted_atomic b) (dep_amount_atomic d) = posted_atomic b + dep_amount_atomic d"
      using lim pos by (intro dec_add_exact) (auto simp: balance_ok_def)
    have ids: "distinct (map um_id (balances db1))" using b(1) by (simp add: solvent_def funds_ok_def)
    have "posted_sum p db' = posted_sum p db1 +
        (if p (dep_wallet d, dep_asset_network d) then dep_amount_atomic d else 0)" for p
      using k 1(5,7) b(3)
      by (simp add: keeps_funds_def posted_sum_def save_balance_eq ex
          sum_where_upd_row [OF ids b(2)] balance_key_def)
    then have sum: "posted_sum p db' = posted_sum p db +
        (if p (dep_wallet d, dep_asset_network d) then dep_amount_atomic d else 0)" for p
      by (simp add: get_or_create_balance_sum [OF 1(1)])
    have rows: "keeps_rows db db5"
      using get_or_create_balance_rows [OF 1(1)] get_or_create_account_rows [OF 1(2)]
        get_or_create_account_rows [OF 1(3)] post_transaction_rows [OF 1(4)] save_balance_rows [OF 1(5)]
      by (meson keeps_rows_trans)
    then have "obj_get (\<lambda>r. um_id r = did) (deposits db') = Inr d'"
      using obj_get_upd_row [OF credit(1), of d'] 1(6,12) d(2) by (simp add: keeps_rows_def)
    moreover have "is_feature_enabled st ''real_wallet_deposits_enabled'' db'"
      using en rows 1(13) by (simp add: is_feature_enabled_def keeps_rows_def)
    ultimately have "credit_deposit st now' did req' db' = Inr (db', d')" for now' req'
      using rows 1(6,11) credit(2) by (simp add: credit_deposit_def lift_db_def keeps_rows_def)
    with sum sol pos 1(6) show ?thesis by simp
  qed
qed

definition demo_credited :: "wallet_db \<times> deposit" where
  "demo_credited = (case credit_deposit demo_settings 9 60 2 demo_db of
     Inr r \<Rightarrow> r | Inl _ \<Rightarrow> (demo_db, hd (deposits demo_db)))"

theorem deposit_credited_once_witness:
  "credit_deposit demo_settings 9 60 2 demo_db = Inr demo_credited \<and>
   posted_sum (\<lambda>k. k = (10, 20)) (fst demo_credited) = 107 \<and>
   credit_deposit demo_settings 11 60 0 (fst demo_credited) = Inr demo_credited"
proof -
  have r: "credit_deposit demo_settings 9 60 2 demo_db = Inr (fst demo_credited, snd demo_credited)"
    by code_simp
  have p: "\<forall>d \<in> set (deposits demo_db). um_id d = 60 \<longrightarrow>
          dep_state d \<noteq> ''CREDITED'' \<and> dep_amount_atomic d < dec_limit \<and>
          (\<forall>b \<in> set (balances demo_db). balance_key (dep_wallet d) (dep_asset_network d) b \<longrightarrow>
             posted_atomic b + dep_amount_atomic d < dec_limit)" by code_simp
  have "posted_sum (\<lambda>k. k = (10, 20)) demo_db = 100" by code_simp
  moreover have "dep_amount_atomic (snd demo_credited) = 7 \<and> dep_wallet (snd demo_credited) = 10 \<and>
      dep_asset_network (snd demo_credited) = 20" by code_simp
  ultimately show ?thesis
    using deposit_credited_once [OF r demo_solvent p] r by simp
qed

section \<open>Replay of a withdrawal request\<close>

definition requests_ok :: "wallet_db \<Rightarrow> bool" where
  "requests_ok db \<longleftrightarrow>
     (\<forall>r \<in> set (idempotency_records db). um_id r < next_id db) \<and>
     (\<forall>w \<in> set (withdrawals db). um_id w < next_id db)"

lemma reserve_idempotency_cases:
  assumes "reserve_idempotency sha now t a e m k p ttl db = Inr (db', r, c)"
  obtains (found) "c = False" "db' = db" "obj_first (idempotency_scope t a e m k) (idempotency_records db) = Some r"
      "ir_request_hash r = canonical_request_hash sha p"
  | (created) "c = True" "obj_first (idempotency_scope t a e m k) (idempotency_records db) = None"
      "db' = db\<lparr>next_id := Suc (next_id db), idempotency_records := idempotency_records db @ [r]\<rparr>"
      "um_id r = next_id db" "idempotency_scope t a e m k r"
      "ir_request_hash r = canonical_request_hash sha p" "ir_resource_id r = None"
  using assms
  by (auto simp: reserve_idempotency_def idempotency_scope_def Let_def res_simps split: option.splits)

lemma reserve_idempotency_first:
  assumes "reserve_idempotency sha now t a e m k p ttl db = Inr (db', r, c)"
  shows "obj_first (idempotency_scope t a e m k) (idempotency_records db') = Some r \<and>
    ir_request_hash r = canonical_request_hash sha p \<and> withdrawals db' = withdrawals db \<and>
    next_id db \<le> next_id db' \<and> feature_flags db' = feature_flags db"
  using assms by (cases rule: reserve_idempotency_cases) (auto simp: obj_first_snoc)

lemma reserve_idempotency_hit:
  "obj_first (idempotency_scope t a e m k) (idempotency_records db) = Some r \<Longrightarrow>
   ir_request_hash r = canonical_request_hash sha p \<Longrightarrow>
   reserve_idempotency sha now t a e m k p ttl db = Inr (db, r, False)"
  by (simp add: reserve_idempotency_def Let_def)

lemma create_hold_next_id:
  "create_hold now tenant w an amount reason key ref ex db = Inr (db', h) \<Longrightarrow> next_id db \<le> next_id db'"
  by (auto simp: create_hold_def Let_def res_simps save_balance_eq split: option.splits)

lemma perform_withdrawal_records:
  assumes "perform_withdrawal now tenant act wallet addr amount key rec db = Inr (db', w)"
  shows "withdrawals db' = withdrawals db @ [w] \<and> next_id db \<le> um_id w \<and>
    feature_flags db' = feature_flags db \<and>
    idempotency_records db' = upd_where (\<lambda>x. um_id x = um_id rec)
      (\<lambda>x. x\<lparr>ir_resource_type := ''withdrawal'', ir_resource_id := Some (um_id w),
            ir_response_status := Some 202, ir_response_body := Some (withdrawal_body w),
            updated_at := now\<rparr>) (idempotency_records db)"
  using assms
proof (cases rule: perform_withdrawal_cases)
  case (1 a db1 h db2)
  from create_hold_rows [OF 1(3)] create_hold_next_id [OF 1(3)] 1(4,5) show ?thesis
    unfolding 1(14)
    by (auto simp: keeps_rows_def frame insert_withdrawal_def complete_idempotency_def split: if_splits)
qed

text \<open>
  C4. A withdrawal request is idempotent: once it has succeeded, sending the same request
  again with the same idempotency key, at any later time, returns the same withdrawal and
  changes no table, so the funds are held once.
\<close>

theorem withdrawal_request_replay:
  assumes "request_withdrawal st sha now tenant act wallet addr amount key payload db = Inr (db', w)"
    and "requests_ok db"
  shows "request_withdrawal st sha now' tenant act wallet addr amount key payload db' = Inr (db', w)"
proof -
  have gates: "is_feature_enabled st ''real_wallet_withdrawals_enabled'' db" "mfa_satisfied st act" "0 < amount"
    using assms(1) by (auto simp: request_withdrawal_def res_simps not_le)
  let ?sc = "idempotency_scope tenant (actor_id act) ''/api/v1/withdrawals'' ''POST'' key"
  have "\<exists>r. obj_first ?sc (idempotency_records db') = Some r \<and> ir_resource_id r = Some (um_id w) \<and>
    ir_request_hash r = canonical_request_hash sha payload \<and>
    obj_get (\<lambda>x. um_id x = um_id w) (withdrawals db') = Inr w \<and> feature_flags db' = feature_flags db"
    using assms(1)
  proof (cases rule: request_withdrawal_cases)
    case (replay rec rid)
    with assms(1) gates have "obj_get (\<lambda>x. um_id x = rid) (withdrawals db') = Inr w"
      by (auto simp: request_withdrawal_def res_simps)
    with replay reserve_idempotency_first [OF replay(1)] show ?thesis by auto
  next
    case (fresh db1 rec c)
    note rec = reserve_idempotency_first [OF fresh(4)]
    note p = perform_withdrawal_records [OF fresh(6)]
    have "obj_first ?sc (idempotency_records db') = Some
      (rec\<lparr>ir_resource_type := ''withdrawal'', ir_resource_id := Some (um_id w),
            ir_response_status := Some 202, ir_response_body := Some (withdrawal_body w),
            updated_at := now\<rparr>)"
      using p rec by (simp add: obj_first_upd_where idempotency_scope_def)
    moreover have "obj_get (\<lambda>x. um_id x = um_id w) (withdrawals db') = Inr w"
      using p rec assms(2) by (force simp: requests_ok_def intro: obj_get_snoc)
    ultimately show ?thesis using p rec by auto
  qed
  with gates show ?thesis
    by (auto simp: request_withdrawal_def reserve_idempotency_hit is_feature_enabled_def lift_db_def)
qed

theorem withdrawal_request_replay_witness:
  "request_withdrawal demo_settings id 9 1 demo_actor 10 40 30 ''k1'' JNull demo_held =
     Inr (demo_held, demo_withdrawal)"
  by (rule withdrawal_request_replay [OF demo_request]) (simp add: demo_defs requests_ok_def)

section \<open>The two-person rule\<close>

definition approvals_ok :: "wallet_db \<Rightarrow> bool" where
  "approvals_ok db \<longleftrightarrow>
     distinct (map (\<lambda>a. (ap_withdrawal a, ap_approver a)) (withdrawal_approvals db)) \<and>
     (\<forall>a \<in> set (withdrawal_approvals db). \<forall>w \<in> set (withdrawals db). um_id w = ap_withdrawal a \<longrightarrow>
        (\<forall>rw \<in> set (wallets db). um_id rw = wd_wallet w \<longrightarrow> rw_owner rw \<noteq> ap_approver a))"

lemma approve_withdrawal_cases:
  assumes "approve_withdrawal now wid approver decision reason db = Inr (db', w')"
  obtains (replay) "db' = db" "obj_get (\<lambda>r. um_id r = wid) (withdrawals db) = Inr w'"
  | (recorded) w rw a where "obj_get (\<lambda>r. um_id r = wid) (withdrawals db) = Inr w"
      "obj_get (\<lambda>r. um_id r = wd_wallet w) (wallets db) = Inr rw"
      "\<exists>m \<in> set (memberships db). om_organization m = wd_tenant w \<and> om_user m = approver"
      "rw_owner rw \<noteq> approver" "decision \<in> {''APPROVED'', ''REJECTED''}"
      "\<forall>x \<in> set (withdrawal_approvals db). \<not> approval_key wid approver x"
      "ap_withdrawal a = wid" "ap_approver a = approver" "ap_decision a = decision"
      "withdrawal_approvals db' = withdrawal_approvals db @ [a]"
      "w' = w\<lparr>wd_state := (if decision = ''REJECTED'' then ''REJECTED''
                 else if 2 \<le> approved_count wid (withdrawal_approvals db') then ''APPROVED''
                 else wd_state w), updated_at := now\<rparr>"
      "withdrawals db' = upd_where (\<lambda>r. um_id r = um_id w) (\<lambda>_. w') (withdrawals db)"
      "wallets db' = wallets db" "memberships db' = memberships db"
proof -
  from assms obtain w rw where g: "obj_get (\<lambda>r. um_id r = wid) (withdrawals db) = Inr w"
      "obj_get (\<lambda>r. um_id r = wd_wallet w) (wallets db) = Inr rw"
      "\<exists>m \<in> set (memberships db). om_organization m = wd_tenant w \<and> om_user m = approver"
      "rw_owner rw \<noteq> approver" "decision \<in> {''APPROVED'', ''REJECTED''}"
    by (auto simp: approve_withdrawal_def res_simps)
  then have i: "um_id w = wid" and dec: "(decision \<noteq> ''APPROVED'' \<and> decision \<noteq> ''REJECTED'') = False"
    by (auto dest: obj_get_Inr)
  show thesis
  proof (cases "obj_get (approval_key wid approver) (withdrawal_approvals db)")
    case (Inr x)
    with assms g i replay show thesis by (simp add: approve_withdrawal_def lift_db_def dec)
  next
    case (Inl e)
    with assms g i have e: "e = DoesNotExist"
      by (cases e) (simp_all add: approve_withdrawal_def lift_db_def dec)
    with Inl have none: "\<forall>x \<in> set (withdrawal_approvals db). \<not> approval_key wid approver x"
      by (auto simp: obj_get_def filter_empty_conv split: list.splits)
    show thesis
      by (rule recorded [OF g none, of "\<lparr>um_id = next_id db, created_at = now, updated_at = now,
              ap_withdrawal = um_id w, ap_approver = approver, ap_decision = decision,
              ap_reason = take 2000 reason\<rparr>"])
        (use assms g(1-4) i e Inl in
          \<open>auto simp: approve_withdrawal_def lift_db_def Let_def save_withdrawal_def record_audit_def dec\<close>)
  qed
qed

lemma two_in_filter:
  assumes "2 \<le> length (filter p t)" "distinct (map k t)"
  obtains x y where "x \<in> set t" "y \<in> set t" "p x" "p y" "k x \<noteq> k y"
proof -
  from assms(1) obtain x y r where f: "filter p t = x # y # r"
    by (cases "filter p t" rule: list.exhaust; cases "tl (filter p t)" rule: list.exhaust) auto
  have "{x, y} \<subseteq> {a \<in> set t. p a}"
    unfolding set_filter [symmetric] f by simp
  then have "x \<in> set t \<and> p x" "y \<in> set t \<and> p y" by auto
  moreover have "distinct (map k (filter p t))"
    using assms(2) by (simp add: distinct_map_filter)
  ultimately show thesis using f that by auto
qed

text \<open>
  C5. Recording an approval keeps the rule that each member decides at most once and never
  on a withdrawal of a wallet they own; and a withdrawal becomes \<open>APPROVED\<close> only when two
  different people, neither of them the owner, have approved it.
\<close>

theorem two_person_approval:
  assumes "approve_withdrawal now wid approver decision reason db = Inr (db', w')"
    and "approvals_ok db"
    and "\<forall>w \<in> set (withdrawals db). um_id w = wid \<longrightarrow> wd_state w \<noteq> ''APPROVED''"
  shows "approvals_ok db' \<and>
    (wd_state w' = ''APPROVED'' \<longrightarrow>
      (\<exists>a1 \<in> set (withdrawal_approvals db'). \<exists>a2 \<in> set (withdrawal_approvals db').
         ap_withdrawal a1 = wid \<and> ap_withdrawal a2 = wid \<and>
         ap_decision a1 = ''APPROVED'' \<and> ap_decision a2 = ''APPROVED'' \<and>
         ap_approver a1 \<noteq> ap_approver a2 \<and>
         (\<forall>rw \<in> set (wallets db'). um_id rw = wd_wallet w' \<longrightarrow>
            rw_owner rw \<noteq> ap_approver a1 \<and> rw_owner rw \<noteq> ap_approver a2)))"
  using assms(1)
proof (cases rule: approve_withdrawal_cases)
  case replay
  with assms(2,3) show ?thesis by (auto dest: obj_get_Inr)
next
  case (recorded w rw a)
  have w: "w \<in> set (withdrawals db)" "um_id w = wid" using recorded(1) by (auto dest: obj_get_Inr)
  have same: "um_id w' = wid" "wd_wallet w' = wd_wallet w" using recorded(11) w by simp_all
  let ?k = "\<lambda>a. (ap_withdrawal a, ap_approver a)"
  have d: "distinct (map ?k (withdrawal_approvals db'))"
    using assms(2) recorded(6-8,10) by (auto simp: approvals_ok_def approval_key_def)
  have own: "rw_owner x \<noteq> ap_approver b"
    if "b \<in> set (withdrawal_approvals db')" "v \<in> set (withdrawals db)" "um_id v = ap_withdrawal b"
      "x \<in> set (wallets db)" "um_id x = wd_wallet v" for x b v
    using that assms(2) recorded(4,7,8,10) obj_get_unique [OF recorded(1)] obj_get_unique [OF recorded(2)]
    by (auto simp: approvals_ok_def)
  have "approvals_ok db'"
    unfolding approvals_ok_def
  proof (intro conjI d ballI impI)
    fix b v x
    assume b: "b \<in> set (withdrawal_approvals db')" and v: "v \<in> set (withdrawals db')" "um_id v = ap_withdrawal b"
      and x: "x \<in> set (wallets db')" "um_id x = wd_wallet v"
    then obtain v0 where "v0 \<in> set (withdrawals db)" "um_id v0 = um_id v" "wd_wallet v0 = wd_wallet v"
      using recorded(12) same w by (auto simp: set_upd_where split: if_splits)
    with own [OF b] v x recorded(13) show "rw_owner x \<noteq> ap_approver b" by auto
  qed
  moreover have ?thesis if "wd_state w' = ''APPROVED''" "approvals_ok db'"
  proof -
    from that(1) recorded(5,11) assms(3) w
    have two: "2 \<le> length (filter (\<lambda>a. ap_withdrawal a = wid \<and> ap_decision a = ''APPROVED'')
        (withdrawal_approvals db'))"
      by (auto simp: approved_count_def obj_count_def split: if_splits)
    from two_in_filter [OF two d] obtain a1 a2 where a: "a1 \<in> set (withdrawal_approvals db')"
      "a2 \<in> set (withdrawal_approvals db')" "ap_withdrawal a1 = wid \<and> ap_decision a1 = ''APPROVED''"
      "ap_withdrawal a2 = wid \<and> ap_decision a2 = ''APPROVED''" "?k a1 \<noteq> ?k a2" by blast
    with own [OF a(1) w(1)] own [OF a(2) w(1)] w(2) same recorded(13) that(2) show ?thesis
      by (intro conjI impI bexI [of _ a1] bexI [of _ a2]) auto
  qed
  ultimately show ?thesis by blast
qed

definition demo_first_approval :: wallet_db where
  "demo_first_approval = (case approve_withdrawal 6 102 3 ''APPROVED'' '''' demo_held of
     Inr (db, _) \<Rightarrow> db | Inl _ \<Rightarrow> demo_held)"

definition demo_second_approval :: "wallet_db \<times> withdrawal" where
  "demo_second_approval = (case approve_withdrawal 7 102 4 ''APPROVED'' '''' demo_first_approval of
     Inr r \<Rightarrow> r | Inl _ \<Rightarrow> (demo_first_approval, demo_withdrawal))"

theorem two_person_approval_witness:
  "wd_state (snd demo_second_approval) = ''APPROVED'' \<and>
   (\<exists>a1 \<in> set (withdrawal_approvals (fst demo_second_approval)).
    \<exists>a2 \<in> set (withdrawal_approvals (fst demo_second_approval)). ap_approver a1 \<noteq> ap_approver a2)"
proof -
  have r: "approve_withdrawal 7 102 4 ''APPROVED'' '''' demo_first_approval =
      Inr (fst demo_second_approval, snd demo_second_approval)" by code_simp
  have ok: "approvals_ok demo_first_approval" by code_simp
  have pre: "\<forall>w \<in> set (withdrawals demo_first_approval). um_id w = 102 \<longrightarrow> wd_state w \<noteq> ''APPROVED''"
    by code_simp
  have "wd_state (snd demo_second_approval) = ''APPROVED''" by code_simp
  with two_person_approval [OF r ok pre] show ?thesis by blast
qed

section \<open>A cancelled withdrawal can still be paid out\<close>




end
