(* ===== verification/Wallet_Accounting.thy ===== *)
theory Wallet_Accounting
  imports Wallet_Properties
begin

text \<open>
  The double-entry ledger of the wallet: every transaction of every reachable state has
  equal debits and credits, \<open>post_transaction\<close> checks this exactly while the totals fit the
  decimal context, and what it accepts beyond.
\<close>

section \<open>Balance of every posted transaction\<close>

definition tx_sum :: "uuid \<Rightarrow> string \<Rightarrow> ledger_entry list \<Rightarrow> int" where
  "tx_sum t dir es = sum_where (\<lambda>e. le_transaction e = t \<and> le_direction e = dir) le_amount_atomic es"

definition ledger_ok :: "wallet_db \<Rightarrow> bool" where
  "ledger_ok db \<longleftrightarrow>
     (\<forall>t \<in> set (ledger_transactions db). um_id t < next_id db \<and>
        tx_sum (um_id t) ''DEBIT'' (ledger_entries db) = tx_sum (um_id t) ''CREDIT'' (ledger_entries db)) \<and>
     (\<forall>e \<in> set (ledger_entries db). le_transaction e < next_id db \<and> 0 < le_amount_atomic e)"

definition keeps_ledger :: "wallet_db \<Rightarrow> wallet_db \<Rightarrow> bool" where
  "keeps_ledger db db' \<longleftrightarrow>
     ledger_transactions db' = ledger_transactions db \<and> ledger_entries db' = ledger_entries db \<and>
     next_id db \<le> next_id db'"

lemma keeps_ledger_ok: "keeps_ledger db db' \<Longrightarrow> ledger_ok db \<Longrightarrow> ledger_ok db'"
  by (auto simp: keeps_ledger_def ledger_ok_def)

lemma keeps_ledger_refl [simp, intro]: "keeps_ledger db db"
  by (simp add: keeps_ledger_def)

lemma keeps_ledger_trans [trans]: "keeps_ledger a b \<Longrightarrow> keeps_ledger b c \<Longrightarrow> keeps_ledger a c"
  by (auto simp: keeps_ledger_def)

lemma save_balance_ledger: "save_balance b db = Inr db' \<Longrightarrow> keeps_ledger db db'"
  by (auto simp: save_balance_eq keeps_ledger_def)

lemma get_or_create_account_ledger:
  "get_or_create_account now t ot oi a c aty ns db = Inr (db', acc) \<Longrightarrow> keeps_ledger db db'"
  by (auto simp: get_or_create_account_def keeps_ledger_def Let_def split: sum.splits db_error.splits)

lemma get_or_create_balance_ledger:
  "get_or_create_balance now w an db = Inr (db', b) \<Longrightarrow> keeps_ledger db db'"
  by (auto simp: get_or_create_balance_def keeps_ledger_def Let_def split: sum.splits db_error.splits)

lemma create_hold_ledger:
  "create_hold now tenant w an amount reason key ref ex db = Inr (db', h) \<Longrightarrow> keeps_ledger db db'"
  by (auto simp: create_hold_def Let_def res_simps save_balance_eq keeps_ledger_def split: option.splits)

lemma transition_hold_ledger: "transition_hold now hid target db = Inr (db', h) \<Longrightarrow> keeps_ledger db db'"
  by (auto simp: transition_hold_def Let_def res_simps save_balance_eq keeps_ledger_def)

lemma settle_active_hold_ledger: "settle_active_hold now target ho db = Inr db' \<Longrightarrow> keeps_ledger db db'"
  by (auto simp: settle_active_hold_def res_simps split: option.splits if_splits
      intro: transition_hold_ledger)

lemma insert_transfer_ledger: "insert_transfer t db = Inr db' \<Longrightarrow> keeps_ledger db db'"
  by (auto simp: insert_transfer_def keeps_ledger_def split: if_splits)

lemma reserve_idempotency_ledger:
  "reserve_idempotency sha now t a e m k p ttl db = Inr (db', r, c) \<Longrightarrow> keeps_ledger db db'"
  by (erule reserve_idempotency_cases) (simp_all add: keeps_ledger_def)

lemma tx_sum_append: "tx_sum t d (xs @ ys) = tx_sum t d xs + tx_sum t d ys"
  by (simp add: tx_sum_def)

lemma tx_sum_other:
  "(\<And>e. e \<in> set es \<Longrightarrow> le_transaction e \<noteq> t) \<Longrightarrow> tx_sum t d es = 0"
  unfolding tx_sum_def by (rule sum_where_zero) auto

text \<open>The rows \<open>bulk_create\<close> appends.\<close>

fun entry_rows :: "timestamp \<Rightarrow> uuid \<Rightarrow> entry_item list \<Rightarrow> uuid \<Rightarrow> ledger_entry list" where
  "entry_rows now tx [] n = []"
| "entry_rows now tx (i # is) n =
     \<lparr>um_id = n, created_at = now, updated_at = now, le_transaction = tx,
      le_account = ei_account i, le_asset = ei_asset i, le_direction = ei_direction i,
      le_amount_atomic = ei_amount_atomic i\<rparr> # entry_rows now tx is (Suc n)"

lemma bulk_create_entries_rows_eq:
  "ledger_entries (bulk_create_entries now tx is db) = ledger_entries db @ entry_rows now tx is (next_id db)"
  by (induction "is" arbitrary: db) simp_all

lemma post_transaction_cases:
  assumes "post_transaction now tenant ty key es md db = Inr (db', tx)"
  obtains (replay) "db' = db" "obj_first (ledger_key tenant key) (ledger_transactions db) = Some tx"
  | (posted) a d where "tally es [] = Inr [(a, d, d)]"
      "obj_first (ledger_key tenant key) (ledger_transactions db) = None"
      "ledger_transactions db' = ledger_transactions db @ [tx]" "um_id tx = next_id db"
      "ledger_key tenant key tx"
      "ledger_entries db' = ledger_entries db @ entry_rows now (next_id db) es (Suc (next_id db))"
      "next_id db' = Suc (next_id db + length es)" "ledger_accounts db' = ledger_accounts db"
proof (cases "obj_first (ledger_key tenant key) (ledger_transactions db)")
  case (Some t)
  with assms replay show thesis
    by (auto simp: post_transaction_def split: sum.splits list.splits if_splits)
next
  case None
  from assms obtain a d where t: "tally es [] = Inr [(a, d, d)]" "es \<noteq> []"
    by (auto simp: post_transaction_def split: sum.splits list.splits if_splits)
  show thesis
    by (rule posted [OF t(1) None])
      (use assms t None in \<open>auto simp: post_transaction_def Let_def frame bulk_create_entries_rows_eq
         ledger_key_def\<close>)
qed

lemma post_move_ledger:
  assumes "post_transaction now tenant ty key (move_entries a c ass amt) md db = Inr (db', tx)" "ledger_ok db"
  shows "ledger_ok db'"
  using assms(1)
proof (cases rule: post_transaction_cases)
  case (posted aa dd)
  have pos: "0 < amt" using assms(1) by (rule post_move_positive)
  let ?new = "entry_rows now (next_id db) (move_entries a c ass amt) (Suc (next_id db))"
  have old: "tx_sum (next_id db) d (ledger_entries db) = 0" for d
    using assms(2) by (intro tx_sum_other) (auto simp: ledger_ok_def)
  have new: "tx_sum t d ?new = (if t = next_id db \<and> d \<in> {''DEBIT'', ''CREDIT''} then amt else 0)" for t d
    by (auto simp: tx_sum_def move_entries_def)
  have rows: "\<forall>e \<in> set ?new. le_transaction e = next_id db \<and> 0 < le_amount_atomic e"
    using pos by (simp add: move_entries_def)
  show ?thesis
    using assms(2) posted(3,4,6,7) rows old new unfolding ledger_ok_def
    by (auto simp: tx_sum_append less_Suc_eq_le dest: bspec)
qed (use assms in simp)

lemma apply_credit_ledger:
  assumes "apply_credit now d ass db = Inr (db', d')" "ledger_ok db"
  shows "ledger_ok db'"
  using assms(1)
proof (cases rule: apply_credit_cases)
  case (1 db1 b db2 pa db3 ca db4 tx db5)
  have "ledger_ok db3"
    using assms(2) get_or_create_balance_ledger [OF 1(1)] get_or_create_account_ledger [OF 1(2)]
      get_or_create_account_ledger [OF 1(3)] by (blast intro: keeps_ledger_ok)
  then have "ledger_ok db4" by (rule post_move_ledger [OF 1(4)])
  moreover have "keeps_ledger db4 db'"
    using save_balance_ledger [OF 1(5)] 1(7,8,10) by (auto simp: keeps_ledger_def keeps_funds_def)
  ultimately show ?thesis by (blast intro: keeps_ledger_ok)
qed

lemma post_transfer_ledger:
  assumes "post_transfer now tenant act s d an amount key rec sb dbal db = Inr (db', t)" "ledger_ok db"
  shows "ledger_ok db'"
  using assms(1)
proof (cases rule: post_transfer_cases)
  case (1 db1 sa db2 da db3 db4 tx db5 db6)
  have "ledger_ok db3"
    using assms(2) get_or_create_account_ledger [OF 1(1)] get_or_create_account_ledger [OF 1(2)]
      insert_transfer_ledger [OF 1(3)] by (blast intro: keeps_ledger_ok)
  then have "ledger_ok db4" by (rule post_move_ledger [OF 1(4)])
  moreover have "keeps_ledger db4 db'"
    using save_balance_ledger [OF 1(5)] save_balance_ledger [OF 1(6)] 1(7,8,10)
    by (auto simp: keeps_ledger_def keeps_funds_def)
  ultimately show ?thesis by (blast intro: keeps_ledger_ok)
qed

lemma apply_completion_ledger:
  assumes "apply_completion now w ho ass chain db = Inr (db', w')" "ledger_ok db"
  shows "ledger_ok db'"
  using assms(1)
proof (cases rule: apply_completion_cases)
  case (1 db1 pa db2 ca db3 tx db4)
  have "ledger_ok db2"
    using assms(2) get_or_create_account_ledger [OF 1(1)] get_or_create_account_ledger [OF 1(2)]
    by (blast intro: keeps_ledger_ok)
  then have "ledger_ok db3" by (rule post_move_ledger [OF 1(3)])
  moreover have "keeps_ledger db3 db'"
    using settle_active_hold_ledger [OF 1(4)] 1(6,7,9) by (auto simp: keeps_ledger_def keeps_funds_def)
  ultimately show ?thesis by (blast intro: keeps_ledger_ok)
qed

lemma perform_withdrawal_ledger:
  assumes "perform_withdrawal now tenant act wallet addr amount key rec db = Inr (db', w)"
  shows "keeps_ledger db db'"
  using assms
proof (cases rule: perform_withdrawal_cases)
  case (1 a db1 h db2)
  from create_hold_ledger [OF 1(3)] 1(4) show ?thesis
    unfolding 1(14) by (auto simp: keeps_ledger_def insert_withdrawal_def frame split: if_splits)
qed

lemma wallet_step_ledger:
  assumes "wallet_step st sha db db'" "ledger_ok db"
  shows "ledger_ok db'"
  using assms
proof (induction rule: wallet_step.induct)
  case (step_request now tenant act wallet addr amount key payload db db' w)
  then show ?case
    by (auto elim!: request_withdrawal_cases intro: keeps_ledger_ok
        dest!: reserve_idempotency_ledger perform_withdrawal_ledger)
next
  case (step_transfer now tenant act sw dw asn amount key payload db db' t)
  then show ?case
    by (auto elim!: create_internal_transfer_cases intro: keeps_ledger_ok post_transfer_ledger
        dest!: reserve_idempotency_ledger)
next
  case (step_credit now did req db db' d)
  then show ?case by (auto elim!: credit_deposit_cases intro: apply_credit_ledger)
next
  case (step_complete now wid chain db db' w)
  then show ?case by (auto elim!: complete_withdrawal_cases intro: apply_completion_ledger)
next
  case (step_cancel now wid actor db db' w)
  then have "keeps_ledger db db'"
    by (auto simp: cancel_withdrawal_def release_withdrawal_hold_def release_hold_def res_simps Let_def
        keeps_ledger_def frame split: option.splits dest!: transition_hold_ledger)
  with step_cancel show ?case by (blast intro: keeps_ledger_ok)
next
  case (step_fail now wid reason db db' w)
  then have "keeps_ledger db db'"
    by (auto simp: fail_withdrawal_def res_simps Let_def keeps_ledger_def frame
        split: if_splits dest!: settle_active_hold_ledger)
  with step_fail show ?case by (blast intro: keeps_ledger_ok)
next
  case (step_detect now tenant wallet an txh oi amount c db db' d)
  then have "keeps_ledger db db'"
    by (auto simp: record_detected_deposit_def keeps_ledger_def Let_def frame
        split: sum.splits db_error.splits if_splits)
  with step_detect show ?case by (blast intro: keeps_ledger_ok)
next
  case (step_approve now wid approver decision reason db db' w)
  then have "keeps_ledger db db'"
    by (auto simp: approve_withdrawal_def keeps_ledger_def Let_def frame
        split: sum.splits db_error.splits if_splits)
  with step_approve show ?case by (blast intro: keeps_ledger_ok)
next
  case (custody_progress w db s)
  then show ?case by (auto simp: ledger_ok_def frame)
qed (auto simp: capture_hold_def release_hold_def intro: keeps_ledger_ok create_hold_ledger transition_hold_ledger)

text \<open>
  C7. The ledger is double-entry: in every state reachable from one whose ledger balances,
  each ledger transaction has positive entries whose debits and credits are equal, whatever
  the amounts.
\<close>

theorem reachable_ledger_balanced:
  assumes "(wallet_step st sha)\<^sup>*\<^sup>* db db'" "ledger_ok db" "t \<in> set (ledger_transactions db')"
  shows "tx_sum (um_id t) ''DEBIT'' (ledger_entries db') = tx_sum (um_id t) ''CREDIT'' (ledger_entries db')"
proof -
  from assms(1,2) have "ledger_ok db'"
    by (induction rule: rtranclp_induct) (auto intro: wallet_step_ledger)
  with assms(3) show ?thesis by (simp add: ledger_ok_def)
qed

definition demo_transferred :: "wallet_db \<times> internal_transfer" where
  "demo_transferred = (case create_internal_transfer demo_settings id 5 1 demo_actor (demo_wallet 10 2)
      (demo_wallet 11 3) demo_network 40 ''t1'' JNull demo_db of
     Inr r \<Rightarrow> r | Inl _ \<Rightarrow> undefined)"

theorem reachable_ledger_balanced_witness:
  "tx_sum 104 ''DEBIT'' (ledger_entries (fst demo_transferred)) = 40 \<and>
   tx_sum 104 ''CREDIT'' (ledger_entries (fst demo_transferred)) = 40"
proof -
  have r: "create_internal_transfer demo_settings id 5 1 demo_actor (demo_wallet 10 2)
      (demo_wallet 11 3) demo_network 40 ''t1'' JNull demo_db =
      Inr (fst demo_transferred, snd demo_transferred)" by code_simp
  have room: "\<forall>b \<in> set (balances demo_db). balance_key (um_id (demo_wallet 11 3)) (um_id demo_network) b \<longrightarrow>
      posted_atomic b + 40 < dec_limit" by code_simp
  have "wallet_step demo_settings id demo_db (fst demo_transferred)"
    using room by (intro step_transfer [OF r]) auto
  moreover have "ledger_ok demo_db" by code_simp
  moreover have t: "map um_id (ledger_transactions (fst demo_transferred)) = [104]" by code_simp
  then obtain t where "t \<in> set (ledger_transactions (fst demo_transferred))" "um_id t = 104" by auto
  moreover have "tx_sum 104 ''DEBIT'' (ledger_entries (fst demo_transferred)) = 40" by code_simp
  ultimately show ?thesis
    using reachable_ledger_balanced [of demo_settings id demo_db "fst demo_transferred" t]
    by (simp add: r_into_rtranclp)
qed

section \<open>What the balance check of \<open>post_transaction\<close> guarantees\<close>

definition item_sum :: "string \<Rightarrow> entry_item list \<Rightarrow> int" where
  "item_sum dir is = sum_where (\<lambda>i. ei_direction i = dir) ei_amount_atomic is"

lemma length_bump: "length t \<le> length (bump i t)"
proof -
  have "length t \<le> length (AList.update k v t)" for k and v :: "int \<times> int"
    by (induction t) auto
  then show ?thesis by (simp add: bump_def split: option.splits prod.splits)
qed

lemma length_tally: "tally is t = Inr t' \<Longrightarrow> length t \<le> length t'"
  by (induction "is" arbitrary: t) (auto split: if_splits intro: le_trans length_bump)

lemma item_sum_nonneg:
  "(\<And>i. i \<in> set is \<Longrightarrow> 0 < ei_amount_atomic i) \<Longrightarrow> 0 \<le> item_sum dir is"
  unfolding item_sum_def by (rule sum_where_nonneg) (auto intro: less_imp_le)

lemma tally_exact:
  assumes "tally is [(a, d, c)] = Inr [(a', d', c')]" "0 \<le> d" "0 \<le> c"
    "d + item_sum ''DEBIT'' is < dec_limit" "c + item_sum ''CREDIT'' is < dec_limit"
  shows "(\<forall>i \<in> set is. ei_asset i = a) \<and> d' = d + item_sum ''DEBIT'' is \<and> c' = c + item_sum ''CREDIT'' is"
  using assms
proof (induction "is" arbitrary: d c)
  case (Cons i "is")
  have pos: "0 < ei_amount_atomic j" if "j \<in> set (i # is)" for j
    using tally_positive [OF Cons.prems(1) that] .
  then have nn: "0 \<le> item_sum ''DEBIT'' is" "0 \<le> item_sum ''CREDIT'' is"
    by (auto intro!: item_sum_nonneg)
  from Cons.prems(1) have t: "tally is (bump i [(a, d, c)]) = Inr [(a', d', c')]"
    and dir: "ei_direction i \<in> {''DEBIT'', ''CREDIT''}"
    by (auto split: if_splits)
  have as: "ei_asset i = a"
  proof (rule ccontr)
    assume "ei_asset i \<noteq> a"
    then have "length (bump i [(a, d, c)]) = 2" by (simp add: bump_def)
    with length_tally [OF t] show False by simp
  qed
  show ?case
  proof (cases "ei_direction i = ''DEBIT''")
    case True
    have "dec_add d (ei_amount_atomic i) = d + ei_amount_atomic i"
      using True Cons.prems(2,4) pos [of i] nn by (intro dec_add_exact) (simp add: item_sum_def)
    with as True have "bump i [(a, d, c)] = [(a, d + ei_amount_atomic i, c)]"
      by (simp add: bump_def)
    with Cons.IH [of "d + ei_amount_atomic i" c] t True as Cons.prems(2-) pos [of i] show ?thesis
      by (simp add: item_sum_def)
  next
    case False
    with dir have cr: "ei_direction i = ''CREDIT''" by simp
    have "dec_add c (ei_amount_atomic i) = c + ei_amount_atomic i"
      using cr Cons.prems(3,5) pos [of i] nn by (intro dec_add_exact) (simp add: item_sum_def)
    with as cr have "bump i [(a, d, c)] = [(a, d, c + ei_amount_atomic i)]"
      by (simp add: bump_def)
    with Cons.IH [of d "c + ei_amount_atomic i"] t cr as Cons.prems(2-) pos [of i] show ?thesis
      by (simp add: item_sum_def)
  qed
qed (simp add: item_sum_def)

lemma tally_start: "tally (i # is) [] = Inr t \<Longrightarrow> tally (i # is) [(ei_asset i, 0, 0)] = Inr t"
  by (simp add: bump_def split: if_splits)

text \<open>
  C8. While the debit and credit totals stay below \<open>10 ^ 28\<close>, \<open>post_transaction\<close> accepts a
  list of entries only if they are positive, all in one asset and exactly balanced; a new
  transaction then appends one ledger entry per item and nothing else, and a key that was
  already posted in the tenant leaves the ledger as it is.
\<close>

theorem post_transaction_balanced:
  assumes "post_transaction now tenant ty key es md db = Inr (db', tx)"
    and "item_sum ''DEBIT'' es < dec_limit" "item_sum ''CREDIT'' es < dec_limit"
  shows "es \<noteq> [] \<and> (\<exists>a. \<forall>i \<in> set es. ei_asset i = a \<and> 0 < ei_amount_atomic i) \<and>
    item_sum ''DEBIT'' es = item_sum ''CREDIT'' es \<and>
    (if obj_first (ledger_key tenant key) (ledger_transactions db) = None
     then ledger_transactions db' = ledger_transactions db @ [tx] \<and>
       ledger_entries db' = ledger_entries db @ entry_rows now (um_id tx) es (Suc (um_id tx))
     else db' = db)"
proof -
  from assms(1) obtain a d where t: "tally es [] = Inr [(a, d, d)]" "es \<noteq> []"
    by (auto simp: post_transaction_def split: sum.splits list.splits if_splits)
  then obtain i r where es: "es = i # r" by (cases es) auto
  with t tally_exact [OF tally_start [of i r]] assms(2,3)
  have "\<forall>i \<in> set es. ei_asset i = ei_asset (hd es)" "item_sum ''DEBIT'' es = item_sum ''CREDIT'' es"
    by fastforce+
  moreover have "\<forall>i \<in> set es. 0 < ei_amount_atomic i" using tally_positive [OF t(1)] by blast
  moreover have "if obj_first (ledger_key tenant key) (ledger_transactions db) = None
     then ledger_transactions db' = ledger_transactions db @ [tx] \<and>
       ledger_entries db' = ledger_entries db @ entry_rows now (um_id tx) es (Suc (um_id tx))
     else db' = db"
    using assms(1) by (cases rule: post_transaction_cases) auto
  ultimately show ?thesis using t(2) by blast
qed

definition demo_posted :: "wallet_db \<times> ledger_transaction" where
  "demo_posted = (case post_transaction 5 1 ''MOVE'' ''m1'' (move_entries 7 8 30 12) JNull demo_db of
     Inr r \<Rightarrow> r | Inl _ \<Rightarrow> undefined)"

theorem post_transaction_balanced_witness:
  "item_sum ''DEBIT'' (move_entries 7 8 30 12) = 12 \<and>
   item_sum ''CREDIT'' (move_entries 7 8 30 12) = 12 \<and>
   ledger_entries (fst demo_posted) = entry_rows 5 100 (move_entries 7 8 30 12) 101"
proof -
  have r: "post_transaction 5 1 ''MOVE'' ''m1'' (move_entries 7 8 30 12) JNull demo_db =
      Inr (fst demo_posted, snd demo_posted)" by code_simp
  have s: "item_sum ''DEBIT'' (move_entries 7 8 30 12) = 12" "item_sum ''CREDIT'' (move_entries 7 8 30 12) = 12"
    by code_simp+
  have "um_id (snd demo_posted) = 100" "obj_first (ledger_key 1 ''m1'') (ledger_transactions demo_db) = None"
    "ledger_entries demo_db = []" by code_simp+
  with post_transaction_balanced [OF r] s show ?thesis by simp
qed


end
