(* ===== verification/Interfaces.thy ===== *)
theory Interfaces
  imports Prelude
begin

text \<open>
  The contracts several components of the backend share, as locales: state machines given by
  a transition table, idempotency stores that bind a request key to the hash of the first
  request, and inboxes that run a handler at most once per event. Client lemmas are proved
  here once and reach the components through their interpretations.
\<close>

section \<open>State machines\<close>

locale state_machine =
  fixes allowed :: "'s \<Rightarrow> 's list" and terminal :: "'s \<Rightarrow> bool"
  assumes terminal_iff: "terminal s \<longleftrightarrow> allowed s = []"
begin

text \<open>A history is a list of successive states, each move allowed by the table.\<close>

fun history :: "'s \<Rightarrow> 's list \<Rightarrow> bool" where
  "history s [] = True"
| "history s (t # ts) = (t \<in> set (allowed s) \<and> history t ts)"

lemma history_append: "history s (xs @ ys) \<longleftrightarrow> history s xs \<and> history (last (s # xs)) ys"
  by (induction xs arbitrary: s) auto

lemma terminal_final: "history s xs \<Longrightarrow> terminal s \<Longrightarrow> xs = []"
  by (cases xs) (auto simp: terminal_iff)

text \<open>A terminal state can only be the last state of a history.\<close>

lemma terminal_last:
  assumes "history s xs" "x \<in> set xs" "terminal x"
  shows "x = last xs"
proof -
  from assms(2) obtain ys zs where xs: "xs = ys @ x # zs" by (meson split_list)
  with assms(1) have "history x zs" by (auto simp: history_append)
  with assms(3) have "zs = []" by (rule terminal_final [rotated]) 
  with xs show ?thesis by simp
qed

lemma history_stops:
  "history s xs \<Longrightarrow> terminal (last (s # xs)) \<Longrightarrow> history s (xs @ ys) \<Longrightarrow> ys = []"
  by (auto simp: history_append dest: terminal_final)

end

text \<open>A machine whose moves strictly lower a rank cannot run for ever.\<close>

locale ranked_machine = state_machine allowed terminal
  for allowed :: "'s \<Rightarrow> 's list" and terminal :: "'s \<Rightarrow> bool" +
  fixes rank :: "'s \<Rightarrow> nat"
  assumes rank_less: "t \<in> set (allowed s) \<Longrightarrow> rank t < rank s"
begin

lemma history_bounded: "history s xs \<Longrightarrow> length xs + rank (last (s # xs)) \<le> rank s"
proof (induction xs arbitrary: s)
  case (Cons t ts)
  then have "length ts + rank (last (t # ts)) \<le> rank t" "rank t < rank s"
    by (auto dest: rank_less)
  then show ?case by simp
qed simp

lemma history_length: "history s xs \<Longrightarrow> length xs \<le> rank s"
  using history_bounded [of s xs] by simp

lemma history_distinct: "history s xs \<Longrightarrow> distinct (s # xs)"
proof (induction xs arbitrary: s)
  case (Cons t ts)
  have "x \<noteq> s" if "x \<in> set (t # ts)" for x
  proof -
    from that obtain ys zs where "t # ts = ys @ x # zs" by (meson split_list)
    with Cons.prems have "history s (ys @ [x])"
      by (metis history_append append.assoc append_Cons append_Nil)
    from history_bounded [OF this] show ?thesis by auto
  qed
  with Cons show ?case by auto
qed simp

end

section \<open>Idempotency stores\<close>

text \<open>
  \<open>lookup s k\<close> is the hash and the stored response of key \<open>k\<close>. \<open>reserve\<close> answers
  \<open>True\<close> for a new key and \<open>False\<close> with the record for a replay of the same request; a
  different request under a used key is an error.
\<close>

locale request_store =
  fixes lookup :: "'s \<Rightarrow> 'k \<Rightarrow> ('h \<times> 'v option) option"
    and hash :: "'p \<Rightarrow> 'h"
    and reserve :: "'k \<Rightarrow> 'p \<Rightarrow> 's \<Rightarrow> 'e + ('s \<times> 'r \<times> bool)"
    and complete :: "'r \<Rightarrow> 'v \<Rightarrow> 's \<Rightarrow> 's"
    and inv :: "'s \<Rightarrow> bool"
  assumes reserve_new: "inv s \<Longrightarrow> lookup s k = None \<Longrightarrow>
      \<exists>s' r. reserve k p s = Inr (s', r, True) \<and> lookup s' = (lookup s)(k \<mapsto> (hash p, None)) \<and>
             inv s' \<and> (\<forall>v. lookup (complete r v s') = (lookup s')(k \<mapsto> (hash p, Some v)) \<and>
                            inv (complete r v s'))"
    and reserve_same: "inv s \<Longrightarrow> lookup s k = Some (hash p, v) \<Longrightarrow> \<exists>r. reserve k p s = Inr (s, r, False)"
    and reserve_conflict: "inv s \<Longrightarrow> lookup s k = Some (h, v) \<Longrightarrow> h \<noteq> hash p \<Longrightarrow> \<exists>e. reserve k p s = Inl e"
begin

text \<open>A request executes when its key is new, and stores its response.\<close>

definition serve :: "'k \<Rightarrow> 'p \<Rightarrow> 'v \<Rightarrow> 's \<Rightarrow> 's \<times> bool" where
  "serve k p v s =
     (case reserve k p s of Inr (s', r, True) \<Rightarrow> (complete r v s', True) | _ \<Rightarrow> (s, False))"

fun serve_all :: "('k \<times> 'p \<times> 'v) list \<Rightarrow> 's \<Rightarrow> 's \<times> 'k list" where
  "serve_all [] s = (s, [])"
| "serve_all ((k, p, v) # qs) s =
     (let (s1, done) = serve k p v s; (s2, ks) = serve_all qs s1
      in (s2, (if done then k # ks else ks)))"

lemma serve_new:
  assumes "inv s" "lookup s k = None"
  shows "snd (serve k p v s) \<and> inv (fst (serve k p v s)) \<and>
    lookup (fst (serve k p v s)) = (lookup s)(k \<mapsto> (hash p, Some v))"
proof -
  from reserve_new [OF assms, of p] obtain s' r where r: "reserve k p s = Inr (s', r, True)"
    "lookup s' = (lookup s)(k \<mapsto> (hash p, None))" "inv s'"
    "\<forall>v. lookup (complete r v s') = (lookup s')(k \<mapsto> (hash p, Some v)) \<and> inv (complete r v s')" by blast
  then show ?thesis by (simp add: serve_def)
qed

lemma serve_seen:
  assumes "inv s" "lookup s k = Some e"
  shows "serve k p v s = (s, False)"
proof (cases "fst e = hash p")
  case True
  with assms reserve_same [of s k p "snd e"] obtain r where "reserve k p s = Inr (s, r, False)"
    by (metis prod.collapse)
  then show ?thesis by (simp add: serve_def)
next
  case False
  with assms reserve_conflict [of s k "fst e" "snd e" p] obtain x where "reserve k p s = Inl x"
    by (metis prod.collapse)
  then show ?thesis by (simp add: serve_def)
qed

text \<open>
  Whatever requests arrive in whatever order, each key executes at most once, and only if it
  was not in the store before; afterwards it is.
\<close>

lemma serve_all_once:
  "inv s \<Longrightarrow> serve_all qs s = (s', ks) \<Longrightarrow>
   distinct ks \<and> (\<forall>k \<in> set ks. lookup s k = None) \<and> inv s' \<and>
   dom (lookup s') = dom (lookup s) \<union> set ks \<and> set ks = fst ` set qs - dom (lookup s)"
proof (induction qs arbitrary: s ks)
  case (Cons q qs)
  obtain k p v where q: "q = (k, p, v)" by (cases q)
  obtain s2 ks2 where rest: "serve_all qs (fst (serve k p v s)) = (s2, ks2)" by fastforce
  show ?case
  proof (cases "lookup s k")
    case None
    note n = serve_new [OF Cons.prems(1) None, of p v]
    from Cons.prems(2) q rest n have ks: "ks = k # ks2" "s' = s2"
      by (auto simp: Let_def split: prod.splits)
    have ih: "distinct ks2 \<and> (\<forall>k' \<in> set ks2. lookup (fst (serve k p v s)) k' = None) \<and> inv s' \<and>
      dom (lookup s') = dom (lookup (fst (serve k p v s))) \<union> set ks2 \<and>
      set ks2 = fst ` set qs - dom (lookup (fst (serve k p v s)))"
      by (rule Cons.IH) (use n rest ks in simp_all)
    have D: "dom (lookup (fst (serve k p v s))) = insert k (dom (lookup s))" using n by simp
    from ih have a: "distinct ks2" "inv s'" "dom (lookup s') = insert k (dom (lookup s)) \<union> set ks2"
        "set ks2 = fst ` set qs - insert k (dom (lookup s))"
      unfolding D by - (elim conjE, assumption)+
    from a(4) have "k \<notin> set ks2" "\<forall>k' \<in> set ks2. lookup s k' = None" by auto
    moreover have "k \<notin> dom (lookup s)" using None by (simp add: domIff)
    ultimately show ?thesis unfolding ks(1) q using a None by auto
  next
    case (Some e)
    note n = serve_seen [OF Cons.prems(1) Some, of p v]
    from Cons.prems(2) q rest n have "ks = ks2" "s' = s2" by auto
    with Cons.IH [of s ks2] rest n Cons.prems(1) Some q show ?thesis by auto
  qed
qed auto

end

section \<open>Inboxes\<close>

text \<open>
  \<open>seen t k\<close> is the payload hash recorded for event \<open>k\<close>; \<open>consume\<close> runs the handler on
  the application state inside the transaction that records the event.
\<close>

locale inbox =
  fixes seen :: "'t \<Rightarrow> 'k \<Rightarrow> 'h option"
    and consume :: "'k \<Rightarrow> 'h \<Rightarrow> ('d \<Rightarrow> 'e + 'd) \<Rightarrow> 't \<times> 'd \<Rightarrow> 'e + (('t \<times> 'd) \<times> bool)"
  assumes consume_new: "seen t k = None \<Longrightarrow> handler d = Inr d' \<Longrightarrow>
      \<exists>t'. consume k h handler (t, d) = Inr ((t', d'), True) \<and> seen t' = (seen t)(k \<mapsto> h)"
    and consume_failed: "seen t k = None \<Longrightarrow> handler d = Inl e \<Longrightarrow> \<exists>e'. consume k h handler (t, d) = Inl e'"
    and consume_duplicate: "seen t k = Some h \<Longrightarrow> consume k h handler (t, d) = Inr ((t, d), False)"
    and consume_conflict: "seen t k = Some h' \<Longrightarrow> h' \<noteq> h \<Longrightarrow> \<exists>e. consume k h handler (t, d) = Inl e"
begin

definition deliver :: "('k \<Rightarrow> 'd \<Rightarrow> 'e + 'd) \<Rightarrow> 'k \<times> 'h \<Rightarrow> 't \<times> 'd \<Rightarrow> ('t \<times> 'd) \<times> bool" where
  "deliver handler q s = (case consume (fst q) (snd q) (handler (fst q)) s of Inr r \<Rightarrow> r | Inl _ \<Rightarrow> (s, False))"

fun deliver_all :: "('k \<Rightarrow> 'd \<Rightarrow> 'e + 'd) \<Rightarrow> ('k \<times> 'h) list \<Rightarrow> 't \<times> 'd \<Rightarrow> ('t \<times> 'd) \<times> 'k list" where
  "deliver_all handler [] s = (s, [])"
| "deliver_all handler (q # qs) s =
     (let (s1, eff) = deliver handler q s; (s2, ks) = deliver_all handler qs s1
      in (s2, (if eff then fst q # ks else ks)))"

text \<open>
  The application state after any sequence of deliveries, with repetitions, conflicts and
  failures, is the one reached by running the handler once for each event in \<open>ks\<close>, an event
  list without repetition.
\<close>

fun effects :: "('k \<Rightarrow> 'd \<Rightarrow> 'e + 'd) \<Rightarrow> 'k list \<Rightarrow> 'd \<Rightarrow> 'e + 'd" where
  "effects handler [] d = Inr d"
| "effects handler (k # ks) d = rbind (handler k d) (effects handler ks)"

lemma deliver_cases:
  "(\<exists>t'. deliver handler (k, h) (t, d) = ((t', d'), True) \<and> seen t' = (seen t)(k \<mapsto> h) \<and>
         seen t k = None \<and> handler k d = Inr d') \<or>
   deliver handler (k, h) (t, d) = ((t, d), False)" if "handler k d = Inr d' \<or> handler k d = Inl e"
proof (cases "seen t k")
  case None
  with that show ?thesis
    using consume_new [OF None, of "handler k" d d' h] consume_failed [OF None, of "handler k" d e h]
    by (auto simp: deliver_def)
next
  case (Some h')
  then show ?thesis
    using consume_duplicate [of t k h "handler k" d] consume_conflict [of t k h' h "handler k" d]
    by (cases "h' = h") (auto simp: deliver_def)
qed

lemma deliver_all_once:
  "deliver_all handler qs (t, d) = ((t', d'), ks) \<Longrightarrow>
   distinct ks \<and> (\<forall>k \<in> set ks. seen t k = None) \<and>
   dom (seen t') = dom (seen t) \<union> set ks \<and> effects handler ks d = Inr d'"
proof (induction qs arbitrary: t d ks)
  case (Cons q qs)
  obtain k h where q: "q = (k, h)" by (cases q)
  consider (eff) t1 d1 where "deliver handler (k, h) (t, d) = ((t1, d1), True)"
      "seen t1 = (seen t)(k \<mapsto> h)" "seen t k = None" "handler k d = Inr d1"
    | (none) "deliver handler (k, h) (t, d) = ((t, d), False)"
    using deliver_cases [of handler k d _ _ h t] by (metis sum.exhaust)
  then show ?case
  proof cases
    case eff
    obtain s2 ks2 where rest: "deliver_all handler qs (t1, d1) = (s2, ks2)" by fastforce
    with Cons.prems q eff(1) have ks: "ks = k # ks2" "s2 = (t', d')" by auto
    from Cons.IH [of t1 d1 ks2] rest ks eff show ?thesis by (auto split: if_splits)
  next
    case none
    obtain s2 ks2 where rest: "deliver_all handler qs (t, d) = (s2, ks2)" by fastforce
    with Cons.prems q none Cons.IH [of t d ks2] show ?thesis by auto
  qed
qed auto

end

end
