(* ===== verification/Wallet_Requests.thy ===== *)
theory Wallet_Requests
  imports Wallet_Accounting Interfaces
begin




















end
