(* ===== verification/Foundation.thy ===== *)
theory Foundation
  imports Json Interfaces
begin

text \<open>
  \<open>apps/foundation\<close>: the transactional outbox with leases, retries and dead letters, the
  consume-once inbox, idempotent requests and the append-only audit trail.
\<close>

section \<open>Tables\<close>

datatype outbox_state = OutboxPending | OutboxClaimed | OutboxPublished | OutboxDeadLetter

record foundation_outbox_event =
  fo_id :: nat
  fo_event_id :: uuid
  fo_aggregate_type :: string
  fo_aggregate_id :: string
  fo_event_type :: string
  fo_schema_version :: nat
  fo_payload :: json
  fo_correlation_id :: uuid
  fo_causation_id :: "uuid option"
  fo_tenant_ref :: string
  fo_occurred_at :: timestamp
  fo_created_at :: timestamp
  fo_published_at :: "timestamp option"
  fo_attempt_count :: nat
  fo_next_attempt_at :: "timestamp option"
  fo_last_error :: string
  fo_state :: outbox_state
  fo_claimed_at :: "timestamp option"

record processed_event =
  pe_event_id :: uuid
  pe_consumer_name :: string
  pe_payload_hash :: string
  pe_processed_at :: timestamp

record foundation_idempotency =
  fi_id :: nat
  fi_key :: string
  fi_tenant_ref :: string
  fi_actor_ref :: string
  fi_endpoint :: string
  fi_method :: string
  fi_request_hash :: string
  fi_response_status :: "nat option"
  fi_response_body :: "json option"
  fi_resource_type :: string
  fi_resource_id :: string
  fi_created_at :: timestamp
  fi_expires_at :: timestamp

record application_audit_event =
  aa_event_id :: uuid
  aa_actor_ref :: string
  aa_action :: string
  aa_resource_type :: string
  aa_resource_id :: string
  aa_before_hash :: string
  aa_after_hash :: string
  aa_request_id :: string
  aa_correlation_id :: uuid
  aa_context :: json
  aa_reason :: string
  aa_occurred_at :: timestamp

datatype control_state = CtlActive | CtlCloseOnly | CtlCancelOnly | CtlHalted | CtlMaintenance

datatype control_scope = ScopePlatform | ScopeAssetClass | ScopeInstrument | ScopeAccount | ScopeProvider

record trading_control =
  tc_scope :: control_scope
  tc_scope_ref :: string
  tc_state :: control_state
  tc_reason :: string
  tc_request_id :: string
  tc_changed_by_ref :: string
  tc_created_at :: timestamp

datatype foundation_error =
    FIdempotencyConflict
  | FValueError string
  | FArithmeticError
  | FPyError string
  | FDbError db_error

section \<open>Outbox\<close>

record foundation_outbox =
  ob_next_pk :: nat
  ob_next_uuid :: uuid
  ob_rows :: "foundation_outbox_event list"

text \<open>\<open>payload_hash\<close> of \<open>events.py\<close>; \<open>sha\<close> is \<open>hashlib.sha256(...).hexdigest()\<close>.\<close>

definition payload_hash :: "(string \<Rightarrow> string) \<Rightarrow> json \<Rightarrow> string" where
  "payload_hash sha payload = sha (dumps payload)"

definition enqueue_event ::
  "timestamp \<Rightarrow> string \<Rightarrow> string \<Rightarrow> string \<Rightarrow> json \<Rightarrow> string \<Rightarrow> uuid option \<Rightarrow> uuid option \<Rightarrow>
   timestamp option \<Rightarrow> foundation_outbox \<Rightarrow> foundation_outbox \<times> foundation_outbox_event" where
  "enqueue_event now aggregate_type aggregate_id event_type payload tenant_ref correlation_id
     causation_id occurred_at ob =
     (let (corr, u) = (case correlation_id of Some c \<Rightarrow> (c, ob_next_uuid ob)
                         | None \<Rightarrow> (ob_next_uuid ob, Suc (ob_next_uuid ob)));
          row = \<lparr>fo_id = ob_next_pk ob, fo_event_id = u, fo_aggregate_type = aggregate_type,
                 fo_aggregate_id = aggregate_id, fo_event_type = event_type, fo_schema_version = 1,
                 fo_payload = payload, fo_correlation_id = corr, fo_causation_id = causation_id,
                 fo_tenant_ref = tenant_ref,
                 fo_occurred_at = (case occurred_at of Some t \<Rightarrow> t | None \<Rightarrow> now),
                 fo_created_at = now, fo_published_at = None, fo_attempt_count = 0,
                 fo_next_attempt_at = None, fo_last_error = '''', fo_state = OutboxPending,
                 fo_claimed_at = None\<rparr>
      in (ob\<lparr>ob_next_pk := Suc (ob_next_pk ob), ob_next_uuid := Suc u, ob_rows := ob_rows ob @ [row]\<rparr>, row))"

definition claim_eligible :: "timestamp \<Rightarrow> int \<Rightarrow> foundation_outbox_event \<Rightarrow> bool" where
  "claim_eligible now lease_seconds r \<longleftrightarrow>
     (fo_state r = OutboxPending \<and>
        (case fo_next_attempt_at r of None \<Rightarrow> True | Some t \<Rightarrow> t \<le> now)) \<or>
     (fo_state r = OutboxClaimed \<and>
        (case fo_claimed_at r of None \<Rightarrow> False | Some t \<Rightarrow> t \<le> now - seconds lease_seconds))"

definition claim_outbox_batch ::
  "timestamp \<Rightarrow> nat \<Rightarrow> int \<Rightarrow> foundation_outbox \<Rightarrow> foundation_outbox \<times> foundation_outbox_event list" where
  "claim_outbox_batch now limit lease_seconds ob =
     (let picked = take limit (filter (claim_eligible now lease_seconds) (ob_rows ob));
          mark = (\<lambda>r. r\<lparr>fo_state := OutboxClaimed, fo_claimed_at := Some now\<rparr>)
      in (ob\<lparr>ob_rows := upd_where (\<lambda>r. fo_id r \<in> set (map fo_id picked)) mark (ob_rows ob)\<rparr>,
          map mark picked))"

text \<open>\<open>jitter\<close> is \<open>random.random()\<close> in microseconds, \<open>error_code\<close> empty for success.\<close>

definition retry_delay_seconds :: "nat \<Rightarrow> int" where
  "retry_delay_seconds attempts = min 300 (2 ^ min attempts 8)"

definition publish_row ::
  "timestamp \<Rightarrow> int \<Rightarrow> string \<Rightarrow> nat \<Rightarrow> foundation_outbox_event \<Rightarrow> foundation_outbox_event" where
  "publish_row now jitter error_code maximum_attempts r0 =
     (let r = r0\<lparr>fo_attempt_count := Suc (fo_attempt_count r0)\<rparr>
      in if error_code = '''' then
           r\<lparr>fo_state := OutboxPublished, fo_published_at := Some now, fo_last_error := ''''\<rparr>
         else if maximum_attempts \<le> fo_attempt_count r then
           r\<lparr>fo_state := OutboxDeadLetter, fo_last_error := take 128 error_code\<rparr>
         else
           r\<lparr>fo_state := OutboxPending,
             fo_next_attempt_at := Some (now + seconds (retry_delay_seconds (fo_attempt_count r)) + jitter),
             fo_last_error := take 128 error_code\<rparr>)"

definition mark_publish_result ::
  "timestamp \<Rightarrow> int \<Rightarrow> nat \<Rightarrow> string \<Rightarrow> nat \<Rightarrow> foundation_outbox \<Rightarrow>
   (foundation_error, foundation_outbox \<times> foundation_outbox_event) res" where
  "mark_publish_result now jitter pk error_code maximum_attempts ob =
     (case obj_get (\<lambda>r. fo_id r = pk) (ob_rows ob) of
        Inl e \<Rightarrow> Inl (FDbError e)
      | Inr row \<Rightarrow>
          let row' = publish_row now jitter error_code maximum_attempts row
          in Inr (ob\<lparr>ob_rows := upd_where (\<lambda>r. fo_id r = fo_id row) (\<lambda>_. row') (ob_rows ob)\<rparr>, row'))"

section \<open>Consume-once inbox\<close>

definition processed_key :: "uuid \<Rightarrow> string \<Rightarrow> processed_event \<Rightarrow> bool" where
  "processed_key event_id consumer_name p \<longleftrightarrow>
     pe_event_id p = event_id \<and> pe_consumer_name p = consumer_name"

definition consume_digest ::
  "timestamp \<Rightarrow> uuid \<Rightarrow> string \<Rightarrow> string \<Rightarrow> ('d \<Rightarrow> (foundation_error, 'd) res) \<Rightarrow>
   processed_event list \<times> 'd \<Rightarrow> (foundation_error, (processed_event list \<times> 'd) \<times> bool) res" where
  "consume_digest now event_id consumer_name digest mutation s =
     (case obj_first (processed_key event_id consumer_name) (fst s) of
        Some p \<Rightarrow>
          if pe_payload_hash p \<noteq> digest then Inl (FValueError ''EVENT_PAYLOAD_CONFLICT'')
          else Inr (s, False)
      | None \<Rightarrow>
          (case mutation (snd s) of
             Inl (FDbError (IntegrityError _)) \<Rightarrow> Inl (FDbError DoesNotExist)
           | Inl e \<Rightarrow> Inl e
           | Inr d \<Rightarrow>
               Inr ((fst s @ [\<lparr>pe_event_id = event_id, pe_consumer_name = consumer_name,
                               pe_payload_hash = digest, pe_processed_at = now\<rparr>], d), True)))"

definition consume_once ::
  "(string \<Rightarrow> string) \<Rightarrow> timestamp \<Rightarrow> uuid \<Rightarrow> json \<Rightarrow> string \<Rightarrow> ('d \<Rightarrow> (foundation_error, 'd) res) \<Rightarrow>
   processed_event list \<times> 'd \<Rightarrow> (foundation_error, (processed_event list \<times> 'd) \<times> bool) res" where
  "consume_once sha now event_id payload consumer_name mutation s =
     consume_digest now event_id consumer_name (payload_hash sha payload) mutation s"

lemma consume_once_cases:
  assumes "consume_once sha now i p c m s = Inr (s', b)"
  obtains (replay) "\<not> b" "s' = s" | (run) "b" "m (snd s) = Inr (snd s')"
  using assms by (auto simp: consume_once_def consume_digest_def
      split: option.splits sum.splits if_splits foundation_error.splits db_error.splits)

definition processed_hash :: "processed_event list \<Rightarrow> uuid \<times> string \<Rightarrow> string option" where
  "processed_hash t k = map_option pe_payload_hash (obj_first (processed_key (fst k) (snd k)) t)"

lemma processed_hash_snoc:
  "processed_hash t k = None \<Longrightarrow>
   processed_hash (t @ [\<lparr>pe_event_id = fst k, pe_consumer_name = snd k, pe_payload_hash = h,
                         pe_processed_at = now\<rparr>]) = (processed_hash t)(k \<mapsto> h)"
  by (rule ext) (auto simp: processed_hash_def obj_first_append processed_key_def prod_eq_iff
      split: option.splits)

interpretation foundation_inbox: inbox processed_hash
  "\<lambda>k h m. consume_digest now (fst k) (snd k) h m" for now
proof
  fix t k d d' h and handler :: "'c \<Rightarrow> (foundation_error, 'c) res"
  assume "processed_hash t k = None" "handler d = Inr d'"
  then show "\<exists>t'. consume_digest now (fst k) (snd k) h handler (t, d) = Inr ((t', d'), True) \<and>
      processed_hash t' = (processed_hash t)(k \<mapsto> h)"
    using processed_hash_snoc [of t k h now] by (auto simp: consume_digest_def processed_hash_def)
next
  fix t k d e h and handler :: "'c \<Rightarrow> (foundation_error, 'c) res"
  assume "processed_hash t k = None" "handler d = Inl e"
  then show "\<exists>e'. consume_digest now (fst k) (snd k) h handler (t, d) = Inl e'"
    by (auto simp: consume_digest_def processed_hash_def split: foundation_error.splits db_error.splits)
next
  fix t k h d and handler :: "'c \<Rightarrow> (foundation_error, 'c) res"
  assume "processed_hash t k = Some h"
  then show "consume_digest now (fst k) (snd k) h handler (t, d) = Inr ((t, d), False)"
    by (auto simp: consume_digest_def processed_hash_def)
next
  fix t k h h' d and handler :: "'c \<Rightarrow> (foundation_error, 'c) res"
  assume "processed_hash t k = Some h'" "h' \<noteq> h"
  then show "\<exists>e. consume_digest now (fst k) (snd k) h handler (t, d) = Inl e"
    by (auto simp: consume_digest_def processed_hash_def)
qed

section \<open>Idempotent requests\<close>

record foundation_requests =
  fr_next_pk :: nat
  fr_rows :: "foundation_idempotency list"

definition request_scope ::
  "string \<Rightarrow> string \<Rightarrow> string \<Rightarrow> string \<Rightarrow> string \<Rightarrow> foundation_idempotency \<Rightarrow> bool" where
  "request_scope key tenant_ref actor_ref endpoint meth r \<longleftrightarrow>
     fi_key r = key \<and> fi_tenant_ref r = tenant_ref \<and> fi_actor_ref r = actor_ref \<and>
     fi_endpoint r = endpoint \<and> fi_method r = meth"

definition foundation_request_hash :: "(string \<Rightarrow> string) \<Rightarrow> json \<Rightarrow> string" where
  "foundation_request_hash sha data = payload_hash sha data"

text \<open>
  The insert either succeeds or hits \<open>idempotency_scope_unique\<close>, and then the existing row is
  read with \<open>get\<close>.
\<close>

definition begin_scoped_request ::
  "(string \<Rightarrow> string) \<Rightarrow> timestamp \<Rightarrow> string \<Rightarrow> string \<Rightarrow> string \<Rightarrow> string \<Rightarrow> string \<Rightarrow> json \<Rightarrow> int \<Rightarrow>
   foundation_requests \<Rightarrow> (foundation_error, foundation_requests \<times> foundation_idempotency \<times> bool) res" where
  "begin_scoped_request sha now key tenant_ref actor_ref endpoint meth request_data ttl rq =
     (let digest = foundation_request_hash sha request_data;
          scope = request_scope key tenant_ref actor_ref endpoint meth
      in if \<not> obj_exists scope (fr_rows rq) then
           let r = \<lparr>fi_id = fr_next_pk rq, fi_key = key, fi_tenant_ref = tenant_ref,
                    fi_actor_ref = actor_ref, fi_endpoint = endpoint, fi_method = meth,
                    fi_request_hash = digest, fi_response_status = None, fi_response_body = None,
                    fi_resource_type = '''', fi_resource_id = '''', fi_created_at = now,
                    fi_expires_at = now + ttl\<rparr>
           in Inr (rq\<lparr>fr_next_pk := Suc (fr_next_pk rq), fr_rows := fr_rows rq @ [r]\<rparr>, r, True)
         else case obj_get scope (fr_rows rq) of
           Inl e \<Rightarrow> Inl (FDbError e)
         | Inr r \<Rightarrow>
             if fi_request_hash r \<noteq> digest then Inl FIdempotencyConflict else Inr (rq, r, False))"

definition begin_idempotent_request ::
  "(string \<Rightarrow> string) \<Rightarrow> timestamp \<Rightarrow> string \<Rightarrow> string \<Rightarrow> string \<Rightarrow> string \<Rightarrow> string \<Rightarrow> json \<Rightarrow> int \<Rightarrow>
   foundation_requests \<Rightarrow> (foundation_error, foundation_requests \<times> foundation_idempotency \<times> bool) res" where
  "begin_idempotent_request sha now key tenant_ref actor_ref endpoint meth request_data ttl rq =
     begin_scoped_request sha now key tenant_ref actor_ref endpoint (upper meth) request_data ttl rq"

definition complete_idempotent_request ::
  "foundation_idempotency \<Rightarrow> nat \<Rightarrow> json \<Rightarrow> string \<Rightarrow> string \<Rightarrow> foundation_requests \<Rightarrow> foundation_requests" where
  "complete_idempotent_request r status body resource_type resource_id rq =
     rq\<lparr>fr_rows := upd_where (\<lambda>x. fi_id x = fi_id r)
        (\<lambda>x. x\<lparr>fi_response_status := Some status, fi_response_body := Some body,
              fi_resource_type := resource_type, fi_resource_id := resource_id\<rparr>) (fr_rows rq)\<rparr>"

section \<open>Append-only audit\<close>

definition save_application_audit ::
  "application_audit_event \<Rightarrow> application_audit_event list \<Rightarrow> (foundation_error, application_audit_event list) res" where
  "save_application_audit ev t =
     (if obj_exists (\<lambda>x. aa_event_id x = aa_event_id ev) t then Inl (FValueError ''AUDIT_EVENT_APPEND_ONLY'')
      else Inr (t @ [ev]))"

definition delete_application_audit ::
  "uuid \<Rightarrow> application_audit_event list \<Rightarrow> (foundation_error, application_audit_event list) res" where
  "delete_application_audit ev t = Inl (FValueError ''AUDIT_EVENT_APPEND_ONLY'')"

section \<open>The request table is an idempotency store\<close>

type_synonym foundation_key = "string \<times> string \<times> string \<times> string \<times> string"
type_synonym foundation_response = "nat \<times> json \<times> string \<times> string"

fun row_scope :: "foundation_key \<Rightarrow> foundation_idempotency \<Rightarrow> bool" where
  "row_scope (k, t, a, e, m) r = request_scope k t a e m r"

definition row_response :: "foundation_idempotency \<Rightarrow> foundation_response option" where
  "row_response r =
     (case (fi_response_status r, fi_response_body r) of
        (Some s, Some b) \<Rightarrow> Some (s, b, fi_resource_type r, fi_resource_id r)
      | _ \<Rightarrow> None)"

definition foundation_lookup ::
  "foundation_requests \<Rightarrow> foundation_key \<Rightarrow> (string \<times> foundation_response option) option" where
  "foundation_lookup rq k =
     map_option (\<lambda>r. (fi_request_hash r, row_response r)) (obj_first (row_scope k) (fr_rows rq))"

fun foundation_reserve ::
  "(string \<Rightarrow> string) \<Rightarrow> timestamp \<Rightarrow> foundation_key \<Rightarrow> json \<Rightarrow> foundation_requests \<Rightarrow>
   (foundation_error, foundation_requests \<times> foundation_idempotency \<times> bool) res" where
  "foundation_reserve sha now (k, t, a, e, m) p rq =
     begin_scoped_request sha now k t a e m p (seconds 86400) rq"

fun foundation_complete ::
  "foundation_idempotency \<Rightarrow> foundation_response \<Rightarrow> foundation_requests \<Rightarrow> foundation_requests" where
  "foundation_complete r (s, b, rt, ri) rq = complete_idempotent_request r s b rt ri rq"

definition scope_of :: "foundation_idempotency \<Rightarrow> foundation_key" where
  "scope_of r = (fi_key r, fi_tenant_ref r, fi_actor_ref r, fi_endpoint r, fi_method r)"

definition foundation_requests_wf :: "foundation_requests \<Rightarrow> bool" where
  "foundation_requests_wf rq \<longleftrightarrow>
     distinct (map fi_id (fr_rows rq)) \<and> (\<forall>r \<in> set (fr_rows rq). fi_id r < fr_next_pk rq) \<and>
     distinct (map scope_of (fr_rows rq))"

lemma row_scope_eq: "row_scope k r \<longleftrightarrow> scope_of r = k"
  by (cases k) (auto simp: request_scope_def scope_of_def)

lemma row_scope_fun: "row_scope (k, t, a, e, m) = request_scope k t a e m"
  by (rule ext) simp

lemma foundation_reserve_eq:
  "foundation_reserve sha now k p rq =
     (if \<not> obj_exists (row_scope k) (fr_rows rq) then
        (let r = \<lparr>fi_id = fr_next_pk rq, fi_key = fst k, fi_tenant_ref = fst (snd k),
                  fi_actor_ref = fst (snd (snd k)), fi_endpoint = fst (snd (snd (snd k))),
                  fi_method = snd (snd (snd (snd k))),
                  fi_request_hash = foundation_request_hash sha p, fi_response_status = None,
                  fi_response_body = None, fi_resource_type = [], fi_resource_id = [],
                  fi_created_at = now, fi_expires_at = now + seconds 86400\<rparr>
         in Inr (rq\<lparr>fr_next_pk := Suc (fr_next_pk rq), fr_rows := fr_rows rq @ [r]\<rparr>, r, True))
      else case obj_get (row_scope k) (fr_rows rq) of
        Inl e \<Rightarrow> Inl (FDbError e)
      | Inr r \<Rightarrow> if fi_request_hash r \<noteq> foundation_request_hash sha p then Inl FIdempotencyConflict
                 else Inr (rq, r, False))"
  by (cases k) (simp add: begin_scoped_request_def Let_def row_scope_fun)

lemma unique_get_first:
  assumes "distinct (map scope_of t)" "obj_first (row_scope k) t = Some r"
  shows "obj_get (row_scope k) t = Inr r"
  using assms
proof (induction t)
  case (Cons x t)
  show ?case
  proof (cases "row_scope k x")
    case True
    with Cons.prems have "\<forall>y \<in> set t. \<not> row_scope k y" by (auto simp: row_scope_eq image_iff)
    with True Cons.prems show ?thesis by (simp add: obj_get_Inr_filter filter_empty_conv)
  next
    case False
    with Cons show ?thesis by (simp add: obj_get_Inr_filter)
  qed
qed simp

lemma foundation_complete_lookup:
  assumes "foundation_requests_wf rq" "r \<in> set (fr_rows rq)"
    "foundation_lookup rq (scope_of r) = Some (h, v0)"
  shows "foundation_lookup (foundation_complete r v rq) = (foundation_lookup rq)(scope_of r \<mapsto> (h, Some v))"
proof
  fix k'
  obtain s b rt ri where v: "v = (s, b, rt, ri)" by (cases v)
  let ?f = "\<lambda>x. if fi_id x = fi_id r then x\<lparr>fi_response_status := Some s, fi_response_body := Some b,
      fi_resource_type := rt, fi_resource_id := ri\<rparr> else x"
  have first_map: "obj_first (row_scope k') (map ?f t) = map_option ?f (obj_first (row_scope k') t)" for t
    by (induction t) (auto simp: row_scope_eq scope_of_def)
  then have look: "foundation_lookup (foundation_complete r v rq) k' =
      map_option (\<lambda>x. (fi_request_hash (?f x), row_response (?f x))) (obj_first (row_scope k') (fr_rows rq))"
    by (simp add: foundation_lookup_def v complete_idempotent_request_def upd_where_def
        option.map_comp comp_def)
  have same: "x = r" if "x \<in> set (fr_rows rq)" "scope_of x = scope_of r \<or> fi_id x = fi_id r" for x
    using that assms(1,2) key_unique [of scope_of "fr_rows rq" x r] key_unique [of fi_id "fr_rows rq" x r]
    by (auto simp: foundation_requests_wf_def)
  show "foundation_lookup (foundation_complete r v rq) k' =
      ((foundation_lookup rq)(scope_of r \<mapsto> (h, Some v))) k'"
  proof (cases "obj_first (row_scope k') (fr_rows rq)")
    case None
    with look assms(2,3) show ?thesis by (auto simp: foundation_lookup_def)
  next
    case (Some x)
    then have x: "x \<in> set (fr_rows rq)" "scope_of x = k'"
      by (auto simp: row_scope_eq dest: obj_first_Some)
    with look Some assms(3) same [of x] show ?thesis
      by (auto simp: foundation_lookup_def row_response_def v)
  qed
qed

lemma foundation_complete_wf: "foundation_requests_wf rq \<Longrightarrow> foundation_requests_wf (foundation_complete r v rq)"
proof -
  assume wf: "foundation_requests_wf rq"
  let ?rq = "foundation_complete r v rq"
  have ids: "map fi_id (fr_rows ?rq) = map fi_id (fr_rows rq)"
    by (cases v) (auto simp: complete_idempotent_request_def intro!: map_upd_where)
  have scopes: "map scope_of (fr_rows ?rq) = map scope_of (fr_rows rq)"
    by (cases v) (auto simp: complete_idempotent_request_def scope_of_def intro!: map_upd_where)
  have "fr_next_pk ?rq = fr_next_pk rq" by (cases v) (simp add: complete_idempotent_request_def)
  moreover have "fi_id ` set (fr_rows ?rq) = fi_id ` set (fr_rows rq)" using ids by (metis set_map)
  ultimately show ?thesis
    using wf unfolding foundation_requests_wf_def ids scopes by (auto simp: image_iff dest!: equalityD1)
qed

interpretation foundation_store: request_store foundation_lookup "foundation_request_hash sha"
  "foundation_reserve sha now" foundation_complete foundation_requests_wf for sha now
proof
  fix rq k p
  assume wf: "foundation_requests_wf rq" and none: "foundation_lookup rq k = None"
  then have fresh: "\<forall>r \<in> set (fr_rows rq). scope_of r \<noteq> k"
    by (simp add: foundation_lookup_def obj_first_None row_scope_eq)
  then obtain r where r: "foundation_reserve sha now k p rq =
      Inr (rq\<lparr>fr_next_pk := Suc (fr_next_pk rq), fr_rows := fr_rows rq @ [r]\<rparr>, r, True)"
      "fi_id r = fr_next_pk rq" "scope_of r = k" "fi_request_hash r = foundation_request_hash sha p"
      "row_response r = None"
    by (auto simp: foundation_reserve_eq Let_def row_scope_eq scope_of_def row_response_def)
  let ?rq = "rq\<lparr>fr_next_pk := Suc (fr_next_pk rq), fr_rows := fr_rows rq @ [r]\<rparr>"
  have look: "foundation_lookup ?rq = (foundation_lookup rq)(k \<mapsto> (foundation_request_hash sha p, None))"
    using r(3-5) fresh none
    by (intro ext) (auto simp: foundation_lookup_def obj_first_append row_scope_eq split: option.splits)
  have wf': "foundation_requests_wf ?rq" using wf r fresh by (auto simp: foundation_requests_wf_def)
  have "foundation_lookup (foundation_complete r v ?rq) =
      (foundation_lookup ?rq)(k \<mapsto> (foundation_request_hash sha p, Some v))" for v
    using foundation_complete_lookup [OF wf', of r] r(3) look by simp
  with r(1) look wf' foundation_complete_wf [OF wf']
  show "\<exists>s' r. foundation_reserve sha now k p rq = Inr (s', r, True) \<and>
      foundation_lookup s' = (foundation_lookup rq)(k \<mapsto> (foundation_request_hash sha p, None)) \<and>
      foundation_requests_wf s' \<and>
      (\<forall>v. foundation_lookup (foundation_complete r v s') =
             (foundation_lookup s')(k \<mapsto> (foundation_request_hash sha p, Some v)) \<and>
           foundation_requests_wf (foundation_complete r v s'))" by blast
next
  fix rq k p v
  assume wf: "foundation_requests_wf rq" and "foundation_lookup rq k = Some (foundation_request_hash sha p, v)"
  then obtain r where f: "obj_first (row_scope k) (fr_rows rq) = Some r"
    "fi_request_hash r = foundation_request_hash sha p" by (auto simp: foundation_lookup_def)
  with wf have "obj_get (row_scope k) (fr_rows rq) = Inr r"
    by (auto simp: foundation_requests_wf_def intro: unique_get_first)
  with f show "\<exists>r. foundation_reserve sha now k p rq = Inr (rq, r, False)"
    by (auto simp: foundation_reserve_eq dest: obj_first_Some)
next
  fix rq k p h v
  assume wf: "foundation_requests_wf rq" and "foundation_lookup rq k = Some (h, v)"
    and ne: "h \<noteq> foundation_request_hash sha p"
  then obtain r where f: "obj_first (row_scope k) (fr_rows rq) = Some r" "fi_request_hash r = h"
    by (auto simp: foundation_lookup_def)
  with wf have "obj_get (row_scope k) (fr_rows rq) = Inr r"
    by (auto simp: foundation_requests_wf_def intro: unique_get_first)
  with f ne show "\<exists>e. foundation_reserve sha now k p rq = Inl e"
    by (auto simp: foundation_reserve_eq dest: obj_first_Some)
qed

end
