(* ===== verification/Foundation_Properties.thy ===== *)
theory Foundation_Properties
  imports Foundation
begin

text \<open>
  What the eventing and idempotency foundation guarantees: exactly-once effects, exclusive
  leases, bounded retries, and one execution per request key.
\<close>

section \<open>Exactly-once consumption\<close>

text \<open>A stream of deliveries (event, consumer, payload) to consumers that run \<open>handler\<close>.\<close>

fun consume_stream ::
  "(string \<Rightarrow> string) \<Rightarrow> timestamp \<Rightarrow> (uuid \<times> string \<Rightarrow> 'd \<Rightarrow> (foundation_error, 'd) res) \<Rightarrow>
   ((uuid \<times> string) \<times> json) list \<Rightarrow> processed_event list \<times> 'd \<Rightarrow>
   (processed_event list \<times> 'd) \<times> (uuid \<times> string) list" where
  "consume_stream sha now handler [] s = (s, [])"
| "consume_stream sha now handler ((k, payload) # qs) s =
     (case consume_once sha now (fst k) payload (snd k) (handler k) s of
        Inr (s1, True) \<Rightarrow> (case consume_stream sha now handler qs s1 of (s2, ks) \<Rightarrow> (s2, k # ks))
      | Inr (s1, False) \<Rightarrow> consume_stream sha now handler qs s1
      | Inl _ \<Rightarrow> consume_stream sha now handler qs s)"

fun run_effects :: "('k \<Rightarrow> 'd \<Rightarrow> (foundation_error, 'd) res) \<Rightarrow> 'k list \<Rightarrow> 'd \<Rightarrow> (foundation_error, 'd) res" where
  "run_effects handler [] d = Inr d"
| "run_effects handler (k # ks) d = rbind (handler k d) (run_effects handler ks)"

lemma consume_stream_eq:
  "consume_stream sha now handler qs s =
     foundation_inbox.deliver_all now handler (map (map_prod id (payload_hash sha)) qs) s"
  by (induction qs arbitrary: s)
     (auto simp: foundation_inbox.deliver_def consume_once_def Let_def split: sum.splits prod.splits bool.splits)

lemma run_effects_eq: "run_effects handler ks d = foundation_inbox.effects handler ks d"
  by (induction ks arbitrary: d) (simp_all add: rbind_def split: sum.splits)

text \<open>
  C11. Whatever deliveries arrive, with duplicates, reordering, conflicting payloads and
  failing handlers, each (event, consumer) pair has its effect at most once, never when it had
  been processed before, and the application state is exactly the one reached by running the
  handler once for each pair in the returned list.
\<close>

theorem consume_stream_exactly_once:
  assumes "consume_stream sha now handler qs (t, d) = ((t', d'), ks)"
  shows "distinct ks \<and> (\<forall>k \<in> set ks. processed_hash t k = None) \<and>
    dom (processed_hash t') = dom (processed_hash t) \<union> set ks \<and> run_effects handler ks d = Inr d'"
  using foundation_inbox.deliver_all_once [of now handler _ t d t' d' ks] assms
  unfolding consume_stream_eq run_effects_eq by blast

definition demo_handler :: "uuid \<times> string \<Rightarrow> int \<Rightarrow> (foundation_error, int) res" where
  "demo_handler k d = (if fst k = 13 then Inl (FValueError ''bad'') else Inr (d + int (fst k)))"

definition demo_deliveries :: "((uuid \<times> string) \<times> json) list" where
  "demo_deliveries = [((1, ''c''), JNull), ((1, ''c''), JNull), ((13, ''c''), JNull),
     ((1, ''c''), JInt 4), ((1, ''e''), JNull), ((2, ''c''), JNull)]"

theorem consume_stream_exactly_once_witness:
  "snd (consume_stream id 0 demo_handler demo_deliveries ([], 0)) = [(1, ''c''), (1, ''e''), (2, ''c'')] \<and>
   snd (fst (consume_stream id 0 demo_handler demo_deliveries ([], 0))) = 4 \<and>
   run_effects demo_handler [(1, ''c''), (1, ''e''), (2, ''c'')] 0 = Inr 4"
proof -
  let ?r = "consume_stream id 0 demo_handler demo_deliveries ([], 0)"
  have r: "snd ?r = [(1, ''c''), (1, ''e''), (2, ''c'')] \<and> snd (fst ?r) = 4" by code_simp
  moreover have "?r = ((fst (fst ?r), snd (fst ?r)), snd ?r)" by simp
  from consume_stream_exactly_once [OF this] r
  have "run_effects demo_handler [(1, ''c''), (1, ''e''), (2, ''c'')] 0 = Inr 4" by simp
  ultimately show ?thesis by blast
qed

section \<open>Outbox leases\<close>

definition outbox_wf :: "foundation_outbox \<Rightarrow> bool" where
  "outbox_wf ob \<longleftrightarrow> distinct (map fo_id (ob_rows ob)) \<and> (\<forall>r \<in> set (ob_rows ob). fo_id r < ob_next_pk ob)"

lemma claim_rows:
  "ob_rows (fst (claim_outbox_batch now limit lease ob)) =
     upd_where (\<lambda>r. fo_id r \<in> set (map fo_id (snd (claim_outbox_batch now limit lease ob))))
       (\<lambda>r. r\<lparr>fo_state := OutboxClaimed, fo_claimed_at := Some now\<rparr>) (ob_rows ob)"
  by (simp add: claim_outbox_batch_def Let_def comp_def)

text \<open>
  C12. A publisher that claims a batch owns it for the lease: until the lease has run out no
  later claim, whatever its size, returns any of those events; and every event a claim
  returns was due and is now claimed.
\<close>

theorem claim_exclusive:
  assumes "outbox_wf ob" "claim_outbox_batch now limit lease ob = (ob1, got1)"
    "claim_outbox_batch now' limit' lease ob1 = (ob2, got2)" "now' < now + seconds lease"
  shows "set (map fo_id got1) \<inter> set (map fo_id got2) = {} \<and> length got1 \<le> limit \<and>
    (\<forall>r \<in> set got1. fo_state r = OutboxClaimed \<and> fo_claimed_at r = Some now \<and>
       (\<exists>r0 \<in> set (ob_rows ob). fo_id r0 = fo_id r \<and> claim_eligible now lease r0))"
proof -
  have got1: "\<forall>r \<in> set got1. fo_state r = OutboxClaimed \<and> fo_claimed_at r = Some now \<and>
       (\<exists>r0 \<in> set (ob_rows ob). fo_id r0 = fo_id r \<and> claim_eligible now lease r0)"
    using assms(2) by (fastforce simp: claim_outbox_batch_def Let_def dest: in_set_takeD)
  have rows1: "ob_rows ob1 = upd_where (\<lambda>r. fo_id r \<in> set (map fo_id got1))
       (\<lambda>r. r\<lparr>fo_state := OutboxClaimed, fo_claimed_at := Some now\<rparr>) (ob_rows ob)"
    using claim_rows [of now limit lease ob] assms(2) by simp
  have "fo_id r \<notin> set (map fo_id got1)" if "r \<in> set got2" for r
  proof
    assume "fo_id r \<in> set (map fo_id got1)"
    moreover from that assms(3) obtain r1 where "r1 \<in> set (ob_rows ob1)" "fo_id r1 = fo_id r"
      "claim_eligible now' lease r1"
      by (auto simp: claim_outbox_batch_def Let_def dest!: in_set_takeD)
    ultimately have "fo_state r1 = OutboxClaimed" "fo_claimed_at r1 = Some now"
      by (auto simp: rows1 set_upd_where split: if_splits)
    with \<open>claim_eligible now' lease r1\<close> assms(4) show False by (simp add: claim_eligible_def)
  qed
  then have "set (map fo_id got1) \<inter> fo_id ` set got2 = {}" by blast
  moreover have "length got1 \<le> limit" using assms(2) by (auto simp: claim_outbox_batch_def Let_def)
  ultimately show ?thesis using got1 by simp
qed

definition demo_outbox :: foundation_outbox where
  "demo_outbox = fst (enqueue_event 0 ''order'' ''2'' ''t.v1'' JNull ''x'' (Some 9) None None
     (fst (enqueue_event 0 ''order'' ''1'' ''t.v1'' JNull ''x'' (Some 9) None None
       \<lparr>ob_next_pk = 1, ob_next_uuid = 50, ob_rows = []\<rparr>)))"

theorem claim_exclusive_witness:
  "map fo_id (snd (claim_outbox_batch 10 1 30 demo_outbox)) = [1] \<and>
   map fo_id (snd (claim_outbox_batch 20 5 30 (fst (claim_outbox_batch 10 1 30 demo_outbox)))) = [2] \<and>
   set (map fo_id (snd (claim_outbox_batch 10 1 30 demo_outbox))) \<inter>
     set (map fo_id (snd (claim_outbox_batch 20 5 30 (fst (claim_outbox_batch 10 1 30 demo_outbox))))) = {}"
proof -
  have wf: "outbox_wf demo_outbox" and t: "(20::int) < 10 + seconds 30" by code_simp+
  have v: "map fo_id (snd (claim_outbox_batch 10 1 30 demo_outbox)) = [1]"
    "map fo_id (snd (claim_outbox_batch 20 5 30 (fst (claim_outbox_batch 10 1 30 demo_outbox)))) = [2]"
    by code_simp+
  from claim_exclusive [OF wf _ _ t, of 1 "fst (claim_outbox_batch 10 1 30 demo_outbox)"
      "snd (claim_outbox_batch 10 1 30 demo_outbox)" 5] v
  show ?thesis by (metis prod.collapse)
qed

section \<open>Bounded retries\<close>

text \<open>Publishing one event fails at the given times, with the given jitters.\<close>

fun fail_publishes ::
  "string \<Rightarrow> nat \<Rightarrow> (timestamp \<times> int) list \<Rightarrow> foundation_outbox_event \<Rightarrow> foundation_outbox_event" where
  "fail_publishes err maxa [] r = r"
| "fail_publishes err maxa ((now, jitter) # ts) r =
     fail_publishes err maxa ts (publish_row now jitter err maxa r)"

lemma fail_publishes_snoc:
  "fail_publishes err maxa (ts @ [(now, j)]) r = publish_row now j err maxa (fail_publishes err maxa ts r)"
  by (induction err maxa ts r rule: fail_publishes.induct) simp_all

lemma fail_publishes_count:
  "fo_attempt_count (fail_publishes err maxa ts r) = fo_attempt_count r + length ts"
  by (induction err maxa ts r rule: fail_publishes.induct) (simp_all add: publish_row_def Let_def)

text \<open>
  C13. A new event whose publication keeps failing is retried with a back-off between 2 and
  257 seconds, doubling up to 256, and is dead-lettered by the failure that reaches the
  maximum: after \<open>n\<close> failures it is pending if \<open>n\<close> is below the maximum and a dead
  letter, which no claim returns, otherwise.
\<close>

theorem publish_retries_bounded:
  assumes "err \<noteq> []" "fo_attempt_count r = 0" "fo_state r = OutboxClaimed"
    "ts = us @ [(now, jitter)]" "0 \<le> jitter" "jitter < seconds 1"
  shows "(if length ts < maxa
     then fo_state (fail_publishes err maxa ts r) = OutboxPending \<and>
       (\<exists>t. fo_next_attempt_at (fail_publishes err maxa ts r) = Some t \<and>
          now + seconds (2 ^ min (length ts) 8) \<le> t \<and> t < now + seconds 257)
     else fo_state (fail_publishes err maxa ts r) = OutboxDeadLetter \<and>
       (\<forall>now' lease. \<not> claim_eligible now' lease (fail_publishes err maxa ts r)))"
proof -
  let ?r = "fail_publishes err maxa us r"
  have c: "fo_attempt_count ?r = length us" using assms(2) by (simp add: fail_publishes_count)
  have e: "fail_publishes err maxa ts r = publish_row now jitter err maxa ?r"
    unfolding assms(4) by (rule fail_publishes_snoc)
  have "(2::int) ^ min (Suc (length us)) 8 \<le> 2 ^ 8" by (rule power_increasing) auto
  then have d: "retry_delay_seconds (Suc (length us)) = 2 ^ min (length ts) 8"
    "(2::int) ^ min (length ts) 8 \<le> 256"
    unfolding retry_delay_seconds_def assms(4) by simp_all
  show ?thesis
    using assms(1,4-6) c d unfolding e
    by (auto simp: publish_row_def Let_def seconds_def claim_eligible_def)
qed

theorem publish_retries_bounded_witness:
  "fo_state (fail_publishes ''x'' 2 [(0, 5), (9, 7)] (hd (snd (claim_outbox_batch 0 1 30 demo_outbox)))) =
     OutboxDeadLetter"
proof -
  have r: "fo_attempt_count (hd (snd (claim_outbox_batch 0 1 30 demo_outbox))) = 0"
    "fo_state (hd (snd (claim_outbox_batch 0 1 30 demo_outbox))) = OutboxClaimed" by code_simp+
  from publish_retries_bounded [OF _ r, of "''x''" "[(0, 5), (9, 7)]" "[(0, 5)]" 9 7 2]
  show ?thesis by (simp add: seconds_def)
qed

section \<open>One execution per request key\<close>

fun foundation_request_stream ::
  "(string \<Rightarrow> string) \<Rightarrow> timestamp \<Rightarrow> (foundation_key \<times> json \<times> foundation_response) list \<Rightarrow>
   foundation_requests \<Rightarrow> foundation_requests \<times> foundation_key list" where
  "foundation_request_stream sha now [] rq = (rq, [])"
| "foundation_request_stream sha now (((k, t, a, e, m), p, (s, b, rt, ri)) # qs) rq =
     (case begin_idempotent_request sha now k t a e m p (seconds 86400) rq of
        Inr (rq1, r, True) \<Rightarrow>
          (case foundation_request_stream sha now qs (complete_idempotent_request r s b rt ri rq1) of
             (rq2, ks) \<Rightarrow> (rq2, (k, t, a, e, upper m) # ks))
      | _ \<Rightarrow> foundation_request_stream sha now qs rq)"

fun norm_method :: "foundation_key \<Rightarrow> foundation_key" where
  "norm_method (k, t, a, e, m) = (k, t, a, e, upper m)"

lemma foundation_request_stream_eq:
  "foundation_request_stream sha now qs rq =
     foundation_store.serve_all sha now (map (map_prod norm_method id) qs) rq"
  by (induction sha now qs rq rule: foundation_request_stream.induct)
     (auto simp: foundation_store.serve_def begin_idempotent_request_def Let_def
       split: sum.splits prod.splits bool.splits)

text \<open>
  For every stream of requests to the foundation's idempotency table, exactly the
  scopes (key, tenant, actor, endpoint, upper-cased method) that had no record are executed,
  each once.
\<close>

theorem foundation_requests_execute_once:
  assumes "foundation_requests_wf rq" "foundation_request_stream sha now qs rq = (rq', ks)"
  shows "distinct ks \<and> set ks = norm_method ` fst ` set qs - dom (foundation_lookup rq) \<and>
    dom (foundation_lookup rq') = dom (foundation_lookup rq) \<union> norm_method ` fst ` set qs"
proof -
  have "foundation_store.serve_all sha now (map (map_prod norm_method id) qs) rq = (rq', ks)"
    using assms(2) by (simp add: foundation_request_stream_eq)
  from foundation_store.serve_all_once [OF assms(1) this] show ?thesis
    by (auto simp: image_image)
qed

definition demo_requests :: "(foundation_key \<times> json \<times> foundation_response) list" where
  "demo_requests = [((''k'', ''t'', ''a'', ''/o'', ''post''), JInt 1, (201, JNull, '''', '''')),
     ((''k'', ''t'', ''a'', ''/o'', ''POST''), JInt 1, (201, JNull, '''', ''''))]"

theorem foundation_requests_execute_once_witness:
  "snd (foundation_request_stream id 0 demo_requests \<lparr>fr_next_pk = 1, fr_rows = []\<rparr>) =
     [(''k'', ''t'', ''a'', ''/o'', ''POST'')] \<and>
   distinct (snd (foundation_request_stream id 0 demo_requests \<lparr>fr_next_pk = 1, fr_rows = []\<rparr>))"
proof -
  let ?r = "foundation_request_stream id 0 demo_requests \<lparr>fr_next_pk = 1, fr_rows = []\<rparr>"
  have "foundation_requests_wf \<lparr>fr_next_pk = 1, fr_rows = []\<rparr>" by code_simp
  from foundation_requests_execute_once [OF this, of id 0 demo_requests "fst ?r" "snd ?r"]
  have "distinct (snd ?r)" by simp
  moreover have "snd ?r = [(''k'', ''t'', ''a'', ''/o'', ''POST'')]" by code_simp
  ultimately show ?thesis by simp
qed

end
