(* ===== verification/Decimal_Text.thy ===== *)
theory Decimal_Text
  imports Json Complex_Main
begin

text \<open>
  \<open>decimal.Decimal\<close> as a value: the constructor's parser on text (sign, digits, point,
  exponent, infinities and NaNs, surrounding blanks and underscores), the number it denotes,
  and \<open>format(d, "f")\<close>. Characters are restricted to ASCII.
\<close>

datatype decimal =
    Finite (dec_neg: bool) (dec_coeff: nat) (dec_exp: int)
  | Inf bool
  | NaN

fun dec_value :: "decimal \<Rightarrow> rat" where
  "dec_value (Finite s c e) = (if s then - 1 else 1) * of_nat c * 10 powi e"
| "dec_value _ = 0"

section \<open>Digits\<close>

definition digit_value :: "char \<Rightarrow> nat" where
  "digit_value c = (of_char c :: nat) - 48"

definition nat_of_digits :: "string \<Rightarrow> nat" where
  "nat_of_digits ds = foldl (\<lambda>n c. 10 * n + digit_value c) 0 ds"

definition all_digits :: "string \<Rightarrow> bool" where
  "all_digits s \<longleftrightarrow> list_all is_digit_09 s"

lemma nat_of_digits_snoc: "nat_of_digits (s @ [c]) = 10 * nat_of_digits s + digit_value c"
  by (simp add: nat_of_digits_def)

lemma digit_value_digit_char: "d < 10 \<Longrightarrow> digit_value (digit_char d) = d"
  by (simp add: digit_value_def digit_char_def of_char_of take_bit_eq_mod)

lemma is_digit_digit_char: "d < 10 \<Longrightarrow> is_digit_09 (digit_char d)"
  by (simp add: char_in_def digit_char_def of_char_of take_bit_eq_mod)

lemma nat_of_digits_str_nat: "nat_of_digits (str_nat n) = n"
proof (induction n rule: str_nat.induct)
  case (1 n)
  show ?case
  proof (cases "n < 10")
    case True
    then show ?thesis
      by (simp add: str_nat.simps [of n] nat_of_digits_def digit_value_digit_char)
  next
    case False
    with 1 show ?thesis
      by (simp add: str_nat.simps [of n] nat_of_digits_snoc digit_value_digit_char)
  qed
qed

lemma all_digits_str_nat: "all_digits (str_nat n)"
proof (induction n rule: str_nat.induct)
  case (1 n)
  then show ?case
    by (cases "n < 10") (simp_all add: str_nat.simps [of n] all_digits_def is_digit_digit_char)
qed

lemma str_nat_nonempty [simp]: "str_nat n \<noteq> []"
  by (simp add: str_nat.simps [of n])

lemma nat_of_digits_zeros: "nat_of_digits (replicate k CHR ''0'' @ s) = nat_of_digits s"
proof -
  have "foldl (\<lambda>n c. 10 * n + digit_value c) 0 (replicate k CHR ''0'') = 0"
    by (induction k) (simp_all add: digit_value_def)
  then show ?thesis by (simp add: nat_of_digits_def)
qed

section \<open>Parsing\<close>

definition is_blank :: "char \<Rightarrow> bool" where
  "is_blank c \<longleftrightarrow> (of_char c :: nat) \<in> {9, 10, 11, 12, 13, 28, 29, 30, 31, 32, 133, 160}"

definition strip :: "string \<Rightarrow> string" where
  "strip s = rev (dropWhile is_blank (rev (dropWhile is_blank s)))"

definition split_sign :: "string \<Rightarrow> bool \<times> string" where
  "split_sign s = (case s of [] \<Rightarrow> (False, [])
     | c # r \<Rightarrow> if c = CHR ''-'' then (True, r) else if c = CHR ''+'' then (False, r) else (False, s))"

definition span_digits :: "string \<Rightarrow> string \<times> string" where
  "span_digits s = (takeWhile is_digit_09 s, dropWhile is_digit_09 s)"

definition parse_exponent :: "string \<Rightarrow> int option" where
  "parse_exponent s =
     (case s of [] \<Rightarrow> Some 0
      | c # r \<Rightarrow>
          if c = CHR ''e'' \<or> c = CHR ''E'' then
            (let (neg, ds) = split_sign r
             in if ds \<noteq> [] \<and> all_digits ds
                then Some (if neg then - int (nat_of_digits ds) else int (nat_of_digits ds)) else None)
          else None)"

definition parse_number :: "bool \<Rightarrow> string \<Rightarrow> decimal option" where
  "parse_number neg s =
     (let (ip, r) = span_digits s;
          (fp, r2) = (case r of c # r1 \<Rightarrow> if c = CHR ''.'' then span_digits r1 else ([], r) | [] \<Rightarrow> ([], []))
      in if ip = [] \<and> fp = [] then None
         else map_option (\<lambda>e. Finite neg (nat_of_digits (ip @ fp)) (e - int (length fp))) (parse_exponent r2))"

definition parse_decimal :: "string \<Rightarrow> decimal option" where
  "parse_decimal text =
     (let (neg, s) = split_sign (filter (\<lambda>c. c \<noteq> CHR ''_'') (strip text)); l = lower s
      in if l = ''inf'' \<or> l = ''infinity'' then Some (Inf neg)
         else if (startswith l ''nan'' \<and> all_digits (drop 3 l)) \<or>
                 (startswith l ''snan'' \<and> all_digits (drop 4 l)) then Some NaN
         else parse_number neg s)"

section \<open>Fixed-point text\<close>

definition format_f :: "decimal \<Rightarrow> string" where
  "format_f d =
     (case d of
        Inf s \<Rightarrow> (if s then ''-Infinity'' else ''Infinity'')
      | NaN \<Rightarrow> ''NaN''
      | Finite s c e \<Rightarrow>
          (if s then ''-'' else []) @
          (if 0 \<le> e then (if c = 0 then ''0'' else str_nat c @ replicate (nat e) CHR ''0'')
           else let k = nat (- e); ds = str_nat c;
                    ds' = (if length ds \<le> k then replicate (Suc k - length ds) CHR ''0'' @ ds else ds)
                in take (length ds' - k) ds' @ ''.'' @ drop (length ds' - k) ds'))"

section \<open>Printing and parsing agree\<close>

lemma filter_id: "(\<And>c. c \<in> set s \<Longrightarrow> p c) \<Longrightarrow> filter p s = s"
  by (simp add: filter_id_conv)

lemma strip_id: "(\<And>c. c \<in> set s \<Longrightarrow> \<not> is_blank c) \<Longrightarrow> strip s = s"
proof -
  assume nb: "\<And>c. c \<in> set s \<Longrightarrow> \<not> is_blank c"
  then have "dropWhile is_blank s = s" by (cases s) auto
  moreover from nb have "dropWhile is_blank (rev s) = rev s"
    by (cases "rev s") (auto simp: rev_eq_Cons_iff)
  ultimately show ?thesis by (simp add: strip_def)
qed

text \<open>Number text: digits and points, starting with a digit.\<close>

definition number_char :: "char \<Rightarrow> bool" where
  "number_char c \<longleftrightarrow> is_digit_09 c \<or> c = CHR ''.''"

lemma number_char_plain: "number_char c \<Longrightarrow> \<not> is_blank c \<and> c \<noteq> CHR ''_'' \<and> c \<noteq> CHR ''-'' \<and> c \<noteq> CHR ''+''"
  by (auto simp: number_char_def is_blank_def char_in_def)

lemma lower_digit: "is_digit_09 c \<Longrightarrow> lower_char c = c"
  by (auto simp: char_in_def lower_char_def)

lemma parse_decimal_number:
  assumes "list_all number_char (d # s)" "is_digit_09 d"
  shows "parse_decimal ((if neg then ''-'' else []) @ d # s) = parse_number neg (d # s)"
proof -
  let ?t = "(if neg then ''-'' else []) @ d # s"
  have plain: "\<And>c. c \<in> set (d # s) \<Longrightarrow> \<not> is_blank c \<and> c \<noteq> CHR ''_'' \<and> c \<noteq> CHR ''-'' \<and> c \<noteq> CHR ''+''"
    using assms(1) number_char_plain by (metis list_all_iff)
  have "strip ?t = ?t"
    by (rule strip_id) (use plain in \<open>auto simp: is_blank_def split: if_splits\<close>)
  moreover have "filter (\<lambda>c. c \<noteq> CHR ''_'') ?t = ?t"
    by (rule filter_id) (use plain in \<open>auto split: if_splits\<close>)
  moreover have "split_sign ?t = (neg, d # s)"
    using plain [of d] by (auto simp: split_sign_def)
  moreover have l: "lower (d # s) = d # lower s" using assms(2) by (simp add: lower_def lower_digit)
  moreover have "d \<noteq> CHR ''i''" "d \<noteq> CHR ''n''" "d \<noteq> CHR ''s''" using assms(2) by (auto simp: char_in_def)
  ultimately show ?thesis by (simp add: parse_decimal_def startswith_def)
qed

lemma span_digits_all: "all_digits s \<Longrightarrow> span_digits s = (s, [])"
  by (auto simp: span_digits_def all_digits_def list_all_iff takeWhile_eq_all_conv dropWhile_eq_Nil_conv)

lemma span_digits_stop:
  "all_digits s \<Longrightarrow> span_digits (s @ CHR ''.'' # r) = (s, CHR ''.'' # r)"
  by (induction s) (auto simp: span_digits_def all_digits_def char_in_def)

lemma parse_number_integer:
  "all_digits s \<Longrightarrow> s \<noteq> [] \<Longrightarrow> parse_number neg s = Some (Finite neg (nat_of_digits s) 0)"
  by (simp add: parse_number_def span_digits_all parse_exponent_def)

lemma parse_number_point:
  "all_digits s \<Longrightarrow> all_digits f \<Longrightarrow> s \<noteq> [] \<Longrightarrow>
   parse_number neg (s @ CHR ''.'' # f) = Some (Finite neg (nat_of_digits (s @ f)) (- int (length f)))"
  by (simp add: parse_number_def span_digits_stop span_digits_all parse_exponent_def)

lemma all_digits_number: "all_digits s \<Longrightarrow> list_all number_char s"
  by (auto simp: all_digits_def number_char_def list_all_iff)

lemma all_digits_append [simp]: "all_digits (a @ b) \<longleftrightarrow> all_digits a \<and> all_digits b"
  by (simp add: all_digits_def)

lemma all_digits_zeros [simp]: "all_digits (replicate k CHR ''0'')"
  by (induction k) (simp_all add: all_digits_def char_in_def)

lemma digit_char_0 [simp]: "digit_char 0 = CHR ''0''"
  by code_simp

lemma str_nat_zeros: "0 < c \<Longrightarrow> str_nat (c * 10 ^ k) = str_nat c @ replicate k CHR ''0''"
proof (induction k)
  case (Suc k)
  then have "10 \<le> c * 10 ^ Suc k" by simp
  then have "str_nat (c * 10 ^ Suc k) = str_nat (c * 10 ^ k) @ [digit_char 0]"
    by (subst str_nat.simps) simp
  with Suc show ?case by (simp add: replicate_append_same)
qed simp

lemma nat_of_digits_trailing: "nat_of_digits (s @ replicate k CHR ''0'') = nat_of_digits s * 10 ^ k"
proof (induction k)
  case (Suc k)
  have "s @ replicate (Suc k) CHR ''0'' = (s @ replicate k CHR ''0'') @ [CHR ''0'']"
    by (simp add: replicate_append_same)
  then show ?case using Suc by (simp only: nat_of_digits_snoc) (simp add: digit_value_def)
qed simp

text \<open>
  Parsing the fixed-point text of a finite decimal gives back the decimal itself when it has
  decimal places, and its integer expansion otherwise; in both cases the same number.
\<close>

definition expand :: "decimal \<Rightarrow> decimal" where
  "expand d = (case d of Finite s c e \<Rightarrow> if 0 \<le> e then Finite s (c * 10 ^ nat e) 0 else d | _ \<Rightarrow> d)"

lemma parse_format_f: "parse_decimal (format_f (Finite neg c e)) = Some (expand (Finite neg c e))"
proof (cases "0 \<le> e")
  case True
  let ?b = "if c = 0 then ''0'' else str_nat c @ replicate (nat e) CHR ''0''"
  have d: "all_digits ?b" "?b \<noteq> []"
    by (auto simp: all_digits_str_nat) (simp add: all_digits_def char_in_def)
  then obtain x r where b: "?b = x # r" by (cases ?b) auto
  with d have x: "is_digit_09 x" by (simp add: all_digits_def)
  have v: "nat_of_digits ?b = c * 10 ^ nat e"
    by (simp add: nat_of_digits_trailing nat_of_digits_str_nat) (simp add: nat_of_digits_def digit_value_def)
  have "format_f (Finite neg c e) = (if neg then ''-'' else []) @ ?b" using True by (simp add: format_f_def)
  then have "parse_decimal (format_f (Finite neg c e)) = parse_number neg ?b"
    using parse_decimal_number [of x r neg] all_digits_number [OF d(1)] x unfolding b by simp
  with parse_number_integer [OF d] v True show ?thesis by (simp add: expand_def)
next
  case False
  define k where "k = nat (- e)"
  define ds where "ds = (if length (str_nat c) \<le> k then replicate (Suc k - length (str_nat c)) CHR ''0'' @ str_nat c
      else str_nat c)"
  have len: "k < length ds" by (auto simp: ds_def)
  have dd: "all_digits ds" by (simp add: ds_def all_digits_str_nat)
  have v: "nat_of_digits ds = c" by (simp add: ds_def nat_of_digits_zeros nat_of_digits_str_nat)
  let ?i = "take (length ds - k) ds" and ?f = "drop (length ds - k) ds"
  have parts: "all_digits ?i" "all_digits ?f" "?i \<noteq> []" "length ?f = k"
    using dd len by (metis append_take_drop_id all_digits_append, metis append_take_drop_id all_digits_append, auto)
  then obtain x r where i: "?i = x # r" by (cases ?i) auto
  have x: "is_digit_09 x" using parts(1) unfolding i by (simp add: all_digits_def)
  have "format_f (Finite neg c e) = (if neg then ''-'' else []) @ ?i @ CHR ''.'' # ?f"
    using False by (simp add: format_f_def Let_def k_def [symmetric] ds_def [symmetric])
  moreover have "list_all number_char (?i @ CHR ''.'' # ?f)"
    using parts by (simp add: all_digits_number number_char_def)
  ultimately have "parse_decimal (format_f (Finite neg c e)) = parse_number neg (?i @ CHR ''.'' # ?f)"
    using parse_decimal_number [of x "r @ CHR ''.'' # ?f" neg] x unfolding i by simp
  also have "\<dots> = Some (Finite neg (nat_of_digits (?i @ ?f)) (- int k))"
    using parse_number_point [OF parts(1,2,3)] parts(4) by simp
  finally show ?thesis using False v by (simp add: expand_def k_def)
qed

lemma dec_value_expand: "dec_value (expand d) = dec_value d"
  by (cases d) (auto simp: expand_def power_int_def)

lemma format_f_expand: "format_f (expand (Finite s c e)) = format_f (Finite s c e)"
  by (cases "c = 0") (auto simp: expand_def format_f_def str_nat_zeros str_nat.simps [of 0])

section \<open>Integers\<close>

text \<open>\<open>int(text)\<close>: blanks around, a sign, digits with single underscores between them.\<close>

fun int_digits :: "string \<Rightarrow> bool" where
  "int_digits [] = False"
| "int_digits [c] = is_digit_09 c"
| "int_digits (c # d # s) =
     (is_digit_09 c \<and> (if d = CHR ''_'' then int_digits s else int_digits (d # s)))"

definition parse_int :: "string \<Rightarrow> int option" where
  "parse_int text =
     (let (neg, s) = split_sign (strip text)
      in if int_digits s
         then let n = int (nat_of_digits (filter (\<lambda>c. c \<noteq> CHR ''_'') s)) in Some (if neg then - n else n)
         else None)"

end
