(* ===== verification/Financial_Contracts.thy ===== *)
theory Financial_Contracts
  imports Decimal_Text Interfaces
begin

text \<open>
  \<open>financial_boundary/contracts.py\<close>, \<open>security.py\<close> and \<open>providers.py\<close>: canonical amounts and
  assets, the life cycles of deposits, withdrawals and transfers, the withdrawal security
  policy and the guard in front of outbound providers. A Python value of unknown type is a
  \<open>json\<close> value.
\<close>

section \<open>Amounts and assets\<close>

datatype contract_error = ContractError string | InvalidOperation | PermissionDenied string

definition amount_decimals :: "decimal \<Rightarrow> int" where
  "amount_decimals d = max 0 (- dec_exp d)"

definition dec_negative :: "decimal \<Rightarrow> bool" where
  "dec_negative d \<longleftrightarrow> dec_neg d \<and> dec_coeff d \<noteq> 0"

definition canonical_amount :: "json \<Rightarrow> int \<Rightarrow> bool \<Rightarrow> (contract_error, string) res" where
  "canonical_amount value precision allow_zero =
     (case value of
        JStr s \<Rightarrow>
          (case parse_decimal s of
             None \<Rightarrow> Inl (ContractError ''amount is not a decimal'')
           | Some (Finite neg c e) \<Rightarrow>
               if dec_negative (Finite neg c e) \<or> (\<not> allow_zero \<and> c = 0)
               then Inl (ContractError ''amount must be finite and positive'')
               else if precision < amount_decimals (Finite neg c e)
               then Inl (ContractError ''amount exceeds supported precision'')
               else Inr (format_f (Finite neg c e))
           | Some _ \<Rightarrow> Inl (ContractError ''amount must be finite and positive''))
      | _ \<Rightarrow> Inl (ContractError ''amount must be a decimal string''))"

definition asset_re :: "string \<Rightarrow> bool" where
  "asset_re s = (case s of [] \<Rightarrow> False
     | c # r \<Rightarrow> is_upper_az c \<and> 1 \<le> length r \<and> length r \<le> 11 \<and>
         list_all (\<lambda>c. is_upper_az c \<or> is_digit_09 c) r)"

definition canonical_asset :: "json \<Rightarrow> (contract_error, string) res" where
  "canonical_asset value =
     (case value of JStr s \<Rightarrow> if asset_re s then Inr s else Inl (ContractError ''unsupported asset code'')
      | _ \<Rightarrow> Inl (ContractError ''unsupported asset code''))"

record money =
  money_amount :: string
  money_asset :: string
  money_precision :: int

definition make_money :: "json \<Rightarrow> json \<Rightarrow> int \<Rightarrow> (contract_error, money) res" where
  "make_money amount asst precision =
     (case canonical_amount amount precision True of
        Inl e \<Rightarrow> Inl e
      | Inr a \<Rightarrow> (case canonical_asset asst of
          Inl e \<Rightarrow> Inl e
        | Inr s \<Rightarrow> Inr \<lparr>money_amount = a, money_asset = s, money_precision = precision\<rparr>))"

record wallet_snapshot =
  ws_wallet_id :: string
  ws_account_ref :: string
  ws_asset :: string
  ws_total :: string
  ws_available :: string
  ws_reserved :: string
  ws_pending :: string
  ws_as_of :: string
  ws_version :: int

definition make_wallet_snapshot :: "wallet_snapshot \<Rightarrow> (contract_error, wallet_snapshot) res" where
  "make_wallet_snapshot w =
     (case canonical_asset (JStr (ws_asset w)) of Inl e \<Rightarrow> Inl e | Inr a \<Rightarrow>
      case canonical_amount (JStr (ws_total w)) 8 True of Inl e \<Rightarrow> Inl e | Inr t \<Rightarrow>
      case canonical_amount (JStr (ws_available w)) 8 True of Inl e \<Rightarrow> Inl e | Inr v \<Rightarrow>
      case canonical_amount (JStr (ws_reserved w)) 8 True of Inl e \<Rightarrow> Inl e | Inr r \<Rightarrow>
      case canonical_amount (JStr (ws_pending w)) 8 True of Inl e \<Rightarrow> Inl e | Inr p \<Rightarrow>
        if ws_version w < 0 then Inl (ContractError ''wallet version must be non-negative'')
        else Inr (w\<lparr>ws_asset := a, ws_total := t, ws_available := v, ws_reserved := r, ws_pending := p\<rparr>))"

section \<open>Life cycles\<close>

datatype deposit_state =
    DepCreated | DepAwaitingFunding | DepDetected | DepPendingConfirmation | DepComplianceReview
  | DepCreditPending | DepCredited | DepFailed | DepCancelled | DepReversed

datatype withdrawal_state =
    WdCreated | WdPendingValidation | WdPendingCompliance | WdPendingApproval | WdApproved | WdQueued
  | WdSubmitted | WdPendingConfirmation | WdCompleted | WdRejected | WdCancelled | WdFailed | WdReversed

datatype transfer_state = TrCreated | TrValidating | TrPending | TrCompleted | TrFailed | TrCancelled

fun deposit_transitions :: "deposit_state \<Rightarrow> deposit_state list" where
  "deposit_transitions DepCreated = [DepAwaitingFunding, DepCancelled]"
| "deposit_transitions DepAwaitingFunding = [DepDetected, DepFailed, DepCancelled]"
| "deposit_transitions DepDetected = [DepPendingConfirmation, DepComplianceReview, DepFailed]"
| "deposit_transitions DepPendingConfirmation = [DepComplianceReview, DepCreditPending, DepFailed]"
| "deposit_transitions DepComplianceReview = [DepCreditPending, DepFailed]"
| "deposit_transitions DepCreditPending = [DepCredited, DepFailed]"
| "deposit_transitions DepCredited = [DepReversed]"
| "deposit_transitions _ = []"

fun withdrawal_transitions :: "withdrawal_state \<Rightarrow> withdrawal_state list" where
  "withdrawal_transitions WdCreated = [WdPendingValidation, WdCancelled]"
| "withdrawal_transitions WdPendingValidation = [WdPendingCompliance, WdRejected, WdCancelled]"
| "withdrawal_transitions WdPendingCompliance = [WdPendingApproval, WdApproved, WdRejected, WdCancelled]"
| "withdrawal_transitions WdPendingApproval = [WdApproved, WdRejected, WdCancelled]"
| "withdrawal_transitions WdApproved = [WdQueued, WdCancelled]"
| "withdrawal_transitions WdQueued = [WdSubmitted, WdCancelled, WdFailed]"
| "withdrawal_transitions WdSubmitted = [WdPendingConfirmation, WdFailed]"
| "withdrawal_transitions WdPendingConfirmation = [WdCompleted, WdFailed]"
| "withdrawal_transitions WdCompleted = [WdReversed]"
| "withdrawal_transitions _ = []"

fun transfer_transitions :: "transfer_state \<Rightarrow> transfer_state list" where
  "transfer_transitions TrCreated = [TrValidating, TrCancelled]"
| "transfer_transitions TrValidating = [TrPending, TrFailed, TrCancelled]"
| "transfer_transitions TrPending = [TrCompleted, TrFailed, TrCancelled]"
| "transfer_transitions _ = []"

definition assert_transition :: "'s \<Rightarrow> 's \<Rightarrow> ('s \<Rightarrow> 's list) \<Rightarrow> (contract_error, unit) res" where
  "assert_transition current target transitions =
     (if target \<notin> set (transitions current) then Inl (ContractError ''invalid transition'') else Inr ())"

text \<open>Applying a list of target states one after the other.\<close>

fun run_transitions :: "('s \<Rightarrow> 's list) \<Rightarrow> 's \<Rightarrow> 's list \<Rightarrow> (contract_error, 's) res" where
  "run_transitions tr s [] = Inr s"
| "run_transitions tr s (t # ts) =
     (case assert_transition s t tr of Inl e \<Rightarrow> Inl e | Inr _ \<Rightarrow> run_transitions tr t ts)"

fun deposit_rank :: "deposit_state \<Rightarrow> nat" where
  "deposit_rank DepCreated = 7" | "deposit_rank DepAwaitingFunding = 6" | "deposit_rank DepDetected = 5"
| "deposit_rank DepPendingConfirmation = 4" | "deposit_rank DepComplianceReview = 3"
| "deposit_rank DepCreditPending = 2" | "deposit_rank DepCredited = 1" | "deposit_rank _ = 0"

fun withdrawal_rank :: "withdrawal_state \<Rightarrow> nat" where
  "withdrawal_rank WdCreated = 9" | "withdrawal_rank WdPendingValidation = 8"
| "withdrawal_rank WdPendingCompliance = 7" | "withdrawal_rank WdPendingApproval = 6"
| "withdrawal_rank WdApproved = 5" | "withdrawal_rank WdQueued = 4" | "withdrawal_rank WdSubmitted = 3"
| "withdrawal_rank WdPendingConfirmation = 2" | "withdrawal_rank WdCompleted = 1" | "withdrawal_rank _ = 0"

fun transfer_rank :: "transfer_state \<Rightarrow> nat" where
  "transfer_rank TrCreated = 3" | "transfer_rank TrValidating = 2" | "transfer_rank TrPending = 1"
| "transfer_rank _ = 0"

interpretation deposit_machine: ranked_machine deposit_transitions
  "\<lambda>s. s \<in> {DepFailed, DepCancelled, DepReversed}" deposit_rank
proof
  show "s \<in> {DepFailed, DepCancelled, DepReversed} \<longleftrightarrow> deposit_transitions s = []" for s by (cases s) auto
  show "t \<in> set (deposit_transitions s) \<Longrightarrow> deposit_rank t < deposit_rank s" for s t by (cases s) auto
qed

interpretation withdrawal_machine: ranked_machine withdrawal_transitions
  "\<lambda>s. s \<in> {WdRejected, WdCancelled, WdFailed, WdReversed}" withdrawal_rank
proof
  show "s \<in> {WdRejected, WdCancelled, WdFailed, WdReversed} \<longleftrightarrow> withdrawal_transitions s = []" for s
    by (cases s) auto
  show "t \<in> set (withdrawal_transitions s) \<Longrightarrow> withdrawal_rank t < withdrawal_rank s" for s t by (cases s) auto
qed

interpretation transfer_machine: ranked_machine transfer_transitions
  "\<lambda>s. s \<in> {TrCompleted, TrFailed, TrCancelled}" transfer_rank
proof
  show "s \<in> {TrCompleted, TrFailed, TrCancelled} \<longleftrightarrow> transfer_transitions s = []" for s by (cases s) auto
  show "t \<in> set (transfer_transitions s) \<Longrightarrow> transfer_rank t < transfer_rank s" for s t by (cases s) auto
qed

lemma run_transitions_withdrawal:
  "run_transitions withdrawal_transitions s xs = Inr t \<longleftrightarrow> withdrawal_machine.history s xs \<and> t = last (s # xs)"
  by (induction xs arbitrary: s) (auto simp: assert_transition_def)

lemma run_transitions_deposit:
  "run_transitions deposit_transitions s xs = Inr t \<longleftrightarrow> deposit_machine.history s xs \<and> t = last (s # xs)"
  by (induction xs arbitrary: s) (auto simp: assert_transition_def)

lemma run_transitions_transfer:
  "run_transitions transfer_transitions s xs = Inr t \<longleftrightarrow> transfer_machine.history s xs \<and> t = last (s # xs)"
  by (induction xs arbitrary: s) (auto simp: assert_transition_def)

section \<open>Withdrawal security policy\<close>

record withdrawal_security_context =
  wc_account_active :: bool
  wc_kyc_approved :: bool
  wc_aml_cleared :: bool
  wc_sanctions_clear :: bool
  wc_jurisdiction_supported :: bool
  wc_frozen :: bool
  wc_session_authenticated_at :: "timestamp option"
  wc_mfa_authenticated_at :: "timestamp option"
  wc_security_changed_at :: "timestamp option"
  wc_destination_verified :: bool
  wc_destination_cooldown_until :: "timestamp option"
  wc_requester_ref :: string
  wc_approver_ref :: string

record withdrawal_policy =
  wp_version :: string
  wp_session_max_age :: int
  wp_mfa_max_age :: int
  wp_security_change_cooldown :: int
  wp_per_transaction_limit :: rat

definition default_policy :: withdrawal_policy where
  "default_policy = \<lparr>wp_version = ''withdrawal-security-v1'', wp_session_max_age = seconds 1800,
     wp_mfa_max_age = seconds 600, wp_security_change_cooldown = seconds 86400,
     wp_per_transaction_limit = 10000\<rparr>"

definition stale_auth :: "timestamp \<Rightarrow> timestamp option \<Rightarrow> int \<Rightarrow> bool" where
  "stale_auth now auth_at max_age = (case auth_at of None \<Rightarrow> True | Some t \<Rightarrow> max_age < now - t)"

text \<open>\<open>Decimal(amount) > policy.per_transaction_limit\<close>, with the exceptions it can raise.\<close>

definition exceeds_limit :: "string \<Rightarrow> rat \<Rightarrow> (contract_error, bool) res" where
  "exceeds_limit amount limit =
     (case parse_decimal amount of
        None \<Rightarrow> Inl InvalidOperation
      | Some NaN \<Rightarrow> Inl InvalidOperation
      | Some (Inf neg) \<Rightarrow> Inr (\<not> neg)
      | Some (Finite s c e) \<Rightarrow> Inr (limit < dec_value (Finite s c e)))"

definition evaluate_withdrawal ::
  "withdrawal_security_context \<Rightarrow> string \<Rightarrow> timestamp \<Rightarrow> withdrawal_policy \<Rightarrow> (contract_error, string) res" where
  "evaluate_withdrawal c amount now policy =
     (if wc_frozen c \<or> \<not> wc_account_active c then Inr ''WITHDRAWAL_NOT_ALLOWED''
      else if \<not> (wc_kyc_approved c \<and> wc_aml_cleared c \<and> wc_sanctions_clear c \<and> wc_jurisdiction_supported c)
      then Inr ''COMPLIANCE_REVIEW_REQUIRED''
      else if stale_auth now (wc_session_authenticated_at c) (wp_session_max_age policy)
      then Inr ''STEP_UP_REQUIRED''
      else if stale_auth now (wc_mfa_authenticated_at c) (wp_mfa_max_age policy)
      then Inr ''STEP_UP_REQUIRED''
      else if (case wc_security_changed_at c of None \<Rightarrow> False
                 | Some t \<Rightarrow> now - t < wp_security_change_cooldown policy)
      then Inr ''SECURITY_CHANGE_COOLDOWN''
      else if \<not> wc_destination_verified c then Inr ''DESTINATION_NOT_VERIFIED''
      else if (case wc_destination_cooldown_until c of None \<Rightarrow> False | Some t \<Rightarrow> now < t)
      then Inr ''DESTINATION_COOLDOWN''
      else case exceeds_limit amount (wp_per_transaction_limit policy) of
        Inl e \<Rightarrow> Inl e
      | Inr b \<Rightarrow> Inr (if b then ''REVIEW_REQUIRED'' else ''ELIGIBLE''))"

definition assert_separation_of_duties :: "string \<Rightarrow> string \<Rightarrow> (contract_error, unit) res" where
  "assert_separation_of_duties requester_ref approver_ref =
     (if requester_ref = '''' \<or> requester_ref = approver_ref
      then Inl (PermissionDenied ''SELF_APPROVAL_DENIED'') else Inr ())"

section \<open>Outbound providers\<close>

record provider_authorization =
  pa_provider_type :: string
  pa_provider_enabled :: bool
  pa_environment_approved :: bool
  pa_operation_allowed :: bool
  pa_compliance_approved :: bool
  pa_financial_approved :: bool
  pa_feature_enabled :: bool

datatype provider_state =
    PsDiscovered | PsConfigured | PsCredentialPresent | PsTechnicallyCertified | PsSecurityApproved
  | PsComplianceApproved | PsFinancialApproved | PsStagingApproved | PsProductionApproved | PsDisabled

text \<open>\<open>flag\<close> is \<open>getattr(settings, name, False)\<close>; the result lists the recorded live effect.\<close>

definition guard_outbound ::
  "(string \<Rightarrow> bool) \<Rightarrow> provider_authorization \<Rightarrow> (contract_error, bool \<times> (string \<times> string)) res" where
  "guard_outbound flag a =
     (let activation = (if pa_provider_type a = ''CUSTODY'' then flag ''CUSTODY_PROVIDER_ACTIVATED''
                        else if pa_provider_type a = ''PAYMENT'' then flag ''PAYMENT_PROVIDER_ACTIVATED''
                        else False)
      in if \<not> flag ''REAL_MONEY_ENABLED'' \<or> \<not> activation \<or>
            \<not> (pa_provider_enabled a \<and> pa_environment_approved a \<and> pa_operation_allowed a \<and>
               pa_compliance_approved a \<and> pa_financial_approved a \<and> pa_feature_enabled a)
         then Inl (PermissionDenied ''provider operation denied'')
         else Inr (True, (if pa_provider_type a = ''CUSTODY'' then ''custody_provider''
                          else ''payment_provider'', ''attempt'')))"

definition disabled_provider_call :: "string \<Rightarrow> (contract_error, unit) res" where
  "disabled_provider_call name = Inl (PermissionDenied ''provider disabled'')"

end
