(* ===== verification/Financial_Events.thy ===== *)
theory Financial_Events
  imports Financial_Contracts
begin

text \<open>
  \<open>financial_boundary/eventing.py\<close>: envelopes and their validation, the financial inbox, dead letters,
  the leased outbox and audit records. The error type also serves \<open>Financial_Halts\<close> and
  \<open>Financial_Realtime\<close>.
\<close>

section \<open>Canonical payloads and envelopes\<close>

datatype event_error =
    EventContractError string
  | EventReplayConflict
  | FinancialSequenceConflict string
  | HaltDenied
  | HaltAuthorizationDenied string
  | HaltTransitionDenied string
  | EvValueError string
  | EvRuntimeError string
  | EvDbError db_error

definition denied_payload_keys :: "string list" where
  "denied_payload_keys = [''password'', ''secret'', ''token'', ''private_key'', ''seed'', ''mnemonic'',
     ''authorization'', ''client_key'', ''bank_account_number'', ''raw_provider_response'']"

fun carries_secret :: "json \<Rightarrow> bool" where
  "carries_secret (JObj kvs) =
     list_ex (\<lambda>(k, v). lower k \<in> set denied_payload_keys \<or> carries_secret v) kvs"
| "carries_secret (JArr xs) = list_ex carries_secret xs"
| "carries_secret _ = False"

definition canonical_payload :: "(string \<Rightarrow> string) \<Rightarrow> json \<Rightarrow> (event_error, json \<times> string) res" where
  "canonical_payload sha payload =
     (case payload of
        JObj kvs \<Rightarrow>
          if carries_secret payload
          then Inl (EventContractError ''payload contains prohibited secret material'')
          else Inr (canon payload, sha (dumps payload))
      | _ \<Rightarrow> Inl (EventContractError ''payload must be an object''))"

text \<open>One name segment \<open>[a-z][a-z0-9_]*\<close>, and the version suffix \<open>v[1-9][0-9]*\<close>.\<close>

definition name_segment :: "string \<Rightarrow> bool" where
  "name_segment s = (case s of [] \<Rightarrow> False
     | c # r \<Rightarrow> is_lower_az c \<and> list_all (\<lambda>c. is_lower_az c \<or> is_digit_09 c \<or> c = CHR ''_'') r)"

definition version_segment :: "string \<Rightarrow> bool" where
  "version_segment s = (case s of v # d # r \<Rightarrow>
        v = CHR ''v'' \<and> char_in CHR ''1'' CHR ''9'' d \<and> list_all is_digit_09 r | _ \<Rightarrow> False)"

definition event_type_re :: "string \<Rightarrow> bool" where
  "event_type_re s =
     (let ws = split_on CHR ''.'' s
      in 3 \<le> length ws \<and> hd ws = ''financial'' \<and> version_segment (last ws) \<and>
         list_all name_segment (butlast (tl ws)))"

record financial_event_envelope =
  env_event_id :: uuid
  env_event_type :: string
  env_schema_version :: int
  env_occurred_at :: timestamp
  env_correlation_id :: uuid
  env_causation_id :: "uuid option"
  env_tenant_ref :: uuid
  env_payload :: json

definition make_envelope ::
  "(string \<Rightarrow> string) \<Rightarrow> financial_event_envelope \<Rightarrow> (event_error, financial_event_envelope) res" where
  "make_envelope sha e =
     (if \<not> event_type_re (env_event_type e)
      then Inl (EventContractError ''event_type is not a versioned financial event'')
      else if env_schema_version e < 1
      then Inl (EventContractError ''schema_version must be a positive integer'')
      else if \<not> endswith (env_event_type e) (''.v'' @ str_int (env_schema_version e))
      then Inl (EventContractError ''event_type version and schema_version disagree'')
      else case canonical_payload sha (env_payload e) of
        Inl x \<Rightarrow> Inl x
      | Inr (p, _) \<Rightarrow> Inr (e\<lparr>env_payload := p\<rparr>))"

definition envelope_hash :: "(string \<Rightarrow> string) \<Rightarrow> financial_event_envelope \<Rightarrow> string" where
  "envelope_hash sha e = sha (dumps (env_payload e))"

section \<open>Inbox\<close>

record financial_processed =
  fp_event_id :: uuid
  fp_event_type :: string
  fp_tenant_ref :: uuid
  fp_payload_hash :: string
  fp_processed_at :: timestamp

definition consume_financial_digest ::
  "timestamp \<Rightarrow> uuid \<Rightarrow> string \<times> uuid \<times> string \<Rightarrow> ('d \<Rightarrow> (event_error, 'd) res) \<Rightarrow>
   financial_processed list \<times> 'd \<Rightarrow> (event_error, (financial_processed list \<times> 'd) \<times> bool) res" where
  "consume_financial_digest now event_id fingerprint handler s =
     (case obj_first (\<lambda>p. fp_event_id p = event_id) (fst s) of
        Some p \<Rightarrow>
          if (fp_event_type p, fp_tenant_ref p, fp_payload_hash p) \<noteq> fingerprint
          then Inl EventReplayConflict else Inr (s, False)
      | None \<Rightarrow>
          (case handler (snd s) of
             Inl e \<Rightarrow> Inl e
           | Inr d \<Rightarrow>
               Inr ((fst s @ [\<lparr>fp_event_id = event_id, fp_event_type = fst fingerprint,
                       fp_tenant_ref = fst (snd fingerprint), fp_payload_hash = snd (snd fingerprint),
                       fp_processed_at = now\<rparr>], d), True)))"

text \<open>
  The row is inserted before the handler runs and both roll back together; an
  \<open>IntegrityError\<close> of the handler finds no row afterwards and is raised again.
\<close>

definition consume_financial_event ::
  "(string \<Rightarrow> string) \<Rightarrow> timestamp \<Rightarrow> financial_event_envelope \<Rightarrow>
   (financial_event_envelope \<Rightarrow> 'd \<Rightarrow> (event_error, 'd) res) \<Rightarrow>
   financial_processed list \<times> 'd \<Rightarrow> (event_error, (financial_processed list \<times> 'd) \<times> bool) res" where
  "consume_financial_event sha now e handler s =
     consume_financial_digest now (env_event_id e)
       (env_event_type e, env_tenant_ref e, envelope_hash sha e) (handler e) s"

definition financial_seen :: "financial_processed list \<Rightarrow> uuid \<Rightarrow> (string \<times> uuid \<times> string) option" where
  "financial_seen t k =
     map_option (\<lambda>p. (fp_event_type p, fp_tenant_ref p, fp_payload_hash p)) (obj_first (\<lambda>p. fp_event_id p = k) t)"

lemma financial_seen_snoc:
  "financial_seen t k = None \<Longrightarrow>
   financial_seen (t @ [\<lparr>fp_event_id = k, fp_event_type = fst h, fp_tenant_ref = fst (snd h),
      fp_payload_hash = snd (snd h), fp_processed_at = now\<rparr>]) = (financial_seen t)(k \<mapsto> h)"
  by (rule ext) (auto simp: financial_seen_def obj_first_append split: option.splits)

interpretation financial_inbox: inbox financial_seen
  "\<lambda>k h m. consume_financial_digest now k h m" for now
proof
  fix t k d d' h and handler :: "'c \<Rightarrow> (event_error, 'c) res"
  assume "financial_seen t k = None" "handler d = Inr d'"
  then show "\<exists>t'. consume_financial_digest now k h handler (t, d) = Inr ((t', d'), True) \<and>
      financial_seen t' = (financial_seen t)(k \<mapsto> h)"
    using financial_seen_snoc [of t k h now] by (auto simp: consume_financial_digest_def financial_seen_def)
qed (auto simp: consume_financial_digest_def financial_seen_def)

section \<open>Dead letters, outbox and audit\<close>

record dead_letter_event =
  dl_event_id :: uuid
  dl_failure_type :: string
  dl_retry_count :: nat
  dl_first_failed_at :: timestamp
  dl_last_failed_at :: timestamp
  dl_safe_error_reference :: string

definition failure_code_re :: "string \<Rightarrow> bool" where
  "failure_code_re s = (case s of [] \<Rightarrow> False
     | c # r \<Rightarrow> is_upper_az c \<and> 2 \<le> length r \<and> length r \<le> 63 \<and>
         list_all (\<lambda>c. is_upper_az c \<or> is_digit_09 c \<or> c = CHR ''_'') r)"

definition safe_ref_char :: "char \<Rightarrow> bool" where
  "safe_ref_char c \<longleftrightarrow> is_upper_az c \<or> is_lower_az c \<or> is_digit_09 c \<or> c \<in> set ''_.:-''"

definition safe_reference_re :: "nat \<Rightarrow> string \<Rightarrow> bool" where
  "safe_reference_re lo s \<longleftrightarrow> lo \<le> length s \<and> length s \<le> 128 \<and> list_all safe_ref_char s"

definition record_dead_letter ::
  "timestamp \<Rightarrow> uuid \<Rightarrow> string \<Rightarrow> string \<Rightarrow> dead_letter_event list \<Rightarrow>
   (event_error, dead_letter_event list \<times> dead_letter_event) res" where
  "record_dead_letter now event_id failure_type safe_error_reference t =
     (if \<not> failure_code_re failure_type
      then Inl (EventContractError ''failure_type must be a safe bounded code'')
      else if \<not> safe_reference_re 1 safe_error_reference
      then Inl (EventContractError ''safe_error_reference is invalid'')
      else case obj_first (\<lambda>d. dl_event_id d = event_id) t of
        None \<Rightarrow>
          let d = \<lparr>dl_event_id = event_id, dl_failure_type = failure_type, dl_retry_count = 1,
                   dl_first_failed_at = now, dl_last_failed_at = now,
                   dl_safe_error_reference = safe_error_reference\<rparr>
          in Inr (t @ [d], d)
      | Some d \<Rightarrow>
          let d' = d\<lparr>dl_retry_count := Suc (dl_retry_count d), dl_failure_type := failure_type,
                     dl_safe_error_reference := safe_error_reference, dl_last_failed_at := now\<rparr>
          in Inr (upd_where (\<lambda>x. dl_event_id x = event_id) (\<lambda>_. d') t, d'))"

datatype financial_outbox_status = FinPending | FinInFlight | FinPublished

record financial_outbox_event =
  fx_event_id :: uuid
  fx_event_type :: string
  fx_schema_version :: int
  fx_occurred_at :: timestamp
  fx_correlation_id :: uuid
  fx_causation_id :: "uuid option"
  fx_tenant_ref :: uuid
  fx_payload :: json
  fx_payload_hash :: string
  fx_status :: financial_outbox_status
  fx_attempts :: nat
  fx_next_attempt_at :: timestamp
  fx_lease_expires_at :: "timestamp option"
  fx_published_at :: "timestamp option"
  fx_safe_error_reference :: string
  fx_created_at :: timestamp

text \<open>\<open>in_atomic\<close> is \<open>connection.in_atomic_block\<close>; the primary key is the event identifier.\<close>

definition enqueue_financial_event ::
  "(string \<Rightarrow> string) \<Rightarrow> timestamp \<Rightarrow> bool \<Rightarrow> financial_event_envelope \<Rightarrow> financial_outbox_event list \<Rightarrow>
   (event_error, financial_outbox_event list \<times> financial_outbox_event) res" where
  "enqueue_financial_event sha now in_atomic e t =
     (if \<not> in_atomic then Inl (EvRuntimeError ''financial outbox writes require transaction.atomic'')
      else if obj_exists (\<lambda>x. fx_event_id x = env_event_id e) t
      then Inl (EvDbError (IntegrityError ''financial_outbox''))
      else let r = \<lparr>fx_event_id = env_event_id e, fx_event_type = env_event_type e,
                 fx_schema_version = env_schema_version e, fx_occurred_at = env_occurred_at e,
                 fx_correlation_id = env_correlation_id e, fx_causation_id = env_causation_id e,
                 fx_tenant_ref = env_tenant_ref e, fx_payload = env_payload e,
                 fx_payload_hash = envelope_hash sha e, fx_status = FinPending, fx_attempts = 0,
                 fx_next_attempt_at = now, fx_lease_expires_at = None, fx_published_at = None,
                 fx_safe_error_reference = '''', fx_created_at = now\<rparr>
           in Inr (t @ [r], r))"

text \<open>Rows are kept in creation order, which is the order of the claim query.\<close>

definition claim_financial_batch ::
  "timestamp \<Rightarrow> int \<Rightarrow> int \<Rightarrow> financial_outbox_event list \<Rightarrow>
   (event_error, financial_outbox_event list \<times> financial_outbox_event list) res" where
  "claim_financial_batch now limit lease_seconds t =
     (if \<not> (1 \<le> limit \<and> limit \<le> 500) \<or> \<not> (1 \<le> lease_seconds \<and> lease_seconds \<le> 300)
      then Inl (EvValueError ''outbox claim bounds exceeded'')
      else let picked = take (nat limit) (filter (\<lambda>r. fx_status r = FinPending \<and> fx_next_attempt_at r \<le> now) t);
               mark = (\<lambda>r. r\<lparr>fx_status := FinInFlight, fx_attempts := Suc (fx_attempts r),
                             fx_lease_expires_at := Some (now + seconds lease_seconds)\<rparr>)
           in Inr (upd_where (\<lambda>r. fx_event_id r \<in> set (map fx_event_id picked)) mark t, map mark picked))"

definition lease_expired :: "timestamp \<Rightarrow> financial_outbox_event \<Rightarrow> bool" where
  "lease_expired now r \<longleftrightarrow>
     fx_status r = FinInFlight \<and> (case fx_lease_expires_at r of None \<Rightarrow> False | Some l \<Rightarrow> l \<le> now)"

definition release_expired_claims ::
  "timestamp \<Rightarrow> financial_outbox_event list \<Rightarrow> financial_outbox_event list \<times> nat" where
  "release_expired_claims now t =
     (upd_where (lease_expired now) (\<lambda>r. r\<lparr>fx_status := FinPending, fx_lease_expires_at := None\<rparr>) t,
      obj_count (lease_expired now) t)"

definition mark_outbox_published ::
  "timestamp \<Rightarrow> uuid \<Rightarrow> financial_outbox_event list \<Rightarrow> (event_error, financial_outbox_event list) res" where
  "mark_outbox_published now event_id t =
     (let held = (\<lambda>r. fx_event_id r = event_id \<and> fx_status r = FinInFlight)
      in if obj_count held t \<noteq> 1 then Inl (EventContractError ''outbox event is not held by a publisher'')
         else Inr (upd_where held (\<lambda>r. r\<lparr>fx_status := FinPublished, fx_published_at := Some now,
                                         fx_lease_expires_at := None\<rparr>) t))"

definition audit_actions :: "string list" where
  "audit_actions = [''reservation.requested'', ''reservation.released'', ''settlement.requested'',
     ''deposit_intent.requested'', ''withdrawal.requested'', ''withdrawal.cancelled'',
     ''transfer.requested'', ''provider_operation.denied'', ''compliance_gate.denied'',
     ''security_gate.denied'', ''financial_halt.requested'', ''financial_halt.approved'']"

record financial_audit_event =
  fa_id :: uuid
  fa_action :: string
  fa_tenant_ref :: uuid
  fa_account_ref :: "uuid option"
  fa_actor_ref :: "uuid option"
  fa_correlation_id :: uuid
  fa_subject_ref :: string
  fa_payload_hash :: string
  fa_safe_metadata :: json
  fa_occurred_at :: timestamp

text \<open>A save of an existing row and a delete raise \<open>TypeError\<close>: the table only grows.\<close>

definition append_financial_audit ::
  "(string \<Rightarrow> string) \<Rightarrow> timestamp \<Rightarrow> uuid \<Rightarrow> string \<Rightarrow> uuid \<Rightarrow> uuid \<Rightarrow> json \<Rightarrow> uuid option \<Rightarrow>
   uuid option \<Rightarrow> string \<Rightarrow> financial_audit_event list \<Rightarrow>
   (event_error, financial_audit_event list \<times> financial_audit_event) res" where
  "append_financial_audit sha now new_id action tenant_ref correlation_id payload account_ref
     actor_ref subject_ref t =
     (if action \<notin> set audit_actions then Inl (EventContractError ''unsupported financial audit action'')
      else if \<not> safe_reference_re 0 subject_ref
      then Inl (EventContractError ''audit subject reference must be opaque and non-PII'')
      else case canonical_payload sha payload of
        Inl e \<Rightarrow> Inl e
      | Inr (safe, h) \<Rightarrow>
          let r = \<lparr>fa_id = new_id, fa_action = action, fa_tenant_ref = tenant_ref,
                   fa_account_ref = account_ref, fa_actor_ref = actor_ref,
                   fa_correlation_id = correlation_id, fa_subject_ref = subject_ref,
                   fa_payload_hash = h, fa_safe_metadata = safe, fa_occurred_at = now\<rparr>
          in Inr (t @ [r], r))"

end
