(* ===== verification/Financial_Halts.thy ===== *)
theory Financial_Halts
  imports Financial_Events
begin

text \<open>
  \<open>financial_boundary/halts.py\<close>: append-only maker/checker halts.
\<close>

section \<open>Halt state\<close>

datatype halt_state = HaltActive | HaltReadOnly | HaltWithdrawals | HaltFunding | HaltAllMutations

datatype financial_mutation = MutDeposit | MutWithdrawal | MutTransfer | MutReservation | MutSettlement

definition all_mutations :: "financial_mutation set" where
  "all_mutations = {MutDeposit, MutWithdrawal, MutTransfer, MutReservation, MutSettlement}"

fun halt_allowed :: "halt_state \<Rightarrow> financial_mutation set" where
  "halt_allowed HaltActive = all_mutations"
| "halt_allowed HaltWithdrawals = all_mutations - {MutWithdrawal}"
| "halt_allowed HaltFunding = all_mutations - {MutDeposit}"
| "halt_allowed HaltReadOnly = {}"
| "halt_allowed HaltAllMutations = {}"

record financial_halt_request =
  hr_request_id :: uuid
  hr_tenant_ref :: uuid
  hr_proposed_state :: halt_state
  hr_requested_by :: int
  hr_reason_code :: string
  hr_policy_version :: string
  hr_correlation_id :: uuid
  hr_requested_at :: timestamp

record financial_halt_approval =
  ha_approval_id :: uuid
  ha_request :: uuid
  ha_approved_by :: int
  ha_correlation_id :: uuid
  ha_approved_at :: timestamp

record halt_db =
  hd_next :: uuid
  hd_requests :: "financial_halt_request list"
  hd_approvals :: "financial_halt_approval list"
  hd_audits :: "financial_audit_event list"

definition validate_actor :: "int \<Rightarrow> (event_error, unit) res" where
  "validate_actor actor_id =
     (if actor_id < 1 then Inl (HaltAuthorizationDenied ''financial actor required'') else Inr ())"

text \<open>\<open>order_by("-approved_at", "-approval_id").first()\<close> over the approvals of one tenant.\<close>

definition later_approval :: "financial_halt_approval \<Rightarrow> financial_halt_approval \<Rightarrow> bool" where
  "later_approval a b \<longleftrightarrow> ha_approved_at a < ha_approved_at b \<or>
     (ha_approved_at a = ha_approved_at b \<and> ha_approval_id a < ha_approval_id b)"

fun latest_approval :: "financial_halt_approval list \<Rightarrow> financial_halt_approval option" where
  "latest_approval [] = None"
| "latest_approval (a # as) =
     (case latest_approval as of None \<Rightarrow> Some a | Some b \<Rightarrow> Some (if later_approval a b then b else a))"

definition request_of :: "halt_db \<Rightarrow> uuid \<Rightarrow> financial_halt_request option" where
  "request_of db i = obj_first (\<lambda>r. hr_request_id r = i) (hd_requests db)"

definition tenant_approvals :: "halt_db \<Rightarrow> uuid \<Rightarrow> financial_halt_approval list" where
  "tenant_approvals db tenant =
     filter (\<lambda>a. case request_of db (ha_request a) of None \<Rightarrow> False | Some r \<Rightarrow> hr_tenant_ref r = tenant)
       (hd_approvals db)"

definition current_halt_state :: "halt_db \<Rightarrow> uuid \<Rightarrow> halt_state" where
  "current_halt_state db tenant =
     (case latest_approval (tenant_approvals db tenant) of
        None \<Rightarrow> HaltActive
      | Some a \<Rightarrow> (case request_of db (ha_request a) of None \<Rightarrow> HaltActive | Some r \<Rightarrow> hr_proposed_state r))"

definition assert_financial_operation_allowed ::
  "halt_db \<Rightarrow> uuid \<Rightarrow> financial_mutation \<Rightarrow> (event_error, halt_state) res" where
  "assert_financial_operation_allowed db tenant operation =
     (let state = current_halt_state db tenant
      in if operation \<notin> halt_allowed state then Inl HaltDenied else Inr state)"

text \<open>\<open>actor_uuid\<close> is \<open>uuid.uuid5\<close> of the actor's name.\<close>

definition halt_state_name :: "halt_state \<Rightarrow> string" where
  "halt_state_name s = (case s of HaltActive \<Rightarrow> ''ACTIVE'' | HaltReadOnly \<Rightarrow> ''READ_ONLY''
     | HaltWithdrawals \<Rightarrow> ''WITHDRAWALS_HALTED'' | HaltFunding \<Rightarrow> ''FUNDING_HALTED''
     | HaltAllMutations \<Rightarrow> ''ALL_MUTATIONS_HALTED'')"

definition request_financial_halt ::
  "(string \<Rightarrow> string) \<Rightarrow> (int \<Rightarrow> uuid) \<Rightarrow> timestamp \<Rightarrow> uuid \<Rightarrow> halt_state \<Rightarrow> int \<Rightarrow> string list \<Rightarrow> string \<Rightarrow>
   uuid \<Rightarrow> halt_db \<Rightarrow> (event_error, halt_db \<times> financial_halt_request) res" where
  "request_financial_halt sha actor_uuid now tenant proposed_state requested_by roles reason_code
     correlation_id db =
     (case validate_actor requested_by of
        Inl e \<Rightarrow> Inl e
      | Inr _ \<Rightarrow>
        if set roles \<inter> {''financial_operations'', ''financial_manager''} = {}
        then Inl (HaltAuthorizationDenied ''financial operations role required'')
        else if proposed_state = HaltActive
        then Inl (HaltTransitionDenied ''halt request must reduce capability'')
        else if \<not> failure_code_re reason_code
        then Inl (HaltTransitionDenied ''invalid safe reason code'')
        else
          let r = \<lparr>hr_request_id = hd_next db, hr_tenant_ref = tenant,
                   hr_proposed_state = proposed_state, hr_requested_by = requested_by,
                   hr_reason_code = reason_code, hr_policy_version = ''financial-halt-v1'',
                   hr_correlation_id = correlation_id, hr_requested_at = now\<rparr>
          in case append_financial_audit sha now (Suc (hd_next db)) ''financial_halt.requested'' tenant
                    correlation_id
                    (JObj [(''proposed_state'', JStr (halt_state_name proposed_state)),
                           (''reason_code'', JStr reason_code)])
                    None (Some (actor_uuid requested_by)) (''halt.'' @ str_uuid (hr_request_id r))
                    (hd_audits db) of
               Inl e \<Rightarrow> Inl e
             | Inr (audits, _) \<Rightarrow>
                 Inr (db\<lparr>hd_next := Suc (Suc (hd_next db)), hd_requests := hd_requests db @ [r],
                         hd_audits := audits\<rparr>, r))"

definition approve_financial_halt ::
  "(string \<Rightarrow> string) \<Rightarrow> (int \<Rightarrow> uuid) \<Rightarrow> timestamp \<Rightarrow> uuid \<Rightarrow> int \<Rightarrow> string list \<Rightarrow> uuid \<Rightarrow>
   halt_db \<Rightarrow> (event_error, halt_db \<times> financial_halt_approval) res" where
  "approve_financial_halt sha actor_uuid now request_id approved_by roles correlation_id db =
     (case validate_actor approved_by of
        Inl e \<Rightarrow> Inl e
      | Inr _ \<Rightarrow>
        if ''financial_manager'' \<notin> set roles
        then Inl (HaltAuthorizationDenied ''financial manager role required'')
        else case obj_get (\<lambda>r. hr_request_id r = request_id) (hd_requests db) of
          Inl e \<Rightarrow> Inl (EvDbError e)
        | Inr req \<Rightarrow>
          if hr_requested_by req = approved_by
          then Inl (HaltAuthorizationDenied ''maker cannot approve own halt request'')
          else case obj_first (\<lambda>a. ha_request a = request_id) (hd_approvals db) of
            Some a \<Rightarrow> Inr (db, a)
          | None \<Rightarrow>
            let proposed_allowed = halt_allowed (hr_proposed_state req);
                current_allowed = halt_allowed (current_halt_state db (hr_tenant_ref req))
            in if proposed_allowed = current_allowed \<or> \<not> proposed_allowed \<subseteq> current_allowed
               then Inl (HaltTransitionDenied ''halt transition does not reduce capability'')
               else
                 let a = \<lparr>ha_approval_id = hd_next db, ha_request = request_id,
                          ha_approved_by = approved_by, ha_correlation_id = correlation_id,
                          ha_approved_at = now\<rparr>
                 in case append_financial_audit sha now (Suc (hd_next db)) ''financial_halt.approved''
                           (hr_tenant_ref req) correlation_id
                           (JObj [(''state'', JStr (halt_state_name (hr_proposed_state req))),
                                  (''reason_code'', JStr (hr_reason_code req))])
                           None (Some (actor_uuid approved_by)) (''halt.'' @ str_uuid request_id)
                           (hd_audits db) of
                      Inl e \<Rightarrow> Inl e
                    | Inr (audits, _) \<Rightarrow>
                        Inr (db\<lparr>hd_next := Suc (Suc (hd_next db)), hd_approvals := hd_approvals db @ [a],
                                hd_audits := audits\<rparr>, a))"

section \<open>Halts only ever reduce capability\<close>

definition halts_wf :: "halt_db \<Rightarrow> bool" where
  "halts_wf db \<longleftrightarrow>
     (\<forall>r \<in> set (hd_requests db). hr_request_id r < hd_next db) \<and>
     (\<forall>a \<in> set (hd_approvals db). ha_approval_id a < hd_next db \<and>
        (\<exists>r \<in> set (hd_requests db). hr_request_id r = ha_request a))"

inductive halt_step ::
  "(string \<Rightarrow> string) \<Rightarrow> (int \<Rightarrow> uuid) \<Rightarrow> timestamp \<times> halt_db \<Rightarrow> timestamp \<times> halt_db \<Rightarrow> bool"
  for sha :: "string \<Rightarrow> string" and actor_uuid :: "int \<Rightarrow> uuid" where
  halt_requested: "request_financial_halt sha actor_uuid now tenant s by_actor roles reason corr db = Inr (db', r) \<Longrightarrow>
     t \<le> now \<Longrightarrow> halt_step sha actor_uuid (t, db) (now, db')"
| halt_approved: "approve_financial_halt sha actor_uuid now rid by_actor roles corr db = Inr (db', a) \<Longrightarrow>
     t \<le> now \<Longrightarrow> halt_step sha actor_uuid (t, db) (now, db')"

lemma latest_approval_snoc:
  "(\<And>b. b \<in> set as \<Longrightarrow> later_approval b a) \<Longrightarrow> latest_approval (as @ [a]) = Some a"
  by (induction as) auto

lemma request_of_append:
  "request_of (db\<lparr>hd_next := n, hd_requests := hd_requests db @ [r], hd_audits := au\<rparr>) i =
     (case request_of db i of None \<Rightarrow> if hr_request_id r = i then Some r else None | Some x \<Rightarrow> Some x)"
  by (auto simp: request_of_def obj_first_append split: option.splits)

lemma latest_approval_mem: "latest_approval xs = Some a \<Longrightarrow> a \<in> set xs"
  by (induction xs arbitrary: a) (auto split: option.splits if_splits)

lemma request_step_state:
  assumes "request_financial_halt sha au now tenant s ba roles reason corr db = Inr (db', r)" "halts_wf db"
  shows "halts_wf db' \<and> current_halt_state db' = current_halt_state db \<and> hd_approvals db' = hd_approvals db"
proof -
  from assms(1) obtain audits where db': "db' = db\<lparr>hd_next := Suc (Suc (hd_next db)),
      hd_requests := hd_requests db @ [r], hd_audits := audits\<rparr>" "hr_request_id r = hd_next db"
    unfolding request_financial_halt_def Let_def res_simps by fastforce
  have known: "request_of db (ha_request a) \<noteq> None" if "a \<in> set (hd_approvals db)" for a
    using assms(2) that by (auto simp: halts_wf_def request_of_def obj_first_None)
  have same: "request_of db' (ha_request a) = request_of db (ha_request a)" if "a \<in> set (hd_approvals db)" for a
    using known [OF that] unfolding db'(1) request_of_append by (auto split: option.splits)
  have ta: "tenant_approvals db' tn = tenant_approvals db tn" for tn
    unfolding tenant_approvals_def using same by (auto simp: db'(1) intro!: filter_cong)
  have mem: "a \<in> set (hd_approvals db)" if "latest_approval (tenant_approvals db tn) = Some a" for a tn
    using latest_approval_mem [OF that] by (simp add: tenant_approvals_def)
  have "current_halt_state db' tn = current_halt_state db tn" for tn
    using mem same by (auto simp: current_halt_state_def ta split: option.splits)
  moreover have "halts_wf db'"
    using assms(2) db' by (auto simp: halts_wf_def less_Suc_eq)
  ultimately show ?thesis using db'(1) by auto
qed

lemma approve_step_state:
  assumes "approve_financial_halt sha au now rid ba roles corr db = Inr (db', a)" "halts_wf db"
    and "\<forall>b \<in> set (hd_approvals db). ha_approved_at b \<le> now"
  shows "halts_wf db' \<and> (\<forall>b \<in> set (hd_approvals db'). ha_approved_at b \<le> now) \<and>
    (\<forall>tn. halt_allowed (current_halt_state db' tn) \<subseteq> halt_allowed (current_halt_state db tn))"
proof (cases "obj_first (\<lambda>a. ha_request a = rid) (hd_approvals db)")
  case (Some b)
  with assms(1) have "db' = db"
    by (auto simp: approve_financial_halt_def split: sum.splits if_splits)
  with assms show ?thesis by simp
next
  case None
  with assms(1) obtain req audits where
    get: "obj_get (\<lambda>r. hr_request_id r = rid) (hd_requests db) = Inr req"
    and smaller: "halt_allowed (hr_proposed_state req) \<subseteq>
                  halt_allowed (current_halt_state db (hr_tenant_ref req))"
    and a: "ha_approval_id a = hd_next db" "ha_request a = rid" "ha_approved_at a = now"
    and db': "db' = db\<lparr>hd_next := Suc (Suc (hd_next db)), hd_approvals := hd_approvals db @ [a],
                hd_audits := audits\<rparr>"
    unfolding approve_financial_halt_def Let_def res_simps by (fastforce split: sum.splits if_splits)
  from obj_get_first [OF get] have req: "request_of db rid = Some req"
    by (simp add: request_of_def)
  have same: "request_of db' i = request_of db i" for i by (simp add: request_of_def db')
  have ta: "tenant_approvals db' tn = (if hr_tenant_ref req = tn
      then tenant_approvals db tn @ [a] else tenant_approvals db tn)" for tn
    by (simp add: tenant_approvals_def same a req) (simp add: db' a req)
  have "later_approval b a" if "b \<in> set (tenant_approvals db tn)" for b tn
    using that assms(2,3) a by (fastforce simp: tenant_approvals_def halts_wf_def later_approval_def)
  then have last: "latest_approval (tenant_approvals db tn @ [a]) = Some a" for tn
    by (intro latest_approval_snoc)
  have "halt_allowed (current_halt_state db' tn) \<subseteq> halt_allowed (current_halt_state db tn)" for tn
    using smaller
    by (cases "hr_tenant_ref req = tn")
      (auto simp: current_halt_state_def ta same last a req cong: option.case_cong)
  moreover have "halts_wf db'"
    using assms(2) a req by (fastforce simp: halts_wf_def db' request_of_def less_Suc_eq dest: obj_first_Some)
  ultimately show ?thesis using assms(3) a by (simp add: db')
qed

text \<open>Maker/checker: every approval was recorded by somebody other than the maker of its request.\<close>

definition halts_dual :: "halt_db \<Rightarrow> bool" where
  "halts_dual db \<longleftrightarrow>
     (\<forall>a \<in> set (hd_approvals db). \<forall>r \<in> set (hd_requests db).
        hr_request_id r = ha_request a \<longrightarrow> hr_requested_by r \<noteq> ha_approved_by a)"

definition halts_ok :: "timestamp \<times> halt_db \<Rightarrow> bool" where
  "halts_ok s \<longleftrightarrow> halts_wf (snd s) \<and> halts_dual (snd s) \<and>
     (\<forall>a \<in> set (hd_approvals (snd s)). ha_approved_at a \<le> fst s)"

lemma request_step_dual:
  assumes "request_financial_halt sha au now tenant s ba roles reason corr db = Inr (db', r)"
    "halts_wf db" "halts_dual db"
  shows "halts_dual db'"
proof -
  from assms(1) obtain audits where "db' = db\<lparr>hd_next := Suc (Suc (hd_next db)),
      hd_requests := hd_requests db @ [r], hd_audits := audits\<rparr>" "hr_request_id r = hd_next db"
    unfolding request_financial_halt_def Let_def res_simps by fastforce
  with assms(2,3) show ?thesis by (auto simp: halts_dual_def halts_wf_def) (metis less_irrefl)
qed

lemma approve_step_dual:
  assumes "approve_financial_halt sha au now rid ba roles corr db = Inr (db', a)" "halts_dual db"
  shows "halts_dual db'"
proof (cases "obj_first (\<lambda>a. ha_request a = rid) (hd_approvals db)")
  case (Some b)
  with assms show ?thesis by (auto simp: approve_financial_halt_def split: sum.splits if_splits)
next
  case None
  with assms(1) obtain req audits where
    get: "obj_get (\<lambda>r. hr_request_id r = rid) (hd_requests db) = Inr req"
    and a: "ha_request a = rid" "ha_approved_by a \<noteq> hr_requested_by req"
    and db': "db' = db\<lparr>hd_next := Suc (Suc (hd_next db)), hd_approvals := hd_approvals db @ [a],
                hd_audits := audits\<rparr>"
    unfolding approve_financial_halt_def Let_def res_simps by (fastforce split: sum.splits if_splits)
  from obj_get_unique [OF get] a assms(2) show ?thesis by (auto simp: halts_dual_def db')
qed

lemma halt_step_ok:
  assumes "halt_step sha au s s'" "halts_ok s"
  shows "halts_ok s' \<and> (\<forall>tn. halt_allowed (current_halt_state (snd s') tn) \<subseteq>
                             halt_allowed (current_halt_state (snd s) tn))"
  using assms
proof (cases rule: halt_step.cases)
  case (halt_requested now tenant st ba roles reason corr db db' r t)
  with assms(2) request_step_state [OF halt_requested(3)] request_step_dual [OF halt_requested(3)]
  show ?thesis by (force simp: halts_ok_def)
next
  case (halt_approved now rid ba roles corr db db' a t)
  with assms(2) have "halts_wf db" "halts_dual db" "\<forall>b \<in> set (hd_approvals db). ha_approved_at b \<le> now"
    by (force simp: halts_ok_def)+
  with halt_approved approve_step_state [OF halt_approved(3)] approve_step_dual [OF halt_approved(3)]
  show ?thesis by (simp add: halts_ok_def)
qed

lemma halt_steps_ok:
  "(halt_step sha au)\<^sup>*\<^sup>* s s' \<Longrightarrow> halts_ok s \<Longrightarrow>
   halts_ok s' \<and> halt_allowed (current_halt_state (snd s') tn) \<subseteq> halt_allowed (current_halt_state (snd s) tn)"
  by (induction rule: rtranclp_induct) (blast dest: halt_step_ok)+

end
