(* ===== verification/Financial_Realtime.thy ===== *)
theory Financial_Realtime
  imports Financial_Halts
begin

text \<open>
  \<open>financial_boundary/realtime.py\<close>: financial projection events, their private channels, and
  the per-scope cursor that applies each sequence number once, in order, and asks for a
  snapshot when it sees a gap.
\<close>

section \<open>Events, cursors, results\<close>

definition financial_realtime_topics :: "string \<Rightarrow> string option" where
  "financial_realtime_topics = map_of
     [(''wallet.updated.v1'', ''/api/v1/wallets/''),
      (''deposit.updated.v1'', ''/api/v1/deposits/''),
      (''withdrawal.updated.v1'', ''/api/v1/withdrawals/''),
      (''transfer.updated.v1'', ''/api/v1/transfers/'')]"

record financial_projection_event =
  pe_event_id :: uuid
  pe_event_type :: string
  pe_tenant_ref :: uuid
  pe_subject_ref :: string
  pe_sequence :: int
  pe_occurred_at :: timestamp
  pe_payload :: json

definition isdecimal :: "string \<Rightarrow> bool" where
  "isdecimal s \<longleftrightarrow> s \<noteq> [] \<and> list_all is_digit_09 s"

fun json_get :: "string \<Rightarrow> json \<Rightarrow> json option" where
  "json_get k (JObj kvs) = map_of kvs k"
| "json_get k _ = None"

definition make_projection_event ::
  "(string \<Rightarrow> string) \<Rightarrow> financial_projection_event \<Rightarrow> (event_error, financial_projection_event) res" where
  "make_projection_event sha e =
     (if financial_realtime_topics (pe_event_type e) = None
      then Inl (EventContractError ''unsupported financial realtime event'')
      else if pe_sequence e < 1
      then Inl (EventContractError ''financial sequence must be a positive integer'')
      else if 64 < length (pe_subject_ref e) \<or> \<not> isdecimal (pe_subject_ref e)
      then Inl (EventContractError ''subject_ref must be a server-derived user identifier'')
      else case canonical_payload sha (pe_payload e) of
        Inl x \<Rightarrow> Inl x
      | Inr (payload, _) \<Rightarrow>
          if json_get ''user_id'' payload \<noteq> None \<or> json_get ''tenant_ref'' payload \<noteq> None
          then Inl (EventContractError ''financial event identity cannot be supplied in payload'')
          else Inr (e\<lparr>pe_payload := payload\<rparr>))"

datatype projection_status = Applied | Duplicate | Stale | GapRecoveryRequired | SnapshotReplaced

record projection_result =
  pr_status :: projection_status
  pr_last_sequence :: int
  pr_expected_sequence :: int
  pr_snapshot_endpoint :: "string option"

definition private_financial_channel :: "string \<Rightarrow> string \<Rightarrow> (event_error, string) res" where
  "private_financial_channel event_type subject =
     (if financial_realtime_topics event_type = None
      then Inl (EventContractError ''unsupported financial realtime event'')
      else if \<not> isdecimal subject then Inl (EventContractError ''subject_ref must be server-derived'')
      else Inr (event_type @ '':'' @ subject))"

type_synonym projection_scope = "uuid \<times> string \<times> string"

record financial_projection_cursor =
  pc_scope :: projection_scope
  pc_last_sequence :: int
  pc_last_event_id :: "uuid option"
  pc_snapshot_version :: int
  pc_projection :: json
  pc_projection_hash :: string
  pc_updated_at :: timestamp

text \<open>\<open>get_or_create\<close> on the unique scope: the table with the row, and the row.\<close>

definition fresh_cursor :: "timestamp \<Rightarrow> projection_scope \<Rightarrow> financial_projection_cursor" where
  "fresh_cursor now k = \<lparr>pc_scope = k, pc_last_sequence = 0, pc_last_event_id = None,
     pc_snapshot_version = 0, pc_projection = JObj [], pc_projection_hash = '''', pc_updated_at = now\<rparr>"

definition get_or_create_cursor ::
  "timestamp \<Rightarrow> projection_scope \<Rightarrow> financial_projection_cursor list \<Rightarrow>
   financial_projection_cursor list \<times> financial_projection_cursor" where
  "get_or_create_cursor now k t =
     (case obj_first (\<lambda>c. pc_scope c = k) t of
        Some c \<Rightarrow> (t, c)
      | None \<Rightarrow> (t @ [fresh_cursor now k], fresh_cursor now k))"

definition save_cursor ::
  "financial_projection_cursor \<Rightarrow> financial_projection_cursor list \<Rightarrow> financial_projection_cursor list" where
  "save_cursor c t = upd_where (\<lambda>x. pc_scope x = pc_scope c) (\<lambda>_. c) t"

definition event_scope :: "financial_projection_event \<Rightarrow> projection_scope" where
  "event_scope e = (pe_tenant_ref e, pe_subject_ref e, pe_event_type e)"

section \<open>Applying events and snapshots\<close>

definition apply_projection_event ::
  "(string \<Rightarrow> string) \<Rightarrow> timestamp \<Rightarrow> (json \<Rightarrow> json \<Rightarrow> (event_error, json) res) \<Rightarrow>
   financial_projection_event \<Rightarrow> financial_projection_cursor list \<Rightarrow>
   (event_error, financial_projection_cursor list \<times> projection_result) res" where
  "apply_projection_event sha now reducer e t =
     (let (t1, c) = get_or_create_cursor now (event_scope e) t; expected = pc_last_sequence c + 1
      in if pe_sequence e = pc_last_sequence c then
           (if pc_last_event_id c = Some (pe_event_id e)
            then Inr (t1, \<lparr>pr_status = Duplicate, pr_last_sequence = pc_last_sequence c,
                           pr_expected_sequence = expected, pr_snapshot_endpoint = None\<rparr>)
            else Inl (FinancialSequenceConflict ''same sequence was reused by a different event''))
         else if pe_sequence e < expected
         then Inr (t1, \<lparr>pr_status = Stale, pr_last_sequence = pc_last_sequence c,
                        pr_expected_sequence = expected, pr_snapshot_endpoint = None\<rparr>)
         else if pe_sequence e > expected
         then Inr (t1, \<lparr>pr_status = GapRecoveryRequired, pr_last_sequence = pc_last_sequence c,
                        pr_expected_sequence = expected,
                        pr_snapshot_endpoint = financial_realtime_topics (pe_event_type e)\<rparr>)
         else rbind (reducer (pc_projection c) (pe_payload e)) (\<lambda>p.
              rbind (canonical_payload sha p) (\<lambda>(projection, h).
                Inr (save_cursor (c\<lparr>pc_projection := projection, pc_projection_hash := h,
                       pc_last_sequence := pe_sequence e, pc_last_event_id := Some (pe_event_id e),
                       pc_updated_at := now\<rparr>) t1,
                     \<lparr>pr_status = Applied, pr_last_sequence = pe_sequence e,
                      pr_expected_sequence = pe_sequence e + 1, pr_snapshot_endpoint = None\<rparr>))))"

text \<open>\<open>str(snapshot.get(k))\<close>\<close>

definition py_str :: "json option \<Rightarrow> string" where
  "py_str j = py_text (case j of None \<Rightarrow> JNull | Some x \<Rightarrow> x)"

fun non_negative_int :: "json option \<Rightarrow> int option" where
  "non_negative_int (Some (JInt i)) = (if i < 0 then None else Some i)"
| "non_negative_int _ = None"

definition replace_projection_from_snapshot ::
  "(string \<Rightarrow> string) \<Rightarrow> timestamp \<Rightarrow> projection_scope \<Rightarrow> json \<Rightarrow> financial_projection_cursor list \<Rightarrow>
   (event_error, financial_projection_cursor list \<times> projection_result) res" where
  "replace_projection_from_snapshot sha now k snapshot t =
     (let (tenant, subject, event_type) = k
      in if financial_realtime_topics event_type = None
         then Inl (EventContractError ''unsupported financial realtime event'')
         else if py_str (json_get ''tenant_ref'' snapshot) \<noteq> str_uuid tenant \<or>
                 py_str (json_get ''subject_ref'' snapshot) \<noteq> subject
         then Inl (EventContractError ''snapshot authority does not match authenticated scope'')
         else case non_negative_int (json_get ''sequence'' snapshot) of
           None \<Rightarrow> Inl (EventContractError ''snapshot sequence is invalid'')
         | Some sequence \<Rightarrow>
           (case non_negative_int (json_get ''version'' snapshot) of
              None \<Rightarrow> Inl (EventContractError ''snapshot version is invalid'')
            | Some version \<Rightarrow>
              rbind (canonical_payload sha (case json_get ''projection'' snapshot of None \<Rightarrow> JNull | Some p \<Rightarrow> p))
                (\<lambda>(projection, h).
                let (t1, c) = get_or_create_cursor now k t
                in if sequence < pc_last_sequence c \<or> version < pc_snapshot_version c
                   then Inl (FinancialSequenceConflict ''snapshot would move projection backwards'')
                   else Inr (save_cursor (c\<lparr>pc_last_sequence := sequence, pc_last_event_id := None,
                               pc_snapshot_version := version, pc_projection := projection,
                               pc_projection_hash := h, pc_updated_at := now\<rparr>) t1,
                             \<lparr>pr_status = SnapshotReplaced, pr_last_sequence = sequence,
                              pr_expected_sequence = sequence + 1, pr_snapshot_endpoint = None\<rparr>))))"

section \<open>What a cursor knows\<close>

text \<open>The sequence number and projection of a scope; a scope without a row is at 0 with \<open>{}\<close>.\<close>

definition cursor_at :: "financial_projection_cursor list \<Rightarrow> projection_scope \<Rightarrow> financial_projection_cursor" where
  "cursor_at t k = (case obj_first (\<lambda>c. pc_scope c = k) t of Some c \<Rightarrow> c | None \<Rightarrow> fresh_cursor 0 k)"

definition cursor_view :: "financial_projection_cursor list \<Rightarrow> projection_scope \<Rightarrow> int \<times> json" where
  "cursor_view t k = (pc_last_sequence (cursor_at t k), pc_projection (cursor_at t k))"

lemma get_or_create_view:
  assumes "get_or_create_cursor now k t = (t1, c)"
  shows "cursor_view t1 = cursor_view t" "obj_first (\<lambda>x. pc_scope x = k) t1 = Some c"
    "pc_last_sequence c = fst (cursor_view t k)" "pc_projection c = snd (cursor_view t k)" "pc_scope c = k"
    "pc_snapshot_version c = pc_snapshot_version (cursor_at t k)"
proof -
  have "obj_first (\<lambda>x. pc_scope x = k) t1 = Some c \<and> pc_scope c = k \<and>
      pc_last_sequence c = fst (cursor_view t k) \<and> pc_projection c = snd (cursor_view t k) \<and>
      pc_snapshot_version c = pc_snapshot_version (cursor_at t k)"
    using assms
    by (auto simp: get_or_create_cursor_def cursor_view_def cursor_at_def obj_first_append fresh_cursor_def
        split: option.splits dest: obj_first_Some)
  moreover have "cursor_view t1 i = cursor_view t i" for i
    using assms
    by (auto simp: get_or_create_cursor_def cursor_view_def cursor_at_def obj_first_append fresh_cursor_def
        split: option.splits if_splits)
  ultimately show "cursor_view t1 = cursor_view t" "obj_first (\<lambda>x. pc_scope x = k) t1 = Some c"
    "pc_last_sequence c = fst (cursor_view t k)" "pc_projection c = snd (cursor_view t k)" "pc_scope c = k"
    "pc_snapshot_version c = pc_snapshot_version (cursor_at t k)"
    by auto
qed

lemma save_cursor_at:
  assumes "obj_first (\<lambda>x. pc_scope x = pc_scope c) t = Some c0"
  shows "cursor_at (save_cursor c t) k = (if k = pc_scope c then c else cursor_at t k)"
proof (cases "k = pc_scope c")
  case True
  have "obj_first (\<lambda>x. pc_scope x = pc_scope c) (save_cursor c t) = Some c"
    unfolding save_cursor_def
    by (rule obj_first_upd_where [OF assms, where f = "\<lambda>_. c"]) (use assms in \<open>auto dest: obj_first_Some\<close>)
  with True show ?thesis by (simp add: cursor_at_def)
next
  case False
  then have "obj_first (\<lambda>x. pc_scope x = k) (save_cursor c t) = obj_first (\<lambda>x. pc_scope x = k) t"
    unfolding save_cursor_def upd_where_def by (induction t) auto
  with False show ?thesis by (simp add: cursor_at_def)
qed

lemma canonical_payload_Inr:
  "canonical_payload sha j = Inr r \<longleftrightarrow>
     (\<exists>kvs. j = JObj kvs) \<and> \<not> carries_secret j \<and> r = (canon j, sha (dumps j))"
  by (auto simp: canonical_payload_def split: json.splits if_splits)

lemma apply_step:
  assumes "apply_projection_event sha now reducer e t = Inr (t', res)"
  shows "if pr_status res = Applied
    then pe_sequence e = fst (cursor_view t (event_scope e)) + 1 \<and>
      (\<exists>p. reducer (snd (cursor_view t (event_scope e))) (pe_payload e) = Inr p \<and>
           cursor_view t' = (cursor_view t)(event_scope e := (pe_sequence e, canon p)))
    else cursor_view t' = cursor_view t"
proof -
  obtain t1 c where gc: "get_or_create_cursor now (event_scope e) t = (t1, c)" by fastforce
  note v = get_or_create_view [OF gc]
  show ?thesis
  proof (cases "pe_sequence e = pc_last_sequence c + 1")
    case True
    with assms gc obtain p h where p: "reducer (pc_projection c) (pe_payload e) = Inr p"
      and res: "pr_status res = Applied"
      and t': "t' = save_cursor (c\<lparr>pc_projection := canon p, pc_projection_hash := h,
                 pc_last_sequence := pe_sequence e, pc_last_event_id := Some (pe_event_id e),
                 pc_updated_at := now\<rparr>) t1"
      by (auto simp: apply_projection_event_def Let_def res_simps canonical_payload_Inr simp del: canon.simps dumps.simps)
    from t' v(2,5) have "cursor_view t' k =
        (if k = event_scope e then (pe_sequence e, canon p) else cursor_view t1 k)" for k
      by (auto simp: cursor_view_def save_cursor_at)
    then have "cursor_view t' = (cursor_view t)(event_scope e := (pe_sequence e, canon p))"
      by (simp add: fun_eq_iff v(1))
    with True v p res show ?thesis by auto
  next
    case False
    with assms gc have "t' = t1 \<and> pr_status res \<noteq> Applied"
      by (auto simp: apply_projection_event_def Let_def split: if_splits)
    with v(1) show ?thesis by simp
  qed
qed

text \<open>
  A stream of events at successive instants: a raise rolls back and leaves the table alone.
  \<open>apply_projection_stream\<close> answers the table and the events that were applied.
\<close>

fun apply_projection_stream ::
  "(string \<Rightarrow> string) \<Rightarrow> (json \<Rightarrow> json \<Rightarrow> (event_error, json) res) \<Rightarrow>
   (timestamp \<times> financial_projection_event) list \<Rightarrow> financial_projection_cursor list \<Rightarrow>
   financial_projection_cursor list \<times> financial_projection_event list" where
  "apply_projection_stream sha reducer [] t = (t, [])"
| "apply_projection_stream sha reducer ((now, e) # es) t =
     (case apply_projection_event sha now reducer e t of
        Inl _ \<Rightarrow> apply_projection_stream sha reducer es t
      | Inr (t1, res) \<Rightarrow>
          let (t2, applied) = apply_projection_stream sha reducer es t1
          in (t2, if pr_status res = Applied then e # applied else applied))"

fun reduce_all ::
  "(json \<Rightarrow> json \<Rightarrow> (event_error, json) res) \<Rightarrow> financial_projection_event list \<Rightarrow> json \<Rightarrow> (event_error, json) res" where
  "reduce_all reducer [] p = Inr p"
| "reduce_all reducer (e # es) p = rbind (reducer p (pe_payload e)) (\<lambda>q. reduce_all reducer es (canon q))"

lemma apply_stream_view:
  assumes "apply_projection_stream sha reducer es t = (t', applied)"
  defines "mine \<equiv> \<lambda>k. filter (\<lambda>e. event_scope e = k) applied"
  shows "map pe_sequence (mine k) = map (\<lambda>i. fst (cursor_view t k) + 1 + int i) [0..<length (mine k)] \<and>
    fst (cursor_view t' k) = fst (cursor_view t k) + int (length (mine k)) \<and>
    reduce_all reducer (mine k) (snd (cursor_view t k)) = Inr (snd (cursor_view t' k))"
  using assms(1) unfolding mine_def
proof (induction es arbitrary: t applied)
  case (Cons q es)
  obtain now e where q: "q = (now, e)" by (cases q)
  show ?case
  proof (cases "apply_projection_event sha now reducer e t")
    case (Inl x)
    with Cons.prems q Cons.IH [of t applied] show ?thesis by simp
  next
    case (Inr a)
    obtain t1 res where a: "a = (t1, res)" by (cases a)
    obtain ap where rest: "apply_projection_stream sha reducer es t1 = (t', ap)"
      and applied: "applied = (if pr_status res = Applied then e # ap else ap)"
      using Cons.prems q Inr a by (auto split: prod.splits)
    note step = apply_step [of sha now reducer e t t1 res, unfolded Inr a, OF refl]
    note ih = Cons.IH [OF rest]
    have cons: "map (\<lambda>i. s + 1 + int i) [0..<Suc n] = (s + 1) # map (\<lambda>i. s + 1 + 1 + int i) [0..<n]"
      for s n by (simp add: upt_conv_Cons map_Suc_upt [symmetric] del: upt_Suc)
    show ?thesis
      using step ih
      by (cases "pr_status res = Applied"; cases "event_scope e = k")
        (auto simp: applied cons simp del: upt_Suc)
  qed
qed simp

end
