(* ===== verification/Financial_Properties.thy ===== *)
theory Financial_Properties
  imports Financial_Realtime
begin

text \<open>
  Properties of the financial boundary: canonical amounts, the withdrawal policy, the life
  cycles, the halt authority, the event inbox and the projection cursors.
\<close>

section \<open>Amounts\<close>

lemma amount_decimals_expand: "amount_decimals (expand (Finite s c e)) = amount_decimals (Finite s c e)"
  by (simp add: amount_decimals_def expand_def)

lemma canonical_amount_Inr:
  "canonical_amount (JStr s) p z = Inr t \<longleftrightarrow>
     (\<exists>neg c e. parse_decimal s = Some (Finite neg c e) \<and> (neg \<longrightarrow> c = 0) \<and> (z \<or> c \<noteq> 0) \<and>
        amount_decimals (Finite neg c e) \<le> p \<and> t = format_f (Finite neg c e))"
  by (auto simp: canonical_amount_def dec_negative_def split: option.splits decimal.splits)

text \<open>
  C15. What \<open>canonical_amount\<close> answers denotes the very value of the text it was given,
  which is not negative, it has at most \<open>precision\<close> decimals, and it is a fixed point: the
  canonical text is accepted again and unchanged.
\<close>

theorem canonical_amount_sound:
  assumes "canonical_amount (JStr s) precision allow_zero = Inr t"
  shows "\<exists>d d'. parse_decimal s = Some d \<and> parse_decimal t = Some d' \<and> dec_value d' = dec_value d \<and>
    0 \<le> dec_value d \<and> (\<not> allow_zero \<longrightarrow> 0 < dec_value d) \<and> amount_decimals d' \<le> precision \<and>
    canonical_amount (JStr t) precision allow_zero = Inr t"
proof -
  from assms obtain neg c e where s: "parse_decimal s = Some (Finite neg c e)" and sg: "neg \<longrightarrow> c = 0"
    and z: "allow_zero \<or> c \<noteq> 0" and p: "amount_decimals (Finite neg c e) \<le> precision"
    and t: "t = format_f (Finite neg c e)"
    by (auto simp: canonical_amount_Inr)
  have pt: "parse_decimal t = Some (expand (Finite neg c e))" unfolding t by (rule parse_format_f)
  obtain c' e' where x: "expand (Finite neg c e) = Finite neg c' e'" "c' = 0 \<longleftrightarrow> c = 0"
    by (cases "0 \<le> e") (auto simp: expand_def)
  have "amount_decimals (Finite neg c' e') \<le> precision"
    using p amount_decimals_expand [of neg c e] x(1) by simp
  moreover have "t = format_f (Finite neg c' e')" using format_f_expand [of neg c e] t x(1) by simp
  ultimately have "canonical_amount (JStr t) precision allow_zero = Inr t"
    using pt x sg z by (auto simp: canonical_amount_Inr)
  moreover have "dec_value (Finite neg c' e') = dec_value (Finite neg c e)"
    using dec_value_expand [of "Finite neg c e"] x(1) by simp
  moreover have "0 \<le> dec_value (Finite neg c e)" "\<not> allow_zero \<longrightarrow> 0 < dec_value (Finite neg c e)"
    using sg z by auto
  ultimately show ?thesis
    using s pt x(1) \<open>amount_decimals (Finite neg c' e') \<le> precision\<close>
    by (intro exI [of _ "Finite neg c e"] exI [of _ "Finite neg c' e'"]) (simp del: dec_value.simps)
qed

theorem canonical_amount_sound_witness:
  "canonical_amount (JStr ''1.5e1'') 8 False = Inr ''15'' \<and>
   (\<exists>d d'. parse_decimal ''1.5e1'' = Some d \<and> parse_decimal ''15'' = Some d' \<and> dec_value d' = dec_value d \<and>
     0 \<le> dec_value d \<and> (\<not> False \<longrightarrow> 0 < dec_value d) \<and> amount_decimals d' \<le> 8 \<and>
     canonical_amount (JStr ''15'') 8 False = Inr ''15'')"
proof -
  have "canonical_amount (JStr ''1.5e1'') 8 False = Inr ''15''" by code_simp
  with canonical_amount_sound [OF this] show ?thesis by blast
qed

section \<open>Withdrawal policy\<close>

definition fresh_auth :: "timestamp \<Rightarrow> timestamp option \<Rightarrow> int \<Rightarrow> bool" where
  "fresh_auth now a m \<longleftrightarrow> (\<exists>t. a = Some t \<and> now - t \<le> m)"

lemma stale_auth_fresh: "stale_auth now a m \<longleftrightarrow> \<not> fresh_auth now a m"
  by (auto simp: stale_auth_def fresh_auth_def split: option.splits)

lemma exceeds_limit_False:
  "exceeds_limit amount limit = Inr False \<longleftrightarrow>
     (\<exists>d. parse_decimal amount = Some d \<and> (d = Inf True \<or> (\<exists>s c e. d = Finite s c e \<and> dec_value d \<le> limit)))"
  by (auto simp: exceeds_limit_def not_less split: option.splits decimal.splits)

text \<open>
  A withdrawal is \<open>ELIGIBLE\<close> exactly when every gate is open: the account is active and
  not frozen, KYC, AML, sanctions and jurisdiction are clear, session and second factor are
  recent, no security change or destination cooldown is running, the destination is
  verified and the amount does not exceed the limit.
\<close>

theorem evaluate_withdrawal_eligible_iff:
  "evaluate_withdrawal c amount now policy = Inr ''ELIGIBLE'' \<longleftrightarrow>
     wc_account_active c \<and> \<not> wc_frozen c \<and> wc_kyc_approved c \<and> wc_aml_cleared c \<and>
     wc_sanctions_clear c \<and> wc_jurisdiction_supported c \<and>
     fresh_auth now (wc_session_authenticated_at c) (wp_session_max_age policy) \<and>
     fresh_auth now (wc_mfa_authenticated_at c) (wp_mfa_max_age policy) \<and>
     (\<nexists>t. wc_security_changed_at c = Some t \<and> now - t < wp_security_change_cooldown policy) \<and>
     wc_destination_verified c \<and> (\<nexists>t. wc_destination_cooldown_until c = Some t \<and> now < t) \<and>
     (\<exists>d. parse_decimal amount = Some d \<and>
        (d = Inf True \<or> (\<exists>s k e. d = Finite s k e \<and> dec_value d \<le> wp_per_transaction_limit policy)))"
proof -
  have "evaluate_withdrawal c amount now policy = Inr ''ELIGIBLE'' \<longleftrightarrow>
     wc_account_active c \<and> \<not> wc_frozen c \<and> wc_kyc_approved c \<and> wc_aml_cleared c \<and>
     wc_sanctions_clear c \<and> wc_jurisdiction_supported c \<and>
     \<not> stale_auth now (wc_session_authenticated_at c) (wp_session_max_age policy) \<and>
     \<not> stale_auth now (wc_mfa_authenticated_at c) (wp_mfa_max_age policy) \<and>
     \<not> (case wc_security_changed_at c of None \<Rightarrow> False | Some t \<Rightarrow> now - t < wp_security_change_cooldown policy) \<and>
     wc_destination_verified c \<and>
     \<not> (case wc_destination_cooldown_until c of None \<Rightarrow> False | Some t \<Rightarrow> now < t) \<and>
     exceeds_limit amount (wp_per_transaction_limit policy) = Inr False"
    unfolding evaluate_withdrawal_def by (auto split: sum.splits)
  then show ?thesis
    unfolding stale_auth_fresh exceeds_limit_False by (auto split: option.splits)
qed

section \<open>Life cycles\<close>

text \<open>\<open>WdCompleted\<close> lies behind \<open>WdApproved\<close>, \<open>DepCredited\<close> behind \<open>DepCreditPending\<close>.\<close>

lemma completed_after_approved:
  "withdrawal_machine.history s xs \<Longrightarrow> WdCompleted \<in> set xs \<Longrightarrow>
   WdApproved \<in> set (s # xs) \<or> s \<in> {WdQueued, WdSubmitted, WdPendingConfirmation}"
proof (induction xs arbitrary: s)
  case (Cons t ts)
  then have t: "t \<in> set (withdrawal_transitions s)" "withdrawal_machine.history t ts" by auto
  show ?case
  proof (cases "t = WdCompleted")
    case True
    with t(1) show ?thesis by (cases s) auto
  next
    case False
    with Cons t(2) have "WdApproved \<in> set (t # ts) \<or> t \<in> {WdQueued, WdSubmitted, WdPendingConfirmation}" by auto
    with t(1) show ?thesis by (cases s) auto
  qed
qed simp

text \<open>
  C17. A withdrawal driven through \<open>assert_transition\<close> from \<open>CREATED\<close> visits no state twice
  and stops after at most nine moves; it can complete only after it was approved, and a
  rejected, cancelled, failed or reversed withdrawal never moves again.
\<close>

theorem withdrawal_lifecycle:
  assumes "run_transitions withdrawal_transitions WdCreated xs = Inr s"
  shows "distinct (WdCreated # xs) \<and> length xs \<le> 9 \<and>
    (WdCompleted \<in> set xs \<longrightarrow> WdApproved \<in> set xs) \<and>
    (\<forall>x \<in> set xs. x \<in> {WdRejected, WdCancelled, WdFailed, WdReversed} \<longrightarrow> x = s)"
proof -
  from assms have h: "withdrawal_machine.history WdCreated xs" "s = last (WdCreated # xs)"
    by (simp_all add: run_transitions_withdrawal)
  from withdrawal_machine.history_length [OF h(1)] have "length xs \<le> 9" by simp
  moreover have "WdCompleted \<in> set xs \<longrightarrow> WdApproved \<in> set xs"
    using completed_after_approved [OF h(1)] by auto
  moreover have "x = s" if "x \<in> set xs" "x \<in> {WdRejected, WdCancelled, WdFailed, WdReversed}" for x
    using withdrawal_machine.terminal_last [OF h(1) that] h(2) that(1) by (cases xs) auto
  ultimately show ?thesis using withdrawal_machine.history_distinct [OF h(1)] by blast
qed

theorem withdrawal_lifecycle_witness:
  "run_transitions withdrawal_transitions WdCreated
     [WdPendingValidation, WdPendingCompliance, WdApproved, WdQueued, WdCancelled] = Inr WdCancelled \<and>
   distinct (WdCreated # [WdPendingValidation, WdPendingCompliance, WdApproved, WdQueued, WdCancelled])"
proof -
  have r: "run_transitions withdrawal_transitions WdCreated
     [WdPendingValidation, WdPendingCompliance, WdApproved, WdQueued, WdCancelled] = Inr WdCancelled"
    by (simp add: assert_transition_def)
  with withdrawal_lifecycle [OF r] show ?thesis by blast
qed

section \<open>Halts\<close>

definition no_halts :: halt_db where
  "no_halts = \<lparr>hd_next = 0, hd_requests = [], hd_approvals = [], hd_audits = []\<rparr>"

lemma no_halts_ok: "halts_ok (t, no_halts)"
  by (simp add: halts_ok_def halts_wf_def halts_dual_def no_halts_def)

text \<open>
  C18. Halts only reduce capability: once an operation is denied for a tenant, no later
  sequence of halt requests and approvals, by whatever actors with whatever roles, allows it
  again, and every approval on record was given by someone other than the maker of its request.
\<close>

theorem financial_halts_irrevocable:
  assumes "(halt_step sha actor_uuid)\<^sup>*\<^sup>* (t0, no_halts) (t, db)"
    and "(halt_step sha actor_uuid)\<^sup>*\<^sup>* (t, db) (t', db')"
    and "assert_financial_operation_allowed db tenant operation = Inl HaltDenied"
  shows "assert_financial_operation_allowed db' tenant operation = Inl HaltDenied \<and>
    (\<forall>a \<in> set (hd_approvals db'). \<exists>r. request_of db' (ha_request a) = Some r \<and>
       hr_requested_by r \<noteq> ha_approved_by a)"
proof -
  have ok: "halts_ok (t, db)" using halt_steps_ok [OF assms(1) no_halts_ok] by simp
  with halt_steps_ok [OF assms(2) ok, of tenant]
  have le: "halt_allowed (current_halt_state db' tenant) \<subseteq> halt_allowed (current_halt_state db tenant)"
    and ok': "halts_wf db'" "halts_dual db'" by (auto simp: halts_ok_def)
  have "\<exists>r. request_of db' (ha_request a) = Some r \<and> hr_requested_by r \<noteq> ha_approved_by a"
    if "a \<in> set (hd_approvals db')" for a
  proof -
    from ok'(1) that have "request_of db' (ha_request a) \<noteq> None"
      unfolding halts_wf_def request_of_def obj_first_None by blast
    then obtain r where "request_of db' (ha_request a) = Some r" by blast
    moreover from this have "r \<in> set (hd_requests db')" "hr_request_id r = ha_request a"
      unfolding request_of_def by (auto dest: obj_first_Some)
    ultimately show ?thesis using ok'(2) that unfolding halts_dual_def by blast
  qed
  moreover have "operation \<notin> halt_allowed (current_halt_state db tenant)"
    using assms(3) by (simp add: assert_financial_operation_allowed_def Let_def split: if_splits)
  with le have "operation \<notin> halt_allowed (current_halt_state db' tenant)" by blast
  then have "assert_financial_operation_allowed db' tenant operation = Inl HaltDenied"
    by (simp add: assert_financial_operation_allowed_def Let_def)
  ultimately show ?thesis by blast
qed

definition halted_db :: halt_db where
  "halted_db =
     (case request_financial_halt id nat 5 77 HaltWithdrawals 1 [''financial_operations''] ''RISK_EVENT'' 9 no_halts of
        Inl _ \<Rightarrow> no_halts
      | Inr (db, r) \<Rightarrow>
          (case approve_financial_halt id nat 6 (hr_request_id r) 2 [''financial_manager''] 9 db of
             Inl _ \<Rightarrow> no_halts | Inr (db', _) \<Rightarrow> db'))"

lemma halted_db_reachable: "(halt_step id nat)\<^sup>*\<^sup>* (0, no_halts) (6, halted_db)"
proof -
  let ?r = "request_financial_halt id nat 5 77 HaltWithdrawals 1 [''financial_operations''] ''RISK_EVENT'' 9 no_halts"
  have "case ?r of Inl _ \<Rightarrow> False | Inr (db, r) \<Rightarrow>
      (case approve_financial_halt id nat 6 (hr_request_id r) 2 [''financial_manager''] 9 db of
         Inl _ \<Rightarrow> False | Inr _ \<Rightarrow> True)" by code_simp
  then obtain db r db' a where r: "?r = Inr (db, r)"
      "approve_financial_halt id nat 6 (hr_request_id r) 2 [''financial_manager''] 9 db = Inr (db', a)"
    by (auto split: sum.splits prod.splits) (metis sum.exhaust surj_pair)
  then have "halted_db = db'" by (simp add: halted_db_def)
  moreover have "halt_step id nat (0, no_halts) (5, db)" by (rule halt_requested [OF r(1)]) simp
  moreover have "halt_step id nat (5, db) (6, db')" by (rule halt_approved [OF r(2)]) simp
  ultimately show ?thesis by (meson converse_rtranclp_into_rtranclp rtranclp.rtrancl_refl)
qed

theorem financial_halts_irrevocable_witness:
  "(halt_step id nat)\<^sup>*\<^sup>* (0, no_halts) (6, halted_db) \<and>
   assert_financial_operation_allowed halted_db 77 MutWithdrawal = Inl HaltDenied \<and>
   assert_financial_operation_allowed halted_db 77 MutDeposit = Inr HaltWithdrawals \<and>
   length (hd_approvals halted_db) = 1 \<and>
   list_all (\<lambda>a. \<exists>r. request_of halted_db (ha_request a) = Some r \<and>
      hr_requested_by r \<noteq> ha_approved_by a) (hd_approvals halted_db)"
proof -
  have d: "assert_financial_operation_allowed halted_db 77 MutWithdrawal = Inl HaltDenied"
    "assert_financial_operation_allowed halted_db 77 MutDeposit = Inr HaltWithdrawals"
    "length (hd_approvals halted_db) = 1" by code_simp+
  from financial_halts_irrevocable [OF halted_db_reachable rtranclp.rtrancl_refl d(1)] d halted_db_reachable
  show ?thesis unfolding list_all_iff by blast
qed

section \<open>Financial events\<close>

fun consume_financial_stream ::
  "(string \<Rightarrow> string) \<Rightarrow> timestamp \<Rightarrow> (financial_event_envelope \<Rightarrow> 'd \<Rightarrow> (event_error, 'd) res) \<Rightarrow>
   financial_event_envelope list \<Rightarrow> financial_processed list \<times> 'd \<Rightarrow>
   (financial_processed list \<times> 'd) \<times> uuid list" where
  "consume_financial_stream sha now handler [] s = (s, [])"
| "consume_financial_stream sha now handler (e # es) s =
     (case consume_financial_event sha now e handler s of
        Inr (s1, True) \<Rightarrow> (case consume_financial_stream sha now handler es s1 of (s2, ks) \<Rightarrow> (s2, env_event_id e # ks))
      | Inr (s1, False) \<Rightarrow> consume_financial_stream sha now handler es s1
      | Inl _ \<Rightarrow> consume_financial_stream sha now handler es s)"

lemma consume_financial_cases:
  fixes s :: "financial_processed list \<times> 'd"
  obtains (run) d' t' where "consume_financial_event sha now e handler s = Inr ((t', d'), True)"
      "financial_seen (fst s) (env_event_id e) = None" "handler e (snd s) = Inr d'"
      "financial_seen t' = (financial_seen (fst s))(env_event_id e \<mapsto> (env_event_type e, env_tenant_ref e, envelope_hash sha e))"
    | (skip) "consume_financial_event sha now e handler s = Inr (s, False)"
    | (err) x where "consume_financial_event sha now e handler s = Inl x"
proof -
  obtain t d where s: "s = (t, d)" by (cases s)
  let ?k = "env_event_id e" and ?fp = "(env_event_type e, env_tenant_ref e, envelope_hash sha e)"
  show ?thesis
  proof (cases "financial_seen t ?k")
    case None
    show ?thesis
    proof (cases "handler e d")
      case (Inl x)
      from financial_inbox.consume_failed [of t ?k "handler e" d x now ?fp] None Inl err s show ?thesis
        by (auto simp: consume_financial_event_def)
    next
      case (Inr d')
      from financial_inbox.consume_new [of t ?k "handler e" d d' now ?fp] run s None Inr show ?thesis
        by (auto simp: consume_financial_event_def)
    qed
  next
    case (Some f)
    with financial_inbox.consume_duplicate [of t ?k ?fp now "handler e" d]
      financial_inbox.consume_conflict [of t ?k f ?fp now "handler e" d] skip err s
    show ?thesis by (cases "f = ?fp") (auto simp: consume_financial_event_def)
  qed
qed

text \<open>
  However often financial events are redelivered, and whatever conflicting bodies or
  failing handlers are among them, each event identifier has its effect at most once and only if it
  was not on record before.
\<close>

theorem consume_financial_stream_once:
  assumes "consume_financial_stream sha now handler es (t, d) = ((t', d'), ks)"
  shows "distinct ks \<and> (\<forall>k \<in> set ks. financial_seen t k = None) \<and>
    dom (financial_seen t') = dom (financial_seen t) \<union> set ks"
  using assms
proof (induction es arbitrary: t d ks)
  case (Cons e es)
  show ?case
  proof (cases rule: consume_financial_cases [of sha now e handler "(t, d)"])
    case (run d1 t1)
    obtain r ks1 where rest: "consume_financial_stream sha now handler es (t1, d1) = (r, ks1)" by fastforce
    with Cons.prems run(1) have k: "ks = env_event_id e # ks1" "r = (t', d')" by auto
    from Cons.IH [of t1 d1 ks1] rest k have ih: "distinct ks1" "\<forall>k \<in> set ks1. financial_seen t1 k = None"
      "dom (financial_seen t') = dom (financial_seen t1) \<union> set ks1" by auto
    from ih(2) run(4) have "\<forall>k \<in> set ks1. k \<noteq> env_event_id e \<and> financial_seen t k = None"
      by (metis fst_conv fun_upd_apply option.distinct(1))
    with ih k run(2,4) show ?thesis by auto
  next
    case skip
    with Cons show ?thesis by simp
  next
    case err
    with Cons show ?thesis by simp
  qed
qed simp

definition demo_envelope :: "uuid \<Rightarrow> int \<Rightarrow> financial_event_envelope" where
  "demo_envelope i v = \<lparr>env_event_id = i, env_event_type = ''financial.deposit.credited.v1'',
     env_schema_version = 1, env_occurred_at = 0, env_correlation_id = 4, env_causation_id = None,
     env_tenant_ref = 8, env_payload = JObj [(''amount'', JInt v)]\<rparr>"

definition demo_count :: "financial_event_envelope \<Rightarrow> nat \<Rightarrow> (event_error, nat) res" where
  "demo_count e n = Inr (Suc n)"

theorem consume_financial_stream_once_witness:
  "snd (consume_financial_stream id 0 demo_count
     [demo_envelope 1 5, demo_envelope 1 5, demo_envelope 1 6, demo_envelope 2 5] ([], 0)) = [1, 2] \<and>
   distinct [1 :: uuid, 2]"
proof -
  let ?r = "consume_financial_stream id 0 demo_count
     [demo_envelope 1 5, demo_envelope 1 5, demo_envelope 1 6, demo_envelope 2 5] ([], 0)"
  have r: "snd ?r = [1, 2]" by code_simp
  have "?r = ((fst (fst ?r), snd (fst ?r)), snd ?r)" by simp
  from consume_financial_stream_once [OF this] r show ?thesis by simp
qed

section \<open>Projections\<close>

text \<open>
  C20. Whatever stream of projection events arrives, the events applied to a scope carry
  exactly the next sequence numbers after the scope's cursor, without gap or repetition, the
  cursor ends behind the last of them, and the stored projection is the reduction of their
  payloads in that order.
\<close>

theorem projection_stream_gapless:
  assumes "apply_projection_stream sha reducer es t = (t', applied)"
  shows "map pe_sequence (filter (\<lambda>e. event_scope e = k) applied) =
      map (\<lambda>i. fst (cursor_view t k) + 1 + int i) [0..<length (filter (\<lambda>e. event_scope e = k) applied)] \<and>
    fst (cursor_view t' k) = fst (cursor_view t k) + int (length (filter (\<lambda>e. event_scope e = k) applied)) \<and>
    reduce_all reducer (filter (\<lambda>e. event_scope e = k) applied) (snd (cursor_view t k)) =
      Inr (snd (cursor_view t' k))"
  using apply_stream_view [OF assms] .

definition demo_projection_event :: "uuid \<Rightarrow> int \<Rightarrow> financial_projection_event" where
  "demo_projection_event i n = \<lparr>pe_event_id = i, pe_event_type = ''wallet.updated.v1'', pe_tenant_ref = 3,
     pe_subject_ref = ''42'', pe_sequence = n, pe_occurred_at = 0, pe_payload = JObj [(''n'', JInt n)]\<rparr>"

definition demo_events :: "(timestamp \<times> financial_projection_event) list" where
  "demo_events = map (\<lambda>(i, n). (0, demo_projection_event i n)) [(1, 1), (3, 3), (1, 1), (2, 2), (9, 2), (3, 3)]"

definition demo_scope :: projection_scope where
  "demo_scope = (3, ''42'', ''wallet.updated.v1'')"

theorem projection_stream_gapless_witness:
  "map pe_sequence (snd (apply_projection_stream id (\<lambda>p e. Inr e) demo_events [])) = [1, 2, 3] \<and>
   fst (cursor_view (fst (apply_projection_stream id (\<lambda>p e. Inr e) demo_events [])) demo_scope) = 3"
proof -
  let ?r = "apply_projection_stream id (\<lambda>p e. Inr e) demo_events []"
  have r: "map pe_sequence (snd ?r) = [1, 2, 3]"
    "length (filter (\<lambda>e. event_scope e = demo_scope) (snd ?r)) = 3"
    "fst (cursor_view [] demo_scope) = 0" by code_simp+
  have "?r = (fst ?r, snd ?r)" by simp
  from projection_stream_gapless [OF this, of demo_scope] r show ?thesis by simp
qed

end
