(* ===== verification/Financial_Reconciliation.thy ===== *)
theory Financial_Reconciliation
  imports Json "HOL-Library.Product_Lexorder"
begin

text \<open>
  \<open>financial_boundary/reconciliation.py\<close>: the read-only comparison of application evidence
  with financial evidence. Evidence rows are Python dictionaries of JSON values;
  \<open>datetime.fromisoformat\<close> is the parameter \<open>fromiso\<close>, which answers the instant and whether the
  text carries a time zone.
\<close>

section \<open>Evidence, findings, reports\<close>

datatype violation =
    MissingFinancialOperation | DuplicateFinancialEffect | OrphanReservation | ReservationLeak
  | SettlementMismatch | WalletProjectionMismatch | DepositCreditMismatch | WithdrawalStateMismatch
  | TransferStateMismatch | AuditGap

fun violation_value :: "violation \<Rightarrow> string" where
  "violation_value MissingFinancialOperation = ''MISSING_FINANCIAL_OPERATION''"
| "violation_value DuplicateFinancialEffect = ''DUPLICATE_FINANCIAL_EFFECT''"
| "violation_value OrphanReservation = ''ORPHAN_RESERVATION''"
| "violation_value ReservationLeak = ''RESERVATION_LEAK''"
| "violation_value SettlementMismatch = ''SETTLEMENT_MISMATCH''"
| "violation_value WalletProjectionMismatch = ''WALLET_PROJECTION_MISMATCH''"
| "violation_value DepositCreditMismatch = ''DEPOSIT_CREDIT_MISMATCH''"
| "violation_value WithdrawalStateMismatch = ''WITHDRAWAL_STATE_MISMATCH''"
| "violation_value TransferStateMismatch = ''TRANSFER_STATE_MISMATCH''"
| "violation_value AuditGap = ''AUDIT_GAP''"

definition all_violations :: "violation list" where
  "all_violations = [MissingFinancialOperation, DuplicateFinancialEffect, OrphanReservation,
     ReservationLeak, SettlementMismatch, WalletProjectionMismatch, DepositCreditMismatch,
     WithdrawalStateMismatch, TransferStateMismatch, AuditGap]"

datatype recon_error = ReconValueError string | ReconKeyError string | ReconTypeError

record reconciliation_evidence =
  ev_application_operations :: "row list"
  ev_financial_operations :: "row list"
  ev_reservations :: "row list"
  ev_application_settlements :: "row list"
  ev_financial_settlements :: "row list"
  ev_wallet_projections :: "row list"
  ev_wallet_snapshots :: "row list"
  ev_application_deposits :: "row list"
  ev_financial_deposits :: "row list"
  ev_application_withdrawals :: "row list"
  ev_financial_withdrawals :: "row list"
  ev_application_transfers :: "row list"
  ev_financial_transfers :: "row list"
  ev_outbox :: "row list"
  ev_received_events :: "row list"
  ev_inbox :: "row list"
  ev_audits :: "row list"

record reconciliation_finding =
  rf_violation :: violation
  rf_reference :: string
  rf_evidence_hash :: string
  rf_severity :: string

record reconciliation_report =
  rr_findings :: "reconciliation_finding list"
  rr_checks_executed :: "violation list"
  rr_generated_at :: timestamp
  rr_evidence_hash :: string

definition activation_ready :: "reconciliation_report \<Rightarrow> bool" where
  "activation_ready r \<longleftrightarrow> rr_findings r = []"

definition critical_count :: "reconciliation_report \<Rightarrow> nat" where
  "critical_count r = length (filter (\<lambda>f. rf_severity f = ''CRITICAL'') (rr_findings r))"

definition canonical_hash :: "(string \<Rightarrow> string) \<Rightarrow> json \<Rightarrow> string" where
  "canonical_hash sha j = sha (dumps j)"

section \<open>Grouping\<close>

text \<open>\<open>str(item.get(key, ""))\<close>: the default is the empty text, not \<open>None\<close>.\<close>

definition row_text :: "row \<Rightarrow> string \<Rightarrow> string" where
  "row_text r k = (case map_of r k of None \<Rightarrow> [] | Some j \<Rightarrow> py_text j)"

definition setdefault_append :: "string \<Rightarrow> row \<Rightarrow> (string \<times> row list) list \<Rightarrow> (string \<times> row list) list" where
  "setdefault_append k x g =
     (if k \<in> fst ` set g then map (\<lambda>(i, xs). (i, if i = k then xs @ [x] else xs)) g else g @ [(k, [x])])"

fun groups_from :: "string \<Rightarrow> row list \<Rightarrow> (string \<times> row list) list \<Rightarrow> (recon_error, (string \<times> row list) list) res" where
  "groups_from key [] g = Inr g"
| "groups_from key (x # xs) g =
     (if row_text x key = [] then Inl (ReconValueError (''reconciliation evidence is missing '' @ key))
      else groups_from key xs (setdefault_append (row_text x key) x g))"

definition groups :: "row list \<Rightarrow> (recon_error, (string \<times> row list) list) res" where
  "groups items = groups_from ''reference'' items []"

definition single_index :: "row list \<Rightarrow> (recon_error, (string \<times> row) list) res" where
  "single_index items = rbind (groups items) (\<lambda>g. Inr (map (\<lambda>(k, xs). (k, last xs)) g))"

definition same :: "row \<Rightarrow> row \<Rightarrow> string list \<Rightarrow> bool" where
  "same left right keys = list_all (\<lambda>k. py_eq (row_get left k) (row_get right k)) keys"

section \<open>The checks\<close>

text \<open>A candidate finding: the violation, the reference and the evidence that is hashed.\<close>

type_synonym candidate = "violation \<times> string \<times> json"

definition missing_operations :: "(string \<times> row) list \<Rightarrow> (string \<times> row list) list \<Rightarrow> candidate list" where
  "missing_operations app_ops financial_groups =
     map (\<lambda>(k, op). (MissingFinancialOperation, k, JObj op))
       (filter (\<lambda>(k, op). truthy (case map_of op ''requires_financial_operation'' of None \<Rightarrow> JBool True | Some j \<Rightarrow> j) \<and>
                          k \<notin> fst ` set financial_groups) app_ops)"

definition effect_count :: "row list \<Rightarrow> string \<Rightarrow> nat" where
  "effect_count ops i = length (filter (\<lambda>r. truthy (row_get r ''effect_id'') \<and> py_text (row_get r ''effect_id'') = i) ops)"

definition duplicate_effects :: "row list \<Rightarrow> (string \<times> row list) list \<Rightarrow> candidate list" where
  "duplicate_effects financial_operations financial_groups =
     map (\<lambda>(k, rows). (DuplicateFinancialEffect, k, JArr (map JObj rows)))
       (filter (\<lambda>(k, rows). 1 < length rows \<or>
          list_ex (\<lambda>r. truthy (row_get r ''effect_id'') \<and>
                       1 < effect_count financial_operations (py_text (row_get r ''effect_id''))) rows)
         financial_groups)"

definition terminal_states :: "string list" where
  "terminal_states = [''FAILED'', ''CANCELLED'', ''REJECTED'', ''COMPLETED'']"

definition state_in :: "json \<Rightarrow> string list \<Rightarrow> (recon_error, bool) res" where
  "state_in j names = (if hashable j then Inr (j \<in> set (map JStr names)) else Inl ReconTypeError)"

definition reservation_expired ::
  "(string \<Rightarrow> (timestamp \<times> bool) option) \<Rightarrow> timestamp \<Rightarrow> json \<Rightarrow> (recon_error, bool) res" where
  "reservation_expired fromiso as_of expires_at =
     (if \<not> truthy expires_at then Inr False
      else let text = concat (map (\<lambda>c. if c = CHR ''Z'' then ''+00:00'' else [c]) (py_text expires_at))
           in case fromiso text of
                None \<Rightarrow> Inl (ReconValueError ''Invalid isoformat string'')
              | Some (t, aware) \<Rightarrow>
                  if aware then Inr (t \<le> as_of)
                  else Inl (ReconValueError ''reservation expires_at must be timezone-aware''))"

definition check_reservation ::
  "(string \<Rightarrow> (timestamp \<times> bool) option) \<Rightarrow> timestamp \<Rightarrow> (string \<times> row) list \<Rightarrow> row \<Rightarrow>
   (recon_error, candidate list) res" where
  "check_reservation fromiso as_of app_ops r =
     (case map_of r ''reference'' of
        None \<Rightarrow> Inl (ReconKeyError ''reference'')
      | Some j \<Rightarrow>
          let reference = py_text j
          in case map_of app_ops (row_text r ''order_ref'') of
               None \<Rightarrow> Inr [(OrphanReservation, reference, JObj r)]
             | Some owner \<Rightarrow>
                 if truthy (row_get r ''tenant_ref'') \<and>
                    \<not> py_eq (row_get owner ''tenant_ref'') (row_get r ''tenant_ref'')
                 then Inr [(OrphanReservation, reference, JObj r)]
                 else
                   rbind (reservation_expired fromiso as_of (row_get r ''expires_at'')) (\<lambda>expired.
                   rbind (state_in (row_get r ''state'') [''PENDING'', ''ACTIVE'', ''PARTIALLY_CONSUMED'']) (\<lambda>open_state.
                     if \<not> open_state then Inr []
                     else if expired then Inr [(ReservationLeak, reference, JObj r)]
                     else rbind (state_in (row_get owner ''state'') terminal_states) (\<lambda>terminal.
                       Inr (if terminal then [(ReservationLeak, reference, JObj r)] else [])))))"

fun check_reservations ::
  "(string \<Rightarrow> (timestamp \<times> bool) option) \<Rightarrow> timestamp \<Rightarrow> (string \<times> row) list \<Rightarrow> row list \<Rightarrow>
   (recon_error, candidate list) res" where
  "check_reservations fromiso as_of app_ops [] = Inr []"
| "check_reservations fromiso as_of app_ops (r # rs) =
     rbind (check_reservation fromiso as_of app_ops r) (\<lambda>c.
     rbind (check_reservations fromiso as_of app_ops rs) (\<lambda>cs. Inr (c @ cs)))"

definition differs :: "row option \<Rightarrow> row option \<Rightarrow> string list \<Rightarrow> bool" where
  "differs left right keys = (case (left, right) of (Some l, Some r) \<Rightarrow> \<not> same l r keys | _ \<Rightarrow> True)"

definition side :: "row option \<Rightarrow> json" where
  "side r = (case r of None \<Rightarrow> JNull | Some x \<Rightarrow> JObj x)"

definition compare_domain ::
  "row list \<Rightarrow> row list \<Rightarrow> violation \<Rightarrow> string list \<Rightarrow> (recon_error, candidate list) res" where
  "compare_domain application financial v keys =
     rbind (single_index application) (\<lambda>left. rbind (single_index financial) (\<lambda>right.
       Inr (map (\<lambda>k. (v, k, JObj [(''application'', side (map_of left k)), (''financial'', side (map_of right k))]))
              (filter (\<lambda>k. differs (map_of left k) (map_of right k) keys)
                (sort (remdups (map fst left @ map fst right)))))))"

text \<open>\<open>str(row.get(k))\<close>: here a missing member reads \<open>None\<close>.\<close>

definition audit_gaps ::
  "(string \<times> row) list \<Rightarrow> row list \<Rightarrow> row list \<Rightarrow> (recon_error, candidate list) res" where
  "audit_gaps app_ops audits outbox =
     (if list_ex (\<lambda>r. \<not> hashable (row_get r ''action'')) audits \<or>
         list_ex (\<lambda>(k, op). \<not> hashable (row_get op ''audit_action'') \<and> truthy (row_get op ''audit_action'')) app_ops
      then Inl ReconTypeError
      else
        let pairs = map (\<lambda>r. (py_text (row_get r ''reference''), py_norm (row_get r ''action''))) audits;
            refs = map (\<lambda>r. py_text (row_get r ''reference'')) outbox
        in Inr (concat (map (\<lambda>(k, op).
             (if truthy (row_get op ''audit_action'') \<and> (k, py_norm (row_get op ''audit_action'')) \<notin> set pairs
              then [(AuditGap, k, JObj op)] else []) @
             (if truthy (row_get op ''outbox_required'') \<and> k \<notin> set refs then [(AuditGap, k, JObj op)] else []))
             app_ops)))"

definition inbox_gaps :: "row list \<Rightarrow> row list \<Rightarrow> candidate list" where
  "inbox_gaps received_events inbox_rows =
     (let ids = map (\<lambda>r. py_text (row_get r ''event_id'')) inbox_rows
      in concat (map (\<lambda>e. let i = row_text e ''event_id''
           in if i = [] \<or> i \<notin> set ids
              then [(AuditGap, if i = [] then ''missing-event-id'' else i, JObj e)] else []) received_events))"

section \<open>The report\<close>

definition add_finding ::
  "(string \<Rightarrow> string) \<Rightarrow> reconciliation_finding list \<Rightarrow> candidate \<Rightarrow> reconciliation_finding list" where
  "add_finding sha fs c =
     (case c of (v, k, source) \<Rightarrow>
        if list_ex (\<lambda>f. rf_violation f = v \<and> rf_reference f = k) fs then fs
        else fs @ [\<lparr>rf_violation = v, rf_reference = k, rf_evidence_hash = canonical_hash sha source,
                    rf_severity = ''CRITICAL''\<rparr>])"

definition settlement_keys :: "string list" where
  "settlement_keys = [''trade_ref'', ''reservation_ref'', ''state'', ''asset_legs'', ''fee_components'']"

definition wallet_keys :: "string list" where
  "wallet_keys = [''asset'', ''total'', ''available'', ''reserved'', ''pending'', ''version'']"

definition reconcile_candidates ::
  "(string \<Rightarrow> (timestamp \<times> bool) option) \<Rightarrow> timestamp \<Rightarrow> reconciliation_evidence \<Rightarrow>
   (recon_error, candidate list) res" where
  "reconcile_candidates fromiso as_of ev =
     rbind (single_index (ev_application_operations ev)) (\<lambda>app_ops.
     rbind (groups (ev_financial_operations ev)) (\<lambda>fg.
     rbind (check_reservations fromiso as_of app_ops (ev_reservations ev)) (\<lambda>reservations.
     rbind (compare_domain (ev_application_settlements ev) (ev_financial_settlements ev)
              SettlementMismatch settlement_keys) (\<lambda>settlements.
     rbind (compare_domain (ev_wallet_projections ev) (ev_wallet_snapshots ev)
              WalletProjectionMismatch wallet_keys) (\<lambda>wallets.
     rbind (compare_domain (ev_application_deposits ev) (ev_financial_deposits ev)
              DepositCreditMismatch [''state'', ''credited_amount'', ''asset'']) (\<lambda>deposits.
     rbind (compare_domain (ev_application_withdrawals ev) (ev_financial_withdrawals ev)
              WithdrawalStateMismatch [''state'']) (\<lambda>withdrawals.
     rbind (compare_domain (ev_application_transfers ev) (ev_financial_transfers ev)
              TransferStateMismatch [''state'']) (\<lambda>transfers.
     rbind (audit_gaps app_ops (ev_audits ev) (ev_outbox ev)) (\<lambda>audits.
       Inr (missing_operations app_ops fg @ duplicate_effects (ev_financial_operations ev) fg @
            reservations @ settlements @ wallets @ deposits @ withdrawals @ transfers @ audits @
            inbox_gaps (ev_received_events ev) (ev_inbox ev)))))))))))"

definition report_of :: "(string \<Rightarrow> string) \<Rightarrow> timestamp \<Rightarrow> candidate list \<Rightarrow> reconciliation_report" where
  "report_of sha as_of cs =
     (let ordered = sort_key (\<lambda>f. (violation_value (rf_violation f), rf_reference f)) (foldl (add_finding sha) [] cs)
      in \<lparr>rr_findings = ordered, rr_checks_executed = all_violations, rr_generated_at = as_of,
          rr_evidence_hash = canonical_hash sha (JArr (map (\<lambda>f. JObj
            [(''violation'', JStr (violation_value (rf_violation f))), (''reference'', JStr (rf_reference f)),
             (''evidence_hash'', JStr (rf_evidence_hash f))]) ordered))\<rparr>)"

definition reconcile_financial_boundary ::
  "(string \<Rightarrow> string) \<Rightarrow> (string \<Rightarrow> (timestamp \<times> bool) option) \<Rightarrow> timestamp \<Rightarrow> reconciliation_evidence \<Rightarrow>
   (recon_error, reconciliation_report) res" where
  "reconcile_financial_boundary sha fromiso as_of ev =
     rbind (reconcile_candidates fromiso as_of ev) (\<lambda>cs. Inr (report_of sha as_of cs))"

definition build_reconciliation_incident ::
  "reconciliation_report \<Rightarrow> string \<Rightarrow> string \<Rightarrow> (recon_error, row) res" where
  "build_reconciliation_incident report candidate_sha environment =
     (if activation_ready report
      then Inl (ReconValueError ''a clean reconciliation report does not create an incident'')
      else if \<not> (length candidate_sha = 40 \<and>
                 list_all (\<lambda>c. is_digit_09 c \<or> char_in CHR ''a'' CHR ''f'' c) candidate_sha)
      then Inl (ReconValueError ''candidate_sha must be a full lowercase Git SHA'')
      else if \<not> (2 \<le> length environment \<and> length environment \<le> 24 \<and>
                 list_all (\<lambda>c. is_lower_az c \<or> is_digit_09 c \<or> c \<in> set ''_-'') environment)
      then Inl (ReconValueError ''environment is invalid'')
      else Inr [(''severity'', JStr ''CRITICAL''), (''type'', JStr ''FINANCIAL_RECONCILIATION_FAILURE''),
                (''candidate_sha'', JStr candidate_sha), (''environment'', JStr environment),
                (''safe_summary'', JStr (str_nat (critical_count report) @
                   '' reconciliation violation(s); activation blocked'')),
                (''status'', JStr ''OPEN''), (''evidence_hash'', JStr (rr_evidence_hash report))])"

section \<open>Comparing two record lists\<close>

record compared_record =
  cr_reference :: string
  cr_state :: json

definition last_with :: "string \<Rightarrow> compared_record list \<Rightarrow> compared_record option" where
  "last_with k xs = obj_first (\<lambda>r. cr_reference r = k) (rev xs)"

definition compare_key :: "compared_record list \<Rightarrow> compared_record list \<Rightarrow> string \<Rightarrow> (string \<times> violation) list" where
  "compare_key application authoritative k =
     (if 1 < obj_count (\<lambda>r. cr_reference r = k) authoritative then [(k, DuplicateFinancialEffect)]
      else if 1 < obj_count (\<lambda>r. cr_reference r = k) application then [(k, AuditGap)]
      else case (last_with k application, last_with k authoritative) of
        (Some l, Some r) \<Rightarrow> if \<not> py_eq (cr_state l) (cr_state r) then [(k, WithdrawalStateMismatch)] else []
      | _ \<Rightarrow> [(k, MissingFinancialOperation)])"

definition compare_records :: "compared_record list \<Rightarrow> compared_record list \<Rightarrow> (string \<times> violation) list" where
  "compare_records application authoritative =
     concat (map (compare_key application authoritative)
       (sort (remdups (map cr_reference application @ map cr_reference authoritative))))"

section \<open>What the index and the report contain\<close>

definition rows_at :: "row list \<Rightarrow> string \<Rightarrow> row list" where
  "rows_at rows k = filter (\<lambda>r. row_text r ''reference'' = k) rows"

definition last_row :: "row list \<Rightarrow> string \<Rightarrow> row option" where
  "last_row rows k = (if rows_at rows k = [] then None else Some (last (rows_at rows k)))"

definition mismatch :: "row list \<Rightarrow> row list \<Rightarrow> string list \<Rightarrow> string \<Rightarrow> bool" where
  "mismatch left right keys k \<longleftrightarrow>
     (rows_at left k \<noteq> [] \<or> rows_at right k \<noteq> []) \<and> differs (last_row left k) (last_row right k) keys"

definition reported :: "reconciliation_report \<Rightarrow> violation \<Rightarrow> string \<Rightarrow> bool" where
  "reported rep v k \<longleftrightarrow> (\<exists>f \<in> set (rr_findings rep). rf_violation f = v \<and> rf_reference f = k)"

lemma setdefault_append_map_of:
  "map_of (setdefault_append k x g) i =
     (if i = k then Some ((case map_of g k of None \<Rightarrow> [] | Some xs \<Rightarrow> xs) @ [x]) else map_of g i)"
proof (cases "k \<in> fst ` set g")
  case True
  then obtain zs where "map_of g k = Some zs" using map_of_eq_None_iff [of g k] by auto
  moreover have "map_of (map (\<lambda>(i, xs). (i, if i = k then xs @ [x] else xs)) g) i =
      map_option (\<lambda>xs. if i = k then xs @ [x] else xs) (map_of g i)"
    by (induction g) auto
  ultimately show ?thesis using True by (simp add: setdefault_append_def option.map_ident)
next
  case False
  then have "map_of g k = None" by (simp add: map_of_eq_None_iff)
  with False show ?thesis by (auto simp: setdefault_append_def map_add_def split: option.splits)
qed

lemma groups_from_map_of:
  "groups_from key xs g = Inr g' \<Longrightarrow>
   map_of g' k = (case (map_of g k, filter (\<lambda>r. row_text r key = k) xs) of
       (None, []) \<Rightarrow> None | (None, ys) \<Rightarrow> Some ys | (Some zs, ys) \<Rightarrow> Some (zs @ ys))"
proof (induction xs arbitrary: g)
  case Nil
  then show ?case by (simp split: option.splits)
next
  case (Cons x xs)
  then have "map_of g' k = (case (map_of (setdefault_append (row_text x key) x g) k,
      filter (\<lambda>r. row_text r key = k) xs) of
       (None, []) \<Rightarrow> None | (None, ys) \<Rightarrow> Some ys | (Some zs, ys) \<Rightarrow> Some (zs @ ys))"
    by (simp split: if_splits)
  then show ?case
    by (auto simp: setdefault_append_map_of split: option.splits list.splits if_splits)
qed

lemma distinct_groups_from: "groups_from key xs g = Inr g' \<Longrightarrow> distinct (map fst g) \<Longrightarrow> distinct (map fst g')"
proof (induction xs arbitrary: g)
  case (Cons x xs)
  have "map fst (setdefault_append k x g) = (if k \<in> fst ` set g then map fst g else map fst g @ [k])" for k
    by (auto simp: setdefault_append_def case_prod_beta)
  with Cons.prems(2) have "distinct (map fst (setdefault_append (row_text x key) x g))" by auto
  with Cons show ?case by (simp split: if_splits)
qed simp

lemma groups_map_of:
  assumes "groups rows = Inr g"
  shows "map_of g k = (if rows_at rows k = [] then None else Some (rows_at rows k))" "distinct (map fst g)"
  using groups_from_map_of [OF assms [unfolded groups_def], of k]
    distinct_groups_from [OF assms [unfolded groups_def]]
  by (auto simp: rows_at_def split: list.splits)

lemma single_index_map_of:
  assumes "single_index rows = Inr ix"
  shows "map_of ix k = last_row rows k" "distinct (map fst ix)"
proof -
  from assms obtain g where g: "groups rows = Inr g" "ix = map (\<lambda>(k, xs). (k, last xs)) g"
    by (auto simp: single_index_def res_simps)
  have "map_of (map (\<lambda>(k, xs). (k, last xs)) g) k = map_option last (map_of g k)"
    by (induction g) auto
  then show "map_of ix k = last_row rows k" by (simp add: g(2) groups_map_of(1) [OF g(1)] last_row_def)
  have "map fst ix = map fst g" by (auto simp: g)
  then show "distinct (map fst ix)" using groups_map_of(2) [OF g(1)] by simp
qed

lemma single_index_mem: "single_index rows = Inr ix \<Longrightarrow> (k, r) \<in> set ix \<longleftrightarrow> last_row rows k = Some r"
  by (metis map_of_eq_Some_iff single_index_map_of)

lemma groups_mem: "groups rows = Inr g \<Longrightarrow> (k, rs) \<in> set g \<longleftrightarrow> rs = rows_at rows k \<and> rs \<noteq> []"
  using map_of_eq_Some_iff [of g k rs] groups_map_of [of rows g] by (auto split: if_splits)

lemma compare_domain_keys:
  assumes "compare_domain left right v keys = Inr cs"
  shows "(\<exists>src. (w, k, src) \<in> set cs) \<longleftrightarrow> w = v \<and> mismatch left right keys k"
proof -
  from assms obtain l r where ix: "single_index left = Inr l" "single_index right = Inr r"
    and cs: "cs = map (\<lambda>k. (v, k, JObj [(''application'', side (map_of l k)), (''financial'', side (map_of r k))]))
              (filter (\<lambda>k. differs (map_of l k) (map_of r k) keys) (sort (remdups (map fst l @ map fst r))))"
    by (auto simp: compare_domain_def res_simps)
  have dom: "k \<in> fst ` set l \<longleftrightarrow> rows_at left k \<noteq> []" "k \<in> fst ` set r \<longleftrightarrow> rows_at right k \<noteq> []" for k
    using single_index_map_of(1) [OF ix(1), of k] single_index_map_of(1) [OF ix(2), of k]
      map_of_eq_None_iff [of l k] map_of_eq_None_iff [of r k]
    by (simp_all add: last_row_def split: if_splits)
  show ?thesis
    using dom [of k] by (auto simp: cs mismatch_def single_index_map_of(1) [OF ix(1)] single_index_map_of(1) [OF ix(2)])
qed

lemma fold_add_keys:
  "(\<lambda>f. (rf_violation f, rf_reference f)) ` set (foldl (add_finding sha) fs cs) =
     (\<lambda>f. (rf_violation f, rf_reference f)) ` set fs \<union> (\<lambda>(v, k, _). (v, k)) ` set cs"
proof (induction cs arbitrary: fs)
  case (Cons c cs)
  obtain v k src where c: "c = (v, k, src)" by (cases c)
  have "(\<lambda>f. (rf_violation f, rf_reference f)) ` set (add_finding sha fs c) =
      insert (v, k) ((\<lambda>f. (rf_violation f, rf_reference f)) ` set fs)"
    by (auto simp: add_finding_def c list_ex_iff image_iff)
  with Cons c show ?case by auto
qed simp

lemma reported_iff:
  "reported (report_of sha as_of cs) v k \<longleftrightarrow> (\<exists>src. (v, k, src) \<in> set cs)"
proof -
  have "reported (report_of sha as_of cs) v k \<longleftrightarrow>
      (v, k) \<in> (\<lambda>f. (rf_violation f, rf_reference f)) ` set (foldl (add_finding sha) [] cs)"
    by (auto simp: reported_def report_of_def Let_def)
  then show ?thesis unfolding fold_add_keys by force
qed

lemma reservation_violations:
  "check_reservations fromiso as_of ops rs = Inr cs \<Longrightarrow> (v, k, src) \<in> set cs \<Longrightarrow> v \<in> {OrphanReservation, ReservationLeak}"
proof (induction rs arbitrary: cs)
  case (Cons r rs)
  then obtain c d where "check_reservation fromiso as_of ops r = Inr c" "check_reservations fromiso as_of ops rs = Inr d"
    "cs = c @ d" by (auto simp: res_simps)
  moreover from this(1) have "\<forall>x \<in> set c. fst x \<in> {OrphanReservation, ReservationLeak}"
    by (auto simp: check_reservation_def Let_def rbind_def split: option.splits if_splits sum.splits)
  ultimately show ?case using Cons by fastforce
qed simp

lemma audit_violations: "audit_gaps ops au ob = Inr cs \<Longrightarrow> (v, k, src) \<in> set cs \<Longrightarrow> v = AuditGap"
  by (auto simp: audit_gaps_def Let_def split: if_splits prod.splits)

lemma inbox_violations: "(v, k, src) \<in> set (inbox_gaps re ib) \<Longrightarrow> v = AuditGap"
  by (auto simp: inbox_gaps_def Let_def split: if_splits)

text \<open>\<open>has_finding cs v k\<close>: some candidate reports violation \<open>v\<close> for reference \<open>k\<close>.\<close>

definition has_finding :: "candidate list \<Rightarrow> violation \<Rightarrow> string \<Rightarrow> bool" where
  "has_finding cs v k \<longleftrightarrow> (\<exists>src. (v, k, src) \<in> set cs)"

lemma has_finding_append [simp]: "has_finding (xs @ ys) v k \<longleftrightarrow> has_finding xs v k \<or> has_finding ys v k"
  by (auto simp: has_finding_def)

definition requires_operation :: "row \<Rightarrow> bool" where
  "requires_operation op = truthy (case map_of op ''requires_financial_operation'' of None \<Rightarrow> JBool True | Some j \<Rightarrow> j)"

lemma groups_keys: "groups rows = Inr g \<Longrightarrow> k \<in> fst ` set g \<longleftrightarrow> rows_at rows k \<noteq> []"
  using map_of_eq_None_iff [of g k] groups_map_of(1) [of rows g k] by (auto split: if_splits)

lemma missing_operations_found:
  assumes "single_index rows = Inr ops" "groups fin = Inr fg"
  shows "has_finding (missing_operations ops fg) v k \<longleftrightarrow> v = MissingFinancialOperation \<and>
    (\<exists>op. last_row rows k = Some op \<and> requires_operation op \<and> rows_at fin k = [])"
proof -
  have "(v, k, src) \<in> set (missing_operations ops fg) \<longleftrightarrow> (\<exists>op. v = MissingFinancialOperation \<and> src = JObj op \<and>
      (k, op) \<in> set ops \<and> requires_operation op \<and> k \<notin> fst ` set fg)" for src
    unfolding missing_operations_def requires_operation_def by force
  then show ?thesis
    using groups_keys [OF assms(2), of k] single_index_mem [OF assms(1), of k] unfolding has_finding_def by auto
qed

lemma duplicate_effects_only: "has_finding (duplicate_effects fin fg) v k \<Longrightarrow> v = DuplicateFinancialEffect"
  by (auto simp: has_finding_def duplicate_effects_def)

lemma duplicate_effects_found:
  assumes "groups fin = Inr fg" "1 < length (rows_at fin k)"
  shows "has_finding (duplicate_effects fin fg) DuplicateFinancialEffect k"
proof -
  from assms groups_mem [OF assms(1), of k "rows_at fin k"] have "(k, rows_at fin k) \<in> set fg" by auto
  with assms(2) show ?thesis by (fastforce simp: has_finding_def duplicate_effects_def)
qed

lemma compare_domain_found:
  "compare_domain left right v keys = Inr cs \<Longrightarrow> has_finding cs w k \<longleftrightarrow> w = v \<and> mismatch left right keys k"
  unfolding has_finding_def by (rule compare_domain_keys)

lemma other_checks_only:
  "check_reservations fromiso as_of ops rs = Inr cs \<Longrightarrow> has_finding cs v k \<Longrightarrow> v = OrphanReservation \<or> v = ReservationLeak"
  "audit_gaps ops au ob = Inr cs \<Longrightarrow> has_finding cs v k \<Longrightarrow> v = AuditGap"
  "has_finding (inbox_gaps re ib) v k \<Longrightarrow> v = AuditGap"
  using reservation_violations audit_violations inbox_violations unfolding has_finding_def by blast+

lemma reported_has_finding: "reported (report_of sha as_of cs) v k \<longleftrightarrow> has_finding cs v k"
  unfolding has_finding_def by (rule reported_iff)

lemma compare_key_ref: "(i, v) \<in> set (compare_key a b k) \<Longrightarrow> i = k"
  by (auto simp: compare_key_def split: if_splits option.splits)

end
