(* ===== verification/Financial_Recon_Properties.thy ===== *)
theory Financial_Recon_Properties
  imports Financial_Reconciliation
begin

text \<open>Properties of the reconciliation report.\<close>




text \<open>
  C22. \<open>compare_records\<close> is silent about a reference exactly when each side has at most one
  record of it and, if any side has one, both do and their states are equal.
\<close>

theorem compare_records_exact:
  "(\<exists>v. (k, v) \<in> set (compare_records application authoritative)) \<longleftrightarrow>
     (let a = filter (\<lambda>r. cr_reference r = k) application; b = filter (\<lambda>r. cr_reference r = k) authoritative
      in \<not> (a = [] \<and> b = []) \<and> \<not> (\<exists>x y. a = [x] \<and> b = [y] \<and> py_eq (cr_state x) (cr_state y)))"
proof -
  have lw: "last_with k xs = (if filter (\<lambda>r. cr_reference r = k) xs = [] then None
      else Some (last (filter (\<lambda>r. cr_reference r = k) xs)))" for xs
    unfolding last_with_def by (induction xs rule: rev_induct) auto
  have mem: "(k, v) \<in> set (compare_records application authoritative) \<longleftrightarrow>
      (k \<in> cr_reference ` set application \<or> k \<in> cr_reference ` set authoritative) \<and>
      (k, v) \<in> set (compare_key application authoritative k)" for v
    by (auto simp: compare_records_def dest: compare_key_ref)
  have ne: "k \<in> cr_reference ` set xs \<longleftrightarrow> filter (\<lambda>r. cr_reference r = k) xs \<noteq> []" for xs
    by (auto simp: filter_empty_conv)
  have one: "1 < length zs \<or> zs = [] \<or> (\<exists>z. zs = [z])" for zs :: "compared_record list"
    by (cases zs rule: remdups_adj.cases) auto
  show ?thesis
    unfolding mem ne compare_key_def lw obj_count_def Let_def
    using one [of "filter (\<lambda>r. cr_reference r = k) application"] one [of "filter (\<lambda>r. cr_reference r = k) authoritative"]
    by auto
qed

end
