(* ===== verification/Financial_Destinations.thy ===== *)
theory Financial_Destinations
  imports Financial_Events
begin

text \<open>
  \<open>financial_boundary/destinations.py\<close> and \<open>webhooks.py\<close>: withdrawal destinations and the
  verification of provider webhooks. \<open>hmac.new(key, message, sha256).hexdigest()\<close>,
  \<open>uuid.uuid5(NAMESPACE_URL, name)\<close> and \<open>json.loads\<close> are parameters. Texts are UTF-8 byte
  strings.
\<close>

section \<open>Character classes\<close>

definition re_run :: "(char \<Rightarrow> bool) \<Rightarrow> nat \<Rightarrow> nat \<Rightarrow> string \<Rightarrow> bool" where
  "re_run cls lo hi s \<longleftrightarrow> lo \<le> length s \<and> length s \<le> hi \<and> list_all cls s"

definition base58 :: "char \<Rightarrow> bool" where
  "base58 c \<longleftrightarrow> c \<in> set ''123456789ABCDEFGHJKLMNPQRSTUVWXYZabcdefghijkmnopqrstuvwxyz''"

definition bech32_char :: "char \<Rightarrow> bool" where
  "bech32_char c \<longleftrightarrow> c \<in> set ''acdefghjklmnpqrstuvwxyz023456789''"

definition hex_char :: "char \<Rightarrow> bool" where
  "hex_char c \<longleftrightarrow> is_digit_09 c \<or> char_in CHR ''a'' CHR ''f'' c \<or> char_in CHR ''A'' CHR ''F'' c"

definition bitcoin_address :: "string \<Rightarrow> string \<Rightarrow> string \<Rightarrow> bool" where
  "bitcoin_address hrp legacy v \<longleftrightarrow>
     (startswith v hrp \<and> re_run bech32_char 11 71 (drop 3 v)) \<or>
     (case v of [] \<Rightarrow> False | c # r \<Rightarrow> c \<in> set legacy \<and> re_run base58 25 61 r)"

section \<open>Destinations\<close>

datatype destination_type = Crypto | Fiat

datatype destination_status = DestPending | DestVerified | DestLocked | DestRevoked

datatype destination_error =
    DestinationValidationError string
  | DestinationAccessDenied
  | DestContract contract_error
  | DestRuntimeError
  | DestDbError db_error

record destination =
  de_destination_id :: uuid
  de_tenant_ref :: uuid
  de_account_ref :: uuid
  de_owner_ref :: int
  de_type :: destination_type
  de_asset :: string
  de_network :: string
  de_masked_display :: string
  de_destination_fingerprint :: string
  de_beneficiary_ref :: "uuid option"
  de_status :: destination_status
  de_created_at :: timestamp
  de_verified_at :: "timestamp option"
  de_cooldown_until :: "timestamp option"

definition lift_contract :: "(contract_error, 'a) res \<Rightarrow> (destination_error, 'a) res" where
  "lift_contract m = (case m of Inl e \<Rightarrow> Inl (DestContract e) | Inr x \<Rightarrow> Inr x)"

definition network_re :: "string \<Rightarrow> bool" where
  "network_re s = (case s of [] \<Rightarrow> False
     | c # r \<Rightarrow> is_upper_az c \<and> re_run (\<lambda>c. is_upper_az c \<or> is_digit_09 c \<or> c \<in> set ''_-'') 1 31 r)"

definition crypto_address_ok :: "string \<Rightarrow> string \<Rightarrow> string \<Rightarrow> bool" where
  "crypto_address_ok asst network v =
     (if network = ''ETHEREUM'' then asst = ''ETH'' \<and> startswith v ''0x'' \<and> re_run hex_char 40 40 (drop 2 v)
      else if network = ''BITCOIN'' then asst = ''BTC'' \<and> bitcoin_address ''bc1'' ''13'' v
      else if network = ''BITCOIN_TESTNET'' then asst = ''BTC'' \<and> bitcoin_address ''tb1'' ''mn2'' v
      else if network = ''SOLANA'' then asst = ''SOL'' \<and> re_run base58 32 44 v
      else False)"

definition validate_crypto_destination ::
  "json \<Rightarrow> string \<Rightarrow> string \<Rightarrow> (destination_error, string) res" where
  "validate_crypto_destination asst network v =
     rbind (lift_contract (canonical_asset asst)) (\<lambda>a.
       if \<not> network_re network then Inl (DestinationValidationError ''invalid network'')
       else if v \<noteq> strip v then Inl (DestinationValidationError ''invalid address'')
       else if \<not> crypto_address_ok a network v
       then Inl (DestinationValidationError ''address syntax does not match network'')
       else Inr v)"

text \<open>\<open>provider:[a-z0-9_-]{2,32}:customer:[A-Za-z0-9._-]{6,64}\<close>\<close>

definition provider_part :: "string \<Rightarrow> string" where
  "provider_part v = takeWhile (\<lambda>c. c \<noteq> CHR '':'') (drop 9 v)"

definition provider_reference_re :: "string \<Rightarrow> bool" where
  "provider_reference_re v \<longleftrightarrow>
     (let p = provider_part v; r = drop (9 + length p) v
      in startswith v ''provider:'' \<and> re_run (\<lambda>c. is_lower_az c \<or> is_digit_09 c \<or> c \<in> set ''_-'') 2 32 p \<and>
         startswith r '':customer:'' \<and>
         re_run (\<lambda>c. is_upper_az c \<or> is_lower_az c \<or> is_digit_09 c \<or> c \<in> set ''._-'') 6 64 (drop 10 r))"

definition validate_fiat_destination ::
  "json \<Rightarrow> string \<Rightarrow> string \<Rightarrow> (destination_error, string) res" where
  "validate_fiat_destination asst network v =
     rbind (lift_contract (canonical_asset asst)) (\<lambda>_.
       if network \<noteq> ''PROVIDER_REFERENCE''
       then Inl (DestinationValidationError ''fiat destination must be an opaque provider reference'')
       else if \<not> provider_reference_re v
       then Inl (DestinationValidationError ''invalid provider customer reference'')
       else Inr v)"

definition fingerprint :: "(string \<Rightarrow> string \<Rightarrow> string) \<Rightarrow> string \<Rightarrow> string \<Rightarrow> (destination_error, string) res" where
  "fingerprint hmac key v = (if length key < 32 then Inl DestRuntimeError else Inr (hmac key v))"

definition last4 :: "string \<Rightarrow> string" where
  "last4 v = drop (length v - 4) v"

definition ellipsis :: string where
  "ellipsis = [CHR 0xE2, CHR 0x80, CHR 0xA6]"

definition masked :: "string \<Rightarrow> destination_type \<Rightarrow> string" where
  "masked v dt =
     (case dt of
        Crypto \<Rightarrow> take 6 v @ ellipsis @ last4 v
      | Fiat \<Rightarrow> ''provider:'' @ provider_part v @ '':customer:'' @ ellipsis @ last4 v)"

record destination_request =
  dr_tenant_ref :: uuid
  dr_account_ref :: uuid
  dr_owner_ref :: int
  dr_type :: destination_type
  dr_asset :: json
  dr_network :: string
  dr_value :: string
  dr_beneficiary_ref :: "uuid option"
  dr_cooldown :: int

definition create_destination ::
  "(string \<Rightarrow> string \<Rightarrow> string) \<Rightarrow> string \<Rightarrow> timestamp \<Rightarrow> uuid \<Rightarrow> destination_request \<Rightarrow> destination list \<Rightarrow>
   (destination_error, destination list \<times> destination) res" where
  "create_destination hmac key now new_id q t =
     rbind (case dr_type q of
              Crypto \<Rightarrow> validate_crypto_destination (dr_asset q) (dr_network q) (dr_value q)
            | Fiat \<Rightarrow> validate_fiat_destination (dr_asset q) (dr_network q) (dr_value q)) (\<lambda>v.
     if dr_owner_ref q < 1 then Inl (DestinationValidationError ''invalid owner'')
     else if dr_cooldown q < 0 then Inl (DestinationValidationError ''invalid cooldown'')
     else rbind (lift_contract (canonical_asset (dr_asset q))) (\<lambda>a.
          rbind (fingerprint hmac key v) (\<lambda>fp.
          if obj_exists (\<lambda>d. de_tenant_ref d = dr_tenant_ref q \<and> de_account_ref d = dr_account_ref q \<and>
                de_type d = dr_type q \<and> de_network d = dr_network q \<and> de_destination_fingerprint d = fp) t
          then Inl (DestDbError (IntegrityError ''financial_destination_scope_unique''))
          else let d = \<lparr>de_destination_id = new_id, de_tenant_ref = dr_tenant_ref q,
                   de_account_ref = dr_account_ref q, de_owner_ref = dr_owner_ref q, de_type = dr_type q,
                   de_asset = a, de_network = dr_network q, de_masked_display = masked v (dr_type q),
                   de_destination_fingerprint = fp, de_beneficiary_ref = dr_beneficiary_ref q,
                   de_status = DestPending, de_created_at = now, de_verified_at = None,
                   de_cooldown_until = Some (now + dr_cooldown q)\<rparr>
               in Inr (t @ [d], d))))"

definition destination_owned :: "uuid \<Rightarrow> uuid \<Rightarrow> uuid \<Rightarrow> int \<Rightarrow> destination \<Rightarrow> bool" where
  "destination_owned i tenant account owner d \<longleftrightarrow>
     de_destination_id d = i \<and> de_tenant_ref d = tenant \<and> de_account_ref d = account \<and> de_owner_ref d = owner"

definition get_destination_for_withdrawal ::
  "uuid \<Rightarrow> uuid \<Rightarrow> uuid \<Rightarrow> int \<Rightarrow> timestamp \<Rightarrow> destination list \<Rightarrow> (destination_error, destination) res" where
  "get_destination_for_withdrawal i tenant account owner now t =
     (case obj_first (destination_owned i tenant account owner) t of
        None \<Rightarrow> Inl DestinationAccessDenied
      | Some d \<Rightarrow>
          if de_status d \<noteq> DestVerified \<or> de_verified_at d = None
          then Inl (DestinationValidationError ''DESTINATION_NOT_VERIFIED'')
          else if (case de_cooldown_until d of None \<Rightarrow> False | Some c \<Rightarrow> now < c)
          then Inl (DestinationValidationError ''DESTINATION_COOLDOWN'')
          else Inr d)"

definition revoke_destination ::
  "uuid \<Rightarrow> uuid \<Rightarrow> uuid \<Rightarrow> int \<Rightarrow> destination list \<Rightarrow> (destination_error, destination list \<times> destination) res" where
  "revoke_destination i tenant account owner t =
     (case obj_first (destination_owned i tenant account owner) t of
        None \<Rightarrow> Inl DestinationAccessDenied
      | Some d \<Rightarrow> let d' = d\<lparr>de_status := DestRevoked\<rparr>
                  in Inr (upd_where (\<lambda>x. de_destination_id x = de_destination_id d) (\<lambda>x. x\<lparr>de_status := DestRevoked\<rparr>) t, d'))"

section \<open>Provider webhooks\<close>

datatype webhook_error = WebhookDenied string | WebhookContract event_error | WebhookTypeError

record verified_provider_webhook =
  vw_provider_id :: string
  vw_provider_event_id :: string
  vw_envelope :: financial_event_envelope

definition webhook_signature ::
  "(string \<Rightarrow> string \<Rightarrow> string) \<Rightarrow> string \<Rightarrow> string \<Rightarrow> int \<Rightarrow> string \<Rightarrow> string \<Rightarrow> string" where
  "webhook_signature hmac provider_id event_id ts raw_body secret =
     ''v1='' @ hmac secret (str_int ts @ ''.'' @ event_id @ ''.'' @ provider_id @ ''.'' @ raw_body)"

definition provider_id_re :: "string \<Rightarrow> bool" where
  "provider_id_re = re_run (\<lambda>c. is_lower_az c \<or> is_digit_09 c \<or> c \<in> set ''_-'') 2 32"

definition event_id_re :: "string \<Rightarrow> bool" where
  "event_id_re = re_run (\<lambda>c. is_upper_az c \<or> is_lower_az c \<or> is_digit_09 c \<or> c \<in> set ''._:-'') 6 128"

record webhook_env =
  wh_hmac :: "string \<Rightarrow> string \<Rightarrow> string"
  wh_uuid5 :: "string \<Rightarrow> uuid"
  wh_loads :: "string \<Rightarrow> json option"
  wh_sha :: "string \<Rightarrow> string"

definition webhook_envelope ::
  "webhook_env \<Rightarrow> uuid \<Rightarrow> string \<Rightarrow> string \<Rightarrow> int \<Rightarrow> json \<Rightarrow> (webhook_error, financial_event_envelope) res" where
  "webhook_envelope W tenant_ref provider_id event_id ts payload =
     (case canonical_payload (wh_sha W) payload of
        Inl e \<Rightarrow> Inl (WebhookContract e)
      | Inr (JObj kvs, _) \<Rightarrow>
          (case map_of kvs ''event_type'' of
             Some (JStr event_type) \<Rightarrow>
               (case make_envelope (wh_sha W)
                       \<lparr>env_event_id = wh_uuid5 W (''beyvra-provider:'' @ provider_id @ '':'' @ event_id),
                        env_event_type = event_type, env_schema_version = 1, env_occurred_at = seconds ts,
                        env_correlation_id = wh_uuid5 W (''beyvra-correlation:'' @ provider_id @ '':'' @ event_id),
                        env_causation_id = None, env_tenant_ref = tenant_ref,
                        env_payload = JObj (filter (\<lambda>(k, _). k \<noteq> ''event_type'') kvs)\<rparr> of
                  Inl _ \<Rightarrow> Inl (WebhookDenied ''event contract denied'')
                | Inr e \<Rightarrow> Inr e)
           | _ \<Rightarrow> Inl (WebhookDenied ''event type denied''))
      | Inr _ \<Rightarrow> Inl (WebhookDenied ''event type denied''))"

definition verify_provider_webhook ::
  "webhook_env \<Rightarrow> string \<Rightarrow> uuid \<Rightarrow> (string \<Rightarrow> string option) \<Rightarrow> string \<Rightarrow> string \<Rightarrow> int \<Rightarrow> int \<Rightarrow>
   (webhook_error, verified_provider_webhook) res" where
  "verify_provider_webhook W expected_provider_id tenant_ref headers raw_body secret current window =
     (let get = (\<lambda>h. case headers h of None \<Rightarrow> [] | Some v \<Rightarrow> v);
          provider_id = get ''X-Provider-Id''; event_id = get ''X-Event-Id'';
          signature = get ''X-Signature''
      in if \<not> provider_id_re expected_provider_id \<or> provider_id \<noteq> expected_provider_id
         then Inl (WebhookDenied ''provider identity denied'')
         else if \<not> event_id_re event_id then Inl (WebhookDenied ''event identity denied'')
         else case parse_int (get ''X-Timestamp'') of
           None \<Rightarrow> Inl (WebhookDenied ''timestamp denied'')
         | Some ts \<Rightarrow>
             if window < 1 \<or> window < \<bar>current - ts\<bar>
             then Inl (WebhookDenied ''timestamp outside replay window'')
             else if length secret < 32 then Inl (WebhookDenied ''webhook authority unavailable'')
             else if list_ex (\<lambda>c. 127 < (of_char c :: nat)) signature then Inl WebhookTypeError
             else if webhook_signature (wh_hmac W) provider_id event_id ts raw_body secret \<noteq> signature
             then Inl (WebhookDenied ''signature denied'')
             else case wh_loads W raw_body of
               None \<Rightarrow> Inl (WebhookDenied ''payload denied'')
             | Some payload \<Rightarrow>
                 (case webhook_envelope W tenant_ref provider_id event_id ts payload of
                    Inl e \<Rightarrow> Inl e
                  | Inr env \<Rightarrow> Inr \<lparr>vw_provider_id = provider_id, vw_provider_event_id = event_id,
                                    vw_envelope = env\<rparr>))"

definition consume_verified_webhook ::
  "webhook_env \<Rightarrow> timestamp \<Rightarrow> verified_provider_webhook \<Rightarrow>
   (financial_event_envelope \<Rightarrow> 'd \<Rightarrow> (event_error, 'd) res) \<Rightarrow> financial_processed list \<times> 'd \<Rightarrow>
   (event_error, (financial_processed list \<times> 'd) \<times> bool) res" where
  "consume_verified_webhook W now w handler s = consume_financial_event (wh_sha W) now (vw_envelope w) handler s"

section \<open>What they guarantee\<close>

lemma get_destination_Inr:
  "get_destination_for_withdrawal i tenant account owner now t = Inr d \<longleftrightarrow>
     obj_first (destination_owned i tenant account owner) t = Some d \<and> de_status d = DestVerified \<and>
     (\<exists>v. de_verified_at d = Some v) \<and> (\<forall>c. de_cooldown_until d = Some c \<longrightarrow> c \<le> now)"
  by (auto simp: get_destination_for_withdrawal_def not_less split: option.splits if_splits)

text \<open>
  C23. A destination is handed out for a withdrawal only to the tenant, account and owner it
  was created for, verified and past its cooldown; once its owner revokes it, nobody ever gets it again,
  whatever the time and the caller, and other destinations are unaffected.
\<close>

theorem revoked_destination_unusable:
  assumes "revoke_destination i tenant account owner t = Inr (t', d)"
    and "get_destination_for_withdrawal j tenant2 account2 owner2 now t' = Inr d2"
  shows "j \<noteq> i \<and> get_destination_for_withdrawal j tenant2 account2 owner2 now t = Inr d2 \<and>
    destination_owned j tenant2 account2 owner2 d2 \<and> de_status d2 = DestVerified \<and>
    (\<forall>c. de_cooldown_until d2 = Some c \<longrightarrow> c \<le> now)"
proof -
  let ?rev = "\<lambda>x. x\<lparr>de_status := DestRevoked\<rparr>"
  from assms(1) have t': "t' = upd_where (\<lambda>x. de_destination_id x = i) ?rev t"
    by (auto simp: revoke_destination_def Let_def destination_owned_def split: option.splits dest: obj_first_Some)
  from assms(2) have d2: "obj_first (destination_owned j tenant2 account2 owner2) t' = Some d2"
    "de_status d2 = DestVerified" by (auto simp: get_destination_Inr)
  then have owned: "d2 \<in> set t'" "destination_owned j tenant2 account2 owner2 d2" by (auto dest: obj_first_Some)
  have "j \<noteq> i"
  proof
    assume "j = i"
    with owned have "de_destination_id d2 = i" by (simp add: destination_owned_def)
    moreover from owned(1) obtain x where "d2 = (if de_destination_id x = i then ?rev x else x)"
      unfolding t' upd_where_def set_map by blast
    ultimately show False using d2(2) by (cases "de_destination_id x = i") simp_all
  qed
  moreover have "obj_first (destination_owned j tenant2 account2 owner2) t' =
      obj_first (destination_owned j tenant2 account2 owner2) t"
    unfolding t' upd_where_def using \<open>j \<noteq> i\<close>
    by (induction t) (auto simp: destination_owned_def)
  ultimately show ?thesis using assms(2) owned d2(2) by (auto simp: get_destination_Inr)
qed

definition demo_destination :: "uuid \<Rightarrow> destination" where
  "demo_destination i = \<lparr>de_destination_id = i, de_tenant_ref = 1, de_account_ref = 2, de_owner_ref = 3,
     de_type = Crypto, de_asset = ''ETH'', de_network = ''ETHEREUM'', de_masked_display = '''',
     de_destination_fingerprint = '''', de_beneficiary_ref = None, de_status = DestVerified,
     de_created_at = 0, de_verified_at = Some 5, de_cooldown_until = Some 10\<rparr>"

definition demo_destinations :: "destination list" where
  "demo_destinations = [demo_destination 7, demo_destination 8]"

theorem revoked_destination_unusable_witness:
  "\<exists>t'. revoke_destination 7 1 2 3 demo_destinations = Inr (t', (demo_destination 7)\<lparr>de_status := DestRevoked\<rparr>) \<and>
     get_destination_for_withdrawal 8 1 2 3 11 t' = Inr (demo_destination 8) \<and>
     get_destination_for_withdrawal 8 1 2 3 11 demo_destinations = Inr (demo_destination 8)"
proof -
  let ?t = "[(demo_destination 7)\<lparr>de_status := DestRevoked\<rparr>, demo_destination 8]"
  have r: "revoke_destination 7 1 2 3 demo_destinations = Inr (?t, (demo_destination 7)\<lparr>de_status := DestRevoked\<rparr>)"
    by (simp add: revoke_destination_def destination_owned_def demo_destinations_def demo_destination_def upd_where_def)
  have g: "get_destination_for_withdrawal 8 1 2 3 11 ?t = Inr (demo_destination 8)"
    by (simp add: get_destination_for_withdrawal_def destination_owned_def demo_destination_def)
  from revoked_destination_unusable [OF r g] r g show ?thesis by blast
qed

lemma webhook_envelope_id:
  "webhook_envelope W tenant p e ts payload = Inr env \<Longrightarrow>
   env_event_id env = wh_uuid5 W (''beyvra-provider:'' @ p @ '':'' @ e) \<and> env_tenant_ref env = tenant"
  by (auto simp: webhook_envelope_def make_envelope_def split: sum.splits json.splits option.splits if_splits)

text \<open>
  C24. An accepted webhook was signed with the shared secret over its time stamp, event
  identifier, provider and body, and lies inside the replay window; and however the second
  copy is dressed up, two accepted webhooks of one provider with the same provider event
  identifier have one effect: the second changes nothing.
\<close>

theorem webhook_authentic_and_replay_safe:
  assumes "verify_provider_webhook W p tenant headers raw_body secret current window = Inr w"
    and "verify_provider_webhook W p tenant2 headers2 raw_body2 secret2 current2 window2 = Inr w2"
    and "vw_provider_event_id w2 = vw_provider_event_id w"
    and "consume_verified_webhook W now w handler s = Inr (s1, True)"
  shows "(\<exists>ts. headers ''X-Signature'' = Some (webhook_signature (wh_hmac W) p (vw_provider_event_id w) ts raw_body secret) \<and>
       \<bar>current - ts\<bar> \<le> window) \<and>
    (\<forall>now2 handler2 r. consume_verified_webhook W now2 w2 handler2 s1 = Inr r \<longrightarrow> r = (s1, False))"
proof
  have sig: "webhook_signature hm q i ts b sec \<noteq> []" for hm q i ts b sec
    by (simp add: webhook_signature_def)
  show "\<exists>ts. headers ''X-Signature'' = Some (webhook_signature (wh_hmac W) p (vw_provider_event_id w) ts raw_body secret) \<and>
       \<bar>current - ts\<bar> \<le> window"
    using assms(1) sig
    by (auto simp: verify_provider_webhook_def Let_def not_less split: option.splits if_splits sum.splits)
  have ids: "env_event_id (vw_envelope x) = wh_uuid5 W (''beyvra-provider:'' @ p @ '':'' @ vw_provider_event_id x)"
    if "verify_provider_webhook W p tn h b sc cu wi = Inr x" for x tn h b sc cu wi
    using that
    by (auto simp: verify_provider_webhook_def Let_def split: option.splits if_splits sum.splits dest: webhook_envelope_id)
  let ?k = "env_event_id (vw_envelope w)"
  obtain t d where s: "s = (t, d)" by (cases s)
  have seen: "financial_seen (fst s1) ?k \<noteq> None"
    using assms(4) unfolding consume_verified_webhook_def consume_financial_event_def s
    by (auto simp: consume_financial_digest_def financial_seen_def obj_first_append split: option.splits if_splits sum.splits)
  have "env_event_id (vw_envelope w2) = ?k" using ids [OF assms(1)] ids [OF assms(2)] assms(3) by simp
  with seen show "\<forall>now2 handler2 r. consume_verified_webhook W now2 w2 handler2 s1 = Inr r \<longrightarrow> r = (s1, False)"
    by (auto simp: consume_verified_webhook_def consume_financial_event_def consume_financial_digest_def
        financial_seen_def split: option.splits if_splits)
qed

definition demo_env :: webhook_env where
  "demo_env = \<lparr>wh_hmac = (\<lambda>k m. k), wh_uuid5 = length,
     wh_loads = (\<lambda>_. Some (JObj [(''event_type'', JStr ''financial.deposit.detected.v1'')])), wh_sha = id\<rparr>"

definition demo_secret :: string where
  "demo_secret = replicate 32 CHR ''k''"

definition demo_headers :: "string \<Rightarrow> string option" where
  "demo_headers = map_of [(''X-Provider-Id'', ''acme''), (''X-Event-Id'', ''evt-001''),
     (''X-Timestamp'', ''1000''), (''X-Signature'', ''v1='' @ demo_secret)]"

definition demo_webhook :: verified_provider_webhook where
  "demo_webhook =
     (case verify_provider_webhook demo_env ''acme'' 5 demo_headers ''{}'' demo_secret 1100 300 of
        Inr w \<Rightarrow> w | Inl _ \<Rightarrow> undefined)"

theorem webhook_authentic_and_replay_safe_witness:
  "\<exists>s1. consume_verified_webhook demo_env 0 demo_webhook (\<lambda>_ n. Inr (Suc n)) ([], 0) = Inr (s1, True) \<and> snd s1 = 1 \<and>
     (\<forall>r. consume_verified_webhook demo_env 9 demo_webhook (\<lambda>_ n. Inr (Suc n)) s1 = Inr r \<longrightarrow> r = (s1, False))"
proof -
  let ?v = "verify_provider_webhook demo_env ''acme'' 5 demo_headers ''{}'' demo_secret 1100 300"
  have "case ?v of Inl _ \<Rightarrow> False | Inr w \<Rightarrow>
      (case consume_verified_webhook demo_env 0 w (\<lambda>_ n. Inr (Suc n)) ([], 0 :: nat) of
         Inr (s1, True) \<Rightarrow> snd s1 = 1 | _ \<Rightarrow> False)" by code_simp
  then obtain w s1 where w: "?v = Inr w" "snd s1 = 1"
      "consume_verified_webhook demo_env 0 w (\<lambda>_ n. Inr (Suc n)) ([], 0 :: nat) = Inr (s1, True)"
    by (auto split: sum.splits prod.splits bool.splits)
  then have "demo_webhook = w" by (simp add: demo_webhook_def)
  with webhook_authentic_and_replay_safe [OF w(1) w(1) refl w(3)] w show ?thesis by blast
qed

end
