(* ===== verification/Polygon_OMS.thy ===== *)
theory Polygon_OMS
  imports Financial_Destinations
begin

text \<open>
  \<open>integrations/financial/polygon_oms_contract.py\<close>: the contract expected of an external order
  management system. Canonical states and errors, response validation, quotes, the outbound
  gate, the circuit breaker, webhook signatures, the fixture inbox and retry delays.
  \<open>json.loads\<close>, \<open>datetime.fromisoformat\<close>, \<open>float(text)\<close> and HMAC-SHA-256 are parameters.
\<close>

section \<open>States, errors and amounts\<close>

datatype transaction_state =
    TxCreated | TxPending | TxProcessing | TxRequiresAction | TxSettled | TxFailed | TxCancelled
  | TxReversed | TxUnknown

datatype kyc_state = KycNotStarted | KycPending | KycInReview | KycApproved | KycRejected | KycExpired | KycRequiresUpdate

datatype provider_error =
    PeValidationError | PeComplianceRequired | PeOperationNotAllowed | PeInsufficientFunds
  | PeIdempotencyConflict | PeProviderUnavailable | PeUnknownOutcome

datatype circuit_state = CircuitClosed | CircuitOpen | CircuitHalfOpen

datatype oms_error = OmsValueError string | OmsTypeError | OmsKeyError string | OmsNotFound

definition oms_transaction_states :: "string \<Rightarrow> transaction_state option" where
  "oms_transaction_states = map_of
     [(''created'', TxCreated), (''pending'', TxPending), (''processing'', TxProcessing),
      (''awaitingAction'', TxRequiresAction), (''completed'', TxSettled), (''failed'', TxFailed),
      (''cancelled'', TxCancelled), (''reversed'', TxReversed)]"

definition oms_kyc_states :: "string \<Rightarrow> kyc_state option" where
  "oms_kyc_states = map_of
     [(''notStarted'', KycNotStarted), (''pending'', KycPending), (''inReview'', KycInReview),
      (''approved'', KycApproved), (''rejected'', KycRejected), (''expired'', KycExpired),
      (''requiresUpdate'', KycRequiresUpdate)]"

definition tx_terminal :: "transaction_state \<Rightarrow> bool" where
  "tx_terminal s \<longleftrightarrow> s \<in> {TxSettled, TxFailed, TxCancelled, TxReversed}"

definition decimal_string :: "json \<Rightarrow> (oms_error, decimal) res" where
  "decimal_string v =
     (case v of
        JNull \<Rightarrow> Inl (OmsValueError ''amount must be a decimal string or integer'')
      | JBool _ \<Rightarrow> Inl (OmsValueError ''amount must be a decimal string or integer'')
      | _ \<Rightarrow>
          (case parse_decimal (py_text v) of
             None \<Rightarrow> Inl (OmsValueError ''invalid decimal amount'')
           | Some (Finite s c e) \<Rightarrow> Inr (Finite s c e)
           | Some _ \<Rightarrow> Inl (OmsValueError ''amount must be finite'')))"

definition canonical_transaction_state :: "json \<Rightarrow> transaction_state" where
  "canonical_transaction_state v =
     (case oms_transaction_states (py_text v) of None \<Rightarrow> TxUnknown | Some s \<Rightarrow> s)"

definition canonical_kyc_state :: "json \<Rightarrow> kyc_state" where
  "canonical_kyc_state v = (case oms_kyc_states (py_text v) of None \<Rightarrow> KycInReview | Some s \<Rightarrow> s)"

text \<open>Membership of an unhashable code in a set raises \<open>TypeError\<close>.\<close>

definition map_provider_error :: "int \<Rightarrow> json \<Rightarrow> (oms_error, provider_error) res" where
  "map_provider_error status_code body =
     (let code = (case body of JObj kvs \<Rightarrow> row_get kvs ''code'' | _ \<Rightarrow> JNull)
      in if \<not> hashable code then Inl OmsTypeError
         else if code \<in> {JStr ''compliance_required'', JStr ''compliance_hold''} then Inr PeComplianceRequired
         else if code = JStr ''insufficient_funds'' then Inr PeInsufficientFunds
         else if status_code = 409 then Inr PeIdempotencyConflict
         else if status_code \<in> {400, 404, 422} then Inr PeValidationError
         else if status_code \<in> {401, 403} then Inr PeOperationNotAllowed
         else if status_code \<in> {408, 429, 500, 502, 503, 504} then Inr PeProviderUnavailable
         else Inr PeUnknownOutcome)"

definition need :: "row \<Rightarrow> string \<Rightarrow> (oms_error, json) res" where
  "need r k = (case map_of r k of None \<Rightarrow> Inl (OmsKeyError k) | Some j \<Rightarrow> Inr j)"

definition validate_transaction_response ::
  "json \<Rightarrow> (oms_error, string \<times> transaction_state \<times> decimal) res" where
  "validate_transaction_response v =
     (case v of
        JObj r \<Rightarrow>
          (case (map_of r ''id'', map_of r ''status'', map_of r ''amount'') of
             (Some i, Some s, Some a) \<Rightarrow>
               rbind (decimal_string a) (\<lambda>amount.
                 if py_text i = [] then Inl (OmsValueError ''malformed provider response'')
                 else Inr (py_text i, canonical_transaction_state s, amount))
           | _ \<Rightarrow> Inl (OmsValueError ''malformed provider response''))
      | _ \<Rightarrow> Inl (OmsValueError ''malformed provider response''))"

section \<open>Descriptions, mappings and quotes\<close>

record asset_network_ref =
  an_asset :: string
  an_chain :: string
  an_network_id :: string
  an_decimals :: int
  an_contract_address :: "string option"

definition make_asset_network :: "asset_network_ref \<Rightarrow> (oms_error, asset_network_ref) res" where
  "make_asset_network a =
     (if an_asset a = [] \<or> an_chain a = [] \<or> an_network_id a = []
      then Inl (OmsValueError ''asset and network identity are required'')
      else if \<not> (0 \<le> an_decimals a \<and> an_decimals a \<le> 36) then Inl (OmsValueError ''unsupported precision'')
      else Inr a)"

record entity_mapping =
  em_tenant_ref :: string
  em_beyvra_account_ref :: string
  em_oms_entity_ref :: string
  em_provider_id :: string
  em_created_at :: timestamp
  em_status :: string

record wallet_mapping =
  wm_tenant_ref :: string
  wm_wallet_ref :: string
  wm_provider_wallet_ref :: string
  wm_asset :: string
  wm_network :: string
  wm_custody_model :: string
  wm_status :: string

definition require_tenant_owner :: "string \<Rightarrow> string \<Rightarrow> (oms_error, unit) res" where
  "require_tenant_owner request_tenant resource_tenant =
     (if request_tenant = [] \<or> request_tenant \<noteq> resource_tenant then Inl OmsNotFound else Inr ())"

record quote =
  qt_quote_id :: string
  qt_operation_type :: string
  qt_input_asset :: string
  qt_input_amount :: decimal
  qt_output_asset :: string
  qt_output_amount :: decimal
  qt_fee :: decimal
  qt_rate :: decimal
  qt_expires_at :: timestamp
  qt_provider_ref :: string

definition need_text :: "row \<Rightarrow> string \<Rightarrow> (oms_error, string) res" where
  "need_text r k = rbind (need r k) (\<lambda>j. Inr (py_text j))"

definition need_decimal :: "row \<Rightarrow> string \<Rightarrow> (oms_error, decimal) res" where
  "need_decimal r k = rbind (need r k) decimal_string"

definition quote_from_fixture ::
  "(string \<Rightarrow> timestamp option) \<Rightarrow> row \<Rightarrow> (oms_error, quote) res" where
  "quote_from_fixture fromiso r =
     rbind (need_text r ''quote_id'') (\<lambda>quote_id.
     rbind (need_text r ''operation_type'') (\<lambda>operation_type.
     rbind (need_text r ''input_asset'') (\<lambda>input_asset.
     rbind (need_decimal r ''input_amount'') (\<lambda>input_amount.
     rbind (need_text r ''output_asset'') (\<lambda>output_asset.
     rbind (need_decimal r ''output_amount'') (\<lambda>output_amount.
     rbind (need_decimal r ''fee'') (\<lambda>fee.
     rbind (need_decimal r ''rate'') (\<lambda>rate.
     rbind (need_text r ''expires_at'') (\<lambda>expires_text.
     case fromiso (concat (map (\<lambda>c. if c = CHR ''Z'' then ''+00:00'' else [c]) expires_text)) of
       None \<Rightarrow> Inl (OmsValueError ''Invalid isoformat string'')
     | Some expires_at \<Rightarrow>
         rbind (need_text r ''provider_ref'') (\<lambda>provider_ref.
           Inr \<lparr>qt_quote_id = quote_id, qt_operation_type = operation_type, qt_input_asset = input_asset,
                qt_input_amount = input_amount, qt_output_asset = output_asset,
                qt_output_amount = output_amount, qt_fee = fee, qt_rate = rate,
                qt_expires_at = expires_at, qt_provider_ref = provider_ref\<rparr>))))))))))"

section \<open>Outbound gate\<close>

record outbound_gate =
  og_polygon_oms_enabled :: bool
  og_polygon_oms_production_enabled :: bool
  og_polygon_oms_halted :: bool
  og_all_financial_mutations_halted :: bool
  og_environment_approved :: bool
  og_credential_available :: bool
  og_operation_approved :: bool
  og_compliance_approved :: bool
  og_financial_approved :: bool
  og_feature_enabled :: bool
  og_production_requested :: bool

definition default_gate :: outbound_gate where
  "default_gate = \<lparr>og_polygon_oms_enabled = False, og_polygon_oms_production_enabled = False,
     og_polygon_oms_halted = True, og_all_financial_mutations_halted = True,
     og_environment_approved = False, og_credential_available = False, og_operation_approved = False,
     og_compliance_approved = False, og_financial_approved = False, og_feature_enabled = False,
     og_production_requested = False\<rparr>"

definition gate_checks :: "outbound_gate \<Rightarrow> (bool \<times> string) list" where
  "gate_checks g =
     [(og_all_financial_mutations_halted g, ''GLOBAL_FINANCIAL_HALT''),
      (og_polygon_oms_halted g, ''POLYGON_OMS_HALTED''),
      (\<not> og_polygon_oms_enabled g, ''POLYGON_OMS_DISABLED''),
      (og_production_requested g \<and> \<not> og_polygon_oms_production_enabled g, ''PRODUCTION_NOT_APPROVED''),
      (\<not> og_environment_approved g, ''ENVIRONMENT_NOT_APPROVED''),
      (\<not> og_credential_available g, ''CREDENTIAL_UNAVAILABLE''),
      (\<not> og_operation_approved g, ''OPERATION_NOT_APPROVED''),
      (\<not> og_compliance_approved g, ''COMPLIANCE_REQUIRED''),
      (\<not> og_financial_approved g, ''FINANCIAL_APPROVAL_REQUIRED''),
      (\<not> og_feature_enabled g, ''FEATURE_DISABLED'')]"

definition gate_reason :: "outbound_gate \<Rightarrow> string" where
  "gate_reason g = (case find fst (gate_checks g) of None \<Rightarrow> ''ALLOW'' | Some (_, reason) \<Rightarrow> reason)"

definition gate_allowed :: "outbound_gate \<Rightarrow> bool" where
  "gate_allowed g \<longleftrightarrow> gate_reason g = ''ALLOW''"

section \<open>Circuit breaker\<close>

record circuit_breaker =
  cb_failure_threshold :: int
  cb_state :: circuit_state
  cb_failures :: int

definition record_failure :: "circuit_breaker \<Rightarrow> circuit_breaker \<times> circuit_state" where
  "record_failure b =
     (let b1 = b\<lparr>cb_failures := cb_failures b + 1\<rparr>;
          b2 = (if cb_failure_threshold b1 \<le> cb_failures b1 then b1\<lparr>cb_state := CircuitOpen\<rparr> else b1)
      in (b2, cb_state b2))"

definition begin_probe :: "circuit_breaker \<Rightarrow> circuit_breaker \<times> bool" where
  "begin_probe b =
     (if cb_state b \<noteq> CircuitOpen then (b, False) else (b\<lparr>cb_state := CircuitHalfOpen\<rparr>, True))"

definition record_success :: "circuit_breaker \<Rightarrow> circuit_breaker \<times> circuit_state" where
  "record_success b = (b\<lparr>cb_failures := 0, cb_state := CircuitClosed\<rparr>, CircuitClosed)"

section \<open>Webhook signatures\<close>

text \<open>\<open>key, value = part.split("=", 1)\<close>; a later pair of the same key wins.\<close>

definition header_pair :: "string \<Rightarrow> (string \<times> string) option" where
  "header_pair part =
     (if CHR ''='' \<notin> set part then None
      else Some (strip (takeWhile (\<lambda>c. c \<noteq> CHR ''='') part),
                 strip (tl (dropWhile (\<lambda>c. c \<noteq> CHR ''='') part))))"

definition header_parts :: "string \<Rightarrow> string \<Rightarrow> string option" where
  "header_parts header = map_of (rev (List.map_filter header_pair (split_on CHR '','' header)))"

text \<open>\<open>bytes.fromhex\<close>: pairs of hexadecimal digits, blanks between the bytes.\<close>

definition hex_value :: "char \<Rightarrow> nat" where
  "hex_value c =
     (let n = of_char c :: nat in if n < 58 then n - 48 else if n < 71 then n - 55 else n - 87)"

definition ascii_blank :: "char \<Rightarrow> bool" where
  "ascii_blank c \<longleftrightarrow> (of_char c :: nat) \<in> {9, 10, 11, 12, 13, 32}"

fun fromhex :: "string \<Rightarrow> nat list option" where
  "fromhex [] = Some []"
| "fromhex [c] = (if ascii_blank c then Some [] else None)"
| "fromhex (c # d # s) =
     (if ascii_blank c then fromhex (d # s)
      else if hex_char c \<and> hex_char d then map_option ((#) (16 * hex_value c + hex_value d)) (fromhex s)
      else None)"

definition verify_webhook_signature ::
  "(string \<Rightarrow> string \<Rightarrow> nat list) \<Rightarrow> string \<Rightarrow> string option \<Rightarrow> string \<Rightarrow> int \<Rightarrow> int \<Rightarrow> bool" where
  "verify_webhook_signature hmac raw_body header signing_key now tolerance =
     (case header of
        None \<Rightarrow> False
      | Some h \<Rightarrow>
          if h = [] \<or> signing_key = [] then False
          else
            (case (header_parts h ''t'', header_parts h ''v1'') of
               (Some ts, Some sig) \<Rightarrow>
                 if ts = [] \<or> sig = [] then False
                 else
                   (case parse_int ts of
                      None \<Rightarrow> False
                    | Some n \<Rightarrow>
                        if tolerance < \<bar>now - n\<bar> then False
                        else (case fromhex sig of
                                None \<Rightarrow> False
                              | Some received \<Rightarrow> received = hmac signing_key (ts @ ''.'' @ raw_body)))
             | _ \<Rightarrow> False))"

section \<open>Fixture inbox\<close>

datatype loads_result = LoadsOk json | LoadsSyntaxError | LoadsUnicodeError

record fixture_inbox =
  fi_processed :: "string list"
  fi_last_sequence :: "string \<Rightarrow> int option"
  fi_states :: "string \<Rightarrow> transaction_state option"
  fi_business_effects :: nat
  fi_dead_letters :: "string list"

definition empty_inbox :: fixture_inbox where
  "empty_inbox = \<lparr>fi_processed = [], fi_last_sequence = Map.empty, fi_states = Map.empty,
     fi_business_effects = 0, fi_dead_letters = []\<rparr>"

datatype inbox_outcome =
    InMalformed | InDuplicate | InUnknownEvent | InStale | InSequenceGap | InUnknownState
  | InInvalidTransition | InApplied

text \<open>The envelope of a delivery: its identifier, event type, resource row and sequence member.\<close>

definition read_delivery :: "json \<Rightarrow> (string \<times> json \<times> row \<times> string \<times> json) option" where
  "read_delivery j =
     (case j of
        JObj env \<Rightarrow>
          (case (map_of env ''id'', map_of env ''data'') of
             (Some i, Some (JObj resource)) \<Rightarrow>
               (case map_of resource ''id'' of
                  None \<Rightarrow> None
                | Some r \<Rightarrow>
                    Some (py_text i,
                      (if truthy (row_get env ''event'') then row_get env ''event'' else row_get env ''eventType''),
                      resource, py_text r, row_get env ''sequence''))
           | _ \<Rightarrow> None)
      | _ \<Rightarrow> None)"

text \<open>\<open>int(sequence)\<close>\<close>

definition sequence_number :: "json \<Rightarrow> (oms_error, int) res" where
  "sequence_number j =
     (case j of
        JInt i \<Rightarrow> Inr i
      | JBool b \<Rightarrow> Inr (if b then 1 else 0)
      | JStr s \<Rightarrow> (case parse_int s of None \<Rightarrow> Inl (OmsValueError ''invalid literal for int()'') | Some i \<Rightarrow> Inr i)
      | _ \<Rightarrow> Inl OmsTypeError)"

definition mark_processed :: "string \<Rightarrow> fixture_inbox \<Rightarrow> fixture_inbox" where
  "mark_processed i s = s\<lparr>fi_processed := List.insert i (fi_processed s)\<rparr>"

definition mark_dead :: "string \<Rightarrow> fixture_inbox \<Rightarrow> fixture_inbox" where
  "mark_dead i s = mark_processed i (s\<lparr>fi_dead_letters := fi_dead_letters s @ [i]\<rparr>)"

text \<open>The part of \<open>apply\<close> behind the sequence checks; \<open>sq\<close> is the sequence number, if any.\<close>

definition apply_state ::
  "string \<Rightarrow> row \<Rightarrow> string \<Rightarrow> int option \<Rightarrow> fixture_inbox \<Rightarrow> fixture_inbox \<times> inbox_outcome" where
  "apply_state i resource r sq s =
     (let next = canonical_transaction_state (row_get resource ''status'')
      in if next = TxUnknown then (mark_dead i s, InUnknownState)
         else if (case fi_states s r of None \<Rightarrow> False | Some cur \<Rightarrow> tx_terminal cur \<and> next \<noteq> cur)
         then (mark_dead i s, InInvalidTransition)
         else ((mark_processed i s)
                 \<lparr>fi_last_sequence := (case sq of None \<Rightarrow> fi_last_sequence s
                                        | Some n \<Rightarrow> (fi_last_sequence s)(r \<mapsto> n)),
                  fi_states := (fi_states s)(r \<mapsto> next),
                  fi_business_effects := Suc (fi_business_effects s)\<rparr>, InApplied))"

definition apply_sequenced ::
  "string \<Rightarrow> row \<Rightarrow> string \<Rightarrow> int \<Rightarrow> fixture_inbox \<Rightarrow> fixture_inbox \<times> inbox_outcome" where
  "apply_sequenced i resource r n s =
     (case fi_last_sequence s r of
        Some prev \<Rightarrow>
          if n \<le> prev then (mark_processed i s, InStale)
          else if 1 < n \<and> prev + 1 < n then (mark_dead i s, InSequenceGap)
          else apply_state i resource r (Some n) s
      | None \<Rightarrow>
          if 1 < n then (mark_dead i s, InSequenceGap) else apply_state i resource r (Some n) s)"

definition inbox_apply ::
  "(string \<Rightarrow> loads_result) \<Rightarrow> string \<Rightarrow> fixture_inbox \<Rightarrow> (oms_error, fixture_inbox \<times> inbox_outcome) res" where
  "inbox_apply loads raw_body s =
     (case loads raw_body of
        LoadsUnicodeError \<Rightarrow> Inl (OmsValueError ''invalid unicode'')
      | LoadsSyntaxError \<Rightarrow> Inr (s, InMalformed)
      | LoadsOk j \<Rightarrow>
          (case read_delivery j of
             None \<Rightarrow> Inr (s, InMalformed)
           | Some (i, event_type, resource, r, sq) \<Rightarrow>
               if i \<in> set (fi_processed s) then Inr (s, InDuplicate)
               else if event_type \<noteq> JStr ''transaction.statusChanged'' then Inr (mark_dead i s, InUnknownEvent)
               else if sq = JNull then Inr (apply_state i resource r None s)
               else rbind (sequence_number sq) (\<lambda>n. Inr (apply_sequenced i resource r n s))))"

section \<open>Recovery\<close>

text \<open>\<open>lookup\<close> and \<open>create\<close> act on the provider's state.\<close>

definition resolve_unknown_outcome ::
  "('s \<Rightarrow> string \<Rightarrow> row option) \<Rightarrow> ('s \<Rightarrow> 's \<times> row) \<Rightarrow> string \<Rightarrow> 's \<Rightarrow> 's \<times> row" where
  "resolve_unknown_outcome lookup create operation_ref s =
     (case lookup s operation_ref of Some existing \<Rightarrow> (s, existing) | None \<Rightarrow> create s)"

text \<open>
  \<open>float_of\<close> is \<open>float(text)\<close>: nothing on \<open>ValueError\<close>, \<open>Some None\<close> for an infinity or a NaN.
\<close>

definition retry_delay :: "(string \<Rightarrow> rat option option) \<Rightarrow> int \<Rightarrow> string option \<Rightarrow> int \<Rightarrow> rat option" where
  "retry_delay float_of status_code retry_after attempt =
     (if status_code \<notin> {408, 429, 500, 502, 503, 504} \<or> 5 \<le> attempt then None
      else if status_code = 429 \<and> retry_after \<noteq> None \<and> retry_after \<noteq> Some []
      then (case float_of (case retry_after of None \<Rightarrow> [] | Some t \<Rightarrow> t) of
              Some (Some x) \<Rightarrow> if 0 \<le> x then Some x else None
            | _ \<Rightarrow> None)
      else Some (min (2 powi attempt) 30))"

end

