(* ===== verification/Polygon_Properties.thy ===== *)
theory Polygon_Properties
  imports Polygon_OMS
begin

text \<open>Properties of the order-management contract.\<close>

section \<open>Gate and breaker\<close>

lemma gate_allowed_iff:
  "gate_allowed g \<longleftrightarrow> \<not> og_all_financial_mutations_halted g \<and> \<not> og_polygon_oms_halted g \<and>
     og_polygon_oms_enabled g \<and> \<not> (og_production_requested g \<and> \<not> og_polygon_oms_production_enabled g) \<and>
     og_environment_approved g \<and> og_credential_available g \<and> og_operation_approved g \<and>
     og_compliance_approved g \<and> og_financial_approved g \<and> og_feature_enabled g"
  by (simp add: gate_allowed_def gate_reason_def gate_checks_def)

datatype breaker_op = OpFailure | OpProbe | OpSuccess

fun run_breaker :: "breaker_op list \<Rightarrow> circuit_breaker \<Rightarrow> circuit_breaker" where
  "run_breaker [] b = b"
| "run_breaker (op # ops) b =
     run_breaker ops (case op of OpFailure \<Rightarrow> fst (record_failure b) | OpProbe \<Rightarrow> fst (begin_probe b)
                        | OpSuccess \<Rightarrow> fst (record_success b))"

lemma run_breaker_append: "run_breaker (xs @ ys) b = run_breaker ys (run_breaker xs b)"
  by (induction xs arbitrary: b) simp_all

text \<open>The failures recorded since the last success.\<close>

definition failures_since_success :: "breaker_op list \<Rightarrow> nat" where
  "failures_since_success ops = length (filter (\<lambda>x. x = OpFailure) (takeWhile (\<lambda>x. x \<noteq> OpSuccess) (rev ops)))"

definition fresh_breaker :: "int \<Rightarrow> circuit_breaker" where
  "fresh_breaker th = \<lparr>cb_failure_threshold = th, cb_state = CircuitClosed, cb_failures = 0\<rparr>"

definition breaker_spec :: "int \<Rightarrow> breaker_op list \<Rightarrow> circuit_state" where
  "breaker_spec th ops =
     (if int (failures_since_success ops) < th then CircuitClosed
      else if ops \<noteq> [] \<and> last ops = OpProbe then CircuitHalfOpen else CircuitOpen)"

text \<open>
  C25. The breaker implements its specification over histories: whatever failures, probes and
  successes were recorded, it is closed exactly when fewer failures than the threshold happened
  since the last success, half open when it is not and the last event was a probe, and open otherwise.
\<close>

theorem breaker_refines_history:
  assumes "0 < th"
  shows "cb_state (run_breaker ops (fresh_breaker th)) = breaker_spec th ops \<and>
    cb_failures (run_breaker ops (fresh_breaker th)) = int (failures_since_success ops)"
proof -
  have "cb_state (run_breaker ops (fresh_breaker th)) = breaker_spec th ops \<and>
    cb_failures (run_breaker ops (fresh_breaker th)) = int (failures_since_success ops) \<and>
    cb_failure_threshold (run_breaker ops (fresh_breaker th)) = th"
  proof (induction ops rule: rev_induct)
    case Nil
    with assms show ?case by (simp add: fresh_breaker_def breaker_spec_def failures_since_success_def)
  next
    case (snoc op ops)
    with assms show ?case
      by (cases op)
        (auto simp: run_breaker_append record_failure_def begin_probe_def record_success_def Let_def
          breaker_spec_def failures_since_success_def split: if_splits)
  qed
  then show ?thesis by blast
qed

theorem breaker_refines_history_witness:
  "cb_state (run_breaker [OpFailure, OpFailure, OpSuccess, OpFailure, OpFailure, OpFailure, OpProbe] (fresh_breaker 3)) =
     CircuitHalfOpen"
proof -
  have "breaker_spec 3 [OpFailure, OpFailure, OpSuccess, OpFailure, OpFailure, OpFailure, OpProbe] = CircuitHalfOpen"
    by code_simp
  with breaker_refines_history [of 3 "[OpFailure, OpFailure, OpSuccess, OpFailure, OpFailure, OpFailure, OpProbe]"]
  show ?thesis by simp
qed

section \<open>Signatures\<close>

definition hexdigest :: "nat list \<Rightarrow> string" where
  "hexdigest bs = concat (map (hex_text 2) bs)"

definition signed_header :: "(string \<Rightarrow> string \<Rightarrow> nat list) \<Rightarrow> string \<Rightarrow> int \<Rightarrow> string \<Rightarrow> string" where
  "signed_header hmac key ts body =
     ''t='' @ str_int ts @ '',v1='' @ hexdigest (hmac key (str_int ts @ ''.'' @ body))"

lemma hex_digit: "d < 16 \<Longrightarrow> hex_char (digit_char d) \<and> hex_value (digit_char d) = d \<and>
    \<not> is_blank (digit_char d) \<and> \<not> ascii_blank (digit_char d) \<and> digit_char d \<noteq> CHR '','' \<and> digit_char d \<noteq> CHR ''=''"
proof -
  assume d: "d < 16"
  then have n: "(of_char (digit_char d) :: nat) = (if d < 10 then 48 + d else 87 + d)"
    by (simp add: digit_char_def of_char_of take_bit_eq_mod)
  have "digit_char d \<noteq> CHR '',''" "digit_char d \<noteq> CHR ''=''"
    using n by (auto split: if_splits)
  with d n show ?thesis
    by (auto simp: hex_char_def hex_value_def is_blank_def ascii_blank_def char_in_def Let_def)
qed

lemma hex_text_2: "hex_text 2 b = [digit_char (b div 16 mod 16), digit_char (b mod 16)]"
  unfolding numeral_2_eq_2 hex_text.simps by simp

lemma hexdigest_Cons:
  "hexdigest (b # bs) = digit_char (b div 16 mod 16) # digit_char (b mod 16) # hexdigest bs"
  by (simp add: hexdigest_def hex_text_2)

lemma fromhex_hexdigest: "(\<And>b. b \<in> set bs \<Longrightarrow> b < 256) \<Longrightarrow> fromhex (hexdigest bs) = Some bs"
proof (induction bs)
  case (Cons b bs)
  let ?h = "b div 16 mod 16" and ?l = "b mod 16"
  have "fromhex (hexdigest (b # bs)) =
      map_option ((#) (16 * hex_value (digit_char ?h) + hex_value (digit_char ?l))) (fromhex (hexdigest bs))"
    unfolding hexdigest_Cons fromhex.simps using hex_digit [of ?h] hex_digit [of ?l] by simp
  moreover have "16 * ?h + ?l = b" using Cons.prems [of b] by simp
  ultimately show ?case using Cons hex_digit [of ?h] hex_digit [of ?l] by simp
qed (simp add: hexdigest_def)

lemma hexdigest_chars: "c \<in> set (hexdigest bs) \<Longrightarrow> \<not> is_blank c \<and> c \<noteq> CHR '','' \<and> c \<noteq> CHR ''=''"
  using hex_digit by (auto simp: hexdigest_def hex_text_2)

lemma digit_plain: "is_digit_09 c \<Longrightarrow> \<not> is_blank c \<and> c \<noteq> CHR '','' \<and> c \<noteq> CHR ''='' \<and> c \<noteq> CHR ''_''"
  by (auto simp: char_in_def is_blank_def)

lemma str_int_chars: "c \<in> set (str_int i) \<Longrightarrow> \<not> is_blank c \<and> c \<noteq> CHR '','' \<and> c \<noteq> CHR ''='' \<and> c \<noteq> CHR ''_''"
  using all_digits_str_nat [of "nat i"] all_digits_str_nat [of "nat (- i)"] digit_plain
  by (auto simp: str_int_def all_digits_def list_all_iff is_blank_def split: if_splits)

lemma int_digits_all: "all_digits s \<Longrightarrow> s \<noteq> [] \<Longrightarrow> int_digits s"
  by (induction s rule: int_digits.induct) (auto simp: all_digits_def char_in_def)

lemma parse_int_str_int: "parse_int (str_int i) = Some i"
proof -
  have st: "strip (str_int i) = str_int i" using str_int_chars by (intro strip_id) blast
  have dig: "int_digits (str_nat n)" "filter (\<lambda>c. c \<noteq> CHR ''_'') (str_nat n) = str_nat n" for n
    using all_digits_str_nat [of n] digit_plain
    by (auto simp: int_digits_all filter_id_conv all_digits_def list_all_iff)
  obtain c s where cs: "str_nat (nat i) = c # s" by (cases "str_nat (nat i)") auto
  then have "is_digit_09 c" using all_digits_str_nat [of "nat i"] by (simp add: all_digits_def)
  then have "c \<noteq> CHR ''-''" "c \<noteq> CHR ''+''" by (auto simp: char_in_def)
  then have "split_sign (str_nat (nat i)) = (False, str_nat (nat i))" by (simp add: split_sign_def cs)
  then show ?thesis
    unfolding parse_int_def st
    by (cases "i < 0") (simp_all add: str_int_def split_sign_def dig nat_of_digits_str_nat)
qed

lemma split_on_none: "d \<notin> set s \<Longrightarrow> split_on d s = [s]"
  by (induction s) auto

lemma split_on_nonempty: "split_on d s \<noteq> []"
  by (induction s) (auto split: list.splits)

lemma split_on_append: "d \<notin> set a \<Longrightarrow> split_on d (a @ d # b) = a # split_on d b"
  using split_on_nonempty [of d b] by (induction a) (auto split: list.splits)

lemma header_pair_eq:
  assumes "CHR ''='' \<notin> set k" "\<And>c. c \<in> set k \<union> set v \<Longrightarrow> \<not> is_blank c"
  shows "header_pair (k @ ''='' @ v) = Some (k, v)"
proof -
  have "takeWhile (\<lambda>c. c \<noteq> CHR ''='') (k @ ''='' @ v) = k" "dropWhile (\<lambda>c. c \<noteq> CHR ''='') (k @ ''='' @ v) = CHR ''='' # v"
    using assms(1) by (induction k) auto
  moreover have "strip k = k" "strip v = v" using assms(2) by (auto intro!: strip_id)
  ultimately show ?thesis by (simp add: header_pair_def)
qed

lemma signed_header_parts:
  "header_parts (signed_header hmac key ts body) =
     [''t'' \<mapsto> str_int ts, ''v1'' \<mapsto> hexdigest (hmac key (str_int ts @ ''.'' @ body))]"
proof -
  let ?d = "hexdigest (hmac key (str_int ts @ ''.'' @ body))"
  have cs: "CHR '','' \<notin> set (''t='' @ str_int ts)" "CHR '','' \<notin> set (''v1='' @ ?d)"
    using str_int_chars hexdigest_chars by fastforce+
  have "split_on CHR '','' ((''t='' @ str_int ts) @ CHR '','' # (''v1='' @ ?d)) = [''t='' @ str_int ts, ''v1='' @ ?d]"
    unfolding split_on_append [OF cs(1)] split_on_none [OF cs(2)] by (rule refl)
  then have "split_on CHR '','' (signed_header hmac key ts body) = [''t'' @ ''='' @ str_int ts, ''v1'' @ ''='' @ ?d]"
    by (simp add: signed_header_def del: split_on.simps)
  moreover have "header_pair (''t'' @ ''='' @ str_int ts) = Some (''t'', str_int ts)"
    by (rule header_pair_eq) (use str_int_chars in \<open>auto simp: is_blank_def\<close>)
  moreover have "header_pair (''v1'' @ ''='' @ ?d) = Some (''v1'', ?d)"
    by (rule header_pair_eq) (use hexdigest_chars in \<open>auto simp: is_blank_def\<close>)
  ultimately show ?thesis by (simp add: header_parts_def List.map_filter_def fun_upd_twist)
qed

text \<open>
  C26. Signing and verifying round-trip: the header built for a time stamp and a body
  verifies against a received body exactly when the time stamp lies inside the tolerance and
  the keyed digest of the received body is the one that was signed. So the untouched body
  always verifies in time, and any change the digest tells apart is refused.
\<close>

theorem webhook_signature_roundtrip:
  assumes "key \<noteq> []" and "\<And>k m. length (hmac k m) = 32 \<and> (\<forall>b \<in> set (hmac k m). b < 256)"
  shows "verify_webhook_signature hmac received (Some (signed_header hmac key ts body)) key now tolerance \<longleftrightarrow>
    \<bar>now - ts\<bar> \<le> tolerance \<and> hmac key (str_int ts @ ''.'' @ received) = hmac key (str_int ts @ ''.'' @ body)"
proof -
  let ?d = "hmac key (str_int ts @ ''.'' @ body)"
  have "?d \<noteq> []" using assms(2) [of key "str_int ts @ ''.'' @ body"] by auto
  then have ne: "hexdigest ?d \<noteq> []" "signed_header hmac key ts body \<noteq> []" "str_int ts \<noteq> []"
    by (cases ?d; simp add: hexdigest_Cons signed_header_def str_int_def)+
  moreover have "fromhex (hexdigest ?d) = Some ?d" using assms(2) by (intro fromhex_hexdigest) blast
  ultimately show ?thesis
    using assms(1) by (auto simp: verify_webhook_signature_def signed_header_parts parse_int_str_int)
qed

definition demo_hmac :: "string \<Rightarrow> string \<Rightarrow> nat list" where
  "demo_hmac k m = replicate 31 7 @ [length m mod 256]"

theorem webhook_signature_roundtrip_witness:
  "verify_webhook_signature demo_hmac ''{}'' (Some (signed_header demo_hmac ''key'' 1000 ''{}'')) ''key'' 1200 300 \<and>
   \<not> verify_webhook_signature demo_hmac ''{x}'' (Some (signed_header demo_hmac ''key'' 1000 ''{}'')) ''key'' 1200 300 \<and>
   \<not> verify_webhook_signature demo_hmac ''{}'' (Some (signed_header demo_hmac ''key'' 1000 ''{}'')) ''key'' 1400 300"
proof -
  have "length (demo_hmac k m) = 32 \<and> (\<forall>b \<in> set (demo_hmac k m). b < 256)" for k m
    by (auto simp: demo_hmac_def)
  moreover have "demo_hmac ''key'' (str_int 1000 @ ''.'' @ ''{x}'') \<noteq> demo_hmac ''key'' (str_int 1000 @ ''.'' @ ''{}'')"
    by code_simp
  ultimately show ?thesis
    using webhook_signature_roundtrip [of "''key''" demo_hmac] by (simp del: numeral_eq_Suc)
qed

section \<open>The inbox\<close>

text \<open>The bodies of a stream that were applied, by delivery identifier; a raise changes nothing.\<close>

definition delivery_id :: "(string \<Rightarrow> loads_result) \<Rightarrow> string \<Rightarrow> string" where
  "delivery_id loads body =
     (case loads body of LoadsOk j \<Rightarrow> (case read_delivery j of None \<Rightarrow> [] | Some (i, _) \<Rightarrow> i) | _ \<Rightarrow> [])"

fun inbox_stream ::
  "(string \<Rightarrow> loads_result) \<Rightarrow> string list \<Rightarrow> fixture_inbox \<Rightarrow> fixture_inbox \<times> string list" where
  "inbox_stream loads [] s = (s, [])"
| "inbox_stream loads (b # bs) s =
     (case inbox_apply loads b s of
        Inl _ \<Rightarrow> inbox_stream loads bs s
      | Inr (s1, out) \<Rightarrow>
          let (s2, ids) = inbox_stream loads bs s1
          in (s2, if out = InApplied then delivery_id loads b # ids else ids))"

definition inbox_grows :: "fixture_inbox \<Rightarrow> fixture_inbox \<Rightarrow> bool" where
  "inbox_grows s s' \<longleftrightarrow> set (fi_processed s) \<subseteq> set (fi_processed s') \<and>
     (\<forall>r x. fi_states s r = Some x \<and> tx_terminal x \<longrightarrow> fi_states s' r = Some x) \<and>
     (\<forall>r n. fi_last_sequence s r = Some n \<longrightarrow> (\<exists>m. fi_last_sequence s' r = Some m \<and> n \<le> m))"

lemma inbox_grows_refl [simp]: "inbox_grows s s"
  by (auto simp: inbox_grows_def)

lemma inbox_grows_trans: "inbox_grows a b \<Longrightarrow> inbox_grows b c \<Longrightarrow> inbox_grows a c"
  unfolding inbox_grows_def by (metis order_trans subset_trans)

lemma inbox_grows_mark [simp]: "inbox_grows s (mark_processed i s)" "inbox_grows s (mark_dead i s)"
  by (auto simp: inbox_grows_def mark_processed_def mark_dead_def)

lemma effects_mark [simp]:
  "fi_business_effects (mark_processed i s) = fi_business_effects s"
  "fi_business_effects (mark_dead i s) = fi_business_effects s"
  by (simp_all add: mark_processed_def mark_dead_def)

definition effect_step :: "string \<Rightarrow> fixture_inbox \<Rightarrow> fixture_inbox \<times> inbox_outcome \<Rightarrow> bool" where
  "effect_step i s r \<longleftrightarrow> inbox_grows s (fst r) \<and>
     fi_business_effects (fst r) = fi_business_effects s + (if snd r = InApplied then 1 else 0) \<and>
     (snd r = InApplied \<longrightarrow> i \<notin> set (fi_processed s) \<and> i \<in> set (fi_processed (fst r)))"

lemma apply_state_step:
  assumes "i \<notin> set (fi_processed s)" "case sq of None \<Rightarrow> True | Some n \<Rightarrow> \<forall>m. fi_last_sequence s r = Some m \<longrightarrow> m \<le> n"
  shows "effect_step i s (apply_state i resource r sq s)"
proof -
  let ?next = "canonical_transaction_state (row_get resource ''status'')"
  show ?thesis
  proof (cases "?next = TxUnknown \<or> (case fi_states s r of None \<Rightarrow> False | Some cur \<Rightarrow> tx_terminal cur \<and> ?next \<noteq> cur)")
    case True
    then show ?thesis by (auto simp: apply_state_def effect_step_def Let_def)
  next
    case False
    with assms show ?thesis
      by (auto simp: apply_state_def effect_step_def Let_def inbox_grows_def mark_processed_def
          split: option.splits)
  qed
qed

lemma inbox_apply_step:
  assumes "inbox_apply loads b s = Inr r"
  shows "effect_step (delivery_id loads b) s r"
proof (cases "\<exists>j i ev resource rid sq. loads b = LoadsOk j \<and> read_delivery j = Some (i, ev, resource, rid, sq) \<and>
    i \<notin> set (fi_processed s) \<and> ev = JStr ''transaction.statusChanged''")
  case True
  then obtain j i ev resource rid sq where *: "loads b = LoadsOk j" "read_delivery j = Some (i, ev, resource, rid, sq)"
    "i \<notin> set (fi_processed s)" "ev = JStr ''transaction.statusChanged''" by blast
  then have id: "delivery_id loads b = i" by (simp add: delivery_id_def)
  show ?thesis
  proof (cases "sq = JNull")
    case True
    with assms * id apply_state_step [of i s rid None resource] show ?thesis by (simp add: inbox_apply_def)
  next
    case False
    with assms * obtain n where "r = apply_sequenced i resource rid n s" by (auto simp: inbox_apply_def res_simps)
    with *(3) id show ?thesis
      using apply_state_step [of i s rid "Some n" resource]
      by (auto simp: apply_sequenced_def effect_step_def split: option.splits)
  qed
next
  case False
  with assms show ?thesis
    by (auto simp: inbox_apply_def effect_step_def split: loads_result.splits option.splits if_splits)
qed

text \<open>
  C27. Over any stream of deliveries the inbox applies each delivery identifier at most once
  and never one it had seen, counts exactly the applied ones as business effects, keeps a
  settled, failed, cancelled or reversed transaction in its state for good, and never lowers
  the sequence number of a resource.
\<close>

theorem inbox_stream_effects_once:
  assumes "inbox_stream loads bodies s = (s', ids)"
  shows "distinct ids \<and> set ids \<inter> set (fi_processed s) = {} \<and>
    fi_business_effects s' = fi_business_effects s + length ids \<and>
    (\<forall>r x. fi_states s r = Some x \<and> tx_terminal x \<longrightarrow> fi_states s' r = Some x) \<and>
    (\<forall>r n. fi_last_sequence s r = Some n \<longrightarrow> (\<exists>m. fi_last_sequence s' r = Some m \<and> n \<le> m))"
proof -
  have "distinct ids \<and> set ids \<inter> set (fi_processed s) = {} \<and>
    fi_business_effects s' = fi_business_effects s + length ids \<and> inbox_grows s s'"
    using assms
  proof (induction bodies arbitrary: s ids)
    case (Cons b bs)
    show ?case
    proof (cases "inbox_apply loads b s")
      case (Inr r)
      obtain s1 out where r: "r = (s1, out)" by (cases r)
      obtain ids1 where rest: "inbox_stream loads bs s1 = (s', ids1)"
        and ids: "ids = (if out = InApplied then delivery_id loads b # ids1 else ids1)"
        using Cons.prems Inr r by (auto split: prod.splits)
      note step = inbox_apply_step [OF Inr, unfolded effect_step_def r fst_conv snd_conv]
      note ih = Cons.IH [OF rest]
      have "inbox_grows s s'" using step ih inbox_grows_trans by blast
      moreover have "set (fi_processed s) \<subseteq> set (fi_processed s1)" using step by (simp add: inbox_grows_def)
      ultimately show ?thesis using step ih ids by (cases "out = InApplied") auto
    qed (use Cons in simp)
  qed simp
  then show ?thesis by (simp add: inbox_grows_def)
qed

definition demo_loads :: "string \<Rightarrow> loads_result" where
  "demo_loads b =
     (case b of
        [i, r, c, n] \<Rightarrow>
          LoadsOk (JObj [(''id'', JStr [i]), (''event'', JStr ''transaction.statusChanged''),
            (''sequence'', JStr [n]),
            (''data'', JObj [(''id'', JStr [r]), (''status'', JStr (if c = CHR ''p'' then ''pending'' else ''completed''))])])
      | _ \<Rightarrow> LoadsSyntaxError)"

definition demo_bodies :: "string list" where
  "demo_bodies = [''arp1'', ''arp1'', ''brc2'', ''x'', ''crp3'', ''drp1'']"

theorem inbox_stream_effects_once_witness:
  "snd (inbox_stream demo_loads demo_bodies empty_inbox) = [''a'', ''b''] \<and>
   fi_business_effects (fst (inbox_stream demo_loads demo_bodies empty_inbox)) = 2"
proof -
  let ?r = "inbox_stream demo_loads demo_bodies empty_inbox"
  have ids: "snd ?r = [''a'', ''b'']" by code_simp
  have "?r = (fst ?r, snd ?r)" by simp
  from inbox_stream_effects_once [OF this] ids show ?thesis by (simp add: empty_inbox_def)
qed

end
