(* ===== verification/Ops_Models.thy ===== *)
theory Ops_Models
  imports Decimal_Text
begin

text \<open>
  The tables of \<open>operations/models.py\<close> that \<open>operations/services.py\<close> reads or writes, one
  record per model, and the database as the record of its tables. A foreign key is the key of
  its row, the primary key of a user an integer.
\<close>

section \<open>Users and requests\<close>

record ops_user =
  us_id :: int
  us_brand :: "string option"
  us_is_staff :: bool

record http_meta =
  hm_user_agent :: "string option"
  hm_remote_addr :: "string option"

section \<open>Security\<close>

datatype risk_level = RiskLow | RiskMedium | RiskHigh | RiskCritical

record security_event =
  se_event_id :: uuid
  se_tenant_id :: string
  se_account :: int
  se_event_type :: string
  se_occurred_at :: timestamp
  se_source :: string
  se_risk_level :: risk_level
  se_device_ref :: "uuid option"
  se_network_ref :: string
  se_session_ref :: "uuid option"
  se_correlation_id :: uuid
  se_metadata_safe :: json
  se_resolved :: bool

record device_identity =
  dv_device_id :: uuid
  dv_tenant_id :: string
  dv_account :: int
  dv_first_seen_at :: timestamp
  dv_last_seen_at :: timestamp
  dv_device_class :: string
  dv_trusted :: bool
  dv_revoked :: bool
  dv_risk_state :: string
  dv_fingerprint_hash :: string

record account_session =
  as_session_id :: uuid
  as_tenant_id :: string
  as_account :: int
  as_created_at :: timestamp
  as_last_seen_at :: timestamp
  as_expires_at :: timestamp
  as_revoked_at :: "timestamp option"
  as_device_ref :: "uuid option"
  as_auth_strength :: string
  as_mfa_verified_at :: "timestamp option"

datatype freeze_level = FreezeNone | FreezePartial | FreezeFull

record account_freeze =
  af_id :: uuid
  af_tenant_id :: string
  af_account :: int
  af_level :: freeze_level
  af_reason_code :: string
  af_actor :: int
  af_created_at :: timestamp
  af_released_at :: "timestamp option"
  af_review_evidence :: json

record trading_halt =
  th_halt_id :: uuid
  th_tenant_id :: string
  th_reason :: string
  th_activated_by :: int
  th_activated_at :: timestamp
  th_released_by :: "int option"
  th_released_at :: "timestamp option"

section \<open>Support, reporting, privacy\<close>

datatype support_status =
  SupOpen | SupPendingCustomer | SupPendingInternal | SupEscalated | SupResolved | SupClosed

record support_case =
  sc_case_id :: uuid
  sc_tenant_id :: string
  sc_account :: int
  sc_category :: string
  sc_priority :: string
  sc_status :: support_status
  sc_assigned_team :: string
  sc_assigned_to :: "int option"
  sc_created_at :: timestamp
  sc_updated_at :: timestamp
  sc_resolved_at :: "timestamp option"
  sc_safe_summary :: string

record history_entry =
  he_entry_id :: uuid
  he_tenant_id :: string
  he_account :: int
  he_type :: string
  he_asset :: string
  he_amount :: rat
  he_fee :: rat
  he_status :: string
  he_occurred_at :: timestamp
  he_settled_at :: "timestamp option"
  he_source_ref :: string
  he_simulation :: bool
  he_version :: nat

record report_job =
  rj_job_id :: uuid
  rj_tenant_id :: string
  rj_account :: int
  rj_report_type :: string
  rj_parameters_hash :: string
  rj_idempotency_key :: string
  rj_status :: string
  rj_created_at :: timestamp
  rj_completed_at :: "timestamp option"
  rj_expires_at :: "timestamp option"
  rj_artifact_ref :: string
  rj_reconciliation_passed :: bool

record statement =
  st_id :: uuid
  st_tenant_id :: string
  st_account :: int
  st_statement_id :: uuid
  st_version :: nat
  st_period_start :: timestamp
  st_period_end :: timestamp
  st_issued_at :: timestamp
  st_simulation :: bool
  st_reconciliation_passed :: bool
  st_supersedes :: "uuid option"
  st_correction_reason :: string

record legal_hold =
  lh_id :: uuid
  lh_tenant_id :: string
  lh_account :: int
  lh_active :: bool
  lh_reason :: string
  lh_created_by :: int
  lh_created_at :: timestamp
  lh_released_by :: "int option"
  lh_released_at :: "timestamp option"

record privacy_export_job =
  pj_job_id :: uuid
  pj_tenant_id :: string
  pj_account :: int
  pj_status :: string
  pj_created_at :: timestamp
  pj_completed_at :: "timestamp option"
  pj_expires_at :: "timestamp option"
  pj_artifact_ref :: string
  pj_policy_version :: string
  pj_idempotency_key :: string

section \<open>Notifications, operators, audit\<close>

record notification =
  nt_notification_id :: uuid
  nt_tenant_id :: string
  nt_account :: int
  nt_type :: string
  nt_category :: string
  nt_severity :: string
  nt_channel :: string
  nt_template_version :: string
  nt_payload_safe :: json
  nt_status :: string
  nt_created_at :: timestamp
  nt_sent_at :: "timestamp option"
  nt_delivered_at :: "timestamp option"
  nt_read_at :: "timestamp option"
  nt_dedup_key :: string
  nt_attempts :: nat
  nt_failure_reason_safe :: string

datatype request_status = ReqPending | ReqApproved | ReqExecuted | ReqOther string

record operator_action_request =
  or_request_id :: uuid
  or_tenant_id :: string
  or_action_type :: string
  or_target_ref :: string
  or_requested_by :: int
  or_requested_at :: timestamp
  or_reason :: string
  or_status :: request_status
  or_approved_by :: "int option"
  or_approved_at :: "timestamp option"
  or_executed_at :: "timestamp option"
  or_expires_at :: timestamp

record ops_audit_event =
  oa_audit_id :: uuid
  oa_tenant_id :: string
  oa_actor :: int
  oa_role :: string
  oa_action :: string
  oa_target :: string
  oa_reason :: string
  oa_request_id :: "uuid option"
  oa_timestamp :: timestamp
  oa_before_state_hash :: string
  oa_after_state_hash :: string
  oa_metadata_safe :: json

record ops_outbox_event =
  oe_event_id :: uuid
  oe_tenant_id :: string
  oe_topic :: string
  oe_payload_safe :: json
  oe_created_at :: timestamp
  oe_published_at :: "timestamp option"

record ops_processed_event =
  op_event_id :: uuid
  op_consumer :: string
  op_processed_at :: timestamp

record reconciliation_check =
  rc_check_id :: uuid
  rc_tenant_id :: string
  rc_domain :: string
  rc_status :: string
  rc_checked_at :: timestamp
  rc_details_safe :: json

section \<open>The database\<close>

text \<open>
  \<open>ops_next\<close> hands out the identifiers of new rows; \<open>ops_tasks\<close> lists the outbox events whose
  delivery task was queued on commit.
\<close>

record ops_db =
  ops_next :: uuid
  ops_users :: "ops_user list"
  ops_security :: "security_event list"
  ops_devices :: "device_identity list"
  ops_sessions :: "account_session list"
  ops_freezes :: "account_freeze list"
  ops_halts :: "trading_halt list"
  ops_support :: "support_case list"
  ops_history :: "history_entry list"
  ops_reports :: "report_job list"
  ops_statements :: "statement list"
  ops_holds :: "legal_hold list"
  ops_exports :: "privacy_export_job list"
  ops_notifications :: "notification list"
  ops_requests :: "operator_action_request list"
  ops_audits :: "ops_audit_event list"
  ops_outbox :: "ops_outbox_event list"
  ops_processed :: "ops_processed_event list"
  ops_checks :: "reconciliation_check list"
  ops_tasks :: "uuid list"

datatype ops_error =
    OpsPermissionError string
  | OpsValueError string
  | OpsRuntimeError string
  | OpsValidationError string
  | OpsDbError db_error

definition lift_ops :: "(db_error, 'a) res \<Rightarrow> (ops_error, 'a) res" where
  "lift_ops m = (case m of Inl e \<Rightarrow> Inl (OpsDbError e) | Inr x \<Rightarrow> Inr x)"

text \<open>\<open>ImmutableModel.save\<close> of a row whose key exists, and \<open>delete\<close>, raise.\<close>

definition immutable_save :: "('r \<Rightarrow> uuid) \<Rightarrow> 'r \<Rightarrow> 'r list \<Rightarrow> (ops_error, 'r list) res" where
  "immutable_save key r t =
     (if obj_exists (\<lambda>x. key x = key r) t
      then Inl (OpsValidationError ''Append-only records cannot be updated'') else Inr (t @ [r]))"

definition protected_delete :: "'r list \<Rightarrow> (ops_error, 'r list) res" where
  "protected_delete t = Inl (OpsValidationError ''Append-only records cannot be deleted'')"

end
