(* ===== verification/Ops_Services.thy ===== *)
theory Ops_Services
  imports Ops_Models
begin

text \<open>
  \<open>operations/services.py\<close>: tenants, sessions, account risk, notifications, the inbox, the
  maker/checker operator requests, statements and the operational reconciliation. SHA-256 is
  the parameter \<open>sha\<close>; instants are microseconds after the epoch.
\<close>

section \<open>Tenants and identities\<close>

definition tenant_for :: "ops_user \<Rightarrow> string" where
  "tenant_for u = lower (strip (case us_brand u of None \<Rightarrow> ''default'' | Some b \<Rightarrow> if b = [] then ''default'' else b))"

definition tenant_account_q :: "string \<Rightarrow> ops_user \<Rightarrow> bool" where
  "tenant_account_q tenant_id u =
     (let normalized = lower (strip tenant_id)
      in if normalized = ''default''
         then (case us_brand u of None \<Rightarrow> True | Some b \<Rightarrow> b = [] \<or> lower b = ''default'')
         else (case us_brand u of None \<Rightarrow> False | Some b \<Rightarrow> lower b = lower normalized))"

definition or_unknown :: "string option \<Rightarrow> string" where
  "or_unknown v = (case v of None \<Rightarrow> ''unknown'' | Some t \<Rightarrow> if t = [] then ''unknown'' else t)"

definition request_identity_refs ::
  "(string \<Rightarrow> string) \<Rightarrow> ops_user \<Rightarrow> http_meta \<Rightarrow> string \<times> string \<times> string" where
  "request_identity_refs sha u meta =
     (let tenant = tenant_for u;
          user_agent = take 255 (or_unknown (hm_user_agent meta));
          address = or_unknown (hm_remote_addr meta);
          scope = tenant @ '':'' @ str_int (us_id u) @ '':''
      in (user_agent, sha (scope @ user_agent), sha (scope @ address)))"

definition notification_group :: "(string \<Rightarrow> string) \<Rightarrow> string \<Rightarrow> int \<Rightarrow> string" where
  "notification_group sha tenant_id account_id =
     ''private_notifications_'' @ sha (tenant_id @ '':'' @ str_int account_id)"

section \<open>Creating rows\<close>

record security_event_data =
  sd_event_type :: string
  sd_source :: string
  sd_risk_level :: risk_level
  sd_device_ref :: "uuid option"
  sd_network_ref :: string
  sd_session_ref :: "uuid option"
  sd_metadata_safe :: json

text \<open>\<open>SecurityEvent.objects.create\<close>; the event and correlation identifiers are fresh.\<close>

definition create_security_event :: "timestamp \<Rightarrow> string \<Rightarrow> int \<Rightarrow> security_event_data \<Rightarrow> ops_db \<Rightarrow> ops_db" where
  "create_security_event now tenant_id account d db =
     db\<lparr>ops_next := Suc (Suc (ops_next db)),
        ops_security := ops_security db @ [\<lparr>se_event_id = ops_next db, se_tenant_id = tenant_id,
          se_account = account, se_event_type = sd_event_type d, se_occurred_at = now,
          se_source = sd_source d, se_risk_level = sd_risk_level d, se_device_ref = sd_device_ref d,
          se_network_ref = sd_network_ref d, se_session_ref = sd_session_ref d,
          se_correlation_id = Suc (ops_next db), se_metadata_safe = sd_metadata_safe d,
          se_resolved = False\<rparr>]\<rparr>"

record audit_data =
  ad_role :: string
  ad_action :: string
  ad_target :: string
  ad_reason :: string
  ad_request_id :: "uuid option"
  ad_before :: string
  ad_after :: string
  ad_metadata :: json

definition create_audit :: "timestamp \<Rightarrow> string \<Rightarrow> int \<Rightarrow> audit_data \<Rightarrow> ops_db \<Rightarrow> ops_db" where
  "create_audit now tenant_id actor d db =
     db\<lparr>ops_next := Suc (ops_next db),
        ops_audits := ops_audits db @ [\<lparr>oa_audit_id = ops_next db, oa_tenant_id = tenant_id,
          oa_actor = actor, oa_role = ad_role d, oa_action = ad_action d, oa_target = ad_target d,
          oa_reason = ad_reason d, oa_request_id = ad_request_id d, oa_timestamp = now,
          oa_before_state_hash = ad_before d, oa_after_state_hash = ad_after d,
          oa_metadata_safe = ad_metadata d\<rparr>]\<rparr>"

definition create_ops_outbox :: "timestamp \<Rightarrow> string \<Rightarrow> string \<Rightarrow> json \<Rightarrow> ops_db \<Rightarrow> ops_db \<times> uuid" where
  "create_ops_outbox now tenant_id topic payload db =
     (db\<lparr>ops_next := Suc (ops_next db),
         ops_outbox := ops_outbox db @ [\<lparr>oe_event_id = ops_next db, oe_tenant_id = tenant_id,
           oe_topic = topic, oe_payload_safe = payload, oe_created_at = now, oe_published_at = None\<rparr>]\<rparr>,
      ops_next db)"

section \<open>Notifications\<close>

record notification_data =
  nd_tenant_id :: string
  nd_account :: int
  nd_type :: string
  nd_category :: string
  nd_channel :: string
  nd_template_version :: string
  nd_payload_safe :: json
  nd_dedup_key :: string

definition notification_effect :: "string \<Rightarrow> int \<Rightarrow> string \<Rightarrow> string \<Rightarrow> notification \<Rightarrow> bool" where
  "notification_effect tenant_id account channel dedup_key n \<longleftrightarrow>
     nt_tenant_id n = tenant_id \<and> nt_account n = account \<and> nt_channel n = channel \<and> nt_dedup_key n = dedup_key"

definition create_notification ::
  "timestamp \<Rightarrow> notification_data \<Rightarrow> ops_db \<Rightarrow> ops_db \<times> notification \<times> bool" where
  "create_notification now d db =
     (case obj_first (notification_effect (nd_tenant_id d) (nd_account d) (nd_channel d) (nd_dedup_key d))
             (ops_notifications db) of
        Some n \<Rightarrow> (db, n, False)
      | None \<Rightarrow>
          let n = \<lparr>nt_notification_id = ops_next db, nt_tenant_id = nd_tenant_id d, nt_account = nd_account d,
                nt_type = nd_type d, nt_category = nd_category d, nt_severity = ''INFO'',
                nt_channel = nd_channel d, nt_template_version = nd_template_version d,
                nt_payload_safe = nd_payload_safe d, nt_status = ''QUEUED'', nt_created_at = now,
                nt_sent_at = None, nt_delivered_at = None, nt_read_at = None,
                nt_dedup_key = nd_dedup_key d, nt_attempts = 0, nt_failure_reason_safe = []\<rparr>;
              db1 = db\<lparr>ops_next := Suc (ops_next db), ops_notifications := ops_notifications db @ [n]\<rparr>;
              (db2, ev) = create_ops_outbox now (nd_tenant_id d) ''notification.created''
                (JObj [(''notification_id'', JStr (str_uuid (nt_notification_id n)))]) db1
          in (db2\<lparr>ops_tasks := ops_tasks db2 @ [ev]\<rparr>, n, True))"

text \<open>\<open>isoformat\<close> is \<open>datetime.isoformat\<close>.\<close>

definition realtime_notification_payload :: "(timestamp \<Rightarrow> string) \<Rightarrow> notification \<Rightarrow> row" where
  "realtime_notification_payload isoformat n =
     [(''notification_id'', JStr (str_uuid (nt_notification_id n))), (''type'', JStr (nt_type n)),
      (''category'', JStr (nt_category n)), (''severity'', JStr (nt_severity n)),
      (''channel'', JStr (nt_channel n)), (''status'', JStr (nt_status n)),
      (''created_at'', JStr (isoformat (nt_created_at n))), (''payload_safe'', nt_payload_safe n)]"

text \<open>\<open>save(update_fields=...)\<close> writes the named columns only.\<close>

definition update_notification :: "uuid \<Rightarrow> (notification \<Rightarrow> notification) \<Rightarrow> ops_db \<Rightarrow> ops_db" where
  "update_notification i f db =
     db\<lparr>ops_notifications := upd_where (\<lambda>x. nt_notification_id x = i) f (ops_notifications db)\<rparr>"

definition save_delivery :: "notification \<Rightarrow> ops_db \<Rightarrow> ops_db" where
  "save_delivery n = update_notification (nt_notification_id n)
     (\<lambda>x. x\<lparr>nt_attempts := nt_attempts n, nt_failure_reason_safe := nt_failure_reason_safe n,
            nt_status := nt_status n\<rparr>)"

definition record_delivery_failure ::
  "timestamp \<Rightarrow> notification \<Rightarrow> bool \<Rightarrow> string \<Rightarrow> nat \<Rightarrow> ops_db \<Rightarrow> ops_db \<times> notification" where
  "record_delivery_failure now n transient reason_safe max_attempts db =
     (let n1 = n\<lparr>nt_attempts := Suc (nt_attempts n), nt_failure_reason_safe := take 255 reason_safe\<rparr>
      in if transient \<and> nt_attempts n1 < max_attempts
         then let n2 = n1\<lparr>nt_status := ''QUEUED''\<rparr> in (save_delivery n2 db, n2)
         else let n2 = n1\<lparr>nt_status := ''FAILED''\<rparr>;
                  (db1, _) = create_ops_outbox now (nt_tenant_id n) ''notification.dead_letter''
                    (JObj [(''notification_id'', JStr (str_uuid (nt_notification_id n))),
                           (''reason'', JStr (nt_failure_reason_safe n2))]) db
              in (save_delivery n2 db1, n2))"

text \<open>The disabled adapter and the service around an adapter's \<open>cancel\<close>.\<close>

definition disabled_send :: "notification \<Rightarrow> (ops_error, unit) res" where
  "disabled_send n = Inl (OpsRuntimeError ''PROVIDER_DISABLED'')"

definition disabled_cancel :: "notification \<Rightarrow> bool" where
  "disabled_cancel n \<longleftrightarrow> nt_status n = ''QUEUED''"

definition cancel_notification ::
  "(notification \<Rightarrow> bool) \<Rightarrow> notification \<Rightarrow> ops_db \<Rightarrow> ops_db \<times> notification \<times> bool" where
  "cancel_notification adapter_cancel n db =
     (if adapter_cancel n
      then let n1 = n\<lparr>nt_status := ''FAILED'', nt_failure_reason_safe := ''cancelled''\<rparr>
           in (update_notification (nt_notification_id n)
                 (\<lambda>x. x\<lparr>nt_status := ''FAILED'', nt_failure_reason_safe := ''cancelled''\<rparr>) db, n1, True)
      else (db, n, False))"

definition mark_read :: "timestamp \<Rightarrow> notification \<Rightarrow> ops_db \<Rightarrow> ops_db \<times> notification" where
  "mark_read now n db =
     (let n1 = n\<lparr>nt_status := ''READ'', nt_read_at := Some now\<rparr> in (update_notification (nt_notification_id n)
            (\<lambda>x. x\<lparr>nt_status := ''READ'', nt_read_at := Some now\<rparr>) db, n1))"

section \<open>Inbox\<close>

text \<open>
  \<open>get_or_create(event_id, consumer)\<close> on a table whose primary key is \<open>event_id\<close> alone: a row
  of another consumer makes the insert fail, and the second lookup too.
\<close>

definition ops_consume_once ::
  "timestamp \<Rightarrow> uuid \<Rightarrow> string \<Rightarrow> (ops_db \<Rightarrow> (ops_error, ops_db) res) \<Rightarrow> ops_db \<Rightarrow> (ops_error, ops_db \<times> bool) res" where
  "ops_consume_once now event_id consumer effect db =
     (if obj_exists (\<lambda>p. op_event_id p = event_id \<and> op_consumer p = consumer) (ops_processed db)
      then Inr (db, False)
      else if obj_exists (\<lambda>p. op_event_id p = event_id) (ops_processed db)
      then Inl (OpsDbError (IntegrityError ''operations_processedevent''))
      else rbind (effect (db\<lparr>ops_processed := ops_processed db @
             [\<lparr>op_event_id = event_id, op_consumer = consumer, op_processed_at = now\<rparr>]\<rparr>))
             (\<lambda>db1. Inr (db1, True)))"

section \<open>Account risk\<close>

definition reason_codes :: "string list" where
  "reason_codes = [''NEW_DEVICE'', ''NEW_NETWORK'', ''TOO_MANY_FAILED_LOGINS'', ''RECENT_PASSWORD_RESET'',
     ''RECENT_MFA_RESET'', ''SESSION_RISK'', ''VELOCITY_EXCEEDED'', ''ACCOUNT_REVIEW_REQUIRED'',
     ''ACCOUNT_FROZEN'', ''HIGH_RISK_ACTION'']"

datatype risk_verdict = RiskAllow | RiskStepUp | RiskReview | RiskDeny

record risk_decision =
  rd_decision :: risk_verdict
  rd_reason_codes :: "string list"
  rd_policy_version :: string
  rd_evaluated_at :: timestamp

definition active_freeze :: "string \<Rightarrow> int \<Rightarrow> ops_db \<Rightarrow> account_freeze option" where
  "active_freeze tenant_id account db =
     obj_first (\<lambda>f. af_tenant_id f = tenant_id \<and> af_account f = account \<and> af_released_at f = None) (ops_freezes db)"

text \<open>\<open>tuple(sorted(set(xs)))\<close>\<close>

definition sorted_tuple :: "string list \<Rightarrow> string list" where
  "sorted_tuple xs = sort (remdups xs)"

definition any_of :: "string list \<Rightarrow> string list \<Rightarrow> bool" where
  "any_of codes reasons = list_ex (\<lambda>c. c \<in> set reasons) codes"

definition signal_verdict :: "string list \<Rightarrow> risk_verdict" where
  "signal_verdict reasons =
     (if any_of [''TOO_MANY_FAILED_LOGINS'', ''HIGH_RISK_ACTION''] reasons then RiskDeny
      else if any_of [''ACCOUNT_REVIEW_REQUIRED'', ''SESSION_RISK'', ''VELOCITY_EXCEEDED''] reasons then RiskReview
      else if any_of [''NEW_DEVICE'', ''NEW_NETWORK'', ''RECENT_PASSWORD_RESET'', ''RECENT_MFA_RESET''] reasons
      then RiskStepUp
      else RiskAllow)"

definition evaluate_account_risk ::
  "timestamp \<Rightarrow> string \<Rightarrow> int \<Rightarrow> string list \<Rightarrow> string \<Rightarrow> ops_db \<Rightarrow> risk_decision" where
  "evaluate_account_risk now tenant_id account signals policy_version db =
     (let reasons = sorted_tuple (filter (\<lambda>s. s \<in> set reason_codes) signals)
      in case active_freeze tenant_id account db of
           Some f \<Rightarrow>
             if af_level f \<in> {FreezePartial, FreezeFull}
             then \<lparr>rd_decision = RiskDeny, rd_reason_codes = sorted_tuple (''ACCOUNT_FROZEN'' # reasons),
                   rd_policy_version = policy_version, rd_evaluated_at = now\<rparr>
             else \<lparr>rd_decision = signal_verdict reasons, rd_reason_codes = reasons,
                   rd_policy_version = policy_version, rd_evaluated_at = now\<rparr>
         | None \<Rightarrow> \<lparr>rd_decision = signal_verdict reasons, rd_reason_codes = reasons,
                    rd_policy_version = policy_version, rd_evaluated_at = now\<rparr>)"

definition event_of :: "string \<Rightarrow> int \<Rightarrow> string list \<Rightarrow> security_event \<Rightarrow> bool" where
  "event_of tenant_id account types e \<longleftrightarrow>
     se_tenant_id e = tenant_id \<and> se_account e = account \<and> se_event_type e \<in> set types"

definition login_signals ::
  "(string \<Rightarrow> string) \<Rightarrow> timestamp \<Rightarrow> ops_user \<Rightarrow> http_meta option \<Rightarrow> ops_db \<Rightarrow> string list" where
  "login_signals sha now u request db =
     (let t = tenant_for u; a = us_id u;
          failed = obj_exists (\<lambda>e. event_of t a [''LOGIN_FAILURE''] e \<and> se_risk_level e \<in> {RiskHigh, RiskCritical} \<and>
                     now - seconds 600 \<le> se_occurred_at e) (ops_security db);
          recent = (\<lambda>ty. obj_exists (\<lambda>e. event_of t a [ty] e \<and> now - seconds 86400 \<le> se_occurred_at e) (ops_security db))
      in (if failed then [''TOO_MANY_FAILED_LOGINS''] else []) @
         (if recent ''PASSWORD_RESET'' then [''RECENT_PASSWORD_RESET''] else []) @
         (if recent ''MFA_RESET'' then [''RECENT_MFA_RESET''] else []) @
         (case request of
            None \<Rightarrow> []
          | Some meta \<Rightarrow>
              (case request_identity_refs sha u meta of
                 (_, device_hash, network_hash) \<Rightarrow>
                   (if obj_exists (\<lambda>d. dv_tenant_id d = t \<and> dv_account d = a) (ops_devices db) \<and>
                       \<not> obj_exists (\<lambda>d. dv_tenant_id d = t \<and> dv_account d = a \<and>
                            dv_fingerprint_hash d = device_hash \<and> \<not> dv_revoked d) (ops_devices db)
                    then [''NEW_DEVICE''] else []) @
                   (if obj_exists (event_of t a [''LOGIN_SUCCESS'', ''NEW_NETWORK'']) (ops_security db) \<and>
                       \<not> obj_exists (\<lambda>e. event_of t a [''LOGIN_SUCCESS'', ''NEW_NETWORK''] e \<and>
                            se_network_ref e = network_hash) (ops_security db)
                    then [''NEW_NETWORK''] else []))))"

definition verdict_name :: "risk_verdict \<Rightarrow> string" where
  "verdict_name v = (case v of RiskAllow \<Rightarrow> ''ALLOW'' | RiskStepUp \<Rightarrow> ''STEP_UP'' | RiskReview \<Rightarrow> ''REVIEW''
     | RiskDeny \<Rightarrow> ''DENY'')"

definition evaluate_login_risk ::
  "(string \<Rightarrow> string) \<Rightarrow> timestamp \<Rightarrow> ops_user \<Rightarrow> http_meta option \<Rightarrow> ops_db \<Rightarrow> ops_db \<times> risk_decision" where
  "evaluate_login_risk sha now u request db =
     (let d = evaluate_account_risk now (tenant_for u) (us_id u) (login_signals sha now u request db)
                ''2026-08-11.1'' db
      in (create_audit now (tenant_for u) (us_id u)
            \<lparr>ad_role = ''account'', ad_action = ''ACCOUNT_RISK_EVALUATED'',
             ad_target = ''account:'' @ str_int (us_id u), ad_reason = [], ad_request_id = None,
             ad_before = [], ad_after = [],
             ad_metadata = JObj [(''decision'', JStr (verdict_name (rd_decision d))),
               (''reason_codes'', JArr (map JStr (rd_reason_codes d))),
               (''policy_version'', JStr (rd_policy_version d))]\<rparr> db, d))"

definition assert_sensitive_mutation_allowed ::
  "string \<Rightarrow> int \<Rightarrow> string \<Rightarrow> ops_db \<Rightarrow> (ops_error, unit) res" where
  "assert_sensitive_mutation_allowed tenant_id account action db =
     (if action = ''trading'' \<and>
         obj_exists (\<lambda>h. th_tenant_id h = tenant_id \<and> th_released_at h = None) (ops_halts db)
      then Inl (OpsPermissionError ''TRADING_HALTED'')
      else case active_freeze tenant_id account db of
             None \<Rightarrow> Inr ()
           | Some f \<Rightarrow>
               if af_level f = FreezeNone then Inr ()
               else if af_level f = FreezeFull \<or>
                       action \<in> set [''withdrawal'', ''transfer'', ''trading'', ''credentials'']
               then Inl (OpsPermissionError ''ACCOUNT_FROZEN'')
               else Inr ())"

definition record_login_failure :: "timestamp \<Rightarrow> ops_user \<Rightarrow> ops_db \<Rightarrow> ops_db" where
  "record_login_failure now u db =
     (let recent = obj_count (\<lambda>e. event_of (tenant_for u) (us_id u) [''LOGIN_FAILURE''] e \<and>
                     now - seconds 600 \<le> se_occurred_at e) (ops_security db);
          risk = (if 4 \<le> recent then RiskHigh else RiskMedium)
      in create_security_event now (tenant_for u) (us_id u)
           \<lparr>sd_event_type = ''LOGIN_FAILURE'', sd_source = ''AUTH'', sd_risk_level = risk,
            sd_device_ref = None, sd_network_ref = [], sd_session_ref = None,
            sd_metadata_safe = JObj [(''reason_code'',
              JStr (if risk = RiskHigh then ''TOO_MANY_FAILED_LOGINS'' else ''INVALID_CREDENTIALS''))]\<rparr> db)"

section \<open>Sessions\<close>

text \<open>
  The signed tokens come from a third-party package; the model returns the claims the code
  puts into them. \<open>lifetime\<close> is the configured refresh-token lifetime in microseconds.
\<close>

record session_claims =
  cl_session_id :: string
  cl_auth_strength :: string
  cl_mfa_verified_at :: "int option"

definition auth_event ::
  "string \<Rightarrow> risk_level \<Rightarrow> uuid option \<Rightarrow> string \<Rightarrow> uuid option \<Rightarrow> json \<Rightarrow> security_event_data" where
  "auth_event ty risk device network session meta =
     \<lparr>sd_event_type = ty, sd_source = ''AUTH'', sd_risk_level = risk, sd_device_ref = device,
      sd_network_ref = network, sd_session_ref = session, sd_metadata_safe = meta\<rparr>"

definition security_notice :: "string \<Rightarrow> int \<Rightarrow> string \<Rightarrow> string \<Rightarrow> notification_data" where
  "security_notice tenant_id account ty dedup_key =
     \<lparr>nd_tenant_id = tenant_id, nd_account = account, nd_type = ty, nd_category = ''SECURITY'',
      nd_channel = ''IN_APP'', nd_template_version = ''1'',
      nd_payload_safe = JObj [(''action'', JStr ''review_sessions'')], nd_dedup_key = dedup_key\<rparr>"

fun is_infix_of :: "string \<Rightarrow> string \<Rightarrow> bool" where
  "is_infix_of p [] = (p = [])"
| "is_infix_of p (c # s) = (startswith (c # s) p \<or> is_infix_of p s)"

definition get_or_create_device ::
  "timestamp \<Rightarrow> string \<Rightarrow> int \<Rightarrow> string \<Rightarrow> string \<Rightarrow> ops_db \<Rightarrow> ops_db \<times> device_identity \<times> bool" where
  "get_or_create_device now tenant_id account fingerprint_hash user_agent db =
     (case obj_first (\<lambda>d. dv_tenant_id d = tenant_id \<and> dv_account d = account \<and>
              dv_fingerprint_hash d = fingerprint_hash) (ops_devices db) of
        Some d \<Rightarrow> (db, d, False)
      | None \<Rightarrow>
          let d = \<lparr>dv_device_id = ops_next db, dv_tenant_id = tenant_id, dv_account = account,
                dv_first_seen_at = now, dv_last_seen_at = now,
                dv_device_class = (if is_infix_of ''mobile'' (lower user_agent) then ''MOBILE'' else ''BROWSER''),
                dv_trusted = False, dv_revoked = False, dv_risk_state = ''NEW'',
                dv_fingerprint_hash = fingerprint_hash\<rparr>
          in (db\<lparr>ops_next := Suc (ops_next db), ops_devices := ops_devices db @ [d]\<rparr>, d, True))"

definition create_session ::
  "timestamp \<Rightarrow> string \<Rightarrow> int \<Rightarrow> timestamp \<Rightarrow> uuid \<Rightarrow> bool \<Rightarrow> ops_db \<Rightarrow> ops_db \<times> account_session" where
  "create_session now tenant_id account expires_at device mfa db =
     (let s = \<lparr>as_session_id = ops_next db, as_tenant_id = tenant_id, as_account = account,
            as_created_at = now, as_last_seen_at = now, as_expires_at = expires_at, as_revoked_at = None,
            as_device_ref = Some device, as_auth_strength = (if mfa then ''MFA'' else ''PASSWORD''),
            as_mfa_verified_at = (if mfa then Some now else None)\<rparr>
      in (db\<lparr>ops_next := Suc (ops_next db), ops_sessions := ops_sessions db @ [s]\<rparr>, s))"

definition issue_session_token_pair ::
  "(string \<Rightarrow> string) \<Rightarrow> int \<Rightarrow> timestamp \<Rightarrow> ops_user \<Rightarrow> http_meta \<Rightarrow> bool \<Rightarrow> ops_db \<Rightarrow>
   ops_db \<times> account_session \<times> session_claims" where
  "issue_session_token_pair sha lifetime now u request mfa db =
     (let t = tenant_for u; a = us_id u;
          (user_agent, fingerprint_hash, network_hash) = request_identity_refs sha u request;
          logins = event_of t a [''LOGIN_SUCCESS'', ''NEW_NETWORK''];
          known_network = obj_exists (\<lambda>e. logins e \<and> se_network_ref e = network_hash) (ops_security db);
          had_network = obj_exists logins (ops_security db);
          (db1, device, new_device) = get_or_create_device now t a fingerprint_hash user_agent db;
          session_lifetime = (if us_is_staff u then min lifetime (seconds 1800) else lifetime);
          (db2, session) = create_session now t a (now + session_lifetime) (dv_device_id device) mfa db1;
          claims = \<lparr>cl_session_id = str_uuid (as_session_id session),
                    cl_auth_strength = as_auth_strength session,
                    cl_mfa_verified_at = (if mfa then Some (now div 1000000) else None)\<rparr>;
          did = Some (dv_device_id device); sid = Some (as_session_id session);
          db3 = create_security_event now t a (auth_event ''LOGIN_SUCCESS'' RiskLow did network_hash sid
                  (JObj [(''auth_strength'', JStr (as_auth_strength session))])) db2;
          db4 = create_security_event now t a (auth_event ''SESSION_CREATED'' RiskLow did network_hash sid (JObj [])) db3;
          db5 = (if new_device
                 then fst (create_notification now
                        (security_notice t a ''NEW_DEVICE'' (''new-device:'' @ str_uuid (dv_device_id device)))
                        (create_security_event now t a (auth_event ''NEW_DEVICE'' RiskMedium did [] sid (JObj [])) db4))
                 else db4);
          db6 = (if had_network \<and> \<not> known_network
                 then create_security_event now t a (auth_event ''NEW_NETWORK'' RiskMedium did network_hash sid (JObj [])) db5
                 else db5)
      in (db6, session, claims))"

definition live_session :: "string \<Rightarrow> int \<Rightarrow> account_session \<Rightarrow> bool" where
  "live_session tenant_id account s \<longleftrightarrow>
     as_tenant_id s = tenant_id \<and> as_account s = account \<and> as_revoked_at s = None"

definition credential_notice_type :: "string \<Rightarrow> string" where
  "credential_notice_type event_type =
     (if event_type \<in> set [''MFA_ENABLED'', ''MFA_DISABLED'', ''MFA_RESET''] then ''MFA_CHANGED''
      else if event_type = ''EMAIL_CHANGED'' then ''EMAIL_CHANGED'' else ''PASSWORD_CHANGED'')"

definition revoke_sessions_after_credential_change ::
  "timestamp \<Rightarrow> ops_user \<Rightarrow> string \<Rightarrow> ops_db \<Rightarrow> ops_db \<times> nat" where
  "revoke_sessions_after_credential_change now u event_type db =
     (let t = tenant_for u; a = us_id u;
          revoked = obj_count (live_session t a) (ops_sessions db);
          db1 = db\<lparr>ops_sessions := upd_where (live_session t a) (\<lambda>s. s\<lparr>as_revoked_at := Some now\<rparr>) (ops_sessions db)\<rparr>;
          db2 = create_security_event now t a (auth_event event_type RiskMedium None [] None
                  (JObj [(''sessions_revoked'', JInt (int revoked))])) db1;
          db3 = fst (create_notification now (security_notice t a (credential_notice_type event_type)
                  (''credential-change:'' @ event_type @ '':'' @ str_int (now div 1000000))) db2)
      in (db3, revoked))"

definition revoke_bound_session :: "timestamp \<Rightarrow> ops_user \<Rightarrow> uuid \<Rightarrow> ops_db \<Rightarrow> ops_db \<times> bool" where
  "revoke_bound_session now u session_id db =
     (let t = tenant_for u; a = us_id u; p = (\<lambda>s. as_session_id s = session_id \<and> live_session t a s)
      in if obj_count p (ops_sessions db) = 0 then (db, False)
         else
           let db1 = db\<lparr>ops_sessions := upd_where p (\<lambda>s. s\<lparr>as_revoked_at := Some now\<rparr>) (ops_sessions db)\<rparr>;
               db2 = create_security_event now t a (auth_event ''SESSION_REVOKED'' RiskLow None [] (Some session_id) (JObj [])) db1;
               db3 = fst (create_notification now (security_notice t a ''SESSION_REVOKED''
                       (''session-revoked:'' @ str_uuid session_id)) db2)
           in (db3, True))"

end

