(* ===== verification/Ops_Operators.thy ===== *)
theory Ops_Operators
  imports Ops_Services
begin

text \<open>
  The maker/checker operator requests of \<open>operations/services.py\<close>, CSV rendering, statements,
  the deletion disposition and the operational reconciliation. \<open>uuid_of\<close> is the conversion of
  a text to a UUID that the ORM applies to a key.
\<close>

section \<open>Operator requests\<close>

definition action_role_policy :: "string \<Rightarrow> string list" where
  "action_role_policy action =
     (case map_of
        [(''UNFREEZE'', [''security_manager'', ''platform_admin'']),
         (''COMPLIANCE_OVERRIDE'', [''compliance_manager'', ''platform_admin'']),
         (''FINANCIAL_OVERRIDE'', [''financial_manager'', ''platform_admin'']),
         (''WITHDRAWAL_OVERRIDE'', [''financial_manager'', ''platform_admin'']),
         (''PROVIDER_ACTIVATION'', [''operations_manager'', ''platform_admin'']),
         (''REAL_MONEY_ACTIVATION'', [''platform_admin'']),
         (''KILL_SWITCH_RELEASE'', [''operations_manager'', ''platform_admin'']),
         (''LEGAL_HOLD_RELEASE'', [''compliance_manager'', ''platform_admin''])] action of
        None \<Rightarrow> [] | Some rs \<Rightarrow> rs)"

definition stable_hash :: "(string \<Rightarrow> string) \<Rightarrow> json \<Rightarrow> string" where
  "stable_hash sha j = sha (dumps j)"

definition get_request :: "uuid \<Rightarrow> string \<Rightarrow> ops_db \<Rightarrow> (ops_error, operator_action_request) res" where
  "get_request request_id tenant_id db =
     lift_ops (obj_get (\<lambda>r. or_request_id r = request_id \<and> or_tenant_id r = tenant_id) (ops_requests db))"

definition approve_operator_request ::
  "timestamp \<Rightarrow> uuid \<Rightarrow> string \<Rightarrow> int \<Rightarrow> string list \<Rightarrow> ops_db \<Rightarrow>
   (ops_error, ops_db \<times> operator_action_request) res" where
  "approve_operator_request now request_id tenant_id approver approver_roles db =
     rbind (get_request request_id tenant_id db) (\<lambda>r.
       if or_requested_by r = approver then Inl (OpsPermissionError ''SELF_APPROVAL_FORBIDDEN'')
       else if or_status r \<noteq> ReqPending \<or> or_expires_at r \<le> now
       then Inl (OpsPermissionError ''REQUEST_NOT_APPROVABLE'')
       else if \<not> any_of (action_role_policy (or_action_type r)) approver_roles
       then Inl (OpsPermissionError ''INSUFFICIENT_ROLE'')
       else
         let pending = (\<lambda>x. or_request_id x = or_request_id r \<and> or_status x = ReqPending);
             mark = (\<lambda>x. x\<lparr>or_status := ReqApproved, or_approved_by := Some approver, or_approved_at := Some now\<rparr>)
         in if obj_count pending (ops_requests db) \<noteq> 1 then Inl (OpsPermissionError ''APPROVAL_RACE_LOST'')
            else Inr (create_audit now (or_tenant_id r) approver
                        \<lparr>ad_role = hd (sort approver_roles), ad_action = ''OPERATOR_ACTION_APPROVED'',
                         ad_target = or_target_ref r, ad_reason = or_reason r,
                         ad_request_id = Some (or_request_id r), ad_before = [], ad_after = [],
                         ad_metadata = JObj []\<rparr>
                        (db\<lparr>ops_requests := upd_where pending mark (ops_requests db)\<rparr>), mark r))"

text \<open>\<open>text.partition(":")\<close>\<close>

definition partition_colon :: "string \<Rightarrow> string \<times> bool \<times> string" where
  "partition_colon s =
     (takeWhile (\<lambda>c. c \<noteq> CHR '':'') s, CHR '':'' \<in> set s, tl (dropWhile (\<lambda>c. c \<noteq> CHR '':'') s))"

text \<open>
  The common end of the three executions: the request becomes \<open>EXECUTED\<close> if it is still
  \<open>APPROVED\<close>, and the action is audited.
\<close>

definition finish_execution ::
  "timestamp \<Rightarrow> int \<Rightarrow> operator_action_request \<Rightarrow> string \<Rightarrow> string \<Rightarrow> string \<Rightarrow> string \<Rightarrow> ops_db \<Rightarrow>
   (ops_error, ops_db \<times> operator_action_request) res" where
  "finish_execution now executor r role action before_hash after_hash db =
     (let approved = (\<lambda>x. or_request_id x = or_request_id r \<and> or_tenant_id x = or_tenant_id r \<and> or_status x = ReqApproved);
          mark = (\<lambda>x. x\<lparr>or_status := ReqExecuted, or_executed_at := Some now\<rparr>)
      in if obj_count approved (ops_requests db) \<noteq> 1 then Inl (OpsPermissionError ''EXECUTION_RACE_LOST'')
         else Inr (create_audit now (or_tenant_id r) executor
                     \<lparr>ad_role = role, ad_action = action, ad_target = or_target_ref r,
                      ad_reason = or_reason r, ad_request_id = Some (or_request_id r),
                      ad_before = before_hash, ad_after = after_hash, ad_metadata = JObj []\<rparr>
                     (db\<lparr>ops_requests := upd_where approved mark (ops_requests db)\<rparr>), mark r))"

definition active_state :: "bool \<Rightarrow> string \<Rightarrow> json" where
  "active_state active reason = JObj [(''active'', JBool active), (''reason'', JStr reason)]"

text \<open>A malformed UUID raises the ORM's \<open>ValidationError\<close>, which the handler does not catch.\<close>

definition release_trading_halt ::
  "(string \<Rightarrow> string) \<Rightarrow> (string \<Rightarrow> uuid option) \<Rightarrow> timestamp \<Rightarrow> int \<Rightarrow> operator_action_request \<Rightarrow> ops_db \<Rightarrow>
   (ops_error, ops_db \<times> operator_action_request) res" where
  "release_trading_halt sha uuid_of now executor r db =
     (let (prefix, separator, raw) = partition_colon (or_target_ref r)
      in if prefix \<noteq> ''trading_halt'' \<or> \<not> separator then Inl (OpsPermissionError ''INVALID_TARGET'')
         else case uuid_of raw of
           None \<Rightarrow> Inl (OpsValidationError ''is not a valid UUID'')
         | Some i \<Rightarrow>
           (case obj_first (\<lambda>h. th_halt_id h = i \<and> th_tenant_id h = or_tenant_id r \<and> th_released_at h = None)
                   (ops_halts db) of
              None \<Rightarrow> Inl (OpsPermissionError ''INVALID_TARGET'')
            | Some h \<Rightarrow>
                finish_execution now executor r ''operations_manager'' ''TRADING_HALT_RELEASED''
                  (stable_hash sha (active_state True (th_reason h))) (stable_hash sha (active_state False (th_reason h)))
                  (db\<lparr>ops_halts := upd_where (\<lambda>x. th_halt_id x = i)
                        (\<lambda>x. x\<lparr>th_released_at := Some now, th_released_by := Some executor\<rparr>) (ops_halts db)\<rparr>)))"

definition release_legal_hold ::
  "(string \<Rightarrow> string) \<Rightarrow> timestamp \<Rightarrow> int \<Rightarrow> operator_action_request \<Rightarrow> ops_db \<Rightarrow>
   (ops_error, ops_db \<times> operator_action_request) res" where
  "release_legal_hold sha now executor r db =
     (let (prefix, separator, raw) = partition_colon (or_target_ref r)
      in if prefix \<noteq> ''legal_hold'' \<or> \<not> separator then Inl (OpsPermissionError ''INVALID_TARGET'')
         else case parse_int raw of
           None \<Rightarrow> Inl (OpsPermissionError ''INVALID_TARGET'')
         | Some i \<Rightarrow>
           (case obj_first (\<lambda>h. int (lh_id h) = i \<and> lh_tenant_id h = or_tenant_id r \<and> lh_active h \<and>
                     lh_released_at h = None) (ops_holds db) of
              None \<Rightarrow> Inl (OpsPermissionError ''INVALID_TARGET'')
            | Some h \<Rightarrow>
                finish_execution now executor r ''compliance_manager'' ''LEGAL_HOLD_RELEASED''
                  (stable_hash sha (active_state True (lh_reason h))) (stable_hash sha (active_state False (lh_reason h)))
                  (db\<lparr>ops_holds := upd_where (\<lambda>x. lh_id x = lh_id h)
                        (\<lambda>x. x\<lparr>lh_active := False, lh_released_at := Some now, lh_released_by := Some executor\<rparr>)
                        (ops_holds db)\<rparr>)))"

definition level_name :: "freeze_level \<Rightarrow> string" where
  "level_name l = (case l of FreezeNone \<Rightarrow> ''NONE'' | FreezePartial \<Rightarrow> ''PARTIAL'' | FreezeFull \<Rightarrow> ''FULL'')"

definition freeze_state :: "account_freeze \<Rightarrow> bool \<Rightarrow> json" where
  "freeze_state f released =
     JObj [(''level'', JStr (level_name (af_level f))), (''reason_code'', JStr (af_reason_code f)),
           (''released'', JBool released)]"

definition release_account_freeze ::
  "(string \<Rightarrow> string) \<Rightarrow> timestamp \<Rightarrow> int \<Rightarrow> operator_action_request \<Rightarrow> ops_db \<Rightarrow>
   (ops_error, ops_db \<times> operator_action_request) res" where
  "release_account_freeze sha now executor r db =
     (let (prefix, separator, raw) = partition_colon (or_target_ref r)
      in if prefix \<noteq> ''account'' \<or> \<not> separator \<or> raw = [] \<or> \<not> all_digits raw
         then Inl (OpsPermissionError ''INVALID_TARGET'')
         else case obj_first (\<lambda>u. tenant_account_q (or_tenant_id r) u \<and> us_id u = int (nat_of_digits raw)) (ops_users db) of
           None \<Rightarrow> Inl (OpsPermissionError ''INVALID_TARGET'')
         | Some u \<Rightarrow>
           (case active_freeze (or_tenant_id r) (us_id u) db of
              None \<Rightarrow> Inl (OpsPermissionError ''NO_ACTIVE_FREEZE'')
            | Some f \<Rightarrow>
                finish_execution now executor r ''security_manager'' ''ACCOUNT_UNFROZEN''
                  (stable_hash sha (freeze_state f False)) (stable_hash sha (freeze_state f True))
                  (db\<lparr>ops_freezes := upd_where (\<lambda>x. af_id x = af_id f)
                        (\<lambda>x. x\<lparr>af_released_at := Some now,
                               af_review_evidence := JObj [(''operator_action_request'', JStr (str_uuid (or_request_id r))),
                                 (''approved_by'', case or_approved_by r of None \<Rightarrow> JNull | Some a \<Rightarrow> JInt a)]\<rparr>)
                        (ops_freezes db)\<rparr>)))"

definition executable_actions :: "string list" where
  "executable_actions = [''UNFREEZE'', ''KILL_SWITCH_RELEASE'', ''LEGAL_HOLD_RELEASE'']"

definition execute_operator_request ::
  "(string \<Rightarrow> string) \<Rightarrow> (string \<Rightarrow> uuid option) \<Rightarrow> timestamp \<Rightarrow> uuid \<Rightarrow> string \<Rightarrow> int \<Rightarrow> string list \<Rightarrow> ops_db \<Rightarrow>
   (ops_error, ops_db \<times> operator_action_request) res" where
  "execute_operator_request sha uuid_of now request_id tenant_id executor executor_roles db =
     rbind (get_request request_id tenant_id db) (\<lambda>r.
       if or_status r \<noteq> ReqApproved \<or> (case or_approved_by r of None \<Rightarrow> True | Some i \<Rightarrow> i = 0)
       then Inl (OpsPermissionError ''REQUEST_NOT_EXECUTABLE'')
       else if or_requested_by r = executor then Inl (OpsPermissionError ''MAKER_CANNOT_EXECUTE'')
       else if or_action_type r \<notin> set executable_actions
       then Inl (OpsPermissionError ''EXTERNAL_AUTHORITY_REQUIRED'')
       else if \<not> any_of (action_role_policy (or_action_type r)) executor_roles
       then Inl (OpsPermissionError ''INSUFFICIENT_ROLE'')
       else if or_action_type r = ''KILL_SWITCH_RELEASE'' then release_trading_halt sha uuid_of now executor r db
       else if or_action_type r = ''LEGAL_HOLD_RELEASE'' then release_legal_hold sha now executor r db
       else release_account_freeze sha now executor r db)"

section \<open>CSV\<close>

definition csv_safe :: "json \<Rightarrow> string" where
  "csv_safe v =
     (let text = py_text v
      in case text of [] \<Rightarrow> text | c # _ \<Rightarrow> if c \<in> set ''=+-@'' then CHR 0x27 # text else text)"

text \<open>\<open>csv.DictWriter\<close> with the default dialect: minimal quoting, doubled quotes, CRLF.\<close>

definition csv_special :: "char \<Rightarrow> bool" where
  "csv_special c \<longleftrightarrow> c \<in> {CHR 0x22, CHR '','', CHR 0x0A, CHR 0x0D}"

definition csv_field :: "bool \<Rightarrow> string \<Rightarrow> string" where
  "csv_field alone s =
     (if list_ex csv_special s \<or> (alone \<and> s = [])
      then CHR 0x22 # concat (map (\<lambda>c. if c = CHR 0x22 then [c, c] else [c]) s) @ [CHR 0x22]
      else s)"

definition csv_line :: "string list \<Rightarrow> string" where
  "csv_line cells = join '','' (map (csv_field (length cells = 1)) cells) @ [CHR 0x0D, CHR 0x0A]"

definition csv_cell :: "row \<Rightarrow> string \<Rightarrow> string" where
  "csv_cell r k = csv_safe (case map_of r k of None \<Rightarrow> JStr [] | Some v \<Rightarrow> v)"

definition render_csv :: "row list \<Rightarrow> string list \<Rightarrow> string" where
  "render_csv rows names = csv_line names @ concat (map (\<lambda>r. csv_line (map (csv_cell r) names)) rows)"

section \<open>Operational reconciliation, statements, deletion\<close>

definition operational_checks :: "string \<Rightarrow> ops_db \<Rightarrow> (string \<times> bool) list" where
  "operational_checks tenant_id db =
     [(''SECURITY'', \<not> obj_exists (\<lambda>f. af_tenant_id f = tenant_id \<and> af_level f = FreezeNone \<and>
                          af_released_at f = None) (ops_freezes db)),
      (''NOTIFICATIONS'', \<not> obj_exists (\<lambda>n. nt_tenant_id n = tenant_id \<and> nt_status n = ''DELIVERED'' \<and>
                          nt_delivered_at n = None) (ops_notifications db)),
      (''SUPPORT'', \<not> obj_exists (\<lambda>c. sc_tenant_id c = tenant_id \<and> sc_status c \<in> {SupResolved, SupClosed} \<and>
                          sc_resolved_at c = None) (ops_support db)),
      (''REPORTING'', \<not> (obj_exists (\<lambda>s. st_tenant_id s = tenant_id \<and> \<not> st_reconciliation_passed s) (ops_statements db) \<or>
                          obj_exists (\<lambda>j. rj_tenant_id j = tenant_id \<and> rj_status j = ''COMPLETED'' \<and>
                            rj_artifact_ref j = []) (ops_reports db))),
      (''PRIVACY'', \<not> obj_exists (\<lambda>j. pj_tenant_id j = tenant_id \<and> pj_status j = ''COMPLETED'' \<and>
                          pj_artifact_ref j = []) (ops_exports db)),
      (''OPERATOR'', \<not> obj_exists (\<lambda>r. or_tenant_id r = tenant_id \<and> or_status r = ReqExecuted \<and>
                          or_executed_at r = None) (ops_requests db))]"

fun create_checks ::
  "timestamp \<Rightarrow> string \<Rightarrow> (string \<times> bool) list \<Rightarrow> ops_db \<Rightarrow> ops_db \<times> reconciliation_check list" where
  "create_checks now tenant_id [] db = (db, [])"
| "create_checks now tenant_id ((domain, passed) # cs) db =
     (let c = \<lparr>rc_check_id = ops_next db, rc_tenant_id = tenant_id, rc_domain = domain,
            rc_status = (if passed then ''PASS'' else ''FAIL''), rc_checked_at = now,
            rc_details_safe = JObj [(''consistent'', JBool passed)]\<rparr>;
          (db1, rest) = create_checks now tenant_id cs
            (db\<lparr>ops_next := Suc (ops_next db), ops_checks := ops_checks db @ [c]\<rparr>)
      in (db1, c # rest))"

definition reconcile_operational_domains ::
  "timestamp \<Rightarrow> string \<Rightarrow> ops_db \<Rightarrow> ops_db \<times> reconciliation_check list" where
  "reconcile_operational_domains now tenant_id db = create_checks now tenant_id (operational_checks tenant_id db) db"

definition insert_statement :: "statement \<Rightarrow> ops_db \<Rightarrow> (ops_error, ops_db) res" where
  "insert_statement s db =
     (if obj_exists (\<lambda>x. st_statement_id x = st_statement_id s \<and> st_version x = st_version s) (ops_statements db)
      then Inl (OpsDbError (IntegrityError ''unique_statement_version''))
      else Inr (db\<lparr>ops_next := Suc (ops_next db), ops_statements := ops_statements db @ [s]\<rparr>))"

definition supersede ::
  "string \<Rightarrow> int \<Rightarrow> statement option \<Rightarrow> string \<Rightarrow> uuid \<Rightarrow> (ops_error, uuid \<times> nat) res" where
  "supersede tenant_id account supersedes reason fresh_id =
     (case supersedes of
        None \<Rightarrow> Inr (fresh_id, 1)
      | Some s \<Rightarrow>
          if st_tenant_id s \<noteq> tenant_id \<or> st_account s \<noteq> account
          then Inl (OpsPermissionError ''INVALID_SUPERSEDED_STATEMENT'')
          else if strip reason = [] then Inl (OpsValueError ''CORRECTION_REASON_REQUIRED'')
          else Inr (st_statement_id s, Suc (st_version s)))"

definition issue_simulation_statement ::
  "timestamp \<Rightarrow> string \<Rightarrow> int \<Rightarrow> timestamp \<Rightarrow> timestamp \<Rightarrow> ops_user \<Rightarrow> statement option \<Rightarrow> string \<Rightarrow> ops_db \<Rightarrow>
   (ops_error, ops_db \<times> statement) res" where
  "issue_simulation_statement now tenant_id account period_start period_end actor supersedes reason db =
     (if period_end \<le> period_start then Inl (OpsValueError ''INVALID_STATEMENT_PERIOD'')
      else if obj_exists (\<lambda>h. he_tenant_id h = tenant_id \<and> he_account h = account \<and>
                period_start \<le> he_occurred_at h \<and> he_occurred_at h \<le> period_end \<and> \<not> he_simulation h) (ops_history db)
      then Inl (OpsPermissionError ''FINANCIAL_SERVICE_AUTHORITY_REQUIRED'')
      else
        let (db1, checks) = reconcile_operational_domains now tenant_id db
        in if \<not> list_all (\<lambda>c. rc_status c = ''PASS'') checks then Inl (OpsPermissionError ''RECONCILIATION_REQUIRED'')
           else rbind (supersede tenant_id account supersedes reason (ops_next db1)) (\<lambda>(statement_id, version).
             let s = \<lparr>st_id = Suc (ops_next db1), st_tenant_id = tenant_id, st_account = account,
                   st_statement_id = statement_id, st_version = version, st_period_start = period_start,
                   st_period_end = period_end, st_issued_at = now, st_simulation = True,
                   st_reconciliation_passed = True, st_supersedes = map_option st_id supersedes,
                   st_correction_reason = take 500 reason\<rparr>
             in rbind (insert_statement s (db1\<lparr>ops_next := Suc (ops_next db1)\<rparr>)) (\<lambda>db2.
               Inr (create_audit now tenant_id (us_id actor)
                      \<lparr>ad_role = (if us_is_staff actor then ''financial_manager'' else ''system''),
                       ad_action = (case supersedes of None \<Rightarrow> ''STATEMENT_GENERATED'' | Some _ \<Rightarrow> ''STATEMENT_SUPERSEDED''),
                       ad_target = ''statement:'' @ str_uuid statement_id @ '':v'' @ str_nat version,
                       ad_reason = st_correction_reason s, ad_request_id = None, ad_before = [], ad_after = [],
                       ad_metadata = JObj []\<rparr> db2, s))))"

record deletion_outcome =
  do_blocked_by_legal_hold :: bool
  do_retained_categories :: "string list"
  do_anonymized_categories :: "string list"

definition deletion_disposition :: "string \<Rightarrow> int \<Rightarrow> ops_db \<Rightarrow> deletion_outcome" where
  "deletion_disposition tenant_id account db =
     (let held = obj_exists (\<lambda>h. lh_tenant_id h = tenant_id \<and> lh_account h = account \<and> lh_active h) (ops_holds db)
      in \<lparr>do_blocked_by_legal_hold = held,
          do_retained_categories = (if held then [''all_held_categories''] else [''financial'', ''audit'', ''compliance'']),
          do_anonymized_categories = (if held then [] else [''contact'', ''support_profile'', ''notification_destination''])\<rparr>)"

end
