(* ===== verification/Ops_Requests.thy ===== *)
theory Ops_Requests
  imports Ops_Operators
begin

text \<open>
  The operator requests over whole histories: approvals and executions by anybody with any
  roles, in any order, at any time.
\<close>

section \<open>Steps\<close>

inductive request_step ::
  "(string \<Rightarrow> string) \<Rightarrow> (string \<Rightarrow> uuid option) \<Rightarrow> ops_db \<Rightarrow> ops_db \<Rightarrow> bool"
  for sha :: "string \<Rightarrow> string" and uuid_of :: "string \<Rightarrow> uuid option" where
  request_approved: "approve_operator_request now i tenant actor roles db = Inr (db', r) \<Longrightarrow>
     request_step sha uuid_of db db'"
| request_executed: "execute_operator_request sha uuid_of now i tenant actor roles db = Inr (db', r) \<Longrightarrow>
     request_step sha uuid_of db db'"

definition execution_audits :: "uuid \<Rightarrow> ops_db \<Rightarrow> ops_audit_event list" where
  "execution_audits i db =
     filter (\<lambda>a. oa_request_id a = Some i \<and>
        oa_action a \<in> set [''TRADING_HALT_RELEASED'', ''LEGAL_HOLD_RELEASED'', ''ACCOUNT_UNFROZEN'']) (ops_audits db)"

definition request_ok :: "ops_db \<Rightarrow> operator_action_request \<Rightarrow> bool" where
  "request_ok db r \<longleftrightarrow>
     (or_status r \<in> {ReqApproved, ReqExecuted} \<longrightarrow> (\<exists>a. or_approved_by r = Some a \<and> a \<noteq> or_requested_by r)) \<and>
     (if or_status r = ReqExecuted
      then or_action_type r \<in> set executable_actions \<and>
           (\<exists>a. execution_audits (or_request_id r) db = [a] \<and> oa_actor a \<noteq> or_requested_by r)
      else execution_audits (or_request_id r) db = [])"

definition requests_ok :: "ops_db \<Rightarrow> bool" where
  "requests_ok db \<longleftrightarrow> distinct (map or_request_id (ops_requests db)) \<and> (\<forall>r \<in> set (ops_requests db). request_ok db r)"

lemma distinct_row: "distinct (map k t) \<Longrightarrow> x \<in> set t \<Longrightarrow> y \<in> set t \<Longrightarrow> k x = k y \<Longrightarrow> x = y"
  by (metis distinct_map inj_onD)

lemma requests_create_audit [simp]: "ops_requests (create_audit now t actor d db) = ops_requests db"
  by (simp add: create_audit_def)

lemma audits_create_audit:
  "execution_audits i (create_audit now t actor d db) = execution_audits i db @
     (if ad_request_id d = Some i \<and>
         ad_action d \<in> set [''TRADING_HALT_RELEASED'', ''LEGAL_HOLD_RELEASED'', ''ACCOUNT_UNFROZEN'']
      then [\<lparr>oa_audit_id = ops_next db, oa_tenant_id = t, oa_actor = actor, oa_role = ad_role d,
             oa_action = ad_action d, oa_target = ad_target d, oa_reason = ad_reason d,
             oa_request_id = ad_request_id d, oa_timestamp = now, oa_before_state_hash = ad_before d,
             oa_after_state_hash = ad_after d, oa_metadata_safe = ad_metadata d\<rparr>] else [])"
  by (simp add: execution_audits_def create_audit_def)

lemma execution_audits_cong: "ops_audits db = ops_audits db' \<Longrightarrow> execution_audits i db = execution_audits i db'"
  by (simp add: execution_audits_def)

lemma get_request_Inr:
  "get_request i tenant db = Inr r \<Longrightarrow> r \<in> set (ops_requests db) \<and> or_request_id r = i \<and> or_tenant_id r = tenant"
  by (auto simp: get_request_def lift_ops_def split: sum.splits dest: obj_get_Inr)

lemma approve_Inr:
  assumes "approve_operator_request now i tenant actor roles db = Inr (db', r')"
  obtains r d where "r \<in> set (ops_requests db)" "or_request_id r = i" "or_requested_by r \<noteq> actor"
    "or_status r = ReqPending" "or_action_type r' = or_action_type r"
    "ad_action d = ''OPERATOR_ACTION_APPROVED''"
    "db' = create_audit now tenant actor d
       (db\<lparr>ops_requests := upd_where (\<lambda>x. or_request_id x = i \<and> or_status x = ReqPending)
          (\<lambda>x. x\<lparr>or_status := ReqApproved, or_approved_by := Some actor, or_approved_at := Some now\<rparr>) (ops_requests db)\<rparr>)"
proof -
  from assms obtain r where r: "get_request i tenant db = Inr r"
    by (auto simp: approve_operator_request_def res_simps)
  note g = get_request_Inr [OF r]
  show ?thesis
    using assms r g
    by (intro that [of r "\<lparr>ad_role = hd (sort roles), ad_action = ''OPERATOR_ACTION_APPROVED'',
          ad_target = or_target_ref r, ad_reason = or_reason r, ad_request_id = Some (or_request_id r),
          ad_before = [], ad_after = [], ad_metadata = JObj []\<rparr>"])
      (auto simp: approve_operator_request_def Let_def split: if_splits)
qed

lemma finish_Inr:
  assumes "finish_execution now executor r role action bh ah db = Inr (db', r')"
  obtains d where "ad_action d = action" "ad_request_id d = Some (or_request_id r)"
    "db' = create_audit now (or_tenant_id r) executor d
       (db\<lparr>ops_requests := upd_where (\<lambda>x. or_request_id x = or_request_id r \<and> or_tenant_id x = or_tenant_id r \<and> or_status x = ReqApproved)
          (\<lambda>x. x\<lparr>or_status := ReqExecuted, or_executed_at := Some now\<rparr>) (ops_requests db)\<rparr>)"
  using assms
  by (intro that [of "\<lparr>ad_role = role, ad_action = action, ad_target = or_target_ref r,
        ad_reason = or_reason r, ad_request_id = Some (or_request_id r),
        ad_before = bh, ad_after = ah, ad_metadata = JObj []\<rparr>"])
    (auto simp: finish_execution_def Let_def split: if_splits)

lemma execute_Inr:
  assumes "execute_operator_request sha uuid_of now i tenant actor roles db = Inr (db', r')"
  obtains r d db1 where "r \<in> set (ops_requests db)" "or_request_id r = i" "or_requested_by r \<noteq> actor"
    "or_status r = ReqApproved" "or_action_type r \<in> set executable_actions"
    "ops_requests db1 = ops_requests db" "ops_audits db1 = ops_audits db"
    "ad_action d \<in> set [''TRADING_HALT_RELEASED'', ''LEGAL_HOLD_RELEASED'', ''ACCOUNT_UNFROZEN'']"
    "ad_request_id d = Some i"
    "db' = create_audit now (or_tenant_id r) actor d
       (db1\<lparr>ops_requests := upd_where (\<lambda>x. or_request_id x = i \<and> or_tenant_id x = or_tenant_id r \<and> or_status x = ReqApproved)
          (\<lambda>x. x\<lparr>or_status := ReqExecuted, or_executed_at := Some now\<rparr>) (ops_requests db1)\<rparr>)"
proof -
  from assms obtain r where r: "get_request i tenant db = Inr r"
    and ok: "or_status r = ReqApproved" "or_requested_by r \<noteq> actor" "or_action_type r \<in> set executable_actions"
    and rel: "(if or_action_type r = ''KILL_SWITCH_RELEASE'' then release_trading_halt sha uuid_of now actor r db
       else if or_action_type r = ''LEGAL_HOLD_RELEASE'' then release_legal_hold sha now actor r db
       else release_account_freeze sha now actor r db) = Inr (db', r')"
    unfolding execute_operator_request_def res_simps by blast
  note g = get_request_Inr [OF r]
  from rel obtain role action bh ah db1 where
    fin: "finish_execution now actor r role action bh ah db1 = Inr (db', r')"
      "ops_requests db1 = ops_requests db" "ops_audits db1 = ops_audits db"
      "action \<in> set [''TRADING_HALT_RELEASED'', ''LEGAL_HOLD_RELEASED'', ''ACCOUNT_UNFROZEN'']"
    by (fastforce simp: release_trading_halt_def release_legal_hold_def release_account_freeze_def Let_def
        split: if_splits option.splits prod.splits)
  from fin(1) obtain d where "ad_action d = action" "ad_request_id d = Some (or_request_id r)"
    "db' = create_audit now (or_tenant_id r) actor d
       (db1\<lparr>ops_requests := upd_where (\<lambda>x. or_request_id x = or_request_id r \<and> or_tenant_id x = or_tenant_id r \<and> or_status x = ReqApproved)
          (\<lambda>x. x\<lparr>or_status := ReqExecuted, or_executed_at := Some now\<rparr>) (ops_requests db1)\<rparr>)" by (rule finish_Inr)
  with g ok fin show ?thesis by (intro that [of r db1 d]) simp_all
qed

section \<open>The invariant\<close>

lemma ids_upd_where: "(\<And>x. k (f x) = k x) \<Longrightarrow> map k (upd_where p f t) = map k t"
  by (simp add: upd_where_def)

lemma upd_where_mem: "x \<in> set (upd_where p f t) \<longleftrightarrow> (\<exists>y \<in> set t. x = (if p y then f y else y))"
  by (auto simp: upd_where_def)

lemma filter_upd_where:
  "(\<And>x. p x \<Longrightarrow> \<not> q x \<and> \<not> q (f x)) \<Longrightarrow> filter q (upd_where p f t) = filter q t"
  by (induction t) (auto simp: upd_where_def)

lemma approve_requests_ok:
  assumes "approve_operator_request now i tenant actor roles db = Inr (db', r')" "requests_ok db"
  shows "requests_ok db'"
proof -
  from assms(1) obtain r d where r: "r \<in> set (ops_requests db)" "or_request_id r = i"
    "or_requested_by r \<noteq> actor" "or_status r = ReqPending" "ad_action d = ''OPERATOR_ACTION_APPROVED''"
    and db': "db' = create_audit now tenant actor d
       (db\<lparr>ops_requests := upd_where (\<lambda>x. or_request_id x = i \<and> or_status x = ReqPending)
          (\<lambda>x. x\<lparr>or_status := ReqApproved, or_approved_by := Some actor, or_approved_at := Some now\<rparr>) (ops_requests db)\<rparr>)"
    by (rule approve_Inr)
  have au: "execution_audits j db' = execution_audits j db" for j
    unfolding db' audits_create_audit using r(5) by (simp add: execution_audits_def)
  have "request_ok db' x" if "x \<in> set (ops_requests db')" for x
  proof -
    from that obtain y where y: "y \<in> set (ops_requests db)"
      "x = (if or_request_id y = i \<and> or_status y = ReqPending
        then y\<lparr>or_status := ReqApproved, or_approved_by := Some actor, or_approved_at := Some now\<rparr> else y)"
      unfolding db' requests_create_audit by (simp add: upd_where_mem) blast
    have ok: "request_ok db y" using assms(2) y(1) by (simp add: requests_ok_def)
    have "or_request_id y = i \<Longrightarrow> y = r"
      using assms(2) y(1) r(1,2) distinct_row by (fastforce simp: requests_ok_def)
    with ok y(2) r show ?thesis by (auto simp: request_ok_def au)
  qed
  moreover have "distinct (map or_request_id (ops_requests db'))"
    using assms(2) by (simp add: db' requests_ok_def ids_upd_where)
  ultimately show ?thesis by (simp add: requests_ok_def)
qed

lemma execute_requests_ok:
  assumes "execute_operator_request sha uuid_of now i tenant actor roles db = Inr (db', r')" "requests_ok db"
  shows "requests_ok db'"
proof -
  from assms(1) obtain r d db1 where r: "r \<in> set (ops_requests db)" "or_request_id r = i"
    "or_requested_by r \<noteq> actor" "or_status r = ReqApproved" "or_action_type r \<in> set executable_actions"
    and db1: "ops_requests db1 = ops_requests db" "ops_audits db1 = ops_audits db"
    and d: "ad_action d \<in> set [''TRADING_HALT_RELEASED'', ''LEGAL_HOLD_RELEASED'', ''ACCOUNT_UNFROZEN'']"
      "ad_request_id d = Some i"
    and db': "db' = create_audit now (or_tenant_id r) actor d
       (db1\<lparr>ops_requests := upd_where (\<lambda>x. or_request_id x = i \<and> or_tenant_id x = or_tenant_id r \<and> or_status x = ReqApproved)
          (\<lambda>x. x\<lparr>or_status := ReqExecuted, or_executed_at := Some now\<rparr>) (ops_requests db1)\<rparr>)"
    by (rule execute_Inr)
  have au: "execution_audits j db' = execution_audits j db" if "j \<noteq> i" for j
    unfolding db' audits_create_audit using d that db1 by (simp add: execution_audits_def)
  have aui: "\<exists>a. execution_audits i db' = execution_audits i db @ [a] \<and> oa_actor a = actor"
    unfolding db' audits_create_audit using d db1 by (simp add: execution_audits_def)
  have okr: "request_ok db r" using assms(2) r(1) by (simp add: requests_ok_def)
  have "request_ok db' x" if "x \<in> set (ops_requests db')" for x
  proof -
    from that obtain y where y: "y \<in> set (ops_requests db)"
      "x = (if or_request_id y = i \<and> or_tenant_id y = or_tenant_id r \<and> or_status y = ReqApproved
        then y\<lparr>or_status := ReqExecuted, or_executed_at := Some now\<rparr> else y)"
      unfolding db' requests_create_audit by (simp add: upd_where_mem db1) blast
    show ?thesis
    proof (cases "or_request_id y = i")
      case True
      then have "y = r" using assms(2) y(1) r(1,2) distinct_row by (fastforce simp: requests_ok_def)
      with y(2) r okr aui show ?thesis by (auto simp: request_ok_def)
    next
      case False
      with y assms(2) au show ?thesis by (auto simp: request_ok_def requests_ok_def)
    qed
  qed
  moreover have "distinct (map or_request_id (ops_requests db'))"
    using assms(2) by (simp add: db' db1 requests_ok_def ids_upd_where)
  ultimately show ?thesis by (simp add: requests_ok_def)
qed

lemma request_steps_ok: "(request_step sha uuid_of)\<^sup>*\<^sup>* db db' \<Longrightarrow> requests_ok db \<Longrightarrow> requests_ok db'"
proof (induction rule: rtranclp_induct)
  case (step a b)
  from step(2) show ?case
    by (cases rule: request_step.cases) (use step approve_requests_ok execute_requests_ok in blast)+
qed

text \<open>
  C28. Operator actions need two people and happen once. In a database whose requests are
  pending and without execution records, whatever approvals and executions follow, by
  whomever, an approved or executed request was approved by somebody other than its maker;
  an executed one was executed by somebody other than its maker, has one of the three locally
  executable action types and left exactly one execution record; a request that is not executed left none.
\<close>

theorem operator_requests_two_person:
  assumes "(request_step sha uuid_of)\<^sup>*\<^sup>* db db'"
    and "distinct (map or_request_id (ops_requests db))"
    and "\<And>r. r \<in> set (ops_requests db) \<Longrightarrow> or_status r = ReqPending \<and> execution_audits (or_request_id r) db = []"
    and "r \<in> set (ops_requests db')"
  shows "(or_status r \<in> {ReqApproved, ReqExecuted} \<longrightarrow>
      (\<exists>a. or_approved_by r = Some a \<and> a \<noteq> or_requested_by r)) \<and>
    (if or_status r = ReqExecuted
     then or_action_type r \<in> set executable_actions \<and>
          (\<exists>a. execution_audits (or_request_id r) db' = [a] \<and> oa_actor a \<noteq> or_requested_by r)
     else execution_audits (or_request_id r) db' = [])"
proof -
  have "requests_ok db" using assms(2,3) by (auto simp: requests_ok_def request_ok_def)
  with request_steps_ok [OF assms(1)] assms(4) have "request_ok db' r" by (simp add: requests_ok_def)
  then show ?thesis by (simp add: request_ok_def)
qed

definition empty_ops :: ops_db where
  "empty_ops = \<lparr>ops_next = 100, ops_users = [], ops_security = [], ops_devices = [], ops_sessions = [],
     ops_freezes = [], ops_halts = [], ops_support = [], ops_history = [], ops_reports = [],
     ops_statements = [], ops_holds = [], ops_exports = [], ops_notifications = [], ops_requests = [],
     ops_audits = [], ops_outbox = [], ops_processed = [], ops_checks = [], ops_tasks = []\<rparr>"

definition demo_request :: operator_action_request where
  "demo_request = \<lparr>or_request_id = 7, or_tenant_id = ''acme'', or_action_type = ''KILL_SWITCH_RELEASE'',
     or_target_ref = ''trading_halt:ab'', or_requested_by = 1, or_requested_at = 0, or_reason = ''resume'',
     or_status = ReqPending, or_approved_by = None, or_approved_at = None, or_executed_at = None,
     or_expires_at = 1000\<rparr>"

definition demo_ops :: ops_db where
  "demo_ops = empty_ops\<lparr>ops_requests := [demo_request],
     ops_halts := [\<lparr>th_halt_id = 2, th_tenant_id = ''acme'', th_reason = ''incident'', th_activated_by = 5,
       th_activated_at = 0, th_released_by = None, th_released_at = None\<rparr>]\<rparr>"

definition demo_approved :: "(ops_error, ops_db \<times> operator_action_request) res" where
  "demo_approved = approve_operator_request 10 7 ''acme'' 2 [''operations_manager''] demo_ops"

definition demo_executed :: "(ops_error, ops_db \<times> operator_action_request) res" where
  "demo_executed = rbind demo_approved (\<lambda>(db, _).
     execute_operator_request id (\<lambda>t. Some (length t)) 20 7 ''acme'' 3 [''platform_admin''] db)"

theorem operator_requests_two_person_witness:
  "\<exists>db r. (request_step id (\<lambda>t. Some (length t)))\<^sup>*\<^sup>* demo_ops db \<and> ops_requests db = [r] \<and>
     or_status r = ReqExecuted \<and> map th_released_at (ops_halts db) = [Some 20] \<and>
     (\<exists>a. execution_audits 7 db = [a] \<and> oa_actor a \<noteq> 1)"
proof -
  have "case demo_approved of Inl _ \<Rightarrow> False | Inr (d1, _) \<Rightarrow>
      (case demo_executed of Inl _ \<Rightarrow> False | Inr (d2, _) \<Rightarrow>
        (case ops_requests d2 of [r] \<Rightarrow> or_status r = ReqExecuted \<and> or_request_id r = 7 \<and> or_requested_by r = 1
           | _ \<Rightarrow> False) \<and> map th_released_at (ops_halts d2) = [Some 20])"
    by code_simp
  then obtain d1 r1 d2 r2 r where ap: "demo_approved = Inr (d1, r1)" and ex: "demo_executed = Inr (d2, r2)"
    and r: "ops_requests d2 = [r]" "or_status r = ReqExecuted" "or_request_id r = 7" "or_requested_by r = 1"
      "map th_released_at (ops_halts d2) = [Some 20]"
    by (auto split: sum.splits prod.splits list.splits)
  have "request_step id (\<lambda>t. Some (length t)) demo_ops d1"
    by (rule request_approved [OF ap [unfolded demo_approved_def]])
  moreover have "request_step id (\<lambda>t. Some (length t)) d1 d2"
    by (rule request_executed [OF ex [unfolded demo_executed_def ap rbind_Inr prod.case]])
  ultimately have steps: "(request_step id (\<lambda>t. Some (length t)))\<^sup>*\<^sup>* demo_ops d2"
    by (meson converse_rtranclp_into_rtranclp rtranclp.rtrancl_refl)
  have "distinct (map or_request_id (ops_requests demo_ops))"
    "\<And>x. x \<in> set (ops_requests demo_ops) \<Longrightarrow> or_status x = ReqPending \<and> execution_audits (or_request_id x) demo_ops = []"
    by (simp_all add: demo_ops_def demo_request_def empty_ops_def execution_audits_def)
  from operator_requests_two_person [OF steps this, of r] r steps show ?thesis by auto
qed

end
