(* ===== verification/Ops_Properties.thy ===== *)
theory Ops_Properties
  imports Ops_Requests
begin

text \<open>Properties of account risk, CSV rendering, the inbox, deliveries and sessions.\<close>

section \<open>Risk\<close>

fun severity :: "risk_verdict \<Rightarrow> nat" where
  "severity RiskAllow = 0" | "severity RiskStepUp = 1" | "severity RiskReview = 2" | "severity RiskDeny = 3"

lemma any_of_mono: "set xs \<subseteq> set ys \<Longrightarrow> any_of cs xs \<Longrightarrow> any_of cs ys"
  by (auto simp: any_of_def list_ex_iff)

lemma signal_verdict_mono: "set xs \<subseteq> set ys \<Longrightarrow> severity (signal_verdict xs) \<le> severity (signal_verdict ys)"
  using any_of_mono [of xs ys] by (auto simp: signal_verdict_def)

lemma sorted_tuple_simps [simp]:
  "sorted (sorted_tuple xs)" "distinct (sorted_tuple xs)" "set (sorted_tuple xs) = set xs"
  by (simp_all add: sorted_tuple_def)

text \<open>
  The risk verdict is monotone: with more signals it never gets milder; an active partial
  or full freeze is always a denial that names \<open>ACCOUNT_FROZEN\<close>; and the reason codes are
  sorted, without repetition and all known.
\<close>

theorem account_risk_monotone:
  assumes "set signals \<subseteq> set extra"
  shows "severity (rd_decision (evaluate_account_risk now t a signals v db)) \<le>
      severity (rd_decision (evaluate_account_risk now t a extra v db)) \<and>
    (\<forall>f. active_freeze t a db = Some f \<and> af_level f \<noteq> FreezeNone \<longrightarrow>
       rd_decision (evaluate_account_risk now t a signals v db) = RiskDeny \<and>
       ''ACCOUNT_FROZEN'' \<in> set (rd_reason_codes (evaluate_account_risk now t a signals v db))) \<and>
    sorted (rd_reason_codes (evaluate_account_risk now t a signals v db)) \<and>
    distinct (rd_reason_codes (evaluate_account_risk now t a signals v db)) \<and>
    set (rd_reason_codes (evaluate_account_risk now t a signals v db)) \<subseteq> set reason_codes"
proof -
  let ?r = "\<lambda>s. sorted_tuple (filter (\<lambda>s. s \<in> set reason_codes) s)"
  have "set (?r signals) \<subseteq> set (?r extra)" using assms by auto
  from signal_verdict_mono [OF this]
  have "severity (rd_decision (evaluate_account_risk now t a signals v db)) \<le>
      severity (rd_decision (evaluate_account_risk now t a extra v db))"
    by (auto simp: evaluate_account_risk_def Let_def split: option.splits)
  moreover have "af_level f \<noteq> FreezeNone \<longleftrightarrow> af_level f \<in> {FreezePartial, FreezeFull}" for f
    by (cases "af_level f") auto
  moreover have "''ACCOUNT_FROZEN'' \<in> set reason_codes" by (simp add: reason_codes_def)
  ultimately show ?thesis
    by (auto simp: evaluate_account_risk_def Let_def split: option.splits)
qed

theorem account_risk_monotone_witness:
  "rd_decision (evaluate_account_risk 0 ''t'' 1 [''NEW_DEVICE''] ''v'' empty_ops) = RiskStepUp \<and>
   severity (rd_decision (evaluate_account_risk 0 ''t'' 1 [''NEW_DEVICE''] ''v'' empty_ops)) \<le>
   severity (rd_decision (evaluate_account_risk 0 ''t'' 1 [''SESSION_RISK'', ''NEW_DEVICE''] ''v'' empty_ops))"
proof -
  have "rd_decision (evaluate_account_risk 0 ''t'' 1 [''NEW_DEVICE''] ''v'' empty_ops) = RiskStepUp" by code_simp
  moreover have "set [''NEW_DEVICE''] \<subseteq> set [''SESSION_RISK'', ''NEW_DEVICE'']" by simp
  from account_risk_monotone [OF this, of 0 "''t''" 1 "''v''" empty_ops]
  have "severity (rd_decision (evaluate_account_risk 0 ''t'' 1 [''NEW_DEVICE''] ''v'' empty_ops)) \<le>
    severity (rd_decision (evaluate_account_risk 0 ''t'' 1 [''SESSION_RISK'', ''NEW_DEVICE''] ''v'' empty_ops))" by blast
  ultimately show ?thesis by blast
qed

section \<open>CSV\<close>

text \<open>
  A reader of the format: \<open>Plain\<close> inside an unquoted field, \<open>Quoted\<close> inside quotes, \<open>Closing\<close> after
  a quote that ends the field or is doubled. The cells of the line and the field so far are
  kept in reverse.
\<close>

datatype csv_mode = Start | Plain | Quoted | Closing

fun read_csv :: "csv_mode \<Rightarrow> string \<Rightarrow> string list \<Rightarrow> string \<Rightarrow> string list list option" where
  "read_csv m w cells [] = (if m = Start \<and> w = [] \<and> cells = [] then Some [] else None)"
| "read_csv m w cells (c # s) =
     (if m = Quoted then
        (if c = CHR 0x22 then read_csv Closing w cells s else read_csv Quoted (c # w) cells s)
      else if c = CHR 0x22 then
        (if m = Start then read_csv Quoted w cells s
         else if m = Closing then read_csv Quoted (c # w) cells s else None)
      else if c = CHR '','' then read_csv Start [] (rev w # cells) s
      else if c = CHR 0x0D then
        (case s of d # s' \<Rightarrow> if d = CHR 0x0A then map_option ((#) (rev (rev w # cells))) (read_csv Start [] [] s') else None
                 | [] \<Rightarrow> None)
      else if m = Closing \<or> c = CHR 0x0A then None
      else read_csv Plain (c # w) cells s)"

definition parse_csv :: "string \<Rightarrow> string list list option" where
  "parse_csv = read_csv Start [] []"

lemma read_plain:
  "\<not> list_ex csv_special v \<Longrightarrow> m = Start \<or> m = Plain \<Longrightarrow>
   read_csv m w cells (v @ s) = read_csv (if v = [] then m else Plain) (rev v @ w) cells s"
  by (induction v arbitrary: m w) (auto simp: csv_special_def)

lemma read_quoted:
  "read_csv Quoted w cells (concat (map (\<lambda>c. if c = CHR 0x22 then [c, c] else [c]) v) @ s) =
   read_csv Quoted (rev v @ w) cells s"
  by (induction v arbitrary: w) auto

lemma read_field:
  "\<exists>m. m \<in> {Start, Plain, Closing} \<and> read_csv Start [] cells (csv_field b v @ s) = read_csv m (rev v) cells s"
proof (cases "list_ex csv_special v \<or> (b \<and> v = [])")
  case True
  then have "read_csv Start [] cells (csv_field b v @ s) = read_csv Closing (rev v) cells s"
    using read_quoted [of "[]" cells v "CHR 0x22 # s"] by (simp add: csv_field_def)
  then show ?thesis by blast
next
  case False
  then show ?thesis using read_plain [of v Start "[]" cells s] by (auto simp: csv_field_def)
qed

lemma read_cells:
  "vs \<noteq> [] \<Longrightarrow> read_csv Start [] cells (join '','' (map (csv_field b) vs) @ CHR 0x0D # CHR 0x0A # s) =
   map_option ((#) (rev cells @ vs)) (read_csv Start [] [] s)"
proof (induction vs arbitrary: cells rule: induct_list012)
  case (2 v)
  obtain m where "m \<in> {Start, Plain, Closing}"
    "read_csv Start [] cells (csv_field b v @ CHR 0x0D # CHR 0x0A # s) = read_csv m (rev v) cells (CHR 0x0D # CHR 0x0A # s)"
    using read_field by blast
  then show ?case by auto
next
  case (3 v v' vs)
  let ?rest = "join '','' (map (csv_field b) (v' # vs)) @ CHR 0x0D # CHR 0x0A # s"
  obtain m where "m \<in> {Start, Plain, Closing}"
    "read_csv Start [] cells (csv_field b v @ CHR '','' # ?rest) = read_csv m (rev v) cells (CHR '','' # ?rest)"
    using read_field by blast
  then have "read_csv Start [] cells (csv_field b v @ CHR '','' # ?rest) = read_csv Start [] (v # cells) ?rest" by auto
  with 3(2) [of "v # cells"] show ?case by simp
qed simp

lemma read_lines: "vs \<noteq> [] \<Longrightarrow> read_csv Start [] [] (csv_line vs @ s) = map_option ((#) vs) (read_csv Start [] [] s)"
  using read_cells [of vs "[]"] by (simp add: csv_line_def)

lemma parse_csv_lines:
  "(\<And>vs. vs \<in> set rows \<Longrightarrow> vs \<noteq> []) \<Longrightarrow> parse_csv (concat (map csv_line rows)) = Some rows"
  unfolding parse_csv_def by (induction rows) (simp_all add: read_lines)

text \<open>
  C30. The CSV writer loses nothing and neutralises formulas: reading the rendered text back
  gives the header and, row by row, exactly the sanitised cells, whatever quotes, commas and
  line breaks they contain; and no cell starts with a formula character.
\<close>

theorem render_csv_roundtrip:
  assumes "names \<noteq> []"
  shows "parse_csv (render_csv rows names) = Some (names # map (\<lambda>r. map (csv_cell r) names) rows) \<and>
    (\<forall>r k c s. csv_cell r k = c # s \<longrightarrow> c \<notin> set ''=+-@'')"
proof
  have "render_csv rows names = concat (map csv_line (names # map (\<lambda>r. map (csv_cell r) names) rows))"
    by (simp add: render_csv_def comp_def)
  then show "parse_csv (render_csv rows names) = Some (names # map (\<lambda>r. map (csv_cell r) names) rows)"
    using assms by (simp only:) (rule parse_csv_lines, auto)
  show "\<forall>r k c s. csv_cell r k = c # s \<longrightarrow> c \<notin> set ''=+-@''"
    by (auto simp: csv_cell_def csv_safe_def Let_def split: list.splits if_splits)
qed

theorem render_csv_roundtrip_witness:
  "parse_csv (render_csv [[(''a'', JStr ''=1,2''), (''b'', JStr [CHR 0x22])]] [''a'', ''b'']) =
     Some [[''a'', ''b''], [[CHR 0x27] @ ''=1,2'', [CHR 0x22]]]"
proof -
  have "map (csv_cell [(''a'', JStr ''=1,2''), (''b'', JStr [CHR 0x22])]) [''a'', ''b''] = [[CHR 0x27] @ ''=1,2'', [CHR 0x22]]"
    by code_simp
  with render_csv_roundtrip [of "[''a'', ''b'']" "[[(''a'', JStr ''=1,2''), (''b'', JStr [CHR 0x22])]]"]
  show ?thesis by simp
qed

section \<open>The inbox\<close>

text \<open>
  The inbox table is keyed by the event alone, so an event can be consumed by one
  consumer only: once a consumer has consumed it, the same consumer's replay answers \<open>False\<close>
  without effect, but every other consumer fails with an integrity error, at any later time, and its effect never runs.
\<close>

theorem second_consumer_fails:
  assumes "ops_consume_once now event_id c1 effect db = Inr (db1, True)"
    and "\<And>x y. effect x = Inr y \<Longrightarrow> set (ops_processed x) \<subseteq> set (ops_processed y)"
    and "c2 \<noteq> c1" and "\<And>p. p \<in> set (ops_processed db) \<Longrightarrow> op_event_id p \<noteq> event_id"
    and "\<And>p. p \<in> set (ops_processed db1) \<Longrightarrow> op_event_id p = event_id \<Longrightarrow> op_consumer p = c1"
  shows "ops_consume_once later event_id c1 effect2 db1 = Inr (db1, False) \<and>
    ops_consume_once later event_id c2 effect2 db1 = Inl (OpsDbError (IntegrityError ''operations_processedevent''))"
proof -
  let ?p = "\<lparr>op_event_id = event_id, op_consumer = c1, op_processed_at = now\<rparr>"
  from assms(1) obtain x where "effect x = Inr db1" "?p \<in> set (ops_processed x)"
    by (auto simp: ops_consume_once_def res_simps split: if_splits)
  with assms(2) have "?p \<in> set (ops_processed db1)" by blast
  then have "obj_exists (\<lambda>p. op_event_id p = event_id \<and> op_consumer p = c1) (ops_processed db1)"
    "obj_exists (\<lambda>p. op_event_id p = event_id) (ops_processed db1)"
    by (force simp: obj_exists_def list_ex_iff)+
  moreover have "\<not> obj_exists (\<lambda>p. op_event_id p = event_id \<and> op_consumer p = c2) (ops_processed db1)"
    using assms(3,5) by (auto simp: obj_exists_def list_ex_iff)
  ultimately show ?thesis by (simp add: ops_consume_once_def)
qed

theorem second_consumer_fails_witness:
  "\<exists>db1. ops_consume_once 5 3 ''mailer'' Inr empty_ops = Inr (db1, True) \<and>
     ops_consume_once 6 3 ''mailer'' Inr db1 = Inr (db1, False) \<and>
     ops_consume_once 6 3 ''audit'' Inr db1 = Inl (OpsDbError (IntegrityError ''operations_processedevent''))"
proof -
  let ?db1 = "empty_ops\<lparr>ops_processed := [\<lparr>op_event_id = 3, op_consumer = ''mailer'', op_processed_at = 5\<rparr>]\<rparr>"
  have c: "ops_consume_once 5 3 ''mailer'' Inr empty_ops = Inr (?db1, True)"
    by (simp add: ops_consume_once_def empty_ops_def obj_exists_def)
  have "ops_consume_once 6 3 ''mailer'' Inr ?db1 = Inr (?db1, False) \<and>
     ops_consume_once 6 3 ''audit'' Inr ?db1 = Inl (OpsDbError (IntegrityError ''operations_processedevent''))"
    by (rule second_consumer_fails [OF c]) (auto simp: empty_ops_def)
  with c show ?thesis by blast
qed

section \<open>Deliveries\<close>

text \<open>\<open>k\<close> transient failures of one notification, each recorded on the row the last one left.\<close>

fun fail_times :: "nat \<Rightarrow> timestamp \<Rightarrow> nat \<Rightarrow> notification \<Rightarrow> ops_db \<Rightarrow> ops_db \<times> notification" where
  "fail_times 0 now m n db = (db, n)"
| "fail_times (Suc k) now m n db =
     (let (db1, n1) = fail_times k now m n db in record_delivery_failure now n1 True ''timeout'' m db1)"

definition dead_letters :: "notification \<Rightarrow> ops_db \<Rightarrow> nat" where
  "dead_letters n db = obj_count (\<lambda>e. oe_topic e = ''notification.dead_letter'' \<and>
     row_get (case oe_payload_safe e of JObj r \<Rightarrow> r | _ \<Rightarrow> []) ''notification_id'' =
       JStr (str_uuid (nt_notification_id n))) (ops_outbox db)"

lemma outbox_save_delivery [simp]: "ops_outbox (save_delivery n db) = ops_outbox db"
  by (simp add: save_delivery_def update_notification_def)

lemma record_delivery_failure_step:
  assumes "record_delivery_failure now n True reason m db = (db', n')"
  shows "nt_attempts n' = Suc (nt_attempts n) \<and> nt_notification_id n' = nt_notification_id n \<and>
    nt_status n' = (if Suc (nt_attempts n) < m then ''QUEUED'' else ''FAILED'') \<and>
    dead_letters n db' = dead_letters n db + (if Suc (nt_attempts n) < m then 0 else 1)"
  using assms
  by (auto simp: record_delivery_failure_def Let_def create_ops_outbox_def dead_letters_def obj_count_def
      row_get_def split: if_splits)

text \<open>
  C32. A notification whose delivery keeps failing transiently is retried a bounded number of
  times: after \<open>k\<close> failures it has \<open>k\<close> attempts, stays \<open>QUEUED\<close> below the maximum, and the
  failure that reaches the maximum makes it \<open>FAILED\<close> and writes exactly one dead letter.
\<close>

theorem delivery_retries_bounded:
  assumes "fail_times k now m n db = (db', n')" and "0 < k" and "k \<le> m" and "nt_attempts n = 0"
  shows "nt_attempts n' = k \<and> nt_status n' = (if k < m then ''QUEUED'' else ''FAILED'') \<and>
    dead_letters n db' = dead_letters n db + (if k = m then 1 else 0)"
proof -
  have "k \<le> m \<longrightarrow> nt_attempts n' = k \<and> nt_notification_id n' = nt_notification_id n \<and>
      (0 < k \<longrightarrow> nt_status n' = (if k < m then ''QUEUED'' else ''FAILED'')) \<and>
      dead_letters n db' = dead_letters n db + (if 0 < k \<and> k = m then 1 else 0)"
    using assms(1)
  proof (induction k arbitrary: db' n')
    case 0
    with assms(4) show ?case by simp
  next
    case (Suc k)
    obtain db1 n1 where f: "fail_times k now m n db = (db1, n1)" by fastforce
    with Suc.prems have "record_delivery_failure now n1 True ''timeout'' m db1 = (db', n')" by simp
    note step = record_delivery_failure_step [OF this]
    have same: "nt_notification_id n1 = nt_notification_id n \<Longrightarrow> dead_letters n1 d = dead_letters n d" for d
      by (simp add: dead_letters_def)
    show ?case using Suc.IH [OF f] step same by auto
  qed
  with assms(2,3) show ?thesis by simp
qed

theorem delivery_retries_bounded_witness:
  "nt_status (snd (fail_times 4 0 5 (fst (snd (create_notification 0 (security_notice ''t'' 1 ''X'' ''k'') empty_ops))) empty_ops)) = ''QUEUED'' \<and>
   nt_status (snd (fail_times 5 0 5 (fst (snd (create_notification 0 (security_notice ''t'' 1 ''X'' ''k'') empty_ops))) empty_ops)) = ''FAILED''"
proof -
  let ?n = "fst (snd (create_notification 0 (security_notice ''t'' 1 ''X'' ''k'') empty_ops))"
  have "nt_attempts ?n = 0" by code_simp
  moreover have "fail_times k 0 5 ?n empty_ops = (fst (fail_times k 0 5 ?n empty_ops), snd (fail_times k 0 5 ?n empty_ops))" for k
    by simp
  ultimately show ?thesis
    using delivery_retries_bounded [of 4 0 5 ?n empty_ops] delivery_retries_bounded [of 5 0 5 ?n empty_ops] by fastforce
qed

section \<open>Sessions\<close>

lemma sessions_simps [simp]:
  "ops_sessions (create_security_event now t a d db) = ops_sessions db"
  "ops_sessions (fst (create_notification now nd db)) = ops_sessions db"
  by (auto simp: create_security_event_def create_notification_def create_ops_outbox_def Let_def split: option.splits)

lemma sessions_device [simp]: "ops_sessions (fst (get_or_create_device now t a h ua db)) = ops_sessions db"
  by (auto simp: get_or_create_device_def Let_def split: option.splits)

lemma issue_session_effect:
  assumes "issue_session_token_pair sha lifetime now u request mfa db = (db', s, claims)"
  shows "ops_sessions db' = ops_sessions db @ [s]" "live_session (tenant_for u) (us_id u) s"
    "as_expires_at s \<le> now + lifetime" "us_is_staff u \<Longrightarrow> as_expires_at s \<le> now + seconds 1800"
    "cl_session_id claims = str_uuid (as_session_id s)"
proof -
  obtain ua fp nh where refs: "request_identity_refs sha u request = (ua, fp, nh)" by (metis prod_cases3)
  obtain db1 dev new where d: "get_or_create_device now (tenant_for u) (us_id u) fp ua db = (db1, dev, new)"
    by (metis prod_cases3)
  have "ops_sessions db1 = ops_sessions db" using sessions_device [of now "tenant_for u" "us_id u" fp ua db] d by simp
  with assms refs d show "ops_sessions db' = ops_sessions db @ [s]" "live_session (tenant_for u) (us_id u) s"
    "as_expires_at s \<le> now + lifetime" "us_is_staff u \<Longrightarrow> as_expires_at s \<le> now + seconds 1800"
    "cl_session_id claims = str_uuid (as_session_id s)"
    by (auto simp: issue_session_token_pair_def create_session_def live_session_def Let_def split: if_splits)
qed

lemma revoke_all_effect:
  assumes "revoke_sessions_after_credential_change now u ev db = (db', n)"
  shows "ops_sessions db' = upd_where (live_session (tenant_for u) (us_id u)) (\<lambda>s. s\<lparr>as_revoked_at := Some now\<rparr>) (ops_sessions db)"
    "n = obj_count (live_session (tenant_for u) (us_id u)) (ops_sessions db)"
  using assms by (auto simp: revoke_sessions_after_credential_change_def Let_def)

text \<open>
  C33. A credential change ends every session. After a login that opened session \<open>s\<close> (bounded
  by the configured lifetime, and by 30 minutes for staff), a credential change leaves the
  account no live session, counts them all, revokes \<open>s\<close> at that instant, and a later attempt to revoke
  \<open>s\<close> again answers \<open>False\<close> and changes nothing; sessions of other accounts are untouched.
\<close>

theorem credential_change_ends_sessions:
  assumes "issue_session_token_pair sha lifetime t0 u request mfa db = (db1, s, claims)"
    and "revoke_sessions_after_credential_change t1 u ev db1 = (db2, n)"
  shows "obj_count (live_session (tenant_for u) (us_id u)) (ops_sessions db2) = 0 \<and>
    n = Suc (obj_count (live_session (tenant_for u) (us_id u)) (ops_sessions db)) \<and>
    s\<lparr>as_revoked_at := Some t1\<rparr> \<in> set (ops_sessions db2) \<and>
    revoke_bound_session t2 u (as_session_id s) db2 = (db2, False) \<and>
    filter (\<lambda>x. as_account x \<noteq> us_id u) (ops_sessions db2) = filter (\<lambda>x. as_account x \<noteq> us_id u) (ops_sessions db) \<and>
    as_expires_at s \<le> t0 + (if us_is_staff u then min lifetime (seconds 1800) else lifetime)"
proof -
  let ?live = "live_session (tenant_for u) (us_id u)"
  note i = issue_session_effect [OF assms(1)] and r = revoke_all_effect [OF assms(2)]
  have dead: "\<not> ?live x" if "x \<in> set (ops_sessions db2)" for x
    using that unfolding r(1) upd_where_mem by (auto simp: live_session_def)
  then have "obj_count ?live (ops_sessions db2) = 0"
    "obj_count (\<lambda>x. as_session_id x = as_session_id s \<and> ?live x) (ops_sessions db2) = 0"
    by (auto simp: obj_count_def filter_empty_conv)
  moreover have "s\<lparr>as_revoked_at := Some t1\<rparr> \<in> set (ops_sessions db2)"
    unfolding r(1) upd_where_mem i(1) using i(2) by force
  moreover have "n = Suc (obj_count ?live (ops_sessions db))"
    unfolding r(2) i(1) using i(2) by (simp add: obj_count_def)
  moreover have "as_account s = us_id u" using i(2) by (simp add: live_session_def)
  then have "filter (\<lambda>x. as_account x \<noteq> us_id u) (ops_sessions db2) = filter (\<lambda>x. as_account x \<noteq> us_id u) (ops_sessions db)"
    unfolding r(1) by (subst filter_upd_where) (auto simp: live_session_def i(1))
  ultimately show ?thesis using i(3,4) by (auto simp: revoke_bound_session_def Let_def)
qed

definition demo_user :: ops_user where
  "demo_user = \<lparr>us_id = 4, us_brand = None, us_is_staff = True\<rparr>"

definition demo_meta :: http_meta where
  "demo_meta = \<lparr>hm_user_agent = Some ''agent'', hm_remote_addr = None\<rparr>"

theorem credential_change_ends_sessions_witness:
  "\<exists>db1 s claims db2. issue_session_token_pair id (seconds 86400) 1000000 demo_user demo_meta True empty_ops = (db1, s, claims) \<and>
     revoke_sessions_after_credential_change 5000000 demo_user ''PASSWORD_RESET'' db1 = (db2, 1) \<and>
     revoke_bound_session 6000000 demo_user (as_session_id s) db2 = (db2, False)"
proof -
  obtain db1 s claims where i:
    "issue_session_token_pair id (seconds 86400) 1000000 demo_user demo_meta True empty_ops = (db1, s, claims)"
    by (metis prod_cases3)
  obtain db2 n where r: "revoke_sessions_after_credential_change 5000000 demo_user ''PASSWORD_RESET'' db1 = (db2, n)"
    by fastforce
  note t = credential_change_ends_sessions [OF i r, of 6000000]
  then have "n = 1" by (simp add: obj_count_def empty_ops_def)
  with i r t show ?thesis
    by (intro exI [of _ db1] exI [of _ s] exI [of _ claims] exI [of _ db2] conjI) (simp_all only: simp_thms)
qed

end
