(* ===== verification/Dec_Context.thy ===== *)
theory Dec_Context
  imports Prelude Complex_Main
begin

text \<open>
  \<open>decimal.Decimal\<close> arithmetic on fractional amounts. A finite decimal is the rational it
  denotes; \<open>+\<close>, \<open>-\<close>, \<open>*\<close> and \<open>/\<close> round their exact result to the 28 significant digits of the
  default context, half to even, while comparisons, \<open>min\<close>, \<open>max\<close>, \<open>abs\<close> and the constructor
  are exact. The exponent limits of the context (\<open>10 ^ 999999\<close>) are out of reach of every
  column and are left out.
\<close>

section \<open>Rounding to the context precision\<close>

text \<open>\<open>lead_exp x\<close> is the exponent of the first significant digit of \<open>x\<close>.\<close>

definition lead_exp :: "rat \<Rightarrow> int" where
  "lead_exp x =
     (let (p, q) = quotient_of \<bar>x\<bar>;
          k = int (ndigits p) - int (ndigits q)
      in if 10 powi k \<le> \<bar>x\<bar> then k else k - 1)"

definition half_even :: "rat \<Rightarrow> int" where
  "half_even y =
     (let f = \<lfloor>y\<rfloor>; d = y - of_int f
      in if d < 1 / 2 \<or> (d = 1 / 2 \<and> even f) then f else f + 1)"

definition rnd :: "rat \<Rightarrow> rat" where
  "rnd x =
     (if x = 0 then 0
      else let e = lead_exp x - (int prec - 1)
           in of_int (half_even (x / 10 powi e)) * 10 powi e)"

definition dadd :: "rat \<Rightarrow> rat \<Rightarrow> rat" where "dadd x y = rnd (x + y)"
definition dsub :: "rat \<Rightarrow> rat \<Rightarrow> rat" where "dsub x y = rnd (x - y)"
definition dmul :: "rat \<Rightarrow> rat \<Rightarrow> rat" where "dmul x y = rnd (x * y)"
definition ddiv :: "rat \<Rightarrow> rat \<Rightarrow> rat" where "ddiv x y = rnd (x / y)"

lemmas dec_ops = dadd_def dsub_def dmul_def ddiv_def

text \<open>\<open>sum(values, Decimal("0"))\<close>: a left fold of rounded additions.\<close>

definition dsum :: "rat list \<Rightarrow> rat" where
  "dsum xs = foldl dadd 0 xs"

section \<open>What rounding keeps\<close>

text \<open>\<open>representable x\<close>: a multiple of a power of ten below the context's 28 digits.\<close>

definition representable :: "rat \<Rightarrow> bool" where
  "representable x \<longleftrightarrow> (\<exists>(m::int) (s::nat). x * 10 ^ s = of_int m \<and> \<bar>m\<bar> < dec_limit)"

lemma half_even_of_int [simp]: "half_even (of_int n) = n"
  by (simp add: half_even_def)

lemma half_even_nonneg: "0 \<le> y \<Longrightarrow> 0 \<le> half_even y"
  by (simp add: half_even_def Let_def)

lemma half_even_nonpos: "y \<le> 0 \<Longrightarrow> half_even y \<le> 0"
proof -
  assume y: "y \<le> 0"
  show ?thesis
  proof (cases "y = of_int \<lfloor>y\<rfloor>")
    case True
    then have "half_even y = \<lfloor>y\<rfloor>" by (metis half_even_of_int)
    with y show ?thesis by linarith
  next
    case False
    with y have "\<lfloor>y\<rfloor> < 0" by linarith
    then show ?thesis by (simp add: half_even_def Let_def)
  qed
qed

lemma rnd_0 [simp]: "rnd 0 = 0"
  by (simp add: rnd_def)

lemma rnd_nonneg [simp]: "0 \<le> x \<Longrightarrow> 0 \<le> rnd x"
  by (simp add: rnd_def Let_def half_even_nonneg)

lemma rnd_nonpos: "x \<le> 0 \<Longrightarrow> rnd x \<le> 0"
  by (simp add: rnd_def Let_def mult_nonpos_nonneg half_even_nonpos divide_nonpos_nonneg)

lemma ndigits_bounds: "0 < n \<Longrightarrow> 10 ^ (ndigits n - 1) \<le> n \<and> n < 10 ^ ndigits n"
proof (induction n rule: ndigits.induct)
  case (1 n)
  show ?case
  proof (cases "n < 10")
    case True
    with 1 show ?thesis by (simp add: ndigits.simps [of n])
  next
    case False
    define k where "k = ndigits (n div 10)"
    from False 1 have IH: "10 ^ (k - 1) \<le> n div 10" "n div 10 < 10 ^ k" by (simp_all add: k_def)
    have "0 < k" by (simp add: k_def ndigits.simps [of "n div 10"])
    then obtain j where j: "k = Suc j" by (cases k) auto
    from IH(1) j have "10 ^ k \<le> n" by simp
    moreover from IH(2) have "n < 10 ^ Suc k" by simp
    ultimately show ?thesis using False by (simp add: ndigits.simps [of n] k_def)
  qed
qed

lemma lead_exp:
  assumes "x \<noteq> 0"
  shows "10 powi lead_exp x \<le> \<bar>x\<bar> \<and> \<bar>x\<bar> < 10 powi (lead_exp x + 1)"
proof -
  obtain p q where pq: "quotient_of \<bar>x\<bar> = (p, q)" by (cases "quotient_of \<bar>x\<bar>")
  then have q: "0 < q" and x: "\<bar>x\<bar> = of_int p / of_int q"
    by (simp_all add: quotient_of_denom_pos quotient_of_div)
  with assms have p: "0 < p" by (metis abs_ge_zero abs_0_eq divide_eq_0_iff linorder_not_le
        of_int_0_less_iff order_less_le zero_less_divide_iff of_int_0_eq_iff)
  define a b where "a = ndigits p" and "b = ndigits q"
  have ab: "0 < a" "0 < b" by (simp_all add: a_def b_def ndigits.simps [of p] ndigits.simps [of q])
  from ndigits_bounds [OF p] ndigits_bounds [OF q]
  have P: "10 ^ (a - 1) \<le> p" "p < 10 ^ a" and Q: "10 ^ (b - 1) \<le> q" "q < 10 ^ b"
    by (simp_all add: a_def b_def)
  have P': "(10::rat) ^ (a - 1) \<le> of_int p" "of_int p < (10::rat) ^ a"
    using P by (metis of_int_le_iff of_int_power of_int_numeral, metis of_int_less_iff of_int_power of_int_numeral)
  have Q': "(10::rat) ^ (b - 1) \<le> of_int q" "of_int q < (10::rat) ^ b"
    using Q by (metis of_int_le_iff of_int_power of_int_numeral, metis of_int_less_iff of_int_power of_int_numeral)
  have lo: "10 powi (int a - int b - 1) \<le> \<bar>x\<bar>"
  proof -
    have "(10::rat) powi (int a - int b - 1) = 10 ^ (a - 1) / 10 ^ b"
      using ab by (simp add: power_int_diff power_diff)
    also have "\<dots> \<le> of_int p / of_int q"
      using P' Q' q p by (intro frac_le) auto
    finally show ?thesis using x by simp
  qed
  have hi: "\<bar>x\<bar> < 10 powi (int a - int b + 1)"
  proof -
    have "of_int p / of_int q < (10::rat) ^ a / 10 ^ (b - 1)"
      using P' Q' p by (intro frac_less) auto
    also have "\<dots> = (10::rat) powi (int a - int b + 1)"
      using ab by (simp add: power_int_add power_int_diff power_diff)
    finally show ?thesis using x by simp
  qed
  show ?thesis
    using lo hi by (auto simp: lead_exp_def pq a_def b_def Let_def)
qed

text \<open>A value that fits the context is not changed.\<close>

lemma rnd_exact: "representable x \<Longrightarrow> rnd x = x"
proof (cases "x = 0")
  case False
  assume "representable x"
  then obtain m :: int and s :: nat where m: "x * 10 ^ s = of_int m" "\<bar>m\<bar> < dec_limit"
    unfolding representable_def by blast
  define e where "e = lead_exp x - (int prec - 1)"
  have "10 powi lead_exp x * 10 ^ s \<le> \<bar>x\<bar> * 10 ^ s"
    using lead_exp [OF False] by (intro mult_right_mono) auto
  also have "\<dots> = \<bar>of_int m\<bar>" using m(1) by (metis abs_mult abs_of_nonneg zero_le_numeral zero_le_power)
  also have "\<dots> < (10::rat) powi 28" using m(2) by (simp add: power_int_def flip: of_int_abs)
  finally have "(10::rat) powi (lead_exp x + int s) < 10 powi 28" by (simp add: power_int_add)
  then have "lead_exp x + int s < 28"
    by (metis linorder_not_le one_le_numeral power_int_increasing)
  then have "e + int s \<le> 0" by (simp add: e_def prec_def)
  then obtain k where k: "e = - int s - int k"
    by (metis add.commute diff_add_cancel diff_diff_eq2 le_add_diff_inverse minus_diff_eq
        nonneg_int_cases diff_ge_0_iff_ge diff_0 neg_0_le_iff_le uminus_add_conv_diff minus_add_distrib)
  have "x / 10 powi e = x * 10 ^ s * 10 ^ k"
    by (simp add: k power_int_diff power_int_minus field_simps)
  also have "\<dots> = of_int (m * 10 ^ k)" using m(1) by simp
  finally have "half_even (x / 10 powi e) = m * 10 ^ k" by (metis half_even_of_int)
  moreover have "x = of_int (m * 10 ^ k) * 10 powi e"
    using \<open>x / 10 powi e = x * 10 ^ s * 10 ^ k\<close> m(1) by (simp add: field_simps)
  ultimately show ?thesis
    using False by (metis rnd_def e_def)
qed simp

end
