(* ===== verification/Trading_Orders.thy ===== *)
theory Trading_Orders
  imports Foundation Dec_Context
begin

text \<open>
  The trading domain: order states and their transition table
  (\<open>apps/trading/domain/orders.py\<close>), the persisted order and its repository, the order events
  and the pre-trade \<open>RiskEngine\<close> (\<open>risk/engine.py\<close>).
\<close>

section \<open>Order states\<close>

datatype order_state =
    OrdPending | OrdAccepted | OrdOpen | OrdPartiallyFilled | OrdFilled | OrdCancelPending
  | OrdCancelled | OrdRejected | OrdExpired

datatype order_type = OrdMarket | OrdLimit | OrdStop | OrdStopLimit

datatype order_side = Buy | Sell

fun order_transitions :: "order_state \<Rightarrow> order_state set" where
  "order_transitions OrdPending = {OrdAccepted, OrdRejected}"
| "order_transitions OrdAccepted = {OrdOpen, OrdCancelPending}"
| "order_transitions OrdOpen = {OrdPartiallyFilled, OrdFilled, OrdCancelPending, OrdExpired}"
| "order_transitions OrdPartiallyFilled = {OrdFilled, OrdCancelPending}"
| "order_transitions OrdCancelPending = {OrdCancelled}"
| "order_transitions _ = {}"

definition order_terminal_states :: "order_state set" where
  "order_terminal_states = {OrdFilled, OrdCancelled, OrdRejected, OrdExpired}"

definition transition_order :: "order_state \<Rightarrow> order_state \<Rightarrow> (foundation_error, order_state) res" where
  "transition_order cur target =
     (if target \<in> order_transitions cur then Inr target else Inl (FValueError ''ORDER_INVALID_STATE''))"

lemma transition_order_Inr [res_simps]:
  "transition_order cur target = Inr s \<longleftrightarrow> target \<in> order_transitions cur \<and> s = target"
  by (auto simp: transition_order_def)

text \<open>Every state without a successor is terminal, and conversely.\<close>

lemma terminal_iff: "s \<in> order_terminal_states \<longleftrightarrow> order_transitions s = {}"
  by (cases s) (simp_all add: order_terminal_states_def)

section \<open>Orders\<close>

record trading_order =
  to_id :: uuid
  to_tenant_ref :: string
  to_subject_ref :: string
  to_account_ref :: string
  to_instrument_id :: string
  to_order_type :: order_type
  to_side :: order_side
  to_quantity :: rat
  to_limit_price :: "rat option"
  to_stop_price :: "rat option"
  to_filled_quantity :: rat
  to_average_fill_price :: "rat option"
  to_risk_decision_id :: "uuid option"
  to_reservation_id :: "uuid option"
  to_state :: order_state
  to_simulation :: bool
  to_eligibility_policy_version :: string
  to_eligibility_result :: string
  to_eligibility_reason_codes :: "string list"
  to_eligibility_evaluated_at :: "timestamp option"
  to_idempotency_key :: string
  to_created_at :: timestamp
  to_updated_at :: timestamp

fun state_text :: "order_state \<Rightarrow> string" where
  "state_text OrdPending = ''PENDING''"
| "state_text OrdAccepted = ''ACCEPTED''"
| "state_text OrdOpen = ''OPEN''"
| "state_text OrdPartiallyFilled = ''PARTIALLY_FILLED''"
| "state_text OrdFilled = ''FILLED''"
| "state_text OrdCancelPending = ''CANCEL_PENDING''"
| "state_text OrdCancelled = ''CANCELLED''"
| "state_text OrdRejected = ''REJECTED''"
| "state_text OrdExpired = ''EXPIRED''"

fun side_text :: "order_side \<Rightarrow> string" where
  "side_text Buy = ''BUY''"
| "side_text Sell = ''SELL''"

fun order_type_text :: "order_type \<Rightarrow> string" where
  "order_type_text OrdMarket = ''MARKET''"
| "order_type_text OrdLimit = ''LIMIT''"
| "order_type_text OrdStop = ''STOP''"
| "order_type_text OrdStopLimit = ''STOP_LIMIT''"

text \<open>\<open>transition_persisted_order\<close> of \<open>repositories/orders.py\<close>.\<close>

definition transition_persisted_order ::
  "timestamp \<Rightarrow> uuid \<Rightarrow> order_state \<Rightarrow> trading_order list \<Rightarrow>
   (foundation_error, trading_order list \<times> trading_order) res" where
  "transition_persisted_order now order_id target t =
     (case obj_get (\<lambda>o'. to_id o' = order_id) t of
        Inl e \<Rightarrow> Inl (FDbError e)
      | Inr o0 \<Rightarrow>
          rbind (transition_order (to_state o0) target) (\<lambda>s.
            let o1 = o0\<lparr>to_state := s, to_updated_at := now\<rparr>
            in Inr (upd_where (\<lambda>o'. to_id o' = order_id) (\<lambda>_. o1) t, o1)))"

text \<open>\<open>enqueue_order_event\<close> of \<open>events/orders.py\<close>.\<close>

definition enqueue_order_event ::
  "timestamp \<Rightarrow> trading_order \<Rightarrow> string \<Rightarrow> json \<Rightarrow> uuid option \<Rightarrow> uuid option \<Rightarrow> foundation_outbox \<Rightarrow>
   (foundation_error, foundation_outbox \<times> foundation_outbox_event) res" where
  "enqueue_order_event now ord event_type payload correlation_id causation_id ob =
     (if \<not> startswith event_type ''trading.order.'' \<or> \<not> endswith event_type ''.v1''
      then Inl (FValueError ''ORDER_EVENT_TYPE_MUST_BE_VERSIONED'')
      else Inr (enqueue_event now ''order'' (str_uuid (to_id ord)) event_type payload (to_tenant_ref ord)
                  correlation_id causation_id None ob))"

section \<open>Pre-trade risk\<close>

text \<open>
  The inputs of \<open>RiskEngine.evaluate_order\<close>: an optional field is a key that may be absent from
  the dictionary. \<open>Decimal("Infinity")\<close>, the default of every upper limit, is \<open>None\<close> there;
  the available funds default to 0 and are \<open>Unbounded\<close> for \<open>Infinity\<close>.
\<close>

datatype funds = Funds rat | Unbounded

record risk_inputs =
  ri_account_status :: "string option"
  ri_simulation_eligible :: "bool option"
  ri_kyc_status :: "string option"
  ri_jurisdiction_allowed :: "bool option"
  ri_instrument_status :: "string option"
  ri_market_status :: "string option"
  ri_control_state :: "string option"
  ri_market_data_stale :: bool
  ri_provider_health :: "string option"
  ri_compliance_eligible :: bool
  ri_quantity :: rat
  ri_min_quantity :: rat
  ri_max_quantity :: "rat option"
  ri_notional :: rat
  ri_min_notional :: rat
  ri_max_notional :: "rat option"
  ri_available_funds :: funds
  ri_daily_notional :: rat
  ri_daily_notional_limit :: "rat option"
  ri_daily_loss :: rat
  ri_daily_loss_limit :: "rat option"
  ri_projected_position :: "rat option"
  ri_position_limit :: "rat option"
  ri_reference_price :: "rat option"
  ri_order_price :: "rat option"
  ri_price_band_percent :: "rat option"
  ri_manual_review_required :: bool

datatype decision = Allow | Deny | Review

record risk_result =
  rk_decision :: decision
  rk_reason_codes :: "string list"
  rk_inputs_hash :: string
  rk_policy_version :: string

definition or_default :: "'a option \<Rightarrow> 'a \<Rightarrow> 'a" where
  "or_default x d = (case x of None \<Rightarrow> d | Some v \<Rightarrow> v)"

fun above :: "rat \<Rightarrow> rat option \<Rightarrow> bool" where
  "above x None \<longleftrightarrow> False"
| "above x (Some l) \<longleftrightarrow> l < x"

fun above_funds :: "rat \<Rightarrow> funds \<Rightarrow> bool" where
  "above_funds x (Funds a) \<longleftrightarrow> a < x"
| "above_funds x Unbounded \<longleftrightarrow> False"

definition price_band_exceeded :: "rat option \<Rightarrow> rat option \<Rightarrow> rat option \<Rightarrow> bool" where
  "price_band_exceeded reference_price order_price band =
     (case (reference_price, order_price, band) of
        (Some reference, Some price, Some percent) \<Rightarrow>
          reference \<le> 0 \<or> ddiv (dmul reference percent) 100 < \<bar>dsub price reference\<bar>
      | _ \<Rightarrow> False)"

definition code_if :: "bool \<Rightarrow> string \<Rightarrow> string list" where
  "code_if b c = (if b then [c] else [])"

definition risk_reasons :: "risk_inputs \<Rightarrow> string list" where
  "risk_reasons i =
     code_if (or_default (ri_account_status i) ''ACTIVE'' \<noteq> ''ACTIVE'') ''ACCOUNT_RESTRICTED'' @
     code_if (ri_simulation_eligible i = Some False) ''SIMULATION_NOT_AUTHORIZED'' @
     code_if (or_default (ri_kyc_status i) ''APPROVED'' \<noteq> ''APPROVED'') ''COMPLIANCE_RESTRICTED'' @
     code_if (\<not> or_default (ri_jurisdiction_allowed i) True) ''JURISDICTION_RESTRICTED'' @
     code_if (or_default (ri_instrument_status i) ''ACTIVE'' \<noteq> ''ACTIVE'') ''INSTRUMENT_UNAVAILABLE'' @
     code_if (or_default (ri_market_status i) ''OPEN'' \<noteq> ''OPEN'') ''MARKET_CLOSED'' @
     code_if (or_default (ri_control_state i) ''ACTIVE'' \<in> {''HALTED'', ''MAINTENANCE''}) ''TRADING_HALTED'' @
     code_if (ri_market_data_stale i) ''MARKET_DATA_STALE'' @
     code_if (ri_provider_health i \<notin> {None, Some ''HEALTHY''}) ''PROVIDER_UNAVAILABLE'' @
     code_if (\<not> ri_compliance_eligible i) ''COMPLIANCE_RESTRICTED'' @
     code_if (ri_quantity i \<le> 0 \<or> ri_quantity i < ri_min_quantity i \<or> above (ri_quantity i) (ri_max_quantity i))
       ''QUANTITY_OUT_OF_RANGE'' @
     code_if (ri_notional i \<le> 0 \<or> ri_notional i < ri_min_notional i \<or> above (ri_notional i) (ri_max_notional i))
       ''NOTIONAL_OUT_OF_RANGE'' @
     code_if (above_funds (ri_notional i) (ri_available_funds i)) ''INSUFFICIENT_AVAILABLE_BALANCE'' @
     code_if (above (dadd (ri_notional i) (ri_daily_notional i)) (ri_daily_notional_limit i)) ''DAILY_NOTIONAL_LIMIT'' @
     code_if (above (ri_daily_loss i) (ri_daily_loss_limit i)) ''DAILY_LOSS_LIMIT'' @
     code_if (above (or_default (ri_projected_position i) (ri_quantity i)) (ri_position_limit i)) ''POSITION_LIMIT'' @
     code_if (price_band_exceeded (ri_reference_price i) (ri_order_price i) (ri_price_band_percent i))
       ''PRICE_BAND_EXCEEDED''"

text \<open>\<open>digest\<close> is \<open>payload_hash\<close> of the input dictionary.\<close>

definition evaluate_order :: "(risk_inputs \<Rightarrow> string) \<Rightarrow> risk_inputs \<Rightarrow> risk_result" where
  "evaluate_order digest i =
     (let reasons = risk_reasons i;
          review_reasons = code_if (ri_manual_review_required i) ''MANUAL_REVIEW''
      in \<lparr>rk_decision = (if reasons \<noteq> [] then Deny else if review_reasons \<noteq> [] then Review else Allow),
          rk_reason_codes = (if reasons \<noteq> [] then reasons else review_reasons),
          rk_inputs_hash = digest i, rk_policy_version = ''spot-p0-v1''\<rparr>)"

lemma code_if_Nil [simp]: "code_if b c = [] \<longleftrightarrow> \<not> b"
  by (simp add: code_if_def)

lemma set_code_if [simp]: "set (code_if b c) = (if b then {c} else {})"
  by (simp add: code_if_def)

end
