(* ===== verification/Post_Trade.thy ===== *)
theory Post_Trade
  imports Trading_Orders
begin

text \<open>
  \<open>apps/post_trade\<close>: the canonical trade captured from a fill and its way to settlement. The
  state matrix of \<open>state.py\<close>, the settlement calendar, capture, allocation, obligations, the
  settlement instruction, the confirmation, corrections and exceptions. The state is a chain of
  records: \<open>event_db\<close> holds the transactional outbox and the source of fresh keys, \<open>post_db\<close>
  adds the tables of \<open>post_trade/models.py\<close>.
\<close>

section \<open>Parameters\<close>

text \<open>
  What the code takes from outside: SHA-256, the sequence of \<open>uuid4\<close>
  values, \<open>uuid5\<close> in the URL namespace, the text of a
  decimal, \<open>date.isoformat\<close>, and \<open>col\<close>, the rounding of a \<open>numeric(36, 18)\<close> column when a
  value is stored (\<open>ratio_col\<close> for the columns of scale 8).
\<close>

record py_env =
  en_sha :: "string \<Rightarrow> string"
  en_uuid4 :: "nat \<Rightarrow> uuid"
  en_uuid5 :: "string \<Rightarrow> uuid"
  en_dtext :: "rat \<Rightarrow> string"
  en_iso_date :: "int \<Rightarrow> string"
  en_iso_time :: "timestamp \<Rightarrow> string"
  en_col :: "rat \<Rightarrow> rat"
  en_ratio_col :: "rat \<Rightarrow> rat"

text \<open>
  A stored column keeps every multiple of \<open>10 ^ -18\<close> of up to 18 integral digits, and storing
  neither reorders values nor changes their sign.
\<close>

definition grid :: "rat \<Rightarrow> bool" where
  "grid x \<longleftrightarrow> x * 10 ^ 18 \<in> \<int>"

definition column_rounding :: "(rat \<Rightarrow> rat) \<Rightarrow> bool" where
  "column_rounding col \<longleftrightarrow>
     (\<forall>x. grid x \<longrightarrow> \<bar>x\<bar> < 10 ^ 18 \<longrightarrow> col x = x) \<and> (\<forall>x y. x \<le> y \<longrightarrow> col x \<le> col y)"

lemma column_rounding_exact: "column_rounding col \<Longrightarrow> grid x \<Longrightarrow> \<bar>x\<bar> < 10 ^ 18 \<Longrightarrow> col x = x"
  by (simp add: column_rounding_def)

lemma column_rounding_mono: "column_rounding col \<Longrightarrow> x \<le> y \<Longrightarrow> col x \<le> col y"
  by (simp add: column_rounding_def)

lemma grid_0 [simp]: "grid 0"
  by (simp add: grid_def)

lemma column_rounding_0 [simp]: "column_rounding col \<Longrightarrow> col 0 = 0"
  by (simp add: column_rounding_exact)

lemma column_rounding_nonneg: "column_rounding col \<Longrightarrow> 0 \<le> x \<Longrightarrow> 0 \<le> col x"
  by (metis column_rounding_0 column_rounding_mono)

lemma grid_add [simp]: "grid x \<Longrightarrow> grid y \<Longrightarrow> grid (x + y)"
  and grid_diff [simp]: "grid x \<Longrightarrow> grid y \<Longrightarrow> grid (x - y)"
  and grid_minus [simp]: "grid (- x) = grid x"
  by (simp_all add: grid_def distrib_right left_diff_distrib)

lemma grid_representable: "grid x \<Longrightarrow> \<bar>x\<bar> < 10 ^ 10 \<Longrightarrow> representable x"
proof -
  assume g: "grid x" and b: "\<bar>x\<bar> < 10 ^ 10"
  from g obtain m where m: "x * 10 ^ 18 = of_int m" by (auto simp: grid_def elim: Ints_cases)
  from b have "\<bar>x\<bar> * 10 ^ 18 < 10 ^ 28" by simp
  then have "\<bar>x * 10 ^ 18\<bar> < 10 ^ 28" by (simp add: abs_mult)
  with m have "\<bar>m\<bar> < 10 ^ 28" by (simp flip: of_int_abs)
  with m show ?thesis unfolding representable_def by blast
qed

lemma grid_rnd: "grid x \<Longrightarrow> \<bar>x\<bar> < 10 ^ 10 \<Longrightarrow> rnd x = x"
  by (simp add: grid_representable rnd_exact)

lemma grid_sum_where: "(\<And>r. r \<in> set t \<Longrightarrow> p r \<Longrightarrow> grid (f r)) \<Longrightarrow> grid (sum_where p f t)"
  by (induction t) auto

text \<open>Amounts that both the context and the columns represent exactly.\<close>

definition exact_amount :: "rat \<Rightarrow> bool" where
  "exact_amount x \<longleftrightarrow> grid x \<and> \<bar>x\<bar> < 10 ^ 10"

lemma exact_rnd [simp]: "exact_amount x \<Longrightarrow> rnd x = x"
  by (simp add: exact_amount_def grid_rnd)

lemma exact_col: "column_rounding col \<Longrightarrow> exact_amount x \<Longrightarrow> col x = x"
  by (rule column_rounding_exact) (auto simp: exact_amount_def)

lemma exact_amount_0 [simp]: "exact_amount 0"
  by (simp add: exact_amount_def)

section \<open>Rows\<close>

datatype post_trade_state =
    PtCaptured | PtValidating | PtValidated | PtAllocationPending | PtAllocated | PtSettlementPending
  | PtSettlementInstructed | PtSettlementProcessing | PtSettled | PtException | PtFailed | PtReversed
  | PtCancelled

record post_trade =
  trd_id :: uuid
  trd_tenant_ref :: string
  trd_account_ref :: string
  trd_order_id :: uuid
  trd_execution_id :: string
  trd_instrument_id :: string
  trd_side :: order_side
  trd_quantity :: rat
  trd_price :: rat
  trd_gross_notional :: rat
  trd_trade_currency :: string
  trd_execution_provider_id :: string
  trd_venue_id :: string
  trd_execution_mode :: string
  trd_trade_time :: timestamp
  trd_captured_at :: timestamp
  trd_settlement_date :: int
  trd_state :: post_trade_state
  trd_routing_decision_id :: "uuid option"
  trd_source_event_id :: uuid
  trd_version :: nat
  trd_simulation :: bool
  trd_updated_at :: timestamp

record fee_snapshot =
  fsn_trade :: uuid
  fsn_commission :: rat
  fsn_total_fee :: rat
  fsn_currency :: string
  fsn_pricing_policy_version :: string

record trade_allocation =
  alc_id :: uuid
  alc_trade :: uuid
  alc_tenant_ref :: string
  alc_account_ref :: string
  alc_subaccount_ref :: string
  alc_strategy_ref :: string
  alc_quantity :: rat
  alc_notional :: rat
  alc_method :: string

record settlement_obligation =
  obg_id :: uuid
  obg_trade :: uuid
  obg_account_ref :: string
  obg_type :: string
  obg_asset :: string
  obg_quantity :: rat
  obg_currency :: string
  obg_amount :: rat
  obg_direction :: string
  obg_due_date :: int
  obg_state :: string
  obg_policy_version :: string

record settlement_instruction =
  ins_id :: uuid
  ins_trade :: uuid
  ins_account_ref :: string
  ins_instrument_id :: string
  ins_settlement_type :: string
  ins_settlement_date :: int
  ins_deliver_asset :: string
  ins_deliver_quantity :: rat
  ins_receive_asset :: string
  ins_receive_quantity :: rat
  ins_currency :: string
  ins_cash_amount :: rat
  ins_fee_amount :: rat
  ins_state :: string
  ins_idempotency_key :: string
  ins_policy_version :: string
  ins_simulation :: bool
  ins_updated_at :: timestamp

record trade_position_effect =
  eff_trade :: uuid
  eff_account_ref :: string
  eff_instrument_id :: string
  eff_quantity_delta :: rat
  eff_cost_basis_delta :: "rat option"
  eff_effect_type :: string
  eff_applied_at :: timestamp

record trade_confirmation =
  cnf_id :: uuid
  cnf_trade :: uuid
  cnf_account_ref :: string
  cnf_number :: string
  cnf_version :: nat
  cnf_trade_date :: int
  cnf_settlement_date :: int
  cnf_instrument_snapshot :: json
  cnf_side :: order_side
  cnf_quantity :: rat
  cnf_price :: rat
  cnf_gross_notional :: rat
  cnf_fees :: rat
  cnf_net_amount :: rat
  cnf_currency :: string
  cnf_venue_safe :: string
  cnf_execution_mode :: string
  cnf_generated_at :: timestamp
  cnf_supersedes :: "uuid option"
  cnf_status :: string

record settlement_calendar =
  cal_asset_class :: string
  cal_settlement_convention :: string
  cal_holidays :: "string list"
  cal_effective_from :: int
  cal_effective_to :: "int option"

record post_trade_exception =
  ptx_id :: uuid
  ptx_tenant_ref :: string
  ptx_account_ref :: string
  ptx_trade :: "uuid option"
  ptx_exception_type :: string
  ptx_severity :: string
  ptx_state :: string
  ptx_detected_at :: timestamp
  ptx_assigned_to :: string
  ptx_resolved_at :: "timestamp option"
  ptx_resolution_code :: string
  ptx_requested_by :: string
  ptx_approved_by :: string
  ptx_evidence_hash :: string
  ptx_updated_at :: timestamp

record trade_correction =
  cor_id :: uuid
  cor_original_trade :: uuid
  cor_correction_type :: string
  cor_reason_code :: string
  cor_requested_by :: string
  cor_approved_at :: "timestamp option"
  cor_approved_by :: string
  cor_status :: string

record post_trade_audit_row =
  pta_tenant_ref :: string
  pta_actor_ref :: string
  pta_action :: string
  pta_resource_type :: string
  pta_resource_ref :: string
  pta_evidence_hash :: string
  pta_reason :: string
  pta_occurred_at :: timestamp

record event_db =
  ev_outbox :: foundation_outbox
  ev_next :: nat

record post_db = event_db +
  pd_trades :: "post_trade list"
  pd_fees :: "fee_snapshot list"
  pd_allocations :: "trade_allocation list"
  pd_obligations :: "settlement_obligation list"
  pd_instructions :: "settlement_instruction list"
  pd_effects :: "trade_position_effect list"
  pd_confirmations :: "trade_confirmation list"
  pd_calendars :: "settlement_calendar list"
  pd_exceptions :: "post_trade_exception list"
  pd_corrections :: "trade_correction list"
  pd_audits :: "post_trade_audit_row list"

definition fresh :: "py_env \<Rightarrow> 'a event_db_scheme \<Rightarrow> uuid" where
  "fresh E db = en_uuid4 E (ev_next db)"

text \<open>\<open>ImmutableModel.delete\<close> and the guard of \<open>Trade.save\<close> on \<open>update_fields\<close>.\<close>

definition post_trade_delete :: "'d \<Rightarrow> (foundation_error, 'd) res" where
  "post_trade_delete db = Inl (FValueError ''POST_TRADE_EVIDENCE_APPEND_ONLY'')"

definition trade_save_fields_ok :: "string list \<Rightarrow> bool" where
  "trade_save_fields_ok update_fields \<longleftrightarrow>
     update_fields = [] \<or> set update_fields \<subseteq> {''trade_state'', ''version'', ''updated_at''}"

section \<open>Audit and events\<close>

abbreviation post_trade_policy :: string where
  "post_trade_policy \<equiv> ''post-trade-simulation-2026-08-v1''"

definition evidence_hash :: "py_env \<Rightarrow> json \<Rightarrow> string" where
  "evidence_hash E v = en_sha E (dumps v)"

definition post_trade_audit ::
  "py_env \<Rightarrow> timestamp \<Rightarrow> string \<Rightarrow> string \<Rightarrow> string \<Rightarrow> string \<Rightarrow> string \<Rightarrow> json \<Rightarrow> string \<Rightarrow>
   'a post_db_scheme \<Rightarrow> 'a post_db_scheme" where
  "post_trade_audit E now tenant_ref actor_ref action resource_type resource_ref evidence reason db =
     db\<lparr>pd_audits := pd_audits db @
          [\<lparr>pta_tenant_ref = tenant_ref, pta_actor_ref = actor_ref, pta_action = action,
            pta_resource_type = resource_type, pta_resource_ref = resource_ref,
            pta_evidence_hash = evidence_hash E evidence, pta_reason = reason, pta_occurred_at = now\<rparr>]\<rparr>"

definition post_trade_publish ::
  "timestamp \<Rightarrow> post_trade \<Rightarrow> string \<Rightarrow> (string \<times> json) list \<Rightarrow> 'a event_db_scheme \<Rightarrow> 'a event_db_scheme" where
  "post_trade_publish now t event_type payload db =
     db\<lparr>ev_outbox := fst (enqueue_event now ''post_trade'' (str_uuid (trd_id t)) event_type
          (JObj ([(''trade_id'', JStr (str_uuid (trd_id t))), (''account_ref'', JStr (trd_account_ref t)),
                  (''simulation'', JBool True)] @ payload))
          (trd_tenant_ref t) None None None (ev_outbox db))\<rparr>"

section \<open>The settlement calendar\<close>

text \<open>Dates are day numbers from 1970-01-01, a Thursday; \<open>date.max\<close> is 9999-12-31.\<close>

definition date_of :: "timestamp \<Rightarrow> int" where
  "date_of t = t div 86400000000"

definition weekday :: "int \<Rightarrow> int" where
  "weekday d = (d + 3) mod 7"

definition max_date :: int where
  "max_date = 2932896"

definition is_business_day :: "py_env \<Rightarrow> string list \<Rightarrow> int \<Rightarrow> bool" where
  "is_business_day E holidays d \<longleftrightarrow> weekday d < 5 \<and> en_iso_date E d \<notin> set holidays"

function advance_date :: "py_env \<Rightarrow> string list \<Rightarrow> nat \<Rightarrow> int \<Rightarrow> (foundation_error, int) res" where
  "advance_date E holidays days d =
     (if days = 0 then Inr d
      else if max_date \<le> d then Inl FArithmeticError
      else advance_date E holidays (if is_business_day E holidays (d + 1) then days - 1 else days) (d + 1))"
  by pat_completeness auto
termination
  by (relation "measure (\<lambda>(E, h, n, d). nat (max_date - d))") auto

declare advance_date.simps [simp del]

fun convention_days :: "string \<Rightarrow> nat option" where
  "convention_days c =
     (if c \<in> {''INSTANT'', ''T_PLUS_0'', ''BLOCKCHAIN_FINALITY''} then Some 0
      else if c = ''T_PLUS_1'' then Some 1
      else if c = ''T_PLUS_2'' then Some 2
      else None)"

text \<open>\<open>order_by("-k").first()\<close>: the first row among those with the greatest key.\<close>

fun obj_last_by :: "('r \<Rightarrow> int) \<Rightarrow> 'r list \<Rightarrow> 'r option" where
  "obj_last_by k [] = None"
| "obj_last_by k (r # t) =
     (case obj_last_by k t of None \<Rightarrow> Some r | Some x \<Rightarrow> Some (if k r < k x then x else r))"

definition calculate_settlement_date ::
  "py_env \<Rightarrow> int \<Rightarrow> string \<Rightarrow> settlement_calendar list \<Rightarrow>
   (foundation_error, int \<times> settlement_calendar) res" where
  "calculate_settlement_date E trade_date asset_class calendars =
     (case obj_last_by cal_effective_from
             (filter (\<lambda>c. cal_asset_class c = asset_class \<and> cal_effective_from c \<le> trade_date \<and>
                        (case cal_effective_to c of None \<Rightarrow> True | Some e \<Rightarrow> trade_date \<le> e)) calendars) of
        None \<Rightarrow> Inl (FValueError ''SETTLEMENT_CALENDAR_UNAVAILABLE'')
      | Some policy \<Rightarrow>
          (case convention_days (cal_settlement_convention policy) of
             None \<Rightarrow> Inl (FValueError ''CUSTOM_SETTLEMENT_POLICY_REQUIRED'')
           | Some days \<Rightarrow>
               rbind (advance_date E (cal_holidays policy) days trade_date) (\<lambda>d. Inr (d, policy))))"


section \<open>The state matrix\<close>

fun post_trade_transitions :: "post_trade_state \<Rightarrow> post_trade_state set" where
  "post_trade_transitions PtCaptured = {PtValidating, PtException, PtCancelled}"
| "post_trade_transitions PtValidating = {PtValidated, PtException, PtFailed}"
| "post_trade_transitions PtValidated = {PtAllocationPending, PtAllocated, PtException}"
| "post_trade_transitions PtAllocationPending = {PtAllocated, PtException}"
| "post_trade_transitions PtAllocated = {PtSettlementPending, PtException}"
| "post_trade_transitions PtSettlementPending = {PtSettlementInstructed, PtException, PtCancelled}"
| "post_trade_transitions PtSettlementInstructed =
     {PtSettlementProcessing, PtSettled, PtException, PtCancelled}"
| "post_trade_transitions PtSettlementProcessing = {PtSettled, PtException, PtFailed}"
| "post_trade_transitions PtException = {PtValidating, PtFailed, PtReversed, PtCancelled}"
| "post_trade_transitions PtSettled = {PtReversed}"
| "post_trade_transitions _ = {}"

fun post_trade_state_text :: "post_trade_state \<Rightarrow> string" where
  "post_trade_state_text PtCaptured = ''CAPTURED''"
| "post_trade_state_text PtValidating = ''VALIDATING''"
| "post_trade_state_text PtValidated = ''VALIDATED''"
| "post_trade_state_text PtAllocationPending = ''ALLOCATION_PENDING''"
| "post_trade_state_text PtAllocated = ''ALLOCATED''"
| "post_trade_state_text PtSettlementPending = ''SETTLEMENT_PENDING''"
| "post_trade_state_text PtSettlementInstructed = ''SETTLEMENT_INSTRUCTED''"
| "post_trade_state_text PtSettlementProcessing = ''SETTLEMENT_PROCESSING''"
| "post_trade_state_text PtSettled = ''SETTLED''"
| "post_trade_state_text PtException = ''EXCEPTION''"
| "post_trade_state_text PtFailed = ''FAILED''"
| "post_trade_state_text PtReversed = ''REVERSED''"
| "post_trade_state_text PtCancelled = ''CANCELLED''"

definition can_transition :: "post_trade_state \<Rightarrow> post_trade_state \<Rightarrow> bool" where
  "can_transition cur target \<longleftrightarrow> target \<in> post_trade_transitions cur"

definition get_row :: "('r \<Rightarrow> bool) \<Rightarrow> 'r list \<Rightarrow> (foundation_error, 'r) res" where
  "get_row p t = (case obj_get p t of Inl e \<Rightarrow> Inl (FDbError e) | Inr r \<Rightarrow> Inr r)"

lemma get_row_Inr [res_simps]: "get_row p t = Inr r \<longleftrightarrow> obj_get p t = Inr r"
  by (simp add: get_row_def split: sum.splits)

definition post_trade_transition ::
  "py_env \<Rightarrow> timestamp \<Rightarrow> uuid \<Rightarrow> post_trade_state \<Rightarrow> string \<Rightarrow> 'a post_db_scheme \<Rightarrow>
   (foundation_error, 'a post_db_scheme \<times> post_trade) res" where
  "post_trade_transition E now trade_id target actor_ref db =
     rbind (get_row (\<lambda>t. trd_id t = trade_id) (pd_trades db)) (\<lambda>t0.
       if \<not> can_transition (trd_state t0) target then Inl (FValueError ''INVALID_POST_TRADE_TRANSITION'')
       else
         let t1 = t0\<lparr>trd_state := target, trd_version := Suc (trd_version t0), trd_updated_at := now\<rparr>;
             db1 = db\<lparr>pd_trades := upd_where (\<lambda>t. trd_id t = trade_id) (\<lambda>_. t1) (pd_trades db)\<rparr>;
             db2 = post_trade_audit E now (trd_tenant_ref t1) actor_ref ''post_trade.state.changed'' ''trade''
                     (str_uuid (trd_id t1))
                     (JObj [(''from'', JStr (post_trade_state_text (trd_state t0))),
                            (''to'', JStr (post_trade_state_text target)),
                            (''version'', JInt (int (trd_version t1)))]) ''simulation'' db1;
             db3 = post_trade_publish now t1
                     (if target = PtValidated then ''trading.trade.validated.v1''
                      else ''post_trade.settlement.updated.v1'')
                     [(''state'', JStr (post_trade_state_text target)),
                      (''version'', JInt (int (trd_version t1)))] db2
         in Inr (db3, t1))"

section \<open>Capture\<close>

definition captured_trade ::
  "py_env \<Rightarrow> timestamp \<Rightarrow> trading_order \<Rightarrow> string \<Rightarrow> rat \<Rightarrow> rat \<Rightarrow> timestamp \<Rightarrow> uuid \<Rightarrow> int \<Rightarrow> uuid \<Rightarrow> post_trade" where
  "captured_trade E now ord execution_id quantity price executed_at source settlement_date i =
     \<lparr>trd_id = i, trd_tenant_ref = to_tenant_ref ord, trd_account_ref = to_account_ref ord,
      trd_order_id = to_id ord, trd_execution_id = execution_id, trd_instrument_id = to_instrument_id ord,
      trd_side = to_side ord, trd_quantity = en_col E quantity, trd_price = en_col E price,
      trd_gross_notional = en_col E (dmul quantity price), trd_trade_currency = ''USD'',
      trd_execution_provider_id = ''simulation'', trd_venue_id = ''SIMULATED'',
      trd_execution_mode = ''SIMULATION'', trd_trade_time = executed_at, trd_captured_at = now,
      trd_settlement_date = settlement_date, trd_state = PtCaptured, trd_routing_decision_id = None,
      trd_source_event_id = source, trd_version = 1, trd_simulation = True, trd_updated_at = now\<rparr>"

definition capture_fill ::
  "py_env \<Rightarrow> timestamp \<Rightarrow> trading_order \<Rightarrow> string \<Rightarrow> rat \<Rightarrow> rat \<Rightarrow> rat \<Rightarrow> timestamp \<Rightarrow> uuid option \<Rightarrow>
   'a post_db_scheme \<Rightarrow> (foundation_error, 'a post_db_scheme \<times> post_trade \<times> bool) res" where
  "capture_fill E now ord execution_id quantity price fee executed_at source_event_id db =
     (if quantity \<le> 0 \<or> price \<le> 0 then Inl (FValueError ''INVALID_FILL'')
      else if to_tenant_ref ord \<noteq> ''default'' \<or> \<not> to_simulation ord
      then Inl (FValueError ''TRADE_SCOPE_INVALID'')
      else
        let source = (case source_event_id of Some s \<Rightarrow> s | None \<Rightarrow> en_uuid5 E (''post-trade:'' @ execution_id))
        in rbind (calculate_settlement_date E (date_of executed_at) ''CRYPTO'' (pd_calendars db))
             (\<lambda>(settlement_date, _).
               case obj_first (\<lambda>t. trd_execution_id t = execution_id) (pd_trades db) of
                 Some t \<Rightarrow> Inr (db, t, False)
               | None \<Rightarrow>
                   if obj_exists (\<lambda>t. trd_source_event_id t = source) (pd_trades db)
                   then Inl (FDbError (IntegrityError ''source_event_id''))
                   else
                     let t = captured_trade E now ord execution_id quantity price executed_at source
                               settlement_date (fresh E db);
                         db1 = db\<lparr>pd_trades := pd_trades db @ [t], ev_next := Suc (ev_next db),
                                 pd_fees := pd_fees db @
                                   [\<lparr>fsn_trade = trd_id t, fsn_commission = en_col E fee,
                                     fsn_total_fee = en_col E fee, fsn_currency = ''USD'',
                                     fsn_pricing_policy_version = ''simulation-fee-v1''\<rparr>]\<rparr>;
                         db2 = post_trade_audit E now (trd_tenant_ref t) ''system'' ''trade.captured'' ''trade''
                                 (str_uuid (trd_id t))
                                 (JObj [(''execution_id'', JStr execution_id),
                                        (''quantity'', JStr (en_dtext E quantity)),
                                        (''price'', JStr (en_dtext E price)),
                                        (''source_event_id'', JStr (str_uuid source))]) ''simulation'' db1;
                         db3 = post_trade_publish now t ''trading.trade.captured.v1''
                                 [(''state'', JStr (post_trade_state_text (trd_state t))),
                                  (''instrument_id'', JStr (trd_instrument_id t)),
                                  (''quantity'', JStr (en_dtext E quantity))] db2
                     in Inr (db3, t, True)))"

section \<open>Allocation\<close>

record allocation_request =
  arq_account_ref :: string
  arq_quantity :: rat
  arq_method :: string
  arq_subaccount_ref :: string
  arq_strategy_ref :: string

definition same_allocation :: "uuid \<Rightarrow> allocation_request \<Rightarrow> trade_allocation \<Rightarrow> bool" where
  "same_allocation i q a \<longleftrightarrow> alc_trade a = i \<and> alc_account_ref a = arq_account_ref q \<and>
     alc_subaccount_ref a = arq_subaccount_ref q \<and> alc_strategy_ref a = arq_strategy_ref q"

definition new_allocation :: "py_env \<Rightarrow> post_trade \<Rightarrow> uuid \<Rightarrow> allocation_request \<Rightarrow> trade_allocation" where
  "new_allocation E t i q =
     \<lparr>alc_id = i, alc_trade = trd_id t, alc_tenant_ref = trd_tenant_ref t,
      alc_account_ref = arq_account_ref q, alc_subaccount_ref = arq_subaccount_ref q,
      alc_strategy_ref = arq_strategy_ref q, alc_quantity = en_col E (arq_quantity q),
      alc_notional = en_col E (dmul (arq_quantity q) (trd_price t)), alc_method = arq_method q\<rparr>"

definition get_or_create_allocation ::
  "py_env \<Rightarrow> post_trade \<Rightarrow> allocation_request \<Rightarrow> 'a post_db_scheme \<Rightarrow> 'a post_db_scheme \<times> trade_allocation" where
  "get_or_create_allocation E t q db =
     (case obj_first (same_allocation (trd_id t) q) (pd_allocations db) of
        Some a \<Rightarrow> (db, a)
      | None \<Rightarrow>
          let a = new_allocation E t (fresh E db) q
          in (db\<lparr>pd_allocations := pd_allocations db @ [a], ev_next := Suc (ev_next db)\<rparr>, a))"

fun allocate_rows ::
  "py_env \<Rightarrow> post_trade \<Rightarrow> allocation_request list \<Rightarrow> 'a post_db_scheme \<Rightarrow>
   (foundation_error, 'a post_db_scheme \<times> trade_allocation list) res" where
  "allocate_rows E t [] db = Inr (db, [])"
| "allocate_rows E t (q # qs) db =
     (if arq_account_ref q \<noteq> trd_account_ref t then Inl (FValueError ''CROSS_TENANT_ALLOCATION'')
      else
        let (db1, a) = get_or_create_allocation E t q db
        in rbind (allocate_rows E t qs db1) (\<lambda>(db2, as). Inr (db2, a # as)))"

definition allocated_quantity :: "uuid \<Rightarrow> trade_allocation list \<Rightarrow> rat" where
  "allocated_quantity i as = sum_where (\<lambda>a. alc_trade a = i) alc_quantity as"

definition default_allocation :: "post_trade \<Rightarrow> allocation_request" where
  "default_allocation t = \<lparr>arq_account_ref = trd_account_ref t, arq_quantity = trd_quantity t,
     arq_method = ''DIRECT_ACCOUNT'', arq_subaccount_ref = '''', arq_strategy_ref = ''''\<rparr>"

definition allocate ::
  "py_env \<Rightarrow> timestamp \<Rightarrow> post_trade \<Rightarrow> allocation_request list \<Rightarrow> 'a post_db_scheme \<Rightarrow>
   (foundation_error, 'a post_db_scheme \<times> trade_allocation list) res" where
  "allocate E now t allocations db =
     (let qs = (if allocations = [] then [default_allocation t] else allocations)
      in if dsum (map arq_quantity qs) \<noteq> trd_quantity t
         then Inl (FValueError ''ALLOCATION_QUANTITY_MISMATCH'')
         else
           rbind (allocate_rows E t qs db) (\<lambda>(db1, as).
             if allocated_quantity (trd_id t) (pd_allocations db1) \<noteq> trd_quantity t
             then Inl (FValueError ''ALLOCATION_QUANTITY_MISMATCH'')
             else
               Inr (post_trade_publish now t ''trading.trade.allocated.v1''
                      [(''allocation_count'', JInt (int (length as)))]
                      (post_trade_audit E now (trd_tenant_ref t) ''system'' ''trade.allocated'' ''trade''
                         (str_uuid (trd_id t))
                         (JObj [(''allocation_ids'', JArr (map (JStr \<circ> str_uuid \<circ> alc_id) as))])
                         ''simulation'' db1), as)))"


section \<open>Obligations\<close>

definition base_asset :: "string \<Rightarrow> string" where
  "base_asset instrument_id = hd (split_on CHR ''-'' instrument_id)"

text \<open>Type, asset, quantity, amount and direction of the three obligations of a trade.\<close>

definition obligation_values :: "post_trade \<Rightarrow> rat \<Rightarrow> (string \<times> string \<times> rat \<times> rat \<times> string) list" where
  "obligation_values t fee =
     (let (cash_type, asset_type) = (if trd_side t = Buy then (''CASH_DEBIT'', ''ASSET_RECEIPT'')
                                     else (''CASH_CREDIT'', ''ASSET_DELIVERY''));
          (cash_direction, asset_direction) = (if trd_side t = Buy then (''DEBIT'', ''CREDIT'')
                                               else (''CREDIT'', ''DEBIT''))
      in [(cash_type, trd_trade_currency t, 0, trd_gross_notional t, cash_direction),
          (asset_type, base_asset (trd_instrument_id t), trd_quantity t, 0, asset_direction),
          (''FEE_DEBIT'', trd_trade_currency t, 0, fee, ''DEBIT'')])"

definition obligation_row ::
  "py_env \<Rightarrow> post_trade \<Rightarrow> uuid \<Rightarrow> string \<times> string \<times> rat \<times> rat \<times> string \<Rightarrow> settlement_obligation" where
  "obligation_row E t i v =
     (case v of (kind, asset, quantity, amount, direction) \<Rightarrow>
        \<lparr>obg_id = i, obg_trade = trd_id t, obg_account_ref = trd_account_ref t, obg_type = kind,
         obg_asset = asset, obg_quantity = en_col E quantity, obg_currency = trd_trade_currency t,
         obg_amount = en_col E amount, obg_direction = direction, obg_due_date = trd_settlement_date t,
         obg_state = ''PENDING'', obg_policy_version = post_trade_policy\<rparr>)"

definition get_or_create_obligation ::
  "py_env \<Rightarrow> post_trade \<Rightarrow> string \<times> string \<times> rat \<times> rat \<times> string \<Rightarrow> 'a post_db_scheme \<Rightarrow>
   'a post_db_scheme \<times> settlement_obligation" where
  "get_or_create_obligation E t v db =
     (case obj_first (\<lambda>o'. obg_trade o' = trd_id t \<and> obg_type o' = fst v) (pd_obligations db) of
        Some o' \<Rightarrow> (db, o')
      | None \<Rightarrow>
          let o' = obligation_row E t (fresh E db) v
          in (db\<lparr>pd_obligations := pd_obligations db @ [o'], ev_next := Suc (ev_next db)\<rparr>, o'))"

fun create_obligations ::
  "py_env \<Rightarrow> post_trade \<Rightarrow> (string \<times> string \<times> rat \<times> rat \<times> string) list \<Rightarrow> 'a post_db_scheme \<Rightarrow>
   'a post_db_scheme \<times> settlement_obligation list" where
  "create_obligations E t [] db = (db, [])"
| "create_obligations E t (v # vs) db =
     (let (db1, o') = get_or_create_obligation E t v db; (db2, os) = create_obligations E t vs db1
      in (db2, o' # os))"

definition trade_obligations :: "uuid \<Rightarrow> settlement_obligation list \<Rightarrow> settlement_obligation list" where
  "trade_obligations i os = filter (\<lambda>o'. obg_trade o' = i) os"

definition obligations_valid :: "settlement_obligation list \<Rightarrow> bool" where
  "obligations_valid os \<longleftrightarrow>
     length os = 3 \<and> \<not> list_ex (\<lambda>o'. obg_amount o' < 0 \<or> obg_quantity o' < 0) os"

definition fee_of :: "uuid \<Rightarrow> 'a post_db_scheme \<Rightarrow> (foundation_error, rat) res" where
  "fee_of i db = rbind (get_row (\<lambda>f. fsn_trade f = i) (pd_fees db)) (\<lambda>f. Inr (fsn_total_fee f))"

definition calculate_obligations ::
  "py_env \<Rightarrow> timestamp \<Rightarrow> post_trade \<Rightarrow> 'a post_db_scheme \<Rightarrow>
   (foundation_error, 'a post_db_scheme \<times> settlement_obligation list) res" where
  "calculate_obligations E now t db =
     rbind (fee_of (trd_id t) db) (\<lambda>fee.
       let (db1, rows) = create_obligations E t (obligation_values t fee) db
       in if \<not> obligations_valid (trade_obligations (trd_id t) (pd_obligations db1))
          then Inl (FValueError ''SETTLEMENT_OBLIGATION_INVALID'')
          else
            Inr (post_trade_audit E now (trd_tenant_ref t) ''system'' ''settlement.obligations.created'' ''trade''
                   (str_uuid (trd_id t))
                   (JObj [(''obligation_ids'', JArr (map (JStr \<circ> str_uuid \<circ> obg_id) rows))])
                   ''simulation'' db1, rows))"

section \<open>Settlement instruction\<close>

text \<open>\<open>{row.obligation_type: row for row in trade.obligations.all()}[kind]\<close>: the last such row.\<close>

definition obligation_of :: "string \<Rightarrow> settlement_obligation list \<Rightarrow> (foundation_error, settlement_obligation) res" where
  "obligation_of kind os =
     (case obj_first (\<lambda>o'. obg_type o' = kind) (rev os) of
        None \<Rightarrow> Inl (FPyError ''KeyError'')
      | Some o' \<Rightarrow> Inr o')"

definition instruction_valid :: "settlement_instruction \<Rightarrow> bool" where
  "instruction_valid i \<longleftrightarrow>
     ins_simulation i \<and> 0 \<le> ins_deliver_quantity i \<and> 0 \<le> ins_receive_quantity i"

definition new_instruction ::
  "py_env \<Rightarrow> timestamp \<Rightarrow> post_trade \<Rightarrow> uuid \<Rightarrow> settlement_obligation \<Rightarrow> settlement_obligation \<Rightarrow>
   settlement_obligation \<Rightarrow> settlement_instruction" where
  "new_instruction E now t i cash asset fee =
     (let (deliver_asset, deliver_quantity) =
            (if trd_side t = Buy then (obg_asset cash, dadd (obg_amount cash) (obg_amount fee))
             else (obg_asset asset, obg_quantity asset));
          (receive_asset, receive_quantity) =
            (if trd_side t = Buy then (obg_asset asset, obg_quantity asset)
             else (obg_asset cash, dsub (obg_amount cash) (obg_amount fee)))
      in \<lparr>ins_id = i, ins_trade = trd_id t, ins_account_ref = trd_account_ref t,
          ins_instrument_id = trd_instrument_id t, ins_settlement_type = ''INTERNAL_SIMULATION'',
          ins_settlement_date = trd_settlement_date t, ins_deliver_asset = deliver_asset,
          ins_deliver_quantity = en_col E deliver_quantity, ins_receive_asset = receive_asset,
          ins_receive_quantity = en_col E receive_quantity, ins_currency = trd_trade_currency t,
          ins_cash_amount = en_col E (trd_gross_notional t), ins_fee_amount = en_col E (obg_amount fee),
          ins_state = ''SETTLEMENT_PENDING'',
          ins_idempotency_key = ''post-trade:'' @ str_uuid (trd_id t) @ '':'' @ post_trade_policy,
          ins_policy_version = post_trade_policy, ins_simulation = True, ins_updated_at = now\<rparr>)"

text \<open>
  \<open>validate\<close> reads the instruction object in memory; it is modelled on the stored row, whose
  quantities have the same signs.
\<close>

definition create_from_trade ::
  "py_env \<Rightarrow> timestamp \<Rightarrow> post_trade \<Rightarrow> 'a post_db_scheme \<Rightarrow>
   (foundation_error, 'a post_db_scheme \<times> settlement_instruction \<times> bool) res" where
  "create_from_trade E now t db =
     (let os = trade_obligations (trd_id t) (pd_obligations db)
      in rbind (obligation_of (if trd_side t = Buy then ''CASH_DEBIT'' else ''CASH_CREDIT'') os) (\<lambda>cash.
         rbind (obligation_of (if trd_side t = Buy then ''ASSET_RECEIPT'' else ''ASSET_DELIVERY'') os) (\<lambda>asset.
         rbind (obligation_of ''FEE_DEBIT'' os) (\<lambda>fee.
           let (db1, i, created) =
                 (case obj_first (\<lambda>i. ins_trade i = trd_id t) (pd_instructions db) of
                    Some i \<Rightarrow> (db, i, False)
                  | None \<Rightarrow>
                      let i = new_instruction E now t (fresh E db) cash asset fee;
                          db1 = db\<lparr>pd_instructions := pd_instructions db @ [i], ev_next := Suc (ev_next db)\<rparr>
                      in (post_trade_publish now t ''post_trade.settlement.pending.v1''
                            [(''settlement_id'', JStr (str_uuid (ins_id i))), (''state'', JStr (ins_state i))]
                            (post_trade_audit E now (trd_tenant_ref t) ''system'' ''settlement.instruction.created''
                               ''settlement_instruction'' (str_uuid (ins_id i))
                               (JObj [(''trade_id'', JStr (str_uuid (trd_id t))), (''simulation'', JBool True)])
                               ''simulation'' db1), i, True))
           in if \<not> instruction_valid i then Inl (FValueError ''SETTLEMENT_INSTRUCTION_INVALID'')
              else Inr (db1, i, created)))))"

definition cancel_if_permitted ::
  "timestamp \<Rightarrow> settlement_instruction \<Rightarrow> 'a post_db_scheme \<Rightarrow>
   (foundation_error, 'a post_db_scheme \<times> settlement_instruction) res" where
  "cancel_if_permitted now i db =
     (if ins_state i \<notin> {''SETTLEMENT_PENDING'', ''SETTLEMENT_INSTRUCTED''}
      then Inl (FValueError ''SETTLEMENT_CANNOT_CANCEL'')
      else
        let i1 = i\<lparr>ins_state := ''CANCELLED'', ins_updated_at := now\<rparr>
        in Inr (db\<lparr>pd_instructions := upd_where (\<lambda>x. ins_id x = ins_id i)
                     (\<lambda>x. x\<lparr>ins_state := ''CANCELLED'', ins_updated_at := now\<rparr>) (pd_instructions db)\<rparr>, i1))"

section \<open>Confirmation\<close>

definition confirmation_number :: "uuid \<Rightarrow> string" where
  "confirmation_number i = ''SIM-'' @ take 20 (upper (filter (\<lambda>c. c \<noteq> CHR ''-'') (str_uuid i)))"

definition new_confirmation :: "py_env \<Rightarrow> timestamp \<Rightarrow> post_trade \<Rightarrow> uuid \<Rightarrow> rat \<Rightarrow> trade_confirmation" where
  "new_confirmation E now t i fee =
     \<lparr>cnf_id = i, cnf_trade = trd_id t, cnf_account_ref = trd_account_ref t,
      cnf_number = confirmation_number (trd_id t), cnf_version = 1,
      cnf_trade_date = date_of (trd_trade_time t), cnf_settlement_date = trd_settlement_date t,
      cnf_instrument_snapshot =
        JObj [(''instrument_id'', JStr (trd_instrument_id t)), (''display_symbol'', JStr (trd_instrument_id t)),
              (''source'', JStr ''canonical_instrument_authority'')],
      cnf_side = trd_side t, cnf_quantity = en_col E (trd_quantity t), cnf_price = en_col E (trd_price t),
      cnf_gross_notional = en_col E (trd_gross_notional t), cnf_fees = en_col E fee,
      cnf_net_amount = en_col E (if trd_side t = Buy then dadd (trd_gross_notional t) fee
                                 else dsub (trd_gross_notional t) fee),
      cnf_currency = trd_trade_currency t, cnf_venue_safe = trd_venue_id t,
      cnf_execution_mode = trd_execution_mode t, cnf_generated_at = now, cnf_supersedes = None,
      cnf_status = ''GENERATED''\<rparr>"

definition generate_confirmation ::
  "py_env \<Rightarrow> timestamp \<Rightarrow> post_trade \<Rightarrow> 'a post_db_scheme \<Rightarrow>
   (foundation_error, 'a post_db_scheme \<times> trade_confirmation \<times> bool) res" where
  "generate_confirmation E now t db =
     rbind (fee_of (trd_id t) db) (\<lambda>fee.
       case obj_first (\<lambda>c. cnf_trade c = trd_id t \<and> cnf_version c = 1) (pd_confirmations db) of
         Some c \<Rightarrow> Inr (db, c, False)
       | None \<Rightarrow>
           if obj_exists (\<lambda>c. cnf_number c = confirmation_number (trd_id t)) (pd_confirmations db)
           then Inl (FDbError (IntegrityError ''confirmation_number''))
           else
             let c = new_confirmation E now t (fresh E db) fee;
                 db1 = db\<lparr>pd_confirmations := pd_confirmations db @ [c], ev_next := Suc (ev_next db)\<rparr>;
                 db2 = post_trade_audit E now (trd_tenant_ref t) ''system'' ''trade.confirmation.generated''
                         ''trade_confirmation'' (str_uuid (cnf_id c))
                         (JObj [(''trade_id'', JStr (str_uuid (trd_id t))), (''version'', JInt 1)])
                         ''simulation'' db1;
                 db3 = post_trade_publish now t ''post_trade.confirmation.generated.v1''
                         [(''confirmation_id'', JStr (str_uuid (cnf_id c))), (''version'', JInt 1)] db2
             in Inr (db3, c, True))"


section \<open>Corrections\<close>

definition request_correction ::
  "py_env \<Rightarrow> uuid \<Rightarrow> string \<Rightarrow> string \<Rightarrow> string \<Rightarrow> 'a post_db_scheme \<Rightarrow> 'a post_db_scheme \<times> trade_correction" where
  "request_correction E trade_id correction_type reason_code actor_ref db =
     (let c = \<lparr>cor_id = fresh E db, cor_original_trade = trade_id, cor_correction_type = correction_type,
               cor_reason_code = reason_code, cor_requested_by = actor_ref, cor_approved_at = None,
               cor_approved_by = '''', cor_status = ''PENDING''\<rparr>
      in (db\<lparr>pd_corrections := pd_corrections db @ [c], ev_next := Suc (ev_next db)\<rparr>, c))"

definition reversal_effect :: "timestamp \<Rightarrow> trade_correction \<Rightarrow> post_trade \<Rightarrow> trade_position_effect" where
  "reversal_effect now c t =
     \<lparr>eff_trade = trd_id t, eff_account_ref = trd_account_ref t, eff_instrument_id = trd_instrument_id t,
      eff_quantity_delta = (if trd_side t = Buy then - trd_quantity t else trd_quantity t),
      eff_cost_basis_delta = Some (- trd_gross_notional t), eff_effect_type = cor_correction_type c,
      eff_applied_at = now\<rparr>"

definition reversed_confirmation :: "py_env \<Rightarrow> timestamp \<Rightarrow> uuid \<Rightarrow> trade_confirmation \<Rightarrow> trade_confirmation" where
  "reversed_confirmation E now i c =
     c\<lparr>cnf_id := i, cnf_number := cnf_number c @ ''-R'' @ str_nat (Suc (cnf_version c)),
       cnf_version := Suc (cnf_version c), cnf_net_amount := - cnf_net_amount c,
       cnf_generated_at := now, cnf_supersedes := Some (cnf_id c), cnf_status := ''REVERSED''\<rparr>"

definition add_effect ::
  "trade_position_effect \<Rightarrow> 'a post_db_scheme \<Rightarrow> (foundation_error, 'a post_db_scheme) res" where
  "add_effect e db =
     (if obj_exists (\<lambda>x. eff_trade x = eff_trade e \<and> eff_effect_type x = eff_effect_type e) (pd_effects db)
      then Inl (FDbError (IntegrityError ''post_trade_position_effect_unique''))
      else Inr (db\<lparr>pd_effects := pd_effects db @ [e]\<rparr>))"

definition supersede_confirmation ::
  "py_env \<Rightarrow> timestamp \<Rightarrow> uuid \<Rightarrow> 'a post_db_scheme \<Rightarrow> (foundation_error, 'a post_db_scheme) res" where
  "supersede_confirmation E now trade_id db =
     (case obj_last_by (int \<circ> cnf_version) (filter (\<lambda>c. cnf_trade c = trade_id) (pd_confirmations db)) of
        None \<Rightarrow> Inr db
      | Some c \<Rightarrow>
          let c1 = reversed_confirmation E now (fresh E db) c
          in if obj_exists (\<lambda>x. cnf_number x = cnf_number c1) (pd_confirmations db)
             then Inl (FDbError (IntegrityError ''confirmation_number''))
             else Inr (db\<lparr>pd_confirmations := pd_confirmations db @ [c1], ev_next := Suc (ev_next db)\<rparr>))"

definition approve_correction ::
  "py_env \<Rightarrow> timestamp \<Rightarrow> uuid \<Rightarrow> string \<Rightarrow> 'a post_db_scheme \<Rightarrow>
   (foundation_error, 'a post_db_scheme \<times> trade_correction) res" where
  "approve_correction E now correction_id actor_ref db =
     rbind (get_row (\<lambda>c. cor_id c = correction_id) (pd_corrections db)) (\<lambda>c0.
       if cor_requested_by c0 = actor_ref then Inl (FValueError ''SELF_APPROVAL_FORBIDDEN'')
       else if cor_status c0 \<noteq> ''PENDING'' then Inl (FValueError ''CORRECTION_INVALID_STATE'')
       else
         rbind (get_row (\<lambda>t. trd_id t = cor_original_trade c0) (pd_trades db)) (\<lambda>t0.
         rbind (add_effect (reversal_effect now c0 t0) db) (\<lambda>db1.
           let c1 = c0\<lparr>cor_status := ''APPROVED'', cor_approved_by := actor_ref, cor_approved_at := Some now\<rparr>;
               t1 = t0\<lparr>trd_state := PtReversed, trd_version := Suc (trd_version t0), trd_updated_at := now\<rparr>;
               db2 = db1\<lparr>pd_corrections := upd_where (\<lambda>c. cor_id c = correction_id) (\<lambda>_. c1) (pd_corrections db1),
                         pd_trades := upd_where (\<lambda>t. trd_id t = trd_id t0) (\<lambda>_. t1) (pd_trades db1)\<rparr>
           in rbind (supersede_confirmation E now (trd_id t0) db2) (\<lambda>db3.
                Inr (post_trade_audit E now (trd_tenant_ref t1) actor_ref ''trade.reversed'' ''trade''
                       (str_uuid (trd_id t1))
                       (JObj [(''correction_id'', JStr (str_uuid (cor_id c1))),
                              (''type'', JStr (cor_correction_type c1))]) ''simulation'' db3, c1)))))"

section \<open>Exceptions\<close>

definition open_states :: "string set" where
  "open_states = {''OPEN'', ''ASSIGNED'', ''INVESTIGATING'', ''ESCALATED''}"

definition open_exception ::
  "py_env \<Rightarrow> timestamp \<Rightarrow> post_trade \<Rightarrow> string \<Rightarrow> string \<Rightarrow> json \<Rightarrow> 'a post_db_scheme \<Rightarrow>
   'a post_db_scheme \<times> post_trade_exception" where
  "open_exception E now t exception_type severity evidence db =
     (case obj_first (\<lambda>x. ptx_trade x = Some (trd_id t) \<and> ptx_exception_type x = exception_type \<and>
                        ptx_state x \<in> open_states) (pd_exceptions db) of
        Some x \<Rightarrow> (db, x)
      | None \<Rightarrow>
          let x = \<lparr>ptx_id = fresh E db, ptx_tenant_ref = trd_tenant_ref t, ptx_account_ref = trd_account_ref t,
                   ptx_trade = Some (trd_id t), ptx_exception_type = exception_type, ptx_severity = severity,
                   ptx_state = ''OPEN'', ptx_detected_at = now, ptx_assigned_to = '''', ptx_resolved_at = None,
                   ptx_resolution_code = '''', ptx_requested_by = '''', ptx_approved_by = '''',
                   ptx_evidence_hash =
                     evidence_hash E (if truthy evidence then evidence
                       else JObj [(''trade_id'', JStr (str_uuid (trd_id t))),
                                  (''exception_type'', JStr exception_type)]),
                   ptx_updated_at = now\<rparr>;
              db1 = db\<lparr>pd_exceptions := pd_exceptions db @ [x], ev_next := Suc (ev_next db)\<rparr>;
              db2 = post_trade_audit E now (trd_tenant_ref t) ''system'' ''post_trade.exception.opened''
                      ''post_trade_exception'' (str_uuid (ptx_id x)) (JObj [(''type'', JStr exception_type)])
                      ''simulation'' db1
          in (post_trade_publish now t ''post_trade.exception.opened.v1''
                [(''exception_id'', JStr (str_uuid (ptx_id x))), (''severity'', JStr severity)] db2, x))"

definition save_exception :: "post_trade_exception \<Rightarrow> 'a post_db_scheme \<Rightarrow> 'a post_db_scheme" where
  "save_exception x db =
     db\<lparr>pd_exceptions := upd_where (\<lambda>y. ptx_id y = ptx_id x) (\<lambda>_. x) (pd_exceptions db)\<rparr>"

definition assign_exception ::
  "py_env \<Rightarrow> timestamp \<Rightarrow> uuid \<Rightarrow> string \<Rightarrow> string \<Rightarrow> 'a post_db_scheme \<Rightarrow>
   (foundation_error, 'a post_db_scheme \<times> post_trade_exception) res" where
  "assign_exception E now exception_id actor_ref reason db =
     rbind (get_row (\<lambda>x. ptx_id x = exception_id) (pd_exceptions db)) (\<lambda>x0.
       if ptx_state x0 \<notin> {''OPEN'', ''ESCALATED''} then Inl (FValueError ''INVALID_EXCEPTION_TRANSITION'')
       else
         let x1 = x0\<lparr>ptx_assigned_to := actor_ref, ptx_state := ''ASSIGNED'',
                     ptx_requested_by := (if ptx_severity x0 = ''CRITICAL'' \<and> ptx_requested_by x0 = ''''
                                          then actor_ref else ptx_requested_by x0),
                     ptx_updated_at := now\<rparr>
         in Inr (post_trade_audit E now (ptx_tenant_ref x1) actor_ref ''post_trade.exception.assigned''
                   ''post_trade_exception'' (str_uuid (ptx_id x1)) (JObj [(''state'', JStr (ptx_state x1))])
                   reason (save_exception x1 db), x1))"

definition escalate_exception ::
  "py_env \<Rightarrow> timestamp \<Rightarrow> uuid \<Rightarrow> string \<Rightarrow> string \<Rightarrow> 'a post_db_scheme \<Rightarrow>
   (foundation_error, 'a post_db_scheme \<times> post_trade_exception) res" where
  "escalate_exception E now exception_id actor_ref reason db =
     rbind (get_row (\<lambda>x. ptx_id x = exception_id) (pd_exceptions db)) (\<lambda>x0.
       if ptx_state x0 \<notin> {''OPEN'', ''ASSIGNED'', ''INVESTIGATING''}
       then Inl (FValueError ''INVALID_EXCEPTION_TRANSITION'')
       else
         let x1 = x0\<lparr>ptx_state := ''ESCALATED'', ptx_updated_at := now\<rparr>
         in Inr (post_trade_audit E now (ptx_tenant_ref x1) actor_ref ''post_trade.exception.escalated''
                   ''post_trade_exception'' (str_uuid (ptx_id x1)) (JObj [(''state'', JStr (ptx_state x1))])
                   reason (save_exception x1 db), x1))"

definition resolve_exception ::
  "py_env \<Rightarrow> timestamp \<Rightarrow> uuid \<Rightarrow> string \<Rightarrow> string \<Rightarrow> string \<Rightarrow> 'a post_db_scheme \<Rightarrow>
   (foundation_error, 'a post_db_scheme \<times> post_trade_exception) res" where
  "resolve_exception E now exception_id actor_ref resolution_code reason db =
     rbind (get_row (\<lambda>x. ptx_id x = exception_id) (pd_exceptions db)) (\<lambda>x0.
       if ptx_state x0 = ''RESOLVED'' then Inl (FValueError ''INVALID_EXCEPTION_TRANSITION'')
       else if ptx_severity x0 = ''CRITICAL'' \<and> (ptx_requested_by x0 = '''' \<or> ptx_requested_by x0 = actor_ref)
       then Inl (FValueError ''SELF_APPROVAL_FORBIDDEN'')
       else
         let x1 = x0\<lparr>ptx_state := ''RESOLVED'', ptx_resolved_at := Some now,
                     ptx_resolution_code := resolution_code, ptx_approved_by := actor_ref,
                     ptx_updated_at := now\<rparr>;
             db1 = post_trade_audit E now (ptx_tenant_ref x1) actor_ref ''post_trade.exception.resolved''
                     ''post_trade_exception'' (str_uuid (ptx_id x1))
                     (JObj [(''resolution_code'', JStr resolution_code)]) reason (save_exception x1 db)
         in (case ptx_trade x1 of
               None \<Rightarrow> Inr (db1, x1)
             | Some i \<Rightarrow>
                 rbind (get_row (\<lambda>t. trd_id t = i) (pd_trades db1)) (\<lambda>t.
                   Inr (post_trade_publish now t ''post_trade.exception.resolved.v1''
                          [(''exception_id'', JStr (str_uuid (ptx_id x1)))] db1, x1))))"

end
