(* ===== verification/Valuation_Lots.thy ===== *)
theory Valuation_Lots
  imports Post_Trade
begin

text \<open>
  The portfolio accounting of a settled trade, \<open>apps/valuation\<close>: tax lots opened by purchases
  and disposed of first in, first out by sales (\<open>lots.py\<close>), the realised profit, the cost basis
  (\<open>cost_basis.py\<close>), the entry point \<open>process_trade_accounting\<close> (\<open>accounting.py\<close>) and the whole
  post-fill chain \<open>process_simulated_fill\<close> of \<open>apps/post_trade/processor.py\<close>.
\<close>

section \<open>Rows\<close>

record tax_lot =
  lot_id :: uuid
  lot_tenant_ref :: string
  lot_account_ref :: string
  lot_instrument_id :: string
  lot_acquisition_trade :: "uuid option"
  lot_acquisition_date :: int
  lot_original_quantity :: rat
  lot_remaining_quantity :: rat
  lot_unit_cost :: rat
  lot_total_cost :: rat
  lot_currency :: string
  lot_source_type :: string
  lot_status :: string
  lot_policy_version :: string
  lot_created_at :: timestamp

record tax_lot_disposition =
  dsp_lot :: uuid
  dsp_disposal_trade :: uuid
  dsp_quantity :: rat
  dsp_allocated_basis :: rat
  dsp_proceeds :: rat
  dsp_realized_gain_loss :: rat
  dsp_disposed_at :: timestamp
  dsp_selection_method :: string
  dsp_policy_version :: string

record cost_basis_position =
  cbp_tenant_ref :: string
  cbp_account_ref :: string
  cbp_instrument_id :: string
  cbp_quantity :: rat
  cbp_gross_cost :: rat
  cbp_allocated_fees :: rat
  cbp_adjustments :: rat
  cbp_total_cost_basis :: rat
  cbp_average_unit_cost :: rat
  cbp_currency :: string
  cbp_policy_version :: string
  cbp_as_of :: timestamp

record cost_basis_adjustment =
  cba_tenant_ref :: string
  cba_account_ref :: string
  cba_instrument_id :: string
  cba_basis_delta :: rat

record realized_pnl_event =
  rpl_id :: uuid
  rpl_tenant_ref :: string
  rpl_account_ref :: string
  rpl_instrument_id :: string
  rpl_disposal_trade :: uuid
  rpl_quantity :: rat
  rpl_proceeds :: rat
  rpl_allocated_cost_basis :: rat
  rpl_fees :: rat
  rpl_realized_pnl :: rat
  rpl_currency :: string
  rpl_base_currency_pnl :: rat
  rpl_lot_method :: string
  rpl_policy_version :: string
  rpl_realized_at :: timestamp
  rpl_simulation :: bool

record income_expense_event =
  iee_tenant_ref :: string
  iee_account_ref :: string
  iee_instrument_id :: string
  iee_event_type :: string
  iee_amount :: rat
  iee_currency :: string
  iee_source_ref :: string
  iee_effective_at :: timestamp
  iee_policy_version :: string
  iee_simulation :: bool

record valuation_audit_row =
  vau_tenant_ref :: string
  vau_actor_ref :: string
  vau_action :: string
  vau_resource_type :: string
  vau_resource_ref :: string
  vau_evidence_hash :: string
  vau_occurred_at :: timestamp

record val_db = post_db +
  vd_lots :: "tax_lot list"
  vd_dispositions :: "tax_lot_disposition list"
  vd_cost_basis :: "cost_basis_position list"
  vd_adjustments :: "cost_basis_adjustment list"
  vd_realized :: "realized_pnl_event list"
  vd_income :: "income_expense_event list"
  vd_audits :: "valuation_audit_row list"

abbreviation valuation_policy :: string where "valuation_policy \<equiv> ''SIMULATION_VALUATION_V1''"
abbreviation lot_policy :: string where "lot_policy \<equiv> ''SIMULATION_FIFO_V1''"

definition valuation_audit ::
  "py_env \<Rightarrow> timestamp \<Rightarrow> string \<Rightarrow> string \<Rightarrow> string \<Rightarrow> uuid \<Rightarrow> json \<Rightarrow> 'a val_db_scheme \<Rightarrow> 'a val_db_scheme" where
  "valuation_audit E now tenant_ref action resource_type resource evidence db =
     db\<lparr>vd_audits := vd_audits db @
          [\<lparr>vau_tenant_ref = tenant_ref, vau_actor_ref = ''system'', vau_action = action,
            vau_resource_type = resource_type, vau_resource_ref = str_uuid resource,
            vau_evidence_hash = evidence_hash E evidence, vau_occurred_at = now\<rparr>]\<rparr>"

section \<open>Opening a lot\<close>

definition open_for_trade ::
  "py_env \<Rightarrow> timestamp \<Rightarrow> post_trade \<Rightarrow> 'a val_db_scheme \<Rightarrow>
   (foundation_error, 'a val_db_scheme \<times> tax_lot \<times> bool) res" where
  "open_for_trade E now t db =
     (if trd_side t \<noteq> Buy then Inl (FValueError ''ACQUISITION_TRADE_REQUIRED'')
      else
        rbind (fee_of (trd_id t) db) (\<lambda>fee.
          let total = dadd (trd_gross_notional t) fee
          in if trd_quantity t = 0 then Inl FArithmeticError
             else
               (case obj_first (\<lambda>l. lot_acquisition_trade l = Some (trd_id t)) (vd_lots db) of
                  Some l \<Rightarrow> Inr (db, l, False)
                | None \<Rightarrow>
                    let l = \<lparr>lot_id = fresh E db, lot_tenant_ref = trd_tenant_ref t,
                             lot_account_ref = trd_account_ref t, lot_instrument_id = trd_instrument_id t,
                             lot_acquisition_trade = Some (trd_id t),
                             lot_acquisition_date = date_of (trd_trade_time t),
                             lot_original_quantity = en_col E (trd_quantity t),
                             lot_remaining_quantity = en_col E (trd_quantity t),
                             lot_unit_cost = en_col E (ddiv total (trd_quantity t)),
                             lot_total_cost = en_col E total, lot_currency = trd_trade_currency t,
                             lot_source_type = ''TRADE'', lot_status = ''OPEN'',
                             lot_policy_version = valuation_policy, lot_created_at = now\<rparr>
                    in Inr (valuation_audit E now (trd_tenant_ref t) ''valuation.tax_lot.opened'' ''TaxLot''
                              (lot_id l) (JObj [(''trade'', JStr (str_uuid (trd_id t))),
                                                (''policy'', JStr lot_policy)])
                              (db\<lparr>vd_lots := vd_lots db @ [l], ev_next := Suc (ev_next db)\<rparr>), l, True))))"

section \<open>Disposal, first in first out\<close>

definition lot_of :: "string \<Rightarrow> string \<Rightarrow> string \<Rightarrow> tax_lot \<Rightarrow> bool" where
  "lot_of tenant_ref account_ref instrument_id l \<longleftrightarrow>
     lot_tenant_ref l = tenant_ref \<and> lot_account_ref l = account_ref \<and>
     lot_instrument_id l = instrument_id \<and> 0 < lot_remaining_quantity l"

text \<open>\<open>order_by("acquisition_date", "created_at", "id")\<close>.\<close>

definition fifo_le :: "tax_lot \<Rightarrow> tax_lot \<Rightarrow> bool" where
  "fifo_le a b \<longleftrightarrow>
     (let ka = (lot_acquisition_date a, lot_created_at a, int (lot_id a));
          kb = (lot_acquisition_date b, lot_created_at b, int (lot_id b))
      in fst ka < fst kb \<or> (fst ka = fst kb \<and>
           (fst (snd ka) < fst (snd kb) \<or> (fst (snd ka) = fst (snd kb) \<and> snd (snd ka) \<le> snd (snd kb)))))"

fun fifo_insert :: "tax_lot \<Rightarrow> tax_lot list \<Rightarrow> tax_lot list" where
  "fifo_insert l [] = [l]"
| "fifo_insert l (m # ms) = (if fifo_le l m then l # m # ms else m # fifo_insert l ms)"

definition fifo_sort :: "tax_lot list \<Rightarrow> tax_lot list" where
  "fifo_sort ls = foldr fifo_insert ls []"

text \<open>The body of the disposal loop: what one lot gives up, and what its row becomes.\<close>

definition disposition_row ::
  "py_env \<Rightarrow> post_trade \<Rightarrow> tax_lot \<Rightarrow> rat \<Rightarrow> tax_lot_disposition" where
  "disposition_row E t l quantity =
     (let basis = dmul quantity (lot_unit_cost l);
          proceeds = ddiv (dmul (trd_gross_notional t) quantity) (trd_quantity t)
      in \<lparr>dsp_lot = lot_id l, dsp_disposal_trade = trd_id t, dsp_quantity = en_col E quantity,
          dsp_allocated_basis = en_col E basis, dsp_proceeds = en_col E proceeds,
          dsp_realized_gain_loss = en_col E (dsub proceeds basis), dsp_disposed_at = trd_trade_time t,
          dsp_selection_method = lot_policy, dsp_policy_version = valuation_policy\<rparr>)"

definition reduced_lot :: "py_env \<Rightarrow> tax_lot \<Rightarrow> rat \<Rightarrow> tax_lot" where
  "reduced_lot E l quantity =
     (let remaining = dsub (lot_remaining_quantity l) quantity
      in l\<lparr>lot_remaining_quantity := en_col E remaining,
           lot_status := (if remaining = 0 then ''CLOSED'' else ''PARTIALLY_DISPOSED'')\<rparr>)"

fun dispose_lots ::
  "py_env \<Rightarrow> post_trade \<Rightarrow> tax_lot list \<Rightarrow> rat \<Rightarrow> rat \<Rightarrow> 'a val_db_scheme \<Rightarrow> 'a val_db_scheme \<times> rat" where
  "dispose_lots E t [] needed basis db = (db, basis)"
| "dispose_lots E t (l # ls) needed basis db =
     (if needed \<le> 0 then (db, basis)
      else
        let quantity = min needed (lot_remaining_quantity l)
        in dispose_lots E t ls (dsub needed quantity) (dadd basis (dmul quantity (lot_unit_cost l)))
             (db\<lparr>vd_dispositions := vd_dispositions db @ [disposition_row E t l quantity],
                vd_lots := upd_where (\<lambda>x. lot_id x = lot_id l) (\<lambda>_. reduced_lot E l quantity) (vd_lots db)\<rparr>))"

definition realized_event :: "py_env \<Rightarrow> post_trade \<Rightarrow> uuid \<Rightarrow> rat \<Rightarrow> rat \<Rightarrow> realized_pnl_event" where
  "realized_event E t i allocated_basis fee =
     (let pnl = dsub (dsub (trd_gross_notional t) allocated_basis) fee
      in \<lparr>rpl_id = i, rpl_tenant_ref = trd_tenant_ref t, rpl_account_ref = trd_account_ref t,
          rpl_instrument_id = trd_instrument_id t, rpl_disposal_trade = trd_id t,
          rpl_quantity = en_col E (trd_quantity t), rpl_proceeds = en_col E (trd_gross_notional t),
          rpl_allocated_cost_basis = en_col E allocated_basis, rpl_fees = en_col E fee,
          rpl_realized_pnl = en_col E pnl, rpl_currency = trd_trade_currency t,
          rpl_base_currency_pnl = en_col E pnl, rpl_lot_method = lot_policy,
          rpl_policy_version = valuation_policy, rpl_realized_at = trd_trade_time t,
          rpl_simulation = True\<rparr>)"

definition dispose_fifo ::
  "py_env \<Rightarrow> timestamp \<Rightarrow> post_trade \<Rightarrow> 'a val_db_scheme \<Rightarrow>
   (foundation_error, 'a val_db_scheme \<times> realized_pnl_event \<times> bool) res" where
  "dispose_fifo E now t db =
     (case obj_first (\<lambda>e. rpl_disposal_trade e = trd_id t) (vd_realized db) of
        Some e \<Rightarrow> Inr (db, e, False)
      | None \<Rightarrow>
          let lots = fifo_sort (filter (lot_of (trd_tenant_ref t) (trd_account_ref t) (trd_instrument_id t))
                                  (vd_lots db))
          in if dsum (map lot_remaining_quantity lots) < trd_quantity t
             then Inl (FValueError ''TAX_LOT_INSUFFICIENT_QUANTITY'')
             else
               let (db1, allocated_basis) = dispose_lots E t lots (trd_quantity t) 0 db
               in rbind (fee_of (trd_id t) db1) (\<lambda>fee.
                    let e = realized_event E t (fresh E db1) allocated_basis fee
                    in Inr (valuation_audit E now (trd_tenant_ref t) ''valuation.realized_pnl.generated''
                              ''RealizedPnLEvent'' (rpl_id e)
                              (JObj [(''trade'', JStr (str_uuid (trd_id t))),
                                     (''basis'', JStr (en_dtext E allocated_basis)),
                                     (''policy'', JStr lot_policy)])
                              (db1\<lparr>vd_realized := vd_realized db1 @ [e], ev_next := Suc (ev_next db1)\<rparr>),
                            e, True)))"

section \<open>Cost basis\<close>

definition cost_basis_row ::
  "py_env \<Rightarrow> timestamp \<Rightarrow> string \<Rightarrow> string \<Rightarrow> string \<Rightarrow> 'a val_db_scheme \<Rightarrow> cost_basis_position" where
  "cost_basis_row E now tenant_ref account_ref instrument_id db =
     (let lots = filter (lot_of tenant_ref account_ref instrument_id) (vd_lots db);
          quantity = sum_list (map lot_remaining_quantity lots);
          gross = dsum (map (\<lambda>l. dmul (lot_remaining_quantity l) (lot_unit_cost l)) lots);
          adjustments = sum_where (\<lambda>a. cba_tenant_ref a = tenant_ref \<and> cba_account_ref a = account_ref \<and>
                                       cba_instrument_id a = instrument_id) cba_basis_delta (vd_adjustments db);
          total = dadd gross adjustments
      in \<lparr>cbp_tenant_ref = tenant_ref, cbp_account_ref = account_ref, cbp_instrument_id = instrument_id,
          cbp_quantity = en_col E quantity, cbp_gross_cost = en_col E gross, cbp_allocated_fees = 0,
          cbp_adjustments = en_col E adjustments, cbp_total_cost_basis = en_col E total,
          cbp_average_unit_cost = en_col E (if quantity \<noteq> 0 then ddiv total quantity else 0),
          cbp_currency = (case lots of [] \<Rightarrow> ''USD'' | l # _ \<Rightarrow> lot_currency l),
          cbp_policy_version = valuation_policy, cbp_as_of = now\<rparr>)"

definition basis_key :: "string \<Rightarrow> string \<Rightarrow> string \<Rightarrow> cost_basis_position \<Rightarrow> bool" where
  "basis_key tenant_ref account_ref instrument_id p \<longleftrightarrow>
     cbp_tenant_ref p = tenant_ref \<and> cbp_account_ref p = account_ref \<and> cbp_instrument_id p = instrument_id"

definition calculate_cost_basis ::
  "py_env \<Rightarrow> timestamp \<Rightarrow> string \<Rightarrow> string \<Rightarrow> string \<Rightarrow> 'a val_db_scheme \<Rightarrow>
   'a val_db_scheme \<times> cost_basis_position" where
  "calculate_cost_basis E now tenant_ref account_ref instrument_id db =
     (let p = cost_basis_row E now tenant_ref account_ref instrument_id db;
          known = obj_exists (basis_key tenant_ref account_ref instrument_id) (vd_cost_basis db)
      in (db\<lparr>vd_cost_basis :=
                if known then upd_where (basis_key tenant_ref account_ref instrument_id) (\<lambda>_. p) (vd_cost_basis db)
                else vd_cost_basis db @ [p]\<rparr>, p))"

definition validate_cost_basis :: "cost_basis_position \<Rightarrow> (foundation_error, bool) res" where
  "validate_cost_basis p =
     (if cbp_quantity p < 0 \<or> cbp_total_cost_basis p < 0 then Inl (FValueError ''COST_BASIS_INVALID'')
      else Inr True)"

section \<open>Accounting of a trade and the post-fill chain\<close>

definition commission_event :: "py_env \<Rightarrow> post_trade \<Rightarrow> rat \<Rightarrow> income_expense_event" where
  "commission_event E t fee =
     \<lparr>iee_tenant_ref = trd_tenant_ref t, iee_account_ref = trd_account_ref t,
      iee_instrument_id = trd_instrument_id t, iee_event_type = ''COMMISSION'', iee_amount = en_col E (- fee),
      iee_currency = trd_trade_currency t, iee_source_ref = str_uuid (trd_id t),
      iee_effective_at = trd_trade_time t, iee_policy_version = valuation_policy, iee_simulation = True\<rparr>"

definition record_commission :: "py_env \<Rightarrow> post_trade \<Rightarrow> rat \<Rightarrow> 'a val_db_scheme \<Rightarrow> 'a val_db_scheme" where
  "record_commission E t fee db =
     (if fee = 0 \<or> obj_exists (\<lambda>e. iee_event_type e = ''COMMISSION'' \<and>
                               iee_source_ref e = str_uuid (trd_id t)) (vd_income db) then db
      else db\<lparr>vd_income := vd_income db @ [commission_event E t fee]\<rparr>)"

definition process_trade_accounting ::
  "py_env \<Rightarrow> timestamp \<Rightarrow> post_trade \<Rightarrow> 'a val_db_scheme \<Rightarrow> (foundation_error, 'a val_db_scheme) res" where
  "process_trade_accounting E now t db =
     rbind (if trd_side t = Buy then rbind (open_for_trade E now t db) (\<lambda>(db1, _, _). Inr db1)
            else rbind (dispose_fifo E now t db) (\<lambda>(db1, _, _). Inr db1)) (\<lambda>db1.
     rbind (fee_of (trd_id t) db1) (\<lambda>fee.
       Inr (fst (calculate_cost_basis E now (trd_tenant_ref t) (trd_account_ref t) (trd_instrument_id t)
                   (record_commission E t fee db1)))))"

definition trade_effect :: "timestamp \<Rightarrow> post_trade \<Rightarrow> trade_position_effect" where
  "trade_effect now t =
     \<lparr>eff_trade = trd_id t, eff_account_ref = trd_account_ref t, eff_instrument_id = trd_instrument_id t,
      eff_quantity_delta = (if trd_side t = Buy then trd_quantity t else - trd_quantity t),
      eff_cost_basis_delta = Some (if trd_side t = Buy then trd_gross_notional t else - trd_gross_notional t),
      eff_effect_type = ''TRADE'', eff_applied_at = now\<rparr>"

definition settle_instruction :: "timestamp \<Rightarrow> settlement_instruction \<Rightarrow> 'a post_db_scheme \<Rightarrow> 'a post_db_scheme" where
  "settle_instruction now i db =
     db\<lparr>pd_instructions := upd_where (\<lambda>x. ins_id x = ins_id i)
          (\<lambda>x. x\<lparr>ins_state := ''SETTLED'', ins_updated_at := now\<rparr>) (pd_instructions db)\<rparr>"

text \<open>From \<open>VALIDATING\<close> to \<open>SETTLED\<close>, in the order of the code.\<close>

definition settle_captured ::
  "py_env \<Rightarrow> timestamp \<Rightarrow> post_trade \<Rightarrow> 'a post_db_scheme \<Rightarrow>
   (foundation_error, 'a post_db_scheme \<times> post_trade) res" where
  "settle_captured E now t db1 =
     (let go = (\<lambda>target d. post_trade_transition E now (trd_id t) target ''system'' d)
      in rbind (go PtValidating db1) (\<lambda>(db2, _).
         rbind (go PtValidated db2) (\<lambda>(db3, t3).
         rbind (allocate E now t3 [] db3) (\<lambda>(db4, _).
         rbind (go PtAllocated db4) (\<lambda>(db5, t5).
         rbind (calculate_obligations E now t5 db5) (\<lambda>(db6, _).
         rbind (add_effect (trade_effect now t5) db6) (\<lambda>db7.
         rbind (go PtSettlementPending db7) (\<lambda>(db8, t8).
         rbind (create_from_trade E now t8 db8) (\<lambda>(db9, i, _).
         rbind (go PtSettlementInstructed db9) (\<lambda>(db10, t10).
         rbind (generate_confirmation E now t10 db10) (\<lambda>(db11, _, _).
         rbind (go PtSettlementProcessing db11) (\<lambda>(db12, _).
         rbind (go PtSettled db12) (\<lambda>(db13, t13).
           Inr (settle_instruction now i db13, t13))))))))))))))"

definition process_simulated_fill ::
  "py_env \<Rightarrow> timestamp \<Rightarrow> trading_order \<Rightarrow> string \<Rightarrow> rat \<Rightarrow> rat \<Rightarrow> rat \<Rightarrow> timestamp \<Rightarrow> 'a val_db_scheme \<Rightarrow>
   (foundation_error, 'a val_db_scheme \<times> post_trade \<times> bool) res" where
  "process_simulated_fill E now ord execution_id quantity price fee executed_at db =
     rbind (capture_fill E now ord execution_id quantity price fee executed_at None db) (\<lambda>(db1, t, created).
     if \<not> created then Inr (db1, t, False)
     else
       rbind (settle_captured E now t db1) (\<lambda>(db14, t13).
       rbind (process_trade_accounting E now t13 db14) (\<lambda>db15.
         Inr (db15, t13, True))))"

end
