(* ===== verification/Trading_Financial.thy ===== *)
theory Trading_Financial
  imports Valuation_Lots
begin

text \<open>
  Simulated money: the accounts, reservations and positions of \<open>apps/trading/models.py\<close>, the
  account identity of \<open>application/accounts.py\<close> and \<open>SimulatedFinancialAdapter\<close>
  (\<open>integrations/financial/simulated.py\<close>), which reserves, releases and settles. \<open>sim_db\<close> adds
  the trading tables to the chain of states.
\<close>

section \<open>Rows\<close>

datatype reservation_state = ResActive | ResReleased | ResConsumed

record simulated_account =
  sa_id :: uuid
  sa_tenant_ref :: string
  sa_subject_ref :: string
  sa_account_ref :: string
  sa_status :: string
  sa_quote_currency :: string
  sa_total_balance :: rat
  sa_pending_balance :: rat

record trading_account =
  ta_id :: uuid
  ta_tenant_ref :: string
  ta_subject_ref :: string
  ta_account_ref :: string
  ta_execution_mode :: string
  ta_base_currency :: string
  ta_status :: string
  ta_trading_enabled :: bool
  ta_funding_enabled :: bool
  ta_withdrawals_enabled :: bool
  ta_paper_projection :: "uuid option"

record simulated_reservation =
  rsv_id :: uuid
  rsv_account :: uuid
  rsv_order_id :: uuid
  rsv_asset :: string
  rsv_original_amount :: rat
  rsv_remaining_amount :: rat
  rsv_state :: reservation_state

record simulated_trade =
  st_order :: uuid
  st_execution_id :: string
  st_instrument_id :: string
  st_side :: order_side
  st_quantity :: rat
  st_price :: rat
  st_fee :: rat
  st_executed_at :: timestamp

record simulated_position =
  sp_id :: uuid
  sp_account :: uuid
  sp_instrument_id :: string
  sp_quantity :: rat
  sp_average_price :: rat
  sp_realized_pnl :: rat

record execution_routing_decision =
  rd_id :: uuid
  rd_order :: "uuid option"
  rd_reference_price :: rat
  rd_revision :: nat
  rd_created_at :: timestamp

record execution_quality_report =
  qr_id :: uuid
  qr_order :: uuid
  qr_routing_decision :: uuid
  qr_reference_price :: rat
  qr_execution_price :: rat
  qr_filled_quantity :: rat
  qr_slippage_bps :: rat
  qr_price_improvement_amount :: rat
  qr_price_improvement_bps :: rat
  qr_measurement_version :: string
  qr_evidence_hash :: string
  qr_fees :: rat
  qr_fill_rate :: rat
  qr_unfilled_quantity :: rat
  qr_quality_state :: string
  qr_revision :: nat
  qr_supersedes :: "uuid option"

record sim_db = val_db +
  sd_orders :: "trading_order list"
  sd_accounts :: "simulated_account list"
  sd_trading_accounts :: "trading_account list"
  sd_reservations :: "simulated_reservation list"
  sd_trades :: "simulated_trade list"
  sd_positions :: "simulated_position list"
  sd_routing :: "execution_routing_decision list"
  sd_quality :: "execution_quality_report list"
  sd_audits :: "application_audit_event list"

section \<open>Account identity\<close>

definition paper_identity :: "simulated_account \<Rightarrow> trading_account" where
  "paper_identity p =
     \<lparr>ta_id = sa_id p, ta_tenant_ref = sa_tenant_ref p, ta_subject_ref = sa_subject_ref p,
      ta_account_ref = sa_account_ref p, ta_execution_mode = ''PAPER'',
      ta_base_currency = sa_quote_currency p, ta_status = sa_status p,
      ta_trading_enabled = (sa_status p = ''ACTIVE''), ta_funding_enabled = False,
      ta_withdrawals_enabled = False, ta_paper_projection = Some (sa_id p)\<rparr>"

definition identity_matches :: "trading_account \<Rightarrow> simulated_account \<Rightarrow> bool" where
  "identity_matches a p \<longleftrightarrow>
     ta_tenant_ref a = sa_tenant_ref p \<and> ta_subject_ref a = sa_subject_ref p \<and>
     ta_account_ref a = sa_account_ref p \<and> ta_base_currency a = sa_quote_currency p \<and>
     ta_execution_mode a = ''PAPER''"

text \<open>
  Creating the identity can hit the primary key, the scope constraint or the status check of the
  table; \<open>get_or_create\<close> then looks the projection up once more and re-raises.
\<close>

definition identity_insertable :: "trading_account \<Rightarrow> trading_account list \<Rightarrow> bool" where
  "identity_insertable a t \<longleftrightarrow>
     \<not> list_ex (\<lambda>x. ta_id x = ta_id a \<or>
        (ta_tenant_ref x = ta_tenant_ref a \<and> ta_subject_ref x = ta_subject_ref a \<and>
         ta_account_ref x = ta_account_ref a)) t \<and>
     ta_status a \<in> {''PENDING'', ''ACTIVE'', ''RESTRICTED'', ''SUSPENDED'', ''CLOSED''}"

definition ensure_paper_identity ::
  "simulated_account \<Rightarrow> 'a sim_db_scheme \<Rightarrow> (foundation_error, 'a sim_db_scheme \<times> trading_account) res" where
  "ensure_paper_identity p db =
     rbind (get_row (\<lambda>a. sa_id a = sa_id p) (sd_accounts db)) (\<lambda>_.
     rbind (case obj_first (\<lambda>a. ta_paper_projection a = Some (sa_id p)) (sd_trading_accounts db) of
              Some a \<Rightarrow> Inr (db, a)
            | None \<Rightarrow>
                if \<not> identity_insertable (paper_identity p) (sd_trading_accounts db)
                then Inl (FDbError (IntegrityError ''trading_account''))
                else Inr (db\<lparr>sd_trading_accounts := sd_trading_accounts db @ [paper_identity p]\<rparr>,
                          paper_identity p)) (\<lambda>(db1, a).
       if \<not> identity_matches a p then Inl (FValueError ''ACCOUNT_PROJECTION_MISMATCH'')
       else Inr (db1, a)))"

definition serialize_trading_account :: "trading_account \<Rightarrow> (string \<times> json) list" where
  "serialize_trading_account a =
     [(''account_id'', JStr (str_uuid (ta_id a))), (''execution_mode'', JStr (ta_execution_mode a)),
      (''base_currency'', JStr (ta_base_currency a)), (''status'', JStr (ta_status a)),
      (''trading_enabled'', JBool (ta_trading_enabled a)), (''funding_enabled'', JBool (ta_funding_enabled a)),
      (''withdrawals_enabled'', JBool (ta_withdrawals_enabled a))]"

section \<open>Reserve, release, settle\<close>

definition fee_rate :: rat where "fee_rate = 1 / 1000"

definition reserved_sum :: "uuid \<Rightarrow> string \<Rightarrow> simulated_reservation list \<Rightarrow> rat" where
  "reserved_sum account asset rs =
     sum_where (\<lambda>r. rsv_account r = account \<and> rsv_state r = ResActive \<and> rsv_asset r = asset)
       rsv_remaining_amount rs"

definition available_quote :: "simulated_account \<Rightarrow> simulated_reservation list \<Rightarrow> rat" where
  "available_quote a rs =
     dsub (dsub (sa_total_balance a) (sa_pending_balance a)) (reserved_sum (sa_id a) (sa_quote_currency a) rs)"

definition position_key :: "uuid \<Rightarrow> string \<Rightarrow> simulated_position \<Rightarrow> bool" where
  "position_key account instrument_id p \<longleftrightarrow> sp_account p = account \<and> sp_instrument_id p = instrument_id"

definition new_reservation ::
  "py_env \<Rightarrow> uuid \<Rightarrow> uuid \<Rightarrow> uuid \<Rightarrow> string \<Rightarrow> rat \<Rightarrow> simulated_reservation" where
  "new_reservation E i account order_id asset amount =
     \<lparr>rsv_id = i, rsv_account = account, rsv_order_id = order_id, rsv_asset = asset,
      rsv_original_amount = en_col E amount, rsv_remaining_amount = en_col E amount, rsv_state = ResActive\<rparr>"

text \<open>The amount and the asset a new order needs, when they are free.\<close>

definition reservation_need ::
  "simulated_account \<Rightarrow> string \<Rightarrow> order_side \<Rightarrow> rat \<Rightarrow> rat \<Rightarrow> 'a sim_db_scheme \<Rightarrow>
   (foundation_error, rat \<times> string) res" where
  "reservation_need a instrument_id side quantity price db =
     (case side of
        Buy \<Rightarrow>
          let amount = dmul (dmul quantity price) (dadd 1 fee_rate)
          in if available_quote a (sd_reservations db) < amount
             then Inl (FValueError ''INSUFFICIENT_AVAILABLE_BALANCE'')
             else Inr (amount, sa_quote_currency a)
      | Sell \<Rightarrow>
          let asset = base_asset instrument_id;
              already = reserved_sum (sa_id a) asset (sd_reservations db)
          in (case obj_first (position_key (sa_id a) instrument_id) (sd_positions db) of
                None \<Rightarrow> Inl (FValueError ''INSUFFICIENT_AVAILABLE_POSITION'')
              | Some p \<Rightarrow>
                  if dsub (sp_quantity p) already < quantity
                  then Inl (FValueError ''INSUFFICIENT_AVAILABLE_POSITION'')
                  else Inr (quantity, asset)))"

definition reserve_funds ::
  "py_env \<Rightarrow> uuid \<Rightarrow> uuid \<Rightarrow> string \<Rightarrow> order_side \<Rightarrow> rat \<Rightarrow> rat \<Rightarrow> 'a sim_db_scheme \<Rightarrow>
   (foundation_error, 'a sim_db_scheme \<times> simulated_reservation) res" where
  "reserve_funds E account_id order_id instrument_id side quantity price db =
     rbind (get_row (\<lambda>a. sa_id a = account_id) (sd_accounts db)) (\<lambda>a.
     rbind (reservation_need a instrument_id side quantity price db) (\<lambda>(amount, asset).
       if obj_exists (\<lambda>r. rsv_order_id r = order_id) (sd_reservations db)
       then Inl (FValueError ''DUPLICATE_RESERVATION'')
       else
         let r = new_reservation E (fresh E db) account_id order_id asset amount
         in Inr (db\<lparr>sd_reservations := sd_reservations db @ [r], ev_next := Suc (ev_next db)\<rparr>, r)))"

definition save_reservation :: "simulated_reservation \<Rightarrow> 'a sim_db_scheme \<Rightarrow> 'a sim_db_scheme" where
  "save_reservation r db =
     db\<lparr>sd_reservations := upd_where (\<lambda>x. rsv_id x = rsv_id r) (\<lambda>_. r) (sd_reservations db)\<rparr>"

definition release_reservation ::
  "uuid \<Rightarrow> 'a sim_db_scheme \<Rightarrow> (foundation_error, 'a sim_db_scheme \<times> simulated_reservation) res" where
  "release_reservation reservation_id db =
     rbind (get_row (\<lambda>r. rsv_id r = reservation_id) (sd_reservations db)) (\<lambda>r.
       if rsv_state r = ResActive then
         let r1 = r\<lparr>rsv_remaining_amount := 0, rsv_state := ResReleased\<rparr>
         in Inr (save_reservation r1 db, r1)
       else Inr (db, r))"

definition get_or_create_position ::
  "py_env \<Rightarrow> uuid \<Rightarrow> string \<Rightarrow> 'a sim_db_scheme \<Rightarrow> 'a sim_db_scheme \<times> simulated_position" where
  "get_or_create_position E account instrument_id db =
     (case obj_first (position_key account instrument_id) (sd_positions db) of
        Some p \<Rightarrow> (db, p)
      | None \<Rightarrow>
          let p = \<lparr>sp_id = fresh E db, sp_account = account, sp_instrument_id = instrument_id,
                   sp_quantity = 0, sp_average_price = 0, sp_realized_pnl = 0\<rparr>
          in (db\<lparr>sd_positions := sd_positions db @ [p], ev_next := Suc (ev_next db)\<rparr>, p))"

text \<open>The arithmetic of \<open>settle_trade\<close> on the three objects in memory.\<close>

definition settle_buy ::
  "rat \<Rightarrow> rat \<Rightarrow> rat \<Rightarrow> simulated_reservation \<Rightarrow> simulated_account \<Rightarrow> simulated_position \<Rightarrow>
   (foundation_error, simulated_account \<times> simulated_position \<times> simulated_reservation) res" where
  "settle_buy quantity price fee r a p =
     (let debit = dadd (dmul quantity price) fee
      in if rsv_remaining_amount r < debit then Inl (FValueError ''RESERVATION_UNDERFUNDED'')
         else
           let new_quantity = dadd (sp_quantity p) quantity
           in if new_quantity = 0 then Inl FArithmeticError
              else Inr (a\<lparr>sa_total_balance := dsub (sa_total_balance a) debit\<rparr>,
                        p\<lparr>sp_quantity := new_quantity,
                          sp_average_price :=
                            ddiv (dadd (dmul (sp_quantity p) (sp_average_price p)) (dmul quantity price)) new_quantity\<rparr>,
                        r\<lparr>rsv_remaining_amount := dsub (rsv_remaining_amount r) debit\<rparr>))"

definition settle_sell ::
  "rat \<Rightarrow> rat \<Rightarrow> rat \<Rightarrow> simulated_reservation \<Rightarrow> simulated_account \<Rightarrow> simulated_position \<Rightarrow>
   (foundation_error, simulated_account \<times> simulated_position \<times> simulated_reservation) res" where
  "settle_sell quantity price fee r a p =
     (if sp_quantity p < quantity \<or> rsv_remaining_amount r < quantity
      then Inl (FValueError ''INSUFFICIENT_AVAILABLE_POSITION'')
      else
        let new_quantity = dsub (sp_quantity p) quantity
        in Inr (a\<lparr>sa_total_balance := dadd (sa_total_balance a) (dsub (dmul quantity price) fee)\<rparr>,
                p\<lparr>sp_quantity := new_quantity,
                  sp_average_price := (if new_quantity = 0 then 0 else sp_average_price p),
                  sp_realized_pnl :=
                    dadd (sp_realized_pnl p)
                      (dsub (dmul (dsub price (sp_average_price p)) quantity) fee)\<rparr>,
                r\<lparr>rsv_remaining_amount := dsub (rsv_remaining_amount r) quantity\<rparr>))"

definition consume_if_empty :: "simulated_reservation \<Rightarrow> simulated_reservation" where
  "consume_if_empty r = (if rsv_remaining_amount r = 0 then r\<lparr>rsv_state := ResConsumed\<rparr> else r)"

text \<open>The three \<open>save\<close> calls, which round to the columns.\<close>

definition save_settlement ::
  "py_env \<Rightarrow> simulated_account \<Rightarrow> simulated_position \<Rightarrow> simulated_reservation \<Rightarrow> 'a sim_db_scheme \<Rightarrow> 'a sim_db_scheme" where
  "save_settlement E a p r db =
     db\<lparr>sd_positions := upd_where (\<lambda>x. sp_id x = sp_id p)
          (\<lambda>_. p\<lparr>sp_quantity := en_col E (sp_quantity p), sp_average_price := en_col E (sp_average_price p),
                 sp_realized_pnl := en_col E (sp_realized_pnl p)\<rparr>) (sd_positions db),
        sd_accounts := upd_where (\<lambda>x. sa_id x = sa_id a)
          (\<lambda>x. x\<lparr>sa_total_balance := en_col E (sa_total_balance a)\<rparr>) (sd_accounts db),
        sd_reservations := upd_where (\<lambda>x. rsv_id x = rsv_id r)
          (\<lambda>x. x\<lparr>rsv_remaining_amount := en_col E (rsv_remaining_amount r), rsv_state := rsv_state r\<rparr>)
          (sd_reservations db)\<rparr>"

definition settle_trade ::
  "py_env \<Rightarrow> uuid \<Rightarrow> order_side \<Rightarrow> string \<Rightarrow> rat \<Rightarrow> rat \<Rightarrow> rat \<Rightarrow> 'a sim_db_scheme \<Rightarrow>
   (foundation_error, 'a sim_db_scheme \<times> simulated_account \<times> simulated_position \<times> simulated_reservation) res" where
  "settle_trade E reservation_id side instrument_id quantity price fee db =
     rbind (get_row (\<lambda>r. rsv_id r = reservation_id) (sd_reservations db)) (\<lambda>r.
     rbind (get_row (\<lambda>a. sa_id a = rsv_account r) (sd_accounts db)) (\<lambda>a.
       let (db1, p) = get_or_create_position E (sa_id a) instrument_id db
       in rbind (case side of Buy \<Rightarrow> settle_buy quantity price fee r a p
                            | Sell \<Rightarrow> settle_sell quantity price fee r a p) (\<lambda>(a1, p1, r1).
            let r2 = consume_if_empty r1
            in Inr (save_settlement E a1 p1 r2 db1, a1, p1, r2))))"

end
