(* ===== verification/Trading_Simulation.thy ===== *)
theory Trading_Simulation
  imports Trading_Financial
begin

text \<open>
  The life of a simulated order after it is placed, \<open>apps/trading/application/simulation.py\<close>: the
  deterministic provider (\<open>integrations/execution/simulated.py\<close>), \<open>apply_execution\<close>,
  \<open>process_created_order\<close>, \<open>cancel\<close>, and the quality report of \<open>execution_authority.py\<close>. One
  \<open>timezone.now()\<close> value serves an operation.
\<close>

section \<open>Settings and the execution provider\<close>

record sim_settings =
  se_prices :: "(string \<times> rat) list"
  se_price_source :: string
  se_scenario :: string
  se_inline :: bool
  se_market_data_stale :: bool

datatype outcome = OutFill | OutReject | OutExpire

record simulated_execution =
  ex_execution_id :: string
  ex_quantity :: rat
  ex_price :: rat
  ex_final :: bool
  ex_outcome :: outcome

fun outcome_text :: "outcome \<Rightarrow> string" where
  "outcome_text OutFill = ''FILL''"
| "outcome_text OutReject = ''REJECT''"
| "outcome_text OutExpire = ''EXPIRE''"

definition scenarios :: "string list" where
  "scenarios = [''IMMEDIATE_FULL_FILL'', ''PARTIAL_THEN_FILL'', ''OPEN_THEN_CANCEL'', ''REJECT'', ''EXPIRE'']"

definition simulated_price :: "sim_settings \<Rightarrow> string \<Rightarrow> (foundation_error, rat) res" where
  "simulated_price S instrument =
     (case map_of (se_prices S) instrument of None \<Rightarrow> Inl (FPyError ''KeyError'') | Some p \<Rightarrow> Inr p)"

definition limit_unmet :: "trading_order \<Rightarrow> rat \<Rightarrow> bool" where
  "limit_unmet ord price \<longleftrightarrow>
     to_order_type ord = OrdLimit \<and>
     (case to_limit_price ord of
        None \<Rightarrow> False
      | Some l \<Rightarrow> (to_side ord = Buy \<and> l < price) \<or> (to_side ord = Sell \<and> price < l))"

definition sim_execution :: "string \<Rightarrow> rat \<Rightarrow> rat \<Rightarrow> bool \<Rightarrow> outcome \<Rightarrow> simulated_execution" where
  "sim_execution i q p f x =
     \<lparr>ex_execution_id = i, ex_quantity = q, ex_price = p, ex_final = f, ex_outcome = x\<rparr>"

definition submit_order ::
  "sim_settings \<Rightarrow> string \<Rightarrow> trading_order \<Rightarrow> (foundation_error, simulated_execution list) res" where
  "submit_order S scenario ord =
     (if scenario \<notin> set scenarios then Inl (FValueError ''INVALID_SIMULATION_SCENARIO'')
      else
        rbind (simulated_price S (to_instrument_id ord)) (\<lambda>price.
          let prefix = ''sim:'' @ str_uuid (to_id ord)
          in if scenario = ''REJECT'' then Inr [sim_execution (prefix @ '':reject'') 0 price True OutReject]
             else if scenario = ''EXPIRE'' then Inr [sim_execution (prefix @ '':expire'') 0 price True OutExpire]
             else if scenario = ''OPEN_THEN_CANCEL'' then Inr []
             else if to_order_type ord = OrdLimit \<and> to_limit_price ord = None then Inl (FPyError ''TypeError'')
             else if limit_unmet ord price then Inr []
             else if scenario = ''PARTIAL_THEN_FILL'' then
               let first = (if to_quantity ord = 10 then 4 else dmul (to_quantity ord) (4 / 10))
               in Inr [sim_execution (prefix @ '':1'') first price False OutFill,
                       sim_execution (prefix @ '':2'') (dsub (to_quantity ord) first) price True OutFill]
             else Inr [sim_execution (prefix @ '':1'') (to_quantity ord) price True OutFill]))"

section \<open>Payloads, correlation, audit\<close>

definition event_payload :: "py_env \<Rightarrow> sim_settings \<Rightarrow> trading_order \<Rightarrow> (string \<times> json) list \<Rightarrow> json" where
  "event_payload E S ord extra =
     JObj ([(''order_id'', JStr (str_uuid (to_id ord))), (''account_ref'', JStr (to_account_ref ord)),
            (''instrument'', JStr (to_instrument_id ord)), (''side'', JStr (side_text (to_side ord))),
            (''quantity'', JStr (en_dtext E (to_quantity ord))),
            (''filled_quantity'', JStr (en_dtext E (to_filled_quantity ord))),
            (''state'', JStr (state_text (to_state ord))), (''simulation'', JBool True),
            (''price_source'', JStr (se_price_source S))] @ extra)"

text \<open>\<open>order_correlation\<close>: that of the creation event, else a fresh one.\<close>

definition order_correlation :: "py_env \<Rightarrow> trading_order \<Rightarrow> 'a event_db_scheme \<Rightarrow> 'a event_db_scheme \<times> uuid" where
  "order_correlation E ord db =
     (case obj_first (\<lambda>r. fo_aggregate_type r = ''order'' \<and> fo_aggregate_id r = str_uuid (to_id ord) \<and>
                        fo_event_type r = ''trading.order.created.v1'') (ob_rows (ev_outbox db)) of
        Some r \<Rightarrow> (db, fo_correlation_id r)
      | None \<Rightarrow> (db\<lparr>ev_next := Suc (ev_next db)\<rparr>, fresh E db))"

definition emit ::
  "timestamp \<Rightarrow> string \<Rightarrow> string \<Rightarrow> string \<Rightarrow> json \<Rightarrow> string \<Rightarrow> uuid \<Rightarrow> 'a event_db_scheme \<Rightarrow> 'a event_db_scheme" where
  "emit now aggregate_type aggregate_id event_type payload tenant_ref correlation db =
     db\<lparr>ev_outbox := fst (enqueue_event now aggregate_type aggregate_id event_type payload tenant_ref
                            (Some correlation) None None (ev_outbox db))\<rparr>"

definition audit_ref ::
  "py_env \<Rightarrow> timestamp \<Rightarrow> string \<Rightarrow> string \<Rightarrow> string \<Rightarrow> string \<Rightarrow> uuid \<Rightarrow> string \<Rightarrow> 'a sim_db_scheme \<Rightarrow> 'a sim_db_scheme" where
  "audit_ref E now actor_ref action resource_type resource_id correlation reason db =
     db\<lparr>sd_audits := sd_audits db @
          [\<lparr>aa_event_id = fresh E db, aa_actor_ref = actor_ref, aa_action = action,
            aa_resource_type = resource_type, aa_resource_id = resource_id, aa_before_hash = '''',
            aa_after_hash = '''', aa_request_id = ''simulation'', aa_correlation_id = correlation,
            aa_context = JObj [(''simulation'', JBool True)], aa_reason = reason, aa_occurred_at = now\<rparr>],
        ev_next := Suc (ev_next db)\<rparr>"

definition serialize_account ::
  "py_env \<Rightarrow> simulated_account \<Rightarrow> 'a sim_db_scheme \<Rightarrow> (foundation_error, 'a sim_db_scheme \<times> json) res" where
  "serialize_account E a db =
     (let reserved = sum_where (\<lambda>r. rsv_account r = sa_id a \<and> rsv_state r = ResActive) rsv_remaining_amount
                       (sd_reservations db)
      in rbind (ensure_paper_identity a db) (\<lambda>(db1, ident).
           Inr (db1, JObj ([(''id'', JStr (str_uuid (sa_id a))), (''account_ref'', JStr (sa_account_ref a)),
                            (''currency'', JStr (sa_quote_currency a)),
                            (''total'', JStr (en_dtext E (sa_total_balance a))),
                            (''available'', JStr (en_dtext E (available_quote a (sd_reservations db)))),
                            (''reserved'', JStr (en_dtext E reserved)),
                            (''pending'', JStr (en_dtext E (sa_pending_balance a))),
                            (''simulation'', JBool True)] @ serialize_trading_account ident))))"

definition save_order :: "trading_order \<Rightarrow> 'a sim_db_scheme \<Rightarrow> 'a sim_db_scheme" where
  "save_order ord db = db\<lparr>sd_orders := upd_where (\<lambda>x. to_id x = to_id ord) (\<lambda>_. ord) (sd_orders db)\<rparr>"

section \<open>Execution quality\<close>

definition quality_values ::
  "py_env \<Rightarrow> trading_order \<Rightarrow> execution_routing_decision \<Rightarrow> rat \<Rightarrow> rat \<Rightarrow> uuid \<Rightarrow> nat \<Rightarrow> uuid option \<Rightarrow>
   execution_quality_report" where
  "quality_values E ord d average fees i revision prior =
     (let reference = rd_reference_price d;
          signed = (if to_side ord = Buy then dsub average reference else dsub reference average);
          improvement = rnd (- signed)
      in \<lparr>qr_id = i, qr_order = to_id ord, qr_routing_decision = rd_id d, qr_reference_price = en_col E reference,
          qr_execution_price = en_col E average, qr_filled_quantity = en_col E (to_filled_quantity ord),
          qr_slippage_bps = en_ratio_col E (dmul (ddiv signed reference) 10000),
          qr_price_improvement_amount = en_col E improvement,
          qr_price_improvement_bps = en_ratio_col E (dmul (ddiv improvement reference) 10000),
          qr_measurement_version = ''execution-quality-v1'',
          qr_evidence_hash = evidence_hash E
            (JObj [(''order'', JStr (str_uuid (to_id ord))), (''decision'', JStr (str_uuid (rd_id d))),
                   (''reference'', JStr (en_dtext E reference)), (''execution'', JStr (en_dtext E average)),
                   (''quantity'', JStr (en_dtext E (to_filled_quantity ord)))]),
          qr_fees = en_col E fees,
          qr_fill_rate = en_ratio_col E (if to_quantity ord \<noteq> 0 then ddiv (to_filled_quantity ord) (to_quantity ord) else 0),
          qr_unfilled_quantity = en_col E (dsub (to_quantity ord) (to_filled_quantity ord)),
          qr_quality_state = ''MEASURED'', qr_revision = revision, qr_supersedes = prior\<rparr>)"

definition record_quality ::
  "py_env \<Rightarrow> trading_order \<Rightarrow> 'a sim_db_scheme \<Rightarrow> (foundation_error, 'a sim_db_scheme \<times> execution_quality_report) res" where
  "record_quality E ord db =
     (case (obj_last_by rd_created_at (filter (\<lambda>d. rd_order d = Some (to_id ord)) (sd_routing db)),
            to_average_fill_price ord) of
        (Some d, Some average) \<Rightarrow>
          if average = 0 \<or> to_filled_quantity ord = 0 then Inl (FValueError ''EXECUTION_QUALITY_NOT_AVAILABLE'')
          else if rd_reference_price d = 0 then Inl FArithmeticError
          else
            let fees = dsum (map st_fee (filter (\<lambda>t. st_order t = to_id ord) (sd_trades db)));
                prior = obj_last_by (int \<circ> qr_revision) (filter (\<lambda>q. qr_order q = to_id ord) (sd_quality db));
                q = quality_values E ord d average fees (fresh E db)
                      (case prior of None \<Rightarrow> 1 | Some p \<Rightarrow> Suc (qr_revision p)) (map_option qr_id prior)
            in (case prior of
                  Some p \<Rightarrow>
                    if qr_evidence_hash p = qr_evidence_hash q then Inr (db, p)
                    else Inr (db\<lparr>sd_quality := sd_quality db @ [q], ev_next := Suc (ev_next db)\<rparr>, q)
                | None \<Rightarrow> Inr (db\<lparr>sd_quality := sd_quality db @ [q], ev_next := Suc (ev_next db)\<rparr>, q))
      | _ \<Rightarrow> Inl (FValueError ''EXECUTION_QUALITY_NOT_AVAILABLE''))"


section \<open>Applying an execution\<close>

definition execution_payload :: "py_env \<Rightarrow> trading_order \<Rightarrow> simulated_execution \<Rightarrow> json" where
  "execution_payload E ord x =
     JObj [(''execution_id'', JStr (ex_execution_id x)), (''order_id'', JStr (str_uuid (to_id ord))),
           (''quantity'', JStr (en_dtext E (ex_quantity x))), (''price'', JStr (en_dtext E (ex_price x))),
           (''outcome'', JStr (outcome_text (ex_outcome x)))]"

definition accept_if_pending :: "order_state \<Rightarrow> (foundation_error, order_state) res" where
  "accept_if_pending s = (if s = OrdPending then transition_order s OrdAccepted else Inr s)"

definition open_if_accepted :: "order_state \<Rightarrow> (foundation_error, order_state) res" where
  "open_if_accepted s = (if s = OrdAccepted then transition_order s OrdOpen else Inr s)"

definition open_order :: "order_state \<Rightarrow> (foundation_error, order_state) res" where
  "open_order s = rbind (accept_if_pending s) open_if_accepted"

definition release_order_funds :: "trading_order \<Rightarrow> 'a sim_db_scheme \<Rightarrow> (foundation_error, 'a sim_db_scheme) res" where
  "release_order_funds ord db =
     rbind (get_row (\<lambda>r. Some (rsv_id r) = to_reservation_id ord) (sd_reservations db)) (\<lambda>r.
     rbind (release_reservation (rsv_id r) db) (\<lambda>(db1, _). Inr db1))"

definition apply_reject ::
  "trading_order \<Rightarrow> 'a sim_db_scheme \<Rightarrow> (foundation_error, 'a sim_db_scheme \<times> trading_order \<times> string) res" where
  "apply_reject ord db =
     rbind (transition_order (to_state ord) OrdRejected) (\<lambda>s.
     rbind (release_order_funds ord db) (\<lambda>db1.
       Inr (db1, ord\<lparr>to_state := s\<rparr>, ''trading.order.rejected.v1'')))"

definition apply_expire ::
  "trading_order \<Rightarrow> 'a sim_db_scheme \<Rightarrow> (foundation_error, 'a sim_db_scheme \<times> trading_order \<times> string) res" where
  "apply_expire ord db =
     rbind (open_order (to_state ord)) (\<lambda>s0.
     rbind (transition_order s0 OrdExpired) (\<lambda>s.
     rbind (release_order_funds ord db) (\<lambda>db1.
       Inr (db1, ord\<lparr>to_state := s\<rparr>, ''trading.order.expired.v1''))))"

text \<open>\<open>SimulatedTrade.objects.create\<close>, with the unique \<open>execution_id\<close>.\<close>

definition add_sim_trade ::
  "py_env \<Rightarrow> timestamp \<Rightarrow> trading_order \<Rightarrow> simulated_execution \<Rightarrow> rat \<Rightarrow> 'a sim_db_scheme \<Rightarrow>
   (foundation_error, 'a sim_db_scheme) res" where
  "add_sim_trade E now ord x fee db =
     (if obj_exists (\<lambda>t. st_execution_id t = ex_execution_id x) (sd_trades db)
      then Inl (FDbError (IntegrityError ''execution_id''))
      else Inr (db\<lparr>sd_trades := sd_trades db @
             [\<lparr>st_order = to_id ord, st_execution_id = ex_execution_id x,
               st_instrument_id = to_instrument_id ord, st_side = to_side ord,
               st_quantity = en_col E (ex_quantity x), st_price = en_col E (ex_price x),
               st_fee = en_col E fee, st_executed_at = now\<rparr>]\<rparr>))"

text \<open>The order after the fill: filled quantity, average price and state.\<close>

definition filled_order :: "trading_order \<Rightarrow> simulated_execution \<Rightarrow> order_state \<Rightarrow> (foundation_error, trading_order) res" where
  "filled_order ord x s0 =
     (let next_filled = dadd (to_filled_quantity ord) (ex_quantity x);
          previous_value = dmul (to_filled_quantity ord)
            (case to_average_fill_price ord of None \<Rightarrow> 0 | Some a \<Rightarrow> a)
      in if next_filled = 0 then Inl FArithmeticError
         else
           rbind (transition_order s0 (if next_filled = to_quantity ord then OrdFilled else OrdPartiallyFilled)) (\<lambda>s.
             Inr (ord\<lparr>to_filled_quantity := next_filled,
                      to_average_fill_price :=
                        Some (ddiv (dadd previous_value (dmul (ex_quantity x) (ex_price x))) next_filled),
                      to_state := s\<rparr>)))"

definition fill_audits ::
  "py_env \<Rightarrow> timestamp \<Rightarrow> trading_order \<Rightarrow> simulated_execution \<Rightarrow> uuid \<Rightarrow> uuid \<Rightarrow> 'a sim_db_scheme \<Rightarrow> 'a sim_db_scheme" where
  "fill_audits E now ord x reservation_id correlation db =
     audit_ref E now (to_subject_ref ord) ''simulation.settlement.applied'' ''simulation_reservation''
       (str_uuid reservation_id) correlation ''simulation''
    (audit_ref E now (to_subject_ref ord) ''simulation.trade.executed'' ''simulation_trade''
       (ex_execution_id x) correlation ''simulation''
    (audit_ref E now (to_subject_ref ord) ''simulation.execution.received'' ''simulation_execution''
       (ex_execution_id x) correlation ''simulation'' db))"

definition fill_events ::
  "py_env \<Rightarrow> sim_settings \<Rightarrow> timestamp \<Rightarrow> trading_order \<Rightarrow> simulated_execution \<Rightarrow> rat \<Rightarrow> uuid \<Rightarrow>
   simulated_position \<Rightarrow> simulated_account \<Rightarrow> json \<Rightarrow> 'a sim_db_scheme \<Rightarrow> 'a sim_db_scheme" where
  "fill_events E S now ord x fee correlation p a account_payload db =
     emit now ''account'' (str_uuid (sa_id a)) ''trading.balance_projection.updated.v1'' account_payload
       (to_tenant_ref ord) correlation
    (emit now ''position'' (str_uuid (sp_id p)) ''trading.position.updated.v1''
       (JObj [(''position_id'', JStr (str_uuid (sp_id p))), (''account_ref'', JStr (to_account_ref ord)),
              (''instrument'', JStr (to_instrument_id ord)), (''quantity'', JStr (en_dtext E (sp_quantity p))),
              (''average_price'', JStr (en_dtext E (sp_average_price p))), (''simulation'', JBool True)])
       (to_tenant_ref ord) correlation
    (emit now ''trade'' (ex_execution_id x) ''trading.trade.executed.v1''
       (event_payload E S ord [(''execution_id'', JStr (ex_execution_id x)),
          (''price'', JStr (en_dtext E (ex_price x))), (''fee'', JStr (en_dtext E fee))])
       (to_tenant_ref ord) correlation db))"

definition apply_fill ::
  "py_env \<Rightarrow> sim_settings \<Rightarrow> timestamp \<Rightarrow> uuid \<Rightarrow> trading_order \<Rightarrow> simulated_execution \<Rightarrow> 'a sim_db_scheme \<Rightarrow>
   (foundation_error, 'a sim_db_scheme \<times> trading_order \<times> string) res" where
  "apply_fill E S now correlation ord x db =
     rbind (open_order (to_state ord)) (\<lambda>s0.
     let fee = dmul (dmul (ex_quantity x) (ex_price x)) fee_rate
     in if to_quantity ord < dadd (to_filled_quantity ord) (ex_quantity x)
        then Inl (FValueError ''EXECUTION_OVERFILL'')
        else
          rbind (get_row (\<lambda>r. Some (rsv_id r) = to_reservation_id ord) (sd_reservations db)) (\<lambda>r.
          rbind (settle_trade E (rsv_id r) (to_side ord) (to_instrument_id ord) (ex_quantity x) (ex_price x) fee db)
            (\<lambda>(db1, a, p, _).
          rbind (add_sim_trade E now ord x fee db1) (\<lambda>db2.
          rbind (process_simulated_fill E now (ord\<lparr>to_state := s0\<rparr>) (ex_execution_id x) (ex_quantity x)
                   (ex_price x) fee now db2) (\<lambda>(db3, _, _).
          let db4 = fill_audits E now ord x (rsv_id r) correlation db3
          in rbind (filled_order ord x s0) (\<lambda>ord1.
             rbind (serialize_account E a db4) (\<lambda>(db5, account_payload).
               Inr (fill_events E S now ord1 x fee correlation p a account_payload db5, ord1,
                    if to_state ord1 = OrdFilled then ''trading.order.filled.v1''
                    else ''trading.order.partially_filled.v1''))))))))"

definition stored_order :: "py_env \<Rightarrow> timestamp \<Rightarrow> trading_order \<Rightarrow> trading_order" where
  "stored_order E now ord =
     ord\<lparr>to_filled_quantity := en_col E (to_filled_quantity ord),
         to_average_fill_price := map_option (en_col E) (to_average_fill_price ord), to_updated_at := now\<rparr>"

fun canonical_event :: "outcome \<Rightarrow> order_state \<Rightarrow> string" where
  "canonical_event OutReject s = ''trading.execution.rejected.v1''"
| "canonical_event OutExpire s = ''trading.execution.cancelled.v1''"
| "canonical_event OutFill s =
     (if s = OrdFilled then ''trading.execution.filled.v1'' else ''trading.execution.partial_fill.v1'')"

text \<open>\<open>if order.filled_quantity: record_quality(order)\<close> and its event.\<close>

definition publish_quality ::
  "py_env \<Rightarrow> timestamp \<Rightarrow> uuid \<Rightarrow> trading_order \<Rightarrow> 'a sim_db_scheme \<Rightarrow> (foundation_error, 'a sim_db_scheme) res" where
  "publish_quality E now correlation ord db =
     (if to_filled_quantity ord = 0 then Inr db
      else
        rbind (record_quality E ord db) (\<lambda>(db1, q).
          Inr (emit now ''execution_quality'' (str_uuid (qr_id q)) ''trading.execution.quality.updated.v1''
                 (JObj [(''report_id'', JStr (str_uuid (qr_id q))), (''order_id'', JStr (str_uuid (to_id ord))),
                        (''slippage_bps'', JStr (en_dtext E (qr_slippage_bps q))),
                        (''price_improvement_bps'', JStr (en_dtext E (qr_price_improvement_bps q))),
                        (''simulation'', JBool True)])
                 (to_tenant_ref ord) correlation db1)))"

definition execution_mutation ::
  "py_env \<Rightarrow> sim_settings \<Rightarrow> timestamp \<Rightarrow> uuid \<Rightarrow> trading_order \<Rightarrow> simulated_execution \<Rightarrow> 'a sim_db_scheme \<Rightarrow>
   (foundation_error, 'a sim_db_scheme) res" where
  "execution_mutation E S now correlation ord x db =
     (let db0 = emit now ''execution'' (ex_execution_id x) ''trading.execution.received.v1''
                  (event_payload E S ord [(''execution_id'', JStr (ex_execution_id x)),
                                          (''outcome'', JStr (outcome_text (ex_outcome x)))])
                  (to_tenant_ref ord) correlation db
      in rbind (case ex_outcome x of
                  OutReject \<Rightarrow> apply_reject ord db0
                | OutExpire \<Rightarrow> apply_expire ord db0
                | OutFill \<Rightarrow> apply_fill E S now correlation ord x db0) (\<lambda>(db1, ord1, event_type).
           let db2 = save_order (stored_order E now ord1) db1;
               db3 = emit now ''execution'' (ex_execution_id x) (canonical_event (ex_outcome x) (to_state ord1))
                       (event_payload E S ord1 [(''execution_id'', JStr (ex_execution_id x)),
                                                (''execution_mode'', JStr ''SIMULATION'')])
                       (to_tenant_ref ord1) correlation db2
           in rbind (publish_quality E now correlation ord1 db3) (\<lambda>db4.
                Inr (emit now ''order'' (str_uuid (to_id ord1)) event_type (event_payload E S ord1 [])
                       (to_tenant_ref ord1) correlation db4))))"

definition get_sim_order :: "uuid \<Rightarrow> 'a sim_db_scheme \<Rightarrow> (foundation_error, trading_order) res" where
  "get_sim_order order_id db = get_row (\<lambda>x. to_id x = order_id \<and> to_simulation x) (sd_orders db)"

definition apply_execution ::
  "py_env \<Rightarrow> sim_settings \<Rightarrow> timestamp \<Rightarrow> uuid \<Rightarrow> simulated_execution \<Rightarrow>
   processed_event list \<times> 'a sim_db_scheme \<Rightarrow>
   (foundation_error, (processed_event list \<times> 'a sim_db_scheme) \<times> bool) res" where
  "apply_execution E S now order_id x s =
     rbind (get_sim_order order_id (snd s)) (\<lambda>ord.
       let (db0, correlation) = order_correlation E ord (snd s)
       in consume_once (en_sha E) now (en_uuid5 E (ex_execution_id x)) (execution_payload E ord x)
            ''simulated-execution-v1'' (execution_mutation E S now correlation ord x) (fst s, db0))"

section \<open>Processing a created order\<close>

fun apply_executions ::
  "py_env \<Rightarrow> sim_settings \<Rightarrow> timestamp \<Rightarrow> uuid \<Rightarrow> simulated_execution list \<Rightarrow>
   processed_event list \<times> 'a sim_db_scheme \<Rightarrow>
   (foundation_error, processed_event list \<times> 'a sim_db_scheme) res" where
  "apply_executions E S now order_id [] s = Inr s"
| "apply_executions E S now order_id (x # xs) s =
     rbind (apply_execution E S now order_id x s) (\<lambda>(s1, _). apply_executions E S now order_id xs s1)"

definition accept_order ::
  "py_env \<Rightarrow> sim_settings \<Rightarrow> timestamp \<Rightarrow> string \<Rightarrow> uuid \<Rightarrow> trading_order \<Rightarrow> 'a sim_db_scheme \<Rightarrow>
   (foundation_error, 'a sim_db_scheme \<times> trading_order) res" where
  "accept_order E S now scenario correlation ord db =
     (if to_state ord = OrdPending \<and> scenario \<noteq> ''REJECT'' then
        rbind (transition_order (to_state ord) OrdAccepted) (\<lambda>s.
          let ord1 = ord\<lparr>to_state := s, to_updated_at := now\<rparr>
          in Inr (emit now ''execution'' (str_uuid (to_id ord1)) ''trading.execution.acknowledged.v1''
                    (event_payload E S ord1 [(''execution_mode'', JStr ''SIMULATION'')]) (to_tenant_ref ord1) correlation
                 (emit now ''order'' (str_uuid (to_id ord1)) ''trading.order.accepted.v1''
                    (event_payload E S ord1 []) (to_tenant_ref ord1) correlation (save_order ord1 db)), ord1))
      else Inr (db, ord))"

definition open_after_executions ::
  "py_env \<Rightarrow> sim_settings \<Rightarrow> timestamp \<Rightarrow> uuid \<Rightarrow> uuid \<Rightarrow> 'a sim_db_scheme \<Rightarrow>
   (foundation_error, 'a sim_db_scheme \<times> trading_order) res" where
  "open_after_executions E S now order_id correlation db =
     rbind (get_sim_order order_id db) (\<lambda>ord.
       if to_state ord = OrdAccepted then
         rbind (transition_order (to_state ord) OrdOpen) (\<lambda>s.
           let ord1 = ord\<lparr>to_state := s, to_updated_at := now\<rparr>
           in Inr (emit now ''order'' (str_uuid (to_id ord1)) ''trading.order.opened.v1''
                     (event_payload E S ord1 []) (to_tenant_ref ord1) correlation (save_order ord1 db), ord1))
       else Inr (db, ord))"

definition process_created_order ::
  "py_env \<Rightarrow> sim_settings \<Rightarrow> timestamp \<Rightarrow> uuid \<Rightarrow> string \<Rightarrow> processed_event list \<times> 'a sim_db_scheme \<Rightarrow>
   (foundation_error, (processed_event list \<times> 'a sim_db_scheme) \<times> trading_order) res" where
  "process_created_order E S now order_id scenario s =
     rbind (get_sim_order order_id (snd s)) (\<lambda>ord.
       let (db0, correlation) = order_correlation E ord (snd s);
           selected = (if scenario \<noteq> '''' then scenario else se_scenario S)
       in rbind (accept_order E S now selected correlation ord db0) (\<lambda>(db1, ord1).
          rbind (submit_order S (if selected \<noteq> '''' then selected else se_scenario S) ord1) (\<lambda>xs.
          rbind (apply_executions E S now order_id xs (fst s, db1)) (\<lambda>s2.
          rbind (open_after_executions E S now order_id correlation (snd s2)) (\<lambda>(db3, ord3).
            Inr ((fst s2, db3), ord3))))))"


section \<open>Cancelling\<close>

text \<open>\<open>refs\<close>: tenant, subject and account reference of a user.\<close>

definition refs :: "string \<Rightarrow> string \<Rightarrow> string \<times> string \<times> string" where
  "refs subject tenant =
     (tenant, subject,
      if tenant = ''default'' then ''sim:'' @ subject else ''sim:'' @ tenant @ '':'' @ subject)"

definition serialize_order :: "py_env \<Rightarrow> trading_order \<Rightarrow> json" where
  "serialize_order E ord =
     JObj [(''id'', JStr (str_uuid (to_id ord))), (''instrument'', JStr (to_instrument_id ord)),
           (''side'', JStr (side_text (to_side ord))), (''order_type'', JStr (order_type_text (to_order_type ord))),
           (''quantity'', JStr (en_dtext E (to_quantity ord))),
           (''filled_quantity'', JStr (en_dtext E (to_filled_quantity ord))),
           (''state'', JStr (state_text (to_state ord))), (''version'', JStr (en_iso_time E (to_updated_at ord))),
           (''simulation'', JBool True),
           (''eligibility_policy_version'', JStr (to_eligibility_policy_version ord)),
           (''eligibility_result'', JStr (to_eligibility_result ord)),
           (''eligibility_reason_codes'', JArr (map JStr (to_eligibility_reason_codes ord))),
           (''eligibility_evaluated_at'',
              (case to_eligibility_evaluated_at ord of None \<Rightarrow> JNull | Some t \<Rightarrow> JStr (en_iso_time E t)))]"

datatype cancel_result = Cancelled json | VersionConflict uuid

text \<open>
  The transaction of \<open>cancel\<close>: a stale version is reported without touching the order, and the
  two saves of the order in the same transaction store the last one. The response is written to
  the idempotency record in the same transaction.
\<close>

definition cancel_order ::
  "py_env \<Rightarrow> sim_settings \<Rightarrow> timestamp \<Rightarrow> string \<Rightarrow> string \<Rightarrow> uuid \<Rightarrow> string \<Rightarrow> uuid option \<Rightarrow> 'a sim_db_scheme \<Rightarrow>
   (foundation_error, 'a sim_db_scheme \<times> cancel_result) res" where
  "cancel_order E S now tenant subject order_id expected_version correlation_id db =
     rbind (get_row (\<lambda>x. to_id x = order_id \<and> to_tenant_ref x = tenant \<and> to_subject_ref x = subject \<and>
                       to_simulation x) (sd_orders db)) (\<lambda>ord.
       if en_iso_time E (to_updated_at ord) \<noteq> expected_version then Inr (db, VersionConflict (to_id ord))
       else
         let (db0, correlation) = (case correlation_id of Some c \<Rightarrow> (db, c) | None \<Rightarrow> order_correlation E ord db)
         in if to_state ord \<notin> {OrdAccepted, OrdOpen, OrdPartiallyFilled}
            then Inl (FValueError ''ORDER_INVALID_STATE'')
            else
              rbind (transition_order (to_state ord) OrdCancelPending) (\<lambda>s1.
              let ord1 = ord\<lparr>to_state := s1, to_updated_at := now\<rparr>;
                  db1 = emit now ''order'' (str_uuid (to_id ord1)) ''trading.order.cancel_requested.v1''
                          (event_payload E S ord1 []) tenant correlation (save_order ord1 db0)
              in rbind (transition_order (to_state ord1) OrdCancelled) (\<lambda>s2.
                 let ord2 = ord1\<lparr>to_state := s2\<rparr>; db2 = save_order ord2 db1
                 in rbind (release_order_funds ord2 db2) (\<lambda>db3.
                    let db4 = emit now ''order'' (str_uuid (to_id ord2)) ''trading.order.cancelled.v1''
                                (event_payload E S ord2 []) tenant correlation db3;
                        db5 = db4\<lparr>sd_audits := sd_audits db4 @
                          [\<lparr>aa_event_id = fresh E db4, aa_actor_ref = subject, aa_action = ''simulation.order.cancelled'',
                            aa_resource_type = ''simulation_order'', aa_resource_id = str_uuid (to_id ord2),
                            aa_before_hash = '''', aa_after_hash = '''', aa_request_id = ''simulation'',
                            aa_correlation_id = correlation, aa_context = JObj [(''simulation'', JBool True)],
                            aa_reason = ''simulation'', aa_occurred_at = now\<rparr>],
                          ev_next := Suc (ev_next db4)\<rparr>
                    in Inr (db5, Cancelled (serialize_order E ord2))))))"

text \<open>\<open>response_body["code"]\<close>, as the message of the error raised again.\<close>

fun body_code :: "json \<Rightarrow> foundation_error" where
  "body_code (JObj kvs) =
     (case map_of kvs ''code'' of Some v \<Rightarrow> FValueError (py_text v) | None \<Rightarrow> FPyError ''KeyError'')"
| "body_code _ = FPyError ''TypeError''"

text \<open>
  \<open>cancel\<close> itself: the idempotency record is committed before the transaction, so it stays when
  the transaction raises, and a version conflict is stored as the response. The result is the
  final state with the returned body or the raised error.
\<close>

definition cancel ::
  "py_env \<Rightarrow> sim_settings \<Rightarrow> timestamp \<Rightarrow> string \<Rightarrow> uuid \<Rightarrow> string \<Rightarrow> string \<Rightarrow> uuid option \<Rightarrow>
   foundation_requests \<times> 'a sim_db_scheme \<Rightarrow>
   (foundation_requests \<times> 'a sim_db_scheme) \<times> (foundation_error, json) res" where
  "cancel E S now subject order_id idempotency_key expected_version correlation_id s =
     (case s of (rq, db) \<Rightarrow>
        (case begin_idempotent_request (en_sha E) now idempotency_key ''default'' subject
                (''/api/v1/trading/orders/'' @ str_uuid order_id @ ''/cancel'') ''POST''
                (JObj [(''order_id'', JStr (str_uuid order_id)), (''expected_version'', JStr expected_version)])
                (seconds 86400) rq of
           Inl e \<Rightarrow> ((rq, db), Inl e)
         | Inr (rq1, record, is_new) \<Rightarrow>
             (case (is_new, fi_response_body record) of
                (False, Some body) \<Rightarrow>
                  (case fi_response_status record of
                     Some status \<Rightarrow>
                       if 400 \<le> status then ((rq1, db), Inl (body_code body))
                       else ((rq1, db), Inr body)
                   | None \<Rightarrow> ((rq1, db), Inr body))
              | _ \<Rightarrow>
                  (case cancel_order E S now ''default'' subject order_id expected_version correlation_id db of
                     Inl e \<Rightarrow> ((rq1, db), Inl e)
                   | Inr (db1, Cancelled body) \<Rightarrow>
                       ((complete_idempotent_request record 200 body ''simulation_order''
                           (str_uuid order_id) rq1, db1), Inr body)
                   | Inr (db1, VersionConflict i) \<Rightarrow>
                       ((complete_idempotent_request record 409
                           (JObj [(''code'', JStr ''VERSION_CONFLICT'')]) ''simulation_order'' (str_uuid i) rq1, db1),
                        Inl (FValueError ''VERSION_CONFLICT''))))))"

end
