(* ===== verification/Post_Trade_Facts.thy ===== *)
theory Post_Trade_Facts
  imports Valuation_Lots
begin

text \<open>
  What the post-trade chain leaves alone: the tables of the layers above it, and which of its own
  tables each service writes. The lemmas state it once per service; the chain follows.
\<close>

section \<open>The layers above are untouched\<close>

lemma post_trade_audit_more [simp]:
  "post_db.more (post_trade_audit E now a b c d e f g db) = post_db.more db"
  by (simp add: post_trade_audit_def)

lemma post_trade_publish_more [simp]:
  "event_db.more (post_trade_publish now t e p db) = event_db.more db"
  by (simp add: post_trade_publish_def)

lemma event_more_post_more:
  "event_db.more (db::'a post_db_scheme) = event_db.more db' \<Longrightarrow> post_db.more db = post_db.more db'"
  by (cases db; cases db') simp

lemma post_trade_publish_post_more [simp]:
  "post_db.more (post_trade_publish now t e p db) = post_db.more db"
  by (rule event_more_post_more) simp

lemma post_trade_transition_more:
  "post_trade_transition E now i target actor db = Inr (db', t) \<Longrightarrow> post_db.more db' = post_db.more db"
  by (auto simp: post_trade_transition_def res_simps Let_def)

lemma capture_fill_more:
  "capture_fill E now ord x q p fee at' src db = Inr (db', t, c) \<Longrightarrow> post_db.more db' = post_db.more db"
  by (auto simp: capture_fill_def res_simps Let_def split: option.splits if_splits)

lemma get_or_create_allocation_more:
  "get_or_create_allocation E t q db = (db', a) \<Longrightarrow> post_db.more db' = post_db.more db"
  by (auto simp: get_or_create_allocation_def Let_def split: option.splits)

lemma allocate_rows_more:
  "allocate_rows E t qs db = Inr (db', as) \<Longrightarrow> post_db.more db' = post_db.more db"
proof (induction qs arbitrary: db as)
  case (Cons q qs)
  obtain db1 a where q: "get_or_create_allocation E t q db = (db1, a)"
    by (cases "get_or_create_allocation E t q db")
  with Cons.prems obtain as' where "allocate_rows E t qs db1 = Inr (db', as')"
    by (auto simp: res_simps split: if_splits)
  with Cons.IH get_or_create_allocation_more [OF q] show ?case by simp
qed simp

lemma allocate_more: "allocate E now t qs db = Inr (db', as) \<Longrightarrow> post_db.more db' = post_db.more db"
  by (auto simp: allocate_def res_simps Let_def simp del: allocate_rows.simps split: if_splits
      dest!: allocate_rows_more)

lemma get_or_create_obligation_more:
  "get_or_create_obligation E t v db = (db', o') \<Longrightarrow> post_db.more db' = post_db.more db"
  by (auto simp: get_or_create_obligation_def Let_def split: option.splits)

lemma create_obligations_more:
  "create_obligations E t vs db = (db', os) \<Longrightarrow> post_db.more db' = post_db.more db"
proof (induction vs arbitrary: db os)
  case (Cons v vs)
  obtain db1 o' where v: "get_or_create_obligation E t v db = (db1, o')"
    by (cases "get_or_create_obligation E t v db")
  obtain db2 os' where vs: "create_obligations E t vs db1 = (db2, os')"
    by (cases "create_obligations E t vs db1")
  with Cons.prems v have "db' = db2" by simp
  with Cons.IH vs get_or_create_obligation_more [OF v] show ?case by simp
qed simp

lemma calculate_obligations_more:
  "calculate_obligations E now t db = Inr (db', os) \<Longrightarrow> post_db.more db' = post_db.more db"
proof -
  assume *: "calculate_obligations E now t db = Inr (db', os)"
  then obtain fee where fee: "fee_of (trd_id t) db = Inr fee"
    by (auto simp: calculate_obligations_def res_simps)
  obtain db1 os1 where c: "create_obligations E t (obligation_values t fee) db = (db1, os1)"
    by (cases "create_obligations E t (obligation_values t fee) db")
  from * fee c have "post_db.more db' = post_db.more db1"
    by (auto simp: calculate_obligations_def split: if_splits)
  with create_obligations_more [OF c] show ?thesis by simp
qed

lemma create_from_trade_more:
  "create_from_trade E now t db = Inr (db', i, c) \<Longrightarrow> post_db.more db' = post_db.more db"
  by (auto simp: create_from_trade_def res_simps Let_def split: option.splits if_splits)

lemma generate_confirmation_more:
  "generate_confirmation E now t db = Inr (db', c, n) \<Longrightarrow> post_db.more db' = post_db.more db"
  by (auto simp: generate_confirmation_def res_simps Let_def split: option.splits if_splits)

lemma add_effect_more: "add_effect e db = Inr db' \<Longrightarrow> post_db.more db' = post_db.more db"
  by (auto simp: add_effect_def split: if_splits)

lemma settle_instruction_more [simp]: "post_db.more (settle_instruction now i db) = post_db.more db"
  by (simp add: settle_instruction_def)

lemmas post_more =
  post_trade_transition_more capture_fill_more allocate_more calculate_obligations_more
  create_from_trade_more generate_confirmation_more add_effect_more


section \<open>One service at a time\<close>

text \<open>
  The newest trade is the last row of its table; \<open>post_tables\<close> are the tables a state change
  does not write. Each lemma says that a service succeeds on it and what it stores.
\<close>

definition post_tables where
  "post_tables db = (pd_fees db, pd_allocations db, pd_obligations db, pd_instructions db, pd_effects db,
     pd_confirmations db)"

definition newest :: "post_trade \<Rightarrow> post_trade list \<Rightarrow> 'a post_db_scheme \<Rightarrow> bool" where
  "newest t ts db \<longleftrightarrow> pd_trades db = ts @ [t] \<and> (\<forall>x \<in> set ts. trd_id x \<noteq> trd_id t)"

definition fee_recorded :: "uuid \<Rightarrow> rat \<Rightarrow> 'a post_db_scheme \<Rightarrow> bool" where
  "fee_recorded i fee db \<longleftrightarrow> fee_of i db = Inr fee"

lemma post_tables_audit [simp]: "post_tables (post_trade_audit E now a b c d e f g db) = post_tables db"
  by (simp add: post_tables_def post_trade_audit_def)

lemma post_tables_publish [simp]: "post_tables (post_trade_publish now t e p db) = post_tables db"
  by (simp add: post_tables_def post_trade_publish_def)

lemma pd_trades_audit [simp]: "pd_trades (post_trade_audit E now a b c d e f g db) = pd_trades db"
  by (simp add: post_trade_audit_def)

lemma pd_trades_publish [simp]: "pd_trades (post_trade_publish now t e p db) = pd_trades db"
  by (simp add: post_trade_publish_def)

lemma fee_of_tables: "post_tables db' = post_tables db \<Longrightarrow> fee_of i db' = fee_of i db"
  by (simp add: post_tables_def fee_of_def)

lemma newest_get: "newest t ts db \<Longrightarrow> get_row (\<lambda>x. trd_id x = trd_id t) (pd_trades db) = Inr t"
  by (simp add: newest_def get_row_def obj_get_snoc)

lemma newest_upd:
  "newest t ts db \<Longrightarrow> trd_id t' = trd_id t \<Longrightarrow>
   newest t' ts (db\<lparr>pd_trades := upd_where (\<lambda>x. trd_id x = trd_id t) (\<lambda>_. t') (pd_trades db)\<rparr>)"
  by (auto simp: newest_def upd_where_id)

lemma post_trade_transition_newest:
  assumes "newest t ts db" "can_transition (trd_state t) target"
  shows "\<exists>db'. post_trade_transition E now (trd_id t) target actor db =
             Inr (db', t\<lparr>trd_state := target, trd_version := Suc (trd_version t), trd_updated_at := now\<rparr>) \<and>
           newest (t\<lparr>trd_state := target, trd_version := Suc (trd_version t), trd_updated_at := now\<rparr>) ts db' \<and>
           post_tables db' = post_tables db \<and> ev_next db' = ev_next db \<and> pd_calendars db' = pd_calendars db"
proof -
  let ?t = "t\<lparr>trd_state := target, trd_version := Suc (trd_version t), trd_updated_at := now\<rparr>"
  have "newest ?t ts (db\<lparr>pd_trades := upd_where (\<lambda>x. trd_id x = trd_id t) (\<lambda>_. ?t) (pd_trades db)\<rparr>)"
    by (rule newest_upd [OF assms(1)]) simp
  then show ?thesis
    using assms(2) newest_get [OF assms(1)]
    by (simp add: post_trade_transition_def Let_def newest_def post_tables_def post_trade_audit_def
        post_trade_publish_def)
qed

text \<open>Nothing refers to the trade yet, apart from its fee.\<close>

definition unused_key :: "uuid \<Rightarrow> 'a post_db_scheme \<Rightarrow> bool" where
  "unused_key i db \<longleftrightarrow>
     (\<forall>x \<in> set (pd_trades db). trd_id x \<noteq> i) \<and> (\<forall>x \<in> set (pd_fees db). fsn_trade x \<noteq> i) \<and>
     (\<forall>x \<in> set (pd_allocations db). alc_trade x \<noteq> i) \<and> (\<forall>x \<in> set (pd_obligations db). obg_trade x \<noteq> i) \<and>
     (\<forall>x \<in> set (pd_instructions db). ins_trade x \<noteq> i) \<and> (\<forall>x \<in> set (pd_effects db). eff_trade x \<noteq> i) \<and>
     (\<forall>x \<in> set (pd_confirmations db). cnf_trade x \<noteq> i \<and> cnf_number x \<noteq> confirmation_number i)"

lemma capture_fill_creates:
  fixes db :: "'a post_db_scheme" and now :: timestamp
  assumes "0 < q" "0 < p" "to_tenant_ref ord = ''default''" "to_simulation ord"
    and "calculate_settlement_date E (date_of at') ''CRYPTO'' (pd_calendars db) = Inr (d, pol)"
    and "\<forall>x \<in> set (pd_trades db). trd_execution_id x \<noteq> ex \<and>
           trd_source_event_id x \<noteq> en_uuid5 E (''post-trade:'' @ ex)"
    and "unused_key (fresh E db) db"
  defines "t \<equiv> captured_trade E now ord ex q p at' (en_uuid5 E (''post-trade:'' @ ex)) d (fresh E db)"
  shows "\<exists>db'. capture_fill E now ord ex q p fee at' None db = Inr (db', t, True) \<and>
           newest t (pd_trades db) db' \<and> fee_of (trd_id t) db' = Inr (en_col E fee) \<and>
           pd_allocations db' = pd_allocations db \<and> pd_obligations db' = pd_obligations db \<and>
           pd_instructions db' = pd_instructions db \<and> pd_effects db' = pd_effects db \<and>
           pd_confirmations db' = pd_confirmations db \<and> ev_next db' = Suc (ev_next db)"
proof -
  have i: "trd_id t = fresh E db" by (simp add: t_def captured_trade_def)
  have first: "obj_first (\<lambda>x. trd_execution_id x = ex) (pd_trades db) = None"
    using assms(6) by (simp add: obj_first_None)
  have fee: "get_row (\<lambda>f. fsn_trade f = fresh E db) (pd_fees db @
      [\<lparr>fsn_trade = fresh E db, fsn_commission = en_col E fee, fsn_total_fee = en_col E fee,
        fsn_currency = ''USD'', fsn_pricing_policy_version = ''simulation-fee-v1''\<rparr>]) =
      Inr \<lparr>fsn_trade = fresh E db, fsn_commission = en_col E fee, fsn_total_fee = en_col E fee,
        fsn_currency = ''USD'', fsn_pricing_policy_version = ''simulation-fee-v1''\<rparr>"
    using assms(7) by (simp add: get_row_def obj_get_snoc unused_key_def)
  show ?thesis
    using assms(1-7) first fee i
    by (simp add: capture_fill_def Let_def t_def captured_trade_def newest_def fee_of_def unused_key_def
        post_trade_audit_def post_trade_publish_def)
qed

lemma allocate_newest:
  assumes "column_rounding (en_col E)" "exact_amount (trd_quantity t)"
    and "\<forall>x \<in> set (pd_allocations db). alc_trade x \<noteq> trd_id t"
  shows "\<exists>db' a. allocate E now t [] db = Inr (db', [a]) \<and>
           alc_trade a = trd_id t \<and> alc_quantity a = trd_quantity t \<and> alc_account_ref a = trd_account_ref t \<and>
           pd_allocations db' = pd_allocations db @ [a] \<and> pd_trades db' = pd_trades db \<and>
           pd_fees db' = pd_fees db \<and> pd_obligations db' = pd_obligations db \<and>
           pd_instructions db' = pd_instructions db \<and> pd_effects db' = pd_effects db \<and>
           pd_confirmations db' = pd_confirmations db"
proof -
  have none: "obj_first (same_allocation (trd_id t) (default_allocation t)) (pd_allocations db) = None"
    using assms(3) by (auto simp: obj_first_None same_allocation_def)
  have col: "en_col E (trd_quantity t) = trd_quantity t"
    by (rule exact_col [OF assms(1,2)])
  have sum: "allocated_quantity (trd_id t)
      (pd_allocations db @ [new_allocation E t (fresh E db) (default_allocation t)]) = trd_quantity t"
    using assms(3) col sum_where_zero [of "pd_allocations db" "\<lambda>a. alc_trade a = trd_id t" alc_quantity]
    by (auto simp: allocated_quantity_def new_allocation_def default_allocation_def)
  from sum col none assms(2) show ?thesis
    by (simp add: allocate_def Let_def dsum_def dadd_def get_or_create_allocation_def
        default_allocation_def [THEN arg_cong [of _ _ arq_quantity]]
        default_allocation_def [THEN arg_cong [of _ _ arq_account_ref]])
      (simp add: post_trade_audit_def post_trade_publish_def new_allocation_def default_allocation_def)
qed

text \<open>The three obligations, with their stored amounts.\<close>

definition obligation_sums :: "post_trade \<Rightarrow> rat \<Rightarrow> settlement_obligation list \<Rightarrow> bool" where
  "obligation_sums t fee os \<longleftrightarrow>
     map (\<lambda>o'. (obg_type o', obg_asset o', obg_quantity o', obg_amount o', obg_direction o')) os =
       obligation_values t fee \<and> (\<forall>o' \<in> set os. obg_trade o' = trd_id t)"

lemma get_or_create_obligation_new:
  assumes "\<forall>x \<in> set (pd_obligations db). \<not> (obg_trade x = trd_id t \<and> obg_type x = fst v)"
  shows "get_or_create_obligation E t v db =
    (db\<lparr>pd_obligations := pd_obligations db @ [obligation_row E t (fresh E db) v], ev_next := Suc (ev_next db)\<rparr>,
     obligation_row E t (fresh E db) v)"
proof -
  have "obj_first (\<lambda>o'. obg_trade o' = trd_id t \<and> obg_type o' = fst v) (pd_obligations db) = None"
    using assms by (simp add: obj_first_None)
  then show ?thesis by (simp add: get_or_create_obligation_def Let_def)
qed

lemma obligation_row_sel [simp]:
  "obg_trade (obligation_row E t i v) = trd_id t"
  "obg_type (obligation_row E t i v) = fst v"
  "obg_asset (obligation_row E t i v) = fst (snd v)"
  "obg_quantity (obligation_row E t i v) = en_col E (fst (snd (snd v)))"
  "obg_amount (obligation_row E t i v) = en_col E (fst (snd (snd (snd v))))"
  "obg_direction (obligation_row E t i v) = snd (snd (snd (snd v)))"
  by (simp_all add: obligation_row_def split: prod.splits)

lemma create_obligations_new:
  assumes "distinct (map fst vs)"
    and "\<forall>x \<in> set (pd_obligations db). obg_trade x = trd_id t \<longrightarrow> obg_type x \<notin> fst ` set vs"
  shows "\<exists>os n. create_obligations E t vs db =
           (db\<lparr>pd_obligations := pd_obligations db @ os, ev_next := n\<rparr>, os) \<and>
         list_all2 (\<lambda>o' v. \<exists>i. o' = obligation_row E t i v) os vs"
  using assms
proof (induction vs arbitrary: db)
  case Nil
  show ?case by (rule exI [of _ "[]"], rule exI [of _ "ev_next db"]) simp
next
  case (Cons v vs)
  let ?o = "obligation_row E t (fresh E db) v"
  let ?db = "db\<lparr>pd_obligations := pd_obligations db @ [?o], ev_next := Suc (ev_next db)\<rparr>"
  have v: "get_or_create_obligation E t v db = (?db, ?o)"
    using Cons.prems by (intro get_or_create_obligation_new) auto
  have "\<forall>x \<in> set (pd_obligations ?db). obg_trade x = trd_id t \<longrightarrow> obg_type x \<notin> fst ` set vs"
    using Cons.prems by auto
  from Cons.IH [OF _ this] Cons.prems obtain os n where
    "create_obligations E t vs ?db = (?db\<lparr>pd_obligations := pd_obligations ?db @ os, ev_next := n\<rparr>, os)"
    "list_all2 (\<lambda>o' v. \<exists>i. o' = obligation_row E t i v) os vs"
    by auto
  with v show ?case by (intro exI [of _ "?o # os"] exI [of _ n]) auto
qed

lemma calculate_obligations_newest:
  assumes "column_rounding (en_col E)" "fee_of (trd_id t) db = Inr fee"
    and "exact_amount (trd_quantity t)" "exact_amount (trd_gross_notional t)" "exact_amount fee"
    and "0 \<le> trd_quantity t" "0 \<le> trd_gross_notional t" "0 \<le> fee"
    and "\<forall>x \<in> set (pd_obligations db). obg_trade x \<noteq> trd_id t"
  shows "\<exists>db' os. calculate_obligations E now t db = Inr (db', os) \<and> obligation_sums t fee os \<and>
           pd_obligations db' = pd_obligations db @ os \<and> pd_trades db' = pd_trades db \<and>
           pd_fees db' = pd_fees db \<and> pd_allocations db' = pd_allocations db \<and>
           pd_instructions db' = pd_instructions db \<and> pd_effects db' = pd_effects db \<and>
           pd_confirmations db' = pd_confirmations db"
proof -
  let ?vs = "obligation_values t fee"
  have "distinct (map fst ?vs)" by (simp add: obligation_values_def)
  moreover have "\<forall>x \<in> set (pd_obligations db). obg_trade x = trd_id t \<longrightarrow> obg_type x \<notin> fst ` set ?vs"
    using assms(9) by simp
  ultimately obtain os n where os:
    "create_obligations E t ?vs db = (db\<lparr>pd_obligations := pd_obligations db @ os, ev_next := n\<rparr>, os)"
    "list_all2 (\<lambda>o' v. \<exists>i. o' = obligation_row E t i v) os ?vs"
    using create_obligations_new by blast
  have cols: "en_col E (trd_quantity t) = trd_quantity t" "en_col E (trd_gross_notional t) = trd_gross_notional t"
    "en_col E fee = fee" "en_col E 0 = 0"
    using assms by (auto intro: exact_col)
  have sums: "obligation_sums t fee os"
    using os(2) cols
    by (auto simp: obligation_sums_def obligation_values_def list_all2_Cons2 split: if_splits)
  have "trade_obligations (trd_id t) (pd_obligations db @ os) = os"
    using assms(9) sums by (auto simp: trade_obligations_def obligation_sums_def filter_empty_conv)
  moreover have "obligations_valid os"
    using sums assms(6-8)
    by (auto simp: obligation_sums_def obligations_valid_def obligation_values_def map_eq_Cons_conv
        split: if_splits)
  ultimately show ?thesis
    using os sums assms(2)
    by (simp add: calculate_obligations_def) (simp add: post_trade_audit_def)
qed

text \<open>The legs of an instruction: what is delivered and what is received.\<close>

definition delivered :: "post_trade \<Rightarrow> rat \<Rightarrow> string \<times> rat" where
  "delivered t fee =
     (if trd_side t = Buy then (trd_trade_currency t, trd_gross_notional t + fee)
      else (base_asset (trd_instrument_id t), trd_quantity t))"

definition received :: "post_trade \<Rightarrow> rat \<Rightarrow> string \<times> rat" where
  "received t fee =
     (if trd_side t = Buy then (base_asset (trd_instrument_id t), trd_quantity t)
      else (trd_trade_currency t, trd_gross_notional t - fee))"

lemma obligation_sums_three:
  assumes "obligation_sums t fee os"
  obtains c a f where "os = [c, a, f]"
    "obg_type c = (if trd_side t = Buy then ''CASH_DEBIT'' else ''CASH_CREDIT'')"
    "obg_asset c = trd_trade_currency t" "obg_amount c = trd_gross_notional t"
    "obg_type a = (if trd_side t = Buy then ''ASSET_RECEIPT'' else ''ASSET_DELIVERY'')"
    "obg_asset a = base_asset (trd_instrument_id t)" "obg_quantity a = trd_quantity t"
    "obg_type f = ''FEE_DEBIT''" "obg_amount f = fee"
  using assms
  by (auto simp: obligation_sums_def obligation_values_def map_eq_Cons_conv split: if_splits)

lemma obligation_of_three:
  assumes "obg_type c = kc" "obg_type a = ka" "obg_type f = kf" "distinct [kc, ka, kf]"
  shows "obligation_of kc [c, a, f] = Inr c" "obligation_of ka [c, a, f] = Inr a"
    "obligation_of kf [c, a, f] = Inr f"
  using assms by (auto simp: obligation_of_def)

lemma create_from_trade_newest:
  assumes col: "column_rounding (en_col E)"
    and sums: "obligation_sums t fee os"
    and os: "trade_obligations (trd_id t) (pd_obligations db) = os"
    and exact: "exact_amount (trd_quantity t)" "exact_amount (snd (delivered t fee))"
      "exact_amount (snd (received t fee))"
    and nonneg: "0 \<le> snd (delivered t fee)" "0 \<le> snd (received t fee)"
    and none: "\<forall>x \<in> set (pd_instructions db). ins_trade x \<noteq> trd_id t"
  shows "\<exists>db' i. create_from_trade E now t db = Inr (db', i, True) \<and> ins_trade i = trd_id t \<and>
           (ins_deliver_asset i, ins_deliver_quantity i) = delivered t fee \<and>
           (ins_receive_asset i, ins_receive_quantity i) = received t fee \<and>
           ins_settlement_date i = trd_settlement_date t \<and> ins_id i = fresh E db \<and>
           pd_instructions db' = pd_instructions db @ [i] \<and> pd_trades db' = pd_trades db \<and>
           pd_fees db' = pd_fees db \<and> pd_allocations db' = pd_allocations db \<and>
           pd_obligations db' = pd_obligations db \<and> pd_effects db' = pd_effects db \<and>
           pd_confirmations db' = pd_confirmations db"
proof -
  let ?kc = "if trd_side t = Buy then ''CASH_DEBIT'' else ''CASH_CREDIT''"
  let ?ka = "if trd_side t = Buy then ''ASSET_RECEIPT'' else ''ASSET_DELIVERY''"
  from sums obtain c a f where three: "os = [c, a, f]" "obg_type c = ?kc" "obg_type a = ?ka"
      "obg_type f = ''FEE_DEBIT''"
    and vals: "obg_asset c = trd_trade_currency t" "obg_amount c = trd_gross_notional t"
      "obg_asset a = base_asset (trd_instrument_id t)" "obg_quantity a = trd_quantity t" "obg_amount f = fee"
    by (rule obligation_sums_three)
  have get: "obligation_of ?kc os = Inr c" "obligation_of ?ka os = Inr a" "obligation_of ''FEE_DEBIT'' os = Inr f"
    unfolding three(1) by (rule obligation_of_three [OF three(2-4)]; simp)+
  define i where "i = new_instruction E now t (fresh E db) c a f"
  have cols: "en_col E (snd (delivered t fee)) = snd (delivered t fee)"
    "en_col E (snd (received t fee)) = snd (received t fee)"
    "rnd (snd (delivered t fee)) = snd (delivered t fee)" "rnd (snd (received t fee)) = snd (received t fee)"
    using exact by (simp_all add: exact_col [OF col])
  have legs: "(ins_deliver_asset i, ins_deliver_quantity i) = delivered t fee"
    "(ins_receive_asset i, ins_receive_quantity i) = received t fee"
    "ins_trade i = trd_id t" "ins_id i = fresh E db" "ins_settlement_date i = trd_settlement_date t"
    "ins_simulation i"
    using cols vals
    by (auto simp: i_def new_instruction_def delivered_def received_def dadd_def dsub_def split: if_splits)
  with nonneg have "instruction_valid i"
    by (auto simp: instruction_valid_def dest!: arg_cong [of _ _ snd])
  moreover have "obj_first (\<lambda>x. ins_trade x = trd_id t) (pd_instructions db) = None"
    using none by (simp add: obj_first_None)
  ultimately have "create_from_trade E now t db = Inr (
      post_trade_publish now t ''post_trade.settlement.pending.v1''
        [(''settlement_id'', JStr (str_uuid (ins_id i))), (''state'', JStr (ins_state i))]
        (post_trade_audit E now (trd_tenant_ref t) ''system'' ''settlement.instruction.created''
           ''settlement_instruction'' (str_uuid (ins_id i))
           (JObj [(''trade_id'', JStr (str_uuid (trd_id t))), (''simulation'', JBool True)])
           ''simulation'' (db\<lparr>pd_instructions := pd_instructions db @ [i], ev_next := Suc (ev_next db)\<rparr>)), i, True)"
    using get os by (simp add: create_from_trade_def Let_def i_def split del: if_split)
  with legs show ?thesis
    by (simp add: post_trade_audit_def post_trade_publish_def)
qed

lemma generate_confirmation_newest:
  assumes "fee_of (trd_id t) db = Inr fee"
    and "\<forall>x \<in> set (pd_confirmations db). cnf_trade x \<noteq> trd_id t \<and> cnf_number x \<noteq> confirmation_number (trd_id t)"
  shows "\<exists>db' c. generate_confirmation E now t db = Inr (db', c, True) \<and> cnf_trade c = trd_id t \<and>
           cnf_version c = 1 \<and>
           pd_confirmations db' = pd_confirmations db @ [c] \<and> pd_trades db' = pd_trades db \<and>
           pd_fees db' = pd_fees db \<and> pd_allocations db' = pd_allocations db \<and>
           pd_obligations db' = pd_obligations db \<and> pd_effects db' = pd_effects db \<and>
           pd_instructions db' = pd_instructions db"
proof -
  have "obj_first (\<lambda>c. cnf_trade c = trd_id t \<and> cnf_version c = 1) (pd_confirmations db) = None"
    using assms(2) by (simp add: obj_first_None)
  with assms show ?thesis
    by (simp add: generate_confirmation_def Let_def)
      (simp add: post_trade_audit_def post_trade_publish_def new_confirmation_def)
qed

section \<open>The chain\<close>

text \<open>What the tables hold of trade \<open>t\<close> once it is settled.\<close>

definition settled_records :: "post_trade \<Rightarrow> rat \<Rightarrow> 'a post_db_scheme \<Rightarrow> bool" where
  "settled_records t fee db \<longleftrightarrow>
     trd_state t = PtSettled \<and> fee_of (trd_id t) db = Inr fee \<and>
     allocated_quantity (trd_id t) (pd_allocations db) = trd_quantity t \<and>
     obligation_sums t fee (trade_obligations (trd_id t) (pd_obligations db)) \<and>
     (\<exists>i. filter (\<lambda>x. ins_trade x = trd_id t) (pd_instructions db) = [i] \<and> ins_state i = ''SETTLED'' \<and>
        (ins_deliver_asset i, ins_deliver_quantity i) = delivered t fee \<and>
        (ins_receive_asset i, ins_receive_quantity i) = received t fee) \<and>
     (\<exists>e. filter (\<lambda>x. eff_trade x = trd_id t) (pd_effects db) = [e] \<and> eff_effect_type e = ''TRADE'' \<and>
        eff_quantity_delta e = (if trd_side t = Buy then trd_quantity t else - trd_quantity t)) \<and>
     (\<exists>c. filter (\<lambda>x. cnf_trade x = trd_id t) (pd_confirmations db) = [c] \<and> cnf_version c = 1)"

text \<open>The amounts of a fill are exact: nothing is rounded on the way.\<close>

definition exact_fill :: "order_side \<Rightarrow> rat \<Rightarrow> rat \<Rightarrow> rat \<Rightarrow> bool" where
  "exact_fill side quantity gross fee \<longleftrightarrow>
     0 < quantity \<and> 0 \<le> gross \<and> 0 \<le> fee \<and> exact_amount quantity \<and> exact_amount gross \<and> exact_amount fee \<and>
     exact_amount (gross + fee) \<and> exact_amount (gross - fee) \<and> (side = Sell \<longrightarrow> fee \<le> gross)"

definition moved :: "timestamp \<Rightarrow> nat \<Rightarrow> post_trade_state \<Rightarrow> post_trade \<Rightarrow> post_trade" where
  "moved now n s t = t\<lparr>trd_state := s, trd_version := trd_version t + n, trd_updated_at := now\<rparr>"

lemma moved_sel [simp]:
  "trd_id (moved now n s t) = trd_id t" "trd_state (moved now n s t) = s"
  "trd_quantity (moved now n s t) = trd_quantity t" "trd_side (moved now n s t) = trd_side t"
  "trd_gross_notional (moved now n s t) = trd_gross_notional t"
  "trd_account_ref (moved now n s t) = trd_account_ref t" "trd_tenant_ref (moved now n s t) = trd_tenant_ref t"
  "trd_instrument_id (moved now n s t) = trd_instrument_id t"
  "trd_trade_currency (moved now n s t) = trd_trade_currency t"
  "trd_settlement_date (moved now n s t) = trd_settlement_date t"
  "trd_trade_time (moved now n s t) = trd_trade_time t"
  by (simp_all add: moved_def)

lemma moved_moved [simp]: "moved now m s' (moved now n s t) = moved now (n + m) s' t"
  by (simp add: moved_def)

lemma delivered_moved [simp]: "delivered (moved now n s t) fee = delivered t fee"
  and received_moved [simp]: "received (moved now n s t) fee = received t fee"
  and obligation_sums_moved [simp]: "obligation_sums (moved now n s t) fee os = obligation_sums t fee os"
  by (simp_all add: delivered_def received_def obligation_sums_def obligation_values_def)

text \<open>
  The state between two services: the newest trade, its fee and the rows the other tables hold.
  Each service moves from one such state to the next.
\<close>

definition chain_state where
  "chain_state t ts fee as os xs es cs db \<longleftrightarrow>
     newest t ts db \<and> fee_of (trd_id t) db = Inr fee \<and> pd_allocations db = as \<and> pd_obligations db = os \<and>
     pd_instructions db = xs \<and> pd_effects db = es \<and> pd_confirmations db = cs"

lemma chain_go:
  assumes "chain_state t ts fee as os xs es cs db" "target \<in> post_trade_transitions (trd_state t)"
  shows "\<exists>db'. post_trade_transition E now (trd_id t) target actor db = Inr (db', moved now 1 target t) \<and>
           chain_state (moved now 1 target t) ts fee as os xs es cs db'"
proof -
  from assms have "newest t ts db" "can_transition (trd_state t) target"
    by (simp_all add: chain_state_def can_transition_def)
  from post_trade_transition_newest [OF this, of E now actor] obtain db' where
    "post_trade_transition E now (trd_id t) target actor db = Inr (db', moved now 1 target t)"
    "newest (moved now 1 target t) ts db'" "post_tables db' = post_tables db"
    by (auto simp: moved_def)
  with assms(1) show ?thesis
    using fee_of_tables [of db' db "trd_id t"] by (auto simp: chain_state_def post_tables_def)
qed

lemma chain_tables:
  assumes "chain_state t ts fee as os xs es cs db" "pd_trades db' = pd_trades db" "pd_fees db' = pd_fees db"
    "pd_allocations db' = as'" "pd_obligations db' = os'" "pd_instructions db' = xs'" "pd_effects db' = es'"
    "pd_confirmations db' = cs'"
  shows "chain_state t ts fee as' os' xs' es' cs' db'"
  using assms by (simp add: chain_state_def newest_def fee_of_def)

lemma chain_allocate:
  assumes "chain_state t ts fee as os xs es cs db" "column_rounding (en_col E)" "exact_amount (trd_quantity t)"
    and "\<forall>x \<in> set as. alc_trade x \<noteq> trd_id t"
  shows "\<exists>db' a. allocate E now t [] db = Inr (db', [a]) \<and> alc_trade a = trd_id t \<and>
           alc_quantity a = trd_quantity t \<and> chain_state t ts fee (as @ [a]) os xs es cs db'"
  using allocate_newest [OF assms(2,3), of db now] assms(1,4)
  by (fastforce simp: chain_state_def intro: chain_tables [OF assms(1)])

lemma chain_obligations:
  assumes "chain_state t ts fee as os xs es cs db" "column_rounding (en_col E)"
    and "exact_fill (trd_side t) (trd_quantity t) (trd_gross_notional t) fee"
    and "\<forall>x \<in> set os. obg_trade x \<noteq> trd_id t"
  shows "\<exists>db' os'. calculate_obligations E now t db = Inr (db', os') \<and> obligation_sums t fee os' \<and>
           chain_state t ts fee as (os @ os') xs es cs db'"
  using calculate_obligations_newest [OF assms(2), of t db fee now] assms
  by (fastforce simp: chain_state_def exact_fill_def intro: chain_tables [OF assms(1)])

lemma chain_effect:
  assumes "chain_state t ts fee as os xs es cs db" "\<forall>x \<in> set es. eff_trade x \<noteq> eff_trade e"
  shows "\<exists>db'. add_effect e db = Inr db' \<and> chain_state t ts fee as os xs (es @ [e]) cs db'"
  using assms by (auto simp: add_effect_def chain_state_def newest_def fee_of_def)

lemma chain_instruction:
  assumes st: "chain_state t ts fee as (os @ os') xs es cs db" and "column_rounding (en_col E)"
    and exact: "exact_fill (trd_side t) (trd_quantity t) (trd_gross_notional t) fee" and "obligation_sums t fee os'"
    and os: "\<forall>x \<in> set os. obg_trade x \<noteq> trd_id t" and xs: "\<forall>x \<in> set xs. ins_trade x \<noteq> trd_id t"
  shows "\<exists>db' i. create_from_trade E now t db = Inr (db', i, True) \<and> ins_trade i = trd_id t \<and>
           (ins_deliver_asset i, ins_deliver_quantity i) = delivered t fee \<and>
           (ins_receive_asset i, ins_receive_quantity i) = received t fee \<and>
           chain_state t ts fee as (os @ os') (xs @ [i]) es cs db'"
proof -
  have "trade_obligations (trd_id t) (pd_obligations db) = os'"
    using st os assms(4) by (auto simp: chain_state_def trade_obligations_def obligation_sums_def filter_empty_conv)
  moreover have "exact_amount (snd (delivered t fee))" "exact_amount (snd (received t fee))"
    "0 \<le> snd (delivered t fee)" "0 \<le> snd (received t fee)"
    using exact by (cases "trd_side t"; simp add: exact_fill_def delivered_def received_def)+
  ultimately obtain db' i where "create_from_trade E now t db = Inr (db', i, True)" "ins_trade i = trd_id t"
    "(ins_deliver_asset i, ins_deliver_quantity i) = delivered t fee"
    "(ins_receive_asset i, ins_receive_quantity i) = received t fee"
    "pd_instructions db' = pd_instructions db @ [i]" "pd_trades db' = pd_trades db" "pd_fees db' = pd_fees db"
    "pd_allocations db' = pd_allocations db" "pd_obligations db' = pd_obligations db"
    "pd_effects db' = pd_effects db" "pd_confirmations db' = pd_confirmations db"
    using create_from_trade_newest [OF assms(2,4), of db now] exact xs st
    by (auto simp: exact_fill_def chain_state_def)
  then show ?thesis
    using st by (intro exI [of _ db'] exI [of _ i]) (simp add: chain_state_def newest_def fee_of_def)
qed

lemma chain_confirmation:
  assumes "chain_state t ts fee as os xs es cs db"
    and "\<forall>x \<in> set cs. cnf_trade x \<noteq> trd_id t \<and> cnf_number x \<noteq> confirmation_number (trd_id t)"
  shows "\<exists>db' c. generate_confirmation E now t db = Inr (db', c, True) \<and> cnf_trade c = trd_id t \<and>
           cnf_version c = 1 \<and> chain_state t ts fee as os xs es (cs @ [c]) db'"
  using generate_confirmation_newest [of t db fee E now] assms
  by (fastforce simp: chain_state_def intro: chain_tables [OF assms(1)])

lemma filter_snoc_key: "\<forall>x \<in> set xs. \<not> p x \<Longrightarrow> p a \<Longrightarrow> filter p (xs @ [a]) = [a]"
  by (simp add: filter_empty_conv)

lemma settled_records_chain:
  assumes "chain_state t ts fee (as @ [a]) (os @ os') (xs @ [i]) (es @ [e]) (cs @ [c]) db"
    and "trd_state t = PtSettled" "alc_trade a = trd_id t" "alc_quantity a = trd_quantity t"
    and "obligation_sums t fee os'" "ins_trade i = trd_id t" "ins_state i = ''SETTLED''"
    and "(ins_deliver_asset i, ins_deliver_quantity i) = delivered t fee"
    and "(ins_receive_asset i, ins_receive_quantity i) = received t fee"
    and "eff_trade e = trd_id t" "eff_effect_type e = ''TRADE''"
    and "eff_quantity_delta e = (if trd_side t = Buy then trd_quantity t else - trd_quantity t)"
    and "cnf_trade c = trd_id t" "cnf_version c = 1"
    and "\<forall>x \<in> set as. alc_trade x \<noteq> trd_id t" "\<forall>x \<in> set os. obg_trade x \<noteq> trd_id t"
    and "\<forall>x \<in> set xs. ins_trade x \<noteq> trd_id t" "\<forall>x \<in> set es. eff_trade x \<noteq> trd_id t"
    and "\<forall>x \<in> set cs. cnf_trade x \<noteq> trd_id t"
  shows "settled_records t fee db"
proof -
  have "trade_obligations (trd_id t) (os @ os') = os'"
    using assms(5,16) by (auto simp: trade_obligations_def obligation_sums_def filter_empty_conv)
  moreover have "allocated_quantity (trd_id t) (as @ [a]) = trd_quantity t"
    using assms(3,4,15) sum_where_zero [of as "\<lambda>x. alc_trade x = trd_id t" alc_quantity]
    by (auto simp: allocated_quantity_def)
  ultimately show ?thesis
    using assms by (auto simp: settled_records_def chain_state_def filter_snoc_key)
qed

definition settled_instruction :: "timestamp \<Rightarrow> settlement_instruction \<Rightarrow> settlement_instruction" where
  "settled_instruction now i = i\<lparr>ins_state := ''SETTLED'', ins_updated_at := now\<rparr>"

lemma chain_settle_instruction:
  assumes "chain_state t ts fee as os (xs @ [i]) es cs db" "\<forall>x \<in> set xs. ins_trade x \<noteq> trd_id t"
  shows "\<exists>xs'. (\<forall>x \<in> set xs'. ins_trade x \<noteq> trd_id t) \<and>
    chain_state t ts fee as os (xs' @ [settled_instruction now i]) es cs (settle_instruction now i db)"
  using assms
  by (intro exI [of _ "upd_where (\<lambda>x. ins_id x = ins_id i)
      (\<lambda>x. x\<lparr>ins_state := ''SETTLED'', ins_updated_at := now\<rparr>) xs"])
    (auto simp: chain_state_def newest_def fee_of_def settle_instruction_def settled_instruction_def set_upd_where)

abbreviation goes where
  "goes E now t db target db' n \<equiv>
     post_trade_transition E now (trd_id t) target ''system'' db = Inr (db', moved now n target t)"

lemma settle_to_allocated:
  assumes st: "chain_state t ts fee as os xs es cs db" and col: "column_rounding (en_col E)"
    and cap: "trd_state t = PtCaptured" and q: "exact_amount (trd_quantity t)"
    and as: "\<forall>x \<in> set as. alc_trade x \<noteq> trd_id t"
  shows "\<exists>db2 db3 db4 db5 a. goes E now t db PtValidating db2 1 \<and> goes E now t db2 PtValidated db3 2 \<and>
    allocate E now (moved now 2 PtValidated t) [] db3 = Inr (db4, [a]) \<and> goes E now t db4 PtAllocated db5 3 \<and>
    alc_trade a = trd_id t \<and> alc_quantity a = trd_quantity t \<and>
    chain_state (moved now 3 PtAllocated t) ts fee (as @ [a]) os xs es cs db5"
proof -
  from chain_go [OF st, of PtValidating E now "''system''"] cap obtain db2 where
    s2: "goes E now t db PtValidating db2 1"
    and c2: "chain_state (moved now 1 PtValidating t) ts fee as os xs es cs db2" by auto
  from chain_go [OF c2, of PtValidated E now "''system''"] obtain db3 where
    s3: "goes E now t db2 PtValidated db3 2"
    and c3: "chain_state (moved now 2 PtValidated t) ts fee as os xs es cs db3" by (auto simp: numeral_2_eq_2)
  from chain_allocate [OF c3 col, of now] q as obtain db4 a where
    s4: "allocate E now (moved now 2 PtValidated t) [] db3 = Inr (db4, [a])"
    and a: "alc_trade a = trd_id t" "alc_quantity a = trd_quantity t"
    and c4: "chain_state (moved now 2 PtValidated t) ts fee (as @ [a]) os xs es cs db4"
    by auto
  from chain_go [OF c4, of PtAllocated E now "''system''"] obtain db5 where
    "goes E now t db4 PtAllocated db5 3"
    "chain_state (moved now 3 PtAllocated t) ts fee (as @ [a]) os xs es cs db5" by (auto simp: numeral_3_eq_3)
  with s2 s3 s4 a show ?thesis by blast
qed

lemma settle_to_instruction:
  assumes c5: "chain_state (moved now 3 PtAllocated t) ts fee as os xs es cs db5"
    and col: "column_rounding (en_col E)"
    and exact: "exact_fill (trd_side t) (trd_quantity t) (trd_gross_notional t) fee"
    and unused: "\<forall>x \<in> set os. obg_trade x \<noteq> trd_id t" "\<forall>x \<in> set xs. ins_trade x \<noteq> trd_id t"
      "\<forall>x \<in> set es. eff_trade x \<noteq> trd_id t"
  shows "\<exists>db6 db7 db8 db9 os' i. calculate_obligations E now (moved now 3 PtAllocated t) db5 = Inr (db6, os') \<and>
    add_effect (trade_effect now (moved now 3 PtAllocated t)) db6 = Inr db7 \<and>
    goes E now t db7 PtSettlementPending db8 4 \<and>
    create_from_trade E now (moved now 4 PtSettlementPending t) db8 = Inr (db9, i, True) \<and>
    obligation_sums t fee os' \<and> ins_trade i = trd_id t \<and>
    (ins_deliver_asset i, ins_deliver_quantity i) = delivered t fee \<and>
    (ins_receive_asset i, ins_receive_quantity i) = received t fee \<and>
    chain_state (moved now 4 PtSettlementPending t) ts fee as (os @ os') (xs @ [i])
      (es @ [trade_effect now (moved now 3 PtAllocated t)]) cs db9"
proof -
  let ?e = "trade_effect now (moved now 3 PtAllocated t)"
  from chain_obligations [OF c5 col, of now] exact unused(1) obtain db6 os' where
    s6: "calculate_obligations E now (moved now 3 PtAllocated t) db5 = Inr (db6, os')"
    and os': "obligation_sums t fee os'"
    and c6: "chain_state (moved now 3 PtAllocated t) ts fee as (os @ os') xs es cs db6" by auto
  from chain_effect [OF c6, of ?e] unused(3) obtain db7 where s7: "add_effect ?e db6 = Inr db7"
    and c7: "chain_state (moved now 3 PtAllocated t) ts fee as (os @ os') xs (es @ [?e]) cs db7"
    by (auto simp: trade_effect_def)
  from chain_go [OF c7, of PtSettlementPending E now "''system''"] obtain db8 where
    s8: "goes E now t db7 PtSettlementPending db8 4"
    and c8: "chain_state (moved now 4 PtSettlementPending t) ts fee as (os @ os') xs (es @ [?e]) cs db8"
    by (auto simp: eval_nat_numeral)
  from chain_instruction [OF c8 col, of now] exact os' unused(1,2) obtain db9 i where
    "create_from_trade E now (moved now 4 PtSettlementPending t) db8 = Inr (db9, i, True)"
    "ins_trade i = trd_id t" "(ins_deliver_asset i, ins_deliver_quantity i) = delivered t fee"
    "(ins_receive_asset i, ins_receive_quantity i) = received t fee"
    "chain_state (moved now 4 PtSettlementPending t) ts fee as (os @ os') (xs @ [i]) (es @ [?e]) cs db9"
    by auto
  with s6 s7 s8 os' show ?thesis by blast
qed

lemma settle_to_settled:
  assumes c9: "chain_state (moved now 4 PtSettlementPending t) ts fee as os (xs @ [i]) es cs db9"
    and unused: "\<forall>x \<in> set xs. ins_trade x \<noteq> trd_id t"
      "\<forall>x \<in> set cs. cnf_trade x \<noteq> trd_id t \<and> cnf_number x \<noteq> confirmation_number (trd_id t)"
  shows "\<exists>db10 db11 db12 db13 c xs'. goes E now t db9 PtSettlementInstructed db10 5 \<and>
    generate_confirmation E now (moved now 5 PtSettlementInstructed t) db10 = Inr (db11, c, True) \<and>
    goes E now t db11 PtSettlementProcessing db12 6 \<and> goes E now t db12 PtSettled db13 7 \<and>
    cnf_trade c = trd_id t \<and> cnf_version c = 1 \<and> (\<forall>x \<in> set xs'. ins_trade x \<noteq> trd_id t) \<and>
    chain_state (moved now 7 PtSettled t) ts fee as os (xs' @ [settled_instruction now i]) es (cs @ [c])
      (settle_instruction now i db13)"
proof -
  from chain_go [OF c9, of PtSettlementInstructed E now "''system''"] obtain db10 where
    s10: "goes E now t db9 PtSettlementInstructed db10 5"
    and c10: "chain_state (moved now 5 PtSettlementInstructed t) ts fee as os (xs @ [i]) es cs db10"
    by (auto simp: eval_nat_numeral)
  from chain_confirmation [OF c10, of E now] unused(2) obtain db11 c where
    s11: "generate_confirmation E now (moved now 5 PtSettlementInstructed t) db10 = Inr (db11, c, True)"
    and c: "cnf_trade c = trd_id t" "cnf_version c = 1"
    and c11: "chain_state (moved now 5 PtSettlementInstructed t) ts fee as os (xs @ [i]) es (cs @ [c]) db11"
    by auto
  from chain_go [OF c11, of PtSettlementProcessing E now "''system''"] obtain db12 where
    s12: "goes E now t db11 PtSettlementProcessing db12 6"
    and c12: "chain_state (moved now 6 PtSettlementProcessing t) ts fee as os (xs @ [i]) es (cs @ [c]) db12"
    by (auto simp: eval_nat_numeral)
  from chain_go [OF c12, of PtSettled E now "''system''"] obtain db13 where
    s13: "goes E now t db12 PtSettled db13 7"
    and c13: "chain_state (moved now 7 PtSettled t) ts fee as os (xs @ [i]) es (cs @ [c]) db13"
    by (auto simp: eval_nat_numeral)
  from chain_settle_instruction [OF c13, of now] unused(1) obtain xs' where
    "\<forall>x \<in> set xs'. ins_trade x \<noteq> trd_id t"
    "chain_state (moved now 7 PtSettled t) ts fee as os (xs' @ [settled_instruction now i]) es (cs @ [c])
       (settle_instruction now i db13)" by auto
  with s10 s11 s12 s13 c show ?thesis by blast
qed

lemma settle_captured_settles:
  assumes st: "chain_state t ts fee as os xs es cs db" and col: "column_rounding (en_col E)"
    and cap: "trd_state t = PtCaptured"
    and exact: "exact_fill (trd_side t) (trd_quantity t) (trd_gross_notional t) fee"
    and unused: "\<forall>x \<in> set as. alc_trade x \<noteq> trd_id t" "\<forall>x \<in> set os. obg_trade x \<noteq> trd_id t"
      "\<forall>x \<in> set xs. ins_trade x \<noteq> trd_id t" "\<forall>x \<in> set es. eff_trade x \<noteq> trd_id t"
      "\<forall>x \<in> set cs. cnf_trade x \<noteq> trd_id t \<and> cnf_number x \<noteq> confirmation_number (trd_id t)"
  shows "\<exists>db'. settle_captured E now t db = Inr (db', moved now 7 PtSettled t) \<and>
           newest (moved now 7 PtSettled t) ts db' \<and> settled_records (moved now 7 PtSettled t) fee db'"
proof -
  from exact have q: "exact_amount (trd_quantity t)" by (simp add: exact_fill_def)
  from settle_to_allocated [OF st col cap q unused(1), of now] obtain db2 db3 db4 db5 a where
    s: "goes E now t db PtValidating db2 1" "goes E now t db2 PtValidated db3 2"
      "allocate E now (moved now 2 PtValidated t) [] db3 = Inr (db4, [a])" "goes E now t db4 PtAllocated db5 3"
    and a: "alc_trade a = trd_id t" "alc_quantity a = trd_quantity t"
    and c5: "chain_state (moved now 3 PtAllocated t) ts fee (as @ [a]) os xs es cs db5" by blast
  from settle_to_instruction [OF c5 col exact unused(2-4)] obtain db6 db7 db8 db9 os' i where
    m: "calculate_obligations E now (moved now 3 PtAllocated t) db5 = Inr (db6, os')"
      "add_effect (trade_effect now (moved now 3 PtAllocated t)) db6 = Inr db7"
      "goes E now t db7 PtSettlementPending db8 4"
      "create_from_trade E now (moved now 4 PtSettlementPending t) db8 = Inr (db9, i, True)"
    and i: "obligation_sums t fee os'" "ins_trade i = trd_id t"
      "(ins_deliver_asset i, ins_deliver_quantity i) = delivered t fee"
      "(ins_receive_asset i, ins_receive_quantity i) = received t fee"
    and c9: "chain_state (moved now 4 PtSettlementPending t) ts fee (as @ [a]) (os @ os') (xs @ [i])
      (es @ [trade_effect now (moved now 3 PtAllocated t)]) cs db9" by blast
  from settle_to_settled [OF c9 unused(3,5), of E] obtain db10 db11 db12 db13 c xs' where
    e: "goes E now t db9 PtSettlementInstructed db10 5"
      "generate_confirmation E now (moved now 5 PtSettlementInstructed t) db10 = Inr (db11, c, True)"
      "goes E now t db11 PtSettlementProcessing db12 6" "goes E now t db12 PtSettled db13 7"
    and c: "cnf_trade c = trd_id t" "cnf_version c = 1" "\<forall>x \<in> set xs'. ins_trade x \<noteq> trd_id t"
    and c14: "chain_state (moved now 7 PtSettled t) ts fee (as @ [a]) (os @ os') (xs' @ [settled_instruction now i])
      (es @ [trade_effect now (moved now 3 PtAllocated t)]) (cs @ [c]) (settle_instruction now i db13)" by blast
  have "settled_records (moved now 7 PtSettled t) fee (settle_instruction now i db13)"
    by (rule settled_records_chain [OF c14])
      (use a i c unused in \<open>simp_all add: settled_instruction_def trade_effect_def\<close>)
  with c14 s m e show ?thesis
    by (simp add: settle_captured_def Let_def chain_state_def)
qed

end
