(* ===== verification/Valuation_Facts.thy ===== *)
theory Valuation_Facts
  imports Post_Trade_Facts "HOL-Library.Multiset"
begin

text \<open>
  The disposal loop against its specification: \<open>fifo_remaining\<close> takes a quantity from the front
  of a list of remaining quantities. Then the accounting step of a settled trade and the whole
  post-fill chain.
\<close>

section \<open>First in, first out\<close>

fun fifo_remaining :: "rat \<Rightarrow> rat list \<Rightarrow> rat list" where
  "fifo_remaining n [] = []"
| "fifo_remaining n (r # rs) = (r - min n r) # fifo_remaining (n - min n r) rs"

lemma fifo_remaining_0: "(\<And>r. r \<in> set rs \<Longrightarrow> 0 \<le> r) \<Longrightarrow> fifo_remaining 0 rs = rs"
  by (induction rs) (auto simp: min_def)

lemma sum_fifo_remaining:
  "0 \<le> n \<Longrightarrow> n \<le> sum_list rs \<Longrightarrow> (\<And>r. r \<in> set rs \<Longrightarrow> 0 \<le> r) \<Longrightarrow>
   sum_list (fifo_remaining n rs) = sum_list rs - n"
proof (induction rs arbitrary: n)
  case (Cons r rs)
  have "0 \<le> n - min n r" "n - min n r \<le> sum_list rs"
    using Cons.prems by (auto simp: min_def intro: sum_list_nonneg)
  with Cons.IH [of "n - min n r"] Cons.prems show ?case by simp
qed simp

text \<open>A later entry is touched only when every earlier one is used up.\<close>

lemma fifo_remaining_order:
  assumes "i < j" "j < length rs" "fifo_remaining n rs ! j \<noteq> rs ! j" "0 \<le> n"
    and "\<And>r. r \<in> set rs \<Longrightarrow> 0 \<le> r"
  shows "fifo_remaining n rs ! i = 0"
  using assms
proof (induction rs arbitrary: i j n)
  case (Cons r rs)
  obtain j' where j: "j = Suc j'" using Cons.prems(1) by (cases j) auto
  show ?case
  proof (cases i)
    case 0
    show ?thesis
    proof (cases "n \<le> r")
      case True
      with Cons.prems j have "fifo_remaining 0 rs ! j' \<noteq> rs ! j'" by (simp add: min_def)
      then show ?thesis using Cons.prems(5) by (simp add: fifo_remaining_0)
    next
      case False
      with 0 show ?thesis by simp
    qed
  next
    case (Suc i')
    with Cons.prems j Cons.IH [of i' j' "n - min n r"] show ?thesis by simp
  qed
qed simp

lemma fifo_sort_mset: "set (fifo_sort ls) = set ls"
proof -
  have ins: "set (fifo_insert l ms) = insert l (set ms)" for l ms by (induction ms) auto
  show ?thesis unfolding fifo_sort_def by (induction ls) (simp_all add: ins)
qed

lemma fifo_le_trans: "fifo_le a b \<Longrightarrow> fifo_le b c \<Longrightarrow> fifo_le a c"
  by (auto simp: fifo_le_def Let_def)

lemma fifo_le_linear: "fifo_le a b \<or> fifo_le b a"
  by (auto simp: fifo_le_def Let_def)

lemma sorted_fifo_insert: "sorted_wrt fifo_le ms \<Longrightarrow> sorted_wrt fifo_le (fifo_insert l ms)"
proof (induction ms)
  case (Cons m ms)
  have "set (fifo_insert l ms) = insert l (set ms)" by (induction ms) auto
  with Cons show ?case
    using fifo_le_linear [of l m] by (auto intro: fifo_le_trans)
qed simp

lemma sorted_fifo_sort: "sorted_wrt fifo_le (fifo_sort ls)"
  unfolding fifo_sort_def by (induction ls) (simp_all add: sorted_fifo_insert)

lemma mset_fifo_insert: "mset (fifo_insert l ms) = add_mset l (mset ms)"
  by (induction ms) auto

lemma mset_fifo_sort: "mset (fifo_sort ls) = mset ls"
  unfolding fifo_sort_def by (induction ls) (simp_all add: mset_fifo_insert)

lemma mset_map_fifo_sort: "mset (map f (fifo_sort ls)) = mset (map f ls)"
  by (simp add: mset_fifo_sort)

lemma distinct_fifo_sort: "distinct (map f (fifo_sort ls)) = distinct (map f ls)"
  using mset_map_fifo_sort [of f ls] mset_eq_imp_distinct_iff by blast

lemma sum_fifo_sort: "sum_list (map f (fifo_sort ls)) = (sum_list (map f ls) :: rat)"
  by (metis mset_map_fifo_sort sum_mset_sum_list)

section \<open>Exact amounts\<close>

lemma exact_amount_diff: "exact_amount a \<Longrightarrow> exact_amount b \<Longrightarrow> 0 \<le> b \<Longrightarrow> b \<le> a \<Longrightarrow> exact_amount (a - b)"
  by (auto simp: exact_amount_def)

lemma dsum_exact_acc:
  "(\<And>x. x \<in> set xs \<Longrightarrow> grid x \<and> 0 \<le> x) \<Longrightarrow> grid a \<Longrightarrow> 0 \<le> a \<Longrightarrow> a + sum_list xs < 10 ^ 10 \<Longrightarrow>
   foldl dadd a xs = a + sum_list xs"
proof (induction xs arbitrary: a)
  case (Cons x xs)
  have "0 \<le> sum_list xs" using Cons.prems(1) by (intro sum_list_nonneg) auto
  then have "dadd a x = a + x"
    using Cons.prems by (auto simp: dadd_def intro: grid_rnd)
  with Cons show ?case by (simp add: add.assoc)
qed simp

lemma dsum_exact:
  "(\<And>x. x \<in> set xs \<Longrightarrow> grid x \<and> 0 \<le> x) \<Longrightarrow> sum_list xs < 10 ^ 10 \<Longrightarrow> dsum xs = sum_list xs"
  using dsum_exact_acc [of xs 0] by (simp add: dsum_def)

section \<open>The disposal loop\<close>

text \<open>The row of a lot holds \<open>r\<close> after the loop.\<close>

definition holds :: "'a val_db_scheme \<Rightarrow> tax_lot \<Rightarrow> rat \<Rightarrow> bool" where
  "holds db l r \<longleftrightarrow> (\<exists>l' \<in> set (vd_lots db). lot_id l' = lot_id l \<and> lot_remaining_quantity l' = r)"

lemma holds_same: "set lots \<subseteq> set (vd_lots db) \<Longrightarrow> list_all2 (holds db) lots (map lot_remaining_quantity lots)"
  by (induction lots) (auto simp: holds_def)

lemma reduced_lot_sel [simp]:
  "lot_id (reduced_lot E l q) = lot_id l"
  "lot_remaining_quantity (reduced_lot E l q) = en_col E (dsub (lot_remaining_quantity l) q)"
  by (simp_all add: reduced_lot_def Let_def)

text \<open>What the loop does to the lots it is given and to the dispositions.\<close>

definition disposed :: "post_trade \<Rightarrow> tax_lot list \<Rightarrow> rat \<Rightarrow> 'a val_db_scheme \<Rightarrow> 'a val_db_scheme \<Rightarrow> bool" where
  "disposed t lots needed db db' \<longleftrightarrow>
     map lot_id (vd_lots db') = map lot_id (vd_lots db) \<and>
     list_all2 (holds db') lots (fifo_remaining needed (map lot_remaining_quantity lots)) \<and>
     (\<forall>l \<in> set (vd_lots db). lot_id l \<notin> lot_id ` set lots \<longrightarrow> l \<in> set (vd_lots db')) \<and>
     (\<exists>ds. vd_dispositions db' = vd_dispositions db @ ds \<and> (\<forall>d \<in> set ds. dsp_disposal_trade d = trd_id t) \<and>
        map dsp_lot ds = take (length ds) (map lot_id lots) \<and>
        sum_list (map dsp_quantity ds) = sum_list (map lot_remaining_quantity lots) -
          sum_list (fifo_remaining needed (map lot_remaining_quantity lots)))"

lemma disposed_done:
  assumes "set lots \<subseteq> set (vd_lots db)" "\<forall>l \<in> set lots. 0 \<le> lot_remaining_quantity l"
  shows "disposed t lots 0 db db"
proof -
  have "fifo_remaining 0 (map lot_remaining_quantity lots) = map lot_remaining_quantity lots"
    using assms(2) by (intro fifo_remaining_0) auto
  with holds_same [OF assms(1)] show ?thesis by (auto simp: disposed_def intro!: exI [of _ "[]"])
qed

definition take_from_lot :: "py_env \<Rightarrow> post_trade \<Rightarrow> tax_lot \<Rightarrow> rat \<Rightarrow> 'a val_db_scheme \<Rightarrow> 'a val_db_scheme" where
  "take_from_lot E t l q db =
     db\<lparr>vd_dispositions := vd_dispositions db @ [disposition_row E t l q],
        vd_lots := upd_where (\<lambda>x. lot_id x = lot_id l) (\<lambda>_. reduced_lot E l q) (vd_lots db)\<rparr>"

lemma take_from_lot_ids: "map lot_id (vd_lots (take_from_lot E t l q db)) = map lot_id (vd_lots db)"
  by (simp add: take_from_lot_def) (rule map_upd_where, simp)

lemma take_from_lot_rows:
  "x \<in> set (vd_lots db) \<Longrightarrow> lot_id x \<noteq> lot_id l \<Longrightarrow> x \<in> set (vd_lots (take_from_lot E t l q db))"
  "l \<in> set (vd_lots db) \<Longrightarrow> reduced_lot E l q \<in> set (vd_lots (take_from_lot E t l q db))"
  by (force simp: take_from_lot_def set_upd_where)+

lemma disposed_step:
  assumes IH: "disposed t ls (needed - q) (take_from_lot E t l q db) db'" and col: "column_rounding (en_col E)"
    and q: "q = min needed (lot_remaining_quantity l)" "exact_amount q" "exact_amount (lot_remaining_quantity l - q)"
    and l: "l \<in> set (vd_lots db)" "lot_id l \<notin> lot_id ` set ls"
  shows "disposed t (l # ls) needed db db'"
proof -
  have "reduced_lot E l q \<in> set (vd_lots db')"
    using IH l take_from_lot_rows(2) [OF l(1), of E q t] by (auto simp: disposed_def)
  then have "holds db' l (lot_remaining_quantity l - q)"
    using q(3) exact_col [OF col q(3)] unfolding holds_def
    by (intro bexI [of _ "reduced_lot E l q"]) (simp_all add: dsub_def)
  moreover from IH obtain ds where ds: "vd_dispositions db' = vd_dispositions (take_from_lot E t l q db) @ ds"
    "\<forall>d \<in> set ds. dsp_disposal_trade d = trd_id t" "map dsp_lot ds = take (length ds) (map lot_id ls)"
    "sum_list (map dsp_quantity ds) = sum_list (map lot_remaining_quantity ls) -
       sum_list (fifo_remaining (needed - q) (map lot_remaining_quantity ls))" by (auto simp: disposed_def)
  moreover have "dsp_quantity (disposition_row E t l q) = q" "dsp_lot (disposition_row E t l q) = lot_id l"
    "dsp_disposal_trade (disposition_row E t l q) = trd_id t"
    using exact_col [OF col q(2)] by (simp_all add: disposition_row_def Let_def)
  ultimately have "\<exists>ds. vd_dispositions db' = vd_dispositions db @ ds \<and>
      (\<forall>d \<in> set ds. dsp_disposal_trade d = trd_id t) \<and>
      map dsp_lot ds = take (length ds) (map lot_id (l # ls)) \<and>
      sum_list (map dsp_quantity ds) = sum_list (map lot_remaining_quantity (l # ls)) -
        sum_list (fifo_remaining needed (map lot_remaining_quantity (l # ls)))"
    by (intro exI [of _ "disposition_row E t l q # ds"]) (simp add: take_from_lot_def q(1) [symmetric])
  with \<open>holds db' l _\<close> IH take_from_lot_ids [of E t l q db] take_from_lot_rows(1) [of _ db l E t q]
  show ?thesis by (auto simp: disposed_def q(1) [symmetric])
qed

lemma dispose_lots_fifo:
  assumes "dispose_lots E t lots needed basis db = (db', basis')" "column_rounding (en_col E)"
    and "distinct (map lot_id lots)" "set lots \<subseteq> set (vd_lots db)"
    and "0 \<le> needed" "exact_amount needed"
    and "\<forall>l \<in> set lots. 0 \<le> lot_remaining_quantity l \<and> exact_amount (lot_remaining_quantity l)"
  shows "disposed t lots needed db db'"
  using assms
proof (induction lots arbitrary: needed basis db)
  case Nil
  then show ?case by (auto simp: disposed_def)
next
  case (Cons l ls)
  show ?case
  proof (cases "needed \<le> 0")
    case True
    with Cons.prems have "needed = 0" "db' = db" by auto
    with disposed_done [of "l # ls" db t] Cons.prems show ?thesis by auto
  next
    case False
    define q where "q = min needed (lot_remaining_quantity l)"
    have q: "0 \<le> q" "q \<le> needed" "q \<le> lot_remaining_quantity l" "exact_amount q"
      using False Cons.prems(6,7) by (auto simp: q_def min_def)
    have exact: "exact_amount (needed - q)" "exact_amount (lot_remaining_quantity l - q)"
      using q Cons.prems(6,7) by (auto intro: exact_amount_diff)
    have "dispose_lots E t ls (needed - q) (dadd basis (dmul q (lot_unit_cost l))) (take_from_lot E t l q db) =
        (db', basis')"
      using Cons.prems(1) False exact(1) by (simp add: take_from_lot_def q_def Let_def dsub_def)
    moreover have "set ls \<subseteq> set (vd_lots (take_from_lot E t l q db))"
    proof
      fix x assume "x \<in> set ls"
      then have "lot_id x \<in> lot_id ` set ls" by (rule imageI)
      with Cons.prems(3) have "lot_id x \<noteq> lot_id l" by auto
      moreover from \<open>x \<in> set ls\<close> Cons.prems(4) have "x \<in> set (vd_lots db)" by auto
      ultimately show "x \<in> set (vd_lots (take_from_lot E t l q db))" by (intro take_from_lot_rows(1))
    qed
    ultimately have "disposed t ls (needed - q) (take_from_lot E t l q db) db'"
      using Cons.prems q exact(1) by (intro Cons.IH) auto
    then show ?thesis
      by (rule disposed_step [OF _ Cons.prems(2) q_def q(4) exact(2)]) (use Cons.prems in auto)
  qed
qed

section \<open>The accounting step\<close>

definition same_post :: "'a val_db_scheme \<Rightarrow> 'a val_db_scheme \<Rightarrow> bool" where
  "same_post db db' \<longleftrightarrow> pd_trades db' = pd_trades db \<and> post_tables db' = post_tables db"

lemma same_post_fee: "same_post db db' \<Longrightarrow> fee_of i db' = fee_of i db"
  by (rule fee_of_tables) (simp add: same_post_def)

lemma same_post_trans: "same_post a b \<Longrightarrow> same_post b c \<Longrightarrow> same_post a c"
  by (simp add: same_post_def)

lemma same_post_refl [simp]: "same_post db db"
  by (simp add: same_post_def)

lemma dispose_lots_post:
  "dispose_lots E t lots n b db = (db', b') \<Longrightarrow> same_post db db' \<and> vd_realized db' = vd_realized db"
proof (induction lots arbitrary: n b db)
  case (Cons l ls)
  show ?case
  proof (cases "n \<le> 0")
    case False
    define q where "q = min n (lot_remaining_quantity l)"
    from Cons.prems False have
      "dispose_lots E t ls (dsub n q) (dadd b (dmul q (lot_unit_cost l))) (take_from_lot E t l q db) = (db', b')"
      by (simp add: take_from_lot_def q_def Let_def)
    from Cons.IH [OF this] show ?thesis by (simp add: same_post_def post_tables_def take_from_lot_def)
  qed (use Cons.prems in simp)
qed simp

lemma valuation_audit_post [simp]: "same_post db (valuation_audit E now a b c d e db)"
  by (simp add: valuation_audit_def same_post_def post_tables_def)

definition key_lots :: "post_trade \<Rightarrow> 'a val_db_scheme \<Rightarrow> tax_lot list" where
  "key_lots t db = fifo_sort (filter (lot_of (trd_tenant_ref t) (trd_account_ref t) (trd_instrument_id t)) (vd_lots db))"

text \<open>The lots of the key have exact quantities and distinct keys; their total is in range.\<close>

definition lots_ok :: "post_trade \<Rightarrow> 'a val_db_scheme \<Rightarrow> bool" where
  "lots_ok t db \<longleftrightarrow> distinct (map lot_id (vd_lots db)) \<and>
     (\<forall>l \<in> set (key_lots t db). grid (lot_remaining_quantity l)) \<and>
     sum_list (map lot_remaining_quantity (key_lots t db)) < 10 ^ 10"

lemma key_lots_pos: "l \<in> set (key_lots t db) \<Longrightarrow> 0 < lot_remaining_quantity l \<and> l \<in> set (vd_lots db)"
  by (simp add: key_lots_def fifo_sort_mset lot_of_def)

lemma key_lots_distinct: "distinct (map lot_id (vd_lots db)) \<Longrightarrow> distinct (map lot_id (key_lots t db))"
  by (simp add: key_lots_def distinct_fifo_sort distinct_map_filter)

lemma key_lots_exact:
  assumes "lots_ok t db" "l \<in> set (key_lots t db)"
  shows "exact_amount (lot_remaining_quantity l)"
proof -
  have "lot_remaining_quantity l \<le> sum_list (map lot_remaining_quantity (key_lots t db))"
    using assms(2) key_lots_pos [of _ t db] by (intro member_le_sum_list) (auto intro: less_imp_le)
  with assms key_lots_pos [OF assms(2)] show ?thesis by (auto simp: lots_ok_def exact_amount_def)
qed

lemma key_lots_sum:
  "lots_ok t db \<Longrightarrow> dsum (map lot_remaining_quantity (key_lots t db)) = sum_list (map lot_remaining_quantity (key_lots t db))"
  using key_lots_pos [of _ t db] by (intro dsum_exact) (auto simp: lots_ok_def intro: less_imp_le)

lemma disposed_cong:
  assumes "vd_lots c = vd_lots b" "vd_dispositions c = vd_dispositions b" "disposed t lots n a b"
  shows "disposed t lots n a c"
proof -
  have "holds c = holds b" using assms(1) by (intro ext) (simp add: holds_def)
  with assms show ?thesis by (simp add: disposed_def)
qed

lemma dispose_fifo_result:
  assumes "column_rounding (en_col E)" "lots_ok t db" "fee_of (trd_id t) db = Inr fee"
    and "\<forall>e \<in> set (vd_realized db). rpl_disposal_trade e \<noteq> trd_id t"
    and "0 \<le> trd_quantity t" "exact_amount (trd_quantity t)"
    and "trd_quantity t \<le> sum_list (map lot_remaining_quantity (key_lots t db))"
  shows "\<exists>db' e. dispose_fifo E now t db = Inr (db', e, True) \<and> disposed t (key_lots t db) (trd_quantity t) db db' \<and>
           same_post db db' \<and> rpl_disposal_trade e = trd_id t \<and> vd_realized db' = vd_realized db @ [e]"
proof -
  obtain db1 b where d: "dispose_lots E t (key_lots t db) (trd_quantity t) 0 db = (db1, b)"
    by (cases "dispose_lots E t (key_lots t db) (trd_quantity t) 0 db")
  have "disposed t (key_lots t db) (trd_quantity t) db db1"
    using assms key_lots_pos [of _ t db] key_lots_exact [OF assms(2)]
    by (intro dispose_lots_fifo [OF d assms(1)])
      (auto intro: key_lots_distinct less_imp_le simp: lots_ok_def)
  moreover have "fee_of (trd_id t) db1 = Inr fee" "same_post db db1" "vd_realized db1 = vd_realized db"
    using same_post_fee [of db db1] dispose_lots_post [OF d] assms(3) by simp_all
  moreover have "obj_first (\<lambda>e. rpl_disposal_trade e = trd_id t) (vd_realized db) = None"
    using assms(4) by (simp add: obj_first_None)
  moreover define e where "e = realized_event E t (fresh E db1) b fee"
  ultimately have "dispose_fifo E now t db = Inr (
      valuation_audit E now (trd_tenant_ref t) ''valuation.realized_pnl.generated'' ''RealizedPnLEvent'' (rpl_id e)
        (JObj [(''trade'', JStr (str_uuid (trd_id t))), (''basis'', JStr (en_dtext E b)), (''policy'', JStr lot_policy)])
        (db1\<lparr>vd_realized := vd_realized db1 @ [e], ev_next := Suc (ev_next db1)\<rparr>), e, True)"
    using d key_lots_sum [OF assms(2)] assms(7) by (simp add: dispose_fifo_def Let_def flip: key_lots_def)
  moreover have "rpl_disposal_trade e = trd_id t" by (simp add: e_def realized_event_def Let_def)
  ultimately show ?thesis
    using \<open>disposed _ _ _ _ db1\<close> \<open>same_post db db1\<close> \<open>vd_realized db1 = _\<close>
    by (auto simp: valuation_audit_def same_post_def post_tables_def intro: disposed_cong)
qed

lemma tail_of_accounting:
  assumes "fee_of (trd_id t) db = Inr fee"
  shows "\<exists>db'. rbind (fee_of (trd_id t) db) (\<lambda>fee.
             Inr (fst (calculate_cost_basis E now (trd_tenant_ref t) (trd_account_ref t) (trd_instrument_id t)
                         (record_commission E t fee db)))) = Inr db' \<and>
           same_post db db' \<and> vd_lots db' = vd_lots db \<and> vd_dispositions db' = vd_dispositions db \<and>
           vd_realized db' = vd_realized db"
  using assms
  by (simp add: calculate_cost_basis_def record_commission_def Let_def same_post_def post_tables_def)

lemma accounting_buy:
  assumes "column_rounding (en_col E)" "trd_side t = Buy" "fee_of (trd_id t) db = Inr fee"
    and "exact_fill Buy (trd_quantity t) (trd_gross_notional t) fee"
    and "\<forall>l \<in> set (vd_lots db). lot_acquisition_trade l \<noteq> Some (trd_id t)"
  shows "\<exists>db' l. process_trade_accounting E now t db = Inr db' \<and> same_post db db' \<and>
           vd_lots db' = vd_lots db @ [l] \<and> lot_acquisition_trade l = Some (trd_id t) \<and>
           lot_remaining_quantity l = trd_quantity t \<and> lot_total_cost l = trd_gross_notional t + fee"
proof -
  have none: "obj_first (\<lambda>l. lot_acquisition_trade l = Some (trd_id t)) (vd_lots db) = None"
    using assms(5) by (simp add: obj_first_None)
  have "trd_quantity t \<noteq> 0" "en_col E (trd_quantity t) = trd_quantity t"
    "en_col E (trd_gross_notional t + fee) = trd_gross_notional t + fee"
    "dadd (trd_gross_notional t) fee = trd_gross_notional t + fee"
    using assms(4) by (auto simp: exact_fill_def dadd_def intro!: exact_col [OF assms(1)])
  with none assms(2,3) obtain db1 l where o: "open_for_trade E now t db = Inr (db1, l, True)"
    and l: "vd_lots db1 = vd_lots db @ [l]" "lot_acquisition_trade l = Some (trd_id t)"
      "lot_remaining_quantity l = trd_quantity t" "lot_total_cost l = trd_gross_notional t + fee"
    and p: "same_post db db1"
    by (simp add: open_for_trade_def Let_def valuation_audit_def same_post_def post_tables_def)
  have "fee_of (trd_id t) db1 = Inr fee" using same_post_fee [OF p] assms(3) by simp
  from tail_of_accounting [OF this, of E now] obtain db' where
    "process_trade_accounting E now t db = Inr db'" "same_post db1 db'" "vd_lots db' = vd_lots db1"
    using o assms(2) by (auto simp: process_trade_accounting_def)
  with l same_post_trans [OF p] show ?thesis by auto
qed

lemma accounting_sell:
  assumes "column_rounding (en_col E)" "trd_side t = Sell" "fee_of (trd_id t) db = Inr fee" "lots_ok t db"
    and "\<forall>e \<in> set (vd_realized db). rpl_disposal_trade e \<noteq> trd_id t"
    and "0 \<le> trd_quantity t" "exact_amount (trd_quantity t)"
    and "trd_quantity t \<le> sum_list (map lot_remaining_quantity (key_lots t db))"
  shows "\<exists>db'. process_trade_accounting E now t db = Inr db' \<and> same_post db db' \<and>
           disposed t (key_lots t db) (trd_quantity t) db db'"
proof -
  from dispose_fifo_result [OF assms(1,4,3,5-8), of now] obtain db1 e where
    d: "dispose_fifo E now t db = Inr (db1, e, True)" "disposed t (key_lots t db) (trd_quantity t) db db1"
      "same_post db db1" by blast
  have "fee_of (trd_id t) db1 = Inr fee" using same_post_fee [OF d(3)] assms(3) by simp
  from tail_of_accounting [OF this, of E now] obtain db' where
    "process_trade_accounting E now t db = Inr db'" "same_post db1 db'" "vd_lots db' = vd_lots db1"
    "vd_dispositions db' = vd_dispositions db1"
    using d(1) assms(2) by (auto simp: process_trade_accounting_def)
  with d same_post_trans [OF d(3)] show ?thesis by (blast intro: disposed_cong)
qed

section \<open>The post-fill chain\<close>

lemma settled_records_post:
  "same_post db db' \<Longrightarrow> settled_records t fee db \<Longrightarrow> settled_records t fee db'"
  using same_post_fee [of db db' "trd_id t"]
  by (auto simp: settled_records_def same_post_def post_tables_def)

lemma post_more_val:
  "post_db.more (db'::'a val_db_scheme) = post_db.more db \<Longrightarrow>
   vd_lots db' = vd_lots db \<and> vd_dispositions db' = vd_dispositions db \<and> vd_realized db' = vd_realized db \<and>
   val_db.more db' = val_db.more db"
  by (cases db; cases db') simp

lemma settle_captured_more:
  "settle_captured E now t db = Inr (db', t') \<Longrightarrow> post_db.more db' = post_db.more db"
  by (auto simp: settle_captured_def Let_def res_simps dest!: post_more)

lemma unused_key_chain:
  assumes "unused_key (trd_id t) db" "newest t (pd_trades db) db'" "fee_of (trd_id t) db' = Inr fee"
    "pd_allocations db' = pd_allocations db" "pd_obligations db' = pd_obligations db"
    "pd_instructions db' = pd_instructions db" "pd_effects db' = pd_effects db"
    "pd_confirmations db' = pd_confirmations db"
  shows "chain_state t (pd_trades db) fee (pd_allocations db) (pd_obligations db) (pd_instructions db)
           (pd_effects db) (pd_confirmations db) db'"
  using assms by (simp add: chain_state_def)

text \<open>
  A fill the chain can settle: the order is a simulated one of the default tenant, the calendar
  has a policy, the execution is new, the amounts are exact, and a sale finds enough lots.
\<close>

definition order_lots :: "trading_order \<Rightarrow> 'a val_db_scheme \<Rightarrow> tax_lot list" where
  "order_lots ord db =
     fifo_sort (filter (lot_of (to_tenant_ref ord) (to_account_ref ord) (to_instrument_id ord)) (vd_lots db))"

definition accounting_ready :: "trading_order \<Rightarrow> uuid \<Rightarrow> rat \<Rightarrow> 'a val_db_scheme \<Rightarrow> bool" where
  "accounting_ready ord i q db \<longleftrightarrow>
     (case to_side ord of
        Buy \<Rightarrow> (\<forall>l \<in> set (vd_lots db). lot_acquisition_trade l \<noteq> Some i)
      | Sell \<Rightarrow> (\<forall>e \<in> set (vd_realized db). rpl_disposal_trade e \<noteq> i) \<and> distinct (map lot_id (vd_lots db)) \<and>
                (\<forall>l \<in> set (order_lots ord db). grid (lot_remaining_quantity l)) \<and>
                q \<le> sum_list (map lot_remaining_quantity (order_lots ord db)) \<and>
                sum_list (map lot_remaining_quantity (order_lots ord db)) < 10 ^ 10)"

definition fill_ready ::
  "py_env \<Rightarrow> trading_order \<Rightarrow> string \<Rightarrow> rat \<Rightarrow> rat \<Rightarrow> rat \<Rightarrow> timestamp \<Rightarrow> 'a val_db_scheme \<Rightarrow> bool" where
  "fill_ready E ord ex q p fee at' db \<longleftrightarrow>
     to_tenant_ref ord = ''default'' \<and> to_simulation ord \<and> 0 < p \<and>
     \<not> isl (calculate_settlement_date E (date_of at') ''CRYPTO'' (pd_calendars db)) \<and>
     (\<forall>x \<in> set (pd_trades db). trd_execution_id x \<noteq> ex \<and>
        trd_source_event_id x \<noteq> en_uuid5 E (''post-trade:'' @ ex)) \<and>
     unused_key (fresh E db) db \<and> exact_fill (to_side ord) q (q * p) fee \<and>
     accounting_ready ord (fresh E db) q db"

text \<open>What the lots become: one more for a purchase, the first-in first-out rest for a sale.\<close>

definition lots_after :: "trading_order \<Rightarrow> post_trade \<Rightarrow> rat \<Rightarrow> 'a val_db_scheme \<Rightarrow> 'a val_db_scheme \<Rightarrow> bool" where
  "lots_after ord t fee db db' \<longleftrightarrow>
     (case to_side ord of
        Buy \<Rightarrow> \<exists>l. vd_lots db' = vd_lots db @ [l] \<and> lot_remaining_quantity l = trd_quantity t \<and>
                  lot_total_cost l = trd_gross_notional t + fee
      | Sell \<Rightarrow> disposed t (order_lots ord db) (trd_quantity t) db db')"

lemma accounting_succeeds:
  assumes col: "column_rounding (en_col E)" and fee: "fee_of (trd_id t) db = Inr fee"
    and exact: "exact_fill (to_side ord) (trd_quantity t) (trd_gross_notional t) fee"
    and ready: "accounting_ready ord (trd_id t) (trd_quantity t) db"
    and t: "trd_side t = to_side ord" "trd_tenant_ref t = to_tenant_ref ord"
      "trd_account_ref t = to_account_ref ord" "trd_instrument_id t = to_instrument_id ord"
  shows "\<exists>db'. process_trade_accounting E now t db = Inr db' \<and> same_post db db' \<and> lots_after ord t fee db db'"
proof (cases "to_side ord")
  case Buy
  with accounting_buy [OF col _ fee, of now] exact ready t show ?thesis
    by (fastforce simp: accounting_ready_def lots_after_def)
next
  case Sell
  have lots: "key_lots t db = order_lots ord db" using t by (simp add: key_lots_def order_lots_def)
  with Sell ready exact have "lots_ok t db" "0 \<le> trd_quantity t" "exact_amount (trd_quantity t)"
    by (auto simp: lots_ok_def accounting_ready_def exact_fill_def)
  with accounting_sell [OF col _ fee, of now] Sell ready t lots show ?thesis
    by (fastforce simp: accounting_ready_def lots_after_def)
qed

lemma accounting_ready_cong:
  "vd_lots db' = vd_lots db \<Longrightarrow> vd_realized db' = vd_realized db \<Longrightarrow>
   accounting_ready ord i q db' = accounting_ready ord i q db"
  by (cases "to_side ord") (simp_all add: accounting_ready_def order_lots_def)

lemma disposed_start_cong:
  "vd_lots a = vd_lots b \<Longrightarrow> vd_dispositions a = vd_dispositions b \<Longrightarrow>
   disposed t lots n a c = disposed t lots n b c"
  by (simp add: disposed_def)

lemma lots_after_cong:
  "vd_lots a = vd_lots b \<Longrightarrow> vd_dispositions a = vd_dispositions b \<Longrightarrow>
   lots_after ord t fee a c = lots_after ord t fee b c"
  using disposed_start_cong [of a b t] by (cases "to_side ord") (simp_all add: lots_after_def order_lots_def)

lemma captured_chain:
  assumes col: "column_rounding (en_col E)" and ready: "fill_ready E ord ex q p fee at' db"
  shows "\<exists>db1 t. capture_fill E now ord ex q p fee at' None db = Inr (db1, t, True) \<and>
    chain_state t (pd_trades db) fee (pd_allocations db) (pd_obligations db) (pd_instructions db)
      (pd_effects db) (pd_confirmations db) db1 \<and>
    trd_id t = fresh E db \<and> trd_state t = PtCaptured \<and> trd_side t = to_side ord \<and> trd_execution_id t = ex \<and>
    trd_order_id t = to_id ord \<and> trd_tenant_ref t = to_tenant_ref ord \<and> trd_account_ref t = to_account_ref ord \<and>
    trd_instrument_id t = to_instrument_id ord \<and> trd_quantity t = q \<and> trd_gross_notional t = q * p"
proof -
  obtain d pol where cal: "calculate_settlement_date E (date_of at') ''CRYPTO'' (pd_calendars db) = Inr (d, pol)"
    using ready by (cases "calculate_settlement_date E (date_of at') ''CRYPTO'' (pd_calendars db)")
      (auto simp: fill_ready_def)
  define t where "t = captured_trade E now ord ex q p at' (en_uuid5 E (''post-trade:'' @ ex)) d (fresh E db)"
  have q: "0 < q" "0 < p" using ready by (auto simp: fill_ready_def exact_fill_def)
  have "trd_id t = fresh E db" by (simp add: t_def captured_trade_def)
  then have unused: "unused_key (trd_id t) db" using ready by (simp add: fill_ready_def)
  have "en_col E fee = fee" using ready by (auto simp: fill_ready_def exact_fill_def exact_col [OF col])
  with capture_fill_creates [OF q _ _ cal, of ord ex now fee] ready obtain db1 where
    cap: "capture_fill E now ord ex q p fee at' None db = Inr (db1, t, True)"
      "newest t (pd_trades db) db1" "fee_of (trd_id t) db1 = Inr fee"
      "pd_allocations db1 = pd_allocations db" "pd_obligations db1 = pd_obligations db"
      "pd_instructions db1 = pd_instructions db" "pd_effects db1 = pd_effects db"
      "pd_confirmations db1 = pd_confirmations db"
    by (auto simp: fill_ready_def t_def)
  with unused_key_chain [OF unused cap(2-8)] ready show ?thesis
    by (auto simp: t_def captured_trade_def fill_ready_def exact_fill_def dmul_def exact_col [OF col])
qed

lemma process_simulated_fill_settles:
  assumes col: "column_rounding (en_col E)" and ready: "fill_ready E ord ex q p fee at' db"
  shows "\<exists>db' t. process_simulated_fill E now ord ex q p fee at' db = Inr (db', t, True) \<and>
    pd_trades db' = pd_trades db @ [t] \<and> trd_execution_id t = ex \<and> trd_order_id t = to_id ord \<and>
    trd_side t = to_side ord \<and> trd_quantity t = q \<and> trd_gross_notional t = q * p \<and>
    settled_records t fee db' \<and> lots_after ord t fee db db'"
proof -
  from captured_chain [OF assms, of now] obtain db1 t where
    cap: "capture_fill E now ord ex q p fee at' None db = Inr (db1, t, True)"
    and st: "chain_state t (pd_trades db) fee (pd_allocations db) (pd_obligations db) (pd_instructions db)
      (pd_effects db) (pd_confirmations db) db1"
    and sel: "trd_id t = fresh E db" "trd_state t = PtCaptured" "trd_side t = to_side ord" "trd_execution_id t = ex"
      "trd_order_id t = to_id ord" "trd_tenant_ref t = to_tenant_ref ord" "trd_account_ref t = to_account_ref ord"
      "trd_instrument_id t = to_instrument_id ord" "trd_quantity t = q" "trd_gross_notional t = q * p"
    by blast
  have unused: "unused_key (trd_id t) db" and exact: "exact_fill (trd_side t) (trd_quantity t) (trd_gross_notional t) fee"
    and acct: "accounting_ready ord (trd_id t) (trd_quantity t) db"
    using ready sel by (simp_all add: fill_ready_def)
  define t' where "t' = moved now 7 PtSettled t"
  from settle_captured_settles [OF st col sel(2) exact, of now] unused obtain db2 where
    set: "settle_captured E now t db1 = Inr (db2, t')" and new2: "newest t' (pd_trades db) db2"
    and rec: "settled_records t' fee db2" by (auto simp: unused_key_def t'_def)
  have more: "vd_lots db2 = vd_lots db" "vd_dispositions db2 = vd_dispositions db" "vd_realized db2 = vd_realized db"
    using post_more_val [of db2 db] settle_captured_more [OF set] capture_fill_more [OF cap] by simp_all
  have "fee_of (trd_id t') db2 = Inr fee" using rec by (simp add: settled_records_def)
  from accounting_succeeds [OF col this, of ord now] exact acct sel obtain db3 where
    acc: "process_trade_accounting E now t' db2 = Inr db3" "same_post db2 db3" "lots_after ord t' fee db2 db3"
    by (auto simp: t'_def accounting_ready_cong [OF more(1,3)])
  have "settled_records t' fee db3" "lots_after ord t' fee db db3"
    using settled_records_post [OF acc(2) rec] acc(3) lots_after_cong [OF more(1,2)] by simp_all
  moreover have "process_simulated_fill E now ord ex q p fee at' db = Inr (db3, t', True)"
    using cap set acc(1) by (simp add: process_simulated_fill_def)
  moreover have "pd_trades db3 = pd_trades db @ [t']"
    using acc(2) new2 by (simp add: same_post_def newest_def)
  moreover have "trd_execution_id t' = ex" "trd_order_id t' = to_id ord"
    using sel by (simp_all add: t'_def moved_def)
  ultimately show ?thesis using sel by (intro exI [of _ db3] exI [of _ t']) (simp add: t'_def)
qed

end
