(* ===== verification/Trading_Facts.thy ===== *)
theory Trading_Facts
  imports Trading_Simulation Valuation_Facts
begin

text \<open>
  Which tables the simulation writes. \<open>core\<close> collects the five tables that carry money and
  orders; events, audits, account identities, quality reports and the whole post-trade chain
  leave them alone, so an execution is a settlement, a trade row and an order row.
\<close>

section \<open>Frames\<close>

definition core where
  "core db = (sd_orders db, sd_accounts db, sd_reservations db, sd_trades db, sd_positions db)"

named_theorems core_simps \<open>operations that leave the core tables alone\<close>

lemma core_eqD:
  assumes "core db' = core db"
  shows "sd_orders db' = sd_orders db" "sd_accounts db' = sd_accounts db"
    "sd_reservations db' = sd_reservations db" "sd_trades db' = sd_trades db"
    "sd_positions db' = sd_positions db"
  using assms by (simp_all add: core_def)

lemma core_emit [core_simps]: "core (emit now a b c d e f db) = core db"
  by (simp add: core_def emit_def)

lemma core_audit_ref [core_simps]: "core (audit_ref E now a b c d e f db) = core db"
  by (simp add: core_def audit_ref_def)

lemma core_order_correlation [core_simps]: "core (fst (order_correlation E ord db)) = core db"
  by (simp add: core_def order_correlation_def split: option.splits)

lemma core_fill_audits [core_simps]: "core (fill_audits E now ord x r c db) = core db"
  by (simp add: fill_audits_def core_simps)

lemma core_fill_events [core_simps]: "core (fill_events E S now ord x fee c p a j db) = core db"
  by (simp add: fill_events_def core_simps)

lemma core_ensure_paper_identity:
  "ensure_paper_identity a db = Inr (db', i) \<Longrightarrow> core db' = core db"
  by (auto simp: ensure_paper_identity_def core_def res_simps split: option.splits if_splits)

lemma core_serialize_account: "serialize_account E a db = Inr (db', j) \<Longrightarrow> core db' = core db"
  by (auto simp: serialize_account_def Let_def res_simps dest!: core_ensure_paper_identity)

lemma core_record_quality: "record_quality E ord db = Inr (db', q) \<Longrightarrow> core db' = core db"
  by (auto simp: record_quality_def core_def Let_def split: option.splits if_splits)

lemma core_publish_quality: "publish_quality E now c ord db = Inr db' \<Longrightarrow> core db' = core db"
  by (auto simp: publish_quality_def res_simps core_simps split: if_splits dest!: core_record_quality)

lemma val_more_core: "val_db.more (db'::'a sim_db_scheme) = val_db.more db \<Longrightarrow> core db' = core db"
  by (cases db; cases db') (simp add: core_def)

lemma dispose_lots_more: "dispose_lots E t lots n b db = (db', b') \<Longrightarrow> val_db.more db' = val_db.more db"
proof (induction lots arbitrary: n b db)
  case (Cons l ls)
  show ?case
  proof (cases "n \<le> 0")
    case False
    define q where "q = min n (lot_remaining_quantity l)"
    from Cons.prems False have
      "dispose_lots E t ls (dsub n q) (dadd b (dmul q (lot_unit_cost l))) (take_from_lot E t l q db) = (db', b')"
      by (simp add: take_from_lot_def q_def Let_def)
    from Cons.IH [OF this] show ?thesis by (simp add: take_from_lot_def)
  qed (use Cons.prems in simp)
qed simp

lemma dispose_fifo_more:
  assumes "dispose_fifo E now t db = Inr (db', e, c)"
  shows "val_db.more db' = val_db.more db"
proof (cases "obj_first (\<lambda>e. rpl_disposal_trade e = trd_id t) (vd_realized db)")
  case None
  obtain db1 b where d: "dispose_lots E t (key_lots t db) (trd_quantity t) 0 db = (db1, b)"
    by (cases "dispose_lots E t (key_lots t db) (trd_quantity t) 0 db")
  with None assms dispose_lots_more [OF d] show ?thesis
    by (auto simp: dispose_fifo_def Let_def res_simps valuation_audit_def simp flip: key_lots_def split: if_splits)
qed (use assms in \<open>simp add: dispose_fifo_def\<close>)

lemma open_for_trade_more: "open_for_trade E now t db = Inr (db', l, c) \<Longrightarrow> val_db.more db' = val_db.more db"
  by (auto simp: open_for_trade_def Let_def res_simps valuation_audit_def split: option.splits if_splits)

lemma record_commission_more: "val_db.more (record_commission E t fee db) = val_db.more db"
  by (simp add: record_commission_def)

lemma calculate_cost_basis_more: "val_db.more (fst (calculate_cost_basis E now a b c db)) = val_db.more db"
  by (simp add: calculate_cost_basis_def Let_def)

lemma accounting_more:
  assumes "process_trade_accounting E now t db = Inr db'"
  shows "val_db.more db' = val_db.more db"
proof -
  from assms obtain db1 where lots: "(if trd_side t = Buy then rbind (open_for_trade E now t db) (\<lambda>(db1, _, _). Inr db1)
        else rbind (dispose_fifo E now t db) (\<lambda>(db1, _, _). Inr db1)) = Inr db1"
    and "rbind (fee_of (trd_id t) db1) (\<lambda>fee. Inr (fst (calculate_cost_basis E now (trd_tenant_ref t)
        (trd_account_ref t) (trd_instrument_id t) (record_commission E t fee db1)))) = Inr db'"
    unfolding process_trade_accounting_def rbind_eq_Inr by blast
  then have "val_db.more db' = val_db.more db1"
    by (auto simp: rbind_eq_Inr calculate_cost_basis_more record_commission_more)
  moreover have "val_db.more db1 = val_db.more db"
    using lots by (auto simp: rbind_eq_Inr split: if_splits dest: open_for_trade_more dispose_fifo_more)
  ultimately show ?thesis by simp
qed

lemma core_process_simulated_fill:
  assumes "process_simulated_fill E now ord ex q p fee at' (db::'a sim_db_scheme) = Inr (db', t, c)"
  shows "core db' = core db"
proof (rule val_more_core)
  from assms obtain db1 t1 c1 where cap: "capture_fill E now ord ex q p fee at' None db = Inr (db1, t1, c1)"
    by (auto simp: process_simulated_fill_def res_simps)
  from capture_fill_more [OF cap] post_more_val [of db1 db] have m: "val_db.more db1 = val_db.more db" by simp
  show "val_db.more db' = val_db.more db"
  proof (cases c1)
    case False
    with assms cap m show ?thesis by (simp add: process_simulated_fill_def)
  next
    case True
    with assms cap obtain db2 where "settle_captured E now t1 db1 = Inr (db2, t)"
      "process_trade_accounting E now t db2 = Inr db'"
      by (auto simp: process_simulated_fill_def res_simps)
    with m post_more_val [of db2 db1] settle_captured_more accounting_more show ?thesis by metis
  qed
qed

section \<open>Order paths\<close>

definition order_path :: "order_state \<Rightarrow> order_state \<Rightarrow> bool" where
  "order_path = (\<lambda>s t. t \<in> order_transitions s)\<^sup>*\<^sup>*"

lemma order_path_refl [simp]: "order_path s s"
  by (simp add: order_path_def)

lemma order_path_step: "t \<in> order_transitions s \<Longrightarrow> order_path s t"
  by (auto simp: order_path_def)

lemma order_path_trans: "order_path s t \<Longrightarrow> order_path t u \<Longrightarrow> order_path s u"
  by (auto simp: order_path_def)

lemma order_path_terminal: "s \<in> order_terminal_states \<Longrightarrow> order_path s t \<Longrightarrow> t = s"
  by (auto simp: order_path_def terminal_iff elim: converse_rtranclpE)

text \<open>An order only moves along the table, keeps what identifies it, and rests once terminal.\<close>

definition order_terms :: "trading_order \<Rightarrow> trading_order" where
  "order_terms ord = ord\<lparr>to_state := OrdPending, to_filled_quantity := 0, to_average_fill_price := None,
     to_updated_at := 0\<rparr>"

definition order_advances :: "trading_order \<Rightarrow> trading_order \<Rightarrow> bool" where
  "order_advances o1 o2 \<longleftrightarrow> order_terms o2 = order_terms o1 \<and> order_path (to_state o1) (to_state o2) \<and>
     (to_state o1 \<in> order_terminal_states \<longrightarrow> o2 = o1)"

lemma order_advances_refl [simp]: "order_advances ord ord"
  by (simp add: order_advances_def)

lemma order_advances_trans: "order_advances a b \<Longrightarrow> order_advances b c \<Longrightarrow> order_advances a c"
  by (auto simp: order_advances_def intro: order_path_trans)

lemma order_path_open: "order_path OrdPending OrdOpen"
  by (rule order_path_trans [of _ OrdAccepted]) (simp_all add: order_path_step)

text \<open>Filled quantity against state.\<close>

definition order_ok :: "trading_order \<Rightarrow> bool" where
  "order_ok ord \<longleftrightarrow> 0 < to_quantity ord \<and> exact_amount (to_quantity ord) \<and>
     0 \<le> to_filled_quantity ord \<and> to_filled_quantity ord \<le> to_quantity ord \<and>
     (to_state ord \<in> {OrdPending, OrdAccepted, OrdOpen, OrdRejected, OrdExpired} \<longrightarrow> to_filled_quantity ord = 0) \<and>
     (to_state ord = OrdFilled \<longrightarrow> to_filled_quantity ord = to_quantity ord)"

lemma open_order_path: "open_order s = Inr s' \<Longrightarrow> order_path s s' \<and> (s' = s \<or> s \<in> {OrdPending, OrdAccepted} \<and> s' = OrdOpen)"
  by (cases s) (auto simp: open_order_def accept_if_pending_def open_if_accepted_def res_simps split: if_splits
      intro: order_path_open order_path_step)

lemma open_order_id: "s \<notin> {OrdPending, OrdAccepted} \<Longrightarrow> open_order s = Inr s"
  by (simp add: open_order_def accept_if_pending_def open_if_accepted_def)

lemma order_transitions_irrefl: "s \<notin> order_transitions s"
  by (cases s) simp_all

lemma filled_order_advances:
  assumes "filled_order ord x s0 = Inr ord1" "open_order (to_state ord) = Inr s0"
  shows "order_advances ord (stored_order E now ord1) \<and> to_state ord1 \<in> {OrdFilled, OrdPartiallyFilled} \<and>
    to_filled_quantity ord1 = dadd (to_filled_quantity ord) (ex_quantity x) \<and>
    (to_state ord1 = OrdFilled \<longrightarrow> to_filled_quantity ord1 = to_quantity ord) \<and> to_quantity ord1 = to_quantity ord \<and>
    to_id ord1 = to_id ord \<and> to_state ord \<notin> order_terminal_states \<and> to_state ord1 \<noteq> to_state ord"
proof -
  from assms(1) obtain s a where s: "s \<in> order_transitions s0" "s \<in> {OrdFilled, OrdPartiallyFilled}"
    and o1: "ord1 = ord\<lparr>to_filled_quantity := dadd (to_filled_quantity ord) (ex_quantity x),
        to_average_fill_price := a, to_state := s\<rparr>"
    and full: "s = OrdFilled \<longrightarrow> dadd (to_filled_quantity ord) (ex_quantity x) = to_quantity ord"
    by (auto simp: filled_order_def Let_def res_simps split: if_splits)
  have "to_state ord \<notin> order_terminal_states"
  proof
    assume t: "to_state ord \<in> order_terminal_states"
    then have "s0 = to_state ord" using assms(2) open_order_id [of "to_state ord"] by (auto simp: order_terminal_states_def)
    with t s(1) show False by (simp add: terminal_iff)
  qed
  moreover have "s \<noteq> to_state ord"
    using open_order_path [OF assms(2)] s order_transitions_irrefl [of s] by auto
  moreover have "order_path (to_state ord) s"
    using open_order_path [OF assms(2)] s(1) by (blast intro: order_path_trans order_path_step)
  ultimately show ?thesis
    using s full by (auto simp: order_advances_def order_terms_def stored_order_def o1)
qed

section \<open>What one execution does\<close>

lemma apply_fill_result:
  assumes "apply_fill E S now corr ord x (db::'a sim_db_scheme) = Inr (db', ord1, ev)"
  shows "\<exists>s0 r db1 a p r2 db2. open_order (to_state ord) = Inr s0 \<and>
    dadd (to_filled_quantity ord) (ex_quantity x) \<le> to_quantity ord \<and>
    get_row (\<lambda>r. Some (rsv_id r) = to_reservation_id ord) (sd_reservations db) = Inr r \<and>
    settle_trade E (rsv_id r) (to_side ord) (to_instrument_id ord) (ex_quantity x) (ex_price x)
      (dmul (dmul (ex_quantity x) (ex_price x)) fee_rate) db = Inr (db1, a, p, r2) \<and>
    add_sim_trade E now ord x (dmul (dmul (ex_quantity x) (ex_price x)) fee_rate) db1 = Inr db2 \<and>
    0 < ex_quantity x \<and> 0 < ex_price x \<and> filled_order ord x s0 = Inr ord1 \<and> core db' = core db2"
proof -
  let ?fee = "dmul (dmul (ex_quantity x) (ex_price x)) fee_rate"
  from assms obtain s0 where s0: "open_order (to_state ord) = Inr s0"
    by (auto simp: apply_fill_def rbind_eq_Inr)
  from assms s0 have over: "dadd (to_filled_quantity ord) (ex_quantity x) \<le> to_quantity ord"
    by (auto simp: apply_fill_def Let_def split: if_splits)
  from assms s0 over obtain r where r: "get_row (\<lambda>r. Some (rsv_id r) = to_reservation_id ord) (sd_reservations db) = Inr r"
    by (auto simp: apply_fill_def Let_def rbind_eq_Inr)
  from assms s0 over r obtain db1 a p r2 where
    st: "settle_trade E (rsv_id r) (to_side ord) (to_instrument_id ord) (ex_quantity x) (ex_price x) ?fee db = Inr (db1, a, p, r2)"
    by (auto simp: apply_fill_def Let_def rbind_eq_Inr)
  from assms s0 over r st obtain db2 where t: "add_sim_trade E now ord x ?fee db1 = Inr db2"
    by (auto simp: apply_fill_def Let_def rbind_eq_Inr)
  from assms s0 over r st t obtain db3 tr c where
    f: "process_simulated_fill E now (ord\<lparr>to_state := s0\<rparr>) (ex_execution_id x) (ex_quantity x) (ex_price x) ?fee now db2 = Inr (db3, tr, c)"
    by (auto simp: apply_fill_def Let_def rbind_eq_Inr)
  then have pos: "0 < ex_quantity x" "0 < ex_price x"
    by (auto simp: process_simulated_fill_def capture_fill_def rbind_eq_Inr split: if_splits)
  from assms s0 over r st t f obtain db5 j where o1: "filled_order ord x s0 = Inr ord1"
    and ser: "serialize_account E a (fill_audits E now ord x (rsv_id r) corr db3) = Inr (db5, j)"
    and db': "db' = fill_events E S now ord1 x ?fee corr p a j db5"
    by (auto simp: apply_fill_def Let_def rbind_eq_Inr)
  have "core db' = core db2"
    using core_serialize_account [OF ser] core_process_simulated_fill [OF f] by (simp add: db' core_simps)
  with s0 over r st t pos o1 show ?thesis by blast
qed

text \<open>Releasing and settling touch no order.\<close>

lemma settle_trade_orders: "settle_trade E i s k q p f db = Inr (db', a, pp, r) \<Longrightarrow>
  sd_orders db' = sd_orders db \<and> sd_trades db' = sd_trades db"
  by (auto simp: settle_trade_def rbind_eq_Inr save_settlement_def get_or_create_position_def Let_def
      split: option.splits)

lemma release_reservation_orders: "release_reservation i db = Inr (db', r) \<Longrightarrow>
  sd_orders db' = sd_orders db \<and> sd_trades db' = sd_trades db \<and> sd_accounts db' = sd_accounts db \<and>
  sd_positions db' = sd_positions db"
  by (auto simp: release_reservation_def rbind_eq_Inr save_reservation_def Let_def split: if_splits)

lemma release_order_funds_orders: "release_order_funds ord db = Inr db' \<Longrightarrow>
  sd_orders db' = sd_orders db \<and> sd_trades db' = sd_trades db \<and> sd_accounts db' = sd_accounts db \<and>
  sd_positions db' = sd_positions db"
  by (auto simp: release_order_funds_def rbind_eq_Inr dest!: release_reservation_orders)

text \<open>
  The three outcomes together: the order that results, the trade rows, and which money operation
  was performed.
\<close>

definition trade_row :: "py_env \<Rightarrow> timestamp \<Rightarrow> trading_order \<Rightarrow> simulated_execution \<Rightarrow> simulated_trade" where
  "trade_row E now ord x =
     \<lparr>st_order = to_id ord, st_execution_id = ex_execution_id x, st_instrument_id = to_instrument_id ord,
      st_side = to_side ord, st_quantity = en_col E (ex_quantity x), st_price = en_col E (ex_price x),
      st_fee = en_col E (dmul (dmul (ex_quantity x) (ex_price x)) fee_rate), st_executed_at = now\<rparr>"

definition money_moves :: "py_env \<Rightarrow> trading_order \<Rightarrow> simulated_execution \<Rightarrow> 'a sim_db_scheme \<Rightarrow> 'a sim_db_scheme \<Rightarrow> bool" where
  "money_moves E ord x db db' \<longleftrightarrow>
     (if ex_outcome x = OutFill
      then 0 < ex_quantity x \<and> 0 < ex_price x \<and>
        (\<exists>r a p r2. get_row (\<lambda>r. Some (rsv_id r) = to_reservation_id ord) (sd_reservations db) = Inr r \<and>
           settle_trade E (rsv_id r) (to_side ord) (to_instrument_id ord) (ex_quantity x) (ex_price x)
             (dmul (dmul (ex_quantity x) (ex_price x)) fee_rate) db = Inr (db', a, p, r2))
      else release_order_funds ord db = Inr db')"

lemma apply_reject_result:
  "apply_reject ord db = Inr (db', ord1, ev) \<Longrightarrow>
   release_order_funds ord db = Inr db' \<and> ord1 = ord\<lparr>to_state := OrdRejected\<rparr> \<and> to_state ord = OrdPending"
  by (cases "to_state ord") (auto simp: apply_reject_def rbind_eq_Inr transition_order_Inr)

lemma apply_expire_result:
  "apply_expire ord db = Inr (db', ord1, ev) \<Longrightarrow>
   release_order_funds ord db = Inr db' \<and> ord1 = ord\<lparr>to_state := OrdExpired\<rparr> \<and>
   to_state ord \<in> {OrdPending, OrdAccepted, OrdOpen}"
  by (cases "to_state ord")
    (auto simp: apply_expire_def rbind_eq_Inr transition_order_Inr open_order_def accept_if_pending_def
      open_if_accepted_def)

definition outcome_of where
  "outcome_of E S now corr ord x db =
     (case ex_outcome x of
        OutReject \<Rightarrow> apply_reject ord db
      | OutExpire \<Rightarrow> apply_expire ord db
      | OutFill \<Rightarrow> apply_fill E S now corr ord x db)"

text \<open>The order that is stored, whatever the outcome.\<close>

definition order_result :: "py_env \<Rightarrow> trading_order \<Rightarrow> simulated_execution \<Rightarrow> trading_order \<Rightarrow> bool" where
  "order_result E ord x ord1 \<longleftrightarrow>
     order_advances ord ord1 \<and> to_state ord \<notin> order_terminal_states \<and> to_state ord1 \<noteq> to_state ord \<and>
     (order_ok ord \<longrightarrow> column_rounding (en_col E) \<longrightarrow> order_ok ord1) \<and>
     to_filled_quantity ord1 = en_col E (if ex_outcome x = OutFill then dadd (to_filled_quantity ord) (ex_quantity x)
                                         else to_filled_quantity ord)"

lemma order_path_accepted_open: "order_path OrdAccepted OrdOpen"
  by (rule order_path_step) simp

lemma order_path_open_expired: "order_path OrdOpen OrdExpired"
  by (rule order_path_step) simp

lemma order_path_expired: "s \<in> {OrdPending, OrdAccepted, OrdOpen} \<Longrightarrow> order_path s OrdExpired"
  by (blast intro: order_path_trans order_path_open order_path_accepted_open order_path_open_expired)

lemma released_order_result:
  assumes "ord1 = ord\<lparr>to_state := s\<rparr>" "s \<in> {OrdRejected, OrdExpired}" "ex_outcome x \<noteq> OutFill"
    and "order_path (to_state ord) s" "to_state ord \<in> {OrdPending, OrdAccepted, OrdOpen}"
  shows "order_result E ord x (stored_order E now ord1)"
proof -
  have nt: "to_state ord \<notin> order_terminal_states" "s \<noteq> to_state ord"
    using assms(2,5) by (auto simp: order_terminal_states_def)
  moreover have "order_ok (stored_order E now ord1)" if "order_ok ord" and col: "column_rounding (en_col E)"
  proof -
    from that(1) assms(5) have "to_filled_quantity ord = 0" by (auto simp: order_ok_def)
    with that assms(1,2) column_rounding_0 [OF col] show ?thesis
      by (auto simp: order_ok_def stored_order_def)
  qed
  moreover have "order_advances ord (stored_order E now ord1)"
    using nt assms(4) unfolding assms(1) order_advances_def by (simp add: order_terms_def stored_order_def)
  ultimately show ?thesis
    using assms(1,3) by (simp add: order_result_def stored_order_def)
qed

lemma filled_order_result:
  assumes f: "filled_order ord x s0 = Inr ord1" and s0: "open_order (to_state ord) = Inr s0"
    and q: "dadd (to_filled_quantity ord) (ex_quantity x) \<le> to_quantity ord" "0 < ex_quantity x"
    and x: "ex_outcome x = OutFill"
  shows "order_result E ord x (stored_order E now ord1)"
proof -
  note adv = filled_order_advances [OF f s0, of E now]
  have ok: "order_ok (stored_order E now ord1)" if o: "order_ok ord" and col: "column_rounding (en_col E)"
  proof -
    from o q(2) have "0 \<le> to_filled_quantity ord + ex_quantity x" by (simp add: order_ok_def)
    then have "0 \<le> dadd (to_filled_quantity ord) (ex_quantity x)" by (simp add: dadd_def)
    then have low: "0 \<le> en_col E (to_filled_quantity ord1)"
      using column_rounding_nonneg [OF col] adv by simp
    have full: "en_col E (to_quantity ord) = to_quantity ord"
      using o exact_col [OF col] by (simp add: order_ok_def)
    have high: "en_col E (to_filled_quantity ord1) \<le> to_quantity ord"
      using column_rounding_mono [OF col q(1)] adv full by simp
    from o have "0 < to_quantity ord" "exact_amount (to_quantity ord)" by (simp_all add: order_ok_def)
    with low high full adv show ?thesis
      unfolding order_ok_def stored_order_def by auto
  qed
  have "to_state (stored_order E now ord1) = to_state ord1"
    "to_filled_quantity (stored_order E now ord1) = en_col E (to_filled_quantity ord1)"
    by (simp_all add: stored_order_def)
  with ok adv x show ?thesis unfolding order_result_def by auto
qed

end
