(* ===== verification/Trading_Lifecycle.thy ===== *)
theory Trading_Lifecycle
  imports Trading_Facts "HOL-Library.Sublist"
begin

text \<open>
  One execution end to end: which rows of the core tables \<open>execution_mutation\<close> and
  \<open>apply_execution\<close> change, then the order lifecycle over any sequence of executions, processed
  orders and cancellations.
\<close>

section \<open>One execution\<close>

definition replaced :: "trading_order \<Rightarrow> trading_order list \<Rightarrow> trading_order list" where
  "replaced ord = upd_where (\<lambda>x. to_id x = to_id ord) (\<lambda>_. ord)"

lemma core_save_order: "core db' = core db \<Longrightarrow> core (save_order ord db') = core (save_order ord db)"
  by (simp add: core_def save_order_def)

lemma stored_order_id [simp]: "to_id (stored_order E now ord) = to_id ord"
  by (simp add: stored_order_def)

lemma core_publish_execution:
  assumes "rbind (publish_quality E now c ord1 (emit now a b d e f g db)) (\<lambda>db4. Inr (emit now a' b' d' e' f' g' db4)) = Inr db'"
  shows "core db' = core db"
  using assms by (auto simp: rbind_eq_Inr core_simps dest!: core_publish_quality)

definition execution_effect ::
  "py_env \<Rightarrow> timestamp \<Rightarrow> trading_order \<Rightarrow> simulated_execution \<Rightarrow> 'a sim_db_scheme \<Rightarrow> 'a sim_db_scheme \<Rightarrow> bool" where
  "execution_effect E now ord x db db' \<longleftrightarrow>
     (\<exists>(db0 :: 'a sim_db_scheme) db1 ord1. core db0 = core db \<and> money_moves E ord x db0 db1 \<and> order_result E ord x ord1 \<and>
        to_id ord1 = to_id ord \<and>
        sd_orders db' = replaced ord1 (sd_orders db) \<and>
        sd_trades db' = sd_trades db @ (if ex_outcome x = OutFill then [trade_row E now ord x] else []) \<and>
        (ex_outcome x = OutFill \<longrightarrow> \<not> obj_exists (\<lambda>t. st_execution_id t = ex_execution_id x) (sd_trades db)) \<and>
        sd_accounts db' = sd_accounts db1 \<and> sd_reservations db' = sd_reservations db1 \<and>
        sd_positions db' = sd_positions db1)"

lemma execution_effectI:
  fixes db db0 db1 :: "'a sim_db_scheme"
  assumes "core db0 = core db" "money_moves E ord x db0 db1" "order_result E ord x ord1" "to_id ord1 = to_id ord"
    and "sd_orders dbt = sd_orders db0"
    and "sd_trades dbt = sd_trades db0 @ (if ex_outcome x = OutFill then [trade_row E now ord x] else [])"
    and "ex_outcome x = OutFill \<Longrightarrow> \<not> obj_exists (\<lambda>t. st_execution_id t = ex_execution_id x) (sd_trades db0)"
    and "sd_accounts dbt = sd_accounts db1" "sd_reservations dbt = sd_reservations db1"
    "sd_positions dbt = sd_positions db1"
    and "core db' = core (save_order ord1 dbt)"
  shows "execution_effect E now ord x db db'"
  unfolding execution_effect_def
proof (rule exI [of _ db0], rule exI [of _ db1], rule exI [of _ ord1], intro conjI)
qed (use assms core_eqD [OF assms(1)] core_eqD [OF assms(11)] in \<open>simp_all add: save_order_def replaced_def\<close>)

lemma fill_effect:
  fixes db db0 :: "'a sim_db_scheme"
  assumes "apply_fill E S now c ord x db0 = Inr (dbt, ord1, ev)" "ex_outcome x = OutFill" "core db0 = core db"
    and "core db' = core (save_order (stored_order E now ord1) dbt)"
  shows "execution_effect E now ord x db db'"
proof -
  obtain s0 r db1 a p r2 db2 where s0: "open_order (to_state ord) = Inr s0"
    and le: "dadd (to_filled_quantity ord) (ex_quantity x) \<le> to_quantity ord"
    and r: "get_row (\<lambda>r. Some (rsv_id r) = to_reservation_id ord) (sd_reservations db0) = Inr r"
    and st: "settle_trade E (rsv_id r) (to_side ord) (to_instrument_id ord) (ex_quantity x) (ex_price x)
      (dmul (dmul (ex_quantity x) (ex_price x)) fee_rate) db0 = Inr (db1, a, p, r2)"
    and t: "add_sim_trade E now ord x (dmul (dmul (ex_quantity x) (ex_price x)) fee_rate) db1 = Inr db2"
    and pos: "0 < ex_quantity x" "0 < ex_price x" and f: "filled_order ord x s0 = Inr ord1" and c: "core dbt = core db2"
    using apply_fill_result [OF assms(1)] by blast
  have m: "money_moves E ord x db0 db1"
    unfolding money_moves_def using assms(2) r st pos by auto
  from t have db2: "db2 = db1\<lparr>sd_trades := sd_trades db1 @ [trade_row E now ord x]\<rparr>"
    and new: "\<not> obj_exists (\<lambda>t. st_execution_id t = ex_execution_id x) (sd_trades db1)"
    by (simp_all add: add_sim_trade_def trade_row_def split: if_splits)
  have res: "order_result E ord x (stored_order E now ord1)"
    by (rule filled_order_result [OF f s0 le pos(1) assms(2)])
  have id1: "to_id (stored_order E now ord1) = to_id ord"
    using filled_order_advances [OF f s0] by simp
  show ?thesis
    using core_eqD [OF c] settle_trade_orders [OF st] new
    by (intro execution_effectI [OF assms(3) m res id1 _ _ _ _ _ _ assms(4)]) (simp_all add: db2 assms(2))
qed

lemma release_effect:
  fixes db db0 :: "'a sim_db_scheme"
  assumes "release_order_funds ord db0 = Inr dbt" "ex_outcome x \<noteq> OutFill" "core db0 = core db"
    and "order_result E ord x (stored_order E now ord1)" "to_id ord1 = to_id ord"
    and "core db' = core (save_order (stored_order E now ord1) dbt)"
  shows "execution_effect E now ord x db db'"
  using release_order_funds_orders [OF assms(1)] assms
  by (intro execution_effectI [OF assms(3) _ assms(4) _ _ _ _ _ _ _ assms(6), of dbt])
    (simp_all add: money_moves_def)

lemma order_path_rejected: "order_path OrdPending OrdRejected"
  by (rule order_path_step) simp

lemma execution_mutation_effect:
  assumes "execution_mutation E S now c ord x db = Inr db'"
  shows "execution_effect E now ord x db db'"
proof -
  define db0 where "db0 = emit now ''execution'' (ex_execution_id x) ''trading.execution.received.v1''
     (event_payload E S ord [(''execution_id'', JStr (ex_execution_id x)), (''outcome'', JStr (outcome_text (ex_outcome x)))])
     (to_tenant_ref ord) c db"
  have c0: "core db0 = core db" by (simp add: db0_def core_simps)
  from assms obtain dbt ord1 ev where o: "outcome_of E S now c ord x db0 = Inr (dbt, ord1, ev)"
    and c': "core db' = core (save_order (stored_order E now ord1) dbt)"
    unfolding execution_mutation_def Let_def rbind_eq_Inr outcome_of_def db0_def
    by (auto dest!: core_publish_execution simp del: rbind_eq_Inr)
  show ?thesis
  proof (cases "ex_outcome x")
    case OutFill
    with o fill_effect [OF _ OutFill c0 c'] show ?thesis by (simp add: outcome_of_def)
  next
    case OutReject
    with o have r: "apply_reject ord db0 = Inr (dbt, ord1, ev)" by (simp add: outcome_of_def)
    note r = apply_reject_result [OF r]
    have "order_result E ord x (stored_order E now ord1)"
      using r OutReject order_path_rejected by (intro released_order_result [where s = OrdRejected]) auto
    then show ?thesis using r OutReject c0 c' by (intro release_effect [of ord db0 dbt]) auto
  next
    case OutExpire
    with o have r: "apply_expire ord db0 = Inr (dbt, ord1, ev)" by (simp add: outcome_of_def)
    note r = apply_expire_result [OF r]
    have "order_result E ord x (stored_order E now ord1)"
      using r OutExpire order_path_expired by (intro released_order_result [where s = OrdExpired]) auto
    then show ?thesis using r OutExpire c0 c' by (intro release_effect [of ord db0 dbt]) auto
  qed
qed

section \<open>The lifecycle of the stored orders\<close>

definition orders_wf :: "'a sim_db_scheme \<Rightarrow> bool" where
  "orders_wf db \<longleftrightarrow> distinct (map to_id (sd_orders db)) \<and> list_all order_ok (sd_orders db) \<and>
     distinct (map st_execution_id (sd_trades db)) \<and>
     (\<forall>t \<in> set (sd_trades db). st_order t \<in> to_id ` set (sd_orders db))"

definition orders_advance :: "'a sim_db_scheme \<Rightarrow> 'a sim_db_scheme \<Rightarrow> bool" where
  "orders_advance db db' \<longleftrightarrow> list_all2 order_advances (sd_orders db) (sd_orders db') \<and>
     prefix (sd_trades db) (sd_trades db')"

definition lifecycle :: "'a sim_db_scheme \<Rightarrow> 'a sim_db_scheme \<Rightarrow> bool" where
  "lifecycle db db' \<longleftrightarrow> (orders_wf db \<longrightarrow> orders_wf db' \<and> orders_advance db db')"

lemma orders_advance_trans:
  assumes "orders_advance a b" "orders_advance b c"
  shows "orders_advance a c"
proof -
  have "list_all2 order_advances (sd_orders a) (sd_orders c)"
    using assms order_advances_trans unfolding orders_advance_def list_all2_conv_all_nth by metis
  with assms show ?thesis by (auto simp: orders_advance_def)
qed

lemma lifecycle_trans: "lifecycle a b \<Longrightarrow> lifecycle b c \<Longrightarrow> lifecycle a c"
  unfolding lifecycle_def by (blast intro: orders_advance_trans)

lemma lifecycle_same:
  assumes "sd_orders db' = sd_orders db" "sd_trades db' = sd_trades db"
  shows "lifecycle db db'"
  using assms by (simp add: lifecycle_def orders_wf_def orders_advance_def list_all2_refl)

lemma lifecycle_core: "core db' = core db \<Longrightarrow> lifecycle db db'"
  by (rule lifecycle_same) (rule core_eqD, assumption)+

lemma order_advances_id: "order_advances o1 o2 \<Longrightarrow> to_id o2 = to_id o1"
  by (cases o1; cases o2) (simp add: order_advances_def order_terms_def)

lemma replaced_ids [simp]: "map to_id (replaced ord os) = map to_id os"
  by (induction os) (simp_all add: replaced_def upd_where_def)

lemma replaced_id_set [simp]: "to_id ` set (replaced ord os) = to_id ` set os"
  by (metis image_set replaced_ids)

lemma replaced_advances:
  assumes "distinct (map to_id os)" "ord \<in> set os" "order_advances ord ord1"
  shows "list_all2 order_advances os (replaced ord1 os)"
proof -
  have "order_advances x (if to_id x = to_id ord1 then ord1 else x)" if "x \<in> set os" for x
    using that assms order_advances_id [OF assms(3)] by (auto simp: distinct_map dest: inj_onD)
  then show ?thesis
    by (simp add: replaced_def upd_where_def list_all2_conv_all_nth)
qed

lemma replaced_ok: "list_all order_ok os \<Longrightarrow> order_ok ord1 \<Longrightarrow> list_all order_ok (replaced ord1 os)"
  by (induction os) (simp_all add: replaced_def upd_where_def)

lemma lifecycle_replaced:
  assumes "ord \<in> set (sd_orders db)" "order_advances ord ord1" "order_ok ord \<Longrightarrow> order_ok ord1"
    and "sd_orders db' = replaced ord1 (sd_orders db)" "sd_trades db' = sd_trades db @ ts"
    and "ts = [] \<or> ts = [t] \<and> st_order t = to_id ord \<and> st_execution_id t \<notin> st_execution_id ` set (sd_trades db)"
  shows "lifecycle db db'"
proof -
  have "orders_wf db' \<and> orders_advance db db'" if w: "orders_wf db"
  proof -
    from w assms(1,3) have "order_ok ord1" by (auto simp: orders_wf_def list_all_iff)
    moreover have "list_all2 order_advances (sd_orders db) (sd_orders db')"
      using w assms(1,2,4) by (simp add: orders_wf_def replaced_advances)
    ultimately show ?thesis
      using w assms(1,4-6) by (auto simp: orders_wf_def orders_advance_def image_iff intro: replaced_ok)
  qed
  then show ?thesis by (simp add: lifecycle_def)
qed

lemma execution_effect_lifecycle:
  assumes "execution_effect E now ord x db db'" "ord \<in> set (sd_orders db)" "column_rounding (en_col E)"
  shows "lifecycle db db'"
proof -
  from assms(1) obtain ord1 where o1: "order_result E ord x ord1" "sd_orders db' = replaced ord1 (sd_orders db)"
    and t: "sd_trades db' = sd_trades db @ (if ex_outcome x = OutFill then [trade_row E now ord x] else [])"
    and new: "ex_outcome x = OutFill \<longrightarrow> \<not> obj_exists (\<lambda>t. st_execution_id t = ex_execution_id x) (sd_trades db)"
    unfolding execution_effect_def by blast
  from new have "ex_outcome x = OutFill \<Longrightarrow> ex_execution_id x \<notin> st_execution_id ` set (sd_trades db)"
    by auto
  then show ?thesis
    using o1(1) assms(3)
    by (intro lifecycle_replaced [OF assms(2) _ _ o1(2) t, of "trade_row E now ord x"])
      (auto simp: order_result_def trade_row_def)
qed

lemma sim_order_in: "get_sim_order i db = Inr ord \<Longrightarrow> ord \<in> set (sd_orders db) \<and> to_id ord = i"
  by (auto simp: get_sim_order_def res_simps dest: obj_get_Inr)

lemma order_correlation_core:
  "order_correlation E ord db = (db0, c) \<Longrightarrow> core db0 = core db"
  using core_order_correlation [of E ord db] by simp

lemma apply_execution_cases:
  assumes "apply_execution E S now i x s = Inr (s', b)"
  obtains (replay) "\<not> b" "core (snd s') = core (snd s)"
  | (run) ord db0 where "b" "core db0 = core (snd s)" "ord \<in> set (sd_orders db0)" "to_id ord = i"
      "execution_effect E now ord x db0 (snd s')"
proof -
  from assms obtain ord where o: "get_sim_order i (snd s) = Inr ord"
    by (auto simp: apply_execution_def rbind_eq_Inr)
  obtain db0 c where c: "order_correlation E ord (snd s) = (db0, c)" by fastforce
  note c0 = order_correlation_core [OF c]
  have ord: "ord \<in> set (sd_orders db0)" "to_id ord = i"
    using sim_order_in [OF o] core_eqD(1) [OF c0] by simp_all
  from assms o c have "consume_once (en_sha E) now (en_uuid5 E (ex_execution_id x)) (execution_payload E ord x)
      ''simulated-execution-v1'' (execution_mutation E S now c ord x) (fst s, db0) = Inr (s', b)"
    by (simp add: apply_execution_def)
  then show ?thesis
  proof (cases rule: consume_once_cases)
    case replay
    with that(1) c0 show ?thesis by simp
  next
    case run
    with that(2) c0 ord execution_mutation_effect show ?thesis by simp blast
  qed
qed

lemma apply_execution_lifecycle:
  assumes "apply_execution E S now i x s = Inr (s', b)" "column_rounding (en_col E)"
  shows "lifecycle (snd s) (snd s')"
  using assms(1)
proof (cases rule: apply_execution_cases)
  case replay
  from replay(2) show ?thesis by (rule lifecycle_core)
next
  case (run ord db0)
  from lifecycle_core [OF run(2)] execution_effect_lifecycle [OF run(5,3) assms(2)]
  show ?thesis by (rule lifecycle_trans)
qed

lemma apply_executions_lifecycle:
  "apply_executions E S now i xs s = Inr s' \<Longrightarrow> column_rounding (en_col E) \<Longrightarrow> lifecycle (snd s) (snd s')"
proof (induction xs arbitrary: s)
  case (Cons x xs)
  then obtain s1 b where "apply_execution E S now i x s = Inr (s1, b)" "apply_executions E S now i xs s1 = Inr s'"
    by (auto simp: rbind_eq_Inr)
  with Cons apply_execution_lifecycle lifecycle_trans show ?case by metis
qed (simp add: lifecycle_core)

text \<open>Moving an order to a non-terminal state, or to \<open>CANCELLED\<close>, without filling it.\<close>

lemma lifecycle_moved:
  assumes "ord \<in> set (sd_orders db)" "to_state ord \<notin> order_terminal_states" "order_path (to_state ord) s"
    and "s \<in> {OrdAccepted, OrdOpen} \<and> to_state ord \<in> {OrdPending, OrdAccepted} \<or> s = OrdCancelPending \<or> s = OrdCancelled"
    and "core db' = core (save_order (ord\<lparr>to_state := s, to_updated_at := now\<rparr>) db)"
  shows "lifecycle db db'"
proof (rule lifecycle_replaced [OF assms(1), where ts = "[]"])
  show "order_advances ord (ord\<lparr>to_state := s, to_updated_at := now\<rparr>)"
    using assms(2,3) by (simp add: order_advances_def order_terms_def)
  show "order_ok (ord\<lparr>to_state := s, to_updated_at := now\<rparr>)" if "order_ok ord"
    using that assms(4) by (auto simp: order_ok_def)
qed (use core_eqD [OF assms(5)] in \<open>simp_all add: save_order_def replaced_def\<close>)

lemma accept_order_lifecycle:
  assumes "accept_order E S now sc c ord db = Inr (db', ord')" "ord \<in> set (sd_orders db)"
  shows "lifecycle db db'"
proof (cases "to_state ord = OrdPending \<and> sc \<noteq> ''REJECT''")
  case True
  with assms(1) have "core db' = core (save_order (ord\<lparr>to_state := OrdAccepted, to_updated_at := now\<rparr>) db)"
    by (auto simp: accept_order_def rbind_eq_Inr transition_order_Inr Let_def core_simps)
  with True show ?thesis
    by (intro lifecycle_moved [OF assms(2)]) (auto simp: order_terminal_states_def order_path_step)
qed (use assms in \<open>auto simp: accept_order_def intro: lifecycle_core\<close>)

lemma open_after_lifecycle:
  assumes "open_after_executions E S now i c db = Inr (db', ord')"
  shows "lifecycle db db'"
proof -
  from assms obtain ord where o: "get_sim_order i db = Inr ord"
    by (auto simp: open_after_executions_def rbind_eq_Inr)
  note ord = sim_order_in [OF o]
  show ?thesis
  proof (cases "to_state ord = OrdAccepted")
    case True
    with assms o have "core db' = core (save_order (ord\<lparr>to_state := OrdOpen, to_updated_at := now\<rparr>) db)"
      by (auto simp: open_after_executions_def rbind_eq_Inr transition_order_Inr Let_def core_simps)
    with True ord show ?thesis
      by (intro lifecycle_moved [of ord]) (auto simp: order_terminal_states_def order_path_step)
  next
    case False
    with assms o show ?thesis by (simp add: open_after_executions_def lifecycle_core)
  qed
qed

lemma process_created_order_lifecycle:
  assumes "process_created_order E S now i sc s = Inr (s', ord')" "column_rounding (en_col E)"
  shows "lifecycle (snd s) (snd s')"
proof -
  from assms(1) obtain ord where o: "get_sim_order i (snd s) = Inr ord"
    by (auto simp: process_created_order_def rbind_eq_Inr)
  obtain db0 c where c: "order_correlation E ord (snd s) = (db0, c)" by fastforce
  note c0 = order_correlation_core [OF c]
  define sel where "sel = (if sc \<noteq> '''' then sc else se_scenario S)"
  from assms(1) o c obtain db1 ord1 xs s2 db3 where a: "accept_order E S now sel c ord db0 = Inr (db1, ord1)"
    and x: "apply_executions E S now i xs (fst s, db1) = Inr s2"
    and p: "open_after_executions E S now i c (snd s2) = Inr (db3, ord')" and s': "s' = (fst s2, db3)"
    by (auto simp: process_created_order_def rbind_eq_Inr sel_def Let_def)
  have "ord \<in> set (sd_orders db0)"
    using sim_order_in [OF o] core_eqD(1) [OF c0] by simp
  from accept_order_lifecycle [OF a this] apply_executions_lifecycle [OF x assms(2)] open_after_lifecycle [OF p]
    lifecycle_core [OF c0] s'
  show ?thesis by (auto intro: lifecycle_trans)
qed

lemma core_audits: "core (db\<lparr>sd_audits := a, ev_next := n\<rparr>) = core db"
  by (simp add: core_def)

lemma cancel_order_lifecycle:
  assumes "cancel_order E S now tn su i v co db = Inr (db', r)"
  shows "lifecycle db db'"
proof -
  from assms obtain ord where o: "obj_get (\<lambda>x. to_id x = i \<and> to_tenant_ref x = tn \<and> to_subject_ref x = su \<and>
      to_simulation x) (sd_orders db) = Inr ord"
    by (auto simp: cancel_order_def rbind_eq_Inr res_simps)
  show ?thesis
  proof (cases "en_iso_time E (to_updated_at ord) = v")
    case False
    with assms o show ?thesis by (simp add: cancel_order_def get_row_def lifecycle_core)
  next
    case True
    obtain db0 c where c: "(case co of Some c \<Rightarrow> (db, c) | None \<Rightarrow> order_correlation E ord db) = (db0, c)" by fastforce
    then have c0: "core db0 = core db"
      by (auto split: option.splits dest: order_correlation_core)
    define o1 where "o1 = ord\<lparr>to_state := OrdCancelPending, to_updated_at := now\<rparr>"
    define o2 where "o2 = o1\<lparr>to_state := OrdCancelled\<rparr>"
    define dbx where "dbx = emit now ''order'' (str_uuid (to_id o1)) ''trading.order.cancel_requested.v1''
        (event_payload E S o1 []) tn c (save_order o1 db0)"
    from assms o True c obtain dbr where st: "to_state ord \<in> {OrdAccepted, OrdOpen, OrdPartiallyFilled}"
      and rel: "release_order_funds o2 (save_order o2 dbx) = Inr dbr" and fin: "core db' = core dbr"
      unfolding cancel_order_def get_row_def dbx_def o2_def o1_def
      by (simp add: rbind_eq_Inr transition_order_Inr Let_def split: if_splits)
        (elim exE conjE, clarsimp simp: core_simps core_audits)
    have x: "core dbx = core (save_order o1 db0)" by (simp add: dbx_def core_simps)
    have "sd_orders dbr = replaced o2 (sd_orders db)" "sd_trades dbr = sd_trades db"
      using release_order_funds_orders [OF rel] core_eqD [OF c0] core_eqD [OF x]
      by (auto simp: replaced_def save_order_def upd_where_def o2_def o1_def)
    moreover have "order_path (to_state ord) OrdCancelPending"
      using st by (auto simp: order_path_step)
    then have "order_path (to_state ord) OrdCancelled"
      by (rule order_path_trans) (simp add: order_path_step)
    then have "order_advances ord o2"
      using st by (auto simp: order_advances_def order_terms_def o2_def o1_def order_terminal_states_def)
    ultimately show ?thesis
      using obj_get_Inr [OF o] core_eqD [OF fin]
      by (intro lifecycle_replaced [of ord _ o2 _ "[]"]) (auto simp: o2_def o1_def order_ok_def)
  qed
qed

text \<open>Any sequence of executions, processed orders and cancellations.\<close>

inductive sim_step ::
  "py_env \<Rightarrow> sim_settings \<Rightarrow> processed_event list \<times> 'a sim_db_scheme \<Rightarrow> processed_event list \<times> 'a sim_db_scheme \<Rightarrow> bool"
  for E S where
  Execute: "apply_execution E S now i x s = Inr (s', b) \<Longrightarrow> sim_step E S s s'"
| Process: "process_created_order E S now i sc s = Inr (s', ord) \<Longrightarrow> sim_step E S s s'"
| Cancel: "cancel_order E S now tn su i v co db = Inr (db', r) \<Longrightarrow> sim_step E S (t, db) (t, db')"

lemma sim_step_lifecycle:
  "sim_step E S s s' \<Longrightarrow> column_rounding (en_col E) \<Longrightarrow> lifecycle (snd s) (snd s')"
  by (induction rule: sim_step.induct)
    (auto dest: apply_execution_lifecycle process_created_order_lifecycle cancel_order_lifecycle)

lemma sim_steps_lifecycle:
  assumes "(sim_step E S)\<^sup>*\<^sup>* s s'" "column_rounding (en_col E)"
  shows "lifecycle (snd s) (snd s')"
  using assms(1)
proof (induction rule: rtranclp_induct)
  case (step y z)
  from step.IH sim_step_lifecycle [OF step.hyps(2) assms(2)] show ?case by (rule lifecycle_trans)
qed (simp add: lifecycle_core)

end
