(* ===== verification/Trading_Cash.thy ===== *)
theory Trading_Cash
  imports Trading_Facts
begin

text \<open>
  Simulated money is never promised twice: an invariant on accounts and reservations, and its
  preservation by \<open>reserve_funds\<close>, \<open>release_reservation\<close> and \<open>settle_trade\<close>.
\<close>

section \<open>The invariant\<close>

definition reservation_ok :: "simulated_reservation \<Rightarrow> bool" where
  "reservation_ok r \<longleftrightarrow> 0 \<le> rsv_remaining_amount r \<and> exact_amount (rsv_remaining_amount r) \<and>
     (rsv_state r \<noteq> ResActive \<longrightarrow> rsv_remaining_amount r = 0)"

definition sim_balance_ok :: "simulated_reservation list \<Rightarrow> simulated_account \<Rightarrow> bool" where
  "sim_balance_ok rs a \<longleftrightarrow>
     exact_amount (sa_total_balance a) \<and> 0 \<le> sa_pending_balance a \<and> exact_amount (sa_pending_balance a) \<and>
     reserved_sum (sa_id a) (sa_quote_currency a) rs \<le> sa_total_balance a - sa_pending_balance a"

definition cash_ok :: "'a sim_db_scheme \<Rightarrow> bool" where
  "cash_ok db \<longleftrightarrow> distinct (map sa_id (sd_accounts db)) \<and> distinct (map rsv_id (sd_reservations db)) \<and>
     (\<forall>r \<in> set (sd_reservations db). reservation_ok r) \<and>
     (\<forall>a \<in> set (sd_accounts db). sim_balance_ok (sd_reservations db) a) \<and>
     (\<forall>p \<in> set (sd_positions db). 0 \<le> sp_quantity p)"

definition claim_of :: "uuid \<Rightarrow> string \<Rightarrow> simulated_reservation \<Rightarrow> rat" where
  "claim_of account asset r =
     (if rsv_account r = account \<and> rsv_state r = ResActive \<and> rsv_asset r = asset then rsv_remaining_amount r else 0)"

lemma reserved_sum_snoc: "reserved_sum i c (rs @ [r]) = reserved_sum i c rs + claim_of i c r"
  by (simp add: reserved_sum_def claim_of_def)

lemma reserved_sum_upd:
  assumes "distinct (map rsv_id rs)" "r \<in> set rs" "rsv_id r' = rsv_id r"
  shows "reserved_sum i c (upd_where (\<lambda>x. rsv_id x = rsv_id r) (\<lambda>_. r') rs) =
    reserved_sum i c rs - claim_of i c r + claim_of i c r'"
  unfolding reserved_sum_def claim_of_def sum_where_upd_row [OF assms] by simp

lemma reserved_sum_nonneg: "(\<And>r. r \<in> set rs \<Longrightarrow> reservation_ok r) \<Longrightarrow> 0 \<le> reserved_sum i c rs"
  unfolding reserved_sum_def by (rule sum_where_nonneg) (simp add: reservation_ok_def)

lemma reserved_sum_grid: "(\<And>r. r \<in> set rs \<Longrightarrow> reservation_ok r) \<Longrightarrow> grid (reserved_sum i c rs)"
  unfolding reserved_sum_def by (rule grid_sum_where) (simp add: reservation_ok_def exact_amount_def)

lemma claim_le_reserved:
  assumes "r \<in> set rs" "\<And>r. r \<in> set rs \<Longrightarrow> reservation_ok r"
  shows "claim_of i c r \<le> reserved_sum i c rs"
proof (cases "rsv_account r = i \<and> rsv_state r = ResActive \<and> rsv_asset r = c")
  case True
  then show ?thesis
    unfolding reserved_sum_def claim_of_def if_P [OF True]
    using assms by (intro sum_where_member_le) (auto simp: reservation_ok_def)
next
  case False
  have "0 \<le> reserved_sum i c rs" by (rule reserved_sum_nonneg [OF assms(2)])
  then show ?thesis unfolding claim_of_def if_not_P [OF False] .
qed

lemma exact_between: "grid x \<Longrightarrow> 0 \<le> x \<Longrightarrow> x \<le> y \<Longrightarrow> exact_amount y \<Longrightarrow> exact_amount x"
  by (auto simp: exact_amount_def)

lemma exact_grid [simp]: "exact_amount x \<Longrightarrow> grid x"
  by (simp add: exact_amount_def)

text \<open>The free balance of an account is computed exactly.\<close>

lemma available_quote_exact:
  assumes "sim_balance_ok rs a" "\<And>r. r \<in> set rs \<Longrightarrow> reservation_ok r"
  shows "available_quote a rs = sa_total_balance a - sa_pending_balance a - reserved_sum (sa_id a) (sa_quote_currency a) rs"
    and "exact_amount (available_quote a rs)" "0 \<le> available_quote a rs"
proof -
  let ?S = "reserved_sum (sa_id a) (sa_quote_currency a) rs" and ?F = "sa_total_balance a - sa_pending_balance a"
  have S: "0 \<le> ?S" "grid ?S"
    by (rule reserved_sum_nonneg [OF assms(2)], assumption) (rule reserved_sum_grid [OF assms(2)], assumption)
  from assms(1) have b: "exact_amount (sa_total_balance a)" "0 \<le> sa_pending_balance a" "exact_amount (sa_pending_balance a)"
    and le: "?S \<le> ?F" by (simp_all add: sim_balance_ok_def)
  have "grid ?F" "0 \<le> ?F" "?F \<le> sa_total_balance a" using b le S by simp_all
  then have F: "exact_amount ?F" using b(1) by (rule exact_between)
  have "grid (?F - ?S)" "0 \<le> ?F - ?S" "?F - ?S \<le> ?F" using F le S by simp_all
  then have E: "exact_amount (?F - ?S)" using F by (rule exact_between)
  then show eq: "available_quote a rs = ?F - ?S" using F by (simp add: available_quote_def dsub_def)
  show "exact_amount (available_quote a rs)" "0 \<le> available_quote a rs" using E F eq le by simp_all
qed

lemma sim_balance_okI:
  assumes "sim_balance_ok rs a" "reserved_sum (sa_id a) (sa_quote_currency a) rs' \<le> reserved_sum (sa_id a) (sa_quote_currency a) rs"
  shows "sim_balance_ok rs' a"
  using assms by (auto simp: sim_balance_ok_def)

section \<open>Releasing\<close>

lemma release_cash_ok:
  assumes "release_reservation i db = Inr (db', r')" "cash_ok db"
  shows "cash_ok db'"
proof -
  from assms(1) obtain r where r: "obj_get (\<lambda>r. rsv_id r = i) (sd_reservations db) = Inr r"
    by (auto simp: release_reservation_def rbind_eq_Inr get_row_Inr)
  note r_in = obj_get_Inr [OF r]
  show ?thesis
  proof (cases "rsv_state r = ResActive")
    case False
    with assms r show ?thesis by (simp add: release_reservation_def get_row_def)
  next
    case True
    let ?r = "r\<lparr>rsv_remaining_amount := 0, rsv_state := ResReleased\<rparr>"
    let ?rs = "upd_where (\<lambda>x. rsv_id x = rsv_id r) (\<lambda>_. ?r) (sd_reservations db)"
    from True assms(1) r have db': "db' = db\<lparr>sd_reservations := ?rs\<rparr>"
      by (auto simp: release_reservation_def get_row_def save_reservation_def Let_def)
    have d: "distinct (map rsv_id (sd_reservations db))" using assms(2) by (simp add: cash_ok_def)
    have "reserved_sum j c ?rs \<le> reserved_sum j c (sd_reservations db)" for j c
      using reserved_sum_upd [OF d, of r ?r j c] r_in assms(2)
      by (auto simp: claim_of_def cash_ok_def reservation_ok_def)
    moreover have "map rsv_id ?rs = map rsv_id (sd_reservations db)" by (rule map_upd_where) simp
    ultimately show ?thesis
      using assms(2) unfolding db' cash_ok_def
      by (auto simp: set_upd_where reservation_ok_def intro: sim_balance_okI)
  qed
qed

section \<open>Reserving\<close>

definition reserve_guard :: "py_env \<Rightarrow> uuid \<Rightarrow> string \<Rightarrow> order_side \<Rightarrow> rat \<Rightarrow> rat \<Rightarrow> 'a sim_db_scheme \<Rightarrow> bool" where
  "reserve_guard E account instrument_id side quantity price db \<longleftrightarrow>
     0 \<le> quantity \<and> 0 \<le> price \<and> fresh E db \<notin> rsv_id ` set (sd_reservations db) \<and>
     (side = Sell \<longrightarrow> exact_amount quantity \<and>
        (\<forall>a \<in> set (sd_accounts db). sa_quote_currency a \<noteq> base_asset instrument_id))"

lemma col_bounds:
  assumes "column_rounding col" "0 \<le> x" "x \<le> y" "exact_amount y"
  shows "0 \<le> col x" "col x \<le> y"
  using column_rounding_nonneg [OF assms(1,2)] column_rounding_mono [OF assms(1,3)] exact_col [OF assms(1,4)]
  by simp_all

lemma reserve_cash_ok:
  assumes res: "reserve_funds E i oid ins side q p db = Inr (db', r)" and ok: "cash_ok db"
    and col: "column_rounding (en_col E)" "\<And>x. grid (en_col E x)"
    and guard: "reserve_guard E i ins side q p db"
  shows "cash_ok db'"
proof -
  from res obtain a am c where a: "obj_get (\<lambda>a. sa_id a = i) (sd_accounts db) = Inr a"
    and need: "reservation_need a ins side q p db = Inr (am, c)"
    and r: "r = new_reservation E (fresh E db) i oid c am"
    and db': "db' = db\<lparr>sd_reservations := sd_reservations db @ [r], ev_next := Suc (ev_next db)\<rparr>"
    by (auto simp: reserve_funds_def rbind_eq_Inr get_row_Inr Let_def split: if_splits)
  note a_in = obj_get_Inr [OF a]
  have rs: "reservation_ok x" if "x \<in> set (sd_reservations db)" for x using ok that by (simp add: cash_ok_def)
  have bal: "sim_balance_ok (sd_reservations db) a" using ok a_in by (simp add: cash_ok_def)
  note av = available_quote_exact [OF bal rs]
  have amount: "0 \<le> en_col E am \<and> exact_amount (en_col E am) \<and>
      (side = Buy \<longrightarrow> c = sa_quote_currency a \<and> en_col E am \<le> available_quote a (sd_reservations db))"
  proof (cases side)
    case Buy
    with need have am: "am = dmul (dmul q p) (dadd 1 fee_rate)" "am \<le> available_quote a (sd_reservations db)"
      "c = sa_quote_currency a"
      by (auto simp: reservation_need_def Let_def split: if_splits)
    have "0 \<le> am" using guard am(1) by (simp add: reserve_guard_def dec_ops fee_rate_def)
    with col_bounds [OF col(1) this am(2) av(2)] show ?thesis
      using am(3) col(2) av(2) by (auto intro: exact_between)
  next
    case Sell
    with need have "am = q" by (auto simp: reservation_need_def Let_def split: option.splits if_splits)
    with Sell guard exact_col [OF col(1), of q] show ?thesis by (simp add: reserve_guard_def)
  qed
  have claim: "claim_of (sa_id x) (sa_quote_currency x) r \<le>
      sa_total_balance x - sa_pending_balance x - reserved_sum (sa_id x) (sa_quote_currency x) (sd_reservations db)"
    if x: "x \<in> set (sd_accounts db)" for x
  proof (cases "side = Buy \<and> sa_id x = i")
    case True
    then have "x = a" using x a obj_get_unique by fastforce
    then show ?thesis using True amount av(1) r by (simp add: claim_of_def new_reservation_def)
  next
    case False
    have "c = base_asset ins" if "side = Sell"
      using that need by (auto simp: reservation_need_def Let_def split: option.splits if_splits)
    with False x guard have "claim_of (sa_id x) (sa_quote_currency x) r = 0"
      by (cases side) (auto simp: claim_of_def r new_reservation_def reserve_guard_def)
    with ok x show ?thesis by (auto simp: cash_ok_def sim_balance_ok_def)
  qed
  have "reservation_ok r" using amount by (simp add: r reservation_ok_def new_reservation_def)
  moreover have "rsv_id r \<notin> rsv_id ` set (sd_reservations db)"
    using guard by (simp add: r new_reservation_def reserve_guard_def)
  moreover have "sim_balance_ok (sd_reservations db @ [r]) x" if "x \<in> set (sd_accounts db)" for x
    using claim [OF that] ok that by (auto simp: sim_balance_ok_def cash_ok_def reserved_sum_snoc)
  ultimately show ?thesis using ok unfolding db' cash_ok_def by auto
qed

section \<open>Settling\<close>

text \<open>
  The amounts of the settlement are exact, the reservation of a purchase is in the quote currency of
  its account, as \<open>reserve_funds\<close> made it, and a sale brings in at least its fee.
\<close>

definition settle_guard ::
  "uuid \<Rightarrow> order_side \<Rightarrow> rat \<Rightarrow> rat \<Rightarrow> rat \<Rightarrow> 'a sim_db_scheme \<Rightarrow> bool" where
  "settle_guard i side q p fee db \<longleftrightarrow>
     0 \<le> q \<and> exact_amount q \<and> 0 \<le> q * p \<and> exact_amount (q * p) \<and> 0 \<le> fee \<and> exact_amount fee \<and>
     exact_amount (q * p + fee) \<and>
     (\<forall>r \<in> set (sd_reservations db). \<forall>a \<in> set (sd_accounts db). rsv_id r = i \<and> sa_id a = rsv_account r \<longrightarrow>
        (side = Buy \<longrightarrow> rsv_asset r = sa_quote_currency a) \<and>
        (side = Sell \<longrightarrow> fee \<le> q * p \<and> exact_amount (sa_total_balance a + (q * p - fee))))"

text \<open>What the settlement does to the account and the reservation, either side.\<close>

definition settled_rows ::
  "order_side \<Rightarrow> rat \<Rightarrow> rat \<Rightarrow> rat \<Rightarrow> simulated_account \<Rightarrow> simulated_reservation \<Rightarrow>
   simulated_account \<Rightarrow> simulated_reservation \<Rightarrow> bool" where
  "settled_rows side q p fee a r a1 r1 \<longleftrightarrow>
     sa_id a1 = sa_id a \<and> sa_quote_currency a1 = sa_quote_currency a \<and>
     sa_pending_balance a1 = sa_pending_balance a \<and> exact_amount (sa_total_balance a1) \<and>
     rsv_id r1 = rsv_id r \<and> rsv_account r1 = rsv_account r \<and> rsv_asset r1 = rsv_asset r \<and> reservation_ok r1 \<and>
     (case side of
        Buy \<Rightarrow> sa_total_balance a1 = sa_total_balance a - (q * p + fee) \<and>
               rsv_remaining_amount r1 = rsv_remaining_amount r - (q * p + fee)
      | Sell \<Rightarrow> sa_total_balance a1 = sa_total_balance a + (q * p - fee) \<and>
               rsv_remaining_amount r1 = rsv_remaining_amount r - q) \<and>
     (rsv_state r1 = rsv_state r \<or> rsv_remaining_amount r1 = 0) \<and> rsv_remaining_amount r1 \<le> rsv_remaining_amount r"

lemma settle_buy_rows:
  assumes "settle_buy q p fee r a pos = Inr (a1, p1, r1)" "reservation_ok r" "exact_amount (sa_total_balance a)"
    and "rsv_remaining_amount r \<le> sa_total_balance a"
    and "0 \<le> q * p" "exact_amount (q * p)" "0 \<le> fee" "exact_amount (q * p + fee)"
  shows "settled_rows Buy q p fee a r a1 (consume_if_empty r1)"
proof -
  let ?d = "q * p + fee"
  have d: "dadd (dmul q p) fee = ?d" using assms(6,8) by (simp add: dec_ops)
  from assms(1) have le: "?d \<le> rsv_remaining_amount r"
    and a1: "a1 = a\<lparr>sa_total_balance := dsub (sa_total_balance a) ?d\<rparr>"
    and r1: "r1 = r\<lparr>rsv_remaining_amount := dsub (rsv_remaining_amount r) ?d\<rparr>"
    by (auto simp: settle_buy_def d Let_def split: if_splits)
  have "exact_amount (rsv_remaining_amount r - ?d)"
    using assms(2,5,7,8) le by (intro exact_amount_diff) (simp_all add: reservation_ok_def)
  moreover have "exact_amount (sa_total_balance a - ?d)"
    using assms(3-5,7,8) le by (intro exact_amount_diff) simp_all
  ultimately show ?thesis
    using assms(2,5,7) le unfolding a1 r1 settled_rows_def consume_if_empty_def
    by (auto simp: dec_ops reservation_ok_def)
qed

lemma settle_sell_rows:
  assumes "settle_sell q p fee r a pos = Inr (a1, p1, r1)" "reservation_ok r"
    and "0 \<le> q" "exact_amount q" "exact_amount (q * p)" "0 \<le> fee" "exact_amount fee" "fee \<le> q * p"
    and "exact_amount (sa_total_balance a + (q * p - fee))"
  shows "settled_rows Sell q p fee a r a1 (consume_if_empty r1)"
proof -
  have pr: "exact_amount (q * p - fee)" using assms(5-8) by (intro exact_amount_diff) simp_all
  from assms(1) have le: "q \<le> rsv_remaining_amount r"
    and a1: "a1 = a\<lparr>sa_total_balance := sa_total_balance a + (q * p - fee)\<rparr>"
    and r1: "r1 = r\<lparr>rsv_remaining_amount := dsub (rsv_remaining_amount r) q\<rparr>"
    using assms(5,9) pr by (auto simp: settle_sell_def dec_ops Let_def split: if_splits)
  have "exact_amount (rsv_remaining_amount r - q)"
    using assms(2-4) le by (intro exact_amount_diff) (simp_all add: reservation_ok_def)
  then show ?thesis
    using assms(2,3,9) le unfolding a1 r1 settled_rows_def consume_if_empty_def
    by (auto simp: dec_ops reservation_ok_def)
qed

definition paid_reservation :: "simulated_reservation \<Rightarrow> simulated_reservation \<Rightarrow> simulated_reservation" where
  "paid_reservation r r1 = r\<lparr>rsv_remaining_amount := rsv_remaining_amount r1, rsv_state := rsv_state r1\<rparr>"

definition paid_account :: "simulated_account \<Rightarrow> simulated_account \<Rightarrow> simulated_account" where
  "paid_account a a1 = a\<lparr>sa_total_balance := sa_total_balance a1\<rparr>"

lemma claim_paid_le:
  "settled_rows side q p fee a r a1 r1 \<Longrightarrow> reservation_ok r \<Longrightarrow>
   claim_of i c (paid_reservation r r1) \<le> claim_of i c r"
  by (auto simp: settled_rows_def paid_reservation_def claim_of_def reservation_ok_def split: order_side.splits)

lemma claim_paid_own:
  assumes "settled_rows side q p fee a r a1 r1" "reservation_ok r"
  shows "claim_of (rsv_account r) (rsv_asset r) r = rsv_remaining_amount r"
    "claim_of (rsv_account r) (rsv_asset r) (paid_reservation r r1) = rsv_remaining_amount r1"
  using assms by (auto simp: settled_rows_def paid_reservation_def claim_of_def reservation_ok_def)

lemma settled_balances:
  assumes rows: "settled_rows side q p fee a r a1 r1" and ok: "cash_ok db"
    and r: "r \<in> set (sd_reservations db)" and a: "a \<in> set (sd_accounts db)" "sa_id a = rsv_account r"
    and buy: "side = Buy \<Longrightarrow> rsv_asset r = sa_quote_currency a"
    and sell: "side = Sell \<Longrightarrow> fee \<le> q * p"
    and x: "x \<in> set (upd_where (\<lambda>x. sa_id x = sa_id a) (\<lambda>_. paid_account a a1) (sd_accounts db))"
  shows "sim_balance_ok (upd_where (\<lambda>x. rsv_id x = rsv_id r) (\<lambda>_. paid_reservation r r1) (sd_reservations db)) x"
proof -
  let ?rs = "upd_where (\<lambda>x. rsv_id x = rsv_id r) (\<lambda>_. paid_reservation r r1) (sd_reservations db)"
  from ok r have rok: "reservation_ok r" and d: "distinct (map rsv_id (sd_reservations db))"
    by (simp_all add: cash_ok_def)
  have sum: "reserved_sum i c ?rs = reserved_sum i c (sd_reservations db) - claim_of i c r + claim_of i c (paid_reservation r r1)"
    for i c by (rule reserved_sum_upd [OF d r]) (simp add: paid_reservation_def)
  have le: "reserved_sum i c ?rs \<le> reserved_sum i c (sd_reservations db)" for i c
    using sum claim_paid_le [OF rows rok, of i c] by simp
  from x consider (own) "x = paid_account a a1" | (other) "x \<in> set (sd_accounts db)"
    by (auto simp: set_upd_where split: if_splits)
  then show ?thesis
  proof cases
    case other
    then have "sim_balance_ok (sd_reservations db) x" using ok by (simp add: cash_ok_def)
    then show ?thesis by (rule sim_balance_okI) (rule le)
  next
    case own
    have ba: "sim_balance_ok (sd_reservations db) a" using ok a by (simp add: cash_ok_def)
    have "reserved_sum (sa_id a) (sa_quote_currency a) ?rs \<le> sa_total_balance a1 - sa_pending_balance a"
    proof (cases side)
      case Buy
      with rows have "sa_total_balance a1 = sa_total_balance a - (rsv_remaining_amount r - rsv_remaining_amount r1)"
        by (simp add: settled_rows_def)
      with sum [of "sa_id a" "sa_quote_currency a"] claim_paid_own [OF rows rok] buy [OF Buy] a(2) ba
      show ?thesis by (simp add: sim_balance_ok_def)
    next
      case Sell
      with rows sell have "sa_total_balance a \<le> sa_total_balance a1" by (simp add: settled_rows_def)
      with le [of "sa_id a" "sa_quote_currency a"] ba show ?thesis by (auto simp: sim_balance_ok_def)
    qed
    with rows ba show ?thesis by (simp add: own sim_balance_ok_def paid_account_def settled_rows_def)
  qed
qed

lemma settle_trade_rows:
  assumes st: "settle_trade E i side ins q p fee db = Inr (db', a1, p1, r1)" and ok: "cash_ok db"
    and guard: "settle_guard i side q p fee db"
  shows "\<exists>r a. r \<in> set (sd_reservations db) \<and> a \<in> set (sd_accounts db) \<and> rsv_id r = i \<and> sa_id a = rsv_account r \<and>
    settled_rows side q p fee a r a1 r1 \<and> 0 \<le> sp_quantity p1 \<and>
    db' = save_settlement E a1 p1 r1 (fst (get_or_create_position E (sa_id a) ins db))"
proof -
  from st obtain r a where r: "obj_get (\<lambda>r. rsv_id r = i) (sd_reservations db) = Inr r"
    and a: "obj_get (\<lambda>a. sa_id a = rsv_account r) (sd_accounts db) = Inr a"
    by (auto simp: settle_trade_def rbind_eq_Inr get_row_Inr)
  note r_in = obj_get_Inr [OF r] and a_in = obj_get_Inr [OF a]
  obtain db1 pos where g: "get_or_create_position E (sa_id a) ins db = (db1, pos)" by fastforce
  from st r a g obtain r0 where go: "(case side of Buy \<Rightarrow> settle_buy q p fee r a pos | Sell \<Rightarrow> settle_sell q p fee r a pos) =
      Inr (a1, p1, r0)" and r1: "r1 = consume_if_empty r0" and db': "db' = save_settlement E a1 p1 r1 db1"
    by (auto simp: settle_trade_def rbind_eq_Inr get_row_def Let_def)
  have pos: "0 \<le> sp_quantity pos"
    using g ok by (auto simp: get_or_create_position_def cash_ok_def Let_def dest!: obj_first_Some split: option.splits)
  from ok r_in a_in have rok: "reservation_ok r" and bal: "sim_balance_ok (sd_reservations db) a"
    by (simp_all add: cash_ok_def)
  have rs: "reservation_ok x" if "x \<in> set (sd_reservations db)" for x using ok that by (simp add: cash_ok_def)
  have "settled_rows side q p fee a r a1 r1 \<and> 0 \<le> sp_quantity p1"
  proof (cases side)
    case Buy
    with guard r_in a_in have "rsv_asset r = sa_quote_currency a" by (auto simp: settle_guard_def)
    then have "rsv_remaining_amount r \<le> claim_of (sa_id a) (sa_quote_currency a) r"
      using rok a_in by (simp add: claim_of_def reservation_ok_def)
    also have "\<dots> \<le> reserved_sum (sa_id a) (sa_quote_currency a) (sd_reservations db)"
      using r_in rs by (intro claim_le_reserved) auto
    also have "\<dots> \<le> sa_total_balance a" using bal by (simp add: sim_balance_ok_def)
    finally have "rsv_remaining_amount r \<le> sa_total_balance a" .
    moreover have "0 \<le> sp_quantity p1"
      using go Buy pos guard by (auto simp: settle_buy_def Let_def dec_ops settle_guard_def split: if_splits)
    ultimately show ?thesis
      using settle_buy_rows [of q p fee r a pos a1 p1 r0] go Buy rok bal guard
      by (simp add: r1 settle_guard_def sim_balance_ok_def)
  next
    case Sell
    with guard r_in a_in have "fee \<le> q * p" "exact_amount (sa_total_balance a + (q * p - fee))"
      by (auto simp: settle_guard_def)
    moreover have "0 \<le> sp_quantity p1"
      using go Sell by (auto simp: settle_sell_def Let_def dec_ops split: if_splits)
    ultimately show ?thesis
      using settle_sell_rows [of q p fee r a pos a1 p1 r0] go Sell rok guard by (simp add: r1 settle_guard_def)
  qed
  with r_in a_in db' g show ?thesis by (intro exI [of _ r] exI [of _ a]) simp
qed

lemma created_position_frame:
  "sd_accounts (fst (get_or_create_position E i ins db)) = sd_accounts db"
  "sd_reservations (fst (get_or_create_position E i ins db)) = sd_reservations db"
  "p \<in> set (sd_positions (fst (get_or_create_position E i ins db))) \<Longrightarrow> p \<in> set (sd_positions db) \<or> sp_quantity p = 0"
  by (auto simp: get_or_create_position_def Let_def split: option.splits)

lemma settle_cash_ok:
  assumes st: "settle_trade E i side ins q p fee db = Inr (db', a1, p1, r1)" and ok: "cash_ok db"
    and col: "column_rounding (en_col E)" and guard: "settle_guard i side q p fee db"
  shows "cash_ok db'"
proof -
  from settle_trade_rows [OF st ok guard] obtain r a where r: "r \<in> set (sd_reservations db)" "rsv_id r = i"
    and a: "a \<in> set (sd_accounts db)" "sa_id a = rsv_account r" and rows: "settled_rows side q p fee a r a1 r1"
    and pos: "0 \<le> sp_quantity p1"
    and db': "db' = save_settlement E a1 p1 r1 (fst (get_or_create_position E (sa_id a) ins db))" by blast
  have d: "distinct (map rsv_id (sd_reservations db))" "distinct (map sa_id (sd_accounts db))"
    using ok by (simp_all add: cash_ok_def)
  have ids: "rsv_id r1 = rsv_id r" "sa_id a1 = sa_id a" and ok1: "reservation_ok r1" "exact_amount (sa_total_balance a1)"
    using rows by (simp_all add: settled_rows_def)
  let ?rs = "upd_where (\<lambda>x. rsv_id x = rsv_id r) (\<lambda>_. paid_reservation r r1) (sd_reservations db)"
  let ?as = "upd_where (\<lambda>x. sa_id x = sa_id a) (\<lambda>_. paid_account a a1) (sd_accounts db)"
  have col1: "en_col E (rsv_remaining_amount r1) = rsv_remaining_amount r1"
    "en_col E (sa_total_balance a1) = sa_total_balance a1"
    using ok1 exact_col [OF col] by (simp_all add: reservation_ok_def)
  have res: "sd_reservations db' = ?rs"
    using upd_where_row [OF d(1) r(1), of "\<lambda>x. paid_reservation x r1"]
    by (simp add: db' save_settlement_def created_position_frame ids col1 paid_reservation_def)
  have acc: "sd_accounts db' = ?as"
    using upd_where_row [OF d(2) a(1), of "\<lambda>x. paid_account x a1"]
    by (simp add: db' save_settlement_def created_position_frame ids col1 paid_account_def)
  have "map rsv_id ?rs = map rsv_id (sd_reservations db)" by (rule map_upd_where) (simp add: paid_reservation_def)
  moreover have "map sa_id ?as = map sa_id (sd_accounts db)" by (rule map_upd_where) (simp add: paid_account_def)
  moreover have "reservation_ok x" if "x \<in> set ?rs" for x
    using that ok ok1(1) by (auto simp: set_upd_where cash_ok_def reservation_ok_def paid_reservation_def split: if_splits)
  moreover have "sim_balance_ok ?rs x" if "x \<in> set ?as" for x
  proof (rule settled_balances [OF rows ok r(1) a _ _ that])
    show "side = Buy \<Longrightarrow> rsv_asset r = sa_quote_currency a" using guard r a by (auto simp: settle_guard_def)
    show "side = Sell \<Longrightarrow> fee \<le> q * p" using guard r a by (auto simp: settle_guard_def)
  qed
  moreover have "0 \<le> sp_quantity x" if "x \<in> set (sd_positions db')" for x
    using that ok pos column_rounding_nonneg [OF col pos]
    by (auto simp: db' save_settlement_def set_upd_where cash_ok_def split: if_splits dest!: created_position_frame(3))
  ultimately show ?thesis using d unfolding cash_ok_def res acc by simp
qed

section \<open>Any sequence of the three\<close>

inductive cash_step :: "py_env \<Rightarrow> 'a sim_db_scheme \<Rightarrow> 'a sim_db_scheme \<Rightarrow> bool" for E where
  Reserve: "reserve_funds E i oid ins side q p db = Inr (db', r) \<Longrightarrow> reserve_guard E i ins side q p db \<Longrightarrow>
    cash_step E db db'"
| Release: "release_reservation i db = Inr (db', r) \<Longrightarrow> cash_step E db db'"
| Settle: "settle_trade E i side ins q p fee db = Inr (db', a, pos, r) \<Longrightarrow> settle_guard i side q p fee db \<Longrightarrow>
    cash_step E db db'"

lemma cash_steps_ok:
  assumes "(cash_step E)\<^sup>*\<^sup>* db db'" "cash_ok db" "column_rounding (en_col E)" "\<And>x. grid (en_col E x)"
  shows "cash_ok db'"
  using assms(1,2)
proof (induction rule: rtranclp_induct)
  case (step y z)
  from step.hyps(2) step.IH [OF step.prems] show ?case
    by (cases rule: cash_step.cases)
      (auto intro: reserve_cash_ok [OF _ _ assms(3,4)] release_cash_ok settle_cash_ok [OF _ _ assms(3)])
qed

end
