(* ===== verification/Trading_Properties.thy ===== *)
theory Trading_Properties
  imports Trading_Lifecycle Trading_Cash
begin

text \<open>
  Properties of the trading simulation, the post-fill chain and the tax lots, with a small
  database the witnesses run on.
\<close>

section \<open>A database for the witnesses\<close>

definition demo_py :: py_env where
  "demo_py = \<lparr>en_sha = (\<lambda>s. s), en_uuid4 = (\<lambda>n. n), en_uuid5 = (\<lambda>s. 0), en_dtext = (\<lambda>x. ''0''),
     en_iso_date = (\<lambda>d. ''''), en_iso_time = (\<lambda>t. ''v''), en_col = (\<lambda>x. x), en_ratio_col = (\<lambda>x. x)\<rparr>"

definition demo_order :: trading_order where
  "demo_order = \<lparr>to_id = 11, to_tenant_ref = ''default'', to_subject_ref = ''u'', to_account_ref = ''sim:u'',
     to_instrument_id = ''BTC-USD'', to_order_type = OrdMarket, to_side = Buy, to_quantity = 2,
     to_limit_price = None, to_stop_price = None, to_filled_quantity = 0, to_average_fill_price = None,
     to_risk_decision_id = None, to_reservation_id = Some 21, to_state = OrdPending, to_simulation = True,
     to_eligibility_policy_version = '''', to_eligibility_result = '''', to_eligibility_reason_codes = [],
     to_eligibility_evaluated_at = None, to_idempotency_key = ''k'', to_created_at = 0, to_updated_at = 0\<rparr>"

definition demo_lot :: "uuid \<Rightarrow> int \<Rightarrow> rat \<Rightarrow> tax_lot" where
  "demo_lot i d q = \<lparr>lot_id = i, lot_tenant_ref = ''default'', lot_account_ref = ''sim:u'',
     lot_instrument_id = ''BTC-USD'', lot_acquisition_trade = None, lot_acquisition_date = d,
     lot_original_quantity = q, lot_remaining_quantity = q, lot_unit_cost = 1, lot_total_cost = q,
     lot_currency = ''USD'', lot_source_type = ''TRADE'', lot_status = ''OPEN'', lot_policy_version = lot_policy,
     lot_created_at = 0\<rparr>"

definition demo_sim :: sim_db where
  "demo_sim = \<lparr>ev_outbox = \<lparr>ob_next_pk = 1, ob_next_uuid = 500, ob_rows = []\<rparr>, ev_next = 100,
     pd_trades = [], pd_fees = [], pd_allocations = [], pd_obligations = [], pd_instructions = [],
     pd_effects = [], pd_confirmations = [],
     pd_calendars = [\<lparr>cal_asset_class = ''CRYPTO'', cal_settlement_convention = ''T_PLUS_1'', cal_holidays = [],
                       cal_effective_from = 0, cal_effective_to = None\<rparr>],
     pd_exceptions = [], pd_corrections = [], pd_audits = [],
     vd_lots = [demo_lot 31 5 3, demo_lot 32 4 2], vd_dispositions = [], vd_cost_basis = [], vd_adjustments = [],
     vd_realized = [], vd_income = [], vd_audits = [],
     sd_orders = [demo_order],
     sd_accounts = [\<lparr>sa_id = 1, sa_tenant_ref = ''default'', sa_subject_ref = ''u'', sa_account_ref = ''sim:u'',
                      sa_status = ''ACTIVE'', sa_quote_currency = ''USD'', sa_total_balance = 1000,
                      sa_pending_balance = 0\<rparr>],
     sd_trading_accounts = [],
     sd_reservations = [\<lparr>rsv_id = 21, rsv_account = 1, rsv_order_id = 11, rsv_asset = ''USD'',
                          rsv_original_amount = 300, rsv_remaining_amount = 300, rsv_state = ResActive\<rparr>],
     sd_trades = [], sd_positions = [], sd_routing = [], sd_quality = [], sd_audits = []\<rparr>"

definition demo_sim_settings :: sim_settings where
  "demo_sim_settings = \<lparr>se_prices = [(''BTC-USD'', 100)], se_price_source = ''fixture'',
     se_scenario = ''OPEN_THEN_CANCEL'', se_inline = True, se_market_data_stale = False\<rparr>"

lemma demo_col [simp]: "column_rounding (en_col demo_py)"
  by (simp add: column_rounding_def demo_py_def)

section \<open>The post-fill chain\<close>

text \<open>
  C34. A new fill of a simulated order, with exact amounts, a settlement calendar and, for a sale,
  enough open lots, goes through the whole chain of \<open>process_simulated_fill\<close>: the trade is
  captured and ends SETTLED, fully allocated, its three obligations add up to what is delivered
  and received, one instruction of those two legs is SETTLED, one position effect and one
  confirmation exist, and the tax lots gain the purchase at cost or lose the sale first in first out.
\<close>

theorem post_fill_chain_settles:
  assumes "column_rounding (en_col E)" "fill_ready E ord ex q p fee at' db"
  shows "\<exists>db' t. process_simulated_fill E now ord ex q p fee at' db = Inr (db', t, True) \<and>
    pd_trades db' = pd_trades db @ [t] \<and> trd_execution_id t = ex \<and> trd_order_id t = to_id ord \<and>
    trd_side t = to_side ord \<and> trd_quantity t = q \<and> trd_gross_notional t = q * p \<and>
    settled_records t fee db' \<and> lots_after ord t fee db db'"
  by (rule process_simulated_fill_settles [OF assms])

lemma demo_fill_ready: "fill_ready demo_py (demo_order\<lparr>to_side := Sell\<rparr>) ''x'' 4 100 (2 / 5) 0 demo_sim"
proof -
  have "order_lots (demo_order\<lparr>to_side := Sell\<rparr>) demo_sim = [demo_lot 32 4 2, demo_lot 31 5 3]"
    by (simp add: order_lots_def demo_sim_def demo_order_def demo_lot_def lot_of_def fifo_sort_def fifo_le_def)
  moreover have "\<not> isl (calculate_settlement_date demo_py (date_of 0) ''CRYPTO'' (pd_calendars demo_sim))"
    by code_simp
  ultimately show ?thesis
    by (simp add: fill_ready_def accounting_ready_def exact_fill_def exact_amount_def grid_def unused_key_def)
      (simp add: demo_sim_def demo_order_def demo_lot_def)
qed

theorem post_fill_chain_settles_witness:
  "\<exists>db' t. process_simulated_fill demo_py 7 (demo_order\<lparr>to_side := Sell\<rparr>) ''x'' 4 100 (2 / 5) 0 demo_sim =
       Inr (db', t, True) \<and> pd_trades db' = [t] \<and> trd_quantity t = 4 \<and> trd_gross_notional t = 400 \<and>
     trd_state t = PtSettled"
  using post_fill_chain_settles [OF demo_col demo_fill_ready, of 7]
  by (auto simp: settled_records_def demo_sim_def)

section \<open>First in, first out\<close>

text \<open>
  C35. Disposing of a sale against the lots of its tenant, account and instrument: with too little
  in the lots it raises and changes nothing; otherwise every lot keeps what the reference
  \<open>fifo_remaining\<close> leaves it, oldest first, the dispositions of the trade sum to its quantity, other
  lots are untouched, the quantity sold leaves the lots exactly, and a later lot is drawn on only
  when every earlier one is empty.
\<close>

theorem dispose_fifo_reference:
  assumes "column_rounding (en_col E)" "lots_ok t db" "fee_of (trd_id t) db = Inr fee"
    and "\<forall>e \<in> set (vd_realized db). rpl_disposal_trade e \<noteq> trd_id t"
    and "0 \<le> trd_quantity t" "exact_amount (trd_quantity t)"
  shows "if sum_list (map lot_remaining_quantity (key_lots t db)) < trd_quantity t
    then dispose_fifo E now t db = Inl (FValueError ''TAX_LOT_INSUFFICIENT_QUANTITY'')
    else (\<exists>db' e. dispose_fifo E now t db = Inr (db', e, True) \<and> vd_realized db' = vd_realized db @ [e] \<and>
           disposed t (key_lots t db) (trd_quantity t) db db') \<and>
         sorted_wrt fifo_le (key_lots t db) \<and>
         sum_list (fifo_remaining (trd_quantity t) (map lot_remaining_quantity (key_lots t db))) =
           sum_list (map lot_remaining_quantity (key_lots t db)) - trd_quantity t \<and>
         (\<forall>i j. i < j \<and> j < length (key_lots t db) \<and>
            fifo_remaining (trd_quantity t) (map lot_remaining_quantity (key_lots t db)) ! j \<noteq>
              lot_remaining_quantity (key_lots t db ! j) \<longrightarrow>
            fifo_remaining (trd_quantity t) (map lot_remaining_quantity (key_lots t db)) ! i = 0)"
proof (cases "sum_list (map lot_remaining_quantity (key_lots t db)) < trd_quantity t")
  case True
  moreover have "obj_first (\<lambda>e. rpl_disposal_trade e = trd_id t) (vd_realized db) = None"
    using assms(4) by (simp add: obj_first_None)
  ultimately show ?thesis
    using key_lots_sum [OF assms(2)] by (simp add: dispose_fifo_def Let_def flip: key_lots_def)
next
  case False
  have nonneg: "0 \<le> r" if "r \<in> set (map lot_remaining_quantity (key_lots t db))" for r
    using that key_lots_pos [of _ t db] by (auto intro: less_imp_le)
  from False dispose_fifo_result [OF assms, of now]
  have "\<exists>db' e. dispose_fifo E now t db = Inr (db', e, True) \<and> vd_realized db' = vd_realized db @ [e] \<and>
      disposed t (key_lots t db) (trd_quantity t) db db'" by fastforce
  moreover have "sum_list (fifo_remaining (trd_quantity t) (map lot_remaining_quantity (key_lots t db))) =
      sum_list (map lot_remaining_quantity (key_lots t db)) - trd_quantity t"
    using False assms(5) nonneg by (intro sum_fifo_remaining) auto
  moreover have "fifo_remaining (trd_quantity t) (map lot_remaining_quantity (key_lots t db)) ! i = 0"
    if "i < j \<and> j < length (key_lots t db) \<and>
      fifo_remaining (trd_quantity t) (map lot_remaining_quantity (key_lots t db)) ! j \<noteq>
        lot_remaining_quantity (key_lots t db ! j)" for i j
    using that assms(5) nonneg by (intro fifo_remaining_order [of i j]) auto
  moreover have "sorted_wrt fifo_le (key_lots t db)" by (simp add: key_lots_def sorted_fifo_sort)
  ultimately show ?thesis unfolding if_not_P [OF False] by blast
qed

definition demo_sale :: post_trade where
  "demo_sale = captured_trade demo_py 0 (demo_order\<lparr>to_side := Sell\<rparr>) ''x'' 4 100 0 0 1 77"

definition demo_sold :: sim_db where
  "demo_sold = demo_sim\<lparr>pd_fees := [\<lparr>fsn_trade = 77, fsn_commission = 1, fsn_total_fee = 1, fsn_currency = ''USD'',
     fsn_pricing_policy_version = ''''\<rparr>]\<rparr>"

lemma demo_sale_lots: "key_lots demo_sale demo_sold = [demo_lot 32 4 2, demo_lot 31 5 3]"
  "trd_id demo_sale = 77" "trd_quantity demo_sale = 4"
  by (simp_all add: key_lots_def demo_sold_def demo_sim_def demo_sale_def captured_trade_def demo_order_def demo_lot_def
      lot_of_def fifo_sort_def fifo_le_def demo_py_def)

theorem dispose_fifo_reference_witness:
  "\<exists>db' e. dispose_fifo demo_py 3 demo_sale demo_sold = Inr (db', e, True) \<and> length (vd_realized db') = 1 \<and>
     disposed demo_sale [demo_lot 32 4 2, demo_lot 31 5 3] 4 demo_sold db' \<and> fifo_remaining 4 [2, 3] = [0, 1]"
proof -
  have "lots_ok demo_sale demo_sold"
    by (simp add: lots_ok_def demo_sale_lots) (simp add: demo_sold_def demo_sim_def demo_lot_def grid_def)
  moreover have "fee_of (trd_id demo_sale) demo_sold = Inr 1" "vd_realized demo_sold = []"
    by (simp_all add: demo_sale_lots demo_sold_def demo_sim_def fee_of_def get_row_def obj_get_def)
  ultimately show ?thesis
    using dispose_fifo_reference [of demo_py demo_sale demo_sold 1 3]
    by (auto simp: demo_sale_lots exact_amount_def grid_def demo_lot_def min_def)
qed

section \<open>Settlement dates\<close>

definition business_days :: "py_env \<Rightarrow> string list \<Rightarrow> int \<Rightarrow> int \<Rightarrow> int set" where
  "business_days E holidays a b = {x \<in> {a<..b}. is_business_day E holidays x}"

lemma business_days_step:
  assumes "a < b"
  shows "card (business_days E h a b) =
    (if is_business_day E h (a + 1) then Suc (card (business_days E h (a + 1) b)) else card (business_days E h (a + 1) b))"
proof -
  have split: "{a<..b} = insert (a + 1) {a + 1<..b}" using assms by auto
  have fin: "finite (business_days E h (a + 1) b)"
    by (rule finite_subset [of _ "{a + 1<..b}"]) (auto simp: business_days_def)
  have "business_days E h a b =
      (if is_business_day E h (a + 1) then insert (a + 1) (business_days E h (a + 1) b) else business_days E h (a + 1) b)"
    unfolding business_days_def split by auto
  moreover have "a + 1 \<notin> business_days E h (a + 1) b" by (simp add: business_days_def)
  ultimately show ?thesis using fin by simp
qed

lemma business_days_empty: "b \<le> a \<Longrightarrow> card (business_days E h a b) = 0"
  by (simp add: business_days_def)

text \<open>
  C36. \<open>advance_date\<close> terminates, and its result is the day asked for: exactly \<open>n\<close> business days lie
  after the trade date up to it, and it is the trade date itself or a business day within the range
  of dates. It raises only when fewer than \<open>n\<close> business days are left before the last date.
\<close>

theorem advance_date_counts:
  "case advance_date E holidays n d of
     Inr d' \<Rightarrow> d \<le> d' \<and> card (business_days E holidays d d') = n \<and>
       (d' = d \<or> is_business_day E holidays d' \<and> d' \<le> max_date)
   | Inl e \<Rightarrow> e = FArithmeticError \<and> card (business_days E holidays d max_date) < n"
proof (induction E holidays n d rule: advance_date.induct)
  case (1 E h n d)
  let ?n = "if is_business_day E h (d + 1) then n - 1 else n"
  consider "n = 0" | "0 < n" "max_date \<le> d" | "0 < n" "d < max_date" by linarith
  then show ?case
  proof cases
    case 1
    then show ?thesis by (subst advance_date.simps) (simp add: business_days_empty)
  next
    case 2
    then show ?thesis by (subst advance_date.simps) (simp add: business_days_empty)
  next
    case 3
    then have step: "advance_date E h n d = advance_date E h ?n (d + 1)"
      by (subst advance_date.simps) simp
    show ?thesis
    proof (cases "advance_date E h ?n (d + 1)")
      case (Inl e)
      with 1 3 business_days_step [of d max_date E h] show ?thesis
        unfolding step by (auto split: if_splits)
    next
      case (Inr d')
      with 1 3 business_days_step [of d d' E h] business_days_empty [of d' "d + 1" E h] show ?thesis
        unfolding step by (auto split: if_splits)
    qed
  qed
qed

section \<open>The life of an order\<close>

text \<open>
  C37. Over any sequence of provider executions, processed orders and cancellations, successful or
  replayed: every order keeps its identity, terms and limits and moves only along the transition
  table, an order in a terminal state never changes again, the filled quantity stays between zero and
  the ordered quantity and equals it once FILLED, trades are only appended, an execution is recorded
  at most once, and every trade belongs to an order.
\<close>

theorem order_lifecycle:
  assumes "(sim_step E S)\<^sup>*\<^sup>* s s'" "column_rounding (en_col E)" "orders_wf (snd s)"
  shows "list_all2 (\<lambda>o1 o2. order_terms o2 = order_terms o1 \<and> order_path (to_state o1) (to_state o2) \<and>
           (to_state o1 \<in> order_terminal_states \<longrightarrow> o2 = o1)) (sd_orders (snd s)) (sd_orders (snd s')) \<and>
    (\<forall>ord \<in> set (sd_orders (snd s')). 0 \<le> to_filled_quantity ord \<and> to_filled_quantity ord \<le> to_quantity ord \<and>
       (to_state ord = OrdFilled \<longrightarrow> to_filled_quantity ord = to_quantity ord)) \<and>
    prefix (sd_trades (snd s)) (sd_trades (snd s')) \<and> distinct (map st_execution_id (sd_trades (snd s'))) \<and>
    (\<forall>t \<in> set (sd_trades (snd s')). st_order t \<in> to_id ` set (sd_orders (snd s')))"
proof -
  have "orders_wf (snd s')" "orders_advance (snd s) (snd s')"
    using sim_steps_lifecycle [OF assms(1,2)] assms(3) by (simp_all add: lifecycle_def)
  then show ?thesis
    by (auto simp: orders_wf_def orders_advance_def order_advances_def order_ok_def list_all_iff fun_eq_iff
        elim!: list_all2_mono)
qed

lemma core_emit_sel: "sd_orders (emit now a b c d e f db) = sd_orders db"
  "sd_reservations (emit now a b c d e f db) = sd_reservations db"
  by (simp_all add: emit_def)

lemma demo_cancelled:
  "case process_created_order demo_py demo_sim_settings 1 11 '''' ([], demo_sim) of
     Inl e \<Rightarrow> False
   | Inr (s1, _) \<Rightarrow>
       (case cancel_order demo_py demo_sim_settings 2 ''default'' ''u'' 11 ''v'' (Some 9) (snd s1) of
          Inl e \<Rightarrow> False
        | Inr (db2, _) \<Rightarrow> map to_state (sd_orders db2) = [OrdCancelled] \<and>
            map rsv_remaining_amount (sd_reservations db2) = [0])"
  by (simp add: process_created_order_def get_sim_order_def get_row_def obj_get_def demo_sim_def demo_order_def
      order_correlation_def demo_py_def fresh_def demo_sim_settings_def accept_order_def transition_order_def Let_def
      submit_order_def scenarios_def simulated_price_def open_after_executions_def save_order_def
      cancel_order_def release_order_funds_def release_reservation_def save_reservation_def core_emit_sel
      upd_where_def)

theorem order_lifecycle_witness:
  "\<exists>s'. (sim_step demo_py demo_sim_settings)\<^sup>*\<^sup>* ([], demo_sim) s' \<and> map to_state (sd_orders (snd s')) = [OrdCancelled] \<and>
     distinct (map st_execution_id (sd_trades (snd s')))"
proof -
  from demo_cancelled obtain s1 o1 db2 r where
    p: "process_created_order demo_py demo_sim_settings 1 11 '''' ([], demo_sim) = Inr (s1, o1)"
    and c: "cancel_order demo_py demo_sim_settings 2 ''default'' ''u'' 11 ''v'' (Some 9) (snd s1) = Inr (db2, r)"
    and st: "map to_state (sd_orders db2) = [OrdCancelled]"
    by (auto split: sum.splits prod.splits)
  from sim_step.Cancel [OF c, of "fst s1"] have "sim_step demo_py demo_sim_settings s1 (fst s1, db2)" by simp
  with sim_step.Process [OF p] have run: "(sim_step demo_py demo_sim_settings)\<^sup>*\<^sup>* ([], demo_sim) (fst s1, db2)"
    by (meson r_into_rtranclp rtranclp.rtrancl_into_rtrancl)
  have "orders_wf demo_sim"
    by (simp add: orders_wf_def demo_sim_def demo_order_def order_ok_def exact_amount_def grid_def)
  with order_lifecycle [OF run demo_col] run st show ?thesis by (intro exI [of _ "(fst s1, db2)"]) simp
qed

section \<open>Simulated money\<close>

text \<open>
  C38. Whatever sequence of reservations, releases and exact settlements runs: of every account the
  active reservations in its quote currency never exceed the balance that is not pending, so the
  available balance the code computes is exact and never negative, no reservation and no position
  goes below zero, and a reservation that is no longer active holds nothing.
\<close>

theorem simulated_cash_safe:
  assumes "(cash_step E)\<^sup>*\<^sup>* db db'" "cash_ok db" "column_rounding (en_col E)" "\<And>x. grid (en_col E x)"
  shows "(\<forall>a \<in> set (sd_accounts db').
      0 \<le> reserved_sum (sa_id a) (sa_quote_currency a) (sd_reservations db') \<and>
      available_quote a (sd_reservations db') =
        sa_total_balance a - sa_pending_balance a - reserved_sum (sa_id a) (sa_quote_currency a) (sd_reservations db') \<and>
      0 \<le> available_quote a (sd_reservations db')) \<and>
    (\<forall>r \<in> set (sd_reservations db'). 0 \<le> rsv_remaining_amount r \<and>
      (rsv_state r \<noteq> ResActive \<longrightarrow> rsv_remaining_amount r = 0)) \<and>
    (\<forall>p \<in> set (sd_positions db'). 0 \<le> sp_quantity p)"
proof -
  have ok: "cash_ok db'" by (rule cash_steps_ok [OF assms])
  then have rs: "reservation_ok r" if "r \<in> set (sd_reservations db')" for r using that by (simp add: cash_ok_def)
  have "0 \<le> reserved_sum i c (sd_reservations db')" for i c by (rule reserved_sum_nonneg [OF rs])
  moreover have "sim_balance_ok (sd_reservations db') a" if "a \<in> set (sd_accounts db')" for a
    using ok that by (simp add: cash_ok_def)
  ultimately show ?thesis
    using ok available_quote_exact [OF _ rs] unfolding cash_ok_def reservation_ok_def by blast
qed

definition grid_py :: py_env where
  "grid_py = demo_py\<lparr>en_col := (\<lambda>x. of_int \<lfloor>x * 10 ^ 18\<rfloor> / 10 ^ 18)\<rparr>"

lemma grid_py_col: "column_rounding (en_col grid_py)" "grid (en_col grid_py x)"
proof -
  have "of_int \<lfloor>x * 10 ^ 18\<rfloor> / 10 ^ 18 = x" if "grid x" for x :: rat
    using that by (auto simp: grid_def elim!: Ints_cases)
  then show "column_rounding (en_col grid_py)"
    by (auto simp: column_rounding_def grid_py_def intro!: divide_right_mono floor_mono)
  show "grid (en_col grid_py x)" by (simp add: grid_py_def grid_def)
qed

definition cash_demo :: sim_db where
  "cash_demo = demo_sim\<lparr>sd_reservations := []\<rparr>"

lemma cash_demo_run:
  "case reserve_funds grid_py 1 11 ''BTC-USD'' Buy 2 100 cash_demo of
     Inl e \<Rightarrow> False
   | Inr (db1, r) \<Rightarrow>
       rsv_id r = 100 \<and> sd_accounts db1 = sd_accounts cash_demo \<and>
       sd_reservations db1 = [r] \<and> rsv_account r = 1 \<and> rsv_asset r = ''USD'' \<and>
       (case settle_trade grid_py 100 Buy ''BTC-USD'' 2 100 (1 / 5) db1 of
          Inl e \<Rightarrow> False
        | Inr (db2, _) \<Rightarrow> map sa_total_balance (sd_accounts db2) = [3999 / 5] \<and>
            map sp_quantity (sd_positions db2) = [2])"
  by code_simp

theorem simulated_cash_safe_witness:
  "\<exists>db'. (cash_step grid_py)\<^sup>*\<^sup>* cash_demo db' \<and> map sa_total_balance (sd_accounts db') = [3999 / 5] \<and>
     map sp_quantity (sd_positions db') = [2] \<and>
     list_all (\<lambda>a. 0 \<le> available_quote a (sd_reservations db')) (sd_accounts db')"
proof -
  from cash_demo_run obtain db1 r db2 a p r2 where
    res: "reserve_funds grid_py 1 11 ''BTC-USD'' Buy 2 100 cash_demo = Inr (db1, r)"
    and r: "rsv_id r = 100" "sd_accounts db1 = sd_accounts cash_demo" "sd_reservations db1 = [r]"
      "rsv_account r = 1" "rsv_asset r = ''USD''"
    and st: "settle_trade grid_py 100 Buy ''BTC-USD'' 2 100 (1 / 5) db1 = Inr (db2, a, p, r2)"
    and fin: "map sa_total_balance (sd_accounts db2) = [3999 / 5]" "map sp_quantity (sd_positions db2) = [2]"
    by (auto split: sum.splits prod.splits)
  have "reserve_guard grid_py 1 ''BTC-USD'' Buy 2 100 cash_demo"
    by (simp add: reserve_guard_def cash_demo_def)
  moreover have "settle_guard 100 Buy 2 100 (1 / 5) db1"
    by (simp add: settle_guard_def r exact_amount_def grid_def) (simp add: cash_demo_def demo_sim_def)
  ultimately have run: "(cash_step grid_py)\<^sup>*\<^sup>* cash_demo db2"
    using cash_step.Reserve [OF res] cash_step.Settle [OF st] by (meson r_into_rtranclp rtranclp.rtrancl_into_rtrancl)
  have "cash_ok cash_demo"
    by (simp add: cash_ok_def cash_demo_def demo_sim_def sim_balance_ok_def reserved_sum_def exact_amount_def grid_def)
  note safe = simulated_cash_safe [OF run this grid_py_col]
  have "list_all (\<lambda>a. 0 \<le> available_quote a (sd_reservations db2)) (sd_accounts db2)"
    unfolding list_all_iff by (rule ballI) (drule bspec [OF conjunct1 [OF safe]], elim conjE)
  with fin run show ?thesis by (intro exI [of _ db2] conjI)
qed

end
