(* ===== verification/Treasury_Models.thy ===== *)
theory Treasury_Models
  imports Post_Trade
begin

text \<open>
  The rows of \<open>treasury/models.py\<close>, the state of the treasury tables and the audit and event
  helpers of \<open>treasury/services.py\<close>. Decimal columns have ten places; rounding to them is the
  parameter \<open>tn_col\<close>.
\<close>

section \<open>Rows\<close>

record treasury_account =
  tra_id :: uuid
  tra_tenant :: uuid
  tra_institution_id :: "uuid option"
  tra_subaccount_id :: "uuid option"
  tra_account_type :: string
  tra_currency :: string
  tra_asset :: string
  tra_environment :: string
  tra_status :: string
  tra_segregation_class :: string
  tra_effective_from :: timestamp
  tra_effective_to :: "timestamp option"

record treasury_cash_position =
  tcp_id :: uuid
  tcp_account :: uuid
  tcp_currency :: string
  tcp_gross_amount :: rat
  tcp_reserved_amount :: rat
  tcp_available_amount :: rat
  tcp_encumbered_amount :: rat
  tcp_unencumbered_amount :: rat
  tcp_source :: string
  tcp_as_of :: timestamp

record liquidity_snapshot =
  lqs_id :: uuid
  lqs_tenant :: uuid
  lqs_institution_id :: uuid
  lqs_currency :: string
  lqs_gross_cash :: rat
  lqs_available_cash :: rat
  lqs_encumbered_cash :: rat
  lqs_settlement_due :: rat
  lqs_margin_due :: rat
  lqs_expected_inflows :: rat
  lqs_expected_outflows :: rat
  lqs_net_available_liquidity :: rat
  lqs_liquidity_buffer :: rat
  lqs_surplus_deficit :: rat
  lqs_as_of :: timestamp
  lqs_policy_version :: string

record liquidity_buffer_policy =
  lbp_tenant :: uuid
  lbp_currency :: string
  lbp_buffer_type :: string
  lbp_buffer_value :: rat
  lbp_status :: string
  lbp_effective_from :: timestamp

record funding_requirement =
  frq_id :: uuid
  frq_tenant :: uuid
  frq_institution_id :: uuid
  frq_requirement_type :: string
  frq_currency_or_asset :: string
  frq_amount_or_quantity :: rat
  frq_due_at :: timestamp
  frq_priority :: string
  frq_source_ref :: string
  frq_state :: string
  frq_policy_version :: string

record intraday_funding_window =
  ifw_id :: uuid
  ifw_tenant :: uuid
  ifw_institution_id :: uuid
  ifw_currency :: string
  ifw_window_start :: timestamp
  ifw_window_end :: timestamp
  ifw_opening_liquidity :: rat
  ifw_expected_inflows :: rat
  ifw_expected_outflows :: rat
  ifw_peak_funding_need :: rat
  ifw_minimum_liquidity :: rat
  ifw_closing_liquidity :: rat

record treasury_collateral_position =
  tcl_id :: uuid
  tcl_account :: uuid
  tcl_asset :: string
  tcl_quantity :: rat
  tcl_eligible_value :: rat
  tcl_encumbered_quantity :: rat
  tcl_free_quantity :: rat
  tcl_quality_state :: string

record collateral_mobility_policy =
  cmp_tenant :: uuid
  cmp_from_account_type :: string
  cmp_to_account_type :: string
  cmp_allowed :: bool
  cmp_settlement_delay :: int
  cmp_effective_from :: timestamp

record asset_encumbrance =
  enc_account :: uuid
  enc_asset :: string
  enc_quantity_or_amount :: rat
  enc_effective_from :: timestamp
  enc_effective_to :: "timestamp option"
  enc_state :: string

record treasury_transfer_plan =
  ttp_id :: uuid
  ttp_tenant :: uuid
  ttp_institution_id :: uuid
  ttp_plan_type :: string
  ttp_state :: string
  ttp_currency_or_asset :: string
  ttp_required :: rat
  ttp_policy_version :: string
  ttp_idempotency_key :: string
  ttp_simulation :: bool
  ttp_created_at :: timestamp

record treasury_transfer_plan_item =
  tpi_id :: uuid
  tpi_plan :: uuid
  tpi_source_account :: uuid
  tpi_destination_account :: uuid
  tpi_currency_or_asset :: string
  tpi_amount_or_quantity :: rat
  tpi_reason :: string
  tpi_estimated_available_at :: timestamp

record liquidity_forecast =
  lqf_id :: uuid
  lqf_tenant :: uuid
  lqf_institution_id :: uuid
  lqf_currency :: string
  lqf_forecast_time :: timestamp
  lqf_horizon :: string
  lqf_opening_liquidity :: rat
  lqf_expected_inflows :: rat
  lqf_expected_outflows :: rat
  lqf_expected_buffer :: rat
  lqf_projected_surplus_deficit :: rat
  lqf_confidence_state :: string
  lqf_policy_version :: string

text \<open>The two parameters of a scenario the services read, parsed from its JSON, \<open>1\<close> by default.\<close>

record liquidity_stress_scenario =
  lss_id :: uuid
  lss_code :: string
  lss_status :: string
  lss_cash_factor :: rat
  lss_outflow_factor :: rat

record liquidity_stress_result =
  lsr_id :: uuid
  lsr_scenario :: uuid
  lsr_tenant :: uuid
  lsr_institution_id :: uuid
  lsr_currency :: string
  lsr_starting_liquidity :: rat
  lsr_peak_shortfall :: rat
  lsr_minimum_liquidity :: rat
  lsr_buffer_breach :: bool
  lsr_required_funding :: rat

record treasury_reconciliation_run =
  trr_id :: uuid
  trr_tenant :: uuid
  trr_status :: string
  trr_checks :: "string list"
  trr_violations :: "(string \<times> string) list"
  trr_started_at :: timestamp
  trr_completed_at :: timestamp
  trr_candidate_sha :: string
  trr_policy_version :: string

section \<open>State\<close>

record treasury_env = py_env +
  tn_col :: "rat \<Rightarrow> rat"

record treasury_db = event_db +
  td_accounts :: "treasury_account list"
  td_cash :: "treasury_cash_position list"
  td_snapshots :: "liquidity_snapshot list"
  td_buffers :: "liquidity_buffer_policy list"
  td_requirements :: "funding_requirement list"
  td_windows :: "intraday_funding_window list"
  td_collateral :: "treasury_collateral_position list"
  td_mobility :: "collateral_mobility_policy list"
  td_encumbrances :: "asset_encumbrance list"
  td_plans :: "treasury_transfer_plan list"
  td_items :: "treasury_transfer_plan_item list"
  td_forecasts :: "liquidity_forecast list"
  td_stress :: "liquidity_stress_result list"
  td_runs :: "treasury_reconciliation_run list"
  td_audits :: "application_audit_event list"

definition fresh_id :: "treasury_env \<Rightarrow> 'a event_db_scheme \<Rightarrow> uuid" where
  "fresh_id E db = en_uuid4 E (ev_next db)"

text \<open>The checks of the tables: \<open>clean\<close>, dates, non-negative cash, positive requirements, two accounts.\<close>

definition clean_simulation :: "bool \<Rightarrow> (foundation_error, unit) res" where
  "clean_simulation simulation =
     (if \<not> simulation then Inl (FPyError ''TREASURY_SIMULATION_REQUIRED'') else Inr ())"

definition account_dates_valid :: "treasury_account \<Rightarrow> bool" where
  "account_dates_valid a \<longleftrightarrow>
     (case tra_effective_to a of None \<Rightarrow> True | Some e \<Rightarrow> tra_effective_from a < e)"

definition cash_nonnegative :: "treasury_cash_position \<Rightarrow> bool" where
  "cash_nonnegative p \<longleftrightarrow>
     0 \<le> tcp_gross_amount p \<and> 0 \<le> tcp_reserved_amount p \<and> 0 \<le> tcp_available_amount p \<and>
     0 \<le> tcp_encumbered_amount p \<and> 0 \<le> tcp_unencumbered_amount p"

definition requirement_positive :: "funding_requirement \<Rightarrow> bool" where
  "requirement_positive r \<longleftrightarrow> 0 < frq_amount_or_quantity r"

definition collateral_nonnegative :: "treasury_collateral_position \<Rightarrow> bool" where
  "collateral_nonnegative c \<longleftrightarrow>
     0 \<le> tcl_quantity c \<and> 0 \<le> tcl_encumbered_quantity c \<and> 0 \<le> tcl_free_quantity c"

definition distinct_accounts :: "treasury_transfer_plan_item \<Rightarrow> bool" where
  "distinct_accounts i \<longleftrightarrow> tpi_source_account i \<noteq> tpi_destination_account i"

section \<open>Audit and events\<close>

text \<open>
  The audit row draws three fresh identifiers: the request id, the correlation id, and the key of
  the row. \<open>context\<close> holds the tenant and the simulation flag before the entries passed in.
\<close>

definition treasury_audit ::
  "treasury_env \<Rightarrow> timestamp \<Rightarrow> string \<Rightarrow> string \<Rightarrow> string \<Rightarrow> string \<Rightarrow> uuid \<Rightarrow> (string \<times> json) list \<Rightarrow>
   'a treasury_db_scheme \<Rightarrow> 'a treasury_db_scheme" where
  "treasury_audit E now actor_ref action resource_type resource_id tenant context db =
     db\<lparr>td_audits := td_audits db @
          [\<lparr>aa_event_id = en_uuid4 E (ev_next db + 2), aa_actor_ref = actor_ref, aa_action = action,
            aa_resource_type = resource_type, aa_resource_id = resource_id, aa_before_hash = '''',
            aa_after_hash = '''', aa_request_id = str_uuid (en_uuid4 E (ev_next db)),
            aa_correlation_id = en_uuid4 E (ev_next db + 1),
            aa_context = JObj ([(''tenant_ref'', JStr (str_uuid tenant)), (''simulation'', JBool True)] @ context),
            aa_reason = ''TREASURY_SIMULATION'', aa_occurred_at = now\<rparr>],
        ev_next := ev_next db + 3\<rparr>"

definition treasury_event ::
  "timestamp \<Rightarrow> string \<Rightarrow> uuid \<Rightarrow> string \<Rightarrow> (string \<times> json) list \<Rightarrow> uuid \<Rightarrow> 'a event_db_scheme \<Rightarrow> 'a event_db_scheme" where
  "treasury_event now aggregate_type aggregate_id event_type payload tenant db =
     db\<lparr>ev_outbox := fst (enqueue_event now aggregate_type (str_uuid aggregate_id) event_type (JObj payload)
                            (str_uuid tenant) None None None (ev_outbox db))\<rparr>"

end
