(* ===== verification/Treasury_Services.thy ===== *)
theory Treasury_Services
  imports Treasury_Models
begin

text \<open>
  \<open>treasury/services.py\<close>: accounts, cash, liquidity, funding, collateral, transfer plans, forecasts,
  stress and reconciliation. Sums taken by the database are exact; arithmetic in Python rounds to
  the decimal context.
\<close>

section \<open>Accounts and cash\<close>

definition account_get ::
  "uuid \<Rightarrow> uuid \<Rightarrow> 'a treasury_db_scheme \<Rightarrow> (foundation_error, treasury_account) res" where
  "account_get tenant account_id db =
     get_row (\<lambda>a. tra_tenant a = tenant \<and> tra_id a = account_id) (td_accounts db)"

text \<open>\<open>order_by("account_type", "id")\<close>; \<open>le\<close> is the order of the database on texts.\<close>

definition account_le :: "(string \<Rightarrow> string \<Rightarrow> bool) \<Rightarrow> treasury_account \<Rightarrow> treasury_account \<Rightarrow> bool" where
  "account_le le a b \<longleftrightarrow>
     (if tra_account_type a = tra_account_type b then tra_id a \<le> tra_id b
      else le (tra_account_type a) (tra_account_type b))"

fun insert_account ::
  "(string \<Rightarrow> string \<Rightarrow> bool) \<Rightarrow> treasury_account \<Rightarrow> treasury_account list \<Rightarrow> treasury_account list" where
  "insert_account le a [] = [a]"
| "insert_account le a (b # bs) = (if account_le le a b then a # b # bs else b # insert_account le a bs)"

definition account_list ::
  "(string \<Rightarrow> string \<Rightarrow> bool) \<Rightarrow> uuid \<Rightarrow> 'a treasury_db_scheme \<Rightarrow> treasury_account list" where
  "account_list le tenant db =
     foldr (insert_account le) (filter (\<lambda>a. tra_tenant a = tenant) (td_accounts db)) []"

definition accounts_for_institution where
  "accounts_for_institution le tenant institution_id db =
     filter (\<lambda>a. tra_institution_id a = Some institution_id) (account_list le tenant db)"

definition accounts_for_subaccount where
  "accounts_for_subaccount le tenant subaccount_id db =
     filter (\<lambda>a. tra_subaccount_id a = Some subaccount_id) (account_list le tenant db)"

text \<open>\<open>treasury_account__tenant=tenant\<close>.\<close>

definition account_row :: "uuid \<Rightarrow> 'a treasury_db_scheme \<Rightarrow> treasury_account option" where
  "account_row i db = obj_first (\<lambda>a. tra_id a = i) (td_accounts db)"

definition account_of_tenant :: "uuid \<Rightarrow> 'a treasury_db_scheme \<Rightarrow> uuid \<Rightarrow> bool" where
  "account_of_tenant tenant db i \<longleftrightarrow>
     (case account_row i db of None \<Rightarrow> False | Some a \<Rightarrow> tra_tenant a = tenant)"

definition get_positions ::
  "uuid \<Rightarrow> string option \<Rightarrow> 'a treasury_db_scheme \<Rightarrow> treasury_cash_position list" where
  "get_positions tenant currency db =
     filter (\<lambda>p. account_of_tenant tenant db (tcp_account p) \<and>
               (case currency of None \<Rightarrow> True | Some c \<Rightarrow> c = '''' \<or> tcp_currency p = upper c)) (td_cash db)"

record cash_totals =
  ct_gross :: rat
  ct_reserved :: rat
  ct_available :: rat
  ct_encumbered :: rat
  ct_unencumbered :: rat

definition cash_aggregate :: "uuid \<Rightarrow> string \<Rightarrow> 'a treasury_db_scheme \<Rightarrow> cash_totals" where
  "cash_aggregate tenant currency db =
     (let ps = get_positions tenant (Some currency) db;
          total = (\<lambda>f. sum_list (map f ps))
      in \<lparr>ct_gross = total tcp_gross_amount, ct_reserved = total tcp_reserved_amount,
          ct_available = total tcp_available_amount, ct_encumbered = total tcp_encumbered_amount,
          ct_unencumbered = total tcp_unencumbered_amount\<rparr>)"

definition cash_available :: "uuid \<Rightarrow> string \<Rightarrow> 'a treasury_db_scheme \<Rightarrow> rat" where
  "cash_available tenant currency db = ct_available (cash_aggregate tenant currency db)"

definition validate_cash :: "treasury_cash_position \<Rightarrow> bool" where
  "validate_cash p \<longleftrightarrow>
     dadd (tcp_available_amount p) (tcp_reserved_amount p) \<le> tcp_gross_amount p \<and>
     tcp_unencumbered_amount p \<le> tcp_gross_amount p"

section \<open>Liquidity\<close>

definition required_buffer ::
  "uuid \<Rightarrow> string \<Rightarrow> rat \<Rightarrow> rat \<Rightarrow> rat \<Rightarrow> 'a treasury_db_scheme \<Rightarrow> rat" where
  "required_buffer tenant currency outflows settlement_due gross_exposure db =
     (case obj_last_by lbp_effective_from
             (filter (\<lambda>p. lbp_tenant p = tenant \<and> lbp_currency p = currency \<and> lbp_status p = ''SIMULATION'')
               (td_buffers db)) of
        None \<Rightarrow> 0
      | Some p \<Rightarrow>
          if lbp_buffer_type p = ''FIXED_AMOUNT'' then lbp_buffer_value p
          else if lbp_buffer_type p = ''PERCENT_OF_OUTFLOWS'' then dmul outflows (lbp_buffer_value p)
          else if lbp_buffer_type p = ''PERCENT_OF_SETTLEMENT_DUE'' then dmul settlement_due (lbp_buffer_value p)
          else if lbp_buffer_type p = ''PERCENT_OF_GROSS_EXPOSURE'' then dmul gross_exposure (lbp_buffer_value p)
          else lbp_buffer_value p)"

definition surplus_deficit :: "rat \<Rightarrow> rat \<Rightarrow> rat" where
  "surplus_deficit available required = dsub available required"

definition due :: "uuid \<Rightarrow> uuid \<Rightarrow> string \<Rightarrow> string \<Rightarrow> 'a treasury_db_scheme \<Rightarrow> rat" where
  "due tenant institution_id currency kind db =
     sum_where (\<lambda>r. frq_tenant r = tenant \<and> frq_institution_id r = institution_id \<and>
                  frq_currency_or_asset r = currency \<and>
                  frq_state r \<in> {''FORECAST'', ''CONFIRMED_SIMULATION'', ''SHORTFALL''} \<and>
                  frq_requirement_type r = kind)
       frq_amount_or_quantity (td_requirements db)"

definition liquidity_calculate ::
  "treasury_env \<Rightarrow> timestamp \<Rightarrow> uuid \<Rightarrow> uuid \<Rightarrow> string \<Rightarrow> rat \<Rightarrow> rat \<Rightarrow> string \<Rightarrow>
   'a treasury_db_scheme \<Rightarrow> 'a treasury_db_scheme \<times> liquidity_snapshot" where
  "liquidity_calculate E now tenant institution_id currency inflows outflows policy_version db =
     (let cash = cash_aggregate tenant currency db;
          settlement = due tenant institution_id currency ''SETTLEMENT'' db;
          margin = due tenant institution_id currency ''MARGIN'' db;
          net = dsub (dsub (dsub (dadd (ct_available cash) inflows) outflows) settlement) margin;
          buffer = required_buffer tenant currency outflows settlement (ct_gross cash) db;
          s = \<lparr>lqs_id = fresh_id E db, lqs_tenant = tenant, lqs_institution_id = institution_id,
               lqs_currency = currency, lqs_gross_cash = ct_gross cash, lqs_available_cash = ct_available cash,
               lqs_encumbered_cash = ct_encumbered cash, lqs_settlement_due = settlement, lqs_margin_due = margin,
               lqs_expected_inflows = inflows, lqs_expected_outflows = outflows,
               lqs_net_available_liquidity = net, lqs_liquidity_buffer = buffer,
               lqs_surplus_deficit = dsub net buffer, lqs_as_of = now, lqs_policy_version = policy_version\<rparr>;
          row = s\<lparr>lqs_expected_inflows := tn_col E inflows, lqs_expected_outflows := tn_col E outflows,
                  lqs_net_available_liquidity := tn_col E net, lqs_liquidity_buffer := tn_col E buffer,
                  lqs_surplus_deficit := tn_col E (dsub net buffer)\<rparr>;
          db1 = db\<lparr>td_snapshots := td_snapshots db @ [row], ev_next := Suc (ev_next db)\<rparr>;
          db2 = treasury_audit E now ''system'' ''treasury.liquidity.calculated'' ''LiquiditySnapshot''
                  (str_uuid (lqs_id s)) tenant [] db1
      in (treasury_event now ''treasury_liquidity'' (lqs_id s) ''treasury.liquidity.updated.v1''
            [(''snapshot_id'', JStr (str_uuid (lqs_id s))), (''currency'', JStr currency),
             (''simulation'', JBool True)] tenant db2, s))"

section \<open>Funding requirements\<close>

definition requirement_key :: "uuid \<Rightarrow> string \<Rightarrow> string \<Rightarrow> funding_requirement \<Rightarrow> bool" where
  "requirement_key tenant source_ref kind r \<longleftrightarrow>
     frq_tenant r = tenant \<and> frq_source_ref r = source_ref \<and> frq_requirement_type r = kind"

text \<open>\<open>create_from_settlement\<close> and \<open>create_from_margin\<close>: \<open>r\<close> holds the arguments of the caller.\<close>

definition create_requirement ::
  "treasury_env \<Rightarrow> string \<Rightarrow> funding_requirement \<Rightarrow> 'a treasury_db_scheme \<Rightarrow>
   (foundation_error, 'a treasury_db_scheme \<times> funding_requirement) res" where
  "create_requirement E kind r db =
     (case obj_first (requirement_key (frq_tenant r) (frq_source_ref r) kind) (td_requirements db) of
        Some r0 \<Rightarrow> Inr (db, r0)
      | None \<Rightarrow>
          let r1 = r\<lparr>frq_id := fresh_id E db, frq_requirement_type := kind\<rparr>;
              row = r1\<lparr>frq_amount_or_quantity := tn_col E (frq_amount_or_quantity r1)\<rparr>
          in if \<not> requirement_positive row then Inl (FDbError (IntegrityError ''funding_requirement_positive''))
             else Inr (db\<lparr>td_requirements := td_requirements db @ [row], ev_next := Suc (ev_next db)\<rparr>, r1))"

definition requirement_aggregate :: "uuid \<Rightarrow> string \<Rightarrow> 'a treasury_db_scheme \<Rightarrow> rat" where
  "requirement_aggregate tenant currency db =
     sum_where (\<lambda>r. frq_tenant r = tenant \<and> frq_currency_or_asset r = currency) frq_amount_or_quantity
       (td_requirements db)"

definition find_shortfalls :: "uuid \<Rightarrow> 'a treasury_db_scheme \<Rightarrow> funding_requirement list" where
  "find_shortfalls tenant db =
     filter (\<lambda>r. frq_tenant r = tenant \<and> frq_state r = ''SHORTFALL'') (td_requirements db)"

section \<open>Intraday funding\<close>

record funding_event =
  fe_at :: timestamp
  fe_direction :: string
  fe_amount :: rat

record intraday_totals =
  it_balance :: rat
  it_minimum :: rat
  it_inflows :: rat
  it_outflows :: rat

definition intraday_step :: "intraday_totals \<Rightarrow> funding_event \<Rightarrow> intraday_totals" where
  "intraday_step s e =
     (let amount = fe_amount e;
          s1 = (if fe_direction e = ''INFLOW''
                then s\<lparr>it_balance := dadd (it_balance s) amount, it_inflows := dadd (it_inflows s) amount\<rparr>
                else s\<lparr>it_balance := dsub (it_balance s) amount, it_outflows := dadd (it_outflows s) amount\<rparr>)
      in s1\<lparr>it_minimum := min (it_minimum s1) (it_balance s1)\<rparr>)"

definition intraday_run :: "rat \<Rightarrow> funding_event list \<Rightarrow> intraday_totals" where
  "intraday_run opening events =
     foldl intraday_step \<lparr>it_balance = opening, it_minimum = opening, it_inflows = 0, it_outflows = 0\<rparr>
       (sort_key fe_at events)"

definition intraday_calculate ::
  "treasury_env \<Rightarrow> uuid \<Rightarrow> uuid \<Rightarrow> string \<Rightarrow> timestamp \<Rightarrow> timestamp \<Rightarrow> rat \<Rightarrow> funding_event list \<Rightarrow>
   'a treasury_db_scheme \<Rightarrow> 'a treasury_db_scheme \<times> intraday_funding_window" where
  "intraday_calculate E tenant institution_id currency window_start window_end opening_liquidity events db =
     (let s = intraday_run opening_liquidity events;
          w = \<lparr>ifw_id = fresh_id E db, ifw_tenant = tenant, ifw_institution_id = institution_id,
               ifw_currency = currency, ifw_window_start = window_start, ifw_window_end = window_end,
               ifw_opening_liquidity = opening_liquidity, ifw_expected_inflows = it_inflows s,
               ifw_expected_outflows = it_outflows s,
               ifw_peak_funding_need = max 0 (rnd (- it_minimum s)),
               ifw_minimum_liquidity = it_minimum s, ifw_closing_liquidity = it_balance s\<rparr>;
          row = w\<lparr>ifw_opening_liquidity := tn_col E (ifw_opening_liquidity w),
                  ifw_expected_inflows := tn_col E (ifw_expected_inflows w),
                  ifw_expected_outflows := tn_col E (ifw_expected_outflows w),
                  ifw_peak_funding_need := tn_col E (ifw_peak_funding_need w),
                  ifw_minimum_liquidity := tn_col E (ifw_minimum_liquidity w),
                  ifw_closing_liquidity := tn_col E (ifw_closing_liquidity w)\<rparr>
      in (db\<lparr>td_windows := td_windows db @ [row], ev_next := Suc (ev_next db)\<rparr>, w))"

section \<open>Collateral\<close>

definition inventory ::
  "uuid \<Rightarrow> string \<Rightarrow> 'a treasury_db_scheme \<Rightarrow> treasury_collateral_position list" where
  "inventory tenant asset db =
     filter (\<lambda>c. account_of_tenant tenant db (tcl_account c) \<and> (asset = '''' \<or> tcl_asset c = asset))
       (td_collateral db)"

definition free_collateral ::
  "uuid \<Rightarrow> string \<Rightarrow> 'a treasury_db_scheme \<Rightarrow> treasury_collateral_position list" where
  "free_collateral tenant asset db =
     filter (\<lambda>c. tcl_quality_state c = ''ELIGIBLE'' \<and> 0 < tcl_free_quantity c) (inventory tenant asset db)"

definition eligible_value :: "uuid \<Rightarrow> 'a treasury_db_scheme \<Rightarrow> rat" where
  "eligible_value tenant db = sum_list (map tcl_eligible_value (free_collateral tenant '''' db))"

definition encumbered :: "timestamp \<Rightarrow> treasury_collateral_position \<Rightarrow> 'a treasury_db_scheme \<Rightarrow> rat" where
  "encumbered now c db =
     sum_where (\<lambda>e. enc_account e = tcl_account c \<and> enc_asset e = tcl_asset c \<and> enc_state e = ''ACTIVE'' \<and>
                  enc_effective_from e \<le> now \<and>
                  (case enc_effective_to e of None \<Rightarrow> True | Some t \<Rightarrow> now < t))
       enc_quantity_or_amount (td_encumbrances db)"

definition movable_quantity :: "timestamp \<Rightarrow> treasury_collateral_position \<Rightarrow> 'a treasury_db_scheme \<Rightarrow> rat" where
  "movable_quantity now c db =
     max 0 (min (tcl_free_quantity c) (dsub (tcl_quantity c) (encumbered now c db)))"

record mobility_preview =
  mp_allowed :: bool
  mp_available_quantity :: rat
  mp_encumbered_quantity :: rat
  mp_post_move_buffer :: rat
  mp_settlement_delay_seconds :: int
  mp_reason_codes :: "string list"

definition mobility_codes :: "string list" where
  "mobility_codes = [''COLLATERAL_RESTRICTED'', ''COLLATERAL_UNAVAILABLE'', ''SEGREGATION_CONFLICT'',
     ''STALE_COLLATERAL'', ''TRANSFER_NOT_ALLOWED'']"

definition position_reason :: "treasury_collateral_position option \<Rightarrow> rat \<Rightarrow> string list" where
  "position_reason position quantity =
     (case position of
        None \<Rightarrow> [''COLLATERAL_UNAVAILABLE'']
      | Some p \<Rightarrow>
          if tcl_quality_state p = ''STALE'' then [''STALE_COLLATERAL'']
          else if tcl_quality_state p \<noteq> ''ELIGIBLE'' then [''COLLATERAL_RESTRICTED'']
          else if tcl_free_quantity p < quantity then [''COLLATERAL_UNAVAILABLE''] else [])"

definition truncated_seconds :: "int \<Rightarrow> int" where
  "truncated_seconds d = (if d < 0 then - ((- d) div 1000000) else d div 1000000)"

text \<open>
  \<open>.first()\<close> on the unordered collateral takes the least key. \<open>sorted(set(reasons))\<close> lists the
  codes that occur in their order.
\<close>

definition mobility_preview_of ::
  "uuid \<Rightarrow> uuid \<Rightarrow> uuid \<Rightarrow> string \<Rightarrow> rat \<Rightarrow> 'a treasury_db_scheme \<Rightarrow> (foundation_error, mobility_preview) res" where
  "mobility_preview_of tenant source_id destination_id asset quantity db =
     rbind (account_get tenant source_id db) (\<lambda>src.
     rbind (account_get tenant destination_id db) (\<lambda>dst.
       let position = obj_last_by (\<lambda>c. - int (tcl_id c))
                        (filter (\<lambda>c. tcl_account c = tra_id src) (inventory tenant asset db));
           policy = obj_last_by cmp_effective_from
                      (filter (\<lambda>p. cmp_tenant p = tenant \<and> cmp_from_account_type p = tra_account_type src \<and>
                                 cmp_to_account_type p = tra_account_type dst \<and> cmp_allowed p) (td_mobility db));
           reasons = position_reason position quantity @
             (if tra_segregation_class src = ''CLIENT_SEGREGATED'' \<and> tra_segregation_class dst = ''HOUSE''
              then [''SEGREGATION_CONFLICT''] else []) @
             (if policy = None then [''TRANSFER_NOT_ALLOWED''] else []);
           available = (case position of None \<Rightarrow> 0 | Some p \<Rightarrow> tcl_free_quantity p)
       in Inr \<lparr>mp_allowed = (reasons = []), mp_available_quantity = available,
               mp_encumbered_quantity = (case position of None \<Rightarrow> 0 | Some p \<Rightarrow> tcl_encumbered_quantity p),
               mp_post_move_buffer = max 0 (dsub available quantity),
               mp_settlement_delay_seconds =
                 (case policy of None \<Rightarrow> 0 | Some p \<Rightarrow> truncated_seconds (cmp_settlement_delay p)),
               mp_reason_codes = filter (\<lambda>c. c \<in> set reasons) mobility_codes\<rparr>))"

section \<open>Transfer plans\<close>

definition plan_source :: "'a treasury_db_scheme \<Rightarrow> treasury_cash_position \<Rightarrow> bool" where
  "plan_source db p \<longleftrightarrow>
     0 < tcp_available_amount p \<and>
     (case account_row (tcp_account p) db of
        None \<Rightarrow> False
      | Some a \<Rightarrow> tra_status a = ''ACTIVE'' \<and> tra_segregation_class a \<noteq> ''CLIENT_SEGREGATED'')"

definition plan_sources :: "uuid \<Rightarrow> string \<Rightarrow> 'a treasury_db_scheme \<Rightarrow> treasury_cash_position list" where
  "plan_sources tenant currency db =
     sort_key (\<lambda>p. - tcp_available_amount p)
       (sort_key tcp_account (filter (plan_source db) (get_positions tenant (Some currency) db)))"

definition plan_item ::
  "treasury_env \<Rightarrow> timestamp \<Rightarrow> uuid \<Rightarrow> uuid \<Rightarrow> uuid \<Rightarrow> string \<Rightarrow> treasury_cash_position \<Rightarrow> rat \<Rightarrow>
   treasury_transfer_plan_item" where
  "plan_item E now i plan destination currency p amount =
     \<lparr>tpi_id = i, tpi_plan = plan, tpi_source_account = tcp_account p, tpi_destination_account = destination,
      tpi_currency_or_asset = currency, tpi_amount_or_quantity = tn_col E amount,
      tpi_reason = ''SIMULATED_FUNDING_GAP'', tpi_estimated_available_at = now\<rparr>"

fun plan_items ::
  "treasury_env \<Rightarrow> timestamp \<Rightarrow> uuid \<Rightarrow> uuid \<Rightarrow> string \<Rightarrow> treasury_cash_position list \<Rightarrow> rat \<Rightarrow>
   'a treasury_db_scheme \<Rightarrow> 'a treasury_db_scheme \<times> rat" where
  "plan_items E now plan destination currency [] remaining db = (db, remaining)"
| "plan_items E now plan destination currency (p # ps) remaining db =
     (if remaining \<le> 0 then (db, remaining)
      else
        let amount = min (tcp_available_amount p) remaining
        in if tcp_account p = destination then plan_items E now plan destination currency ps remaining db
           else plan_items E now plan destination currency ps (dsub remaining amount)
                  (db\<lparr>td_items := td_items db @
                         [plan_item E now (fresh_id E db) plan destination currency p amount],
                      ev_next := Suc (ev_next db)\<rparr>))"

definition plan_key :: "uuid \<Rightarrow> string \<Rightarrow> treasury_transfer_plan \<Rightarrow> bool" where
  "plan_key tenant idempotency_key p \<longleftrightarrow> ttp_tenant p = tenant \<and> ttp_idempotency_key p = idempotency_key"

definition new_plan ::
  "timestamp \<Rightarrow> uuid \<Rightarrow> uuid \<Rightarrow> uuid \<Rightarrow> string \<Rightarrow> rat \<Rightarrow> string \<Rightarrow> treasury_transfer_plan" where
  "new_plan now i tenant institution_id currency required idempotency_key =
     \<lparr>ttp_id = i, ttp_tenant = tenant, ttp_institution_id = institution_id, ttp_plan_type = ''CASH'',
      ttp_state = ''PROPOSED'', ttp_currency_or_asset = currency, ttp_required = required,
      ttp_policy_version = ''simulation-v1'', ttp_idempotency_key = idempotency_key, ttp_simulation = True,
      ttp_created_at = now\<rparr>"

definition set_plan_state :: "uuid \<Rightarrow> string \<Rightarrow> 'a treasury_db_scheme \<Rightarrow> 'a treasury_db_scheme" where
  "set_plan_state i s db =
     db\<lparr>td_plans := upd_where (\<lambda>p. ttp_id p = i) (\<lambda>p. p\<lparr>ttp_state := s\<rparr>) (td_plans db)\<rparr>"

definition generate_cash_plan ::
  "treasury_env \<Rightarrow> timestamp \<Rightarrow> uuid \<Rightarrow> uuid \<Rightarrow> string \<Rightarrow> rat \<Rightarrow> uuid \<Rightarrow> string \<Rightarrow> 'a treasury_db_scheme \<Rightarrow>
   (foundation_error, 'a treasury_db_scheme \<times> treasury_transfer_plan) res" where
  "generate_cash_plan E now tenant institution_id currency required destination idempotency_key db =
     (case obj_first (plan_key tenant idempotency_key) (td_plans db) of
        Some p \<Rightarrow>
          if ttp_currency_or_asset p \<noteq> currency \<or> ttp_required p \<noteq> required \<or> ttp_institution_id p \<noteq> institution_id
          then Inl (FValueError ''IDEMPOTENCY_CONFLICT'') else Inr (db, p)
      | None \<Rightarrow>
          let p = new_plan now (fresh_id E db) tenant institution_id currency required idempotency_key;
              db1 = db\<lparr>td_plans := td_plans db @ [p\<lparr>ttp_required := tn_col E required\<rparr>],
                      ev_next := Suc (ev_next db)\<rparr>;
              (db2, remaining) = plan_items E now (ttp_id p) destination currency
                                   (plan_sources tenant currency db1) required db1;
              s = (if remaining \<le> 0 then ''VALIDATED'' else ''REJECTED'');
              db3 = set_plan_state (ttp_id p) s db2;
              db4 = treasury_audit E now ''system'' ''treasury.transfer_plan.generated'' ''TreasuryTransferPlan''
                      (str_uuid (ttp_id p)) tenant [] db3
          in Inr (treasury_event now ''treasury_transfer_plan'' (ttp_id p) ''treasury.transfer_plan.created.v1''
                    [(''plan_id'', JStr (str_uuid (ttp_id p))), (''state'', JStr s), (''simulation'', JBool True)]
                    tenant db4, p\<lparr>ttp_state := s\<rparr>))"

definition items_of :: "uuid \<Rightarrow> 'a treasury_db_scheme \<Rightarrow> treasury_transfer_plan_item list" where
  "items_of plan db = filter (\<lambda>i. tpi_plan i = plan) (td_items db)"

definition tenant_safe :: "treasury_transfer_plan \<Rightarrow> 'a treasury_db_scheme \<Rightarrow> bool" where
  "tenant_safe p db \<longleftrightarrow>
     list_all (\<lambda>i. account_of_tenant (ttp_tenant p) db (tpi_source_account i) \<and>
                 account_of_tenant (ttp_tenant p) db (tpi_destination_account i)) (items_of (ttp_id p) db)"

definition validate_plan :: "treasury_transfer_plan \<Rightarrow> 'a treasury_db_scheme \<Rightarrow> bool" where
  "validate_plan p db \<longleftrightarrow>
     ttp_simulation p \<and> ttp_state p \<in> {''VALIDATED'', ''APPROVED_SIMULATION'', ''SIMULATED''} \<and> tenant_safe p db"

section \<open>Forecast, stress, settlement funding\<close>

definition forecast_calculate ::
  "treasury_env \<Rightarrow> timestamp \<Rightarrow> uuid \<Rightarrow> uuid \<Rightarrow> string \<Rightarrow> string \<Rightarrow> 'a treasury_db_scheme \<Rightarrow>
   'a treasury_db_scheme \<times> liquidity_forecast" where
  "forecast_calculate E now tenant institution_id currency horizon db =
     (let opening = cash_available tenant currency db;
          outflows = requirement_aggregate tenant currency db;
          buffer = required_buffer tenant currency outflows 0 0 db;
          f = \<lparr>lqf_id = fresh_id E db, lqf_tenant = tenant, lqf_institution_id = institution_id,
               lqf_currency = currency, lqf_forecast_time = now, lqf_horizon = horizon,
               lqf_opening_liquidity = opening, lqf_expected_inflows = 0, lqf_expected_outflows = outflows,
               lqf_expected_buffer = buffer, lqf_projected_surplus_deficit = dsub (dsub opening outflows) buffer,
               lqf_confidence_state = ''DETERMINISTIC_SIMULATION'', lqf_policy_version = ''simulation-v1''\<rparr>;
          row = f\<lparr>lqf_expected_buffer := tn_col E buffer,
                  lqf_projected_surplus_deficit := tn_col E (lqf_projected_surplus_deficit f)\<rparr>
      in (db\<lparr>td_forecasts := td_forecasts db @ [row], ev_next := Suc (ev_next db)\<rparr>, f))"

definition stress_run ::
  "treasury_env \<Rightarrow> uuid \<Rightarrow> uuid \<Rightarrow> string \<Rightarrow> liquidity_stress_scenario \<Rightarrow> 'a treasury_db_scheme \<Rightarrow>
   'a treasury_db_scheme \<times> liquidity_stress_result" where
  "stress_run E tenant institution_id currency scenario db =
     (let available = cash_available tenant currency db;
          obligations = dmul (requirement_aggregate tenant currency db) (lss_outflow_factor scenario);
          stressed = dsub (dmul available (lss_cash_factor scenario)) obligations;
          shortfall = max 0 (rnd (- stressed));
          r = \<lparr>lsr_id = fresh_id E db, lsr_scenario = lss_id scenario, lsr_tenant = tenant,
               lsr_institution_id = institution_id, lsr_currency = currency, lsr_starting_liquidity = available,
               lsr_peak_shortfall = shortfall, lsr_minimum_liquidity = stressed, lsr_buffer_breach = (stressed < 0),
               lsr_required_funding = shortfall\<rparr>;
          row = r\<lparr>lsr_peak_shortfall := tn_col E shortfall, lsr_minimum_liquidity := tn_col E stressed,
                  lsr_required_funding := tn_col E shortfall\<rparr>
      in (db\<lparr>td_stress := td_stress db @ [row], ev_next := Suc (ev_next db)\<rparr>, r))"

definition settlement_funding :: "funding_requirement \<Rightarrow> 'a treasury_db_scheme \<Rightarrow> json \<times> rat \<times> rat \<times> string" where
  "settlement_funding r db =
     (let available = cash_available (frq_tenant r) (frq_currency_or_asset r) db
      in (JStr (frq_source_ref r), frq_amount_or_quantity r, available,
          if frq_amount_or_quantity r \<le> available then ''FUNDED_SIMULATION'' else ''FUNDING_SHORTFALL''))"

definition settlement_plan ::
  "treasury_env \<Rightarrow> timestamp \<Rightarrow> funding_requirement \<Rightarrow> uuid \<Rightarrow> string \<Rightarrow> 'a treasury_db_scheme \<Rightarrow>
   (foundation_error, 'a treasury_db_scheme \<times> treasury_transfer_plan) res" where
  "settlement_plan E now r destination idempotency_key db =
     generate_cash_plan E now (frq_tenant r) (frq_institution_id r) (frq_currency_or_asset r)
       (frq_amount_or_quantity r) destination idempotency_key db"

section \<open>Reconciliation\<close>

definition treasury_checks :: "string list" where
  "treasury_checks = [''CASH_POSITION_MISMATCH'', ''AVAILABLE_CASH_MISMATCH'', ''ENCUMBRANCE_MISMATCH'',
     ''COLLATERAL_VALUE_MISMATCH'', ''FREE_COLLATERAL_MISMATCH'', ''FUNDING_REQUIREMENT_MISSING'',
     ''SETTLEMENT_FUNDING_MISSING'', ''TRANSFER_PLAN_INVALID'', ''SEGREGATED_ASSET_USAGE'',
     ''OMNIBUS_ATTRIBUTION_MISMATCH'', ''DUPLICATE_TRANSFER_PLAN_EFFECT'', ''LIQUIDITY_BUFFER_BREACH_UNACCOUNTED'',
     ''FORECAST_VS_REALIZED_SIMULATION_MISMATCH'', ''AUDIT_GAP'']"

definition treasury_violations :: "uuid \<Rightarrow> 'a treasury_db_scheme \<Rightarrow> (string \<times> string) list" where
  "treasury_violations tenant db =
     map (\<lambda>p. (''CASH_POSITION_MISMATCH'', str_uuid (tcp_id p)))
       (filter (\<lambda>p. \<not> validate_cash p) (get_positions tenant None db)) @
     map (\<lambda>c. (''FREE_COLLATERAL_MISMATCH'', str_uuid (tcl_id c)))
       (filter (\<lambda>c. tcl_quantity c < dadd (tcl_free_quantity c) (tcl_encumbered_quantity c)) (inventory tenant '''' db)) @
     map (\<lambda>p. (''TRANSFER_PLAN_INVALID'', str_uuid (ttp_id p)))
       (filter (\<lambda>p. ttp_tenant p = tenant \<and> ttp_state p \<noteq> ''REJECTED'' \<and> \<not> tenant_safe p db) (td_plans db))"

definition treasury_reconcile ::
  "treasury_env \<Rightarrow> timestamp \<Rightarrow> uuid \<Rightarrow> string \<Rightarrow> 'a treasury_db_scheme \<Rightarrow>
   'a treasury_db_scheme \<times> treasury_reconciliation_run" where
  "treasury_reconcile E now tenant candidate_sha db =
     (let violations = treasury_violations tenant db;
          r = \<lparr>trr_id = fresh_id E db, trr_tenant = tenant,
               trr_status = (if violations = [] then ''PASS'' else ''FAIL''), trr_checks = treasury_checks,
               trr_violations = violations, trr_started_at = now, trr_completed_at = now,
               trr_candidate_sha = take 40 candidate_sha, trr_policy_version = ''simulation-v1''\<rparr>;
          db1 = db\<lparr>td_runs := td_runs db @ [r], ev_next := Suc (ev_next db)\<rparr>;
          db2 = treasury_audit E now ''system'' ''treasury.reconciliation.run'' ''TreasuryReconciliationRun''
                  (str_uuid (trr_id r)) tenant [(''violations'', JInt (int (length violations)))] db1
      in (treasury_event now ''treasury_reconciliation'' (trr_id r) ''treasury.reconciliation.completed.v1''
            [(''run_id'', JStr (str_uuid (trr_id r))), (''status'', JStr (trr_status r)),
             (''violation_count'', JInt (int (length violations))), (''simulation'', JBool True)] tenant db2, r))"

end
