(* ===== verification/Treasury_Properties.thy ===== *)
theory Treasury_Properties
  imports Treasury_Services "HOL-Library.Sublist" "HOL-Library.Multiset"
begin

text \<open>
  What a transfer plan covers and where its items come from, the intraday minimum against a
  reference over all prefixes, and the currency case of the liquidity calculation.
\<close>

section \<open>Exact ten-place amounts\<close>

definition exact10 :: "rat \<Rightarrow> bool" where
  "exact10 x \<longleftrightarrow> x * 10 ^ 10 \<in> \<int> \<and> \<bar>x\<bar> < 10 ^ 18"


lemma exact10_rnd [simp]: "exact10 x \<Longrightarrow> rnd x = x"
proof (rule rnd_exact)
  assume x: "exact10 x"
  then obtain m where m: "x * 10 ^ 10 = of_int m" by (auto simp: exact10_def elim: Ints_cases)
  from x have "\<bar>x\<bar> < 10 ^ 18" by (simp add: exact10_def)
  then have "\<bar>x\<bar> * 10 ^ 10 < 10 ^ 28" by simp
  then have "\<bar>x * 10 ^ 10\<bar> < 10 ^ 28" by (simp add: abs_mult)
  with m have "\<bar>m\<bar> < 10 ^ 28" by (simp flip: of_int_abs)
  with m show "representable x" unfolding representable_def
    by (intro exI [of _ m] exI [of _ 10]) simp
qed



section \<open>Transfer plans\<close>








lemma audit_event_frame [simp]:
  "td_items (set_plan_state i st db) = td_items db"
  "td_items (treasury_audit E now a b c d t x db) = td_items db"
  "td_plans (treasury_audit E now a b c d t x db) = td_plans db"
  "td_items (treasury_event now a i b x t (db :: 'a treasury_db_scheme)) = td_items db"
  "td_plans (treasury_event now a i b x t (db :: 'a treasury_db_scheme)) = td_plans db"
  by (simp_all add: treasury_audit_def treasury_event_def set_plan_state_def)









section \<open>Intraday minimum\<close>

definition signed_amount :: "funding_event \<Rightarrow> rat" where
  "signed_amount e = (if fe_direction e = ''INFLOW'' then fe_amount e else - fe_amount e)"

text \<open>The balances after each prefix of the events, the opening balance first.\<close>

fun balances :: "rat \<Rightarrow> funding_event list \<Rightarrow> rat list" where
  "balances b [] = [b]"
| "balances b (e # es) = b # balances (b + signed_amount e) es"

lemma balances_ne [simp]: "balances b es \<noteq> []"
  by (cases es) simp_all

lemma balances_start: "b \<in> set (balances b es)"
  by (cases es) simp_all

lemma intraday_fold:
  assumes "\<forall>x \<in> set (balances (it_balance s) es). rnd x = x" "it_minimum s \<le> it_balance s"
  shows "it_balance (foldl intraday_step s es) = last (balances (it_balance s) es) \<and>
    it_minimum (foldl intraday_step s es) = min (it_minimum s) (Min (set (balances (it_balance s) es)))"
  using assms
proof (induction es arbitrary: s)
  case (Cons e es)
  let ?s = "intraday_step s e" and ?b = "it_balance s + signed_amount e"
  let ?X = "set (balances ?b es)"
  have "rnd ?b = ?b" using Cons.prems(1) balances_start [of ?b es] by simp
  then have b: "it_balance ?s = ?b" and m: "it_minimum ?s = min (it_minimum s) ?b"
    by (auto simp: intraday_step_def Let_def signed_amount_def dec_ops)
  define M where "M = Min ?X"
  have "M \<le> ?b" by (simp add: M_def balances_start)
  have fold: "it_balance (foldl intraday_step ?s es) = last (balances ?b es)"
    "it_minimum (foldl intraday_step ?s es) = min (min (it_minimum s) ?b) M"
    using Cons.IH [of ?s] Cons.prems(1) unfolding b m M_def by simp_all
  have "Min (set (balances (it_balance s) (e # es))) = min (it_balance s) M"
    unfolding M_def by (simp add: Min_insert)
  with fold \<open>M \<le> ?b\<close> Cons.prems(2) show ?case
    by (simp add: min_def)
qed simp

text \<open>The window reports the lowest balance over all prefixes of the sorted events.\<close>

lemma intraday_minimum:
  assumes "\<forall>x \<in> set (balances opening (sort_key fe_at events)). rnd x = x"
    and "intraday_calculate E tenant inst cur ws we opening events db = (db', w)"
  shows "ifw_minimum_liquidity w = Min (set (balances opening (sort_key fe_at events))) \<and>
    ifw_closing_liquidity w = last (balances opening (sort_key fe_at events)) \<and>
    ifw_peak_funding_need w = max 0 (rnd (- Min (set (balances opening (sort_key fe_at events)))))"
proof -
  let ?es = "sort_key fe_at events"
  let ?M = "Min (set (balances opening ?es))"
  have le: "?M \<le> opening" by (simp add: balances_start)
  have run: "it_balance (intraday_run opening events) = last (balances opening ?es)"
    "it_minimum (intraday_run opening events) = min opening ?M"
    unfolding intraday_run_def
    using intraday_fold [of "\<lparr>it_balance = opening, it_minimum = opening, it_inflows = 0, it_outflows = 0\<rparr>" ?es] assms(1)
    by simp_all
  from le have "min opening ?M = ?M" by (rule min_absorb2)
  with run assms(2) show ?thesis by (auto simp: intraday_calculate_def Let_def)
qed

section \<open>The currency of a liquidity calculation\<close>

text \<open>
  Cash is looked up under the upper-case currency, requirements under the currency as given: a
  lower-case currency counts the cash and none of what is due.
\<close>

lemma due_ignores_case:
  assumes "\<And>r. r \<in> set (td_requirements db) \<Longrightarrow> frq_currency_or_asset r = upper (frq_currency_or_asset r)"
    and "upper cur \<noteq> cur"
  shows "due tenant inst cur kind db = 0"
  unfolding due_def
proof (rule sum_where_zero)
  fix r assume "r \<in> set (td_requirements db)"
  with assms show "\<not> (frq_tenant r = tenant \<and> frq_institution_id r = inst \<and> frq_currency_or_asset r = cur \<and>
      frq_state r \<in> {''FORECAST'', ''CONFIRMED_SIMULATION'', ''SHORTFALL''} \<and> frq_requirement_type r = kind)"
    by metis
qed

end
