(* ===== verification/Execution_Router.thy ===== *)
theory Execution_Router
  imports Post_Trade Decimal_Text
begin

text \<open>
  The execution control plane, \<open>apps/trading/execution_control\<close>: provider and venue capabilities,
  governance, health, the best-execution policy and the smart order router, with the records of
  \<open>apps/trading/models.py\<close> they read and write, and \<open>preview_route\<close> of \<open>execution_authority.py\<close>.
\<close>

section \<open>Records\<close>

record execution_provider =
  xp_provider_id :: string
  xp_environment :: string
  xp_priority :: nat
  xp_governance_state :: string
  xp_live_supported :: bool
  xp_mode :: string
  xp_enabled :: bool
  xp_health :: string
  xp_circuit_open_until :: "timestamp option"
  xp_consecutive_failures :: nat
  xp_updated_at :: timestamp

record execution_venue =
  xv_venue_id :: string
  xv_venue_type :: string
  xv_status :: string
  xv_routing_enabled :: bool

record provider_capability =
  pc_id :: uuid
  pc_provider :: string
  pc_asset_class :: string
  pc_venue :: "string option"
  pc_capability_type :: string
  pc_enabled :: bool
  pc_source_version :: string
  pc_effective_from :: timestamp
  pc_effective_to :: "timestamp option"
  pc_verified_at :: timestamp

record venue_capability =
  vc_id :: uuid
  vc_venue :: string
  vc_asset_class :: string
  vc_order_type :: string
  vc_time_in_force :: string
  vc_minimum_quantity :: rat
  vc_quantity_increment :: rat
  vc_price_increment :: rat
  vc_effective_from :: timestamp
  vc_effective_to :: "timestamp option"
  vc_source_version :: string

record best_execution_policy =
  bp_id :: uuid
  bp_code :: string
  bp_asset_class :: string
  bp_mode :: string
  bp_price_weight :: rat
  bp_fee_weight :: rat
  bp_latency_weight :: rat
  bp_fill_weight :: rat
  bp_liquidity_weight :: rat
  bp_reliability_weight :: rat
  bp_impact_weight :: rat
  bp_status :: string
  bp_policy_version :: string
  bp_effective_from :: timestamp
  bp_effective_to :: "timestamp option"

record provider_health =
  ph_provider :: string
  ph_state :: string
  ph_circuit_state :: string
  ph_last_success_at :: "timestamp option"
  ph_last_failure_at :: "timestamp option"
  ph_error_rate :: rat
  ph_reject_rate :: rat

record economics =
  ec_expected_price :: rat
  ec_expected_fee :: rat
  ec_expected_slippage :: rat
  ec_available_quantity :: rat
  ec_fill_probability :: rat
  ec_latency_ms :: int
  ec_price_score :: rat
  ec_fee_score :: rat
  ec_latency_score :: rat
  ec_fill_score :: rat
  ec_liquidity_score :: rat
  ec_reliability_score :: rat
  ec_impact_score :: rat

record route_request =
  rq_instrument_id :: string
  rq_side :: string
  rq_order_type :: string
  rq_quantity :: rat
  rq_reference_price :: rat
  rq_mode :: string
  rq_asset_class :: string
  rq_time_in_force :: string
  rq_limit_price :: "string option"
  rq_market_snapshot_hash :: string
  rq_pricing_snapshot_hash :: string
  rq_risk_snapshot_hash :: string
  rq_correlation_id :: "uuid option"

record route_candidate =
  rc_provider :: execution_provider
  rc_venue :: execution_venue
  rc_economics :: economics
  rc_reasons :: "string list"
  rc_score :: rat

record routing_decision =
  rt_decision_id :: uuid
  rt_order :: "uuid option"
  rt_tenant_ref :: string
  rt_subject_ref :: string
  rt_mode :: string
  rt_status :: string
  rt_selected_provider_id :: string
  rt_selected_venue_id :: string
  rt_policy_version :: string
  rt_candidate_evidence :: json
  rt_exclusion_reasons :: json
  rt_market_snapshot_hash :: string
  rt_request_hash :: string
  rt_evidence_hash :: string
  rt_pricing_snapshot_hash :: string
  rt_risk_snapshot_hash :: string
  rt_selected_score :: "rat option"
  rt_reference_price :: rat
  rt_revision :: nat
  rt_supersedes :: "uuid option"
  rt_created_at :: timestamp

record candidate_row =
  cr_id :: uuid
  cr_decision :: uuid
  cr_provider :: string
  cr_venue :: string
  cr_mode :: string
  cr_expected_price :: rat
  cr_expected_fee :: rat
  cr_expected_slippage :: rat
  cr_available_quantity :: rat
  cr_fill_probability :: rat
  cr_latency_ms :: int
  cr_provider_health :: string
  cr_score :: rat
  cr_eligible :: bool
  cr_rejection_reasons :: "string list"
  cr_created_at :: timestamp

record canonical_execution =
  cx_id :: uuid
  cx_order :: uuid
  cx_provider :: string
  cx_venue :: string
  cx_provider_order_ref_hash :: string
  cx_provider_execution_ref_hash :: string
  cx_state :: string
  cx_quantity :: rat
  cx_filled_quantity :: rat
  cx_remaining_quantity :: rat
  cx_average_price :: "rat option"
  cx_completed_at :: "timestamp option"
  cx_mode :: string
  cx_version :: nat

record unknown_outcome =
  uo_id :: uuid
  uo_execution :: uuid
  uo_classification :: string
  uo_state :: string
  uo_lookup_attempts :: nat
  uo_last_lookup_at :: "timestamp option"
  uo_resolution_evidence_hash :: string
  uo_resolved_at :: "timestamp option"

record execution_settings =
  xs_all_execution_halted :: bool
  xs_real_trading_enabled :: bool
  xs_external_execution_enabled :: bool
  xs_live_broker_routing_enabled :: bool
  xs_fix_live_session_enabled :: bool
  xs_paper_trading_allowed :: bool
  xs_simulation_allowed :: bool

record route_db = event_db +
  rd_providers :: "execution_provider list"
  rd_venues :: "execution_venue list"
  rd_capabilities :: "provider_capability list"
  rd_venue_capabilities :: "venue_capability list"
  rd_policies :: "best_execution_policy list"
  rd_health :: "provider_health list"
  rd_decisions :: "routing_decision list"
  rd_candidates :: "candidate_row list"
  rd_executions :: "canonical_execution list"
  rd_outcomes :: "unknown_outcome list"
  rd_orders :: "trading_order list"
  rd_audits :: "application_audit_event list"

section \<open>Capabilities and governance\<close>

text \<open>
  \<open>filter(venue=venue if venue else None)\<close>: the router always passes a venue; without one Django
  turns the lookup into \<open>IS NULL\<close>.
\<close>

definition broker_supports ::
  "timestamp \<Rightarrow> string \<Rightarrow> string \<Rightarrow> string \<Rightarrow> string option \<Rightarrow> 'a route_db_scheme \<Rightarrow> bool" where
  "broker_supports now provider asset_class capability venue db =
     obj_exists (\<lambda>c. pc_provider c = provider \<and> pc_asset_class c = asset_class \<and>
                   pc_capability_type c = capability \<and> pc_enabled c \<and> pc_verified_at c \<le> now \<and>
                   pc_effective_from c \<le> now \<and> pc_effective_to c = None \<and> pc_venue c = venue) (rd_capabilities db)"

text \<open>\<open>Decimal % Decimal\<close>: the remainder has the sign of the dividend; a zero divisor raises.\<close>

definition dec_truncate :: "rat \<Rightarrow> int" where
  "dec_truncate x = (if x < 0 then - \<lfloor>- x\<rfloor> else \<lfloor>x\<rfloor>)"

definition dmod :: "rat \<Rightarrow> rat \<Rightarrow> (foundation_error, rat) res" where
  "dmod x y =
     (if y = 0 then Inl FArithmeticError
      else if 10 ^ prec \<le> \<bar>dec_truncate (x / y)\<bar> then Inl FArithmeticError
      else Inr (rnd (x - y * of_int (dec_truncate (x / y)))))"

definition quantity_reasons :: "venue_capability \<Rightarrow> rat \<Rightarrow> (foundation_error, string list) res" where
  "quantity_reasons cap quantity =
     (if quantity < vc_minimum_quantity cap then Inr [''INVALID_QUANTITY_INCREMENT'']
      else rbind (dmod quantity (vc_quantity_increment cap)) (\<lambda>m.
             Inr (if m \<noteq> 0 then [''INVALID_QUANTITY_INCREMENT''] else [])))"

text \<open>
  \<open>Decimal(str(price))\<close> raises on malformed text, and an infinite dividend raises in the remainder;
  a NaN has a NaN remainder, which is true.
\<close>

definition price_reasons :: "venue_capability \<Rightarrow> string option \<Rightarrow> (foundation_error, string list) res" where
  "price_reasons cap price =
     (case price of
        None \<Rightarrow> Inr []
      | Some text \<Rightarrow>
          (case parse_decimal text of
             None \<Rightarrow> Inl FArithmeticError
           | Some NaN \<Rightarrow> Inr [''INVALID_PRICE_INCREMENT'']
           | Some (Inf neg) \<Rightarrow> Inl FArithmeticError
           | Some d \<Rightarrow> rbind (dmod (dec_value d) (vc_price_increment cap)) (\<lambda>m.
                         Inr (if m \<noteq> 0 then [''INVALID_PRICE_INCREMENT''] else []))))"

text \<open>\<open>.first()\<close> on an unordered queryset takes the row with the least key.\<close>

definition venue_validate ::
  "timestamp \<Rightarrow> execution_venue \<Rightarrow> route_request \<Rightarrow> 'a route_db_scheme \<Rightarrow> (foundation_error, string list) res" where
  "venue_validate now venue r db =
     (if \<not> xv_routing_enabled venue \<or> xv_status venue \<noteq> ''ACTIVE'' then Inr [''VENUE_NOT_ROUTABLE'']
      else
        (case obj_last_by (\<lambda>c. - int (vc_id c))
                (filter (\<lambda>c. vc_venue c = xv_venue_id venue \<and> vc_asset_class c = rq_asset_class r \<and>
                           vc_order_type c = rq_order_type r \<and> vc_time_in_force c = rq_time_in_force r \<and>
                           vc_effective_from c \<le> now \<and> vc_effective_to c = None) (rd_venue_capabilities db)) of
           None \<Rightarrow> Inr [''VENUE_CAPABILITY_UNSUPPORTED'']
         | Some cap \<Rightarrow>
             rbind (quantity_reasons cap (rq_quantity r)) (\<lambda>a.
             rbind (price_reasons cap (rq_limit_price r)) (\<lambda>b. Inr (a @ b)))))"

definition governance_code :: "bool \<Rightarrow> string \<Rightarrow> string list" where
  "governance_code b c = (if b then [c] else [])"

definition governance_reasons :: "execution_settings \<Rightarrow> execution_provider \<Rightarrow> string \<Rightarrow> string list" where
  "governance_reasons S p mode =
     governance_code (xs_all_execution_halted S) ''ALL_EXECUTION_HALTED'' @
     governance_code (xs_real_trading_enabled S \<or> xs_external_execution_enabled S \<or> xs_live_broker_routing_enabled S)
       ''LIVE_EXECUTION_DISABLED'' @
     governance_code (mode = ''LIVE'') ''LIVE_MODE_PROHIBITED'' @
     governance_code (\<not> xp_enabled p) ''PROVIDER_DISABLED'' @
     governance_code (xp_health p \<noteq> ''HEALTHY'') ''PROVIDER_UNHEALTHY'' @
     governance_code (xp_environment p \<noteq> mode) ''ENVIRONMENT_MISMATCH'' @
     governance_code (mode = ''PAPER'' \<and> xp_governance_state p \<notin> {''PAPER_APPROVED'', ''PAPER_TECHNICALLY_CERTIFIED''})
       ''PAPER_NOT_APPROVED'' @
     governance_code (xp_live_supported p \<or> xp_governance_state p = ''LIVE_APPROVED'') ''LIVE_CAPABILITY_PROHIBITED''"

definition provider_eligible :: "execution_settings \<Rightarrow> execution_provider \<Rightarrow> string \<Rightarrow> bool" where
  "provider_eligible S p mode \<longleftrightarrow> governance_reasons S p mode = []"

section \<open>Health\<close>

definition health_row :: "execution_provider \<Rightarrow> string \<Rightarrow> provider_health" where
  "health_row p st = \<lparr>ph_provider = xp_provider_id p, ph_state = st, ph_circuit_state = ''CLOSED'',
     ph_last_success_at = None, ph_last_failure_at = None, ph_error_rate = 0, ph_reject_rate = 0\<rparr>"

definition get_or_create_health ::
  "execution_provider \<Rightarrow> string \<Rightarrow> 'a route_db_scheme \<Rightarrow> 'a route_db_scheme \<times> provider_health" where
  "get_or_create_health p st db =
     (case obj_first (\<lambda>h. ph_provider h = xp_provider_id p) (rd_health db) of
        Some h \<Rightarrow> (db, h)
      | None \<Rightarrow> (db\<lparr>rd_health := rd_health db @ [health_row p st]\<rparr>, health_row p st))"

definition health_state :: "timestamp \<Rightarrow> execution_provider \<Rightarrow> provider_health \<Rightarrow> string" where
  "health_state now p h =
     (if \<not> xp_enabled p then ''DISABLED''
      else if xp_health p = ''HALTED'' then ''HALTED''
      else if ph_circuit_state h = ''OPEN'' \<or>
              (case xp_circuit_open_until p of None \<Rightarrow> False | Some t \<Rightarrow> now < t) then ''UNAVAILABLE''
      else if 1 / 4 \<le> ph_error_rate h \<or> 7 / 20 \<le> ph_reject_rate h then ''DEGRADED''
      else if ph_state h \<in> {''HEALTHY'', ''DEGRADED'', ''UNAVAILABLE'', ''HALTED''} then ph_state h
      else ''UNKNOWN'')"

definition is_routable :: "timestamp \<Rightarrow> execution_provider \<Rightarrow> 'a route_db_scheme \<Rightarrow> 'a route_db_scheme \<times> bool" where
  "is_routable now p db =
     (let (db1, h) = get_or_create_health p (xp_health p) db in (db1, health_state now p h = ''HEALTHY''))"

definition save_provider :: "execution_provider \<Rightarrow> 'a route_db_scheme \<Rightarrow> 'a route_db_scheme" where
  "save_provider p db = db\<lparr>rd_providers := upd_where (\<lambda>x. xp_provider_id x = xp_provider_id p) (\<lambda>_. p) (rd_providers db)\<rparr>"

definition save_health :: "provider_health \<Rightarrow> 'a route_db_scheme \<Rightarrow> 'a route_db_scheme" where
  "save_health h db = db\<lparr>rd_health := upd_where (\<lambda>x. ph_provider x = ph_provider h) (\<lambda>_. h) (rd_health db)\<rparr>"

definition record_provider_failure ::
  "timestamp \<Rightarrow> execution_provider \<Rightarrow> 'a route_db_scheme \<Rightarrow> 'a route_db_scheme \<times> execution_provider" where
  "record_provider_failure now p db =
     (let n = Suc (xp_consecutive_failures p);
          p1 = p\<lparr>xp_consecutive_failures := n, xp_updated_at := now\<rparr>;
          p2 = (if 3 \<le> n then p1\<lparr>xp_health := ''UNAVAILABLE'', xp_circuit_open_until := Some (now + seconds 30)\<rparr> else p1);
          (db1, h) = get_or_create_health p2 ''UNKNOWN'' (save_provider p2 db)
      in (save_health (h\<lparr>ph_state := xp_health p2, ph_circuit_state := (if 3 \<le> n then ''OPEN'' else ''CLOSED''),
                         ph_last_failure_at := Some now\<rparr>) db1, p2))"

definition half_open :: "execution_provider \<Rightarrow> 'a route_db_scheme \<Rightarrow> 'a route_db_scheme" where
  "half_open p db =
     (let (db1, h) = get_or_create_health p ''UNKNOWN'' db in save_health (h\<lparr>ph_circuit_state := ''HALF_OPEN''\<rparr>) db1)"

definition record_provider_success ::
  "timestamp \<Rightarrow> execution_provider \<Rightarrow> 'a route_db_scheme \<Rightarrow> 'a route_db_scheme \<times> execution_provider" where
  "record_provider_success now p db =
     (let p1 = p\<lparr>xp_consecutive_failures := 0, xp_health := ''HEALTHY'', xp_circuit_open_until := None,
                xp_updated_at := now\<rparr>;
          (db1, h) = get_or_create_health p1 ''UNKNOWN'' (save_provider p1 db)
      in (save_health (h\<lparr>ph_state := ''HEALTHY'', ph_circuit_state := ''CLOSED'', ph_last_success_at := Some now\<rparr>) db1, p1))"

end
