(* ===== verification/Smart_Router.thy ===== *)
theory Smart_Router
  imports Execution_Router "HOL-Library.Product_Lexorder"
begin

text \<open>
  The smart order router (\<open>execution_control/router.py\<close>) with the fixture capabilities it seeds
  (\<open>capabilities.py\<close>), the best-execution policy and its score (\<open>policy.py\<close>), the entry points of
  \<open>execution_authority.py\<close>, the state table of canonical executions (\<open>state.py\<close>) and the resolution of
  unknown outcomes (\<open>recovery.py\<close>).
\<close>

section \<open>Fixtures\<close>

text \<open>\<open>get_or_create\<close>: the unique match, or the row given, which is inserted.\<close>

definition get_or_insert :: "('r \<Rightarrow> bool) \<Rightarrow> 'r \<Rightarrow> 'r list \<Rightarrow> (foundation_error, 'r list \<times> 'r) res" where
  "get_or_insert key row t =
     (case filter key t of
        [] \<Rightarrow> Inr (t @ [row], row)
      | [r] \<Rightarrow> Inr (t, r)
      | _ \<Rightarrow> Inl (FDbError MultipleObjectsReturned))"

definition fixture_venue :: execution_venue where
  "fixture_venue = \<lparr>xv_venue_id = ''BEYVRA-SIM'', xv_venue_type = ''INTERNAL'', xv_status = ''ACTIVE'',
     xv_routing_enabled = True\<rparr>"

definition fixture_provider :: "timestamp \<Rightarrow> string \<times> string \<times> nat \<Rightarrow> execution_provider" where
  "fixture_provider now f =
     (case f of (code, mode, priority) \<Rightarrow>
        \<lparr>xp_provider_id = code, xp_environment = mode, xp_priority = priority, xp_governance_state = ''PAPER_APPROVED'',
         xp_live_supported = False, xp_mode = mode, xp_enabled = True, xp_health = ''HEALTHY'',
         xp_circuit_open_until = None, xp_consecutive_failures = 0, xp_updated_at = now\<rparr>)"

definition fixture_providers :: "(string \<times> string \<times> nat) list" where
  "fixture_providers = [(''simulation'', ''SIMULATION'', 10), (''paper-a'', ''PAPER'', 20), (''paper-b'', ''PAPER'', 30)]"

definition fixture_assets :: "string list" where
  "fixture_assets = [''CRYPTO'', ''EQUITY'', ''ETF'']"

definition fixture_capabilities :: "string list" where
  "fixture_capabilities = [''MARKET_ORDER'', ''LIMIT_ORDER'', ''STOP_ORDER'', ''STOP_LIMIT_ORDER'', ''CANCEL'', ''REPLACE'',
     ''DAY'', ''GTC'', ''PARTIAL_FILL'', ''PAPER_TRADING'']"

definition fixture_order_types :: "string list" where
  "fixture_order_types = [''MARKET'', ''LIMIT'', ''STOP'', ''STOP_LIMIT'']"

text \<open>A loop whose body may raise.\<close>

fun for_each :: "('x \<Rightarrow> 's \<Rightarrow> ('e, 's) res) \<Rightarrow> 'x list \<Rightarrow> 's \<Rightarrow> ('e, 's) res" where
  "for_each f [] s = Inr s"
| "for_each f (x # xs) s = rbind (f x s) (for_each f xs)"

definition seed_provider_capability ::
  "py_env \<Rightarrow> timestamp \<Rightarrow> string \<Rightarrow> string \<Rightarrow> string \<Rightarrow> string \<Rightarrow> 'a route_db_scheme \<Rightarrow>
   (foundation_error, 'a route_db_scheme) res" where
  "seed_provider_capability E now provider venue asset capability db =
     rbind (get_or_insert
        (\<lambda>c. pc_provider c = provider \<and> pc_asset_class c = asset \<and> pc_venue c = Some venue \<and>
             pc_capability_type c = capability \<and> pc_source_version c = ''fixture-v1'')
        \<lparr>pc_id = fresh E db, pc_provider = provider, pc_asset_class = asset, pc_venue = Some venue,
         pc_capability_type = capability, pc_enabled = True, pc_source_version = ''fixture-v1'',
         pc_effective_from = now, pc_effective_to = None, pc_verified_at = now\<rparr> (rd_capabilities db)) (\<lambda>(t, _).
     Inr (db\<lparr>rd_capabilities := t, ev_next := Suc (ev_next db)\<rparr>))"

definition seed_venue_capability ::
  "py_env \<Rightarrow> timestamp \<Rightarrow> string \<Rightarrow> string \<Rightarrow> string \<Rightarrow> 'a route_db_scheme \<Rightarrow> (foundation_error, 'a route_db_scheme) res" where
  "seed_venue_capability E now venue asset order_type db =
     rbind (get_or_insert
        (\<lambda>c. vc_venue c = venue \<and> vc_asset_class c = asset \<and> vc_order_type c = order_type \<and>
             vc_time_in_force c = ''DAY'' \<and> vc_source_version c = ''fixture-v1'')
        \<lparr>vc_id = fresh E db, vc_venue = venue, vc_asset_class = asset, vc_order_type = order_type,
         vc_time_in_force = ''DAY'', vc_minimum_quantity = 1 / 10000, vc_quantity_increment = 1 / 10000,
         vc_price_increment = 1 / 100, vc_effective_from = now, vc_effective_to = None,
         vc_source_version = ''fixture-v1''\<rparr> (rd_venue_capabilities db)) (\<lambda>(t, _).
     Inr (db\<lparr>rd_venue_capabilities := t, ev_next := Suc (ev_next db)\<rparr>))"

definition seed_asset ::
  "py_env \<Rightarrow> timestamp \<Rightarrow> string \<Rightarrow> string \<Rightarrow> string \<Rightarrow> 'a route_db_scheme \<Rightarrow> (foundation_error, 'a route_db_scheme) res" where
  "seed_asset E now provider venue asset db =
     rbind (for_each (seed_provider_capability E now provider venue asset) fixture_capabilities db)
       (for_each (seed_venue_capability E now venue asset) fixture_order_types)"

fun seed_providers ::
  "py_env \<Rightarrow> timestamp \<Rightarrow> string \<Rightarrow> (string \<times> string \<times> nat) list \<Rightarrow> 'a route_db_scheme \<Rightarrow>
   (foundation_error, 'a route_db_scheme \<times> execution_provider list) res" where
  "seed_providers E now venue [] db = Inr (db, [])"
| "seed_providers E now venue (f # fs) db =
     rbind (get_or_insert (\<lambda>p. xp_provider_id p = fst f) (fixture_provider now f) (rd_providers db)) (\<lambda>(t, p).
     rbind (for_each (seed_asset E now (xp_provider_id p) venue) fixture_assets (db\<lparr>rd_providers := t\<rparr>)) (\<lambda>db1.
     rbind (seed_providers E now venue fs db1) (\<lambda>(db2, ps). Inr (db2, p # ps))))"

definition seed_fixture_capabilities ::
  "py_env \<Rightarrow> timestamp \<Rightarrow> 'a route_db_scheme \<Rightarrow>
   (foundation_error, 'a route_db_scheme \<times> execution_provider list \<times> execution_venue) res" where
  "seed_fixture_capabilities E now db =
     rbind (get_or_insert (\<lambda>v. xv_venue_id v = xv_venue_id fixture_venue) fixture_venue (rd_venues db)) (\<lambda>(t, v).
     rbind (seed_providers E now (xv_venue_id v) fixture_providers (db\<lparr>rd_venues := t\<rparr>)) (\<lambda>(db1, ps).
       Inr (db1, ps, v)))"

section \<open>Economics and score\<close>

text \<open>Price adjustment, fee rate, latency and fill probability; another provider is a \<open>KeyError\<close>.\<close>

definition provider_constants :: "string \<Rightarrow> (rat \<times> rat \<times> int \<times> rat) option" where
  "provider_constants i =
     (if i = ''simulation'' then Some (0, 1 / 1000, 1, 1)
      else if i = ''paper-a'' then Some (- 2 / 10000, 15 / 10000, 10, 92 / 100)
      else if i = ''paper-b'' then Some (1 / 10000, 5 / 10000, 25, 98 / 100)
      else None)"

definition economics_of :: "execution_provider \<Rightarrow> route_request \<Rightarrow> (foundation_error, economics) res" where
  "economics_of p r =
     (case provider_constants (xp_provider_id p) of
        None \<Rightarrow> Inl (FPyError ''KeyError'')
      | Some (adjustment, fee_rate, latency, fill_rate) \<Rightarrow>
          let ref = rq_reference_price r; quantity = rq_quantity r;
              sign = (if rq_side r = ''BUY'' then 1 else - 1);
              expected = dmul ref (dadd 1 (dmul sign adjustment));
              fee = dmul (dmul expected quantity) fee_rate;
              move = rnd \<bar>dsub expected ref\<bar>
          in if ref = 0 \<or> dmul ref quantity = 0 then Inl FArithmeticError
             else Inr \<lparr>ec_expected_price = expected, ec_expected_fee = fee, ec_expected_slippage = move,
                       ec_available_quantity = quantity, ec_fill_probability = fill_rate, ec_latency_ms = latency,
                       ec_price_score = dsub 1 (ddiv move ref),
                       ec_fee_score = dsub 1 (min (ddiv fee (dmul ref quantity)) 1),
                       ec_latency_score = dsub 1 (ddiv (of_int latency) 1000), ec_fill_score = fill_rate,
                       ec_liquidity_score = 1, ec_reliability_score = fill_rate, ec_impact_score = 1\<rparr>)"

text \<open>\<open>quantize(Decimal("0.00000001"))\<close> raises when the result needs more than 28 digits.\<close>

definition quantize8 :: "rat \<Rightarrow> (foundation_error, rat) res" where
  "quantize8 x =
     (let n = half_even (x * 10 ^ 8)
      in if 10 ^ prec \<le> \<bar>n\<bar> then Inl FArithmeticError else Inr (of_int n / 10 ^ 8))"

definition policy_score :: "best_execution_policy \<Rightarrow> economics \<Rightarrow> (foundation_error, rat) res" where
  "policy_score p e =
     quantize8 (dadd (dadd (dadd (dadd (dadd (dadd
        (dmul (ec_price_score e) (bp_price_weight p)) (dmul (ec_fee_score e) (bp_fee_weight p)))
        (dmul (ec_latency_score e) (bp_latency_weight p))) (dmul (ec_fill_score e) (bp_fill_weight p)))
        (dmul (ec_liquidity_score e) (bp_liquidity_weight p)))
        (dmul (ec_reliability_score e) (bp_reliability_weight p)))
        (dmul (ec_impact_score e) (bp_impact_weight p)))"

definition fixture_policy :: "py_env \<Rightarrow> timestamp \<Rightarrow> string \<Rightarrow> string \<Rightarrow> 'a route_db_scheme \<Rightarrow> best_execution_policy" where
  "fixture_policy E now asset_class mode db =
     \<lparr>bp_id = fresh E db, bp_code = ''fixture-'' @ lower asset_class @ ''-'' @ lower mode, bp_asset_class = asset_class,
      bp_mode = mode, bp_price_weight = 35 / 100, bp_fee_weight = 20 / 100, bp_latency_weight = 10 / 100,
      bp_fill_weight = 15 / 100, bp_liquidity_weight = 5 / 100, bp_reliability_weight = 10 / 100,
      bp_impact_weight = 5 / 100, bp_status = ''ACTIVE'', bp_policy_version = ''best-execution-technical-v2'',
      bp_effective_from = now, bp_effective_to = None\<rparr>"

definition active_policy ::
  "py_env \<Rightarrow> timestamp \<Rightarrow> string \<Rightarrow> string \<Rightarrow> 'a route_db_scheme \<Rightarrow>
   (foundation_error, 'a route_db_scheme \<times> best_execution_policy) res" where
  "active_policy E now asset_class mode db =
     (case obj_last_by bp_effective_from
             (filter (\<lambda>p. bp_asset_class p = asset_class \<and> bp_mode p = mode \<and> bp_status p = ''ACTIVE'' \<and>
                        bp_effective_from p \<le> now \<and> bp_effective_to p = None) (rd_policies db)) of
        Some p \<Rightarrow> Inr (db, p)
      | None \<Rightarrow>
          let p = fixture_policy E now asset_class mode db
          in if obj_exists (\<lambda>q. bp_code q = bp_code p \<and> bp_policy_version q = bp_policy_version p) (rd_policies db)
             then Inl (FDbError (IntegrityError ''best_execution_policy_version_unique''))
             else Inr (db\<lparr>rd_policies := rd_policies db @ [p], ev_next := Suc (ev_next db)\<rparr>, p))"

section \<open>Candidates\<close>

definition broker_reasons ::
  "timestamp \<Rightarrow> execution_provider \<Rightarrow> execution_venue \<Rightarrow> route_request \<Rightarrow> 'a route_db_scheme \<Rightarrow> string list" where
  "broker_reasons now p v r db =
     governance_code (\<not> broker_supports now (xp_provider_id p) (rq_asset_class r) (rq_order_type r @ ''_ORDER'')
                          (Some (xv_venue_id v)) db) ''PROVIDER_ORDER_TYPE_UNSUPPORTED'' @
     governance_code (\<not> broker_supports now (xp_provider_id p) (rq_asset_class r) (rq_time_in_force r)
                          (Some (xv_venue_id v)) db) ''PROVIDER_TIF_UNSUPPORTED''"

text \<open>One turn of the loop of \<open>generate_candidates\<close>; the score is still to be set.\<close>

definition generate_candidate ::
  "execution_settings \<Rightarrow> timestamp \<Rightarrow> execution_provider \<Rightarrow> execution_venue \<Rightarrow> route_request \<Rightarrow> 'a route_db_scheme \<Rightarrow>
   (foundation_error, 'a route_db_scheme \<times> route_candidate) res" where
  "generate_candidate S now p v r db =
     rbind (economics_of p r) (\<lambda>e.
     rbind (venue_validate now v r db) (\<lambda>vr.
       let rs = governance_reasons S p (rq_mode r) @ broker_reasons now p v r db @ vr;
           (db1, routable) = is_routable now p db;
           rs1 = rs @ governance_code (\<not> routable \<and> ''PROVIDER_UNHEALTHY'' \<notin> set rs) ''PROVIDER_UNHEALTHY''
       in Inr (db1, \<lparr>rc_provider = p, rc_venue = v, rc_economics = e, rc_reasons = sort (remdups rs1),
                     rc_score = - 1\<rparr>)))"

fun generate_candidates ::
  "execution_settings \<Rightarrow> timestamp \<Rightarrow> execution_provider list \<Rightarrow> execution_venue \<Rightarrow> route_request \<Rightarrow> 'a route_db_scheme \<Rightarrow>
   (foundation_error, 'a route_db_scheme \<times> route_candidate list) res" where
  "generate_candidates S now [] v r db = Inr (db, [])"
| "generate_candidates S now (p # ps) v r db =
     (if xp_mode p \<noteq> rq_mode r then generate_candidates S now ps v r db
      else rbind (generate_candidate S now p v r db) (\<lambda>(db1, c).
           rbind (generate_candidates S now ps v r db1) (\<lambda>(db2, cs). Inr (db2, c # cs))))"

definition score_candidate :: "best_execution_policy \<Rightarrow> route_candidate \<Rightarrow> (foundation_error, route_candidate) res" where
  "score_candidate policy c =
     (if rc_reasons c = [] then rbind (policy_score policy (rc_economics c)) (\<lambda>s. Inr (c\<lparr>rc_score := s\<rparr>))
      else Inr (c\<lparr>rc_score := - 1\<rparr>))"

fun score_candidates ::
  "best_execution_policy \<Rightarrow> route_candidate list \<Rightarrow> (foundation_error, route_candidate list) res" where
  "score_candidates policy [] = Inr []"
| "score_candidates policy (c # cs) =
     rbind (score_candidate policy c) (\<lambda>c1. rbind (score_candidates policy cs) (\<lambda>cs1. Inr (c1 # cs1)))"

definition eligible_candidates :: "route_candidate list \<Rightarrow> route_candidate list" where
  "eligible_candidates cs = filter (\<lambda>c. rc_reasons c = []) cs"

definition route_key :: "route_candidate \<Rightarrow> rat \<times> rat \<times> nat \<times> string" where
  "route_key c = (- rc_score c, ec_expected_fee (rc_economics c), xp_priority (rc_provider c), xp_provider_id (rc_provider c))"

definition select_route :: "route_candidate list \<Rightarrow> route_candidate option" where
  "select_route cs = (case sort_key route_key (eligible_candidates cs) of [] \<Rightarrow> None | c # _ \<Rightarrow> Some c)"

definition explain_selection :: "route_candidate option \<Rightarrow> string" where
  "explain_selection c = (if c \<noteq> None then ''HIGHEST_POLICY_SCORE_THEN_COST_PRIORITY_CODE'' else ''ORDER_NOT_ROUTABLE'')"

section \<open>Routing\<close>

definition uuid_or_null :: "uuid option \<Rightarrow> json" where
  "uuid_or_null u = (case u of None \<Rightarrow> JNull | Some i \<Rightarrow> JStr (str_uuid i))"

definition request_json :: "py_env \<Rightarrow> route_request \<Rightarrow> json" where
  "request_json E r =
     JObj [(''instrument_id'', JStr (rq_instrument_id r)), (''side'', JStr (rq_side r)),
           (''order_type'', JStr (rq_order_type r)), (''quantity'', JStr (en_dtext E (rq_quantity r))),
           (''reference_price'', JStr (en_dtext E (rq_reference_price r))), (''mode'', JStr (rq_mode r)),
           (''asset_class'', JStr (rq_asset_class r)), (''time_in_force'', JStr (rq_time_in_force r)),
           (''limit_price'', case rq_limit_price r of None \<Rightarrow> JNull | Some p \<Rightarrow> JStr p),
           (''market_snapshot_hash'', JStr (rq_market_snapshot_hash r)),
           (''pricing_snapshot_hash'', JStr (rq_pricing_snapshot_hash r)),
           (''risk_snapshot_hash'', JStr (rq_risk_snapshot_hash r)),
           (''correlation_id'', uuid_or_null (rq_correlation_id r))]"

definition safe_candidate :: "py_env \<Rightarrow> route_candidate \<Rightarrow> json" where
  "safe_candidate E c =
     JObj [(''provider_id'', JStr (xp_provider_id (rc_provider c))), (''venue_id'', JStr (xv_venue_id (rc_venue c))),
           (''eligible'', JBool (rc_reasons c = [])), (''rejection_reasons'', JArr (map JStr (rc_reasons c))),
           (''expected_price'', JStr (en_dtext E (ec_expected_price (rc_economics c)))),
           (''expected_fee'', JStr (en_dtext E (ec_expected_fee (rc_economics c)))),
           (''estimated_latency_ms'', JInt (ec_latency_ms (rc_economics c))),
           (''estimated_fill_probability'', JStr (en_dtext E (ec_fill_probability (rc_economics c)))),
           (''score'', JStr (en_dtext E (rc_score c)))]"

definition exclusion :: "route_candidate \<Rightarrow> json" where
  "exclusion c = JObj [(''provider_id'', JStr (xp_provider_id (rc_provider c))), (''reasons'', JArr (map JStr (rc_reasons c)))]"

definition route_evidence ::
  "py_env \<Rightarrow> route_request \<Rightarrow> route_candidate list \<Rightarrow> best_execution_policy \<Rightarrow> route_candidate option \<Rightarrow> json" where
  "route_evidence E r cs p selected =
     JObj [(''request'', request_json E r), (''candidates'', JArr (map (safe_candidate E) cs)),
           (''policy_id'', JStr (str_uuid (bp_id p))), (''policy_version'', JStr (bp_policy_version p)),
           (''selected'', case selected of None \<Rightarrow> JNull | Some c \<Rightarrow> JStr (xp_provider_id (rc_provider c)))]"

record route_result =
  rr_routable :: bool
  rr_mode :: string
  rr_eligible_route_count :: nat
  rr_reason_codes :: "string list"
  rr_selected_route_summary :: "(string \<times> string) option"
  rr_estimated_execution_price :: "string option"
  rr_estimated_fees :: "string option"
  rr_estimated_slippage :: "string option"
  rr_policy_version :: string
  rr_evidence_hash :: string
  rr_candidates :: "json list"
  rr_exclusions :: "json list"
  rr_simulation :: bool
  rr_paper :: bool
  rr_decision_id :: "uuid option"

definition route_summary ::
  "py_env \<Rightarrow> route_request \<Rightarrow> route_candidate list \<Rightarrow> best_execution_policy \<Rightarrow> route_candidate option \<Rightarrow> route_result" where
  "route_summary E r cs p selected =
     \<lparr>rr_routable = (selected \<noteq> None), rr_mode = rq_mode r, rr_eligible_route_count = length (eligible_candidates cs),
      rr_reason_codes = (if selected \<noteq> None then [] else [''ORDER_NOT_ROUTABLE'']),
      rr_selected_route_summary =
        map_option (\<lambda>c. (xp_provider_id (rc_provider c), xv_venue_id (rc_venue c))) selected,
      rr_estimated_execution_price = map_option (\<lambda>c. en_dtext E (ec_expected_price (rc_economics c))) selected,
      rr_estimated_fees = map_option (\<lambda>c. en_dtext E (ec_expected_fee (rc_economics c))) selected,
      rr_estimated_slippage = map_option (\<lambda>c. en_dtext E (ec_expected_slippage (rc_economics c))) selected,
      rr_policy_version = bp_policy_version p, rr_evidence_hash = evidence_hash E (route_evidence E r cs p selected),
      rr_candidates = map (safe_candidate E) cs,
      rr_exclusions = map exclusion (filter (\<lambda>c. rc_reasons c \<noteq> []) cs),
      rr_simulation = (rq_mode r = ''SIMULATION''), rr_paper = (rq_mode r = ''PAPER''), rr_decision_id = None\<rparr>"

text \<open>\<open>save\<close> of the immutable rows: an existing key raises.\<close>

definition save_decision :: "routing_decision \<Rightarrow> 'a route_db_scheme \<Rightarrow> (foundation_error, 'a route_db_scheme) res" where
  "save_decision d db =
     (if obj_exists (\<lambda>x. rt_decision_id x = rt_decision_id d) (rd_decisions db)
      then Inl (FValueError ''ROUTING_DECISION_IMMUTABLE'')
      else if rt_order d \<noteq> None \<and>
              obj_exists (\<lambda>x. rt_order x = rt_order d \<and> rt_revision x = rt_revision d) (rd_decisions db)
      then Inl (FDbError (IntegrityError ''execution_route_order_revision_unique''))
      else Inr (db\<lparr>rd_decisions := rd_decisions db @ [d], ev_next := Suc (ev_next db)\<rparr>))"

definition delete_decision :: "routing_decision \<Rightarrow> 'a route_db_scheme \<Rightarrow> (foundation_error, 'a route_db_scheme) res" where
  "delete_decision d db = Inl (FValueError ''ROUTING_DECISION_IMMUTABLE'')"

definition save_candidate :: "candidate_row \<Rightarrow> 'a route_db_scheme \<Rightarrow> (foundation_error, 'a route_db_scheme) res" where
  "save_candidate c db =
     (if obj_exists (\<lambda>x. cr_id x = cr_id c) (rd_candidates db) then Inl (FValueError ''ROUTE_CANDIDATE_IMMUTABLE'')
      else Inr (db\<lparr>rd_candidates := rd_candidates db @ [c], ev_next := Suc (ev_next db)\<rparr>))"

definition delete_candidate :: "candidate_row \<Rightarrow> 'a route_db_scheme \<Rightarrow> (foundation_error, 'a route_db_scheme) res" where
  "delete_candidate c db = Inl (FValueError ''ROUTE_CANDIDATE_IMMUTABLE'')"

definition candidate_record ::
  "py_env \<Rightarrow> timestamp \<Rightarrow> uuid \<Rightarrow> route_request \<Rightarrow> route_candidate \<Rightarrow> uuid \<Rightarrow> candidate_row" where
  "candidate_record E now decision r c i =
     (let e = rc_economics c
      in \<lparr>cr_id = i, cr_decision = decision, cr_provider = xp_provider_id (rc_provider c),
          cr_venue = xv_venue_id (rc_venue c), cr_mode = rq_mode r, cr_expected_price = en_col E (ec_expected_price e),
          cr_expected_fee = en_col E (ec_expected_fee e), cr_expected_slippage = en_col E (ec_expected_slippage e),
          cr_available_quantity = en_col E (ec_available_quantity e), cr_fill_probability = ec_fill_probability e,
          cr_latency_ms = ec_latency_ms e, cr_provider_health = xp_health (rc_provider c),
          cr_score = en_ratio_col E (rc_score c), cr_eligible = (rc_reasons c = []),
          cr_rejection_reasons = rc_reasons c, cr_created_at = now\<rparr>)"

definition add_candidate ::
  "py_env \<Rightarrow> timestamp \<Rightarrow> uuid \<Rightarrow> route_request \<Rightarrow> route_candidate \<Rightarrow> 'a route_db_scheme \<Rightarrow>
   (foundation_error, 'a route_db_scheme) res" where
  "add_candidate E now decision r c db = save_candidate (candidate_record E now decision r c (fresh E db)) db"

definition decision_row ::
  "py_env \<Rightarrow> timestamp \<Rightarrow> string \<Rightarrow> route_request \<Rightarrow> uuid option \<Rightarrow> routing_decision option \<Rightarrow> route_candidate list \<Rightarrow>
   best_execution_policy \<Rightarrow> route_candidate option \<Rightarrow> uuid \<Rightarrow> routing_decision" where
  "decision_row E now subject r ord prior cs p selected i =
     \<lparr>rt_decision_id = i, rt_order = ord, rt_tenant_ref = ''default'', rt_subject_ref = subject, rt_mode = rq_mode r,
      rt_status = (if selected \<noteq> None then ''SELECTED'' else ''DENIED''),
      rt_selected_provider_id = (case selected of None \<Rightarrow> '''' | Some c \<Rightarrow> xp_provider_id (rc_provider c)),
      rt_selected_venue_id = (case selected of None \<Rightarrow> '''' | Some c \<Rightarrow> xv_venue_id (rc_venue c)),
      rt_policy_version = bp_policy_version p, rt_candidate_evidence = JArr (map (safe_candidate E) cs),
      rt_exclusion_reasons = JArr (map (safe_candidate E) (filter (\<lambda>c. rc_reasons c \<noteq> []) cs)),
      rt_market_snapshot_hash = rq_market_snapshot_hash r, rt_request_hash = evidence_hash E (request_json E r),
      rt_evidence_hash = evidence_hash E (route_evidence E r cs p selected),
      rt_pricing_snapshot_hash = rq_pricing_snapshot_hash r, rt_risk_snapshot_hash = rq_risk_snapshot_hash r,
      rt_selected_score = map_option (\<lambda>c. en_ratio_col E (rc_score c)) selected,
      rt_reference_price = en_col E (rq_reference_price r),
      rt_revision = (case prior of None \<Rightarrow> 1 | Some d \<Rightarrow> Suc (rt_revision d)),
      rt_supersedes = map_option rt_decision_id prior, rt_created_at = now\<rparr>"

definition route_correlation :: "py_env \<Rightarrow> route_request \<Rightarrow> 'a route_db_scheme \<Rightarrow> 'a route_db_scheme \<times> uuid" where
  "route_correlation E r db =
     (case rq_correlation_id r of Some c \<Rightarrow> (db, c) | None \<Rightarrow> (db\<lparr>ev_next := Suc (ev_next db)\<rparr>, fresh E db))"

definition route_audit ::
  "py_env \<Rightarrow> timestamp \<Rightarrow> route_request \<Rightarrow> routing_decision \<Rightarrow> route_candidate option \<Rightarrow> uuid \<Rightarrow>
   'a route_db_scheme \<Rightarrow> 'a route_db_scheme" where
  "route_audit E now r d selected correlation db =
     db\<lparr>rd_audits := rd_audits db @
          [\<lparr>aa_event_id = fresh E db, aa_actor_ref = rt_subject_ref d,
            aa_action = (if selected \<noteq> None then ''execution.route.selected'' else ''execution.route.denied''),
            aa_resource_type = ''execution_route'', aa_resource_id = str_uuid (rt_decision_id d), aa_before_hash = '''',
            aa_after_hash = '''', aa_request_id = ''routing'', aa_correlation_id = correlation,
            aa_context = JObj [(''mode'', JStr (rq_mode r)), (''policy_version'', JStr (rt_policy_version d)),
              (''evidence_hash'', JStr (rt_evidence_hash d)), (''provider_ref'', JStr (rt_selected_provider_id d)),
              (''venue_ref'', JStr (rt_selected_venue_id d)), (''reason_code'', JStr (explain_selection selected))],
            aa_reason = explain_selection selected, aa_occurred_at = now\<rparr>],
        ev_next := Suc (ev_next db)\<rparr>"

definition route_event ::
  "timestamp \<Rightarrow> route_request \<Rightarrow> routing_decision \<Rightarrow> route_candidate option \<Rightarrow> uuid \<Rightarrow>
   'a route_db_scheme \<Rightarrow> 'a route_db_scheme" where
  "route_event now r d selected correlation db =
     (if selected = None then db
      else db\<lparr>ev_outbox := fst (enqueue_event now ''execution_route'' (str_uuid (rt_decision_id d))
                ''trading.execution.route.selected.v1''
                (JObj [(''order_id'', uuid_or_null (rt_order d)), (''mode'', JStr (rq_mode r)),
                       (''policy_version'', JStr (rt_policy_version d)), (''simulation'', JBool (rq_mode r = ''SIMULATION''))])
                ''default'' (Some correlation) None None (ev_outbox db))\<rparr>)"

definition persist_route ::
  "py_env \<Rightarrow> timestamp \<Rightarrow> string \<Rightarrow> route_request \<Rightarrow> uuid option \<Rightarrow> routing_decision option \<Rightarrow> route_candidate list \<Rightarrow>
   best_execution_policy \<Rightarrow> route_candidate option \<Rightarrow> 'a route_db_scheme \<Rightarrow>
   (foundation_error, 'a route_db_scheme \<times> routing_decision) res" where
  "persist_route E now subject r ord prior cs p selected db =
     (let d = decision_row E now subject r ord prior cs p selected (fresh E db)
      in rbind (save_decision d db) (\<lambda>db1.
         rbind (for_each (add_candidate E now (rt_decision_id d) r) cs db1) (\<lambda>db2.
           let (db3, correlation) = route_correlation E r db2
           in Inr (route_event now r d selected correlation (route_audit E now r d selected correlation db3), d))))"

definition route ::
  "execution_settings \<Rightarrow> py_env \<Rightarrow> timestamp \<Rightarrow> string \<Rightarrow> route_request \<Rightarrow> uuid option \<Rightarrow> bool \<Rightarrow> routing_decision option \<Rightarrow>
   execution_provider list \<Rightarrow> execution_venue \<Rightarrow> 'a route_db_scheme \<Rightarrow>
   (foundation_error, 'a route_db_scheme \<times> route_result) res" where
  "route S E now subject r ord persist prior ps v db =
     (if rq_mode r = ''LIVE'' then Inl (FValueError ''FEATURE_DISABLED'')
      else
        rbind (active_policy E now (rq_asset_class r) (rq_mode r) db) (\<lambda>(db1, p).
        rbind (generate_candidates S now ps v r db1) (\<lambda>(db2, cs0).
        rbind (score_candidates p cs0) (\<lambda>cs.
          let selected = select_route cs; result = route_summary E r cs p selected
          in if \<not> persist then Inr (db2, result)
             else rbind (persist_route E now subject r ord prior cs p selected db2) (\<lambda>(db3, d).
                    Inr (db3, result\<lparr>rr_decision_id := Some (rt_decision_id d)\<rparr>))))))"


end
