(* ===== verification/Execution_Control.thy ===== *)
theory Execution_Control
  imports Smart_Router
begin

text \<open>
  The entry points of \<open>execution_authority.py\<close> around the router, and what happens to an execution
  afterwards: the state table of \<open>state.py\<close>, the unknown outcomes that \<open>recovery.py\<close> resolves, and the
  arithmetic of \<open>quality.py\<close>.
\<close>

section \<open>Preview\<close>

definition assert_safe_mode :: "execution_settings \<Rightarrow> json \<Rightarrow> (foundation_error, string) res" where
  "assert_safe_mode S m =
     (let mode = upper (if truthy m then py_text m else ''SIMULATION'')
      in if xs_real_trading_enabled S \<or> xs_external_execution_enabled S then Inl (FValueError ''LIVE_EXECUTION_DISABLED'')
         else if mode = ''LIVE'' \<or> xs_live_broker_routing_enabled S \<or> xs_fix_live_session_enabled S
         then Inl (FValueError ''LIVE_EXECUTION_DISABLED'')
         else if mode = ''PAPER'' \<and> \<not> xs_paper_trading_allowed S then Inl (FValueError ''PAPER_TRADING_DISABLED'')
         else if mode = ''SIMULATION'' \<and> \<not> xs_simulation_allowed S then Inl (FValueError ''SIMULATION_DISABLED'')
         else Inr mode)"

definition text_or :: "json \<Rightarrow> string \<Rightarrow> string" where
  "text_or j d = (if truthy j then py_text j else d)"

text \<open>
  A quantity or price compared with zero: a NaN raises in the comparison. An infinity passes it and
  makes the arithmetic of the first candidate raise.
\<close>

definition not_positive :: "decimal \<Rightarrow> (foundation_error, bool) res" where
  "not_positive d =
     (case d of NaN \<Rightarrow> Inl FArithmeticError | Inf neg \<Rightarrow> Inr neg | Finite s c e \<Rightarrow> Inr (dec_value d \<le> 0))"

definition is_finite :: "decimal \<Rightarrow> bool" where
  "is_finite d \<longleftrightarrow> (case d of Finite s c e \<Rightarrow> True | _ \<Rightarrow> False)"

definition preview_price :: "(string \<Rightarrow> string option) \<Rightarrow> row \<Rightarrow> string \<Rightarrow> string" where
  "preview_price prices data instrument =
     (if truthy (row_get data ''reference_price'') then py_text (row_get data ''reference_price'')
      else (case prices instrument of Some p \<Rightarrow> p | None \<Rightarrow> ''None''))"

definition preview_request ::
  "py_env \<Rightarrow> row \<Rightarrow> string \<Rightarrow> string \<Rightarrow> rat \<Rightarrow> rat \<Rightarrow> uuid \<Rightarrow> route_request" where
  "preview_request E data mode instrument quantity reference correlation =
     \<lparr>rq_instrument_id = instrument, rq_side = upper (text_or (row_get data ''side'') ''''),
      rq_order_type = upper (text_or (row_get data ''order_type'') ''MARKET''), rq_quantity = quantity,
      rq_reference_price = reference, rq_mode = mode,
      rq_asset_class = upper (text_or (row_get data ''asset_class'') ''CRYPTO''),
      rq_time_in_force = upper (text_or (row_get data ''time_in_force'') ''DAY''),
      rq_limit_price = (if row_get data ''limit_price'' = JNull then None else Some (py_text (row_get data ''limit_price''))),
      rq_market_snapshot_hash = evidence_hash E
        (JObj [(''instrument'', JStr instrument), (''reference_price'', JStr (en_dtext E reference)),
               (''source'', case map_of data ''market_source'' of None \<Rightarrow> JStr ''deterministic_fixture'' | Some j \<Rightarrow> j)]),
      rq_pricing_snapshot_hash = evidence_hash E
        (JObj [(''fees'', case map_of data ''fees'' of None \<Rightarrow> JStr ''fixture-policy'' | Some j \<Rightarrow> j)]),
      rq_risk_snapshot_hash = text_or (row_get data ''risk_snapshot_hash'')
        (evidence_hash E (JObj [(''risk'', JStr ''prechecked'')])),
      rq_correlation_id = Some correlation\<rparr>"

text \<open>
  \<open>data.get("mode", "SIMULATION")\<close>; \<open>correlation\<close> is the parsed \<open>correlation_id\<close> of the caller, if any.
  The constructor of the router seeds the fixtures before \<open>route\<close> runs.
\<close>

definition preview_route ::
  "execution_settings \<Rightarrow> (string \<Rightarrow> string option) \<Rightarrow> py_env \<Rightarrow> timestamp \<Rightarrow> string \<Rightarrow> row \<Rightarrow> uuid option \<Rightarrow> bool \<Rightarrow>
   uuid option \<Rightarrow> 'a route_db_scheme \<Rightarrow> (foundation_error, 'a route_db_scheme \<times> route_result) res" where
  "preview_route S prices E now subject data correlation persist ord db =
     rbind (assert_safe_mode S (case map_of data ''mode'' of None \<Rightarrow> JStr ''SIMULATION'' | Some m \<Rightarrow> m)) (\<lambda>mode.
       let instrument = upper (text_or (row_get data ''instrument'') (text_or (row_get data ''instrument_id'') ''''));
           side = upper (text_or (row_get data ''side'') '''')
       in (case (parse_decimal (py_text (row_get data ''quantity'')),
                 parse_decimal (preview_price prices data instrument)) of
             (Some q, Some p) \<Rightarrow>
               if instrument = '''' \<or> side \<notin> {''BUY'', ''SELL''} then Inl (FValueError ''VALIDATION_ERROR'')
               else rbind (not_positive q) (\<lambda>a. if a then Inl (FValueError ''VALIDATION_ERROR'')
               else rbind (not_positive p) (\<lambda>b. if b then Inl (FValueError ''VALIDATION_ERROR'')
               else if row_get data ''market_data_stale'' = JBool True then Inl (FValueError ''MARKET_DATA_STALE'')
               else if \<not> is_finite q \<or> \<not> is_finite p then Inl FArithmeticError
               else
                 let (db0, c) = (case correlation of Some c \<Rightarrow> (db, c)
                                   | None \<Rightarrow> (db\<lparr>ev_next := Suc (ev_next db)\<rparr>, fresh E db))
                 in rbind (seed_fixture_capabilities E now db0) (\<lambda>(db1, ps, v).
                      route S E now subject (preview_request E data mode instrument (dec_value q) (dec_value p) c)
                        ord persist None ps v db1)))
           | _ \<Rightarrow> Inl (FValueError ''VALIDATION_ERROR'')))"

section \<open>Operator halt of a provider\<close>

definition set_provider_halt ::
  "py_env \<Rightarrow> timestamp \<Rightarrow> string \<Rightarrow> string \<Rightarrow> bool \<Rightarrow> string \<Rightarrow> string \<Rightarrow> uuid option \<Rightarrow> 'a route_db_scheme \<Rightarrow>
   (foundation_error, 'a route_db_scheme \<times> execution_provider) res" where
  "set_provider_halt E now actor provider_id halted reason expected_version correlation db =
     rbind (get_row (\<lambda>p. xp_provider_id p = provider_id) (rd_providers db)) (\<lambda>p.
       if xp_mode p = ''LIVE'' then Inl (FValueError ''LIVE_EXECUTION_DISABLED'')
       else if en_iso_time E (xp_updated_at p) \<noteq> expected_version then Inl (FValueError ''VERSION_CONFLICT'')
       else
         let p1 = p\<lparr>xp_health := (if halted then ''HALTED'' else ''HEALTHY''), xp_enabled := \<not> halted, xp_updated_at := now\<rparr>;
             verb = (if halted then ''halted'' else ''resumed'');
             db1 = save_provider p1 db;
             (db2, c) = (case correlation of Some c \<Rightarrow> (db1, c)
                           | None \<Rightarrow> (db1\<lparr>ev_next := Suc (ev_next db1)\<rparr>, fresh E db1));
             db3 = db2\<lparr>rd_audits := rd_audits db2 @
                 [\<lparr>aa_event_id = fresh E db2, aa_actor_ref = actor, aa_action = ''execution.provider.'' @ verb,
                   aa_resource_type = ''execution_provider'', aa_resource_id = provider_id, aa_before_hash = '''',
                   aa_after_hash = '''', aa_request_id = ''operator'', aa_correlation_id = c,
                   aa_context = JObj [(''mode'', JStr (xp_mode p1))], aa_reason = reason, aa_occurred_at = now\<rparr>],
               ev_next := Suc (ev_next db2)\<rparr>
         in Inr (db3\<lparr>ev_outbox := fst (enqueue_event now ''execution_provider'' provider_id
                       (''trading.execution.provider.'' @ verb @ ''.v1'')
                       (JObj [(''provider_id'', JStr provider_id), (''mode'', JStr (xp_mode p1)),
                              (''health'', JStr (xp_health p1)), (''live'', JBool False)])
                       ''default'' None None None (ev_outbox db3))\<rparr>, p1))"

section \<open>Unknown outcomes\<close>

definition unknown_decision :: "timestamp \<Rightarrow> trading_order \<Rightarrow> string \<Rightarrow> routing_decision \<Rightarrow> uuid \<Rightarrow> routing_decision" where
  "unknown_decision now ord provider_id prior i =
     prior\<lparr>rt_decision_id := i, rt_order := Some (to_id ord), rt_tenant_ref := to_tenant_ref ord,
           rt_subject_ref := to_subject_ref ord, rt_status := ''UNKNOWN'', rt_selected_provider_id := provider_id,
           rt_exclusion_reasons := JArr [JObj [(''provider_id'', JStr provider_id),
             (''reasons'', JArr [JStr ''UNKNOWN_EXECUTION_OUTCOME'', JStr ''RECONCILIATION_REQUIRED'',
                               JStr ''FAILOVER_PROHIBITED''])]],
           rt_evidence_hash := '''', rt_selected_score := None, rt_revision := Suc (rt_revision prior),
           rt_supersedes := Some (rt_decision_id prior), rt_created_at := now\<rparr>"

definition unknown_execution :: "py_env \<Rightarrow> trading_order \<Rightarrow> string \<Rightarrow> routing_decision \<Rightarrow> uuid \<Rightarrow> canonical_execution" where
  "unknown_execution E ord provider_id prior i =
     \<lparr>cx_id = i, cx_order = to_id ord, cx_provider = provider_id, cx_venue = rt_selected_venue_id prior,
      cx_provider_order_ref_hash = '''', cx_provider_execution_ref_hash = '''', cx_state = ''UNKNOWN'',
      cx_quantity = to_quantity ord, cx_filled_quantity = to_filled_quantity ord,
      cx_remaining_quantity = en_col E (dsub (to_quantity ord) (to_filled_quantity ord)), cx_average_price = None,
      cx_completed_at = None, cx_mode = rt_mode prior, cx_version = 1\<rparr>"

definition record_ambiguous_outcome ::
  "py_env \<Rightarrow> timestamp \<Rightarrow> trading_order \<Rightarrow> string \<Rightarrow> 'a route_db_scheme \<Rightarrow>
   (foundation_error, 'a route_db_scheme \<times> routing_decision) res" where
  "record_ambiguous_outcome E now ord provider_id db =
     (case obj_last_by rt_created_at (filter (\<lambda>d. rt_order d = Some (to_id ord)) (rd_decisions db)) of
        None \<Rightarrow> Inl (FValueError ''ROUTING_DECISION_REQUIRED'')
      | Some prior \<Rightarrow>
          let d = unknown_decision now ord provider_id prior (fresh E db)
          in rbind (save_decision d db) (\<lambda>db1.
             let db2 = db1\<lparr>ev_outbox := fst (enqueue_event now ''execution'' (str_uuid (to_id ord))
                         ''trading.execution.unknown.v1''
                         (JObj [(''order_id'', JStr (str_uuid (to_id ord))), (''provider_id'', JStr provider_id),
                                (''reconciliation_required'', JBool True), (''retry_allowed'', JBool False),
                                (''failover_allowed'', JBool False), (''live'', JBool False)])
                         (to_tenant_ref ord) None None None (ev_outbox db1))\<rparr>
             in rbind (get_row (\<lambda>p. xp_provider_id p = provider_id) (rd_providers db2)) (\<lambda>_.
                rbind (get_row (\<lambda>v. xv_venue_id v = rt_selected_venue_id prior) (rd_venues db2)) (\<lambda>_.
                  let x = unknown_execution E ord provider_id prior (fresh E db2);
                      db3 = db2\<lparr>rd_executions := rd_executions db2 @ [x], ev_next := Suc (ev_next db2)\<rparr>;
                      u = \<lparr>uo_id = fresh E db3, uo_execution = cx_id x, uo_classification = ''AMBIGUOUS_SUBMISSION'',
                           uo_state = ''UNRESOLVED'', uo_lookup_attempts = 0, uo_last_lookup_at = None,
                           uo_resolution_evidence_hash = '''', uo_resolved_at = None\<rparr>
                  in Inr (db3\<lparr>rd_outcomes := rd_outcomes db3 @ [u], ev_next := Suc (ev_next db3)\<rparr>, d)))))"

text \<open>\<open>lookup\<close> is the caller's query of the provider: \<open>None\<close>, or the evidence hash of what it found.\<close>

definition resolve_unknown ::
  "timestamp \<Rightarrow> uuid \<Rightarrow> (canonical_execution \<Rightarrow> string option) \<Rightarrow> 'a route_db_scheme \<Rightarrow>
   (foundation_error, 'a route_db_scheme \<times> unknown_outcome) res" where
  "resolve_unknown now outcome_id lookup db =
     rbind (get_row (\<lambda>u. uo_id u = outcome_id) (rd_outcomes db)) (\<lambda>u.
       if uo_state u = ''RESOLVED'' then Inr (db, u)
       else
         rbind (get_row (\<lambda>x. cx_id x = uo_execution u) (rd_executions db)) (\<lambda>x.
           let u1 = u\<lparr>uo_lookup_attempts := Suc (uo_lookup_attempts u), uo_last_lookup_at := Some now\<rparr>;
               saved = (\<lambda>u'. db\<lparr>rd_outcomes := upd_where (\<lambda>o'. uo_id o' = outcome_id) (\<lambda>_. u') (rd_outcomes db)\<rparr>)
           in (case lookup x of
                 None \<Rightarrow> Inr (saved u1, u1)
               | Some evidence \<Rightarrow>
                   let u2 = u1\<lparr>uo_state := ''RESOLVED'', uo_resolved_at := Some now, uo_resolution_evidence_hash := evidence\<rparr>
                   in rbind (get_row (\<lambda>o'. to_id o' = cx_order x) (rd_orders db)) (\<lambda>o'.
                        Inr ((saved u2)\<lparr>ev_outbox := fst (enqueue_event now ''execution'' (str_uuid (uo_execution u))
                               ''trading.execution.reconciled.v1''
                               (JObj [(''execution_id'', JStr (str_uuid (uo_execution u))), (''resolved'', JBool True),
                                      (''retry_allowed'', JBool False)])
                               (to_tenant_ref o') None None None (ev_outbox db))\<rparr>, u2)))))"

section \<open>Execution states\<close>

definition execution_transitions :: "string \<Rightarrow> string list" where
  "execution_transitions s =
     (if s = ''CREATED'' then [''SUBMITTING'', ''REJECTED'']
      else if s = ''SUBMITTING'' then [''SUBMITTED'', ''UNKNOWN'', ''REJECTED'']
      else if s = ''SUBMITTED'' then [''ACKNOWLEDGED'', ''UNKNOWN'', ''REJECTED'']
      else if s = ''ACKNOWLEDGED'' then [''WORKING'', ''PARTIALLY_FILLED'', ''FILLED'', ''CANCEL_PENDING'', ''REJECTED'']
      else if s = ''WORKING'' then [''PARTIALLY_FILLED'', ''FILLED'', ''CANCEL_PENDING'', ''CANCELLED'', ''EXPIRED'']
      else if s = ''PARTIALLY_FILLED'' then [''PARTIALLY_FILLED'', ''FILLED'', ''CANCEL_PENDING'', ''CANCELLED'']
      else if s = ''CANCEL_PENDING'' then [''CANCELLED'', ''PARTIALLY_FILLED'', ''FILLED'']
      else if s = ''UNKNOWN'' then [''SUBMITTED'', ''ACKNOWLEDGED'', ''WORKING'', ''PARTIALLY_FILLED'', ''FILLED'', ''CANCELLED'', ''REJECTED'']
      else [])"

text \<open>\<open>updates\<close> are the keyword arguments, set before the state is.\<close>

definition transition_execution ::
  "timestamp \<Rightarrow> uuid \<Rightarrow> string \<Rightarrow> (canonical_execution \<Rightarrow> canonical_execution) \<Rightarrow> 'a route_db_scheme \<Rightarrow>
   (foundation_error, 'a route_db_scheme \<times> canonical_execution) res" where
  "transition_execution now i new_state updates db =
     rbind (get_row (\<lambda>x. cx_id x = i) (rd_executions db)) (\<lambda>x.
       if new_state \<notin> set (execution_transitions (cx_state x)) then Inl (FValueError ''INVALID_EXECUTION_STATE_TRANSITION'')
       else
         let x1 = (updates x)\<lparr>cx_state := new_state\<rparr>;
             x2 = x1\<lparr>cx_version := Suc (cx_version x1)\<rparr>;
             x3 = (if new_state \<in> {''FILLED'', ''CANCELLED'', ''REJECTED'', ''EXPIRED''} then x2\<lparr>cx_completed_at := Some now\<rparr> else x2)
         in Inr (db\<lparr>rd_executions := upd_where (\<lambda>y. cx_id y = i) (\<lambda>_. x3) (rd_executions db)\<rparr>, x3))"

section \<open>Slippage\<close>

record slippage =
  sl_per_unit :: rat
  sl_amount :: rat
  sl_bps :: rat

definition calculate_slippage :: "string \<Rightarrow> rat \<Rightarrow> rat \<Rightarrow> rat \<Rightarrow> (foundation_error, slippage) res" where
  "calculate_slippage side reference vwap quantity =
     (let per_unit = (if side = ''BUY'' then dsub vwap reference else dsub reference vwap)
      in if reference = 0 then Inl FArithmeticError
         else Inr \<lparr>sl_per_unit = per_unit, sl_amount = dmul per_unit quantity,
                   sl_bps = dmul (ddiv per_unit reference) 10000\<rparr>)"

definition calculate_price_improvement :: "string \<Rightarrow> rat \<Rightarrow> rat \<Rightarrow> rat \<Rightarrow> (foundation_error, slippage) res" where
  "calculate_price_improvement side benchmark vwap quantity =
     rbind (calculate_slippage side benchmark vwap quantity) (\<lambda>s.
       Inr \<lparr>sl_per_unit = rnd (- sl_per_unit s), sl_amount = rnd (- sl_amount s), sl_bps = rnd (- sl_bps s)\<rparr>)"

end
