(* ===== verification/Execution_Properties.thy ===== *)
theory Execution_Properties
  imports Execution_Control
begin

text \<open>
  What the router promises: the route it persists belongs to an eligible candidate that no other
  eligible candidate beats, and none is eligible while execution is halted or a live flag is set.
\<close>

section \<open>Candidates\<close>

lemma sort_key_Nil [simp]: "sort_key f xs = [] \<longleftrightarrow> xs = []"
  by (metis set_empty set_sort)

lemma is_routable_frame: "is_routable now p db = (db', b) \<Longrightarrow> db' = db\<lparr>rd_health := rd_health db'\<rparr>"
  by (auto simp: is_routable_def get_or_create_health_def Let_def split: option.splits prod.splits)

lemma generate_candidate_facts:
  assumes "generate_candidate S now p v r db = Inr (db1, c)"
  shows "db1 = db\<lparr>rd_health := rd_health db1\<rparr>" "rc_provider c = p" "rc_venue c = v"
    "rc_reasons c = [] \<Longrightarrow> provider_eligible S p (rq_mode r) \<and> venue_validate now v r db = Inr []"
proof -
  obtain dbh b where h: "is_routable now p db = (dbh, b)" by (cases "is_routable now p db")
  with assms obtain e vr where vr: "venue_validate now v r db = Inr vr" and dbh: "dbh = db1" and
    c: "c = \<lparr>rc_provider = p, rc_venue = v, rc_economics = e,
      rc_reasons = sort (remdups (governance_reasons S p (rq_mode r) @ broker_reasons now p v r db @ vr @
        governance_code (\<not> b \<and> ''PROVIDER_UNHEALTHY'' \<notin>
          set (governance_reasons S p (rq_mode r) @ broker_reasons now p v r db @ vr)) ''PROVIDER_UNHEALTHY'')),
      rc_score = - 1\<rparr>"
    by (auto simp: generate_candidate_def res_simps Let_def)
  show "db1 = db\<lparr>rd_health := rd_health db1\<rparr>" using is_routable_frame [OF h] dbh by simp
  show "rc_provider c = p" "rc_venue c = v" by (simp_all add: c)
  show "provider_eligible S p (rq_mode r) \<and> venue_validate now v r db = Inr []" if "rc_reasons c = []"
    using that vr by (simp add: c provider_eligible_def)
qed

lemma generate_candidates_facts:
  assumes "generate_candidates S now ps v r db = Inr (db', cs)"
  shows "db' = db\<lparr>rd_health := rd_health db'\<rparr> \<and>
     (\<forall>c \<in> set cs. rc_provider c \<in> set ps \<and> xp_mode (rc_provider c) = rq_mode r \<and> rc_venue c = v \<and>
        (rc_reasons c = [] \<longrightarrow> provider_eligible S (rc_provider c) (rq_mode r) \<and> venue_validate now v r db = Inr []))"
  using assms
proof (induction ps arbitrary: db cs)
  case (Cons p ps)
  show ?case
  proof (cases "xp_mode p = rq_mode r")
    case True
    with Cons.prems obtain db1 c cs1 where
      c: "generate_candidate S now p v r db = Inr (db1, c)" and
      cs: "generate_candidates S now ps v r db1 = Inr (db', cs1)" "cs = c # cs1"
      by (auto simp: res_simps)
    note f = generate_candidate_facts [OF c]
    have "venue_validate now v r db1 = venue_validate now v r db"
      by (subst f(1)) (simp add: venue_validate_def)
    moreover have "db1\<lparr>rd_health := h\<rparr> = db\<lparr>rd_health := h\<rparr>" for h by (subst f(1)) simp
    ultimately show ?thesis using Cons.IH [OF cs(1)] cs(2) f(2-) True by auto
  next
    case False
    with Cons show ?thesis by auto
  qed
qed simp

lemma score_candidate_facts:
  "score_candidate p c = Inr c' \<Longrightarrow>
     rc_provider c' = rc_provider c \<and> rc_venue c' = rc_venue c \<and> rc_reasons c' = rc_reasons c"
  by (auto simp: score_candidate_def res_simps split: if_splits)

lemma score_candidates_member:
  assumes "score_candidates p cs = Inr cs'" "c' \<in> set cs'"
  shows "\<exists>c \<in> set cs. rc_provider c' = rc_provider c \<and> rc_venue c' = rc_venue c \<and> rc_reasons c' = rc_reasons c"
  using assms
proof (induction cs arbitrary: cs')
  case (Cons c cs)
  then obtain d ds where "score_candidate p c = Inr d" "score_candidates p cs = Inr ds" "cs' = d # ds"
    by (auto simp: res_simps)
  with Cons.IH [of ds] Cons.prems(2) score_candidate_facts [of p c d] show ?case by auto
qed simp

section \<open>Selection\<close>

lemma select_route_Some:
  assumes "select_route cs = Some c"
  shows "c \<in> set cs" "rc_reasons c = []" "\<And>c'. c' \<in> set cs \<Longrightarrow> rc_reasons c' = [] \<Longrightarrow> route_key c \<le> route_key c'"
proof -
  from assms obtain t where t: "sort_key route_key (eligible_candidates cs) = c # t"
    by (auto simp: select_route_def split: list.splits)
  have s: "set (c # t) = {x \<in> set cs. rc_reasons x = []}"
    unfolding t [symmetric] by (simp add: eligible_candidates_def)
  then show "c \<in> set cs" "rc_reasons c = []" by auto
  fix c' assume "c' \<in> set cs" "rc_reasons c' = []"
  then have "c' = c \<or> c' \<in> set t" using s by auto
  moreover have "sorted (map route_key (c # t))" unfolding t [symmetric] by simp
  ultimately show "route_key c \<le> route_key c'" by auto
qed

lemma select_route_None: "select_route cs = None \<longleftrightarrow> (\<forall>c \<in> set cs. rc_reasons c \<noteq> [])"
proof -
  have "select_route cs = None \<longleftrightarrow> set (sort_key route_key (eligible_candidates cs)) = {}"
    unfolding select_route_def by (cases "sort_key route_key (eligible_candidates cs)") auto
  also have "\<dots> \<longleftrightarrow> (\<forall>c \<in> set cs. rc_reasons c \<noteq> [])"
    by (auto simp: eligible_candidates_def filter_empty_conv)
  finally show ?thesis .
qed

section \<open>Persistence\<close>

lemma add_candidate_facts:
  assumes "add_candidate E now d r c db = Inr db1"
  shows "\<exists>i n. db1 = db\<lparr>rd_candidates := rd_candidates db @ [candidate_record E now d r c i], ev_next := n\<rparr>"
  using assms by (auto simp: add_candidate_def save_candidate_def split: if_splits)

lemma add_candidates_facts:
  assumes "for_each (add_candidate E now d r) cs db = Inr db'"
  shows "\<exists>is n. length is = length cs \<and>
    db' = db\<lparr>rd_candidates := rd_candidates db @ map2 (candidate_record E now d r) cs is, ev_next := n\<rparr>"
  using assms
proof (induction cs arbitrary: db)
  case Nil
  then show ?case by (intro exI [of _ "[]"] exI [of _ "ev_next db"]) simp
next
  case (Cons c cs)
  then obtain db1 where 1: "add_candidate E now d r c db = Inr db1" and
    2: "for_each (add_candidate E now d r) cs db1 = Inr db'" by (auto simp: res_simps)
  from add_candidate_facts [OF 1] obtain i n where
    db1: "db1 = db\<lparr>rd_candidates := rd_candidates db @ [candidate_record E now d r c i], ev_next := n\<rparr>" by blast
  from Cons.IH [OF 2] obtain "is" m where "length is = length cs"
    "db' = db1\<lparr>rd_candidates := rd_candidates db1 @ map2 (candidate_record E now d r) cs is, ev_next := m\<rparr>" by blast
  with db1 show ?case by (intro exI [of _ "i # is"] exI [of _ m]) simp
qed

lemma route_correlation_frame: "route_correlation E r db = (db', c) \<Longrightarrow> db' = db\<lparr>ev_next := ev_next db'\<rparr>"
  by (auto simp: route_correlation_def split: option.splits)

lemma persist_route_facts:
  fixes db db' :: "'a route_db_scheme"
  assumes "persist_route E now subject r ord prior cs p selected db = Inr (db', d)"
  shows "\<exists>i is. d = decision_row E now subject r ord prior cs p selected i \<and> length is = length cs \<and>
     rd_decisions db' = rd_decisions db @ [d] \<and>
     rd_candidates db' = rd_candidates db @ map2 (candidate_record E now (rt_decision_id d) r) cs is \<and>
     length (rd_audits db') = Suc (length (rd_audits db)) \<and>
     length (ob_rows (ev_outbox db')) = length (ob_rows (ev_outbox db)) + (if selected = None then 0 else 1)"
proof -
  let ?d = "decision_row E now subject r ord prior cs p selected (fresh E db)"
  from assms obtain db1 db2 where 1: "save_decision ?d db = Inr db1" and
    2: "for_each (add_candidate E now (rt_decision_id ?d) r) cs db1 = Inr db2" and
    3: "(case route_correlation E r db2 of (db3, c) \<Rightarrow>
         Inr (route_event now r ?d selected c (route_audit E now r ?d selected c db3), ?d)) =
         (Inr (db', d) :: (foundation_error, 'a route_db_scheme \<times> routing_decision) res)"
    unfolding persist_route_def Let_def rbind_eq_Inr by blast
  obtain db3 c where c: "route_correlation E r db2 = (db3, c)" by (cases "route_correlation E r db2")
  with 3 have db': "db' = route_event now r ?d selected c (route_audit E now r ?d selected c db3)" and d: "d = ?d"
    by auto
  from 1 have db1: "db1 = db\<lparr>rd_decisions := rd_decisions db @ [?d], ev_next := Suc (ev_next db)\<rparr>"
    by (auto simp: save_decision_def split: if_splits)
  from add_candidates_facts [OF 2] obtain "is" n where "is": "length is = length cs" and
    db2: "db2 = db1\<lparr>rd_candidates := rd_candidates db1 @ map2 (candidate_record E now (rt_decision_id ?d) r) cs is,
      ev_next := n\<rparr>" by blast
  obtain m where db3: "db3 = db2\<lparr>ev_next := m\<rparr>" using route_correlation_frame [OF c] by blast
  show ?thesis
    by (rule exI [of _ "fresh E db"], rule exI [of _ "is"])
      (simp add: d "is" db' route_event_def route_audit_def db3 db2 db1 enqueue_event_def Let_def)
qed

lemma map2_member:
  assumes "length ys = length xs"
  shows "x \<in> set xs \<Longrightarrow> \<exists>y \<in> set ys. f x y \<in> set (map2 f xs ys)"
    and "z \<in> set (map2 f xs ys) \<Longrightarrow> \<exists>x \<in> set xs. \<exists>y. z = f x y"
  using assms by (induction ys xs rule: list_induct2) auto

lemma list_ex_map2:
  assumes "length ys = length xs" "\<And>x y. P (f x y) = Q x"
  shows "list_ex P (map2 f xs ys) = list_ex Q xs"
  using assms by (induction ys xs rule: list_induct2) auto

definition execution_blocked :: "execution_settings \<Rightarrow> bool" where
  "execution_blocked S \<longleftrightarrow> xs_all_execution_halted S \<or> xs_real_trading_enabled S \<or> xs_external_execution_enabled S \<or>
     xs_live_broker_routing_enabled S"

text \<open>What the governance asks of the provider of an eligible candidate, clause by clause.\<close>

definition safe_provider :: "string \<Rightarrow> execution_provider \<Rightarrow> bool" where
  "safe_provider mode p \<longleftrightarrow> mode \<noteq> ''LIVE'' \<and> xp_mode p = mode \<and> xp_environment p = mode \<and> xp_enabled p \<and>
     xp_health p = ''HEALTHY'' \<and> \<not> xp_live_supported p \<and> xp_governance_state p \<noteq> ''LIVE_APPROVED'' \<and>
     (mode = ''PAPER'' \<longrightarrow> xp_governance_state p \<in> {''PAPER_APPROVED'', ''PAPER_TECHNICALLY_CERTIFIED''})"

lemma provider_eligible_safe:
  "provider_eligible S p mode \<Longrightarrow> xp_mode p = mode \<Longrightarrow> safe_provider mode p \<and> \<not> execution_blocked S"
  by (auto simp: provider_eligible_def governance_reasons_def governance_code_def safe_provider_def execution_blocked_def
      split: if_splits)

lemma route_persisted:
  fixes db db' :: "'a route_db_scheme"
  assumes "route S E now subject r ord True prior ps v db = Inr (db', res)"
  shows "\<exists>p cs i is. let d = decision_row E now subject r ord prior cs p (select_route cs) i in
     (\<forall>c \<in> set cs. rc_provider c \<in> set ps \<and>
        (rc_reasons c = [] \<longrightarrow> safe_provider (rq_mode r) (rc_provider c) \<and> \<not> execution_blocked S)) \<and>
     length is = length cs \<and> rr_decision_id res = Some i \<and>
     rd_decisions db' = rd_decisions db @ [d] \<and>
     rd_candidates db' = rd_candidates db @ map2 (candidate_record E now i r) cs is \<and>
     length (rd_audits db') = Suc (length (rd_audits db)) \<and>
     length (ob_rows (ev_outbox db')) = length (ob_rows (ev_outbox db)) + (if select_route cs = None then 0 else 1)"
proof -
  from assms obtain db1 p db2 cs0 cs d res0 where
    p: "active_policy E now (rq_asset_class r) (rq_mode r) db = Inr (db1, p)" and
    g: "generate_candidates S now ps v r db1 = Inr (db2, cs0)" and
    s: "score_candidates p cs0 = Inr cs" and
    w: "persist_route E now subject r ord prior cs p (select_route cs) db2 = Inr (db', d)" and
    res: "res = res0\<lparr>rr_decision_id := Some (rt_decision_id d)\<rparr>"
    by (auto simp: route_def Let_def res_simps split: if_splits)
  have db1: "db1 = db \<or> db1 = db\<lparr>rd_policies := rd_policies db @ [p], ev_next := Suc (ev_next db)\<rparr>"
    using p by (auto simp: active_policy_def Let_def split: option.splits if_splits)
  note f = generate_candidates_facts [OF g]
  have frame: "rd_decisions db2 = rd_decisions db" "rd_candidates db2 = rd_candidates db"
    "rd_audits db2 = rd_audits db" "ev_outbox db2 = ev_outbox db"
    using db1 by (subst conjunct1 [OF f], auto)+
  from persist_route_facts [OF w] obtain i "is" where
    d: "d = decision_row E now subject r ord prior cs p (select_route cs) i" and
    rest: "length is = length cs" "rd_decisions db' = rd_decisions db2 @ [d]"
     "rd_candidates db' = rd_candidates db2 @ map2 (candidate_record E now (rt_decision_id d) r) cs is"
     "length (rd_audits db') = Suc (length (rd_audits db2))"
     "length (ob_rows (ev_outbox db')) = length (ob_rows (ev_outbox db2)) + (if select_route cs = None then 0 else 1)"
    by blast
  have "rc_provider c \<in> set ps \<and>
      (rc_reasons c = [] \<longrightarrow> safe_provider (rq_mode r) (rc_provider c) \<and> \<not> execution_blocked S)" if c: "c \<in> set cs" for c
    using score_candidates_member [OF s c] conjunct2 [OF f] by (metis provider_eligible_safe)
  moreover have "rt_decision_id d = i" by (simp add: d decision_row_def)
  ultimately show ?thesis using rest frame d res
    by (intro exI [of _ p] exI [of _ cs] exI [of _ i] exI [of _ "is"]) (simp add: Let_def)
qed

lemma candidate_record_simps:
  "cr_eligible (candidate_record E now i r c j) = (rc_reasons c = [])"
  "cr_provider (candidate_record E now i r c j) = xp_provider_id (rc_provider c)"
  "cr_score (candidate_record E now i r c j) = en_ratio_col E (rc_score c)"
  by (simp_all add: candidate_record_def Let_def)

lemma selected_row:
  assumes "select_route cs = Some b" "length is = length cs" "mono (en_ratio_col E)"
  shows "\<exists>j. candidate_record E now i r b j \<in> set (map2 (candidate_record E now i r) cs is)"
    and "\<forall>c \<in> set (map2 (candidate_record E now i r) cs is). cr_eligible c \<longrightarrow> cr_score c \<le> en_ratio_col E (rc_score b)"
proof -
  note b = select_route_Some [OF assms(1)]
  show "\<exists>j. candidate_record E now i r b j \<in> set (map2 (candidate_record E now i r) cs is)"
    using map2_member(1) [OF assms(2) b(1), of "candidate_record E now i r"] by blast
  show "\<forall>c \<in> set (map2 (candidate_record E now i r) cs is). cr_eligible c \<longrightarrow> cr_score c \<le> en_ratio_col E (rc_score b)"
  proof (intro ballI impI)
    fix c assume "c \<in> set (map2 (candidate_record E now i r) cs is)" "cr_eligible c"
    with map2_member(2) [OF assms(2) this(1)] obtain x k where
      x: "x \<in> set cs" "c = candidate_record E now i r x k" "rc_reasons x = []" by (auto simp: candidate_record_simps)
    with b(3) [of x] have "rc_score x \<le> rc_score b" by (auto simp: route_key_def)
    with x(2) show "cr_score c \<le> en_ratio_col E (rc_score b)" using assms(3) by (simp add: candidate_record_simps monoD)
  qed
qed

text \<open>
  C40. The router persists one decision with one row per candidate and one audit row. It is SELECTED
  exactly when some candidate is eligible, and then an event goes out and the decision names the
  provider of an eligible candidate whose stored score no other eligible candidate exceeds and which
  satisfies every clause of the governance; with execution halted or a live flag set it is DENIED.
\<close>

theorem route_selects_best_eligible:
  fixes db db' :: "'a route_db_scheme"
  assumes "route S E now subject r ord True prior ps v db = Inr (db', res)" "mono (en_ratio_col E)"
  shows "\<exists>d rows. rd_decisions db' = rd_decisions db @ [d] \<and> rd_candidates db' = rd_candidates db @ rows \<and>
     rr_decision_id res = Some (rt_decision_id d) \<and>
     length (rd_audits db') = Suc (length (rd_audits db)) \<and>
     length (ob_rows (ev_outbox db')) = length (ob_rows (ev_outbox db)) + (if rt_status d = ''SELECTED'' then 1 else 0) \<and>
     rt_status d = (if list_ex cr_eligible rows then ''SELECTED'' else ''DENIED'') \<and>
     (rt_status d = ''SELECTED'' \<longrightarrow>
        \<not> execution_blocked S \<and>
        (\<exists>c \<in> set rows. cr_eligible c \<and> rt_selected_provider_id d = cr_provider c \<and>
           rt_selected_score d = Some (cr_score c) \<and>
           (\<forall>c' \<in> set rows. cr_eligible c' \<longrightarrow> cr_score c' \<le> cr_score c) \<and>
           (\<exists>p \<in> set ps. xp_provider_id p = cr_provider c \<and> safe_provider (rq_mode r) p)))"
proof -
  from route_persisted [OF assms(1)] obtain p cs i "is" where
    cs: "\<And>c. c \<in> set cs \<Longrightarrow> rc_provider c \<in> set ps"
      "\<And>c. c \<in> set cs \<Longrightarrow> rc_reasons c = [] \<Longrightarrow> safe_provider (rq_mode r) (rc_provider c) \<and> \<not> execution_blocked S" and
    "is": "length is = length cs" and
    db': "rr_decision_id res = Some i"
      "rd_decisions db' = rd_decisions db @ [decision_row E now subject r ord prior cs p (select_route cs) i]"
      "rd_candidates db' = rd_candidates db @ map2 (candidate_record E now i r) cs is"
      "length (rd_audits db') = Suc (length (rd_audits db))"
      "length (ob_rows (ev_outbox db')) = length (ob_rows (ev_outbox db)) + (if select_route cs = None then 0 else 1)"
    unfolding Let_def by blast
  let ?d = "decision_row E now subject r ord prior cs p (select_route cs) i"
  let ?rows = "map2 (candidate_record E now i r) cs is"
  have "list_ex cr_eligible ?rows \<longleftrightarrow> select_route cs \<noteq> None"
    using list_ex_map2 [OF "is", of cr_eligible "candidate_record E now i r" "\<lambda>c. rc_reasons c = []"]
    by (auto simp: candidate_record_simps list_ex_iff select_route_None)
  then have status: "rt_status ?d = (if list_ex cr_eligible ?rows then ''SELECTED'' else ''DENIED'')"
    and di: "rt_decision_id ?d = i" and sel: "rt_status ?d = ''SELECTED'' \<longleftrightarrow> select_route cs \<noteq> None"
    by (simp_all add: decision_row_def)
  show ?thesis
  proof (intro exI [of _ ?d] exI [of _ ?rows] conjI impI)
    assume "rt_status ?d = ''SELECTED''"
    with sel obtain b where b: "select_route cs = Some b" by blast
    note c = select_route_Some [OF b] and best = selected_row [OF b "is" assms(2), of now i r]
    show "\<not> execution_blocked S" using c(1,2) cs(2) by blast
    from best(1) obtain j where j: "candidate_record E now i r b j \<in> set ?rows" by blast
    have "rt_selected_provider_id ?d = xp_provider_id (rc_provider b)" "rt_selected_score ?d = Some (en_ratio_col E (rc_score b))"
      by (simp_all add: decision_row_def b)
    then show "\<exists>c \<in> set ?rows. cr_eligible c \<and> rt_selected_provider_id ?d = cr_provider c \<and>
        rt_selected_score ?d = Some (cr_score c) \<and> (\<forall>c' \<in> set ?rows. cr_eligible c' \<longrightarrow> cr_score c' \<le> cr_score c) \<and>
        (\<exists>p \<in> set ps. xp_provider_id p = cr_provider c \<and> safe_provider (rq_mode r) p)"
      using best(2) c(1,2) cs by (intro bexI [OF _ j]) (auto simp: candidate_record_simps)
  next
    show "length (ob_rows (ev_outbox db')) = length (ob_rows (ev_outbox db)) + (if rt_status ?d = ''SELECTED'' then 1 else 0)"
      unfolding sel using db'(5) by simp
  qed (use db' status di in simp_all)
qed

section \<open>A retired policy\<close>

text \<open>
  The code of a fixture policy and its version are unique: once the row is no longer active, no new
  one can be created and routing of its asset class and mode raises.
\<close>

lemma retired_policy_raises:
  assumes "rq_mode r \<noteq> ''LIVE''" "q \<in> set (rd_policies db)"
    "bp_code q = ''fixture-'' @ lower (rq_asset_class r) @ ''-'' @ lower (rq_mode r)"
    "bp_policy_version q = ''best-execution-technical-v2''"
    "\<forall>p \<in> set (rd_policies db). bp_asset_class p = rq_asset_class r \<longrightarrow> bp_mode p = rq_mode r \<longrightarrow> bp_status p \<noteq> ''ACTIVE''"
  shows "route S E now subject r ord persist prior ps v db =
    Inl (FDbError (IntegrityError ''best_execution_policy_version_unique''))"
proof -
  have none: "filter (\<lambda>p. bp_asset_class p = rq_asset_class r \<and> bp_mode p = rq_mode r \<and> bp_status p = ''ACTIVE'' \<and>
      bp_effective_from p \<le> now \<and> bp_effective_to p = None) (rd_policies db) = []"
    using assms(5) by (auto simp: filter_empty_conv)
  have "\<exists>q \<in> set (rd_policies db). bp_code q = bp_code (fixture_policy E now (rq_asset_class r) (rq_mode r) db) \<and>
      bp_policy_version q = bp_policy_version (fixture_policy E now (rq_asset_class r) (rq_mode r) db)"
    using assms(2,3,4) by (intro bexI [of _ q]) (simp_all add: fixture_policy_def)
  then have "active_policy E now (rq_asset_class r) (rq_mode r) db =
      Inl (FDbError (IntegrityError ''best_execution_policy_version_unique''))"
    unfolding active_policy_def none by (simp add: Let_def)
  with assms(1) show ?thesis by (simp add: route_def)
qed

section \<open>Circuit breaker and halts\<close>

lemma provider_failure_opens:
  assumes "record_provider_failure now p db = (db', p')" "2 \<le> xp_consecutive_failures p"
  shows "\<not> provider_eligible S p' mode" "is_routable later p' db' = (db', False)"
proof -
  obtain dbh h where g: "get_or_create_health (p\<lparr>xp_consecutive_failures := Suc (xp_consecutive_failures p),
      xp_updated_at := now, xp_health := ''UNAVAILABLE'', xp_circuit_open_until := Some (now + seconds 30)\<rparr>) ''UNKNOWN''
     (save_provider (p\<lparr>xp_consecutive_failures := Suc (xp_consecutive_failures p),
      xp_updated_at := now, xp_health := ''UNAVAILABLE'', xp_circuit_open_until := Some (now + seconds 30)\<rparr>) db) = (dbh, h)"
    by (metis surj_pair)
  have h: "ph_provider h = xp_provider_id p" "obj_first (\<lambda>x. ph_provider x = xp_provider_id p) (rd_health dbh) = Some h"
    using g by (auto simp: get_or_create_health_def health_row_def obj_first_append dest: obj_first_Some split: option.splits)
  from assms g have p': "p' = p\<lparr>xp_consecutive_failures := Suc (xp_consecutive_failures p), xp_updated_at := now,
      xp_health := ''UNAVAILABLE'', xp_circuit_open_until := Some (now + seconds 30)\<rparr>"
    and db': "db' = save_health (h\<lparr>ph_state := ''UNAVAILABLE'', ph_circuit_state := ''OPEN'', ph_last_failure_at := Some now\<rparr>) dbh"
    by (auto simp: record_provider_failure_def Let_def)
  show "\<not> provider_eligible S p' mode"
    by (simp add: p' provider_eligible_def governance_reasons_def governance_code_def)
  show "is_routable later p' db' = (db', False)"
    using h by (simp add: p' db' is_routable_def get_or_create_health_def save_health_def obj_first_upd_where health_state_def)
qed

section \<open>A concrete route\<close>

definition route_py :: py_env where
  "route_py = \<lparr>en_sha = (\<lambda>s. ''''), en_uuid4 = (\<lambda>n. n), en_uuid5 = (\<lambda>s. 0), en_dtext = (\<lambda>x. ''0''),
     en_iso_date = (\<lambda>d. ''''), en_iso_time = (\<lambda>t. ''''), en_col = (\<lambda>x. x), en_ratio_col = (\<lambda>x. x)\<rparr>"

definition route_demo_capability :: "uuid \<Rightarrow> string \<Rightarrow> string \<Rightarrow> provider_capability" where
  "route_demo_capability i p c = \<lparr>pc_id = i, pc_provider = p, pc_asset_class = ''CRYPTO'', pc_venue = Some ''BEYVRA-SIM'',
     pc_capability_type = c, pc_enabled = True, pc_source_version = ''fixture-v1'', pc_effective_from = 0,
     pc_effective_to = None, pc_verified_at = 0\<rparr>"

text \<open>The two paper providers with the capabilities for a day market order.\<close>

definition route_demo :: route_db where
  "route_demo = \<lparr>ev_outbox = \<lparr>ob_next_pk = 1, ob_next_uuid = 900, ob_rows = []\<rparr>, ev_next = 500,
     rd_providers = map (fixture_provider 0) fixture_providers, rd_venues = [fixture_venue],
     rd_capabilities = [route_demo_capability 1 ''paper-a'' ''MARKET_ORDER'', route_demo_capability 2 ''paper-a'' ''DAY'',
                        route_demo_capability 3 ''paper-b'' ''MARKET_ORDER'', route_demo_capability 4 ''paper-b'' ''DAY''],
     rd_venue_capabilities = [\<lparr>vc_id = 5, vc_venue = ''BEYVRA-SIM'', vc_asset_class = ''CRYPTO'', vc_order_type = ''MARKET'',
       vc_time_in_force = ''DAY'', vc_minimum_quantity = 1 / 10000, vc_quantity_increment = 1 / 10000,
       vc_price_increment = 1 / 100, vc_effective_from = 0, vc_effective_to = None, vc_source_version = ''fixture-v1''\<rparr>],
     rd_policies = [], rd_health = [], rd_decisions = [], rd_candidates = [], rd_executions = [], rd_outcomes = [],
     rd_orders = [], rd_audits = []\<rparr>"

definition route_demo_request :: route_request where
  "route_demo_request = \<lparr>rq_instrument_id = ''BTC-USD'', rq_side = ''BUY'', rq_order_type = ''MARKET'', rq_quantity = 2,
     rq_reference_price = 100, rq_mode = ''PAPER'', rq_asset_class = ''CRYPTO'', rq_time_in_force = ''DAY'',
     rq_limit_price = None, rq_market_snapshot_hash = '''', rq_pricing_snapshot_hash = '''', rq_risk_snapshot_hash = '''',
     rq_correlation_id = Some 7\<rparr>"

definition route_demo_settings :: execution_settings where
  "route_demo_settings = \<lparr>xs_all_execution_halted = False, xs_real_trading_enabled = False,
     xs_external_execution_enabled = False, xs_live_broker_routing_enabled = False, xs_fix_live_session_enabled = False,
     xs_paper_trading_allowed = True, xs_simulation_allowed = True\<rparr>"

lemma rnd_on_grid: "x * 10 ^ 18 = of_int \<lfloor>x * 10 ^ 18\<rfloor> \<Longrightarrow> \<bar>x\<bar> < 10 ^ 10 \<Longrightarrow> rnd x = x"
  by (rule grid_rnd) (simp add: grid_def, metis Ints_of_int)




lemma provider_constants_a: "provider_constants ''paper-a'' = Some (- 2 / 10000, 15 / 10000, 10, 92 / 100)"
  and provider_constants_b: "provider_constants ''paper-b'' = Some (1 / 10000, 5 / 10000, 25, 98 / 100)"
  by (simp_all add: provider_constants_def)

lemma demo_route_provider: "xp_provider_id (fixture_provider t (i, m, n)) = i" by (simp add: fixture_provider_def)
lemma demo_route_request: "rq_reference_price route_demo_request = 100" "rq_quantity route_demo_request = 2"
  "rq_side route_demo_request = ''BUY''" by (simp_all add: route_demo_request_def)

lemma demo_route_economics_a:
  "economics_of (fixture_provider 0 (''paper-a'', ''PAPER'', 20)) route_demo_request =
     Inr \<lparr>ec_expected_price = 4999 / 50, ec_expected_fee = 14997 / 50000, ec_expected_slippage = 1 / 50,
       ec_available_quantity = 2, ec_fill_probability = 23 / 25, ec_latency_ms = 10, ec_price_score = 4999 / 5000,
       ec_fee_score = 9985003 / 10000000, ec_latency_score = 99 / 100, ec_fill_score = 23 / 25, ec_liquidity_score = 1,
       ec_reliability_score = 23 / 25, ec_impact_score = 1\<rparr>"
  unfolding economics_of_def demo_route_provider provider_constants_a option.case prod.case demo_route_request Let_def dec_ops
  by (simp add: rnd_on_grid)

lemma demo_route_economics_b:
  "economics_of (fixture_provider 0 (''paper-b'', ''PAPER'', 30)) route_demo_request =
     Inr \<lparr>ec_expected_price = 10001 / 100, ec_expected_fee = 10001 / 100000, ec_expected_slippage = 1 / 100,
       ec_available_quantity = 2, ec_fill_probability = 49 / 50, ec_latency_ms = 25, ec_price_score = 9999 / 10000,
       ec_fee_score = 9994999500 / 10000000000, ec_latency_score = 39 / 40, ec_fill_score = 49 / 50, ec_liquidity_score = 1,
       ec_reliability_score = 49 / 50, ec_impact_score = 1\<rparr>"
  unfolding economics_of_def demo_route_provider provider_constants_b option.case prod.case demo_route_request Let_def dec_ops
  by (simp add: rnd_on_grid)


abbreviation demo_route_a where "demo_route_a \<equiv> fixture_provider 0 (''paper-a'', ''PAPER'', 20)"
abbreviation demo_route_b where "demo_route_b \<equiv> fixture_provider 0 (''paper-b'', ''PAPER'', 30)"
abbreviation demo_route_db where "demo_route_db P n H \<equiv> route_demo\<lparr>rd_policies := P, ev_next := n, rd_health := H\<rparr>"

lemma demo_route_venue: "venue_validate 3 fixture_venue route_demo_request (demo_route_db P n H) = Inr []"
  by (simp add: venue_validate_def fixture_venue_def route_demo_def route_demo_request_def quantity_reasons_def price_reasons_def dmod_def dec_truncate_def prec_def)

lemma demo_route_broker: "broker_reasons 3 demo_route_a fixture_venue route_demo_request (demo_route_db P n H) = []"
  "broker_reasons 3 demo_route_b fixture_venue route_demo_request (demo_route_db P n H) = []"
  by (simp_all add: broker_reasons_def broker_supports_def governance_code_def route_demo_def route_demo_capability_def
      fixture_provider_def fixture_venue_def route_demo_request_def)

lemma demo_route_governance: "governance_reasons route_demo_settings demo_route_a ''PAPER'' = []"
  "governance_reasons route_demo_settings demo_route_b ''PAPER'' = []"
  by (simp_all add: governance_reasons_def governance_code_def route_demo_settings_def fixture_provider_def)

lemma demo_route_routable:
  "is_routable 3 demo_route_a (demo_route_db P n []) = (demo_route_db P n [health_row demo_route_a ''HEALTHY''], True)"
  "is_routable 3 demo_route_b (demo_route_db P n [health_row demo_route_a ''HEALTHY'']) =
     (demo_route_db P n [health_row demo_route_a ''HEALTHY'', health_row demo_route_b ''HEALTHY''], True)"
  by (simp_all add: is_routable_def get_or_create_health_def health_row_def health_state_def fixture_provider_def)

definition demo_route_candidate where
  "demo_route_candidate p e s = \<lparr>rc_provider = p, rc_venue = fixture_venue, rc_economics = e, rc_reasons = [], rc_score = s\<rparr>"

lemma demo_route_mode: "rq_mode route_demo_request = ''PAPER''" "xp_mode demo_route_a = ''PAPER''" "xp_mode demo_route_b = ''PAPER''"
  "xp_mode (fixture_provider 0 (''simulation'', ''SIMULATION'', 10)) = ''SIMULATION''"
  by (simp_all add: route_demo_request_def fixture_provider_def)

lemma demo_route_candidates:
  "generate_candidates route_demo_settings 3 (map (fixture_provider 0) fixture_providers) fixture_venue route_demo_request
     (demo_route_db P n []) =
   Inr (demo_route_db P n [health_row demo_route_a ''HEALTHY'', health_row demo_route_b ''HEALTHY''],
     [demo_route_candidate demo_route_a (projr (economics_of demo_route_a route_demo_request)) (- 1),
      demo_route_candidate demo_route_b (projr (economics_of demo_route_b route_demo_request)) (- 1)])"
  by (simp add: fixture_providers_def demo_route_mode generate_candidate_def demo_route_economics_a demo_route_economics_b demo_route_venue
      demo_route_broker demo_route_governance demo_route_routable demo_route_candidate_def governance_code_def)

lemma demo_route_score:
  "score_candidates (fixture_policy route_py 3 ''CRYPTO'' ''PAPER'' route_demo)
     [demo_route_candidate demo_route_a (projr (economics_of demo_route_a route_demo_request)) (- 1),
      demo_route_candidate demo_route_b (projr (economics_of demo_route_b route_demo_request)) (- 1)] =
   Inr [demo_route_candidate demo_route_a (projr (economics_of demo_route_a route_demo_request)) (97863006 / 100000000),
      demo_route_candidate demo_route_b (projr (economics_of demo_route_b route_demo_request)) (99236499 / 100000000)]"
  by (simp add: score_candidate_def demo_route_candidate_def demo_route_economics_a demo_route_economics_b policy_score_def fixture_policy_def
     dec_ops rnd_on_grid quantize8_def half_even_def Let_def prec_def)


lemma demo_route_select:
  "select_route [demo_route_candidate demo_route_a ea (97863006 / 100000000), demo_route_candidate demo_route_b eb (99236499 / 100000000)] =
     Some (demo_route_candidate demo_route_b eb (99236499 / 100000000))"
  by (simp add: select_route_def eligible_candidates_def demo_route_candidate_def route_key_def)

lemma demo_route_policy:
  "active_policy route_py 3 ''CRYPTO'' ''PAPER'' route_demo =
     Inr (demo_route_db [fixture_policy route_py 3 ''CRYPTO'' ''PAPER'' route_demo] 501 [],
          fixture_policy route_py 3 ''CRYPTO'' ''PAPER'' route_demo)"
  by (simp add: active_policy_def route_demo_def fixture_policy_def fresh_def Let_def)

lemma demo_route_tables: "rd_decisions route_demo = []" "rd_candidates route_demo = []" "en_uuid4 route_py n = n"
  "rq_correlation_id route_demo_request = Some 7" "cr_id (candidate_record E now i r c j) = j"
  by (simp_all add: route_demo_def route_py_def route_demo_request_def candidate_record_def Let_def)

lemma demo_route_result:
  "\<exists>db' res d. route route_demo_settings route_py 3 ''8'' route_demo_request None True None
       (map (fixture_provider 0) fixture_providers) fixture_venue route_demo = Inr (db', res) \<and>
     rd_decisions db' = [d] \<and> rt_selected_provider_id d = ''paper-b'' \<and> rt_status d = ''SELECTED''"
proof -
  let ?p = "fixture_policy route_py 3 ''CRYPTO'' ''PAPER'' route_demo"
  let ?c = "demo_route_candidate demo_route_b (projr (economics_of demo_route_b route_demo_request)) (99236499 / 100000000)"
  let ?cs = "[demo_route_candidate demo_route_a (projr (economics_of demo_route_a route_demo_request)) (97863006 / 100000000), ?c]"
  let ?db = "demo_route_db [?p] 501 [health_row demo_route_a ''HEALTHY'', health_row demo_route_b ''HEALTHY'']"
  have asset: "rq_asset_class route_demo_request = ''CRYPTO''" by (simp add: route_demo_request_def)
  have "\<exists>db' d. persist_route route_py 3 ''8'' route_demo_request None None ?cs ?p (Some ?c) ?db = Inr (db', d)"
    by (simp add: persist_route_def Let_def save_decision_def add_candidate_def save_candidate_def demo_route_tables
        route_correlation_def fresh_def)
  then obtain db' d where w: "persist_route route_py 3 ''8'' route_demo_request None None ?cs ?p (Some ?c) ?db = Inr (db', d)"
    by blast
  from persist_route_facts [OF w] have d: "rd_decisions db' = [d]" "rt_selected_provider_id d = ''paper-b''" "rt_status d = ''SELECTED''"
    by (auto simp: decision_row_def route_demo_def demo_route_candidate_def fixture_provider_def)
  have "\<exists>res. route route_demo_settings route_py 3 ''8'' route_demo_request None True None
       (map (fixture_provider 0) fixture_providers) fixture_venue route_demo = Inr (db', res)"
    unfolding route_def demo_route_mode asset demo_route_policy rbind_Inr prod.case demo_route_candidates demo_route_score demo_route_select Let_def w
    by simp
  with d show ?thesis by blast
qed

theorem route_selects_best_eligible_witness:
  "\<exists>db' res d rows. route route_demo_settings route_py 3 ''8'' route_demo_request None True None
       (map (fixture_provider 0) fixture_providers) fixture_venue route_demo = Inr (db', res) \<and>
     rd_decisions db' = [d] \<and> rt_status d = ''SELECTED'' \<and> rt_selected_provider_id d = ''paper-b'' \<and>
     rd_candidates db' = rows \<and> length (ob_rows (ev_outbox db')) = 1 \<and> list_ex (\<lambda>c. cr_provider c = ''paper-b'') rows"
proof -
  from demo_route_result obtain db' res d where
    r: "route route_demo_settings route_py 3 ''8'' route_demo_request None True None
       (map (fixture_provider 0) fixture_providers) fixture_venue route_demo = Inr (db', res)" and
    d: "rd_decisions db' = [d]" "rt_selected_provider_id d = ''paper-b''" "rt_status d = ''SELECTED''"
    by blast
  have "mono (en_ratio_col route_py)" by (simp add: route_py_def mono_def)
  from route_selects_best_eligible [OF r this] obtain rows where
    rows: "rd_candidates db' = rd_candidates route_demo @ rows"
      "length (ob_rows (ev_outbox db')) = length (ob_rows (ev_outbox route_demo)) + 1" and
    c: "\<exists>c \<in> set rows. ''paper-b'' = cr_provider c"
    using d by (auto simp: demo_route_tables)
  from c have "list_ex (\<lambda>c. cr_provider c = ''paper-b'') rows" by (auto simp: list_ex_iff)
  moreover have "ob_rows (ev_outbox route_demo) = []" by (simp add: route_demo_def)
  ultimately show ?thesis using r d rows by (simp add: demo_route_tables)
qed

end
