(* ===== verification/Compliance.thy ===== *)
theory Compliance
  imports Trading_Orders Post_Trade
begin

text \<open>
  The compliance application, \<open>apps/compliance\<close>: the enumerations of \<open>domain.py\<close>, the rows of
  \<open>models.py\<close> and every operation of \<open>services.py\<close>: effective states, eligibility decisions, the
  transitions of the four controls and of the account, restrictions, cases, and overrides with a
  maker and a checker. Identifiers inside a control text are in canonical form.
\<close>

section \<open>Enumerations\<close>

datatype compliance_account = CcPending | CcActive | CcRestricted | CcSuspended | CcClosed

datatype compliance_kyc =
    CkNotStarted | CkPending | CkInReview | CkApproved | CkRejected | CkExpired | CkRequiresUpdate

datatype compliance_aml = CaNotScreened | CaPending | CaCleared | CaReviewRequired | CaBlocked

datatype compliance_sanctions = CsNotChecked | CsClear | CsPossibleMatch | CsConfirmedMatch | CsManualReview

datatype compliance_jurisdiction = CjSupported | CjLimited | CjRestricted | CjUnknown

datatype eligibility_result = EligAllowed | EligDenied | EligReviewRequired

datatype restriction_type =
    RstTradingDisabled | RstDepositsDisabled | RstWithdrawalsDisabled | RstTransfersDisabled
  | RstMarketDataLimited | RstAccountReadOnly | RstManualReviewRequired

datatype compliance_capability = CapTrading | CapDeposit | CapWithdrawal | CapTransfer

fun account_text :: "compliance_account \<Rightarrow> string" where
  "account_text CcPending = ''PENDING''"
| "account_text CcActive = ''ACTIVE''"
| "account_text CcRestricted = ''RESTRICTED''"
| "account_text CcSuspended = ''SUSPENDED''"
| "account_text CcClosed = ''CLOSED''"

fun kyc_text :: "compliance_kyc \<Rightarrow> string" where
  "kyc_text CkNotStarted = ''NOT_STARTED''"
| "kyc_text CkPending = ''PENDING''"
| "kyc_text CkInReview = ''IN_REVIEW''"
| "kyc_text CkApproved = ''APPROVED''"
| "kyc_text CkRejected = ''REJECTED''"
| "kyc_text CkExpired = ''EXPIRED''"
| "kyc_text CkRequiresUpdate = ''REQUIRES_UPDATE''"

fun aml_text :: "compliance_aml \<Rightarrow> string" where
  "aml_text CaNotScreened = ''NOT_SCREENED''"
| "aml_text CaPending = ''PENDING''"
| "aml_text CaCleared = ''CLEARED''"
| "aml_text CaReviewRequired = ''REVIEW_REQUIRED''"
| "aml_text CaBlocked = ''BLOCKED''"

fun sanctions_text :: "compliance_sanctions \<Rightarrow> string" where
  "sanctions_text CsNotChecked = ''NOT_CHECKED''"
| "sanctions_text CsClear = ''CLEAR''"
| "sanctions_text CsPossibleMatch = ''POSSIBLE_MATCH''"
| "sanctions_text CsConfirmedMatch = ''CONFIRMED_MATCH''"
| "sanctions_text CsManualReview = ''MANUAL_REVIEW''"

fun jurisdiction_text :: "compliance_jurisdiction \<Rightarrow> string" where
  "jurisdiction_text CjSupported = ''SUPPORTED''"
| "jurisdiction_text CjLimited = ''LIMITED''"
| "jurisdiction_text CjRestricted = ''RESTRICTED''"
| "jurisdiction_text CjUnknown = ''UNKNOWN''"

fun eligibility_text :: "eligibility_result \<Rightarrow> string" where
  "eligibility_text EligAllowed = ''ALLOWED''"
| "eligibility_text EligDenied = ''DENIED''"
| "eligibility_text EligReviewRequired = ''REVIEW_REQUIRED''"

fun restriction_text :: "restriction_type \<Rightarrow> string" where
  "restriction_text RstTradingDisabled = ''TRADING_DISABLED''"
| "restriction_text RstDepositsDisabled = ''DEPOSITS_DISABLED''"
| "restriction_text RstWithdrawalsDisabled = ''WITHDRAWALS_DISABLED''"
| "restriction_text RstTransfersDisabled = ''TRANSFERS_DISABLED''"
| "restriction_text RstMarketDataLimited = ''MARKET_DATA_LIMITED''"
| "restriction_text RstAccountReadOnly = ''ACCOUNT_READ_ONLY''"
| "restriction_text RstManualReviewRequired = ''MANUAL_REVIEW_REQUIRED''"

fun capability_text :: "compliance_capability \<Rightarrow> string" where
  "capability_text CapTrading = ''TRADING''"
| "capability_text CapDeposit = ''DEPOSIT''"
| "capability_text CapWithdrawal = ''WITHDRAWAL''"
| "capability_text CapTransfer = ''TRANSFER''"

text \<open>\<open>KycState(text)\<close> and its like: the member with that value, or \<open>ValueError\<close>.\<close>

definition member_of :: "('k \<Rightarrow> string) \<Rightarrow> 'k list \<Rightarrow> string \<Rightarrow> (foundation_error, 'k) res" where
  "member_of text members s =
     (case find (\<lambda>k. text k = s) members of None \<Rightarrow> Inl (FPyError ''ValueError'') | Some k \<Rightarrow> Inr k)"

definition kyc_of :: "string \<Rightarrow> (foundation_error, compliance_kyc) res" where
  "kyc_of = member_of kyc_text
     [CkNotStarted, CkPending, CkInReview, CkApproved, CkRejected, CkExpired, CkRequiresUpdate]"

definition aml_of :: "string \<Rightarrow> (foundation_error, compliance_aml) res" where
  "aml_of = member_of aml_text [CaNotScreened, CaPending, CaCleared, CaReviewRequired, CaBlocked]"

definition sanctions_of :: "string \<Rightarrow> (foundation_error, compliance_sanctions) res" where
  "sanctions_of = member_of sanctions_text [CsNotChecked, CsClear, CsPossibleMatch, CsConfirmedMatch, CsManualReview]"

definition jurisdiction_of :: "string \<Rightarrow> (foundation_error, compliance_jurisdiction) res" where
  "jurisdiction_of = member_of jurisdiction_text [CjSupported, CjLimited, CjRestricted, CjUnknown]"

definition account_of :: "string \<Rightarrow> (foundation_error, compliance_account) res" where
  "account_of = member_of account_text [CcPending, CcActive, CcRestricted, CcSuspended, CcClosed]"

definition compliance_reason_codes :: "string list" where
  "compliance_reason_codes = [''KYC_REQUIRED'', ''KYC_PENDING'', ''KYC_REJECTED'', ''AML_REVIEW'', ''AML_BLOCKED'',
     ''SANCTIONS_REVIEW'', ''SANCTIONS_BLOCKED'', ''JURISDICTION_RESTRICTED'', ''ACCOUNT_RESTRICTED'',
     ''ACCOUNT_SUSPENDED'', ''TRADING_DISABLED'', ''DEPOSITS_DISABLED'', ''WITHDRAWALS_DISABLED'',
     ''TRANSFERS_DISABLED'', ''MANUAL_REVIEW_REQUIRED'']"

section \<open>Transition tables\<close>

fun kyc_transitions :: "compliance_kyc \<Rightarrow> compliance_kyc set" where
  "kyc_transitions CkNotStarted = {CkPending}"
| "kyc_transitions CkPending = {CkInReview, CkRejected}"
| "kyc_transitions CkInReview = {CkApproved, CkRejected, CkRequiresUpdate}"
| "kyc_transitions CkApproved = {CkExpired, CkRequiresUpdate}"
| "kyc_transitions CkRejected = {CkPending}"
| "kyc_transitions CkExpired = {CkPending, CkRequiresUpdate}"
| "kyc_transitions CkRequiresUpdate = {CkPending, CkInReview}"

fun aml_transitions :: "compliance_aml \<Rightarrow> compliance_aml set" where
  "aml_transitions CaNotScreened = {CaPending}"
| "aml_transitions CaPending = {CaCleared, CaReviewRequired, CaBlocked}"
| "aml_transitions CaCleared = {CaPending, CaReviewRequired, CaBlocked}"
| "aml_transitions CaReviewRequired = {CaPending, CaCleared, CaBlocked}"
| "aml_transitions CaBlocked = {CaReviewRequired}"

fun sanctions_transitions :: "compliance_sanctions \<Rightarrow> compliance_sanctions set" where
  "sanctions_transitions CsNotChecked = {CsManualReview, CsPossibleMatch, CsConfirmedMatch, CsClear}"
| "sanctions_transitions CsClear = {CsManualReview, CsPossibleMatch, CsConfirmedMatch}"
| "sanctions_transitions CsPossibleMatch = {CsManualReview, CsConfirmedMatch, CsClear}"
| "sanctions_transitions CsConfirmedMatch = {CsManualReview}"
| "sanctions_transitions CsManualReview = {CsPossibleMatch, CsConfirmedMatch, CsClear}"

fun account_transitions :: "compliance_account \<Rightarrow> compliance_account set" where
  "account_transitions CcPending = {CcActive, CcRestricted, CcSuspended, CcClosed}"
| "account_transitions CcActive = {CcRestricted, CcSuspended, CcClosed}"
| "account_transitions CcRestricted = {CcActive, CcSuspended, CcClosed}"
| "account_transitions CcSuspended = {CcRestricted, CcClosed}"
| "account_transitions CcClosed = {}"

section \<open>Rows\<close>

record compliance_profile =
  cpf_account_id :: uuid
  cpf_organization :: uuid
  cpf_user :: nat
  cpf_account_state :: compliance_account
  cpf_kyc_state :: compliance_kyc
  cpf_aml_state :: compliance_aml
  cpf_sanctions_state :: compliance_sanctions
  cpf_jurisdiction_state :: compliance_jurisdiction
  cpf_jurisdiction_evidence_ref :: string
  cpf_kyc_evidence_ref :: string
  cpf_aml_evidence_ref :: string
  cpf_sanctions_evidence_ref :: string
  cpf_kyc_expires_at :: "timestamp option"
  cpf_kyc_next_review_at :: "timestamp option"
  cpf_aml_next_review_at :: "timestamp option"
  cpf_jurisdiction_next_review_at :: "timestamp option"
  cpf_version :: nat
  cpf_updated_at :: timestamp

record account_restriction =
  ars_id :: uuid
  ars_account :: uuid
  ars_type :: restriction_type
  ars_reason_code :: string
  ars_source :: string
  ars_created_at :: timestamp
  ars_expires_at :: "timestamp option"
  ars_created_by :: nat
  ars_active :: bool

record compliance_case =
  cca_id :: uuid
  cca_account :: uuid
  cca_case_type :: string
  cca_status :: string
  cca_priority :: string
  cca_reason_codes :: "string list"
  cca_assigned_to :: "nat option"
  cca_created_at :: timestamp
  cca_updated_at :: timestamp
  cca_resolved_at :: "timestamp option"
  cca_resolution :: string

record compliance_case_event =
  cce_id :: uuid
  cce_case :: uuid
  cce_event_type :: string
  cce_actor :: nat
  cce_metadata :: row
  cce_created_at :: timestamp

record compliance_override =
  cov_id :: uuid
  cov_account :: uuid
  cov_control :: string
  cov_previous_state :: string
  cov_new_state :: string
  cov_reason :: string
  cov_evidence_ref :: string
  cov_requested_by :: nat
  cov_approved_by :: "nat option"
  cov_requested_at :: timestamp
  cov_approved_at :: "timestamp option"
  cov_expires_at :: "timestamp option"

record eligibility_decision =
  eld_id :: uuid
  eld_account :: uuid
  eld_capability :: string
  eld_result :: string
  eld_reason_codes :: "string list"
  eld_policy_version :: string
  eld_evaluated_at :: timestamp
  eld_context_ref :: string

record compliance_audit_event =
  cau_id :: uuid
  cau_account :: uuid
  cau_event_type :: string
  cau_actor_ref :: string
  cau_reason_codes :: "string list"
  cau_state_before :: json
  cau_state_after :: json
  cau_policy_version :: string
  cau_created_at :: timestamp

record org_membership =
  omb_user :: nat
  omb_organization :: uuid
  omb_role :: string
  omb_is_active :: bool

record organization =
  org_id :: uuid
  org_is_active :: bool

record compliance_db = event_db +
  cd_profiles :: "compliance_profile list"
  cd_restrictions :: "account_restriction list"
  cd_cases :: "compliance_case list"
  cd_case_events :: "compliance_case_event list"
  cd_overrides :: "compliance_override list"
  cd_decisions :: "eligibility_decision list"
  cd_audits :: "compliance_audit_event list"
  cd_memberships :: "org_membership list"
  cd_organizations :: "organization list"
  cd_orders :: "trading_order list"

end
