(* ===== verification/Compliance_Services.thy ===== *)
theory Compliance_Services
  imports Compliance
begin

text \<open>
  \<open>apps/compliance/services.py\<close>: effective states, eligibility decisions, the transitions of the
  controls, restrictions, cases and overrides. Every operation that may take away the right to trade
  rejects the pending simulation orders of the user.
\<close>

section \<open>Effective states\<close>

definition opaque_start :: "char \<Rightarrow> bool" where
  "opaque_start c \<longleftrightarrow> (let n = of_char c :: nat in (65 \<le> n \<and> n \<le> 90) \<or> (97 \<le> n \<and> n \<le> 122) \<or> (48 \<le> n \<and> n \<le> 57))"

text \<open>\<open>OPAQUE_REFERENCE.fullmatch\<close>.\<close>

definition validated_evidence_ref :: "string \<Rightarrow> (foundation_error, string) res" where
  "validated_evidence_ref s =
     (case s of
        [] \<Rightarrow> Inl (FValueError ''INVALID_EVIDENCE_REFERENCE'')
      | c # cs \<Rightarrow>
          if opaque_start c \<and> length cs \<le> 254 \<and> list_all (\<lambda>d. opaque_start d \<or> d \<in> set '':_.-'') cs then Inr s
          else Inl (FValueError ''INVALID_EVIDENCE_REFERENCE''))"

definition reached :: "timestamp \<Rightarrow> timestamp option \<Rightarrow> bool" where
  "reached now t = (case t of None \<Rightarrow> False | Some x \<Rightarrow> x \<le> now)"

definition overrides_of :: "compliance_profile \<Rightarrow> 'a compliance_db_scheme \<Rightarrow> compliance_override list" where
  "overrides_of p db = filter (\<lambda>v. cov_account v = cpf_account_id p) (cd_overrides db)"

definition expired_controls :: "timestamp \<Rightarrow> compliance_profile \<Rightarrow> 'a compliance_db_scheme \<Rightarrow> string list" where
  "expired_controls now p db =
     map cov_control (filter (\<lambda>v. cov_approved_at v \<noteq> None \<and> reached now (cov_expires_at v)) (overrides_of p db))"

record effective_states =
  eff_kyc :: compliance_kyc
  eff_aml :: compliance_aml
  eff_sanctions :: compliance_sanctions
  eff_jurisdiction :: compliance_jurisdiction
  eff_account :: compliance_account

definition effective_kyc :: "timestamp \<Rightarrow> string list \<Rightarrow> compliance_profile \<Rightarrow> compliance_kyc" where
  "effective_kyc now expired p =
     (let k = (if ''KYC_STATE'' \<in> set expired \<and> cpf_kyc_state p = CkApproved then CkRequiresUpdate else cpf_kyc_state p)
      in if reached now (cpf_kyc_expires_at p) \<or> reached now (cpf_kyc_next_review_at p)
         then (if reached now (cpf_kyc_expires_at p) then CkExpired else CkRequiresUpdate) else k)"

definition effective_aml :: "timestamp \<Rightarrow> string list \<Rightarrow> compliance_profile \<Rightarrow> compliance_aml" where
  "effective_aml now expired p =
     (if reached now (cpf_aml_next_review_at p) then CaReviewRequired
      else if ''AML_STATE'' \<in> set expired \<and> cpf_aml_state p = CaCleared then CaReviewRequired
      else cpf_aml_state p)"

definition effective_sanctions :: "string list \<Rightarrow> compliance_profile \<Rightarrow> compliance_sanctions" where
  "effective_sanctions expired p =
     (if ''SANCTIONS_STATE'' \<in> set expired \<and> cpf_sanctions_state p = CsClear then CsManualReview
      else cpf_sanctions_state p)"

definition effective_profile_states ::
  "timestamp \<Rightarrow> compliance_profile \<Rightarrow> 'a compliance_db_scheme \<Rightarrow> effective_states" where
  "effective_profile_states now p db =
     (let expired = expired_controls now p db
      in \<lparr>eff_kyc = effective_kyc now expired p, eff_aml = effective_aml now expired p,
          eff_sanctions = effective_sanctions expired p,
          eff_jurisdiction = (if reached now (cpf_jurisdiction_next_review_at p) then CjUnknown else cpf_jurisdiction_state p),
          eff_account = cpf_account_state p\<rparr>)"

section \<open>Eligibility\<close>

definition unexpired :: "timestamp \<Rightarrow> account_restriction \<Rightarrow> bool" where
  "unexpired now r = (case ars_expires_at r of None \<Rightarrow> True | Some t \<Rightarrow> now < t)"

definition restrictions_of :: "compliance_profile \<Rightarrow> 'a compliance_db_scheme \<Rightarrow> account_restriction list" where
  "restrictions_of p db = filter (\<lambda>r. ars_account r = cpf_account_id p) (cd_restrictions db)"

definition removal_prefix :: string where
  "removal_prefix = ''REMOVE_RESTRICTION:''"

text \<open>A restriction whose removal has expired counts again.\<close>

definition active_restrictions_of :: "timestamp \<Rightarrow> compliance_profile \<Rightarrow> 'a compliance_db_scheme \<Rightarrow> restriction_type list" where
  "active_restrictions_of now p db =
     (let removed = map (drop (length removal_prefix)) (filter (\<lambda>c. startswith c removal_prefix) (expired_controls now p db))
      in map ars_type (filter (\<lambda>r. ars_active r \<and> unexpired now r) (restrictions_of p db)) @
         map ars_type (filter (\<lambda>r. str_uuid (ars_id r) \<in> set removed \<and> \<not> ars_active r \<and> unexpired now r)
           (restrictions_of p db)))"

text \<open>A reason with whether it denies; the others ask for a review.\<close>

type_synonym graded_reason = "string \<times> bool"

fun account_reasons :: "compliance_account \<Rightarrow> graded_reason list" where
  "account_reasons CcActive = []"
| "account_reasons CcSuspended = [(''ACCOUNT_SUSPENDED'', True)]"
| "account_reasons s = [(''ACCOUNT_RESTRICTED'', True)]"

fun kyc_reasons :: "compliance_kyc \<Rightarrow> graded_reason list" where
  "kyc_reasons CkApproved = []"
| "kyc_reasons CkNotStarted = [(''KYC_REQUIRED'', True)]"
| "kyc_reasons CkPending = [(''KYC_PENDING'', True)]"
| "kyc_reasons CkInReview = [(''KYC_PENDING'', True)]"
| "kyc_reasons CkRejected = [(''KYC_REJECTED'', True)]"
| "kyc_reasons CkExpired = [(''KYC_REQUIRED'', True)]"
| "kyc_reasons CkRequiresUpdate = [(''KYC_REQUIRED'', True)]"

fun aml_reasons :: "compliance_aml \<Rightarrow> graded_reason list" where
  "aml_reasons CaCleared = []"
| "aml_reasons CaBlocked = [(''AML_BLOCKED'', True)]"
| "aml_reasons s = [(''AML_REVIEW'', False)]"

fun sanctions_reasons :: "compliance_sanctions \<Rightarrow> graded_reason list" where
  "sanctions_reasons CsClear = []"
| "sanctions_reasons CsConfirmedMatch = [(''SANCTIONS_BLOCKED'', True)]"
| "sanctions_reasons s = [(''SANCTIONS_REVIEW'', False)]"

fun jurisdiction_reasons :: "compliance_jurisdiction \<Rightarrow> graded_reason list" where
  "jurisdiction_reasons CjSupported = []"
| "jurisdiction_reasons CjUnknown = [(''JURISDICTION_RESTRICTED'', False)]"
| "jurisdiction_reasons s = [(''JURISDICTION_RESTRICTED'', True)]"

fun blocking_restriction :: "compliance_capability \<Rightarrow> restriction_type" where
  "blocking_restriction CapTrading = RstTradingDisabled"
| "blocking_restriction CapDeposit = RstDepositsDisabled"
| "blocking_restriction CapWithdrawal = RstWithdrawalsDisabled"
| "blocking_restriction CapTransfer = RstTransfersDisabled"

definition disabled_code :: "compliance_capability \<Rightarrow> string" where
  "disabled_code c = (if c = CapTrading then ''TRADING_DISABLED'' else capability_text c @ ''S_DISABLED'')"

definition restriction_reasons :: "compliance_capability \<Rightarrow> restriction_type \<Rightarrow> graded_reason list" where
  "restriction_reasons c r =
     (if r = RstManualReviewRequired then [(''MANUAL_REVIEW_REQUIRED'', False)]
      else if r = blocking_restriction c \<or> r = RstAccountReadOnly then [(disabled_code c, True)]
      else [])"

definition graded_reasons ::
  "timestamp \<Rightarrow> compliance_profile \<Rightarrow> compliance_capability \<Rightarrow> 'a compliance_db_scheme \<Rightarrow> graded_reason list" where
  "graded_reasons now p c db =
     (let s = effective_profile_states now p db
      in account_reasons (eff_account s) @ kyc_reasons (eff_kyc s) @ aml_reasons (eff_aml s) @
         sanctions_reasons (eff_sanctions s) @ jurisdiction_reasons (eff_jurisdiction s) @
         concat (map (restriction_reasons c) (active_restrictions_of now p db)))"

text \<open>\<open>dict.fromkeys\<close> keeps first occurrences.\<close>

definition from_keys :: "'x list \<Rightarrow> 'x list" where
  "from_keys xs = rev (remdups (rev xs))"

record eligibility_value =
  ev_result :: eligibility_result
  ev_reason_codes :: "string list"
  ev_policy_version :: string
  ev_evaluated_at :: timestamp

definition compliance_policy_version :: string where
  "compliance_policy_version = ''compliance-2026-08-11.v1''"

definition eligibility ::
  "timestamp \<Rightarrow> compliance_profile \<Rightarrow> compliance_capability \<Rightarrow> 'a compliance_db_scheme \<Rightarrow> eligibility_value" where
  "eligibility now p c db =
     (let rs = graded_reasons now p c db
      in \<lparr>ev_result = (if rs = [] then EligAllowed else if list_ex snd rs then EligDenied else EligReviewRequired),
          ev_reason_codes = from_keys (map fst rs), ev_policy_version = compliance_policy_version,
          ev_evaluated_at = now\<rparr>)"

definition reasons_json :: "string list \<Rightarrow> json" where
  "reasons_json rs = JArr (map JStr rs)"

definition compliance_audit ::
  "py_env \<Rightarrow> timestamp \<Rightarrow> compliance_profile \<Rightarrow> string \<Rightarrow> string \<Rightarrow> string list \<Rightarrow> json \<Rightarrow> json \<Rightarrow> string \<Rightarrow>
   'a compliance_db_scheme \<Rightarrow> 'a compliance_db_scheme" where
  "compliance_audit E now p event_type actor_ref codes before after version db =
     db\<lparr>cd_audits := cd_audits db @
          [\<lparr>cau_id = fresh E db, cau_account = cpf_account_id p, cau_event_type = event_type, cau_actor_ref = actor_ref,
            cau_reason_codes = codes, cau_state_before = before, cau_state_after = after,
            cau_policy_version = version, cau_created_at = now\<rparr>],
        ev_next := Suc (ev_next db)\<rparr>"

definition evaluate_eligibility ::
  "py_env \<Rightarrow> timestamp \<Rightarrow> compliance_profile \<Rightarrow> compliance_capability \<Rightarrow> bool \<Rightarrow> string \<Rightarrow>
   'a compliance_db_scheme \<Rightarrow> 'a compliance_db_scheme \<times> eligibility_value" where
  "evaluate_eligibility E now p c persist context_ref db =
     (let v = eligibility now p c db
      in if \<not> persist then (db, v)
         else
           let d = \<lparr>eld_id = fresh E db, eld_account = cpf_account_id p, eld_capability = capability_text c,
                    eld_result = eligibility_text (ev_result v), eld_reason_codes = ev_reason_codes v,
                    eld_policy_version = compliance_policy_version, eld_evaluated_at = now, eld_context_ref = context_ref\<rparr>;
               db1 = db\<lparr>cd_decisions := cd_decisions db @ [d], ev_next := Suc (ev_next db)\<rparr>
           in (compliance_audit E now p ''ELIGIBILITY_DECISION'' ''SYSTEM'' (ev_reason_codes v) (JObj [])
                 (JObj [(''decision_id'', JStr (str_uuid (eld_id d))), (''capability'', JStr (capability_text c)),
                        (''result'', JStr (eligibility_text (ev_result v)))]) compliance_policy_version db1, v))"

text \<open>\<open>get_trading_eligibility\<close> and its like read the stored profile again.\<close>

definition get_eligibility ::
  "py_env \<Rightarrow> timestamp \<Rightarrow> uuid \<Rightarrow> compliance_capability \<Rightarrow> bool \<Rightarrow> string \<Rightarrow> 'a compliance_db_scheme \<Rightarrow>
   (foundation_error, 'a compliance_db_scheme \<times> eligibility_value) res" where
  "get_eligibility E now account_id c persist context_ref db =
     rbind (get_row (\<lambda>p. cpf_account_id p = account_id) (cd_profiles db)) (\<lambda>p.
       Inr (evaluate_eligibility E now p c persist context_ref db))"

section \<open>Effects of a change\<close>

definition compliance_enqueue ::
  "timestamp \<Rightarrow> compliance_profile \<Rightarrow> string \<Rightarrow> row \<Rightarrow> 'a event_db_scheme \<Rightarrow> 'a event_db_scheme" where
  "compliance_enqueue now p event_type data db =
     db\<lparr>ev_outbox := fst (enqueue_event now ''compliance_profile'' (str_uuid (cpf_account_id p)) event_type
          (JObj [(''channel'', JStr (event_type @ ''.'' @ str_nat (cpf_user p))), (''data'', JObj data)])
          (str_uuid (cpf_organization p)) None None None (ev_outbox db))\<rparr>"

definition organization_active :: "uuid \<Rightarrow> 'a compliance_db_scheme \<Rightarrow> bool" where
  "organization_active i db \<longleftrightarrow> obj_exists (\<lambda>g. org_id g = i \<and> org_is_active g) (cd_organizations db)"

definition tenant_refs :: "compliance_profile \<Rightarrow> 'a compliance_db_scheme \<Rightarrow> string list" where
  "tenant_refs p db =
     str_uuid (cpf_organization p) #
     (if obj_count (\<lambda>m. omb_user m = cpf_user p \<and> omb_is_active m \<and> organization_active (omb_organization m) db)
           (cd_memberships db) = 1 then [''default''] else [])"

definition pending_order_of :: "compliance_profile \<Rightarrow> string list \<Rightarrow> trading_order \<Rightarrow> bool" where
  "pending_order_of p tenants ord \<longleftrightarrow>
     to_tenant_ref ord \<in> set tenants \<and> to_subject_ref ord = str_nat (cpf_user p) \<and> to_simulation ord \<and>
     to_state ord = OrdPending"

definition reject_order :: "eligibility_value \<Rightarrow> trading_order \<Rightarrow> trading_order" where
  "reject_order v ord = ord\<lparr>to_state := OrdRejected, to_eligibility_policy_version := ev_policy_version v,
     to_eligibility_result := eligibility_text (ev_result v), to_eligibility_reason_codes := ev_reason_codes v,
     to_eligibility_evaluated_at := Some (ev_evaluated_at v)\<rparr>"

definition invalidate_orders :: "timestamp \<Rightarrow> compliance_profile \<Rightarrow> 'a compliance_db_scheme \<Rightarrow> 'a compliance_db_scheme" where
  "invalidate_orders now p db =
     (let v = eligibility now p CapTrading db
      in if ev_result v = EligAllowed then db
         else db\<lparr>cd_orders := upd_where (pending_order_of p (tenant_refs p db)) (reject_order v) (cd_orders db)\<rparr>)"

definition save_profile :: "timestamp \<Rightarrow> compliance_profile \<Rightarrow> 'a compliance_db_scheme \<Rightarrow> 'a compliance_db_scheme" where
  "save_profile now p db =
     db\<lparr>cd_profiles := upd_where (\<lambda>q. cpf_account_id q = cpf_account_id p) (\<lambda>_. p\<lparr>cpf_updated_at := now\<rparr>) (cd_profiles db)\<rparr>"

text \<open>Save, audit, event and invalidation, in the order every transition of a profile has them.\<close>

definition commit_profile ::
  "py_env \<Rightarrow> timestamp \<Rightarrow> compliance_profile \<Rightarrow> string \<Rightarrow> string \<Rightarrow> string list \<Rightarrow> string \<Rightarrow> string \<Rightarrow> string \<Rightarrow>
   'a compliance_db_scheme \<Rightarrow> 'a compliance_db_scheme \<times> compliance_profile" where
  "commit_profile E now p event_type actor_ref codes field before after db =
     (let db1 = save_profile now p db;
          db2 = compliance_audit E now p event_type actor_ref codes (JObj [(field, JStr before)])
                  (JObj [(field, JStr after)]) '''' db1;
          db3 = compliance_enqueue now p ''compliance.profile.updated.v1''
                  [(field, JStr after), (''version'', JInt (int (cpf_version p)))] db2
      in (invalidate_orders now p db3, p))"

definition or_ref :: "string \<Rightarrow> string \<Rightarrow> string" where
  "or_ref a b = (if a = '''' then b else a)"

definition optional_evidence_ref :: "string \<Rightarrow> (foundation_error, string) res" where
  "optional_evidence_ref s = (if s = '''' then Inr '''' else validated_evidence_ref s)"

section \<open>Transitions\<close>

definition get_profile :: "uuid \<Rightarrow> 'a compliance_db_scheme \<Rightarrow> (foundation_error, compliance_profile) res" where
  "get_profile i db = get_row (\<lambda>p. cpf_account_id p = i) (cd_profiles db)"

definition evidence_required :: "(foundation_error, 'x) res" where
  "evidence_required = Inl (FValueError ''VERIFIED_EVIDENCE_REQUIRED'')"

definition transition_kyc ::
  "py_env \<Rightarrow> timestamp \<Rightarrow> uuid \<Rightarrow> string \<Rightarrow> string \<Rightarrow> string \<Rightarrow> 'a compliance_db_scheme \<Rightarrow>
   (foundation_error, 'a compliance_db_scheme \<times> compliance_profile) res" where
  "transition_kyc E now account_id new_state actor_ref evidence_ref db =
     rbind (get_profile account_id db) (\<lambda>p.
     rbind (kyc_of new_state) (\<lambda>new.
       if new \<notin> kyc_transitions (cpf_kyc_state p) then Inl (FValueError ''INVALID_KYC_TRANSITION'')
       else if new = CkApproved \<and> evidence_ref = '''' then evidence_required
       else rbind (optional_evidence_ref evidence_ref) (\<lambda>ref.
         let p1 = p\<lparr>cpf_kyc_state := new, cpf_kyc_evidence_ref := or_ref ref (cpf_kyc_evidence_ref p),
                    cpf_version := Suc (cpf_version p)\<rparr>
         in Inr (commit_profile E now p1 ''KYC_STATE_CHANGED'' actor_ref [] ''kyc_state''
                   (kyc_text (cpf_kyc_state p)) (kyc_text new) db))))"

definition transition_aml ::
  "py_env \<Rightarrow> timestamp \<Rightarrow> uuid \<Rightarrow> string \<Rightarrow> string \<Rightarrow> string \<Rightarrow> 'a compliance_db_scheme \<Rightarrow>
   (foundation_error, 'a compliance_db_scheme \<times> compliance_profile) res" where
  "transition_aml E now account_id new_state actor_ref evidence_ref db =
     rbind (get_profile account_id db) (\<lambda>p.
     rbind (aml_of new_state) (\<lambda>new.
       if new \<notin> aml_transitions (cpf_aml_state p) then Inl (FValueError ''INVALID_AML_TRANSITION'')
       else if new = CaCleared \<and> evidence_ref = '''' then evidence_required
       else rbind (optional_evidence_ref evidence_ref) (\<lambda>ref.
         let p1 = p\<lparr>cpf_aml_state := new, cpf_aml_evidence_ref := or_ref ref (cpf_aml_evidence_ref p),
                    cpf_version := Suc (cpf_version p)\<rparr>
         in Inr (commit_profile E now p1 ''AML_STATE_CHANGED'' actor_ref [] ''aml_state''
                   (aml_text (cpf_aml_state p)) (aml_text new) db))))"

definition transition_sanctions ::
  "py_env \<Rightarrow> timestamp \<Rightarrow> uuid \<Rightarrow> string \<Rightarrow> string \<Rightarrow> string \<Rightarrow> 'a compliance_db_scheme \<Rightarrow>
   (foundation_error, 'a compliance_db_scheme \<times> compliance_profile) res" where
  "transition_sanctions E now account_id new_state actor_ref evidence_ref db =
     rbind (get_profile account_id db) (\<lambda>p.
     rbind (sanctions_of new_state) (\<lambda>new.
       if new \<notin> sanctions_transitions (cpf_sanctions_state p) then Inl (FValueError ''INVALID_SANCTIONS_TRANSITION'')
       else if evidence_ref = '''' then evidence_required
       else rbind (validated_evidence_ref evidence_ref) (\<lambda>ref.
         let p1 = p\<lparr>cpf_sanctions_state := new, cpf_sanctions_evidence_ref := ref, cpf_version := Suc (cpf_version p)\<rparr>
         in Inr (commit_profile E now p1 ''SANCTIONS_STATE_CHANGED'' actor_ref [] ''sanctions_state''
                   (sanctions_text (cpf_sanctions_state p)) (sanctions_text new) db))))"

definition transition_jurisdiction ::
  "py_env \<Rightarrow> timestamp \<Rightarrow> uuid \<Rightarrow> string \<Rightarrow> string \<Rightarrow> string \<Rightarrow> 'a compliance_db_scheme \<Rightarrow>
   (foundation_error, 'a compliance_db_scheme \<times> compliance_profile) res" where
  "transition_jurisdiction E now account_id new_state actor_ref evidence_ref db =
     (if evidence_ref = '''' then evidence_required
      else rbind (validated_evidence_ref evidence_ref) (\<lambda>ref.
        rbind (get_profile account_id db) (\<lambda>p.
        rbind (jurisdiction_of new_state) (\<lambda>new.
          let p1 = p\<lparr>cpf_jurisdiction_state := new, cpf_jurisdiction_evidence_ref := ref, cpf_version := Suc (cpf_version p)\<rparr>
          in Inr (commit_profile E now p1 ''JURISDICTION_CHANGED'' actor_ref [] ''jurisdiction_state''
                    (jurisdiction_text (cpf_jurisdiction_state p)) (jurisdiction_text new) db)))))"

definition update_account_state ::
  "py_env \<Rightarrow> timestamp \<Rightarrow> uuid \<Rightarrow> string \<Rightarrow> string \<Rightarrow> string list \<Rightarrow> 'a compliance_db_scheme \<Rightarrow>
   (foundation_error, 'a compliance_db_scheme \<times> compliance_profile) res" where
  "update_account_state E now account_id new_state actor_ref codes db =
     rbind (get_profile account_id db) (\<lambda>p.
     rbind (account_of new_state) (\<lambda>new.
       if new \<notin> account_transitions (cpf_account_state p) then Inl (FValueError ''INVALID_ACCOUNT_TRANSITION'')
       else
         let p1 = p\<lparr>cpf_account_state := new, cpf_version := Suc (cpf_version p)\<rparr>
         in Inr (commit_profile E now p1 ''ACCOUNT_STATE_CHANGED'' actor_ref codes ''account_state''
                   (account_text (cpf_account_state p)) (account_text new) db)))"

section \<open>Restrictions\<close>

definition add_restriction ::
  "py_env \<Rightarrow> timestamp \<Rightarrow> uuid \<Rightarrow> restriction_type \<Rightarrow> string \<Rightarrow> string \<Rightarrow> nat \<Rightarrow> timestamp option \<Rightarrow>
   'a compliance_db_scheme \<Rightarrow> (foundation_error, 'a compliance_db_scheme \<times> account_restriction) res" where
  "add_restriction E now account_id kind reason_code origin actor expires_at db =
     rbind (get_profile account_id db) (\<lambda>p.
       if reason_code \<notin> set compliance_reason_codes then Inl (FValueError ''INVALID_REASON_CODE'')
       else if reached now expires_at then Inl (FValueError ''INVALID_EXPIRATION'')
       else
         let r = \<lparr>ars_id = fresh E db, ars_account = cpf_account_id p, ars_type = kind, ars_reason_code = reason_code,
                  ars_source = origin, ars_created_at = now, ars_expires_at = expires_at, ars_created_by = actor,
                  ars_active = True\<rparr>;
             db1 = db\<lparr>cd_restrictions := cd_restrictions db @ [r], ev_next := Suc (ev_next db)\<rparr>;
             p1 = p\<lparr>cpf_version := Suc (cpf_version p)\<rparr>;
             db2 = save_profile now p1 db1;
             db3 = compliance_audit E now p1 ''RESTRICTION_ADDED'' (str_nat actor) [reason_code] (JObj [])
                     (JObj [(''restriction_type'', JStr (restriction_text kind))]) '''' db2;
             db4 = compliance_enqueue now p1 ''compliance.restriction.updated.v1''
                     [(''restriction_type'', JStr (restriction_text kind)), (''active'', JBool True),
                      (''version'', JInt (int (cpf_version p1)))] db3
         in Inr (invalidate_orders now p1 db4, r))"

section \<open>Cases\<close>

definition create_case ::
  "py_env \<Rightarrow> timestamp \<Rightarrow> compliance_profile \<Rightarrow> string \<Rightarrow> string \<Rightarrow> string list \<Rightarrow> nat \<Rightarrow> 'a compliance_db_scheme \<Rightarrow>
   (foundation_error, 'a compliance_db_scheme \<times> compliance_case) res" where
  "create_case E now p case_type priority codes actor db =
     (if \<not> list_all (\<lambda>c. c \<in> set compliance_reason_codes) codes then Inl (FValueError ''INVALID_REASON_CODE'')
      else
        let c = \<lparr>cca_id = fresh E db, cca_account = cpf_account_id p, cca_case_type = case_type, cca_status = ''OPEN'',
                 cca_priority = priority, cca_reason_codes = codes, cca_assigned_to = None, cca_created_at = now,
                 cca_updated_at = now, cca_resolved_at = None, cca_resolution = ''''\<rparr>;
            db1 = db\<lparr>cd_cases := cd_cases db @ [c], ev_next := Suc (ev_next db)\<rparr>;
            ce = \<lparr>cce_id = fresh E db1, cce_case = cca_id c, cce_event_type = ''CASE_CREATED'', cce_actor = actor,
                  cce_metadata = [(''reason_codes'', reasons_json codes)], cce_created_at = now\<rparr>;
            db2 = db1\<lparr>cd_case_events := cd_case_events db1 @ [ce], ev_next := Suc (ev_next db1)\<rparr>
        in Inr (compliance_audit E now p ''CASE_CREATED'' (str_nat actor) codes (JObj [])
                  (JObj [(''case_id'', JStr (str_uuid (cca_id c))), (''status'', JStr ''OPEN'')]) '''' db2, c))"

definition case_target :: "string \<Rightarrow> string option" where
  "case_target event_type = map_of
     [(''CASE_ASSIGNED'', ''IN_REVIEW''), (''CASE_ESCALATED'', ''ESCALATED''), (''CASE_APPROVED'', ''RESOLVED_APPROVED''),
      (''CASE_REJECTED'', ''RESOLVED_REJECTED''), (''CASE_CLOSED'', ''CLOSED'')] event_type"

definition case_metadata_key :: "string \<Rightarrow> string option" where
  "case_metadata_key event_type = map_of
     [(''CASE_ASSIGNED'', ''assigned_to_id''), (''CASE_NOTE_ADDED'', ''note_ref''), (''CASE_ESCALATED'', ''reason_code''),
      (''CASE_APPROVED'', ''resolution_code''), (''CASE_REJECTED'', ''resolution_code''),
      (''CASE_CLOSED'', ''resolution_code'')] event_type"

text \<open>Every kind of event admits one key of the metadata; a missing or false value is dropped.\<close>

definition safe_metadata :: "string \<Rightarrow> row \<Rightarrow> (foundation_error, string option) res" where
  "safe_metadata key supplied =
     (if truthy (row_get supplied key)
      then rbind (validated_evidence_ref (take 128 (py_text (row_get supplied key)))) (\<lambda>v. Inr (Some v))
      else Inr None)"

definition case_terminal :: "string list" where
  "case_terminal = [''RESOLVED_APPROVED'', ''RESOLVED_REJECTED'', ''CLOSED'']"

text \<open>The membership of the assignee in the organization of the account.\<close>

definition case_assignee ::
  "uuid \<Rightarrow> string option \<Rightarrow> 'a compliance_db_scheme \<Rightarrow> (foundation_error, nat) res" where
  "case_assignee organization assigned db =
     (case assigned of
        None \<Rightarrow> Inl (FValueError ''INVALID_CASE_ASSIGNEE'')
      | Some i \<Rightarrow>
          if \<not> list_all is_digit_09 i then Inl (FPyError ''ValueError'')
          else
            (case obj_first (\<lambda>m. str_nat (omb_user m) = i \<and> omb_organization m = organization \<and>
                               omb_role m \<in> {''compliance_analyst'', ''compliance_manager''}) (cd_memberships db) of
               None \<Rightarrow> Inl (FValueError ''INVALID_CASE_ASSIGNEE'')
             | Some m \<Rightarrow> Inr (omb_user m)))"

definition save_case :: "compliance_case \<Rightarrow> 'a compliance_db_scheme \<Rightarrow> 'a compliance_db_scheme" where
  "save_case c db = db\<lparr>cd_cases := upd_where (\<lambda>x. cca_id x = cca_id c) (\<lambda>_. c) (cd_cases db)\<rparr>"

definition move_case ::
  "py_env \<Rightarrow> timestamp \<Rightarrow> compliance_profile \<Rightarrow> compliance_case \<Rightarrow> string \<Rightarrow> nat \<Rightarrow> 'a compliance_db_scheme \<Rightarrow>
   'a compliance_db_scheme" where
  "move_case E now p c event_type actor db =
     (case case_target event_type of
        None \<Rightarrow> save_case (c\<lparr>cca_updated_at := now\<rparr>) db
      | Some s \<Rightarrow>
          let resolved = event_type \<in> {''CASE_APPROVED'', ''CASE_REJECTED''};
              c1 = c\<lparr>cca_status := s, cca_updated_at := now\<rparr>;
              c2 = (if resolved then c1\<lparr>cca_resolved_at := Some now, cca_resolution := s\<rparr> else c1)
          in compliance_audit E now p (if resolved then ''CASE_RESOLUTION'' else event_type) (str_nat actor)
               (cca_reason_codes c) (JObj []) (JObj [(''case_id'', JStr (str_uuid (cca_id c))), (''status'', JStr s)]) ''''
               (save_case c2 db))"

definition append_case_event ::
  "py_env \<Rightarrow> timestamp \<Rightarrow> uuid \<Rightarrow> string \<Rightarrow> nat \<Rightarrow> row \<Rightarrow> 'a compliance_db_scheme \<Rightarrow>
   (foundation_error, 'a compliance_db_scheme \<times> compliance_case_event) res" where
  "append_case_event E now case_id event_type actor supplied db =
     rbind (get_row (\<lambda>c. cca_id c = case_id) (cd_cases db)) (\<lambda>c.
       case case_metadata_key event_type of
         None \<Rightarrow> Inl (FValueError ''INVALID_CASE_EVENT'')
       | Some key \<Rightarrow>
           if cca_status c \<in> set case_terminal \<and> event_type \<noteq> ''CASE_CLOSED'' then Inl (FValueError ''CASE_TERMINAL'')
           else
             rbind (safe_metadata key supplied) (\<lambda>v.
             rbind (get_profile (cca_account c) db) (\<lambda>p.
             rbind (if event_type = ''CASE_ASSIGNED''
                    then rbind (case_assignee (cpf_organization p) v db) (\<lambda>u. Inr (c\<lparr>cca_assigned_to := Some u\<rparr>))
                    else Inr c) (\<lambda>c1.
               let ce = \<lparr>cce_id = fresh E db, cce_case = case_id, cce_event_type = event_type, cce_actor = actor,
                         cce_metadata = (case v of None \<Rightarrow> [] | Some x \<Rightarrow> [(key, JStr x)]), cce_created_at = now\<rparr>;
                   db1 = db\<lparr>cd_case_events := cd_case_events db @ [ce], ev_next := Suc (ev_next db)\<rparr>
               in Inr (move_case E now p c1 event_type actor db1, ce)))))"

section \<open>Overrides\<close>

definition control_state_text :: "compliance_profile \<Rightarrow> string \<Rightarrow> string option" where
  "control_state_text p control =
     (if control = ''KYC_STATE'' then Some (kyc_text (cpf_kyc_state p))
      else if control = ''AML_STATE'' then Some (aml_text (cpf_aml_state p))
      else if control = ''SANCTIONS_STATE'' then Some (sanctions_text (cpf_sanctions_state p))
      else None)"

definition valid_control_state :: "string \<Rightarrow> string \<Rightarrow> bool" where
  "valid_control_state control s \<longleftrightarrow>
     (if control = ''KYC_STATE'' then \<not> isl (kyc_of s)
      else if control = ''AML_STATE'' then \<not> isl (aml_of s) else \<not> isl (sanctions_of s))"

definition clearance :: "string \<Rightarrow> string \<Rightarrow> bool" where
  "clearance control s \<longleftrightarrow> (control, s) \<in> {(''KYC_STATE'', ''APPROVED''), (''AML_STATE'', ''CLEARED''), (''SANCTIONS_STATE'', ''CLEAR'')}"

definition removed_id :: "string \<Rightarrow> string" where
  "removed_id control = drop (length removal_prefix) control"

text \<open>The current and the requested state of the control.\<close>

definition override_states ::
  "compliance_profile \<Rightarrow> string \<Rightarrow> string \<Rightarrow> 'a compliance_db_scheme \<Rightarrow> (foundation_error, string \<times> string) res" where
  "override_states p control new_state db =
     (if startswith control removal_prefix then
        (if obj_exists (\<lambda>r. str_uuid (ars_id r) = removed_id control \<and> ars_active r) (restrictions_of p db)
         then Inr (''ACTIVE'', ''INACTIVE'') else Inl (FValueError ''RESTRICTION_NOT_FOUND''))
      else
        (case control_state_text p control of
           None \<Rightarrow> Inl (FValueError ''INVALID_OVERRIDE_CONTROL'')
         | Some current \<Rightarrow>
             if valid_control_state control new_state then Inr (current, new_state)
             else Inl (FValueError ''INVALID_OVERRIDE_STATE'')))"

definition request_override ::
  "py_env \<Rightarrow> timestamp \<Rightarrow> compliance_profile \<Rightarrow> string \<Rightarrow> string \<Rightarrow> string \<Rightarrow> nat \<Rightarrow> timestamp option \<Rightarrow> string \<Rightarrow>
   'a compliance_db_scheme \<Rightarrow> (foundation_error, 'a compliance_db_scheme \<times> compliance_override) res" where
  "request_override E now p control new_state reason requester expires_at evidence_ref db =
     rbind (override_states p control new_state db) (\<lambda>(current, new).
       if clearance control new \<and> evidence_ref = '''' then evidence_required
       else rbind (optional_evidence_ref evidence_ref) (\<lambda>ref.
         let v = \<lparr>cov_id = fresh E db, cov_account = cpf_account_id p, cov_control = control,
                  cov_previous_state = current, cov_new_state = new, cov_reason = reason, cov_evidence_ref = ref,
                  cov_requested_by = requester, cov_approved_by = None, cov_requested_at = now,
                  cov_approved_at = None, cov_expires_at = expires_at\<rparr>;
             db1 = db\<lparr>cd_overrides := cd_overrides db @ [v], ev_next := Suc (ev_next db)\<rparr>
         in Inr (compliance_audit E now p ''OVERRIDE_REQUESTED'' (str_nat requester) []
                   (JObj [(''control'', JStr control), (''state'', JStr current)])
                   (JObj [(''requested_state'', JStr new)]) '''' db1, v)))"

text \<open>The profile with the control set; the texts of a stored override are members.\<close>

definition set_control :: "string \<Rightarrow> string \<Rightarrow> compliance_profile \<Rightarrow> (foundation_error, compliance_profile) res" where
  "set_control control s p =
     (if control = ''KYC_STATE'' then rbind (kyc_of s) (\<lambda>k. Inr (p\<lparr>cpf_kyc_state := k\<rparr>))
      else if control = ''AML_STATE'' then rbind (aml_of s) (\<lambda>k. Inr (p\<lparr>cpf_aml_state := k\<rparr>))
      else rbind (sanctions_of s) (\<lambda>k. Inr (p\<lparr>cpf_sanctions_state := k\<rparr>)))"

definition apply_override ::
  "timestamp \<Rightarrow> compliance_override \<Rightarrow> compliance_profile \<Rightarrow> 'a compliance_db_scheme \<Rightarrow>
   (foundation_error, 'a compliance_db_scheme \<times> compliance_profile \<times> string) res" where
  "apply_override now v p db =
     (if startswith (cov_control v) removal_prefix then
        rbind (get_row (\<lambda>r. str_uuid (ars_id r) = removed_id (cov_control v) \<and> ars_account r = cpf_account_id p \<and> ars_active r)
                 (cd_restrictions db)) (\<lambda>r.
          let p1 = p\<lparr>cpf_version := Suc (cpf_version p)\<rparr>
          in Inr (save_profile now p1
                    (db\<lparr>cd_restrictions := upd_where (\<lambda>x. ars_id x = ars_id r) (\<lambda>x. x\<lparr>ars_active := False\<rparr>) (cd_restrictions db)\<rparr>),
                  p1, ''RESTRICTION_REMOVED''))
      else if control_state_text p (cov_control v) \<noteq> Some (cov_previous_state v) then Inl (FValueError ''OVERRIDE_STALE'')
      else rbind (set_control (cov_control v) (cov_new_state v) p) (\<lambda>q.
             let p1 = q\<lparr>cpf_version := Suc (cpf_version q)\<rparr>
             in Inr (save_profile now p1 db, p1, cov_control v @ ''_CHANGED'')))"

definition override_before :: "compliance_override \<Rightarrow> json" where
  "override_before v = JObj [(''control'', JStr (cov_control v)), (''state'', JStr (cov_previous_state v))]"

definition override_after :: "compliance_override \<Rightarrow> json" where
  "override_after v = JObj [(''state'', JStr (cov_new_state v)), (''override_id'', JStr (str_uuid (cov_id v)))]"

text \<open>The approved override, its two audit rows and the event.\<close>

definition record_override ::
  "py_env \<Rightarrow> timestamp \<Rightarrow> compliance_override \<Rightarrow> nat \<Rightarrow> compliance_profile \<Rightarrow> string \<Rightarrow>
   'a compliance_db_scheme \<Rightarrow> 'a compliance_db_scheme" where
  "record_override E now v1 checker p event_type db =
     (let db2 = db\<lparr>cd_overrides := upd_where (\<lambda>x. cov_id x = cov_id v1) (\<lambda>_. v1) (cd_overrides db)\<rparr>;
          db3 = compliance_audit E now p event_type (str_nat checker) [] (override_before v1) (override_after v1) '''' db2;
          db4 = compliance_audit E now p ''MANUAL_OVERRIDE'' (str_nat checker) [] (override_before v1)
                  (override_after v1) '''' db3
      in if event_type = ''RESTRICTION_REMOVED''
         then compliance_enqueue now p ''compliance.restriction.updated.v1''
                [(''restriction_id'', JStr (removed_id (cov_control v1))), (''active'', JBool False),
                 (''version'', JInt (int (cpf_version p)))] db4
         else compliance_enqueue now p ''compliance.profile.updated.v1''
                [(''version'', JInt (int (cpf_version p)))] db4)"

text \<open>\<open>full_clean\<close> raises on an empty reason; the checker differs from the maker already.\<close>

definition approve_override ::
  "py_env \<Rightarrow> timestamp \<Rightarrow> uuid \<Rightarrow> nat \<Rightarrow> 'a compliance_db_scheme \<Rightarrow>
   (foundation_error, 'a compliance_db_scheme \<times> compliance_override) res" where
  "approve_override E now override_id checker db =
     rbind (get_row (\<lambda>v. cov_id v = override_id) (cd_overrides db)) (\<lambda>v.
       if cov_approved_at v \<noteq> None then Inr (db, v)
       else if cov_requested_by v = checker then Inl (FValueError ''MAKER_CHECKER_REQUIRED'')
       else if reached now (cov_expires_at v) then Inl (FValueError ''OVERRIDE_EXPIRED'')
       else
         rbind (get_profile (cov_account v) db) (\<lambda>p.
         rbind (apply_override now v p db) (\<lambda>(db1, p1, event_type).
           if cov_reason v = '''' then Inl (FPyError ''ValidationError'')
           else
             let v1 = v\<lparr>cov_approved_by := Some checker, cov_approved_at := Some now\<rparr>
             in Inr (invalidate_orders now p1 (record_override E now v1 checker p1 event_type db1), v1))))"

end
