(* ===== verification/Compliance_Facts.thy ===== *)
theory Compliance_Facts
  imports Compliance_Services
begin

text \<open>
  Frame lemmas of the compliance operations, the step relations over them, and what every step keeps:
  cleared controls carry evidence, overrides have two persons, orders are only ever rejected.
\<close>

section \<open>Frames\<close>

lemma compliance_audit_frame [simp]:
  "cd_profiles (compliance_audit E now p t a c b f v db) = cd_profiles db"
  "cd_restrictions (compliance_audit E now p t a c b f v db) = cd_restrictions db"
  "cd_overrides (compliance_audit E now p t a c b f v db) = cd_overrides db"
  "cd_orders (compliance_audit E now p t a c b f v db) = cd_orders db"
  "cd_memberships (compliance_audit E now p t a c b f v db) = cd_memberships db"
  "cd_organizations (compliance_audit E now p t a c b f v db) = cd_organizations db"
  by (simp_all add: compliance_audit_def)

lemma compliance_enqueue_frame [simp]:
  fixes db :: "'a compliance_db_scheme"
  shows "cd_profiles (compliance_enqueue now p t d db) = cd_profiles db"
  "cd_restrictions (compliance_enqueue now p t d db) = cd_restrictions db"
  "cd_overrides (compliance_enqueue now p t d db) = cd_overrides db"
  "cd_orders (compliance_enqueue now p t d db) = cd_orders db"
  "cd_memberships (compliance_enqueue now p t d db) = cd_memberships db"
  "cd_organizations (compliance_enqueue now p t d db) = cd_organizations db"
  by (simp_all add: compliance_enqueue_def)

lemma save_profile_frame [simp]:
  "cd_restrictions (save_profile now p db) = cd_restrictions db"
  "cd_overrides (save_profile now p db) = cd_overrides db"
  "cd_orders (save_profile now p db) = cd_orders db"
  "cd_memberships (save_profile now p db) = cd_memberships db"
  "cd_organizations (save_profile now p db) = cd_organizations db"
  by (simp_all add: save_profile_def)

lemma invalidate_orders_frame [simp]:
  "cd_profiles (invalidate_orders now p db) = cd_profiles db"
  "cd_restrictions (invalidate_orders now p db) = cd_restrictions db"
  "cd_overrides (invalidate_orders now p db) = cd_overrides db"
  "cd_memberships (invalidate_orders now p db) = cd_memberships db"
  "cd_organizations (invalidate_orders now p db) = cd_organizations db"
  by (simp_all add: invalidate_orders_def Let_def)

lemma record_override_frame [simp]:
  fixes db :: "'a compliance_db_scheme"
  shows "cd_profiles (record_override E now v u p t db) = cd_profiles db"
  "cd_orders (record_override E now v u p t db) = cd_orders db"
  "cd_overrides (record_override E now v u p t db) =
     upd_where (\<lambda>x. cov_id x = cov_id v) (\<lambda>_. v) (cd_overrides db)"
  by (simp_all add: record_override_def Let_def)

text \<open>Eligibility reads the overrides and the restrictions only, the tenants the memberships.\<close>

lemma eligibility_cong:
  assumes "cd_overrides db = cd_overrides db'" "cd_restrictions db = cd_restrictions db'"
  shows "eligibility now p c db = eligibility now p c db'"
  by (simp add: eligibility_def graded_reasons_def effective_profile_states_def active_restrictions_of_def
      expired_controls_def overrides_of_def restrictions_of_def assms)

lemma tenant_refs_cong:
  assumes "cd_memberships db = cd_memberships db'" "cd_organizations db = cd_organizations db'"
  shows "tenant_refs p db = tenant_refs p db'"
  by (simp add: tenant_refs_def organization_active_def assms)

section \<open>Pending orders\<close>

text \<open>\<open>db'\<close> has the orders of \<open>db\<close>, some of them rejected.\<close>

definition only_rejects :: "'a compliance_db_scheme \<Rightarrow> 'b compliance_db_scheme \<Rightarrow> bool" where
  "only_rejects db db' \<longleftrightarrow>
     list_all2 (\<lambda>a b. b = a \<or> (to_state a = OrdPending \<and> to_simulation a \<and> (\<exists>v. ev_result v \<noteq> EligAllowed \<and> b = reject_order v a)))
       (cd_orders db) (cd_orders db')"

lemma only_rejects_refl: "cd_orders db = cd_orders db' \<Longrightarrow> only_rejects db db'"
  by (simp add: only_rejects_def list_all2_same)

definition no_pending :: "timestamp \<Rightarrow> compliance_profile \<Rightarrow> 'a compliance_db_scheme \<Rightarrow> bool" where
  "no_pending now p db \<longleftrightarrow>
     ev_result (eligibility now p CapTrading db) = EligAllowed \<or>
     (\<forall>ord \<in> set (cd_orders db). \<not> pending_order_of p (tenant_refs p db) ord)"

lemma invalidate_orders_only_rejects: "only_rejects db (invalidate_orders now p db)"
proof (cases "ev_result (eligibility now p CapTrading db) = EligAllowed")
  case True
  then show ?thesis by (simp add: invalidate_orders_def Let_def only_rejects_refl)
next
  case False
  then show ?thesis
    by (auto simp: only_rejects_def invalidate_orders_def Let_def upd_where_def list_all2_map2 pending_order_of_def
        intro!: list.rel_refl_strong)
qed

lemma invalidate_orders_no_pending: "no_pending now p (invalidate_orders now p db)"
proof -
  let ?v = "eligibility now p CapTrading db" and ?t = "tenant_refs p db"
  have same: "eligibility now p CapTrading (invalidate_orders now p db) = ?v"
    "tenant_refs p (invalidate_orders now p db) = ?t"
    by (rule eligibility_cong tenant_refs_cong; simp)+
  show ?thesis
  proof (cases "ev_result ?v = EligAllowed")
    case False
    have "\<not> pending_order_of p ?t (reject_order ?v ord)" for ord
      by (simp add: pending_order_of_def reject_order_def)
    with False have "\<forall>ord \<in> set (cd_orders (invalidate_orders now p db)). \<not> pending_order_of p ?t ord"
      by (auto simp: invalidate_orders_def Let_def upd_where_def)
    then show ?thesis by (simp add: no_pending_def same)
  qed (simp add: no_pending_def same)
qed

section \<open>Changes\<close>

text \<open>A successful operation that changes what decides the right to trade of account \<open>i\<close>.\<close>

inductive compliance_change :: "py_env \<Rightarrow> timestamp \<Rightarrow> uuid \<Rightarrow> compliance_db \<Rightarrow> compliance_db \<Rightarrow> bool"
  for E :: py_env and now :: timestamp and i :: uuid and db :: compliance_db and db' :: compliance_db where
  kyc: "transition_kyc E now i s actor ref db = Inr (db', p) \<Longrightarrow> compliance_change E now i db db'"
| aml: "transition_aml E now i s actor ref db = Inr (db', p) \<Longrightarrow> compliance_change E now i db db'"
| sanctions: "transition_sanctions E now i s actor ref db = Inr (db', p) \<Longrightarrow> compliance_change E now i db db'"
| jurisdiction: "transition_jurisdiction E now i s actor ref db = Inr (db', p) \<Longrightarrow> compliance_change E now i db db'"
| account: "update_account_state E now i s actor codes db = Inr (db', p) \<Longrightarrow> compliance_change E now i db db'"
| restriction: "add_restriction E now i kind code origin user until db = Inr (db', r) \<Longrightarrow> compliance_change E now i db db'"
| override: "approve_override E now oid checker db = Inr (db', v) \<Longrightarrow> db' \<noteq> db \<Longrightarrow> cov_account v = i \<Longrightarrow>
    compliance_change E now i db db'"

text \<open>Every change ends in the invalidation for the changed profile of the account.\<close>

lemma get_profile_id: "get_profile i db = Inr p \<Longrightarrow> p \<in> set (cd_profiles db) \<and> cpf_account_id p = i"
  by (auto simp: get_profile_def get_row_def obj_get_Inr_filter filter_eq_Cons_iff split: sum.splits)

definition same_owner :: "compliance_profile \<Rightarrow> compliance_profile \<Rightarrow> bool" where
  "same_owner p q \<longleftrightarrow> cpf_account_id p = cpf_account_id q \<and> cpf_user p = cpf_user q \<and>
     cpf_organization p = cpf_organization q \<and> cpf_version q = Suc (cpf_version p)"

definition changed_to :: "timestamp \<Rightarrow> uuid \<Rightarrow> compliance_db \<Rightarrow> compliance_profile \<Rightarrow> compliance_profile \<Rightarrow> compliance_db \<Rightarrow> bool" where
  "changed_to now i db p q db' \<longleftrightarrow>
     get_profile i db = Inr p \<and> same_owner p q \<and>
     cd_profiles db' = upd_where (\<lambda>x. cpf_account_id x = i) (\<lambda>_. q\<lparr>cpf_updated_at := now\<rparr>) (cd_profiles db) \<and>
     (\<exists>db1. cd_orders db1 = cd_orders db \<and> db' = invalidate_orders now q db1)"

lemma commit_profile_changed:
  assumes "commit_profile E now q t a c f b s db = (db', p')" "get_profile i db = Inr p" "same_owner p q"
  shows "changed_to now i db p q db'" "p' = q" "cd_overrides db' = cd_overrides db"
  using assms get_profile_id [OF assms(2)]
  by (auto simp: commit_profile_def Let_def changed_to_def save_profile_def same_owner_def
      intro!: exI [of _ "compliance_enqueue now q ''compliance.profile.updated.v1''
        [(f, JStr s), (''version'', JInt (int (cpf_version q)))]
        (compliance_audit E now q t a c (JObj [(f, JStr b)]) (JObj [(f, JStr s)]) '''' (save_profile now q db))"])

lemma transition_kyc_changed:
  assumes "transition_kyc E now i s actor ref db = Inr (db', p')"
  shows "\<exists>p. changed_to now i db p p' db' \<and> cd_overrides db' = cd_overrides db \<and>
    cpf_kyc_state p' \<in> kyc_transitions (cpf_kyc_state p) \<and> cpf_kyc_evidence_ref p' = or_ref ref (cpf_kyc_evidence_ref p) \<and>
    (cpf_kyc_state p' = CkApproved \<longrightarrow> ref \<noteq> '''') \<and>
    p' = p\<lparr>cpf_kyc_state := cpf_kyc_state p', cpf_kyc_evidence_ref := cpf_kyc_evidence_ref p', cpf_version := Suc (cpf_version p)\<rparr>"
proof -
  from assms obtain p new r where 1: "get_profile i db = Inr p" "new \<in> kyc_transitions (cpf_kyc_state p)"
    "new = CkApproved \<Longrightarrow> ref \<noteq> ''''" "optional_evidence_ref ref = Inr r" and
    c: "commit_profile E now (p\<lparr>cpf_kyc_state := new, cpf_kyc_evidence_ref := or_ref r (cpf_kyc_evidence_ref p),
      cpf_version := Suc (cpf_version p)\<rparr>) ''KYC_STATE_CHANGED'' actor [] ''kyc_state''
      (kyc_text (cpf_kyc_state p)) (kyc_text new) db = (db', p')"
    by (auto simp: transition_kyc_def res_simps Let_def evidence_required_def split: if_splits)
  have "r = ref" using 1(4) by (auto simp: optional_evidence_ref_def validated_evidence_ref_def split: list.splits if_splits)
  with commit_profile_changed [OF c 1(1)] 1 show ?thesis by (intro exI [of _ p]) (auto simp: same_owner_def)
qed

lemma transition_aml_changed:
  assumes "transition_aml E now i s actor ref db = Inr (db', p')"
  shows "\<exists>p. changed_to now i db p p' db' \<and> cd_overrides db' = cd_overrides db \<and>
    cpf_aml_state p' \<in> aml_transitions (cpf_aml_state p) \<and> cpf_aml_evidence_ref p' = or_ref ref (cpf_aml_evidence_ref p) \<and>
    (cpf_aml_state p' = CaCleared \<longrightarrow> ref \<noteq> '''') \<and>
    p' = p\<lparr>cpf_aml_state := cpf_aml_state p', cpf_aml_evidence_ref := cpf_aml_evidence_ref p', cpf_version := Suc (cpf_version p)\<rparr>"
proof -
  from assms obtain p new r where 1: "get_profile i db = Inr p" "new \<in> aml_transitions (cpf_aml_state p)"
    "new = CaCleared \<Longrightarrow> ref \<noteq> ''''" "optional_evidence_ref ref = Inr r" and
    c: "commit_profile E now (p\<lparr>cpf_aml_state := new, cpf_aml_evidence_ref := or_ref r (cpf_aml_evidence_ref p),
      cpf_version := Suc (cpf_version p)\<rparr>) ''AML_STATE_CHANGED'' actor [] ''aml_state''
      (aml_text (cpf_aml_state p)) (aml_text new) db = (db', p')"
    by (auto simp: transition_aml_def res_simps Let_def evidence_required_def split: if_splits)
  have "r = ref" using 1(4) by (auto simp: optional_evidence_ref_def validated_evidence_ref_def split: list.splits if_splits)
  with commit_profile_changed [OF c 1(1)] 1 show ?thesis by (intro exI [of _ p]) (auto simp: same_owner_def)
qed

lemma validated_nonempty: "validated_evidence_ref s = Inr r \<Longrightarrow> r = s \<and> s \<noteq> ''''"
  by (auto simp: validated_evidence_ref_def split: list.splits if_splits)

lemma transition_sanctions_changed:
  assumes "transition_sanctions E now i s actor ref db = Inr (db', p')"
  shows "\<exists>p. changed_to now i db p p' db' \<and> cd_overrides db' = cd_overrides db \<and> ref \<noteq> '''' \<and>
    p' = p\<lparr>cpf_sanctions_state := cpf_sanctions_state p', cpf_sanctions_evidence_ref := ref, cpf_version := Suc (cpf_version p)\<rparr>"
proof -
  from assms obtain p new r where 1: "get_profile i db = Inr p" "validated_evidence_ref ref = Inr r" and
    c: "commit_profile E now (p\<lparr>cpf_sanctions_state := new, cpf_sanctions_evidence_ref := r,
      cpf_version := Suc (cpf_version p)\<rparr>) ''SANCTIONS_STATE_CHANGED'' actor [] ''sanctions_state''
      (sanctions_text (cpf_sanctions_state p)) (sanctions_text new) db = (db', p')"
    by (auto simp: transition_sanctions_def res_simps Let_def evidence_required_def split: if_splits)
  with commit_profile_changed [OF c 1(1)] validated_nonempty [OF 1(2)] show ?thesis
    by (intro exI [of _ p]) (auto simp: same_owner_def)
qed

lemma transition_jurisdiction_changed:
  assumes "transition_jurisdiction E now i s actor ref db = Inr (db', p')"
  shows "\<exists>p. changed_to now i db p p' db' \<and> cd_overrides db' = cd_overrides db \<and> ref \<noteq> '''' \<and>
    p' = p\<lparr>cpf_jurisdiction_state := cpf_jurisdiction_state p', cpf_jurisdiction_evidence_ref := ref, cpf_version := Suc (cpf_version p)\<rparr>"
proof -
  from assms obtain p new r where 1: "get_profile i db = Inr p" "validated_evidence_ref ref = Inr r" and
    c: "commit_profile E now (p\<lparr>cpf_jurisdiction_state := new, cpf_jurisdiction_evidence_ref := r,
      cpf_version := Suc (cpf_version p)\<rparr>) ''JURISDICTION_CHANGED'' actor [] ''jurisdiction_state''
      (jurisdiction_text (cpf_jurisdiction_state p)) (jurisdiction_text new) db = (db', p')"
    by (auto simp: transition_jurisdiction_def res_simps Let_def evidence_required_def split: if_splits)
  with commit_profile_changed [OF c 1(1)] validated_nonempty [OF 1(2)] show ?thesis
    by (intro exI [of _ p]) (auto simp: same_owner_def)
qed

lemma update_account_state_changed:
  assumes "update_account_state E now i s actor codes db = Inr (db', p')"
  shows "\<exists>p. changed_to now i db p p' db' \<and> cd_overrides db' = cd_overrides db \<and>
    p' = p\<lparr>cpf_account_state := cpf_account_state p', cpf_version := Suc (cpf_version p)\<rparr>"
proof -
  from assms obtain p new where 1: "get_profile i db = Inr p" and
    c: "commit_profile E now (p\<lparr>cpf_account_state := new, cpf_version := Suc (cpf_version p)\<rparr>) ''ACCOUNT_STATE_CHANGED''
      actor codes ''account_state'' (account_text (cpf_account_state p)) (account_text new) db = (db', p')"
    by (auto simp: update_account_state_def res_simps Let_def split: if_splits)
  with commit_profile_changed [OF c 1] show ?thesis by (intro exI [of _ p]) (auto simp: same_owner_def)
qed


lemma changed_toI:
  assumes "get_profile i db = Inr p" "same_owner p q" "cd_orders db1 = cd_orders db"
    "cd_profiles db1 = cd_profiles (save_profile now q db)" "db' = invalidate_orders now q db1"
  shows "changed_to now i db p q db'"
  using assms get_profile_id [OF assms(1)]
  by (auto simp: changed_to_def same_owner_def save_profile_def)

lemma add_restriction_changed:
  assumes "add_restriction E now i kind code origin user until db = Inr (db', r)"
  shows "\<exists>p. changed_to now i db p (p\<lparr>cpf_version := Suc (cpf_version p)\<rparr>) db' \<and> cd_overrides db' = cd_overrides db"
proof -
  from assms obtain p where p: "get_profile i db = Inr p" by (auto simp: add_restriction_def res_simps)
  let ?q = "p\<lparr>cpf_version := Suc (cpf_version p)\<rparr>"
  from assms p have "\<exists>db1. invalidate_orders now ?q db1 = db' \<and> cd_orders db1 = cd_orders db \<and>
      cd_profiles db1 = cd_profiles (save_profile now ?q db) \<and> cd_overrides db1 = cd_overrides db"
    unfolding add_restriction_def rbind_eq_Inr Let_def
    by (clarsimp simp: res_simps) (rule exI, rule conjI [OF refl], simp add: save_profile_def)
  then obtain db1 where db1: "db' = invalidate_orders now ?q db1" "cd_orders db1 = cd_orders db"
      "cd_profiles db1 = cd_profiles (save_profile now ?q db)" "cd_overrides db1 = cd_overrides db" by blast
  have "changed_to now i db p ?q db'"
    by (rule changed_toI [OF p _ db1(2,3,1)]) (simp add: same_owner_def)
  with db1 show ?thesis by auto
qed

lemma member_of_text: "member_of text ms s = Inr k \<Longrightarrow> text k = s"
  by (auto simp: member_of_def find_Some_iff split: option.splits)

lemma set_control_facts:
  assumes "set_control c s p = Inr q" "control_state_text p c \<noteq> None"
  shows "(\<exists>k. c = ''KYC_STATE'' \<and> q = p\<lparr>cpf_kyc_state := k\<rparr> \<and> kyc_text k = s) \<or>
    (\<exists>k. c = ''AML_STATE'' \<and> q = p\<lparr>cpf_aml_state := k\<rparr> \<and> aml_text k = s) \<or>
    (\<exists>k. c = ''SANCTIONS_STATE'' \<and> q = p\<lparr>cpf_sanctions_state := k\<rparr> \<and> sanctions_text k = s)"
proof -
  from assms(2) have "c = ''KYC_STATE'' \<or> c = ''AML_STATE'' \<or> c = ''SANCTIONS_STATE''"
    by (auto simp: control_state_text_def split: if_splits)
  then show ?thesis
  proof (elim disjE)
    assume c: "c = ''KYC_STATE''"
    with assms(1) obtain k where "kyc_of s = Inr k" "q = p\<lparr>cpf_kyc_state := k\<rparr>"
      by (auto simp: set_control_def rbind_eq_Inr)
    then show ?thesis using c member_of_text [of kyc_text _ s k] unfolding kyc_of_def by blast
  next
    assume c: "c = ''AML_STATE''"
    with assms(1) obtain k where "aml_of s = Inr k" "q = p\<lparr>cpf_aml_state := k\<rparr>"
      by (auto simp: set_control_def rbind_eq_Inr)
    then show ?thesis using c member_of_text [of aml_text _ s k] unfolding aml_of_def by blast
  next
    assume c: "c = ''SANCTIONS_STATE''"
    with assms(1) obtain k where "sanctions_of s = Inr k" "q = p\<lparr>cpf_sanctions_state := k\<rparr>"
      by (auto simp: set_control_def rbind_eq_Inr)
    then show ?thesis using c member_of_text [of sanctions_text _ s k] unfolding sanctions_of_def by blast
  qed
qed

text \<open>What an approval leaves: the override approved by another person, and the profile it names.\<close>

definition control_kept :: "compliance_override \<Rightarrow> compliance_profile \<Rightarrow> compliance_profile \<Rightarrow> bool" where
  "control_kept v p q \<longleftrightarrow>
     cpf_kyc_evidence_ref q = cpf_kyc_evidence_ref p \<and> cpf_aml_evidence_ref q = cpf_aml_evidence_ref p \<and>
     cpf_sanctions_evidence_ref q = cpf_sanctions_evidence_ref p \<and>
     cpf_jurisdiction_evidence_ref q = cpf_jurisdiction_evidence_ref p \<and>
     cpf_jurisdiction_state q = cpf_jurisdiction_state p \<and>
     (cpf_kyc_state q = cpf_kyc_state p \<or> cov_control v = ''KYC_STATE'' \<and> kyc_text (cpf_kyc_state q) = cov_new_state v) \<and>
     (cpf_aml_state q = cpf_aml_state p \<or> cov_control v = ''AML_STATE'' \<and> aml_text (cpf_aml_state q) = cov_new_state v) \<and>
     (cpf_sanctions_state q = cpf_sanctions_state p \<or>
        cov_control v = ''SANCTIONS_STATE'' \<and> sanctions_text (cpf_sanctions_state q) = cov_new_state v)"

lemma apply_override_facts:
  assumes "apply_override now v p db = Inr (db1, q, t)"
  shows "same_owner p q" "control_kept v p q" "cd_profiles db1 = cd_profiles (save_profile now q db)"
    "cd_orders db1 = cd_orders db" "cd_overrides db1 = cd_overrides db"
proof -
  have "same_owner p q \<and> control_kept v p q \<and> cd_profiles db1 = cd_profiles (save_profile now q db) \<and>
    cd_orders db1 = cd_orders db \<and> cd_overrides db1 = cd_overrides db"
  proof (cases "startswith (cov_control v) removal_prefix")
    case True
    with assms show ?thesis
      by (auto simp: apply_override_def res_simps Let_def same_owner_def control_kept_def save_profile_def)
  next
    case False
    with assms obtain q0 where c: "control_state_text p (cov_control v) = Some (cov_previous_state v)" and
      q0: "set_control (cov_control v) (cov_new_state v) p = Inr q0" and
      r: "q = q0\<lparr>cpf_version := Suc (cpf_version q0)\<rparr>" "db1 = save_profile now q db"
      by (auto simp: apply_override_def res_simps Let_def split: if_splits)
    from c set_control_facts [OF q0] have "same_owner p q \<and> control_kept v p q"
      by (auto simp: r(1) same_owner_def control_kept_def)
    with r show ?thesis by simp
  qed
  then show "same_owner p q" "control_kept v p q" "cd_profiles db1 = cd_profiles (save_profile now q db)"
    "cd_orders db1 = cd_orders db" "cd_overrides db1 = cd_overrides db" by blast+
qed

lemma approve_override_changed:
  assumes "approve_override E now oid checker db = Inr (db', v')" "db' \<noteq> db"
  shows "\<exists>v p q. get_row (\<lambda>x. cov_id x = oid) (cd_overrides db) = Inr v \<and> cov_approved_at v = None \<and>
    checker \<noteq> cov_requested_by v \<and> v' = v\<lparr>cov_approved_by := Some checker, cov_approved_at := Some now\<rparr> \<and>
    cd_overrides db' = upd_where (\<lambda>x. cov_id x = oid) (\<lambda>_. v') (cd_overrides db) \<and>
    control_kept v p q \<and> changed_to now (cov_account v) db p q db'"
proof -
  from assms obtain v p db1 q t where v: "get_row (\<lambda>x. cov_id x = oid) (cd_overrides db) = Inr v"
    "cov_approved_at v = None" "cov_requested_by v \<noteq> checker" and
    p: "get_profile (cov_account v) db = Inr p" and a: "apply_override now v p db = Inr (db1, q, t)" and
    v': "v' = v\<lparr>cov_approved_by := Some checker, cov_approved_at := Some now\<rparr>" and
    db': "db' = invalidate_orders now q (record_override E now v' checker q t db1)"
    by (auto simp: approve_override_def rbind_eq_Inr Let_def split: if_splits)
  note f = apply_override_facts [OF a]
  have i: "cov_id v' = oid"
    using v(1) by (auto simp: v' get_row_def obj_get_Inr_filter filter_eq_Cons_iff split: sum.splits)
  define db3 where "db3 = record_override E now v' checker q t db1"
  have db3: "db' = invalidate_orders now q db3" "cd_orders db3 = cd_orders db1" "cd_profiles db3 = cd_profiles db1"
    "cd_overrides db3 = upd_where (\<lambda>x. cov_id x = oid) (\<lambda>_. v') (cd_overrides db1)"
    by (simp_all add: db' db3_def i)
  have "changed_to now (cov_account v) db p q db'"
    using f db3 by (intro changed_toI [OF p f(1) _ _ db3(1)]) simp_all
  then show ?thesis using v v' f(2,5) db3 by (intro exI [of _ v] exI [of _ p] exI [of _ q]) auto
qed


section \<open>What every change leaves\<close>

lemma compliance_change_changed:
  assumes "compliance_change E now i db db'"
  shows "\<exists>p q. changed_to now i db p q db'"
  using assms
proof (cases rule: compliance_change.cases)
  case (override oid checker v)
  from approve_override_changed [OF this(1,2)] obtain w p q where
    "v = w\<lparr>cov_approved_by := Some checker, cov_approved_at := Some now\<rparr>" "changed_to now (cov_account w) db p q db'"
    by blast
  with override(3) have "changed_to now i db p q db'" by simp
  then show ?thesis by blast
qed (meson transition_kyc_changed transition_aml_changed transition_sanctions_changed transition_jurisdiction_changed
  update_account_state_changed add_restriction_changed)+

lemma filter_upd_where_const:
  assumes "filter P t = [x]" "P y"
  shows "filter P (upd_where P (\<lambda>_. y) t) = [y]"
proof -
  have "filter P (upd_where P (\<lambda>_. y) t) = map (\<lambda>_. y) (filter P t)" for t
    using assms(2) by (induction t) (auto simp: upd_where_def)
  then show ?thesis by (simp add: assms(1))
qed

lemma get_profile_changed:
  assumes "changed_to now i db p q db'"
  shows "get_profile i db' = Inr (q\<lparr>cpf_updated_at := now\<rparr>)"
proof -
  from assms have g: "filter (\<lambda>x. cpf_account_id x = i) (cd_profiles db) = [p]"
    by (auto simp: changed_to_def get_profile_def get_row_def obj_get_Inr_filter split: sum.splits)
  from assms have "cpf_account_id q = i"
    using get_profile_id [of i db p] by (auto simp: changed_to_def same_owner_def)
  with filter_upd_where_const [OF g, of "q\<lparr>cpf_updated_at := now\<rparr>"] assms show ?thesis
    by (simp add: get_profile_def get_row_def obj_get_def changed_to_def)
qed

lemma updated_at_irrelevant [simp]:
  "overrides_of (q\<lparr>cpf_updated_at := t\<rparr>) db = overrides_of q db"
  "restrictions_of (q\<lparr>cpf_updated_at := t\<rparr>) db = restrictions_of q db"
  "expired_controls now (q\<lparr>cpf_updated_at := t\<rparr>) db = expired_controls now q db"
  "active_restrictions_of now (q\<lparr>cpf_updated_at := t\<rparr>) db = active_restrictions_of now q db"
  "effective_profile_states now (q\<lparr>cpf_updated_at := t\<rparr>) db = effective_profile_states now q db"
  "tenant_refs (q\<lparr>cpf_updated_at := t\<rparr>) db = tenant_refs q db"
  "pending_order_of (q\<lparr>cpf_updated_at := t\<rparr>) ts ord = pending_order_of q ts ord"
  by (simp_all add: overrides_of_def restrictions_of_def expired_controls_def active_restrictions_of_def
      effective_profile_states_def effective_kyc_def effective_aml_def effective_sanctions_def tenant_refs_def
      pending_order_of_def Let_def)

lemma no_pending_updated_at: "no_pending now (q\<lparr>cpf_updated_at := t\<rparr>) db = no_pending now q db"
  by (simp add: no_pending_def eligibility_def graded_reasons_def)

lemma compliance_change_orders:
  assumes "compliance_change E now i db db'"
  shows "only_rejects db db'" "\<exists>p'. get_profile i db' = Inr p' \<and> no_pending now p' db'"
proof -
  from compliance_change_changed [OF assms] obtain p q where c: "changed_to now i db p q db'" by blast
  then obtain db1 where db1: "cd_orders db1 = cd_orders db" "db' = invalidate_orders now q db1"
    by (auto simp: changed_to_def)
  show "only_rejects db db'"
    using invalidate_orders_only_rejects [of db1 now q] db1 by (simp add: only_rejects_def)
  show "\<exists>p'. get_profile i db' = Inr p' \<and> no_pending now p' db'"
    using get_profile_changed [OF c] invalidate_orders_no_pending [of now q db1] db1(2)
    by (simp add: no_pending_updated_at)
qed

section \<open>Evidence\<close>

definition override_wf :: "compliance_override \<Rightarrow> bool" where
  "override_wf v \<longleftrightarrow>
     (cov_approved_by v = None \<longleftrightarrow> cov_approved_at v = None) \<and> cov_approved_by v \<noteq> Some (cov_requested_by v) \<and>
     (clearance (cov_control v) (cov_new_state v) \<longrightarrow> cov_evidence_ref v \<noteq> '''')"

text \<open>An approved override of account \<open>i\<close> that set control \<open>c\<close> to \<open>s\<close>, with evidence and two persons.\<close>

definition evidenced_override :: "uuid \<Rightarrow> string \<Rightarrow> string \<Rightarrow> compliance_override \<Rightarrow> bool" where
  "evidenced_override i c s v \<longleftrightarrow>
     cov_account v = i \<and> cov_control v = c \<and> cov_new_state v = s \<and> cov_evidence_ref v \<noteq> '''' \<and>
     cov_approved_at v \<noteq> None \<and> (\<exists>u. cov_approved_by v = Some u \<and> u \<noteq> cov_requested_by v)"

definition evidenced :: "compliance_override list \<Rightarrow> uuid \<Rightarrow> string \<Rightarrow> string \<Rightarrow> string \<Rightarrow> bool" where
  "evidenced vs i c s ref \<longleftrightarrow> ref \<noteq> '''' \<or> list_ex (evidenced_override i c s) vs"

definition profile_wf :: "compliance_override list \<Rightarrow> compliance_profile \<Rightarrow> bool" where
  "profile_wf vs p \<longleftrightarrow>
     (cpf_kyc_state p = CkApproved \<longrightarrow>
        evidenced vs (cpf_account_id p) ''KYC_STATE'' ''APPROVED'' (cpf_kyc_evidence_ref p)) \<and>
     (cpf_aml_state p = CaCleared \<longrightarrow>
        evidenced vs (cpf_account_id p) ''AML_STATE'' ''CLEARED'' (cpf_aml_evidence_ref p)) \<and>
     (cpf_sanctions_state p = CsClear \<longrightarrow>
        evidenced vs (cpf_account_id p) ''SANCTIONS_STATE'' ''CLEAR'' (cpf_sanctions_evidence_ref p)) \<and>
     (cpf_jurisdiction_state p \<noteq> CjUnknown \<longrightarrow> cpf_jurisdiction_evidence_ref p \<noteq> '''')"

definition compliance_wf :: "'a compliance_db_scheme \<Rightarrow> bool" where
  "compliance_wf db \<longleftrightarrow> (\<forall>p \<in> set (cd_profiles db). profile_wf (cd_overrides db) p) \<and>
     (\<forall>v \<in> set (cd_overrides db). override_wf v)"

text \<open>Approved overrides are never touched again.\<close>

definition approvals_kept :: "compliance_override list \<Rightarrow> compliance_override list \<Rightarrow> bool" where
  "approvals_kept vs vs' \<longleftrightarrow> (\<forall>v \<in> set vs. cov_approved_at v \<noteq> None \<longrightarrow> v \<in> set vs')"

lemma evidenced_mono: "approvals_kept vs vs' \<Longrightarrow> evidenced vs i c s ref \<Longrightarrow> evidenced vs' i c s ref"
  by (auto simp: evidenced_def approvals_kept_def list_ex_iff evidenced_override_def)

lemma profile_wf_mono: "approvals_kept vs vs' \<Longrightarrow> profile_wf vs p \<Longrightarrow> profile_wf vs' p"
  by (auto simp: profile_wf_def intro: evidenced_mono)

lemma changed_to_wf:
  assumes "changed_to now i db p q db'" "compliance_wf db" "approvals_kept (cd_overrides db) (cd_overrides db')"
    "\<forall>v \<in> set (cd_overrides db'). override_wf v"
    "profile_wf (cd_overrides db') p \<Longrightarrow> profile_wf (cd_overrides db') q"
  shows "compliance_wf db'"
proof -
  have old: "profile_wf (cd_overrides db') x" if "x \<in> set (cd_profiles db)" for x
    using that assms(2,3) by (auto simp: compliance_wf_def intro: profile_wf_mono)
  have "p \<in> set (cd_profiles db)" using assms(1) get_profile_id by (auto simp: changed_to_def)
  then have "profile_wf (cd_overrides db') q" using old assms(5) by blast
  then have "profile_wf (cd_overrides db') (q\<lparr>cpf_updated_at := now\<rparr>)" by (simp add: profile_wf_def)
  with old assms(1) have "\<forall>x \<in> set (cd_profiles db'). profile_wf (cd_overrides db') x"
    by (auto simp: changed_to_def upd_where_def)
  with assms(4) show ?thesis by (simp add: compliance_wf_def)
qed

lemma approvals_kept_refl [simp]: "approvals_kept vs vs"
  by (simp add: approvals_kept_def)


lemma kyc_text_inj: "kyc_text k = kyc_text k' \<longleftrightarrow> k = k'"
  by (cases k; cases k') simp_all

lemma aml_text_inj: "aml_text k = aml_text k' \<longleftrightarrow> k = k'"
  by (cases k; cases k') simp_all

lemma sanctions_text_inj: "sanctions_text k = sanctions_text k' \<longleftrightarrow> k = k'"
  by (cases k; cases k') simp_all

lemma evidenced_ref [simp]: "r \<noteq> '''' \<Longrightarrow> evidenced vs i c s r"
  by (simp add: evidenced_def)

lemma changed_same_overrides_wf:
  assumes "compliance_wf db" "changed_to now i db p q db'" "cd_overrides db' = cd_overrides db"
    "profile_wf (cd_overrides db) p \<Longrightarrow> profile_wf (cd_overrides db) q"
  shows "compliance_wf db'"
  using assms by (intro changed_to_wf [OF assms(2,1)]) (simp_all add: compliance_wf_def)

lemma transition_kyc_wf:
  fixes db db' :: compliance_db
  assumes wf: "compliance_wf db" and a: "transition_kyc E now i s actor ref db = Inr (db', p')"
  shows "compliance_wf db'"
proof -
  from transition_kyc_changed [OF a] obtain p k r where c: "changed_to now i db p p' db'" "cd_overrides db' = cd_overrides db"
    "cpf_kyc_evidence_ref p' = or_ref ref (cpf_kyc_evidence_ref p)" "cpf_kyc_state p' = CkApproved \<longrightarrow> ref \<noteq> ''''"
    "p' = p\<lparr>cpf_kyc_state := k, cpf_kyc_evidence_ref := r, cpf_version := Suc (cpf_version p)\<rparr>"
    by blast
  show ?thesis
    by (rule changed_same_overrides_wf [OF wf c(1,2)]) (use c(3,4) in \<open>auto simp: c(5) profile_wf_def or_ref_def split: if_splits\<close>)
qed

lemma transition_aml_wf:
  fixes db db' :: compliance_db
  assumes wf: "compliance_wf db" and a: "transition_aml E now i s actor ref db = Inr (db', p')"
  shows "compliance_wf db'"
proof -
  from transition_aml_changed [OF a] obtain p k r where c: "changed_to now i db p p' db'" "cd_overrides db' = cd_overrides db"
    "cpf_aml_evidence_ref p' = or_ref ref (cpf_aml_evidence_ref p)" "cpf_aml_state p' = CaCleared \<longrightarrow> ref \<noteq> ''''"
    "p' = p\<lparr>cpf_aml_state := k, cpf_aml_evidence_ref := r, cpf_version := Suc (cpf_version p)\<rparr>"
    by blast
  show ?thesis
    by (rule changed_same_overrides_wf [OF wf c(1,2)]) (use c(3,4) in \<open>auto simp: c(5) profile_wf_def or_ref_def split: if_splits\<close>)
qed

lemma transition_sanctions_wf:
  fixes db db' :: compliance_db
  assumes wf: "compliance_wf db" and a: "transition_sanctions E now i s actor ref db = Inr (db', p')"
  shows "compliance_wf db'"
proof -
  from transition_sanctions_changed [OF a] obtain p k where c: "changed_to now i db p p' db'" "cd_overrides db' = cd_overrides db"
    "ref \<noteq> ''''"
    "p' = p\<lparr>cpf_sanctions_state := k, cpf_sanctions_evidence_ref := ref, cpf_version := Suc (cpf_version p)\<rparr>"
    by blast
  show ?thesis
    by (rule changed_same_overrides_wf [OF wf c(1,2)]) (use c(3) in \<open>auto simp: c(4) profile_wf_def or_ref_def split: if_splits\<close>)
qed

lemma transition_jurisdiction_wf:
  fixes db db' :: compliance_db
  assumes wf: "compliance_wf db" and a: "transition_jurisdiction E now i s actor ref db = Inr (db', p')"
  shows "compliance_wf db'"
proof -
  from transition_jurisdiction_changed [OF a] obtain p k where c: "changed_to now i db p p' db'" "cd_overrides db' = cd_overrides db"
    "ref \<noteq> ''''"
    "p' = p\<lparr>cpf_jurisdiction_state := k, cpf_jurisdiction_evidence_ref := ref, cpf_version := Suc (cpf_version p)\<rparr>"
    by blast
  show ?thesis
    by (rule changed_same_overrides_wf [OF wf c(1,2)]) (use c(3) in \<open>auto simp: c(4) profile_wf_def or_ref_def split: if_splits\<close>)
qed

lemma update_account_state_wf:
  fixes db db' :: compliance_db
  assumes wf: "compliance_wf db" and a: "update_account_state E now i s actor codes db = Inr (db', p')"
  shows "compliance_wf db'"
proof -
  from update_account_state_changed [OF a] obtain p k where c: "changed_to now i db p p' db'" "cd_overrides db' = cd_overrides db"
    "p' = p\<lparr>cpf_account_state := k, cpf_version := Suc (cpf_version p)\<rparr>"
    by blast
  show ?thesis
    by (rule changed_same_overrides_wf [OF wf c(1,2)]) (simp add: c(3) profile_wf_def)
qed

lemma add_restriction_wf:
  fixes db db' :: compliance_db
  assumes wf: "compliance_wf db" and a: "add_restriction E now i kind code origin user until db = Inr (db', r)"
  shows "compliance_wf db'"
proof -
  from add_restriction_changed [OF a] obtain p where
    "changed_to now i db p (p\<lparr>cpf_version := Suc (cpf_version p)\<rparr>) db'" "cd_overrides db' = cd_overrides db"
    by blast
  then show ?thesis by (rule changed_same_overrides_wf [OF wf]) (simp add: profile_wf_def)
qed

lemma approve_override_wf:
  fixes db db' :: compliance_db
  assumes "approve_override E now oid checker db = Inr (db', v')" "compliance_wf db"
  shows "compliance_wf db'"
proof (cases "db' = db")
  case False
  from approve_override_changed [OF assms(1) False] obtain v p q where
    v: "get_row (\<lambda>x. cov_id x = oid) (cd_overrides db) = Inr v" "cov_approved_at v = None" "checker \<noteq> cov_requested_by v" and
    v': "v' = v\<lparr>cov_approved_by := Some checker, cov_approved_at := Some now\<rparr>" and
    o': "cd_overrides db' = upd_where (\<lambda>x. cov_id x = oid) (\<lambda>_. v') (cd_overrides db)" and
    k: "control_kept v p q" and c: "changed_to now (cov_account v) db p q db'" by blast
  from v(1) have u: "filter (\<lambda>x. cov_id x = oid) (cd_overrides db) = [v]"
    by (auto simp: get_row_def obj_get_Inr_filter split: sum.splits)
  then have vin: "v \<in> set (cd_overrides db)" "cov_id v = oid" by (auto simp: filter_eq_Cons_iff)
  then have v'in: "v' \<in> set (cd_overrides db')" by (auto simp: o' upd_where_def)
  have wv: "override_wf v" using assms(2) vin by (simp add: compliance_wf_def)
  then have wv': "override_wf v'" using v(3) by (auto simp: override_wf_def v')
  have "x = v" if "x \<in> set (cd_overrides db)" "cov_id x = oid" for x
  proof -
    from that have "x \<in> set (filter (\<lambda>x. cov_id x = oid) (cd_overrides db))" by simp
    then show ?thesis by (simp add: u)
  qed
  then have kept: "approvals_kept (cd_overrides db) (cd_overrides db')"
    using v(2) by (force simp: approvals_kept_def o' upd_where_def)
  have id: "cpf_account_id q = cov_account v"
    using c get_profile_id [of "cov_account v" db p] by (auto simp: changed_to_def same_owner_def)
  have ev: "evidenced (cd_overrides db') (cov_account v) (cov_control v) (cov_new_state v) ref"
    if "clearance (cov_control v) (cov_new_state v)" for ref
    using that wv v'in v(3) by (auto simp: evidenced_def list_ex_iff evidenced_override_def override_wf_def v' intro!: bexI [of _ v'])
  show ?thesis
  proof (rule changed_to_wf [OF c assms(2) kept])
    show "\<forall>x \<in> set (cd_overrides db'). override_wf x"
      using assms(2) wv' by (auto simp: o' upd_where_def compliance_wf_def)
  next
    assume "profile_wf (cd_overrides db') p"
    moreover have "cpf_account_id p = cpf_account_id q" using c by (simp add: changed_to_def same_owner_def)
    ultimately show "profile_wf (cd_overrides db') q"
      using k ev id unfolding profile_wf_def control_kept_def clearance_def
      by (auto simp flip: kyc_text.simps(4) aml_text.simps(3) sanctions_text.simps(2))
  qed
qed (use assms(2) in simp)


end
