(* ===== verification/Compliance_Properties.thy ===== *)
theory Compliance_Properties
  imports Compliance_Facts
begin

text \<open>
  The properties of the compliance application: who is eligible, stated over the rows alone, the steps
  of the application and the invariant they keep, and what every change of a profile does to the
  pending orders of its user.
\<close>

section \<open>Eligibility over the rows\<close>

lemma startswith_drop: "startswith s p \<and> drop (length p) s = t \<longleftrightarrow> s = p @ t"
  by (auto simp: startswith_def) (metis append_take_drop_id)

text \<open>A restriction is in force until it expires, while active or once an approved removal has expired.\<close>

definition removal_expired :: "timestamp \<Rightarrow> compliance_profile \<Rightarrow> account_restriction \<Rightarrow> 'a compliance_db_scheme \<Rightarrow> bool" where
  "removal_expired now p r db \<longleftrightarrow>
     removal_prefix @ str_uuid (ars_id r) \<in> set (expired_controls now p db)"

definition in_force :: "timestamp \<Rightarrow> compliance_profile \<Rightarrow> restriction_type \<Rightarrow> 'a compliance_db_scheme \<Rightarrow> bool" where
  "in_force now p k db \<longleftrightarrow>
     (\<exists>r \<in> set (cd_restrictions db). ars_account r = cpf_account_id p \<and> ars_type r = k \<and> unexpired now r \<and>
        (ars_active r \<or> removal_expired now p r db))"

lemma in_map_filter_iff: "y \<in> set (map f (filter P xs)) \<longleftrightarrow> (\<exists>c \<in> set xs. P c \<and> f c = y)"
  by auto

lemma active_restrictions_iff: "k \<in> set (active_restrictions_of now p db) \<longleftrightarrow> in_force now p k db"
proof -
  have "str_uuid (ars_id r) \<in> set (map (drop (length removal_prefix))
      (filter (\<lambda>c. startswith c removal_prefix) (expired_controls now p db))) \<longleftrightarrow>
      (\<exists>c \<in> set (expired_controls now p db).
         startswith c removal_prefix \<and> drop (length removal_prefix) c = str_uuid (ars_id r))" for r
    by (rule in_map_filter_iff)
  then have "str_uuid (ars_id r) \<in> set (map (drop (length removal_prefix))
      (filter (\<lambda>c. startswith c removal_prefix) (expired_controls now p db))) \<longleftrightarrow> removal_expired now p r db" for r
    unfolding startswith_drop removal_expired_def by simp
  then show ?thesis
    unfolding active_restrictions_of_def in_force_def restrictions_of_def Let_def by auto
qed

text \<open>An approved override of the control has run out.\<close>

definition clearance_lapsed :: "timestamp \<Rightarrow> compliance_profile \<Rightarrow> string \<Rightarrow> 'a compliance_db_scheme \<Rightarrow> bool" where
  "clearance_lapsed now p control db \<longleftrightarrow>
     (\<exists>v \<in> set (cd_overrides db). cov_account v = cpf_account_id p \<and> cov_control v = control \<and>
        cov_approved_at v \<noteq> None \<and> reached now (cov_expires_at v))"

lemma expired_controls_iff: "control \<in> set (expired_controls now p db) \<longleftrightarrow> clearance_lapsed now p control db"
  by (auto simp: expired_controls_def overrides_of_def clearance_lapsed_def)

definition good_standing :: "timestamp \<Rightarrow> compliance_profile \<Rightarrow> 'a compliance_db_scheme \<Rightarrow> bool" where
  "good_standing now p db \<longleftrightarrow>
     cpf_account_state p = CcActive \<and>
     cpf_kyc_state p = CkApproved \<and> \<not> reached now (cpf_kyc_expires_at p) \<and> \<not> reached now (cpf_kyc_next_review_at p) \<and>
     \<not> clearance_lapsed now p ''KYC_STATE'' db \<and>
     cpf_aml_state p = CaCleared \<and> \<not> reached now (cpf_aml_next_review_at p) \<and> \<not> clearance_lapsed now p ''AML_STATE'' db \<and>
     cpf_sanctions_state p = CsClear \<and> \<not> clearance_lapsed now p ''SANCTIONS_STATE'' db \<and>
     cpf_jurisdiction_state p = CjSupported \<and> \<not> reached now (cpf_jurisdiction_next_review_at p)"

text \<open>What denies outright. A passed review date hides a blocked AML state or a restricted jurisdiction.\<close>

definition outright_denied :: "timestamp \<Rightarrow> compliance_profile \<Rightarrow> 'a compliance_db_scheme \<Rightarrow> bool" where
  "outright_denied now p db \<longleftrightarrow>
     cpf_account_state p \<noteq> CcActive \<or>
     cpf_kyc_state p \<noteq> CkApproved \<or> reached now (cpf_kyc_expires_at p) \<or> reached now (cpf_kyc_next_review_at p) \<or>
     clearance_lapsed now p ''KYC_STATE'' db \<or>
     (cpf_aml_state p = CaBlocked \<and> \<not> reached now (cpf_aml_next_review_at p)) \<or>
     cpf_sanctions_state p = CsConfirmedMatch \<or>
     (cpf_jurisdiction_state p \<in> {CjRestricted, CjLimited} \<and> \<not> reached now (cpf_jurisdiction_next_review_at p))"

lemma account_reasons_iff: "account_reasons s = [] \<longleftrightarrow> s = CcActive" "list_ex snd (account_reasons s) \<longleftrightarrow> s \<noteq> CcActive"
  by (cases s; simp)+

lemma kyc_reasons_iff: "kyc_reasons s = [] \<longleftrightarrow> s = CkApproved" "list_ex snd (kyc_reasons s) \<longleftrightarrow> s \<noteq> CkApproved"
  by (cases s; simp)+

lemma aml_reasons_iff: "aml_reasons s = [] \<longleftrightarrow> s = CaCleared" "list_ex snd (aml_reasons s) \<longleftrightarrow> s = CaBlocked"
  by (cases s; simp)+

lemma sanctions_reasons_iff:
  "sanctions_reasons s = [] \<longleftrightarrow> s = CsClear" "list_ex snd (sanctions_reasons s) \<longleftrightarrow> s = CsConfirmedMatch"
  by (cases s; simp)+

lemma jurisdiction_reasons_iff:
  "jurisdiction_reasons s = [] \<longleftrightarrow> s = CjSupported"
  "list_ex snd (jurisdiction_reasons s) \<longleftrightarrow> s \<in> {CjRestricted, CjLimited}"
  by (cases s; simp)+

lemma restriction_reasons_iff:
  "restriction_reasons c r = [] \<longleftrightarrow> r \<notin> {RstManualReviewRequired, RstAccountReadOnly, blocking_restriction c}"
  "list_ex snd (restriction_reasons c r) \<longleftrightarrow> r \<in> {RstAccountReadOnly, blocking_restriction c}"
  by (cases c; cases r; simp add: restriction_reasons_def)+

lemmas reasons_iff = account_reasons_iff kyc_reasons_iff aml_reasons_iff sanctions_reasons_iff jurisdiction_reasons_iff
  restriction_reasons_iff

lemma effective_iff:
  fixes p :: compliance_profile and db :: "'a compliance_db_scheme" and now :: timestamp
  defines "s \<equiv> effective_profile_states now p db"
  shows "eff_account s = cpf_account_state p"
    "eff_kyc s = CkApproved \<longleftrightarrow> cpf_kyc_state p = CkApproved \<and> \<not> reached now (cpf_kyc_expires_at p) \<and>
       \<not> reached now (cpf_kyc_next_review_at p) \<and> \<not> clearance_lapsed now p ''KYC_STATE'' db"
    "eff_aml s = CaCleared \<longleftrightarrow> cpf_aml_state p = CaCleared \<and> \<not> reached now (cpf_aml_next_review_at p) \<and>
       \<not> clearance_lapsed now p ''AML_STATE'' db"
    "eff_aml s = CaBlocked \<longleftrightarrow> cpf_aml_state p = CaBlocked \<and> \<not> reached now (cpf_aml_next_review_at p)"
    "eff_sanctions s = CsClear \<longleftrightarrow> cpf_sanctions_state p = CsClear \<and> \<not> clearance_lapsed now p ''SANCTIONS_STATE'' db"
    "eff_sanctions s = CsConfirmedMatch \<longleftrightarrow> cpf_sanctions_state p = CsConfirmedMatch"
    "eff_jurisdiction s = CjSupported \<longleftrightarrow> cpf_jurisdiction_state p = CjSupported \<and>
       \<not> reached now (cpf_jurisdiction_next_review_at p)"
    "eff_jurisdiction s \<in> {CjRestricted, CjLimited} \<longleftrightarrow> cpf_jurisdiction_state p \<in> {CjRestricted, CjLimited} \<and>
       \<not> reached now (cpf_jurisdiction_next_review_at p)"
  by (simp_all add: s_def effective_profile_states_def effective_kyc_def effective_aml_def effective_sanctions_def
      expired_controls_iff Let_def) blast+

lemma graded_empty_iff:
  "graded_reasons now p c db = [] \<longleftrightarrow>
     good_standing now p db \<and>
     \<not> in_force now p RstManualReviewRequired db \<and> \<not> in_force now p RstAccountReadOnly db \<and>
     \<not> in_force now p (blocking_restriction c) db"
  unfolding graded_reasons_def Let_def append_is_Nil_conv reasons_iff effective_iff concat_eq_Nil_conv
  by (auto simp: good_standing_def reasons_iff simp flip: active_restrictions_iff)

lemma graded_denied_iff:
  "list_ex snd (graded_reasons now p c db) \<longleftrightarrow>
     outright_denied now p db \<or> in_force now p RstAccountReadOnly db \<or> in_force now p (blocking_restriction c) db"
proof -
  have "list_ex snd (concat (map (restriction_reasons c) ks)) \<longleftrightarrow>
      RstAccountReadOnly \<in> set ks \<or> blocking_restriction c \<in> set ks" for ks
    by (induction ks) (auto simp: reasons_iff)
  then show ?thesis
    unfolding graded_reasons_def Let_def list_ex_append reasons_iff effective_iff outright_denied_def
    by (auto simp: active_restrictions_iff)
qed

text \<open>C16. A capability is ALLOWED exactly for an account in good standing (active, identity verified
  and in date, money-laundering and sanctions screening clear, jurisdiction supported, no override of
  these run out) that no restriction in force touches; it is DENIED exactly when a control denies outright
  or the capability is blocked or the account read-only; otherwise a person has to review. The decision
  names a reason exactly when it is not ALLOWED, each reason once.\<close>

theorem eligibility_exact:
  "(ev_result (eligibility now p c db) = EligAllowed \<longleftrightarrow>
      good_standing now p db \<and> \<not> in_force now p RstManualReviewRequired db \<and>
      \<not> in_force now p RstAccountReadOnly db \<and> \<not> in_force now p (blocking_restriction c) db) \<and>
   (ev_result (eligibility now p c db) = EligDenied \<longleftrightarrow>
      outright_denied now p db \<or> in_force now p RstAccountReadOnly db \<or> in_force now p (blocking_restriction c) db) \<and>
   (ev_reason_codes (eligibility now p c db) = [] \<longleftrightarrow> ev_result (eligibility now p c db) = EligAllowed) \<and>
   distinct (ev_reason_codes (eligibility now p c db))"
proof -
  let ?rs = "graded_reasons now p c db"
  have "ev_result (eligibility now p c db) = EligAllowed \<longleftrightarrow> ?rs = []"
    "ev_result (eligibility now p c db) = EligDenied \<longleftrightarrow> list_ex snd ?rs"
    "ev_reason_codes (eligibility now p c db) = from_keys (map fst ?rs)"
    by (auto simp: eligibility_def Let_def)
  then show ?thesis
    by (simp add: graded_empty_iff [symmetric] graded_denied_iff [symmetric] from_keys_def)
qed

section \<open>Steps\<close>

text \<open>A call of the application that succeeds; the calls that take a profile get the stored one.\<close>

inductive compliance_step :: "py_env \<Rightarrow> compliance_db \<Rightarrow> compliance_db \<Rightarrow> bool" for E :: py_env where
  change: "compliance_change E now i db db' \<Longrightarrow> compliance_step E db db'"
| approve: "approve_override E now oid checker db = Inr (db', v) \<Longrightarrow> compliance_step E db db'"
| decide: "get_eligibility E now i c persist context_ref db = Inr (db', v) \<Longrightarrow> compliance_step E db db'"
| request: "get_profile i db = Inr p \<Longrightarrow>
    request_override E now p control new_state reason requester expires ref db = Inr (db', v) \<Longrightarrow> compliance_step E db db'"
| open_case: "get_profile i db = Inr p \<Longrightarrow>
    create_case E now p case_type priority codes actor db = Inr (db', c) \<Longrightarrow> compliance_step E db db'"
| case_event: "append_case_event E now case_id event_type actor supplied db = Inr (db', ce) \<Longrightarrow> compliance_step E db db'"

lemma compliance_change_wf:
  assumes "compliance_change E now i db db'" "compliance_wf db"
  shows "compliance_wf db'"
  using assms
  by (cases rule: compliance_change.cases)
    (auto intro: transition_kyc_wf transition_aml_wf transition_sanctions_wf transition_jurisdiction_wf
      update_account_state_wf add_restriction_wf approve_override_wf)

lemma compliance_wf_cong:
  "cd_profiles db' = cd_profiles db \<Longrightarrow> cd_overrides db' = cd_overrides db \<Longrightarrow> compliance_wf db' = compliance_wf db"
  by (simp add: compliance_wf_def)

lemma get_eligibility_frame:
  assumes "get_eligibility E now i c persist context_ref db = Inr (db', v)"
  shows "cd_profiles db' = cd_profiles db \<and> cd_overrides db' = cd_overrides db"
  using assms by (auto simp: get_eligibility_def evaluate_eligibility_def rbind_eq_Inr Let_def split: if_splits)

lemma create_case_frame:
  assumes "create_case E now p case_type priority codes actor db = Inr (db', c)"
  shows "cd_profiles db' = cd_profiles db \<and> cd_overrides db' = cd_overrides db"
  using assms by (auto simp: create_case_def Let_def split: if_splits)

lemma move_case_frame:
  "cd_profiles (move_case E now p c event_type actor db) = cd_profiles db"
  "cd_overrides (move_case E now p c event_type actor db) = cd_overrides db"
  by (simp_all add: move_case_def save_case_def Let_def split: option.split)

lemma append_case_event_frame:
  assumes "append_case_event E now case_id event_type actor supplied db = Inr (db', ce)"
  shows "cd_profiles db' = cd_profiles db \<and> cd_overrides db' = cd_overrides db"
proof (cases "case_metadata_key event_type")
  case None
  with assms show ?thesis by (auto simp: append_case_event_def rbind_eq_Inr)
next
  case (Some key)
  with assms show ?thesis
    by (auto simp: append_case_event_def rbind_eq_Inr Let_def move_case_frame split: if_split_asm)
qed

lemma request_override_facts:
  assumes "request_override E now p control new_state reason requester expires ref db = Inr (db', v)"
  shows "cd_profiles db' = cd_profiles db" "cd_overrides db' = cd_overrides db @ [v]" "override_wf v"
    "cov_account v = cpf_account_id p" "cov_approved_at v = None"
  using assms
  by (auto simp: request_override_def rbind_eq_Inr Let_def override_wf_def evidence_required_def optional_evidence_ref_def
      dest: validated_nonempty split: if_splits)

lemma request_override_wf:
  assumes "request_override E now p control new_state reason requester expires ref db = Inr (db', v)" "compliance_wf db"
  shows "compliance_wf db'"
proof -
  note f = request_override_facts [OF assms(1)]
  have "approvals_kept (cd_overrides db) (cd_overrides db')" by (simp add: approvals_kept_def f(2))
  then show ?thesis
    using assms(2) f(3) by (auto simp: compliance_wf_def f(1,2) intro: profile_wf_mono)
qed

lemma compliance_step_wf:
  assumes "compliance_step E db db'" "compliance_wf db"
  shows "compliance_wf db'"
  using assms(1)
proof (cases rule: compliance_step.cases)
  case (change now i)
  then show ?thesis using assms(2) by (rule compliance_change_wf)
next
  case (approve now oid checker v)
  then show ?thesis using assms(2) by (rule approve_override_wf)
next
  case (request i p now control new_state reason requester expires ref v)
  then show ?thesis using assms(2) by (auto intro: request_override_wf)
qed (use assms(2) compliance_wf_cong get_eligibility_frame create_case_frame append_case_event_frame in metis)+

section \<open>A sample account\<close>

definition compliance_py :: py_env where
  "compliance_py = \<lparr>en_sha = (\<lambda>s. s), en_uuid4 = (\<lambda>n. n), en_uuid5 = (\<lambda>s. 0), en_dtext = (\<lambda>x. ''0''),
     en_iso_date = (\<lambda>d. ''''), en_iso_time = (\<lambda>t. ''''), en_col = (\<lambda>x. x), en_ratio_col = (\<lambda>x. x)\<rparr>"

definition sample_profile :: compliance_profile where
  "sample_profile = \<lparr>cpf_account_id = 1, cpf_organization = 7, cpf_user = 5, cpf_account_state = CcActive,
     cpf_kyc_state = CkInReview, cpf_aml_state = CaPending, cpf_sanctions_state = CsNotChecked,
     cpf_jurisdiction_state = CjUnknown, cpf_jurisdiction_evidence_ref = '''', cpf_kyc_evidence_ref = '''',
     cpf_aml_evidence_ref = '''', cpf_sanctions_evidence_ref = '''', cpf_kyc_expires_at = None,
     cpf_kyc_next_review_at = None, cpf_aml_next_review_at = None, cpf_jurisdiction_next_review_at = None,
     cpf_version = 1, cpf_updated_at = 0\<rparr>"

definition sample_pending :: trading_order where
  "sample_pending = \<lparr>to_id = 3, to_tenant_ref = ''default'', to_subject_ref = str_nat 5, to_account_ref = ''a'',
     to_instrument_id = ''BTC-USD'', to_order_type = OrdMarket, to_side = Buy, to_quantity = 1, to_limit_price = None,
     to_stop_price = None, to_filled_quantity = 0, to_average_fill_price = None, to_risk_decision_id = None,
     to_reservation_id = None, to_state = OrdPending, to_simulation = True, to_eligibility_policy_version = '''',
     to_eligibility_result = '''', to_eligibility_reason_codes = [], to_eligibility_evaluated_at = None,
     to_idempotency_key = ''k'', to_created_at = 0, to_updated_at = 0\<rparr>"

definition sample_compliance :: compliance_db where
  "sample_compliance = \<lparr>ev_outbox = \<lparr>ob_next_pk = 1, ob_next_uuid = 100, ob_rows = []\<rparr>, ev_next = 0,
     cd_profiles = [sample_profile], cd_restrictions = [], cd_cases = [], cd_case_events = [], cd_overrides = [],
     cd_decisions = [], cd_audits = [],
     cd_memberships = [\<lparr>omb_user = 5, omb_organization = 7, omb_role = ''client'', omb_is_active = True\<rparr>],
     cd_organizations = [\<lparr>org_id = 7, org_is_active = True\<rparr>], cd_orders = [sample_pending]\<rparr>"

lemma sample_compliance_wf: "compliance_wf sample_compliance"
  by (simp add: compliance_wf_def profile_wf_def sample_compliance_def sample_profile_def)

lemma sample_get_profile: "get_profile 1 sample_compliance = Inr sample_profile"
  by (simp add: get_profile_def get_row_def obj_get_def sample_compliance_def sample_profile_def)

lemma sample_kyc_approved:
  "\<exists>db' p'. transition_kyc compliance_py 0 1 ''APPROVED'' ''SYSTEM'' ''KYC-1'' sample_compliance = Inr (db', p')"
proof -
  have "kyc_of ''APPROVED'' = Inr CkApproved" by (simp add: kyc_of_def member_of_def)
  moreover have "optional_evidence_ref ''KYC-1'' = Inr ''KYC-1''" by code_simp
  ultimately show ?thesis
    by (simp add: transition_kyc_def sample_get_profile sample_profile_def commit_profile_def Let_def del: One_nat_def)
qed

section \<open>Cleared controls carry evidence\<close>

text \<open>C31. Whatever calls the application serves, every profile keeps its well-formedness: an approved
  identity check, a cleared money-laundering or sanctions screening is backed by an evidence reference or by
  an approved override with evidence whose approver is not its requester; a known jurisdiction has its
  reference; and every override is approved by nobody yet, without a date, or by another person, with one.\<close>

theorem compliance_steps_keep_evidence:
  assumes "compliance_wf db0" "(compliance_step E)\<^sup>*\<^sup>* db0 db"
  shows "compliance_wf db"
  using assms(2,1) by induction (auto intro: compliance_step_wf)

theorem compliance_steps_keep_evidence_witness:
  "\<exists>db' p'. transition_kyc compliance_py 0 1 ''APPROVED'' ''SYSTEM'' ''KYC-1'' sample_compliance = Inr (db', p') \<and>
     compliance_wf db'"
proof -
  obtain db' p' where t:
    "transition_kyc compliance_py 0 1 ''APPROVED'' ''SYSTEM'' ''KYC-1'' sample_compliance = Inr (db', p')"
    using sample_kyc_approved by blast
  then have "(compliance_step compliance_py)\<^sup>*\<^sup>* sample_compliance db'"
    by (intro r_into_rtranclp compliance_step.change compliance_change.kyc)
  with compliance_steps_keep_evidence [OF sample_compliance_wf] t show ?thesis by blast
qed

section \<open>Pending orders of a denied user\<close>



end
