(* ===== verification/Surveillance.thy ===== *)
theory Surveillance
  imports Trading_Orders Post_Trade Decimal_Text
begin

text \<open>
  Trade surveillance, \<open>apps/surveillance\<close>: the rows of \<open>models.py\<close> and the engine of \<open>engine.py\<close>, with
  the pre-trade evaluation of an order (restrictions, self-trade prevention, price deviation) and the
  indicators over a window of trading events.
\<close>

section \<open>Rows\<close>

record surveillance_rule =
  svr_id :: uuid
  svr_name :: string
  svr_event_type :: string
  svr_enabled :: bool
  svr_severity :: string
  svr_parameters :: row
  svr_policy_version :: string
  svr_version :: nat
  svr_effective_from :: timestamp
  svr_effective_to :: "timestamp option"

record trading_restriction =
  trs_id :: uuid
  trs_tenant_ref :: string
  trs_scope_type :: string
  trs_scope_ref :: string
  trs_type :: string
  trs_reason_code :: string
  trs_effective_from :: timestamp
  trs_effective_to :: "timestamp option"
  trs_created_by :: string
  trs_approved_by :: string
  trs_status :: string
  trs_created_at :: timestamp
  trs_updated_at :: timestamp

record surveillance_event =
  sve_id :: uuid
  sve_tenant_ref :: string
  sve_account_ref :: string
  sve_instrument_id :: string
  sve_event_type :: string
  sve_severity :: string
  sve_detected_at :: timestamp
  sve_window_start :: timestamp
  sve_window_end :: timestamp
  sve_rule :: uuid
  sve_rule_version :: nat
  sve_policy_version :: string
  sve_score :: rat
  sve_status :: string
  sve_evidence_hash :: string
  sve_evidence_safe :: json
  sve_source_event_id :: "uuid option"

record surveillance_case =
  svc_id :: uuid
  svc_tenant_ref :: string
  svc_account_ref :: string
  svc_case_type :: string
  svc_severity :: string
  svc_status :: string
  svc_assigned_to :: string
  svc_opened_at :: timestamp
  svc_updated_at :: timestamp
  svc_resolved_at :: "timestamp option"
  svc_resolution_code :: string
  svc_policy_version :: string
  svc_evidence_hash :: string

record surveillance_case_event =
  sct_id :: uuid
  sct_case :: uuid
  sct_event_type :: string
  sct_actor_ref :: string
  sct_reason :: string
  sct_evidence_hash :: string
  sct_occurred_at :: timestamp

record surveillance_audit =
  sva_id :: uuid
  sva_tenant_ref :: string
  sva_actor_ref :: string
  sva_action :: string
  sva_resource_type :: string
  sva_resource_ref :: string
  sva_reason :: string
  sva_evidence_hash :: string
  sva_occurred_at :: timestamp

record surveillance_dead_letter =
  sdl_event_id :: uuid
  sdl_tenant_ref :: string
  sdl_event_type :: string
  sdl_failure_category :: string
  sdl_retry_count :: nat
  sdl_first_failed_at :: timestamp
  sdl_last_failed_at :: timestamp

record surveillance_db = event_db +
  sv_rules :: "surveillance_rule list"
  sv_restrictions :: "trading_restriction list"
  sv_events :: "surveillance_event list"
  sv_cases :: "surveillance_case list"
  sv_case_links :: "(uuid \<times> uuid) list"
  sv_timeline :: "surveillance_case_event list"
  sv_audits :: "surveillance_audit list"
  sv_dead_letters :: "surveillance_dead_letter list"
  sv_requests :: foundation_requests
  sv_application_audits :: "application_audit_event list"

text \<open>\<open>save\<close> and \<open>delete\<close> of the append-only rows: of an event only severity and status may change.\<close>

definition save_surveillance_event ::
  "surveillance_event \<Rightarrow> 'a surveillance_db_scheme \<Rightarrow> (foundation_error, 'a surveillance_db_scheme) res" where
  "save_surveillance_event e db =
     (case obj_first (\<lambda>x. sve_id x = sve_id e) (sv_events db) of
        None \<Rightarrow> Inr (db\<lparr>sv_events := sv_events db @ [e]\<rparr>)
      | Some old \<Rightarrow>
          if e \<noteq> old\<lparr>sve_severity := sve_severity e, sve_status := sve_status e\<rparr>
          then Inl (FValueError ''SURVEILLANCE_EVIDENCE_APPEND_ONLY'')
          else Inr (db\<lparr>sv_events := upd_where (\<lambda>x. sve_id x = sve_id e) (\<lambda>_. e) (sv_events db)\<rparr>))"

definition delete_surveillance_event ::
  "surveillance_event \<Rightarrow> 'a surveillance_db_scheme \<Rightarrow> (foundation_error, 'a surveillance_db_scheme) res" where
  "delete_surveillance_event e db = Inl (FValueError ''SURVEILLANCE_EVIDENCE_APPEND_ONLY'')"

definition save_case_event ::
  "surveillance_case_event \<Rightarrow> 'a surveillance_db_scheme \<Rightarrow> (foundation_error, 'a surveillance_db_scheme) res" where
  "save_case_event t db =
     (if obj_exists (\<lambda>x. sct_id x = sct_id t) (sv_timeline db) then Inl (FValueError ''SURVEILLANCE_CASE_EVENT_APPEND_ONLY'')
      else Inr (db\<lparr>sv_timeline := sv_timeline db @ [t]\<rparr>))"

definition delete_case_event ::
  "surveillance_case_event \<Rightarrow> 'a surveillance_db_scheme \<Rightarrow> (foundation_error, 'a surveillance_db_scheme) res" where
  "delete_case_event t db = Inl (FValueError ''SURVEILLANCE_CASE_EVENT_APPEND_ONLY'')"

definition save_surveillance_audit ::
  "surveillance_audit \<Rightarrow> 'a surveillance_db_scheme \<Rightarrow> (foundation_error, 'a surveillance_db_scheme) res" where
  "save_surveillance_audit a db =
     (if obj_exists (\<lambda>x. sva_id x = sva_id a) (sv_audits db) then Inl (FValueError ''SURVEILLANCE_AUDIT_APPEND_ONLY'')
      else Inr (db\<lparr>sv_audits := sv_audits db @ [a]\<rparr>))"

definition delete_surveillance_audit ::
  "surveillance_audit \<Rightarrow> 'a surveillance_db_scheme \<Rightarrow> (foundation_error, 'a surveillance_db_scheme) res" where
  "delete_surveillance_audit a db = Inl (FValueError ''SURVEILLANCE_AUDIT_APPEND_ONLY'')"

section \<open>Findings\<close>

record finding =
  fnd_event_type :: string
  fnd_severity :: string
  fnd_score :: rat
  fnd_rule_id :: uuid
  fnd_rule_version :: nat
  fnd_policy_version :: string
  fnd_evidence_safe :: json

record surveillance_decision =
  svd_decision :: decision
  svd_reason_codes :: "string list"
  svd_findings :: "finding list"
  svd_policy_version :: string

text \<open>In force at an instant: begun, and without an end or before it.\<close>

definition effective_at :: "timestamp \<Rightarrow> timestamp \<Rightarrow> timestamp option \<Rightarrow> bool" where
  "effective_at now begin_at end_at \<longleftrightarrow> begin_at \<le> now \<and> (case end_at of None \<Rightarrow> True | Some t \<Rightarrow> now < t)"

definition current_rule :: "timestamp \<Rightarrow> string \<Rightarrow> surveillance_rule list \<Rightarrow> surveillance_rule option" where
  "current_rule now event_type rules =
     obj_last_by (\<lambda>r. int (svr_version r))
       (filter (\<lambda>r. svr_event_type r = event_type \<and> svr_enabled r \<and>
                  effective_at now (svr_effective_from r) (svr_effective_to r)) rules)"

definition finding_of :: "surveillance_rule \<Rightarrow> rat \<Rightarrow> row \<Rightarrow> finding" where
  "finding_of r score evidence =
     \<lparr>fnd_event_type = svr_event_type r, fnd_severity = svr_severity r, fnd_score = score, fnd_rule_id = svr_id r,
      fnd_rule_version = svr_version r, fnd_policy_version = svr_policy_version r, fnd_evidence_safe = JObj evidence\<rparr>"

text \<open>\<open>int(parameters.get(key, d))\<close> and \<open>Decimal(str(parameters.get(key, d)))\<close>.\<close>

definition rule_int :: "surveillance_rule \<Rightarrow> string \<Rightarrow> int \<Rightarrow> (foundation_error, int) res" where
  "rule_int r key d =
     (case map_of (svr_parameters r) key of
        None \<Rightarrow> Inr d
      | Some (JInt i) \<Rightarrow> Inr i
      | Some (JBool b) \<Rightarrow> Inr (if b then 1 else 0)
      | Some (JStr s) \<Rightarrow> (case parse_int s of None \<Rightarrow> Inl (FPyError ''ValueError'') | Some i \<Rightarrow> Inr i)
      | Some _ \<Rightarrow> Inl (FPyError ''TypeError''))"

definition rule_decimal :: "surveillance_rule \<Rightarrow> string \<Rightarrow> string \<Rightarrow> (foundation_error, decimal) res" where
  "rule_decimal r key d =
     (case parse_decimal (case map_of (svr_parameters r) key of None \<Rightarrow> d | Some j \<Rightarrow> py_text j) of
        None \<Rightarrow> Inl FArithmeticError
      | Some x \<Rightarrow> Inr x)"

text \<open>\<open>x >= d\<close> and \<open>x <= d\<close>; comparing with a NaN raises.\<close>

definition reaches :: "rat \<Rightarrow> decimal \<Rightarrow> (foundation_error, bool) res" where
  "reaches x d =
     (case d of NaN \<Rightarrow> Inl FArithmeticError | Inf neg \<Rightarrow> Inr neg | Finite s c e \<Rightarrow> Inr (dec_value d \<le> x))"

definition stays_below :: "rat \<Rightarrow> decimal \<Rightarrow> (foundation_error, bool) res" where
  "stays_below x d =
     (case d of NaN \<Rightarrow> Inl FArithmeticError | Inf neg \<Rightarrow> Inr (\<not> neg) | Finite s c e \<Rightarrow> Inr (x \<le> dec_value d))"

text \<open>\<open>a / b\<close> on decimals: a zero divisor raises.\<close>

definition checked_div :: "rat \<Rightarrow> rat \<Rightarrow> (foundation_error, rat) res" where
  "checked_div a b = (if b = 0 then Inl FArithmeticError else Inr (ddiv a b))"

section \<open>Restrictions\<close>

text \<open>A scope of the order; the optional ones count when their text is not empty.\<close>

definition restriction_in_scope ::
  "string \<Rightarrow> string \<Rightarrow> string \<Rightarrow> string \<Rightarrow> string \<Rightarrow> string \<Rightarrow> trading_restriction \<Rightarrow> bool" where
  "restriction_in_scope tenant account instrument asset_class venue jurisdiction r \<longleftrightarrow>
     (trs_scope_type r, trs_scope_ref r) \<in>
       set ([(''TENANT'', tenant), (''ACCOUNT'', account), (''INSTRUMENT'', instrument)] @
            (if asset_class = '''' then [] else [(''ASSET_CLASS'', asset_class)]) @
            (if venue = '''' then [] else [(''VENUE'', venue)]) @
            (if jurisdiction = '''' then [] else [(''JURISDICTION'', jurisdiction)]))"

definition hard_restrictions :: "string list" where
  "hard_restrictions = [''BLOCK_NEW_ORDERS'', ''BLOCK_INSTRUMENT'', ''BLOCK_ASSET_CLASS'', ''BLOCK_VENUE'']"

definition concerns_side :: "order_side \<Rightarrow> trading_restriction \<Rightarrow> bool" where
  "concerns_side side r \<longleftrightarrow>
     trs_type r \<in> set hard_restrictions \<or> trs_type r = ''BLOCK_'' @ side_text side @ ''S'' \<or>
     trs_type r \<in> {''CANCEL_ONLY'', ''CLOSE_ONLY'', ''REVIEW_REQUIRED''}"

definition trading_restrictions_of ::
  "timestamp \<Rightarrow> string \<Rightarrow> string \<Rightarrow> string \<Rightarrow> order_side \<Rightarrow> string \<Rightarrow> string \<Rightarrow> string \<Rightarrow>
   trading_restriction list \<Rightarrow> trading_restriction list" where
  "trading_restrictions_of now tenant account instrument side asset_class venue jurisdiction t =
     filter (concerns_side side)
       (filter (\<lambda>r. trs_tenant_ref r = tenant \<and> trs_status r = ''ACTIVE'' \<and>
                  effective_at now (trs_effective_from r) (trs_effective_to r) \<and>
                  restriction_in_scope tenant account instrument asset_class venue jurisdiction r) t)"

section \<open>Self-trade prevention\<close>

text \<open>The normalised payload of an order; only market and limit orders are placed.\<close>

record order_payload =
  opl_instrument_id :: string
  opl_side :: order_side
  opl_order_type :: order_type
  opl_quantity :: rat
  opl_price :: rat
  opl_limit_price :: "rat option"

fun opposite :: "order_side \<Rightarrow> order_side" where
  "opposite Buy = Sell"
| "opposite Sell = Buy"

definition resting_states :: "order_state set" where
  "resting_states = {OrdPending, OrdAccepted, OrdOpen, OrdPartiallyFilled}"

text \<open>\<open>limit_price or price\<close>: a zero limit falls back to the price.\<close>

definition incoming_price :: "order_payload \<Rightarrow> rat" where
  "incoming_price p = (case opl_limit_price p of Some l \<Rightarrow> if l = 0 then opl_price p else l | None \<Rightarrow> opl_price p)"

definition crosses :: "order_payload \<Rightarrow> trading_order \<Rightarrow> bool" where
  "crosses p resting \<longleftrightarrow>
     opl_order_type p = OrdMarket \<or> to_order_type resting = OrdMarket \<or>
     (case to_limit_price resting of
        None \<Rightarrow> True
      | Some l \<Rightarrow> if opl_side p = Buy then l \<le> incoming_price p else incoming_price p \<le> l)"

definition rests_against :: "string \<Rightarrow> string \<Rightarrow> order_payload \<Rightarrow> trading_order \<Rightarrow> bool" where
  "rests_against tenant account p ord \<longleftrightarrow>
     to_tenant_ref ord = tenant \<and> to_account_ref ord = account \<and> to_instrument_id ord = opl_instrument_id p \<and>
     to_side ord = opposite (opl_side p) \<and> to_state ord \<in> resting_states \<and> to_simulation ord"

definition self_trade :: "string \<Rightarrow> string \<Rightarrow> order_payload \<Rightarrow> trading_order list \<Rightarrow> trading_order option" where
  "self_trade tenant account p orders = find (crosses p) (filter (rests_against tenant account p) orders)"

section \<open>Pre-trade evaluation\<close>

record surveillance_settings =
  sus_enabled :: bool
  sus_self_trade_prevention :: bool

definition surveillance_policy :: string where
  "surveillance_policy = ''surveillance-2026-08-v1''"

definition surveillance_verdict :: "decision \<Rightarrow> string list \<Rightarrow> finding option \<Rightarrow> surveillance_decision" where
  "surveillance_verdict d codes f =
     \<lparr>svd_decision = d, svd_reason_codes = codes, svd_findings = (case f of None \<Rightarrow> [] | Some x \<Rightarrow> [x]),
      svd_policy_version = surveillance_policy\<rparr>"

definition restriction_types :: "trading_restriction list \<Rightarrow> json" where
  "restriction_types rs = JArr (map JStr (sort (remdups (map trs_type rs))))"

text \<open>The price check raises on a reference price of zero or an ill-formed parameter.\<close>

definition price_deviation ::
  "py_env \<Rightarrow> surveillance_rule \<Rightarrow> order_payload \<Rightarrow> rat \<Rightarrow> (foundation_error, surveillance_decision) res" where
  "price_deviation E r p limit_price =
     rbind (checked_div \<bar>dsub limit_price (opl_price p)\<bar> (opl_price p)) (\<lambda>deviation.
     rbind (rule_decimal r ''deviation_ratio'' ''0.1'') (\<lambda>limit.
     rbind (reaches deviation limit) (\<lambda>far.
       Inr (if far
            then surveillance_verdict Review [''ACCOUNT_REVIEW_REQUIRED'']
                   (Some (finding_of r (min deviation 1)
                      [(''deviation_ratio'', JStr (en_dtext E deviation)),
                       (''reference_source'', JStr ''canonical_market_authority'')]))
            else surveillance_verdict Allow [] None))))"

definition surveil_order ::
  "surveillance_settings \<Rightarrow> py_env \<Rightarrow> timestamp \<Rightarrow> string \<Rightarrow> string \<Rightarrow> order_payload \<Rightarrow> string \<Rightarrow> string \<Rightarrow> string \<Rightarrow> bool \<Rightarrow>
   trading_order list \<Rightarrow> 'a surveillance_db_scheme \<Rightarrow> (foundation_error, surveillance_decision) res" where
  "surveil_order S E now tenant account p asset_class venue jurisdiction stale orders db =
     (if \<not> sus_enabled S then Inr (surveillance_verdict Deny [''SURVEILLANCE_TEMPORARILY_UNAVAILABLE''] None)
      else
        let rs = trading_restrictions_of now tenant account (opl_instrument_id p) (opl_side p) asset_class venue
                   jurisdiction (sv_restrictions db);
            review_only = list_all (\<lambda>r. trs_type r = ''REVIEW_REQUIRED'') rs
        in if rs \<noteq> [] then
             Inr (surveillance_verdict (if review_only then Review else Deny)
               [if review_only then ''ACCOUNT_REVIEW_REQUIRED'' else ''TRADING_NOT_AVAILABLE'']
               (map_option (\<lambda>r. finding_of r 1 [(''restriction_types'', restriction_types rs)])
                  (current_rule now ''RESTRICTED_INSTRUMENT_ATTEMPT'' (sv_rules db))))
           else
             (case if sus_self_trade_prevention S then self_trade tenant account p orders else None of
                Some resting \<Rightarrow>
                  Inr (surveillance_verdict Deny [''ORDER_REJECTED'']
                    (map_option (\<lambda>r. finding_of r 1 [(''resting_order_ref'', JStr (str_uuid (to_id resting))),
                                                       (''mode'', JStr ''REJECT_NEW'')])
                       (current_rule now ''SELF_TRADE_ATTEMPT'' (sv_rules db))))
              | None \<Rightarrow>
                  (case (current_rule now ''PRICE_DEVIATION_ORDER'' (sv_rules db), opl_limit_price p) of
                     (Some r, Some l) \<Rightarrow>
                       if stale then Inr (surveillance_verdict Allow [] None) else price_deviation E r p l
                   | _ \<Rightarrow> Inr (surveillance_verdict Allow [] None))))"

section \<open>Window indicators\<close>

text \<open>
  An event of a window. Orders and trades carry a side, trades a quantity; a missing price is \<open>JNull\<close>,
  missing flags are false.
\<close>

record window_event =
  we_at :: timestamp
  we_kind :: string
  we_side :: string
  we_quantity :: json
  we_price :: json
  we_large :: bool
  we_rapid :: bool

definition kind_events :: "string \<Rightarrow> window_event list \<Rightarrow> window_event list" where
  "kind_events k events = filter (\<lambda>e. we_kind e = k) (sort_key we_at events)"

definition text_count :: "nat \<Rightarrow> json" where
  "text_count n = JInt (int n)"

definition cancel_findings :: "py_env \<Rightarrow> surveillance_rule \<Rightarrow> nat \<Rightarrow> nat \<Rightarrow> (foundation_error, finding list) res" where
  "cancel_findings E r placed cancelled =
     rbind (rule_int r ''minimum_orders'' 5) (\<lambda>least.
       if int placed < least then Inr []
       else rbind (checked_div (of_nat cancelled) (of_nat placed)) (\<lambda>ratio.
         rbind (rule_decimal r ''cancel_ratio'' ''0.8'') (\<lambda>limit.
         rbind (reaches ratio limit) (\<lambda>hit.
           Inr (if hit then [finding_of r ratio [(''orders'', text_count placed), (''cancels'', text_count cancelled),
                               (''cancel_ratio'', JStr (en_dtext E ratio))]] else [])))))"

text \<open>The first two consecutive orders of different sides within the window.\<close>

fun first_flip :: "int \<Rightarrow> window_event list \<Rightarrow> (window_event \<times> window_event) option" where
  "first_flip w (a # b # es) =
     (if we_side a \<noteq> we_side b \<and> we_at b - we_at a \<le> seconds w then Some (a, b) else first_flip w (b # es))"
| "first_flip w _ = None"

definition flip_findings :: "surveillance_rule \<Rightarrow> window_event list \<Rightarrow> (foundation_error, finding list) res" where
  "flip_findings r placed =
     rbind (rule_int r ''window_seconds'' 30) (\<lambda>w.
       Inr (case first_flip w placed of
              None \<Rightarrow> []
            | Some (a, b) \<Rightarrow> [finding_of r (7 / 10) [(''window_seconds'', JInt w),
                (''direction'', JStr (we_side a @ ''_TO_'' @ we_side b))]]))"

text \<open>The rounded sum of the quantities of one side; an ill-formed or infinite quantity raises.\<close>

fun side_sum :: "string \<Rightarrow> rat \<Rightarrow> window_event list \<Rightarrow> (foundation_error, rat) res" where
  "side_sum side acc [] = Inr acc"
| "side_sum side acc (e # es) =
     (if we_side e \<noteq> side then side_sum side acc es
      else case parse_decimal (py_text (we_quantity e)) of
             Some (Finite s c x) \<Rightarrow> side_sum side (dadd acc (dec_value (Finite s c x))) es
           | _ \<Rightarrow> Inl FArithmeticError)"

definition wash_findings :: "py_env \<Rightarrow> surveillance_rule \<Rightarrow> window_event list \<Rightarrow> (foundation_error, finding list) res" where
  "wash_findings E r trades =
     rbind (rule_int r ''minimum_trades'' 4) (\<lambda>least.
       if int (length trades) < least then Inr []
       else
         rbind (side_sum ''BUY'' 0 trades) (\<lambda>buys.
         rbind (side_sum ''SELL'' 0 trades) (\<lambda>sells.
           let total = dadd buys sells; net = \<bar>dsub buys sells\<bar>
           in if total = 0 then Inr []
              else rbind (rule_decimal r ''max_net_ratio'' ''0.1'') (\<lambda>limit.
                   rbind (stays_below (ddiv net total) limit) (\<lambda>hit.
                     Inr (if hit then [finding_of r (8 / 10) [(''trade_count'', text_count (length trades)),
                                         (''net_ratio'', JStr (en_dtext E (ddiv net total)))]] else []))))))"

definition spoof_findings :: "surveillance_rule \<Rightarrow> window_event list \<Rightarrow> window_event list \<Rightarrow> finding list" where
  "spoof_findings r cancelled trades =
     (let n = length (filter (\<lambda>e. we_large e \<and> we_rapid e) cancelled)
      in if 0 < n \<and> trades \<noteq> [] then [finding_of r (75 / 100) [(''rapid_large_cancels'', text_count n)]] else [])"

text \<open>The set of the prices of rapid cancellations; an unhashable price raises whether or not the rule exists.\<close>

definition cancelled_levels :: "window_event list \<Rightarrow> (foundation_error, json list) res" where
  "cancelled_levels cancelled =
     (let prices = map we_price (filter we_rapid cancelled)
      in if list_all hashable prices then Inr (remdups (map py_norm (filter (\<lambda>p. p \<noteq> JNull) prices)))
         else Inl (FPyError ''TypeError''))"

definition layering_findings :: "surveillance_rule \<Rightarrow> nat \<Rightarrow> window_event list \<Rightarrow> (foundation_error, finding list) res" where
  "layering_findings r levels trades =
     rbind (rule_int r ''minimum_levels'' 3) (\<lambda>least.
       Inr (if least \<le> int levels \<and> trades \<noteq> []
            then [finding_of r (8 / 10) [(''cancelled_price_levels'', text_count levels)]] else []))"

definition rate_findings :: "surveillance_rule \<Rightarrow> nat \<Rightarrow> int \<Rightarrow> (foundation_error, finding list) res" where
  "rate_findings r placed width =
     rbind (rule_int r ''orders_per_window'' 20) (\<lambda>least.
       Inr (if least \<le> int placed
            then [finding_of r (7 / 10) [(''orders'', text_count placed), (''window_seconds'', JInt width)]] else []))"

text \<open>No current rule, no finding.\<close>

definition with_rule ::
  "timestamp \<Rightarrow> string \<Rightarrow> surveillance_rule list \<Rightarrow> (surveillance_rule \<Rightarrow> (foundation_error, finding list) res) \<Rightarrow>
   (foundation_error, finding list) res" where
  "with_rule now event_type rules f = (case current_rule now event_type rules of None \<Rightarrow> Inr [] | Some r \<Rightarrow> f r)"

definition evaluate_window ::
  "py_env \<Rightarrow> timestamp \<Rightarrow> surveillance_rule list \<Rightarrow> window_event list \<Rightarrow> (foundation_error, finding list) res" where
  "evaluate_window E now rules events =
     (if events = [] then Inr []
      else
        let ordered = sort_key we_at events; placed = kind_events ''ORDER'' events;
            cancelled = kind_events ''CANCEL'' events; trades = kind_events ''TRADE'' events;
            width = (we_at (last ordered) - we_at (hd ordered)) div seconds 1
        in rbind (with_rule now ''EXCESSIVE_CANCEL_PATTERN'' rules (\<lambda>r. cancel_findings E r (length placed) (length cancelled))) (\<lambda>f1.
           rbind (with_rule now ''RAPID_ORDER_FLIP'' rules (\<lambda>r. flip_findings r placed)) (\<lambda>f2.
           rbind (with_rule now ''WASH_TRADE_PATTERN'' rules (\<lambda>r. wash_findings E r trades)) (\<lambda>f3.
           rbind (with_rule now ''SPOOFING_INDICATOR'' rules (\<lambda>r. Inr (spoof_findings r cancelled trades))) (\<lambda>f4.
           rbind (cancelled_levels cancelled) (\<lambda>levels.
           rbind (with_rule now ''LAYERING_INDICATOR'' rules (\<lambda>r. layering_findings r (length levels) trades)) (\<lambda>f5.
           rbind (with_rule now ''ORDER_RATE_ANOMALY'' rules (\<lambda>r. rate_findings r (length placed) width)) (\<lambda>f6.
             Inr (f1 @ f2 @ f3 @ f4 @ f5 @ f6)))))))))"

end
