(* ===== verification/Surveillance_Services.thy ===== *)
theory Surveillance_Services
  imports Surveillance
begin

text \<open>
  \<open>apps/surveillance/services.py\<close>: findings become events, audits, outbox events and cases, and the
  idempotent consumer of trading events with its dead letters. Then the operator commands of \<open>api.py\<close>:
  case actions and the life of a restriction, with versions, idempotency keys and two persons. Texts fit
  their columns.
\<close>

section \<open>Audit and events\<close>

definition surveillance_audit_row ::
  "py_env \<Rightarrow> timestamp \<Rightarrow> string \<Rightarrow> string \<Rightarrow> string \<Rightarrow> string \<Rightarrow> string \<Rightarrow> string \<Rightarrow> json \<Rightarrow>
   'a surveillance_db_scheme \<Rightarrow> 'a surveillance_db_scheme" where
  "surveillance_audit_row E now tenant actor action resource_type resource_ref reason evidence db =
     db\<lparr>sv_audits := sv_audits db @
          [\<lparr>sva_id = fresh E db, sva_tenant_ref = tenant, sva_actor_ref = actor, sva_action = action,
            sva_resource_type = resource_type, sva_resource_ref = resource_ref, sva_reason = reason,
            sva_evidence_hash = evidence_hash E evidence, sva_occurred_at = now\<rparr>],
        ev_next := Suc (ev_next db)\<rparr>"

definition surveillance_enqueue ::
  "timestamp \<Rightarrow> string \<Rightarrow> uuid \<Rightarrow> string \<Rightarrow> row \<Rightarrow> string \<Rightarrow> 'a event_db_scheme \<Rightarrow> 'a event_db_scheme" where
  "surveillance_enqueue now aggregate_type i event_type payload tenant db =
     db\<lparr>ev_outbox := fst (enqueue_event now aggregate_type (str_uuid i) event_type (JObj payload) tenant
                            None None None (ev_outbox db))\<rparr>"

definition event_of_finding ::
  "py_env \<Rightarrow> timestamp \<Rightarrow> string \<Rightarrow> string \<Rightarrow> string \<Rightarrow> uuid option \<Rightarrow> finding \<Rightarrow> uuid \<Rightarrow> surveillance_event" where
  "event_of_finding E now tenant account instrument source f i =
     \<lparr>sve_id = i, sve_tenant_ref = tenant, sve_account_ref = account, sve_instrument_id = instrument,
      sve_event_type = fnd_event_type f, sve_severity = fnd_severity f, sve_detected_at = now,
      sve_window_start = now, sve_window_end = now, sve_rule = fnd_rule_id f, sve_rule_version = fnd_rule_version f,
      sve_policy_version = fnd_policy_version f, sve_score = en_ratio_col E (fnd_score f), sve_status = ''OPEN'',
      sve_evidence_hash = evidence_hash E (fnd_evidence_safe f), sve_evidence_safe = fnd_evidence_safe f,
      sve_source_event_id = source\<rparr>"

definition open_case_of :: "string \<Rightarrow> string \<Rightarrow> string \<Rightarrow> surveillance_case \<Rightarrow> bool" where
  "open_case_of tenant account case_type c \<longleftrightarrow>
     svc_tenant_ref c = tenant \<and> svc_account_ref c = account \<and> svc_case_type c = case_type \<and>
     svc_status c \<in> {''OPEN'', ''IN_REVIEW'', ''ESCALATED'', ''RESTRICTED''}"

definition open_surveillance_case ::
  "py_env \<Rightarrow> timestamp \<Rightarrow> string \<Rightarrow> string \<Rightarrow> finding \<Rightarrow> string \<Rightarrow> 'a surveillance_db_scheme \<Rightarrow>
   'a surveillance_db_scheme \<times> uuid" where
  "open_surveillance_case E now tenant account f h db =
     (let c = \<lparr>svc_id = fresh E db, svc_tenant_ref = tenant, svc_account_ref = account,
               svc_case_type = fnd_event_type f, svc_severity = fnd_severity f, svc_status = ''OPEN'',
               svc_assigned_to = '''', svc_opened_at = now, svc_updated_at = now, svc_resolved_at = None,
               svc_resolution_code = '''', svc_policy_version = fnd_policy_version f, svc_evidence_hash = h\<rparr>;
          db1 = db\<lparr>sv_cases := sv_cases db @ [c], ev_next := Suc (ev_next db)\<rparr>;
          t = \<lparr>sct_id = fresh E db1, sct_case = svc_id c, sct_event_type = ''CASE_OPENED'', sct_actor_ref = ''system'',
               sct_reason = fnd_event_type f, sct_evidence_hash = h, sct_occurred_at = now\<rparr>;
          db2 = db1\<lparr>sv_timeline := sv_timeline db1 @ [t], ev_next := Suc (ev_next db1)\<rparr>;
          db3 = surveillance_audit_row E now tenant ''system'' ''surveillance.case.opened'' ''surveillance_case''
                  (str_uuid (svc_id c)) (fnd_event_type f) (JObj []) db2
      in (surveillance_enqueue now ''surveillance_case'' (svc_id c) ''regulatory.surveillance.case.opened.v1''
            [(''case_id'', JStr (str_uuid (svc_id c))), (''case_type'', JStr (svc_case_type c)),
             (''severity'', JStr (svc_severity c)), (''account_ref'', JStr account)] tenant db3, svc_id c))"

text \<open>\<open>case.events.add(event)\<close> on the open case of the finding, opened when there is none.\<close>

definition attach_to_case ::
  "py_env \<Rightarrow> timestamp \<Rightarrow> string \<Rightarrow> string \<Rightarrow> finding \<Rightarrow> surveillance_event \<Rightarrow> 'a surveillance_db_scheme \<Rightarrow>
   'a surveillance_db_scheme" where
  "attach_to_case E now tenant account f e db =
     (if fnd_severity f \<notin> {''HIGH'', ''CRITICAL''} then db
      else
        let (db1, c) = (case obj_first (open_case_of tenant account (fnd_event_type f)) (sv_cases db) of
                          Some c \<Rightarrow> (db, svc_id c)
                        | None \<Rightarrow> open_surveillance_case E now tenant account f (sve_evidence_hash e) db)
        in db1\<lparr>sv_case_links := List.insert (c, sve_id e) (sv_case_links db1)\<rparr>)"

text \<open>An event of the same source and rule exists already: the finding is skipped.\<close>

definition known_finding :: "uuid option \<Rightarrow> finding \<Rightarrow> 'a surveillance_db_scheme \<Rightarrow> bool" where
  "known_finding source f db \<longleftrightarrow>
     source \<noteq> None \<and> obj_exists (\<lambda>e. sve_source_event_id e = source \<and> sve_rule e = fnd_rule_id f) (sv_events db)"

definition persist_finding ::
  "py_env \<Rightarrow> timestamp \<Rightarrow> string \<Rightarrow> string \<Rightarrow> string \<Rightarrow> uuid option \<Rightarrow> string \<Rightarrow> finding \<Rightarrow>
   'a surveillance_db_scheme \<Rightarrow> 'a surveillance_db_scheme" where
  "persist_finding E now tenant account instrument source actor f db =
     (if known_finding source f db then db
      else
        let e = event_of_finding E now tenant account instrument source f (fresh E db);
            db1 = db\<lparr>sv_events := sv_events db @ [e], ev_next := Suc (ev_next db)\<rparr>;
            db2 = surveillance_audit_row E now tenant actor ''surveillance.event.generated'' ''surveillance_event''
                    (str_uuid (sve_id e)) (fnd_event_type f)
                    (JObj [(''rule_id'', JStr (str_uuid (fnd_rule_id f))),
                           (''rule_version'', JInt (int (fnd_rule_version f)))]) db1;
            db3 = surveillance_enqueue now ''surveillance_event'' (sve_id e) ''regulatory.surveillance.alert.created.v1''
                    [(''event_id'', JStr (str_uuid (sve_id e))), (''event_type'', JStr (sve_event_type e)),
                     (''severity'', JStr (sve_severity e)), (''account_ref'', JStr account),
                     (''instrument_id'', JStr instrument)] tenant db2
        in attach_to_case E now tenant account f e db3)"

fun persist_findings ::
  "py_env \<Rightarrow> timestamp \<Rightarrow> string \<Rightarrow> string \<Rightarrow> string \<Rightarrow> uuid option \<Rightarrow> string \<Rightarrow> finding list \<Rightarrow>
   'a surveillance_db_scheme \<Rightarrow> 'a surveillance_db_scheme" where
  "persist_findings E now tenant account instrument source actor [] db = db"
| "persist_findings E now tenant account instrument source actor (f # fs) db =
     persist_findings E now tenant account instrument source actor fs
       (persist_finding E now tenant account instrument source actor f db)"

section \<open>The consumer of trading events\<close>

text \<open>
  The envelope with its identifier parsed, or its text when it is not one. \<open>window_events\<close> are the events of
  the payload with their instants read.
\<close>

record surveillance_envelope =
  sen_event_id :: "string + uuid"
  sen_event_type :: string
  sen_tenant_ref :: json
  sen_payload :: row
  sen_window_events :: "window_event list"

definition or_text :: "json \<Rightarrow> json \<Rightarrow> string" where
  "or_text a b = (if truthy a then py_text a else if truthy b then py_text b else '''')"

definition dead_letter_id :: "py_env \<Rightarrow> surveillance_envelope \<Rightarrow> uuid" where
  "dead_letter_id E v = (case sen_event_id v of Inr i \<Rightarrow> i | Inl s \<Rightarrow> en_uuid5 E s)"

text \<open>\<open>update_or_create\<close>: a repeated failure overwrites both instants; \<open>name\<close> is \<open>type(exc).__name__\<close>.\<close>

definition add_dead_letter ::
  "py_env \<Rightarrow> timestamp \<Rightarrow> (foundation_error \<Rightarrow> string) \<Rightarrow> surveillance_envelope \<Rightarrow> string \<Rightarrow> foundation_error \<Rightarrow>
   'a surveillance_db_scheme \<Rightarrow> 'a surveillance_db_scheme" where
  "add_dead_letter E now name v tenant e db =
     (let i = dead_letter_id E v; t = take 128 (sen_event_type v); same = (\<lambda>d. sdl_event_id d = i \<and> sdl_event_type d = t)
      in if obj_exists same (sv_dead_letters db)
         then db\<lparr>sv_dead_letters := upd_where same (\<lambda>d. d\<lparr>sdl_tenant_ref := tenant,
                   sdl_failure_category := take 64 (name e), sdl_first_failed_at := now, sdl_last_failed_at := now\<rparr>)
                   (sv_dead_letters db)\<rparr>
         else db\<lparr>sv_dead_letters := sv_dead_letters db @
                [\<lparr>sdl_event_id = i, sdl_tenant_ref = tenant, sdl_event_type = t, sdl_failure_category = take 64 (name e),
                  sdl_retry_count = 0, sdl_first_failed_at = now, sdl_last_failed_at = now\<rparr>]\<rparr>)"

definition window_mutation ::
  "py_env \<Rightarrow> timestamp \<Rightarrow> string \<Rightarrow> string \<Rightarrow> string \<Rightarrow> uuid \<Rightarrow> window_event list \<Rightarrow> 'a surveillance_db_scheme \<Rightarrow>
   (foundation_error, 'a surveillance_db_scheme) res" where
  "window_mutation E now tenant account instrument i events db =
     rbind (evaluate_window E now (sv_rules db) events) (\<lambda>fs.
       Inr (persist_findings E now tenant account instrument (Some i) ''system'' fs db))"

definition ingest_event ::
  "py_env \<Rightarrow> timestamp \<Rightarrow> (foundation_error \<Rightarrow> string) \<Rightarrow> surveillance_envelope \<Rightarrow>
   processed_event list \<times> 'a surveillance_db_scheme \<Rightarrow>
   (processed_event list \<times> 'a surveillance_db_scheme) \<times> (foundation_error, bool) res" where
  "ingest_event E now name v s =
     (let tenant = or_text (sen_tenant_ref v) (row_get (sen_payload v) ''tenant_ref'');
          account = or_text (row_get (sen_payload v) ''account_ref'') JNull;
          instrument = or_text (row_get (sen_payload v) ''instrument'') (row_get (sen_payload v) ''instrument_id'');
          failed = (\<lambda>e. ((fst s, add_dead_letter E now name v tenant e (snd s)), Inl e))
      in case sen_event_id v of
           Inl _ \<Rightarrow> failed (FPyError ''ValueError'')
         | Inr i \<Rightarrow>
             (case consume_once (en_sha E) now i (JObj (sen_payload v)) ''surveillance-v1''
                     (window_mutation E now tenant account instrument i (sen_window_events v)) s of
                Inl e \<Rightarrow> failed e
              | Inr (s', r) \<Rightarrow> (s', Inr r)))"

section \<open>Operators and their headers\<close>

record surveillance_user =
  su_pk :: string
  su_superuser :: bool
  su_groups :: "string list"
  su_mfa :: bool

definition surveillance_viewer :: "surveillance_user \<Rightarrow> bool" where
  "surveillance_viewer u \<longleftrightarrow> su_superuser u \<or>
     set (su_groups u) \<inter> {''surveillance_viewer'', ''surveillance_analyst'', ''surveillance_manager'', ''platform_admin''} \<noteq> {}"

definition analyst_roles :: "surveillance_user \<Rightarrow> bool" where
  "analyst_roles u \<longleftrightarrow> su_superuser u \<or>
     set (su_groups u) \<inter> {''surveillance_analyst'', ''surveillance_manager'', ''platform_admin''} \<noteq> {}"

definition surveillance_analyst :: "surveillance_user \<Rightarrow> bool" where
  "surveillance_analyst u \<longleftrightarrow> surveillance_viewer u \<and> su_mfa u \<and> analyst_roles u"

definition surveillance_manager :: "surveillance_user \<Rightarrow> bool" where
  "surveillance_manager u \<longleftrightarrow> surveillance_viewer u \<and> su_mfa u \<and>
     (su_superuser u \<or> set (su_groups u) \<inter> {''surveillance_manager'', ''platform_admin''} \<noteq> {})"

text \<open>A request of an authenticated operator: its headers, its data and its correlation.\<close>

record operator_call =
  oc_user :: surveillance_user
  oc_key :: string
  oc_request_id :: string
  oc_if_match :: string
  oc_correlation :: uuid
  oc_data :: row

definition command_headers :: "bool \<Rightarrow> operator_call \<Rightarrow> (string \<times> string) option" where
  "command_headers versioned q =
     (let key = strip (oc_key q); request_id = strip (oc_request_id q)
      in if 255 < length key \<or> 128 < length request_id then None
         else if key \<noteq> '''' \<and> request_id \<noteq> '''' \<and> (\<not> versioned \<or> oc_if_match q \<noteq> '''') then Some (key, request_id)
         else None)"

text \<open>\<open>str(data.get(key, d))\<close>.\<close>

definition data_text :: "operator_call \<Rightarrow> string \<Rightarrow> string \<Rightarrow> string" where
  "data_text q key d = (case map_of (oc_data q) key of None \<Rightarrow> d | Some j \<Rightarrow> py_text j)"

datatype command_response = CmdBody nat json | CmdError nat string

text \<open>
  The answer of the handler: the exceptions it catches become error responses and roll the transaction
  back, any other is raised.
\<close>

definition answered ::
  "(string \<Rightarrow> nat) \<Rightarrow> 'd \<Rightarrow> (foundation_error, 'd \<times> command_response) res \<Rightarrow>
   (foundation_error, 'd \<times> command_response) res" where
  "answered code db r =
     (case r of
        Inl FIdempotencyConflict \<Rightarrow> Inr (db, CmdError 409 ''IDEMPOTENCY_CONFLICT'')
      | Inl (FValueError s) \<Rightarrow> Inr (db, CmdError (code s) s)
      | _ \<Rightarrow> r)"

definition application_audit ::
  "py_env \<Rightarrow> timestamp \<Rightarrow> operator_call \<Rightarrow> string \<Rightarrow> string \<Rightarrow> string \<Rightarrow> uuid \<Rightarrow> string \<Rightarrow> row \<Rightarrow>
   'a surveillance_db_scheme \<Rightarrow> 'a surveillance_db_scheme" where
  "application_audit E now q request_id action resource_type i reason context db =
     db\<lparr>sv_application_audits := sv_application_audits db @
          [\<lparr>aa_event_id = fresh E db, aa_actor_ref = su_pk (oc_user q), aa_action = action,
            aa_resource_type = resource_type, aa_resource_id = str_uuid i, aa_before_hash = '''', aa_after_hash = '''',
            aa_request_id = request_id, aa_correlation_id = oc_correlation q, aa_context = JObj context,
            aa_reason = take 255 reason, aa_occurred_at = now\<rparr>],
        ev_next := Suc (ev_next db)\<rparr>"

text \<open>
  The frame of every command: a completed request replays its response, a new one runs \<open>body\<close> and stores
  the response with its resource.
\<close>

definition idempotent_command ::
  "py_env \<Rightarrow> timestamp \<Rightarrow> string \<Rightarrow> string \<Rightarrow> string \<Rightarrow> string \<Rightarrow> row \<Rightarrow> nat \<Rightarrow> string \<Rightarrow>
   ('a surveillance_db_scheme \<Rightarrow> (foundation_error, 'a surveillance_db_scheme \<times> json \<times> uuid) res) \<Rightarrow>
   'a surveillance_db_scheme \<Rightarrow> (foundation_error, 'a surveillance_db_scheme \<times> command_response) res" where
  "idempotent_command E now key tenant actor endpoint data code resource_type body db =
     rbind (begin_idempotent_request (en_sha E) now key tenant actor endpoint ''POST'' (JObj data) (seconds 86400)
              (sv_requests db)) (\<lambda>(rq, r, fresh_request).
       case (fresh_request, fi_response_body r, fi_response_status r) of
         (False, Some b, Some s) \<Rightarrow> Inr (db, CmdBody s b)
       | _ \<Rightarrow>
           rbind (body (db\<lparr>sv_requests := rq\<rparr>)) (\<lambda>(db1, b, i).
             Inr (db1\<lparr>sv_requests := complete_idempotent_request r code b resource_type (str_uuid i) (sv_requests db1)\<rparr>,
                  CmdBody code b)))"

section \<open>Case commands\<close>

datatype case_action = CaseAssign | CaseEscalate | CaseResolve

fun case_action_text :: "case_action \<Rightarrow> string" where
  "case_action_text CaseAssign = ''assign''"
| "case_action_text CaseEscalate = ''escalate''"
| "case_action_text CaseResolve = ''resolve''"

fun case_timeline_event :: "case_action \<Rightarrow> string" where
  "case_timeline_event CaseAssign = ''CASE_ASSIGNED''"
| "case_timeline_event CaseEscalate = ''CASE_ESCALATED''"
| "case_timeline_event CaseResolve = ''CASE_RESOLVED''"

text \<open>\<open>drf\<close> is the framework's text of an instant, \<open>en_iso_time\<close> that of \<open>isoformat\<close>.\<close>

definition case_json :: "py_env \<Rightarrow> (timestamp \<Rightarrow> string) \<Rightarrow> surveillance_case \<Rightarrow> (uuid \<times> uuid) list \<Rightarrow> json" where
  "case_json E drf c links =
     JObj [(''id'', JStr (str_uuid (svc_id c))), (''account_ref'', JStr (svc_account_ref c)),
           (''case_type'', JStr (svc_case_type c)), (''severity'', JStr (svc_severity c)),
           (''status'', JStr (svc_status c)), (''assigned_to'', JStr (svc_assigned_to c)),
           (''opened_at'', JStr (drf (svc_opened_at c))), (''updated_at'', JStr (drf (svc_updated_at c))),
           (''version'', JStr (en_iso_time E (svc_updated_at c))),
           (''resolved_at'', case svc_resolved_at c of None \<Rightarrow> JNull | Some t \<Rightarrow> JStr (drf t)),
           (''resolution_code'', JStr (svc_resolution_code c)), (''policy_version'', JStr (svc_policy_version c)),
           (''evidence_hash'', JStr (svc_evidence_hash c)),
           (''event_ids'', JArr (map (\<lambda>l. JStr (str_uuid (snd l))) (filter (\<lambda>l. fst l = svc_id c) links)))]"

text \<open>The case after the action; \<open>lookup\<close> finds a user by the text of the key.\<close>

definition act_on_case ::
  "timestamp \<Rightarrow> (string \<Rightarrow> (foundation_error, surveillance_user option) res) \<Rightarrow> surveillance_user \<Rightarrow> string \<Rightarrow> string \<Rightarrow>
   case_action \<Rightarrow> surveillance_case \<Rightarrow> (foundation_error, surveillance_case) res" where
  "act_on_case now lookup u assigned_to resolution_code act c =
     (case act of
        CaseAssign \<Rightarrow>
          if svc_status c \<notin> {''OPEN'', ''ESCALATED''} then Inl (FValueError ''INVALID_CASE_TRANSITION'')
          else rbind (lookup assigned_to) (\<lambda>a.
            case a of
              None \<Rightarrow> Inl (FValueError ''INVALID_CASE_ASSIGNEE'')
            | Some x \<Rightarrow>
                if \<not> analyst_roles x then Inl (FValueError ''INVALID_CASE_ASSIGNEE'')
                else Inr (c\<lparr>svc_assigned_to := assigned_to, svc_status := ''IN_REVIEW''\<rparr>))
      | CaseEscalate \<Rightarrow>
          if svc_status c \<notin> {''OPEN'', ''IN_REVIEW''} then Inl (FValueError ''INVALID_CASE_TRANSITION'')
          else Inr (c\<lparr>svc_status := ''ESCALATED''\<rparr>)
      | CaseResolve \<Rightarrow>
          if svc_status c \<notin> {''OPEN'', ''IN_REVIEW'', ''ESCALATED'', ''RESTRICTED''}
          then Inl (FValueError ''INVALID_CASE_TRANSITION'')
          else if svc_severity c = ''CRITICAL'' \<and> svc_assigned_to c = su_pk u then Inl (FValueError ''SELF_APPROVAL_FORBIDDEN'')
          else Inr (c\<lparr>svc_status := ''RESOLVED'', svc_resolution_code := resolution_code, svc_resolved_at := Some now\<rparr>))"

definition case_effect ::
  "py_env \<Rightarrow> (timestamp \<Rightarrow> string) \<Rightarrow> timestamp \<Rightarrow> (string \<Rightarrow> (foundation_error, surveillance_user option) res) \<Rightarrow>
   operator_call \<Rightarrow> string \<Rightarrow> string \<Rightarrow> string \<Rightarrow> string \<Rightarrow> case_action \<Rightarrow> surveillance_case \<Rightarrow>
   'a surveillance_db_scheme \<Rightarrow> (foundation_error, 'a surveillance_db_scheme \<times> json \<times> uuid) res" where
  "case_effect E drf now lookup q request_id reason assigned_to resolution_code act c db =
     (if en_iso_time E (svc_updated_at c) \<noteq> oc_if_match q then Inl (FValueError ''VERSION_CONFLICT'')
      else rbind (act_on_case now lookup (oc_user q) assigned_to resolution_code act c) (\<lambda>c0.
        let c1 = c0\<lparr>svc_updated_at := now\<rparr>; verb = ''surveillance.case.'' @ case_action_text act;
            db1 = db\<lparr>sv_cases := upd_where (\<lambda>x. svc_id x = svc_id c) (\<lambda>_. c1) (sv_cases db)\<rparr>;
            t = \<lparr>sct_id = fresh E db1, sct_case = svc_id c, sct_event_type = case_timeline_event act,
                 sct_actor_ref = su_pk (oc_user q), sct_reason = reason,
                 sct_evidence_hash = evidence_hash E (JObj [(''status'', JStr (svc_status c1)),
                   (''assigned_to'', JStr (svc_assigned_to c1)), (''resolution_code'', JStr (svc_resolution_code c1))]),
                 sct_occurred_at = now\<rparr>;
            db2 = db1\<lparr>sv_timeline := sv_timeline db1 @ [t], ev_next := Suc (ev_next db1)\<rparr>;
            db3 = surveillance_audit_row E now (svc_tenant_ref c) (su_pk (oc_user q)) verb ''surveillance_case''
                    (str_uuid (svc_id c)) reason (JObj []) db2;
            db4 = application_audit E now q request_id verb ''surveillance_case'' (svc_id c) reason
                    [(''timeline_event_id'', JStr (str_uuid (sct_id t))), (''status'', JStr (svc_status c1))] db3
        in Inr (db4, case_json E drf c1 (sv_case_links db4), svc_id c)))"

definition case_error_code :: "string \<Rightarrow> nat" where
  "case_error_code s = (if s \<in> {''VERSION_CONFLICT'', ''INVALID_CASE_TRANSITION''} then 409 else 403)"

definition case_command ::
  "py_env \<Rightarrow> (timestamp \<Rightarrow> string) \<Rightarrow> timestamp \<Rightarrow> (string \<Rightarrow> (foundation_error, surveillance_user option) res) \<Rightarrow>
   operator_call \<Rightarrow> case_action \<Rightarrow> uuid \<Rightarrow> 'a surveillance_db_scheme \<Rightarrow>
   (foundation_error, 'a surveillance_db_scheme \<times> command_response) res" where
  "case_command E drf now lookup q act i db =
     (if \<not> surveillance_analyst (oc_user q) then Inr (db, CmdError 403 ''PERMISSION_DENIED'')
      else
        let reason = strip (data_text q ''reason'' '''');
            assigned_to = (if truthy (row_get (oc_data q) ''assigned_to'') then py_text (row_get (oc_data q) ''assigned_to'')
                           else su_pk (oc_user q));
            resolution_code = take 64 (data_text q ''resolution_code'' ''REVIEW_COMPLETE'')
        in case (obj_first (\<lambda>c. svc_id c = i \<and> svc_tenant_ref c = ''default'') (sv_cases db), command_headers True q) of
             (None, _) \<Rightarrow> Inr (db, CmdError 404 ''RESOURCE_NOT_FOUND'')
           | (Some _, None) \<Rightarrow> Inr (db, CmdError 422 ''VALIDATION_ERROR'')
           | (Some c, Some (key, request_id)) \<Rightarrow>
               if reason = '''' then Inr (db, CmdError 422 ''VALIDATION_ERROR'')
               else if act = CaseResolve \<and> svc_severity c = ''CRITICAL'' \<and> \<not> su_superuser (oc_user q) \<and>
                       ''surveillance_manager'' \<notin> set (su_groups (oc_user q))
               then Inr (db, CmdError 403 ''PERMISSION_DENIED'')
               else answered case_error_code db
                 (idempotent_command E now key (svc_tenant_ref c) (su_pk (oc_user q))
                    (''/api/v1/operator/surveillance/cases/'' @ str_uuid i @ ''/'' @ case_action_text act)
                    [(''case_id'', JStr (str_uuid i)), (''action'', JStr (case_action_text act)),
                     (''reason'', JStr reason), (''assigned_to'', JStr assigned_to),
                     (''resolution_code'', JStr resolution_code), (''expected_version'', JStr (oc_if_match q))]
                    200 ''surveillance_case''
                    (case_effect E drf now lookup q request_id reason assigned_to resolution_code act c) db))"

section \<open>Restriction commands\<close>

definition restriction_json :: "py_env \<Rightarrow> (timestamp \<Rightarrow> string) \<Rightarrow> trading_restriction \<Rightarrow> json" where
  "restriction_json E drf r =
     JObj [(''id'', JStr (str_uuid (trs_id r))), (''scope_type'', JStr (trs_scope_type r)),
           (''scope_ref'', JStr (trs_scope_ref r)), (''restriction_type'', JStr (trs_type r)),
           (''effective_from'', JStr (drf (trs_effective_from r))),
           (''effective_to'', case trs_effective_to r of None \<Rightarrow> JNull | Some t \<Rightarrow> JStr (drf t)),
           (''status'', JStr (trs_status r)), (''created_at'', JStr (drf (trs_created_at r))),
           (''updated_at'', JStr (drf (trs_updated_at r))), (''version'', JStr (en_iso_time E (trs_updated_at r)))]"

definition scope_types :: "string list" where
  "scope_types = [''ACCOUNT'', ''TENANT'', ''INSTRUMENT'', ''ASSET_CLASS'', ''VENUE'', ''JURISDICTION'']"

definition restriction_kinds :: "string list" where
  "restriction_kinds = [''BLOCK_NEW_ORDERS'', ''CANCEL_ONLY'', ''CLOSE_ONLY'', ''BLOCK_BUYS'', ''BLOCK_SELLS'',
     ''BLOCK_INSTRUMENT'', ''BLOCK_ASSET_CLASS'', ''BLOCK_VENUE'', ''REVIEW_REQUIRED'']"

text \<open>\<open>TradingRestriction.clean\<close>.\<close>

definition restriction_clean :: "trading_restriction \<Rightarrow> bool" where
  "restriction_clean r \<longleftrightarrow>
     (trs_approved_by r = '''' \<or> trs_approved_by r \<noteq> trs_created_by r) \<and>
     (case trs_effective_to r of None \<Rightarrow> True | Some t \<Rightarrow> trs_effective_from r < t)"

text \<open>\<open>full_clean\<close>: the choices, non-empty texts that fit, then \<open>clean\<close>.\<close>

definition restriction_full_clean :: "trading_restriction \<Rightarrow> bool" where
  "restriction_full_clean r \<longleftrightarrow>
     trs_scope_type r \<in> set scope_types \<and> trs_type r \<in> set restriction_kinds \<and> trs_scope_ref r \<noteq> '''' \<and>
     length (trs_scope_ref r) \<le> 128 \<and> restriction_clean r"

text \<open>\<open>str\<close> of an instant: \<open>isoformat\<close> with a blank for the \<open>T\<close>.\<close>

definition instant_text :: "py_env \<Rightarrow> timestamp \<Rightarrow> string" where
  "instant_text E t = map (\<lambda>c. if c = CHR ''T'' then CHR '' '' else c) (en_iso_time E t)"

text \<open>The optional end of the request: an instant, or not one; \<open>read_time\<close> parses it.\<close>

definition requested_end :: "(json \<Rightarrow> timestamp option) \<Rightarrow> operator_call \<Rightarrow> timestamp option option" where
  "requested_end read_time q =
     (case row_get (oc_data q) ''effective_to'' of JNull \<Rightarrow> Some None | j \<Rightarrow> map_option Some (read_time j))"

definition request_restriction ::
  "py_env \<Rightarrow> (timestamp \<Rightarrow> string) \<Rightarrow> (json \<Rightarrow> timestamp option) \<Rightarrow> timestamp \<Rightarrow> operator_call \<Rightarrow>
   'a surveillance_db_scheme \<Rightarrow> (foundation_error, 'a surveillance_db_scheme \<times> command_response) res" where
  "request_restriction E drf read_time now q db =
     (if \<not> surveillance_manager (oc_user q) then Inr (db, CmdError 403 ''PERMISSION_DENIED'')
      else case command_headers False q of
        None \<Rightarrow> Inr (db, CmdError 422 ''VALIDATION_ERROR'')
      | Some (key, request_id) \<Rightarrow>
          if list_ex (\<lambda>f. \<not> truthy (row_get (oc_data q) f)) [''scope_type'', ''scope_ref'', ''restriction_type'', ''reason'']
          then Inr (db, CmdError 422 ''VALIDATION_ERROR'')
          else
            (let reason = strip (data_text q ''reason'' ''''); actor = su_pk (oc_user q);
                 row = (\<lambda>until i. \<lparr>trs_id = i, trs_tenant_ref = ''default'', trs_scope_type = data_text q ''scope_type'' '''',
                    trs_scope_ref = data_text q ''scope_ref'' '''', trs_type = data_text q ''restriction_type'' '''',
                    trs_reason_code = ''INTERNAL_REVIEW'', trs_effective_from = now, trs_effective_to = until,
                    trs_created_by = actor, trs_approved_by = '''', trs_status = ''PENDING'',
                    trs_created_at = now, trs_updated_at = now\<rparr>)
             in case requested_end read_time q of
                  None \<Rightarrow> Inr (db, CmdError 400 ''VALIDATION_ERROR'')
                | Some until \<Rightarrow>
                    if \<not> restriction_full_clean (row until (fresh E db)) then Inr (db, CmdError 400 ''VALIDATION_ERROR'')
                    else answered (\<lambda>_. 409) db
                      (idempotent_command E now key ''default'' actor ''/api/v1/operator/surveillance/restrictions''
                         [(''scope_type'', JStr (data_text q ''scope_type'' '''')),
                          (''scope_ref'', JStr (data_text q ''scope_ref'' '''')),
                          (''restriction_type'', JStr (data_text q ''restriction_type'' '''')),
                          (''effective_to'', JStr (case until of None \<Rightarrow> '''' | Some t \<Rightarrow> instant_text E t)),
                          (''reason'', JStr reason)] 201 ''trading_restriction''
                         (\<lambda>db0.
                            let r = row until (fresh E db0);
                                db1 = db0\<lparr>sv_restrictions := sv_restrictions db0 @ [r], ev_next := Suc (ev_next db0)\<rparr>;
                                db2 = surveillance_audit_row E now ''default'' actor ''surveillance.restriction.requested''
                                        ''trading_restriction'' (str_uuid (trs_id r)) reason (JObj []) db1;
                                db3 = application_audit E now q request_id ''surveillance.restriction.requested''
                                        ''trading_restriction'' (trs_id r) reason [(''status'', JStr (trs_status r))] db2
                            in Inr (db3, restriction_json E drf r, trs_id r)) db)))"

definition save_restriction :: "trading_restriction \<Rightarrow> 'a surveillance_db_scheme \<Rightarrow> 'a surveillance_db_scheme" where
  "save_restriction r db = db\<lparr>sv_restrictions := upd_where (\<lambda>x. trs_id x = trs_id r) (\<lambda>_. r) (sv_restrictions db)\<rparr>"

text \<open>What approval and removal share: the saved row, its audits and its event.\<close>

definition restriction_effect ::
  "py_env \<Rightarrow> (timestamp \<Rightarrow> string) \<Rightarrow> timestamp \<Rightarrow> operator_call \<Rightarrow> string \<Rightarrow> string \<Rightarrow> string \<Rightarrow> string \<Rightarrow> row \<Rightarrow>
   trading_restriction \<Rightarrow> 'a surveillance_db_scheme \<Rightarrow> 'a surveillance_db_scheme \<times> json \<times> uuid" where
  "restriction_effect E drf now q request_id reason verb event_type payload r db =
     (let r1 = r\<lparr>trs_updated_at := now\<rparr>; actor = su_pk (oc_user q);
          db1 = save_restriction r1 db;
          db2 = surveillance_audit_row E now (trs_tenant_ref r) actor verb ''trading_restriction'' (str_uuid (trs_id r)) reason
                  (JObj []) db1;
          db3 = surveillance_enqueue now ''trading_restriction'' (trs_id r) event_type
                  ((''restriction_id'', JStr (str_uuid (trs_id r))) # payload) (trs_tenant_ref r) db2;
          db4 = application_audit E now q request_id verb ''trading_restriction'' (trs_id r) reason
                  [(''status'', JStr (trs_status r1))] db3
      in (db4, restriction_json E drf r1, trs_id r))"

definition activate_restriction ::
  "py_env \<Rightarrow> (timestamp \<Rightarrow> string) \<Rightarrow> timestamp \<Rightarrow> operator_call \<Rightarrow> string \<Rightarrow> string \<Rightarrow> trading_restriction \<Rightarrow>
   'a surveillance_db_scheme \<Rightarrow> (foundation_error, 'a surveillance_db_scheme \<times> json \<times> uuid) res" where
  "activate_restriction E drf now q request_id reason r db =
     (if en_iso_time E (trs_updated_at r) \<noteq> oc_if_match q then Inl (FValueError ''VERSION_CONFLICT'')
      else if trs_status r \<noteq> ''PENDING'' then Inl (FValueError ''INVALID_RESTRICTION_TRANSITION'')
      else
        let r1 = r\<lparr>trs_approved_by := su_pk (oc_user q), trs_status := ''ACTIVE''\<rparr>
        in if \<not> restriction_full_clean r1 then Inl (FPyError ''ValidationError'')
           else Inr (restriction_effect E drf now q request_id reason ''surveillance.restriction.approved''
                       ''regulatory.surveillance.restriction.applied.v1''
                       [(''scope_type'', JStr (trs_scope_type r)), (''scope_ref'', JStr (trs_scope_ref r))] r1 db))"

definition deactivate_restriction ::
  "py_env \<Rightarrow> (timestamp \<Rightarrow> string) \<Rightarrow> timestamp \<Rightarrow> operator_call \<Rightarrow> string \<Rightarrow> string \<Rightarrow> trading_restriction \<Rightarrow>
   'a surveillance_db_scheme \<Rightarrow> (foundation_error, 'a surveillance_db_scheme \<times> json \<times> uuid) res" where
  "deactivate_restriction E drf now q request_id reason r db =
     (if en_iso_time E (trs_updated_at r) \<noteq> oc_if_match q then Inl (FValueError ''VERSION_CONFLICT'')
      else if trs_status r \<noteq> ''ACTIVE'' then Inl (FValueError ''INVALID_RESTRICTION_TRANSITION'')
      else Inr (restriction_effect E drf now q request_id reason ''surveillance.restriction.removed''
                  ''regulatory.surveillance.restriction.removed.v1'' []
                  (r\<lparr>trs_status := ''REMOVED'', trs_effective_to := Some now\<rparr>) db))"

text \<open>The frame of both views: \<open>barred\<close> is the person who may not decide.\<close>

definition restriction_command ::
  "py_env \<Rightarrow> timestamp \<Rightarrow> operator_call \<Rightarrow> string \<Rightarrow> uuid \<Rightarrow> (trading_restriction \<Rightarrow> string) \<Rightarrow>
   (string \<Rightarrow> string \<Rightarrow> trading_restriction \<Rightarrow> 'a surveillance_db_scheme \<Rightarrow>
      (foundation_error, 'a surveillance_db_scheme \<times> json \<times> uuid) res) \<Rightarrow>
   'a surveillance_db_scheme \<Rightarrow> (foundation_error, 'a surveillance_db_scheme \<times> command_response) res" where
  "restriction_command E now q verb i barred effect db =
     (if \<not> surveillance_manager (oc_user q) then Inr (db, CmdError 403 ''PERMISSION_DENIED'')
      else case obj_first (\<lambda>r. trs_id r = i \<and> trs_tenant_ref r = ''default'') (sv_restrictions db) of
        None \<Rightarrow> Inr (db, CmdError 404 ''RESOURCE_NOT_FOUND'')
      | Some r \<Rightarrow>
          if barred r = su_pk (oc_user q) then Inr (db, CmdError 403 ''SELF_APPROVAL_FORBIDDEN'')
          else
            (let reason = strip (data_text q ''reason'' '''')
             in case command_headers True q of
                  None \<Rightarrow> Inr (db, CmdError 422 ''VALIDATION_ERROR'')
                | Some (key, request_id) \<Rightarrow>
                    if reason = '''' then Inr (db, CmdError 422 ''VALIDATION_ERROR'')
                    else answered (\<lambda>_. 409) db
                      (idempotent_command E now key (trs_tenant_ref r) (su_pk (oc_user q))
                         (''/api/v1/operator/surveillance/restrictions/'' @ str_uuid i @ ''/'' @ verb)
                         [(''restriction_id'', JStr (str_uuid i)), (''reason'', JStr reason),
                          (''expected_version'', JStr (oc_if_match q))] 200 ''trading_restriction''
                         (effect request_id reason r) db)))"

definition approve_restriction ::
  "py_env \<Rightarrow> (timestamp \<Rightarrow> string) \<Rightarrow> timestamp \<Rightarrow> operator_call \<Rightarrow> uuid \<Rightarrow> 'a surveillance_db_scheme \<Rightarrow>
   (foundation_error, 'a surveillance_db_scheme \<times> command_response) res" where
  "approve_restriction E drf now q i db =
     restriction_command E now q ''approve'' i trs_created_by (activate_restriction E drf now q) db"

definition remove_restriction ::
  "py_env \<Rightarrow> (timestamp \<Rightarrow> string) \<Rightarrow> timestamp \<Rightarrow> operator_call \<Rightarrow> uuid \<Rightarrow> 'a surveillance_db_scheme \<Rightarrow>
   (foundation_error, 'a surveillance_db_scheme \<times> command_response) res" where
  "remove_restriction E drf now q i db =
     restriction_command E now q ''remove'' i trs_approved_by (deactivate_restriction E drf now q) db"

end
