(* ===== verification/Surveillance_Properties.thy ===== *)
theory Surveillance_Properties
  imports Surveillance_Services
begin

text \<open>
  What surveillance keeps, whatever it serves: restrictions with two persons, resolutions of critical cases, and
  the denial of orders that come under a restriction.
\<close>

section \<open>Well-formed tables\<close>

definition never_reissued :: "py_env \<Rightarrow> 'a event_db_scheme \<Rightarrow> uuid \<Rightarrow> bool" where
  "never_reissued E db i \<longleftrightarrow> (\<forall>n \<ge> ev_next db. en_uuid4 E n \<noteq> i)"

definition two_person_restriction :: "trading_restriction \<Rightarrow> bool" where
  "two_person_restriction r \<longleftrightarrow>
     trs_status r = ''PENDING'' \<and> trs_approved_by r = '''' \<or>
     trs_status r \<in> {''ACTIVE'', ''REMOVED''} \<and> trs_approved_by r \<noteq> '''' \<and> trs_approved_by r \<noteq> trs_created_by r"

definition restrictions_wf :: "py_env \<Rightarrow> 'a surveillance_db_scheme \<Rightarrow> bool" where
  "restrictions_wf E db \<longleftrightarrow>
     distinct (map trs_id (sv_restrictions db)) \<and>
     (\<forall>r \<in> set (sv_restrictions db). never_reissued E db (trs_id r) \<and> two_person_restriction r)"

text \<open>A critical case is resolved by somebody else than its assignee, and a resolved case stays resolved.\<close>

definition resolution_wf :: "surveillance_case list \<Rightarrow> surveillance_case_event \<Rightarrow> bool" where
  "resolution_wf cs t \<longleftrightarrow> sct_case t \<in> svc_id ` set cs \<and>
     (sct_event_type t = ''CASE_RESOLVED'' \<longrightarrow>
        (\<forall>c \<in> set cs. svc_id c = sct_case t \<longrightarrow> svc_status c = ''RESOLVED'' \<and>
           (svc_severity c = ''CRITICAL'' \<longrightarrow> svc_assigned_to c \<noteq> sct_actor_ref t)))"

definition cases_wf :: "py_env \<Rightarrow> 'a surveillance_db_scheme \<Rightarrow> bool" where
  "cases_wf E db \<longleftrightarrow>
     distinct (map svc_id (sv_cases db)) \<and> (\<forall>c \<in> set (sv_cases db). never_reissued E db (svc_id c)) \<and>
     (\<forall>t \<in> set (sv_timeline db). resolution_wf (sv_cases db) t)"

definition restrictions_kept :: "'a surveillance_db_scheme \<Rightarrow> 'a surveillance_db_scheme \<Rightarrow> bool" where
  "restrictions_kept db db' \<longleftrightarrow> sv_restrictions db' = sv_restrictions db \<and> ev_next db \<le> ev_next db'"

definition cases_kept :: "'a surveillance_db_scheme \<Rightarrow> 'a surveillance_db_scheme \<Rightarrow> bool" where
  "cases_kept db db' \<longleftrightarrow> sv_cases db' = sv_cases db \<and> sv_timeline db' = sv_timeline db \<and> ev_next db \<le> ev_next db'"

lemma never_reissued_mono: "never_reissued E db i \<Longrightarrow> ev_next db \<le> ev_next db' \<Longrightarrow> never_reissued E db' i"
  by (auto simp: never_reissued_def)

lemma restrictions_wf_kept: "restrictions_wf E db \<Longrightarrow> restrictions_kept db db' \<Longrightarrow> restrictions_wf E db'"
  by (auto simp: restrictions_wf_def restrictions_kept_def intro: never_reissued_mono)

lemma cases_wf_kept: "cases_wf E db \<Longrightarrow> cases_kept db db' \<Longrightarrow> cases_wf E db'"
  by (auto simp: cases_wf_def cases_kept_def intro: never_reissued_mono)

lemma fresh_reissued: "inj (en_uuid4 E) \<Longrightarrow> ev_next db < ev_next db' \<Longrightarrow> never_reissued E db' (fresh E db)"
  by (auto simp: never_reissued_def fresh_def inj_eq)

lemma fresh_unused: "never_reissued E db i \<Longrightarrow> fresh E db \<noteq> i"
  by (auto simp: never_reissued_def fresh_def)

section \<open>Findings\<close>

lemma attach_to_case_restrictions: "restrictions_kept db (attach_to_case E now tenant account f e db)"
  by (auto simp: restrictions_kept_def attach_to_case_def open_surveillance_case_def surveillance_enqueue_def
      surveillance_audit_row_def Let_def split: option.splits)

lemma persist_findings_restrictions: "restrictions_kept db (persist_findings E now tenant account instrument source actor fs db)"
proof (induction fs arbitrary: db)
  case Nil
  then show ?case by (simp add: restrictions_kept_def)
next
  case (Cons f fs)
  have "restrictions_kept db (persist_finding E now tenant account instrument source actor f db)"
    by (auto simp: persist_finding_def Let_def restrictions_kept_def surveillance_enqueue_def surveillance_audit_row_def
        intro: order_trans [OF _ attach_to_case_restrictions [unfolded restrictions_kept_def, THEN conjunct2]]
        simp: attach_to_case_restrictions [unfolded restrictions_kept_def, THEN conjunct1])
  with Cons.IH [of "persist_finding E now tenant account instrument source actor f db"] show ?case
    by (simp add: restrictions_kept_def)
qed

lemma cases_wf_snoc:
  assumes "cases_wf E db" "inj (en_uuid4 E)" "svc_id c = fresh E db" "sct_case t = svc_id c" "sct_event_type t \<noteq> ''CASE_RESOLVED''"
    "sv_cases db' = sv_cases db @ [c]" "sv_timeline db' = sv_timeline db @ [t]" "ev_next db < ev_next db'"
  shows "cases_wf E db'"
proof -
  have new: "svc_id c \<notin> svc_id ` set (sv_cases db)"
    using assms(1,3) by (auto simp: cases_wf_def dest!: fresh_unused)
  have "resolution_wf (sv_cases db @ [c]) s" if "s \<in> set (sv_timeline db)" for s
  proof -
    from that assms(1) have "resolution_wf (sv_cases db) s" by (simp add: cases_wf_def)
    moreover from this have "sct_case s \<noteq> svc_id c" using new by (auto simp: resolution_wf_def)
    ultimately show ?thesis by (auto simp: resolution_wf_def)
  qed
  moreover have "resolution_wf (sv_cases db @ [c]) t" using assms(4,5) by (simp add: resolution_wf_def)
  moreover have "never_reissued E db' (svc_id x)" if "x \<in> set (sv_cases db @ [c])" for x
    using that assms(1,2,3,8) by (auto simp: cases_wf_def intro: never_reissued_mono fresh_reissued)
  ultimately show ?thesis using assms(1) new by (auto simp: cases_wf_def assms(6,7))
qed

lemma attach_to_case_wf:
  assumes "cases_wf E db" "inj (en_uuid4 E)"
  shows "cases_wf E (attach_to_case E now tenant account f e db)"
proof -
  obtain db1 i where o: "open_surveillance_case E now tenant account f (sve_evidence_hash e) db = (db1, i)" by fastforce
  then have "\<exists>c t. sv_cases db1 = sv_cases db @ [c] \<and> sv_timeline db1 = sv_timeline db @ [t] \<and> svc_id c = fresh E db \<and>
    sct_case t = svc_id c \<and> sct_event_type t = ''CASE_OPENED'' \<and> ev_next db < ev_next db1"
    by (auto simp: open_surveillance_case_def surveillance_enqueue_def surveillance_audit_row_def Let_def)
  then have "cases_wf E db1" by (elim exE conjE, intro cases_wf_snoc [OF assms]) simp_all
  then have "cases_wf E (db1\<lparr>sv_case_links := l\<rparr>)" for l
    by (rule cases_wf_kept) (simp add: cases_kept_def)
  moreover have "cases_wf E (db\<lparr>sv_case_links := l\<rparr>)" for l
    by (rule cases_wf_kept [OF assms(1)]) (simp add: cases_kept_def)
  ultimately show ?thesis using assms(1) o by (auto simp: attach_to_case_def split: option.splits)
qed

lemma persist_findings_cases:
  assumes "cases_wf E db" "inj (en_uuid4 E)"
  shows "cases_wf E (persist_findings E now tenant account instrument source actor fs db)"
  using assms(1)
proof (induction fs arbitrary: db)
  case Nil
  then show ?case by simp
next
  case (Cons f fs)
  have "cases_wf E (persist_finding E now tenant account instrument source actor f db)"
  proof (cases "known_finding source f db")
    case True
    then show ?thesis using Cons.prems by (simp add: persist_finding_def)
  next
    case False
    show ?thesis unfolding persist_finding_def Let_def if_not_P [OF False]
      by (rule attach_to_case_wf [OF cases_wf_kept [OF Cons.prems] assms(2)])
        (simp add: cases_kept_def surveillance_enqueue_def surveillance_audit_row_def)
  qed
  from Cons.IH [OF this] show ?case by simp
qed

section \<open>Commands\<close>

text \<open>Whatever a command answers, the tables are as before or as its effect left them.\<close>

lemma answered_db:
  assumes "answered code db r = Inr (db', a)"
  shows "db' = db \<or> r = Inr (db', a)"
  using assms by (auto simp: answered_def split: sum.splits foundation_error.splits)

lemma idempotent_command_cases:
  assumes "idempotent_command E now key tenant actor endpoint data code ty body db = Inr (db', a)"
  obtains (replay) "db' = db" | (run) rq db1 b i q where "body (db\<lparr>sv_requests := rq\<rparr>) = Inr (db1, b, i)" "db' = db1\<lparr>sv_requests := q\<rparr>"
proof -
  from assms obtain rq r n where
    c: "(case (n, fi_response_body r, fi_response_status r) of
         (False, Some b, Some s) \<Rightarrow> Inr (db, CmdBody s b)
       | _ \<Rightarrow>
           rbind (body (db\<lparr>sv_requests := rq\<rparr>)) (\<lambda>(db1, b, i).
             Inr (db1\<lparr>sv_requests := complete_idempotent_request r code b ty (str_uuid i) (sv_requests db1)\<rparr>,
                  CmdBody code b))) = Inr (db', a)"
    unfolding idempotent_command_def rbind_eq_Inr [of "begin_idempotent_request (en_sha E) now key tenant actor endpoint
      ''POST'' (JObj data) (seconds 86400) (sv_requests db)"] split_paired_Ex prod.case by blast
  then have "db' = db \<or> rbind (body (db\<lparr>sv_requests := rq\<rparr>)) (\<lambda>(db1, b, i).
       Inr (db1\<lparr>sv_requests := complete_idempotent_request r code b ty (str_uuid i) (sv_requests db1)\<rparr>,
            CmdBody code b)) = Inr (db', a)"
    by (cases n; cases "fi_response_body r"; cases "fi_response_status r") simp_all
  then show thesis using replay run by (auto simp: rbind_eq_Inr)
qed

lemma restriction_row_unique:
  assumes "restrictions_wf E db" "r \<in> set (sv_restrictions db)" "x \<in> set (sv_restrictions db)" "trs_id x = trs_id r"
  shows "x = r"
  using assms by (auto simp: restrictions_wf_def distinct_map dest: inj_onD)

lemma restriction_effect_db:
  assumes "restriction_effect E drf now q rid reason verb ty payload r db = (db', b, i)"
  shows "sv_restrictions db' = upd_where (\<lambda>x. trs_id x = trs_id r) (\<lambda>_. r\<lparr>trs_updated_at := now\<rparr>) (sv_restrictions db) \<and>
    ev_next db \<le> ev_next db' \<and> sv_cases db' = sv_cases db \<and> sv_timeline db' = sv_timeline db"
  using assms
  by (auto simp: restriction_effect_def save_restriction_def surveillance_audit_row_def surveillance_enqueue_def
      application_audit_def Let_def)

text \<open>Progress of a row: its scope, type and maker stay, its status only advances.\<close>

definition restriction_rank :: "string \<Rightarrow> nat" where
  "restriction_rank s = (if s = ''PENDING'' then 0 else if s = ''ACTIVE'' then 1 else 2)"

definition advanced :: "trading_restriction \<Rightarrow> trading_restriction \<Rightarrow> bool" where
  "advanced r r' \<longleftrightarrow>
     trs_id r' = trs_id r \<and> trs_tenant_ref r' = trs_tenant_ref r \<and> trs_scope_type r' = trs_scope_type r \<and>
     trs_scope_ref r' = trs_scope_ref r \<and> trs_type r' = trs_type r \<and> trs_created_by r' = trs_created_by r \<and>
     trs_effective_from r' = trs_effective_from r \<and>
     restriction_rank (trs_status r) \<le> restriction_rank (trs_status r') \<and>
     (restriction_rank (trs_status r') = restriction_rank (trs_status r) \<longrightarrow> trs_status r' = trs_status r \<and> trs_effective_to r' = trs_effective_to r \<and> trs_approved_by r' = trs_approved_by r)"

definition restrictions_advanced :: "'a surveillance_db_scheme \<Rightarrow> 'a surveillance_db_scheme \<Rightarrow> bool" where
  "restrictions_advanced db db' \<longleftrightarrow>
     (\<forall>r \<in> set (sv_restrictions db). \<exists>r' \<in> set (sv_restrictions db'). advanced r r')"

lemma advanced_refl: "advanced r r" by (simp add: advanced_def)

lemma advanced_trans:
  assumes "advanced r r1" "advanced r1 r2"
  shows "advanced r r2"
proof -
  have "restriction_rank (trs_status r1) = restriction_rank (trs_status r)" "restriction_rank (trs_status r2) = restriction_rank (trs_status r1)"
    if "restriction_rank (trs_status r2) = restriction_rank (trs_status r)"
    using assms that by (simp_all add: advanced_def)
  then show ?thesis using assms unfolding advanced_def by auto
qed

lemma restrictions_advanced_kept: "restrictions_kept db db' \<Longrightarrow> restrictions_advanced db db'"
  by (auto simp: restrictions_advanced_def restrictions_kept_def intro: advanced_refl)

lemma restrictions_advanced_trans: "restrictions_advanced db db1 \<Longrightarrow> restrictions_advanced db1 db2 \<Longrightarrow> restrictions_advanced db db2"
  unfolding restrictions_advanced_def by (meson advanced_trans)

lemma replaced_restriction:
  assumes "restrictions_wf E db" "r \<in> set (sv_restrictions db)" "advanced r r'" "two_person_restriction r'"
    "sv_restrictions db' = upd_where (\<lambda>x. trs_id x = trs_id r) (\<lambda>_. r') (sv_restrictions db)" "ev_next db \<le> ev_next db'"
  shows "restrictions_wf E db' \<and> restrictions_advanced db db'"
proof -
  have i: "trs_id r' = trs_id r" using assms(3) by (simp add: advanced_def)
  have m: "map trs_id (sv_restrictions db') = map trs_id (sv_restrictions db)" by (simp add: assms(5) upd_where_def i comp_def)
  have s: "x \<in> set (sv_restrictions db') \<Longrightarrow> x = r' \<or> x \<in> set (sv_restrictions db)" for x
    by (auto simp: assms(5) upd_where_def split: if_splits)
  have n: "never_reissued E db' (trs_id x)" if "x \<in> set (sv_restrictions db)" for x
    using assms(1,6) that by (auto simp: restrictions_wf_def intro: never_reissued_mono)
  have "restrictions_wf E db'"
    using assms(1,2,4) s n i unfolding restrictions_wf_def m by metis
  moreover have "\<exists>x' \<in> set (sv_restrictions db'). advanced x x'" if x: "x \<in> set (sv_restrictions db)" for x
  proof (cases "trs_id x = trs_id r")
    case True
    with restriction_row_unique [OF assms(1,2) x] have "x = r" by simp
    moreover have "r' \<in> set (sv_restrictions db')" using assms(2) by (auto simp: assms(5) upd_where_def)
    ultimately show ?thesis using assms(3) by blast
  next
    case False
    with x have "x \<in> set (sv_restrictions db')" by (auto simp: assms(5) upd_where_def)
    then show ?thesis using advanced_refl by blast
  qed
  ultimately show ?thesis by (simp add: restrictions_advanced_def)
qed

lemma restriction_command_cases:
  assumes "restriction_command E now q verb i barred effect db = Inr (db', a)"
  obtains (same) "db' = db"
  | (run) r rid reason rq db1 b k c where "r \<in> set (sv_restrictions db)" "surveillance_manager (oc_user q)"
      "barred r \<noteq> su_pk (oc_user q)" "effect rid reason r (db\<lparr>sv_requests := rq\<rparr>) = Inr (db1, b, k)" "db' = db1\<lparr>sv_requests := c\<rparr>"
proof (cases "surveillance_manager (oc_user q)")
  case False
  with assms same show thesis by (simp add: restriction_command_def)
next
  case True
  show thesis
  proof (cases "obj_first (\<lambda>r. trs_id r = i \<and> trs_tenant_ref r = ''default'') (sv_restrictions db)")
    case None
    with assms True same show thesis by (simp add: restriction_command_def)
  next
    case (Some r)
    then have r: "r \<in> set (sv_restrictions db)" by (auto dest: obj_first_Some)
    show thesis
    proof (cases "barred r = su_pk (oc_user q)")
      case True
      with assms Some \<open>surveillance_manager (oc_user q)\<close> same show thesis by (simp add: restriction_command_def)
    next
      case False
      show thesis
      proof (cases "command_headers True q")
        case None
        with assms Some \<open>surveillance_manager (oc_user q)\<close> False same show thesis by (simp add: restriction_command_def Let_def)
      next
        case headers: (Some h)
        obtain key rid where h: "h = (key, rid)" by fastforce
        let ?reason = "strip (data_text q ''reason'' '''')"
        show thesis
        proof (cases "?reason = ''''")
          case True
          with assms Some \<open>surveillance_manager (oc_user q)\<close> False headers h same show thesis
            by (simp add: restriction_command_def Let_def)
        next
          case reason: False
          obtain ten url data where "answered (\<lambda>_. 409) db
              (idempotent_command E now key ten (su_pk (oc_user q)) url data 200 ''trading_restriction''
                 (effect rid ?reason r) db) = Inr (db', a)"
            using assms Some \<open>surveillance_manager (oc_user q)\<close> False headers h reason by (simp add: restriction_command_def Let_def)
          from answered_db [OF this] show thesis
          proof
            assume "idempotent_command E now key ten (su_pk (oc_user q)) url data 200 ''trading_restriction''
                 (effect rid ?reason r) db = Inr (db', a)"
            then show thesis
              by (cases rule: idempotent_command_cases) (auto intro: same run [OF r \<open>surveillance_manager (oc_user q)\<close> False])
          qed (rule same)
        qed
      qed
    qed
  qed
qed

lemma approve_restriction_wf:
  assumes "approve_restriction E drf now q i db = Inr (db', a)" "restrictions_wf E db" "su_pk (oc_user q) \<noteq> ''''"
  shows "restrictions_wf E db' \<and> restrictions_advanced db db' \<and> cases_kept db db'"
  using assms(1) unfolding approve_restriction_def
proof (cases rule: restriction_command_cases)
  case same
  then show ?thesis using assms(2) by (simp add: restrictions_advanced_kept restrictions_kept_def cases_kept_def)
next
  case (run r rid reason rq db1 b k c)
  let ?r = "r\<lparr>trs_approved_by := su_pk (oc_user q), trs_status := ''ACTIVE''\<rparr>"
  let ?db = "db\<lparr>sv_requests := rq\<rparr>"
  from run(4) have p: "trs_status r = ''PENDING''" and
    e: "restriction_effect E drf now q rid reason ''surveillance.restriction.approved'' ''regulatory.surveillance.restriction.applied.v1''
      [(''scope_type'', JStr (trs_scope_type r)), (''scope_ref'', JStr (trs_scope_ref r))] ?r ?db = (db1, b, k)"
    by (auto simp: activate_restriction_def Let_def split: if_splits)
  note f = restriction_effect_db [OF e]
  have "advanced r (?r\<lparr>trs_updated_at := now\<rparr>)" using p by (simp add: advanced_def restriction_rank_def)
  moreover have "two_person_restriction (?r\<lparr>trs_updated_at := now\<rparr>)"
    using run(3) assms(3) by (simp add: two_person_restriction_def)
  ultimately have "restrictions_wf E db' \<and> restrictions_advanced db db'"
    using f run(5) by (intro replaced_restriction [OF assms(2) run(1)]) simp_all
  then show ?thesis using f run(5) by (simp add: cases_kept_def)
qed

lemma remove_restriction_wf:
  assumes "remove_restriction E drf now q i db = Inr (db', a)" "restrictions_wf E db"
  shows "restrictions_wf E db' \<and> restrictions_advanced db db' \<and> cases_kept db db'"
  using assms(1) unfolding remove_restriction_def
proof (cases rule: restriction_command_cases)
  case same
  then show ?thesis using assms(2) by (simp add: restrictions_advanced_kept restrictions_kept_def cases_kept_def)
next
  case (run r rid reason rq db1 b k c)
  let ?r = "r\<lparr>trs_status := ''REMOVED'', trs_effective_to := Some now\<rparr>"
  let ?db = "db\<lparr>sv_requests := rq\<rparr>"
  from run(4) have p: "trs_status r = ''ACTIVE''" and
    e: "restriction_effect E drf now q rid reason ''surveillance.restriction.removed''
      ''regulatory.surveillance.restriction.removed.v1'' [] ?r ?db = (db1, b, k)"
    by (auto simp: deactivate_restriction_def split: if_splits)
  note f = restriction_effect_db [OF e]
  have "two_person_restriction r" using assms(2) run(1) by (simp add: restrictions_wf_def)
  then have "two_person_restriction (?r\<lparr>trs_updated_at := now\<rparr>)" using p by (simp add: two_person_restriction_def)
  moreover have "advanced r (?r\<lparr>trs_updated_at := now\<rparr>)" using p by (simp add: advanced_def restriction_rank_def)
  ultimately have "restrictions_wf E db' \<and> restrictions_advanced db db'"
    using f run(5) by (intro replaced_restriction [OF assms(2) run(1)]) simp_all
  then show ?thesis using f run(5) by (simp add: cases_kept_def)
qed

lemma request_restriction_wf:
  assumes "request_restriction E drf read_time now q db = Inr (db', a)" "restrictions_wf E db" "inj (en_uuid4 E)"
  shows "restrictions_wf E db' \<and> restrictions_advanced db db' \<and> cases_kept db db'"
proof -
  define row where "row = (\<lambda>until i. \<lparr>trs_id = i, trs_tenant_ref = ''default'', trs_scope_type = data_text q ''scope_type'' '''',
     trs_scope_ref = data_text q ''scope_ref'' '''', trs_type = data_text q ''restriction_type'' '''',
     trs_reason_code = ''INTERNAL_REVIEW'', trs_effective_from = now, trs_effective_to = until,
     trs_created_by = su_pk (oc_user q), trs_approved_by = '''', trs_status = ''PENDING'',
     trs_created_at = now, trs_updated_at = now\<rparr>)"
  have "db' = db \<or> (\<exists>until. sv_restrictions db' = sv_restrictions db @ [row until (fresh E db)] \<and> cases_kept db db' \<and> ev_next db < ev_next db')"
  proof (cases "surveillance_manager (oc_user q) \<and> command_headers False q \<noteq> None \<and> requested_end read_time q \<noteq> None")
    case False
    with assms(1) show ?thesis by (auto simp: request_restriction_def Let_def split: option.splits if_splits)
  next
    case True
    then obtain key rid until where t: "surveillance_manager (oc_user q)" "command_headers False q = Some (key, rid)"
      "requested_end read_time q = Some until" by auto
    from assms(1) t consider "db' = db" | url data body where
      "answered (\<lambda>_. 409) db (idempotent_command E now key ''default'' (su_pk (oc_user q)) url data 201 ''trading_restriction'' body db)
         = Inr (db', a)"
      "\<And>db0 db1 b k. body db0 = Inr (db1, b, k) \<Longrightarrow> sv_restrictions db1 = sv_restrictions db0 @ [row until (fresh E db0)] \<and>
         cases_kept db0 db1 \<and> ev_next db0 < ev_next db1"
      by (fastforce simp: request_restriction_def Let_def row_def surveillance_audit_row_def application_audit_def cases_kept_def
          split: if_splits)
    then show ?thesis
    proof cases
      case (2 url data body)
      from answered_db [OF 2(1)] show ?thesis
      proof
        assume "idempotent_command E now key ''default'' (su_pk (oc_user q)) url data 201 ''trading_restriction'' body db = Inr (db', a)"
        then show ?thesis
          by (cases rule: idempotent_command_cases) (auto dest!: 2(2) simp: cases_kept_def fresh_def)
      qed simp
    qed simp
  qed
  then show ?thesis
  proof
    assume "db' = db"
    then show ?thesis using assms(2) by (simp add: restrictions_advanced_kept restrictions_kept_def cases_kept_def)
  next
    assume "\<exists>until. sv_restrictions db' = sv_restrictions db @ [row until (fresh E db)] \<and> cases_kept db db' \<and> ev_next db < ev_next db'"
    then obtain until where r: "sv_restrictions db' = sv_restrictions db @ [row until (fresh E db)]" "cases_kept db db'"
      "ev_next db < ev_next db'" by blast
    have f: "trs_id (row until (fresh E db)) = fresh E db" "two_person_restriction (row until (fresh E db))"
      by (simp_all add: row_def two_person_restriction_def)
    have "never_reissued E db' (trs_id x)" if "x \<in> set (sv_restrictions db')" for x
      using that assms(2,3) r(3) by (auto simp: r(1) f(1) restrictions_wf_def intro: never_reissued_mono fresh_reissued)
    moreover have "fresh E db \<notin> trs_id ` set (sv_restrictions db)" using assms(2) by (auto simp: restrictions_wf_def dest!: fresh_unused)
    ultimately have "restrictions_wf E db'" using assms(2) f by (auto simp: restrictions_wf_def r(1))
    moreover have "restrictions_advanced db db'" by (auto simp: restrictions_advanced_def r(1) intro: advanced_refl)
    ultimately show ?thesis using r(2) by blast
  qed
qed

text \<open>A case after an accepted action.\<close>

lemma act_on_case_facts:
  assumes "act_on_case now lookup u assigned code act c = Inr c'"
  shows "svc_id c' = svc_id c \<and> svc_severity c' = svc_severity c \<and> svc_status c \<noteq> ''RESOLVED'' \<and>
    (act = CaseResolve \<longrightarrow> svc_status c' = ''RESOLVED'' \<and>
       (svc_severity c' = ''CRITICAL'' \<longrightarrow> svc_assigned_to c' \<noteq> su_pk u))"
  using assms by (auto simp: act_on_case_def rbind_eq_Inr split: case_action.splits if_splits option.splits)

lemma case_effect_facts:
  assumes "case_effect E drf now lookup q rid reason assigned code act c db = Inr (db', b, k)"
  shows "\<exists>c1 t. sv_cases db' = upd_where (\<lambda>x. svc_id x = svc_id c) (\<lambda>_. c1) (sv_cases db) \<and>
    sv_timeline db' = sv_timeline db @ [t] \<and> restrictions_kept db db' \<and>
    svc_id c1 = svc_id c \<and> svc_severity c1 = svc_severity c \<and> svc_status c \<noteq> ''RESOLVED'' \<and> sct_case t = svc_id c \<and>
    (sct_event_type t = ''CASE_RESOLVED'' \<longrightarrow> svc_status c1 = ''RESOLVED'' \<and>
       (svc_severity c1 = ''CRITICAL'' \<longrightarrow> svc_assigned_to c1 \<noteq> sct_actor_ref t))"
proof -
  from assms obtain c0 where c0: "act_on_case now lookup (oc_user q) assigned code act c = Inr c0"
    by (auto simp: case_effect_def rbind_eq_Inr split: if_splits)
  let ?c1 = "c0\<lparr>svc_updated_at := now\<rparr>"
  from assms c0 have s: "sv_cases db' = upd_where (\<lambda>x. svc_id x = svc_id c) (\<lambda>_. ?c1) (sv_cases db)" "restrictions_kept db db'"
    by (auto simp: case_effect_def restrictions_kept_def surveillance_audit_row_def application_audit_def Let_def split: if_splits)
  from assms c0 have t: "\<exists>t. sv_timeline db' = sv_timeline db @ [t] \<and> sct_case t = svc_id c \<and>
      sct_event_type t = case_timeline_event act \<and> sct_actor_ref t = su_pk (oc_user q)"
    by (auto simp: case_effect_def surveillance_audit_row_def application_audit_def Let_def split: if_splits)
  have "case_timeline_event act = ''CASE_RESOLVED'' \<longleftrightarrow> act = CaseResolve" by (cases act) simp_all
  moreover from t obtain t where "sv_timeline db' = sv_timeline db @ [t]" "sct_case t = svc_id c"
      "sct_event_type t = case_timeline_event act" "sct_actor_ref t = su_pk (oc_user q)" by blast
  ultimately show ?thesis using s act_on_case_facts [OF c0] by (intro exI [of _ ?c1] exI [of _ t]) simp
qed

lemma case_command_cases:
  assumes "case_command E drf now lookup q act i db = Inr (db', a)"
  obtains (same) "db' = db"
  | (run) c rid reason assigned code rq db1 b k s where "c \<in> set (sv_cases db)"
      "case_effect E drf now lookup q rid reason assigned code act c (db\<lparr>sv_requests := rq\<rparr>) = Inr (db1, b, k)"
      "db' = db1\<lparr>sv_requests := s\<rparr>"
proof -
  have "db' = db \<or> (\<exists>c key rid reason assigned code ten url data. c \<in> set (sv_cases db) \<and>
      answered case_error_code db (idempotent_command E now key ten (su_pk (oc_user q)) url data 200 ''surveillance_case''
        (case_effect E drf now lookup q rid reason assigned code act c) db) = Inr (db', a))"
    using assms
    by (auto simp: case_command_def Let_def dest: obj_first_Some split: option.splits if_splits)
  then show thesis
  proof (elim disjE exE conjE)
    fix c key rid reason assigned code ten url data
    assume c: "c \<in> set (sv_cases db)" and a: "answered case_error_code db (idempotent_command E now key ten (su_pk (oc_user q)) url data 200
        ''surveillance_case'' (case_effect E drf now lookup q rid reason assigned code act c) db) = Inr (db', a)"
    from answered_db [OF a] show thesis
    proof
      assume "idempotent_command E now key ten (su_pk (oc_user q)) url data 200
        ''surveillance_case'' (case_effect E drf now lookup q rid reason assigned code act c) db = Inr (db', a)"
      then show thesis by (cases rule: idempotent_command_cases) (auto intro: same run [OF c])
    qed (rule same)
  qed (rule same)
qed

lemma case_command_wf:
  assumes "case_command E drf now lookup q act i db = Inr (db', a)" "cases_wf E db"
  shows "cases_wf E db' \<and> restrictions_kept db db'"
  using assms(1)
proof (cases rule: case_command_cases)
  case same
  then show ?thesis using assms(2) by (simp add: restrictions_kept_def)
next
  case (run c rid reason assigned code rq db1 b k s)
  from case_effect_facts [OF run(2)] run(3) obtain c1 t where
    cs: "sv_cases db' = upd_where (\<lambda>x. svc_id x = svc_id c) (\<lambda>_. c1) (sv_cases db)" and
    ts: "sv_timeline db' = sv_timeline db @ [t]" and kept: "restrictions_kept db db'" and
    c1: "svc_id c1 = svc_id c" "svc_status c \<noteq> ''RESOLVED''" "sct_case t = svc_id c" and
    res: "sct_event_type t = ''CASE_RESOLVED'' \<longrightarrow> svc_status c1 = ''RESOLVED'' \<and>
       (svc_severity c1 = ''CRITICAL'' \<longrightarrow> svc_assigned_to c1 \<noteq> sct_actor_ref t)"
    by (auto simp: restrictions_kept_def)
  have m: "map svc_id (sv_cases db') = map svc_id (sv_cases db)" by (simp add: cs upd_where_def c1(1) comp_def)
  then have ids: "svc_id ` set (sv_cases db') = svc_id ` set (sv_cases db)" by (metis set_map)
  have mem: "x \<in> set (sv_cases db) \<and> svc_id x \<noteq> svc_id c \<or> x = c1" if "x \<in> set (sv_cases db')" for x
    using that by (auto simp: cs upd_where_def split: if_splits)
  have "resolution_wf (sv_cases db') u" if u: "u \<in> set (sv_timeline db)" for u
  proof -
    from u assms(2) have w: "resolution_wf (sv_cases db) u" by (simp add: cases_wf_def)
    with run(1) c1(2) have "sct_event_type u = ''CASE_RESOLVED'' \<Longrightarrow> sct_case u \<noteq> svc_id c" by (auto simp: resolution_wf_def)
    with w show ?thesis using mem c1(1) by (fastforce simp: resolution_wf_def ids)
  qed
  moreover have "resolution_wf (sv_cases db') t"
    using res run(1) mem by (auto simp: resolution_wf_def ids c1(3))
  moreover have "never_reissued E db' (svc_id x)" if "x \<in> set (sv_cases db')" for x
  proof -
    from that ids have "svc_id x \<in> svc_id ` set (sv_cases db)" by blast
    with assms(2) have "never_reissued E db (svc_id x)" by (auto simp: cases_wf_def)
    with kept show ?thesis by (auto simp: restrictions_kept_def intro: never_reissued_mono)
  qed
  ultimately show ?thesis using assms(2) kept by (auto simp: cases_wf_def m ts)
qed

section \<open>Steps\<close>

text \<open>What the application serves; a person has a key.\<close>

inductive surveillance_step ::
  "py_env \<Rightarrow> (timestamp \<Rightarrow> string) \<Rightarrow> (json \<Rightarrow> timestamp option) \<Rightarrow> surveillance_db \<Rightarrow> surveillance_db \<Rightarrow> bool"
  for E drf read_time where
  found: "surveillance_step E drf read_time db (persist_findings E now tenant account instrument source actor fs db)"
| ingested: "ingest_event E now name v (t, db) = ((t', db'), r) \<Longrightarrow> surveillance_step E drf read_time db db'"
| case_acted: "case_command E drf now lookup q act i db = Inr (db', a) \<Longrightarrow> surveillance_step E drf read_time db db'"
| requested: "request_restriction E drf read_time now q db = Inr (db', a) \<Longrightarrow> surveillance_step E drf read_time db db'"
| approved: "approve_restriction E drf now q i db = Inr (db', a) \<Longrightarrow> su_pk (oc_user q) \<noteq> '''' \<Longrightarrow>
    surveillance_step E drf read_time db db'"
| removed: "remove_restriction E drf now q i db = Inr (db', a) \<Longrightarrow> surveillance_step E drf read_time db db'"

lemma ingest_event_db:
  assumes "ingest_event E now name v (t, db) = ((t', db'), r)"
  shows "(\<exists>tenant account instrument i fs.
      db' = persist_findings E now tenant account instrument (Some i) ''system'' fs db) \<or>
    (restrictions_kept db db' \<and> cases_kept db db')"
proof -
  have d: "restrictions_kept db (add_dead_letter E now name v x e db) \<and> cases_kept db (add_dead_letter E now name v x e db)" for x e
    by (simp add: add_dead_letter_def restrictions_kept_def cases_kept_def Let_def)
  show ?thesis
  proof (cases "sen_event_id v")
    case (Inl s)
    with assms d show ?thesis by (auto simp: ingest_event_def Let_def)
  next
    case (Inr i)
    let ?m = "window_mutation E now (or_text (sen_tenant_ref v) (row_get (sen_payload v) ''tenant_ref''))
      (or_text (row_get (sen_payload v) ''account_ref'') JNull)
      (or_text (row_get (sen_payload v) ''instrument'') (row_get (sen_payload v) ''instrument_id'')) i (sen_window_events v)"
    show ?thesis
    proof (cases "consume_once (en_sha E) now i (JObj (sen_payload v)) ''surveillance-v1'' ?m (t, db)")
      case (Inl e)
      with assms Inr d show ?thesis by (auto simp: ingest_event_def Let_def)
    next
      case r: (Inr y)
      obtain s' b where y: "y = (s', b)" by fastforce
      with assms Inr r have s: "s' = (t', db')" by (simp add: ingest_event_def Let_def)
      from r [unfolded y] show ?thesis
      proof (cases rule: consume_once_cases)
        case replay
        with s show ?thesis by (auto simp: restrictions_kept_def cases_kept_def)
      next
        case run
        with s obtain fs where "db' = persist_findings E now (or_text (sen_tenant_ref v) (row_get (sen_payload v) ''tenant_ref''))
            (or_text (row_get (sen_payload v) ''account_ref'') JNull)
            (or_text (row_get (sen_payload v) ''instrument'') (row_get (sen_payload v) ''instrument_id'')) (Some i) ''system'' fs db"
          by (auto simp: window_mutation_def rbind_eq_Inr)
        then show ?thesis by blast
      qed
    qed
  qed
qed

lemma surveillance_step_wf:
  assumes "surveillance_step E drf read_time db db'" "restrictions_wf E db" "cases_wf E db" "inj (en_uuid4 E)"
  shows "restrictions_wf E db' \<and> cases_wf E db' \<and> restrictions_advanced db db'"
  using assms(1)
proof cases
  case (found now tenant account instrument source actor fs)
  have "restrictions_kept db db'" "cases_wf E db'"
    unfolding found by (rule persist_findings_restrictions, rule persist_findings_cases [OF assms(3,4)])
  then show ?thesis using assms(2) by (auto intro: restrictions_wf_kept restrictions_advanced_kept)
next
  case (ingested now name v t t' r)
  from ingest_event_db [OF this] show ?thesis
  proof (elim disjE exE)
    fix tenant account instrument i fs
    assume e: "db' = persist_findings E now tenant account instrument (Some i) ''system'' fs db"
    have "restrictions_kept db db'" "cases_wf E db'"
      unfolding e by (rule persist_findings_restrictions, rule persist_findings_cases [OF assms(3,4)])
    then show ?thesis using assms(2) by (auto intro: restrictions_wf_kept restrictions_advanced_kept)
  qed (use assms restrictions_wf_kept cases_wf_kept restrictions_advanced_kept in blast)
next
  case (case_acted now lookup q act i a)
  with case_command_wf [OF _ assms(3)] assms(2) restrictions_wf_kept restrictions_advanced_kept show ?thesis by blast
next
  case (requested now q a)
  with request_restriction_wf [OF _ assms(2,4)] assms(3) cases_wf_kept show ?thesis by blast
next
  case (approved now q i a)
  with approve_restriction_wf [OF _ assms(2)] assms(3) cases_wf_kept show ?thesis by blast
next
  case (removed now q i a)
  with remove_restriction_wf [OF _ assms(2)] assms(3) cases_wf_kept show ?thesis by blast
qed

lemma surveillance_steps_wf:
  assumes "(surveillance_step E drf read_time)\<^sup>*\<^sup>* db0 db" "restrictions_wf E db0" "cases_wf E db0" "inj (en_uuid4 E)"
  shows "restrictions_wf E db \<and> cases_wf E db \<and> restrictions_advanced db0 db"
  using assms(1)
proof (induction rule: rtranclp_induct)
  case base
  then show ?case using assms(2,3) by (simp add: restrictions_advanced_kept restrictions_kept_def)
next
  case (step db1 db2)
  then show ?case using surveillance_step_wf assms(4) restrictions_advanced_trans by blast
qed

section \<open>Orders under a restriction\<close>

text \<open>A restriction in force that an order comes under and that does more than ask for a review.\<close>

definition bars_order ::
  "timestamp \<Rightarrow> string \<Rightarrow> string \<Rightarrow> order_payload \<Rightarrow> trading_restriction \<Rightarrow> bool" where
  "bars_order now tenant account p r \<longleftrightarrow>
     trs_tenant_ref r = tenant \<and> trs_status r = ''ACTIVE'' \<and> effective_at now (trs_effective_from r) (trs_effective_to r) \<and>
     (trs_scope_type r, trs_scope_ref r) \<in> {(''TENANT'', tenant), (''ACCOUNT'', account), (''INSTRUMENT'', opl_instrument_id p)} \<and>
     trs_type r \<noteq> ''REVIEW_REQUIRED'' \<and> concerns_side (opl_side p) r"

lemma barred_order_denied:
  assumes "r \<in> set (sv_restrictions db)" "bars_order now tenant account p r"
  shows "\<exists>s. surveil_order S E now tenant account p ac ve ju stale orders db = Inr s \<and> svd_decision s = Deny"
proof -
  have "r \<in> set (trading_restrictions_of now tenant account (opl_instrument_id p) (opl_side p) ac ve ju (sv_restrictions db))"
    using assms by (auto simp: trading_restrictions_of_def bars_order_def restriction_in_scope_def)
  moreover have "trs_type r \<noteq> ''REVIEW_REQUIRED''" using assms(2) by (simp add: bars_order_def)
  ultimately show ?thesis
    by (auto simp: surveil_order_def surveillance_verdict_def Let_def list_all_iff)
qed

section \<open>Two persons\<close>

definition sample_restriction :: trading_restriction where
  "sample_restriction = \<lparr>trs_id = 3, trs_tenant_ref = ''default'', trs_scope_type = ''INSTRUMENT'', trs_scope_ref = ''BTC-USD'',
     trs_type = ''BLOCK_BUYS'', trs_reason_code = ''INTERNAL_REVIEW'', trs_effective_from = 0, trs_effective_to = None,
     trs_created_by = ''8'', trs_approved_by = '''', trs_status = ''PENDING'', trs_created_at = 0, trs_updated_at = 0\<rparr>"

definition sample_surveillance :: surveillance_db where
  "sample_surveillance = \<lparr>ev_outbox = \<lparr>ob_next_pk = 1, ob_next_uuid = 100, ob_rows = []\<rparr>, ev_next = 7, sv_rules = [],
     sv_restrictions = [sample_restriction],
     sv_events = [], sv_cases = [], sv_case_links = [], sv_timeline = [], sv_audits = [], sv_dead_letters = [],
     sv_requests = \<lparr>fr_next_pk = 1, fr_rows = []\<rparr>, sv_application_audits = []\<rparr>"

text \<open>
  C19. Whatever findings, trading events and operator commands surveillance serves, every restriction is pending and
  approved by nobody, or was put in force by another person than its maker; it keeps its scope, kind and
  maker and only moves from pending to active to removed; while it is in force, every order of its tenant, account or
  instrument on its side is denied; and a critical case is resolved, once, by another person than its assignee.
\<close>

theorem surveillance_two_person:
  assumes "(surveillance_step E drf read_time)\<^sup>*\<^sup>* db0 db" "restrictions_wf E db0" "cases_wf E db0" "inj (en_uuid4 E)"
  shows "(\<forall>r \<in> set (sv_restrictions db). two_person_restriction r \<and>
      (\<forall>S now tenant account p ac ve ju stale orders. bars_order now tenant account p r \<longrightarrow>
         (\<exists>s. surveil_order S E now tenant account p ac ve ju stale orders db = Inr s \<and> svd_decision s = Deny))) \<and>
    (\<forall>r0 \<in> set (sv_restrictions db0). \<exists>r \<in> set (sv_restrictions db). advanced r0 r) \<and>
    (\<forall>t \<in> set (sv_timeline db). sct_event_type t = ''CASE_RESOLVED'' \<longrightarrow>
      (\<exists>c \<in> set (sv_cases db). svc_id c = sct_case t \<and> svc_status c = ''RESOLVED'' \<and>
         (svc_severity c = ''CRITICAL'' \<longrightarrow> svc_assigned_to c \<noteq> sct_actor_ref t)))"
proof -
  from surveillance_steps_wf [OF assms] have w: "restrictions_wf E db" "cases_wf E db" "restrictions_advanced db0 db" by blast+
  show ?thesis
  proof (intro conjI ballI allI impI)
    fix t assume t: "t \<in> set (sv_timeline db)" "sct_event_type t = ''CASE_RESOLVED''"
    with w(2) have "resolution_wf (sv_cases db) t" by (simp add: cases_wf_def)
    with t(2) show "\<exists>c \<in> set (sv_cases db). svc_id c = sct_case t \<and> svc_status c = ''RESOLVED'' \<and>
         (svc_severity c = ''CRITICAL'' \<longrightarrow> svc_assigned_to c \<noteq> sct_actor_ref t)"
      by (auto simp: resolution_wf_def)
  qed (use w barred_order_denied in \<open>auto simp: restrictions_wf_def restrictions_advanced_def\<close>)
qed

definition approval_call :: operator_call where
  "approval_call = \<lparr>oc_user = \<lparr>su_pk = ''9'', su_superuser = False, su_groups = [''surveillance_manager''], su_mfa = True\<rparr>,
     oc_key = ''k'', oc_request_id = ''q'', oc_if_match = ''v0'', oc_correlation = 1,
     oc_data = [(''reason'', JStr ''insider list'')]\<rparr>"

definition buy_payload :: order_payload where
  "buy_payload = \<lparr>opl_instrument_id = ''BTC-USD'', opl_side = Buy, opl_order_type = OrdMarket, opl_quantity = 1,
     opl_price = 100, opl_limit_price = None\<rparr>"

definition surveillance_py :: py_env where
  "surveillance_py = \<lparr>en_sha = (\<lambda>s. ''''), en_uuid4 = (\<lambda>n. n), en_uuid5 = (\<lambda>s. 0), en_dtext = (\<lambda>x. ''0''),
     en_iso_date = (\<lambda>d. ''''), en_iso_time = (\<lambda>t. ''v0''), en_col = (\<lambda>x. x), en_ratio_col = (\<lambda>x. x)\<rparr>"

lemma new_command:
  assumes "fr_rows (sv_requests db) = []" "\<And>rq. \<exists>db1 b k. body (db\<lparr>sv_requests := rq\<rparr>) = Inr (db1, b, k) \<and> P (sv_restrictions db1)"
  shows "\<exists>db' a. answered code db (idempotent_command E now key tenant actor url data st ty body db) = Inr (db', a) \<and> P (sv_restrictions db')"
proof -
  obtain rq r where b: "begin_idempotent_request (en_sha E) now key tenant actor url ''POST'' (JObj data) (seconds 86400)
      (sv_requests db) = Inr (rq, r, True)"
    using assms(1) by (simp add: begin_idempotent_request_def begin_scoped_request_def obj_exists_def Let_def)
  from assms(2) [of rq] show ?thesis by (elim exE conjE) (simp add: idempotent_command_def b answered_def)
qed

lemma sample_approval:
  "\<exists>db' a. approve_restriction surveillance_py (\<lambda>t. '''') 5 approval_call 3 sample_surveillance = Inr (db', a) \<and>
     (\<exists>r \<in> set (sv_restrictions db'). bars_order 6 ''default'' ''sim:5'' buy_payload r)"
proof -
  have t: "strip ''k'' = ''k''" "strip ''q'' = ''q''" "strip (data_text approval_call ''reason'' []) = ''insider list''" by code_simp+
  have h: "command_headers True approval_call = Some (''k'', ''q'')"
    by (simp add: command_headers_def approval_call_def t)
  have u: "oc_user approval_call = \<lparr>su_pk = ''9'', su_superuser = False, su_groups = [''surveillance_manager''], su_mfa = True\<rparr>"
    "oc_if_match approval_call = ''v0''"
    by (simp_all add: approval_call_def)
  have f: "obj_first (\<lambda>r. trs_id r = 3 \<and> trs_tenant_ref r = ''default'') (sv_restrictions sample_surveillance) = Some sample_restriction"
    by (simp add: sample_surveillance_def sample_restriction_def)
  let ?r = "sample_restriction\<lparr>trs_approved_by := ''9'', trs_status := ''ACTIVE''\<rparr>"
  have c: "restriction_full_clean ?r"
    by (simp add: restriction_full_clean_def restriction_clean_def sample_restriction_def scope_types_def restriction_kinds_def)
  have b: "\<exists>db1 b k. activate_restriction surveillance_py (\<lambda>t. []) 5 approval_call ''q'' ''insider list'' sample_restriction
      (sample_surveillance\<lparr>sv_requests := rq\<rparr>) = Inr (db1, b, k) \<and>
      (\<exists>r \<in> set (sv_restrictions db1). bars_order 6 ''default'' ''sim:5'' buy_payload r)" for rq
  proof -
    obtain db1 b k where e: "restriction_effect surveillance_py (\<lambda>t. []) 5 approval_call ''q'' ''insider list''
        ''surveillance.restriction.approved'' ''regulatory.surveillance.restriction.applied.v1''
        [(''scope_type'', JStr (trs_scope_type sample_restriction)), (''scope_ref'', JStr (trs_scope_ref sample_restriction))] ?r
        (sample_surveillance\<lparr>sv_requests := rq\<rparr>) = (db1, b, k)" by (metis prod_cases3)
    then have a: "activate_restriction surveillance_py (\<lambda>t. []) 5 approval_call ''q'' ''insider list'' sample_restriction
      (sample_surveillance\<lparr>sv_requests := rq\<rparr>) = Inr (db1, b, k)"
      using c by (simp add: activate_restriction_def u surveillance_py_def) (simp add: sample_restriction_def)
    from restriction_effect_db [OF e] have "sv_restrictions db1 = [?r\<lparr>trs_updated_at := 5\<rparr>]"
      by (simp add: upd_where_def sample_surveillance_def sample_restriction_def)
    then have "\<exists>r \<in> set (sv_restrictions db1). bars_order 6 ''default'' ''sim:5'' buy_payload r"
      by (simp add: bars_order_def effective_at_def buy_payload_def concerns_side_def sample_restriction_def)
    with a show ?thesis by blast
  qed
  have m: "trs_created_by sample_restriction = ''8''" by (simp add: sample_restriction_def)
  have n: "fr_rows (sv_requests sample_surveillance) = []" by (simp add: sample_surveillance_def)
  from new_command [where body = "activate_restriction surveillance_py (\<lambda>t. []) 5 approval_call ''q'' ''insider list'' sample_restriction"
      and P = "\<lambda>rs. \<exists>r \<in> set rs. bars_order 6 ''default'' ''sim:5'' buy_payload r", OF n b] show ?thesis
    by (simp add: approve_restriction_def restriction_command_def h t u f m surveillance_manager_def surveillance_viewer_def Let_def)
qed

theorem surveillance_two_person_witness:
  "\<exists>db. (\<exists>a. approve_restriction surveillance_py (\<lambda>t. '''') 5 approval_call 3 sample_surveillance = Inr (db, a)) \<and>
     (\<exists>r \<in> set (sv_restrictions db). bars_order 6 ''default'' ''sim:5'' buy_payload r \<and> two_person_restriction r) \<and>
     (\<exists>s. surveil_order \<lparr>sus_enabled = True, sus_self_trade_prevention = True\<rparr> surveillance_py 6 ''default'' ''sim:5'' buy_payload
        '''' '''' '''' False [] db = Inr s \<and> svd_decision s = Deny)"
proof -
  obtain db a where d: "approve_restriction surveillance_py (\<lambda>t. '''') 5 approval_call 3 sample_surveillance = Inr (db, a)" and
    r: "\<exists>r \<in> set (sv_restrictions db). bars_order 6 ''default'' ''sim:5'' buy_payload r"
    using sample_approval by blast
  have "su_pk (oc_user approval_call) \<noteq> ''''" by (simp add: approval_call_def)
  then have "surveillance_step surveillance_py (\<lambda>t. '''') (\<lambda>_. None) sample_surveillance db" by (rule surveillance_step.approved [OF d])
  then have s: "(surveillance_step surveillance_py (\<lambda>t. '''') (\<lambda>_. None))\<^sup>*\<^sup>* sample_surveillance db" by blast
  have "restrictions_wf surveillance_py sample_surveillance" "cases_wf surveillance_py sample_surveillance" "inj (en_uuid4 surveillance_py)"
    by (simp_all add: restrictions_wf_def cases_wf_def never_reissued_def two_person_restriction_def sample_surveillance_def
        sample_restriction_def surveillance_py_def)
  from surveillance_two_person [OF s this] r d show ?thesis by blast
qed

end
