(* ===== verification/Order_Creation.thy ===== *)
theory Order_Creation
  imports Trading_Simulation Execution_Control Compliance_Services Surveillance_Services
begin

text \<open>
  Placing a simulated order, \<open>apps/trading/application/simulation.py\<close>: the payload, the evaluation by the
  risk engine and surveillance, and \<open>create\<close>, which asks compliance, holds an idempotency record, routes the
  order, stores it with its risk decision and reserves the funds.

  The tables belong to several applications. A \<open>desk\<close> has the database of each; the rows they share are kept
  in the trading database and lent to the application that runs: the outbox, the orders that compliance
  may reject, the audit events and the routing decisions.
\<close>

section \<open>The desk\<close>

record order_risk_decision =
  rdc_id :: uuid
  rdc_tenant_ref :: string
  rdc_subject_ref :: string
  rdc_account_ref :: string
  rdc_order_id :: "uuid option"
  rdc_decision :: decision
  rdc_reason_codes :: "string list"
  rdc_policy_version :: string
  rdc_inputs_hash :: string
  rdc_created_at :: timestamp

record desk =
  dk_sim :: sim_db
  dk_compliance :: compliance_db
  dk_surveillance :: surveillance_db
  dk_routes :: route_db
  dk_controls :: "trading_control list"
  dk_risks :: "order_risk_decision list"
  dk_requests :: foundation_requests
  dk_processed :: "processed_event list"

definition lend_events :: "'a event_db_scheme \<Rightarrow> 'b event_db_scheme \<Rightarrow> 'b event_db_scheme" where
  "lend_events src db = db\<lparr>ev_outbox := ev_outbox src, ev_next := ev_next src\<rparr>"

definition in_sim :: "(sim_db \<Rightarrow> (foundation_error, sim_db \<times> 'r) res) \<Rightarrow> desk \<Rightarrow> (foundation_error, desk \<times> 'r) res" where
  "in_sim f d = rbind (f (dk_sim d)) (\<lambda>(s, r). Inr (d\<lparr>dk_sim := s\<rparr>, r))"

definition in_compliance ::
  "(compliance_db \<Rightarrow> (foundation_error, compliance_db \<times> 'r) res) \<Rightarrow> desk \<Rightarrow> (foundation_error, desk \<times> 'r) res" where
  "in_compliance f d =
     rbind (f ((lend_events (dk_sim d) (dk_compliance d))\<lparr>cd_orders := sd_orders (dk_sim d)\<rparr>)) (\<lambda>(c, r).
       Inr (d\<lparr>dk_compliance := c, dk_sim := (lend_events c (dk_sim d))\<lparr>sd_orders := cd_orders c\<rparr>\<rparr>, r))"

definition in_surveillance ::
  "(surveillance_db \<Rightarrow> (foundation_error, surveillance_db \<times> 'r) res) \<Rightarrow> desk \<Rightarrow> (foundation_error, desk \<times> 'r) res" where
  "in_surveillance f d =
     rbind (f (lend_events (dk_sim d) (dk_surveillance d))) (\<lambda>(c, r).
       Inr (d\<lparr>dk_surveillance := c, dk_sim := lend_events c (dk_sim d)\<rparr>, r))"

text \<open>The columns of a routing decision that the quality report of an order reads.\<close>

definition routing_view :: "routing_decision \<Rightarrow> execution_routing_decision" where
  "routing_view t = \<lparr>rd_id = rt_decision_id t, rd_order = rt_order t, rd_reference_price = rt_reference_price t,
     rd_revision = rt_revision t, rd_created_at = rt_created_at t\<rparr>"

definition in_routes ::
  "(route_db \<Rightarrow> (foundation_error, route_db \<times> 'r) res) \<Rightarrow> desk \<Rightarrow> (foundation_error, desk \<times> 'r) res" where
  "in_routes f d =
     rbind (f ((lend_events (dk_sim d) (dk_routes d))\<lparr>rd_audits := sd_audits (dk_sim d)\<rparr>)) (\<lambda>(c, r).
       Inr (d\<lparr>dk_routes := c, dk_sim := (lend_events c (dk_sim d))\<lparr>sd_audits := rd_audits c,
            sd_routing := map routing_view (rd_decisions c)\<rparr>\<rparr>, r))"

section \<open>Settings and authority\<close>

record desk_settings =
  ds_sim :: sim_settings
  ds_surveillance :: surveillance_settings
  ds_execution :: execution_settings
  ds_simulated_trading_enabled :: bool
  ds_deployment_env :: string
  ds_real_money_enabled :: bool

definition simulation_available :: "desk_settings \<Rightarrow> bool" where
  "simulation_available S \<longleftrightarrow>
     ds_simulated_trading_enabled S \<and> ds_deployment_env S \<in> {''local'', ''test'', ''staging''} \<and>
     \<not> xs_real_trading_enabled (ds_execution S) \<and> \<not> xs_external_execution_enabled (ds_execution S) \<and>
     \<not> ds_real_money_enabled S"

definition simulation_authorized :: "desk_settings \<Rightarrow> bool \<Rightarrow> string \<Rightarrow> bool" where
  "simulation_authorized S authenticated header \<longleftrightarrow>
     simulation_available S \<and> authenticated \<and> lower header = ''true''"

text \<open>What the text of a request identifier denotes: a UUID, or one derived from it, or a fresh one.\<close>

definition correlation_uuid ::
  "py_env \<Rightarrow> (string \<Rightarrow> uuid option) \<Rightarrow> string \<Rightarrow> 'a event_db_scheme \<Rightarrow> 'a event_db_scheme \<times> uuid" where
  "correlation_uuid E read_uuid s db =
     (case read_uuid s of
        Some i \<Rightarrow> (db, i)
      | None \<Rightarrow> if s = '''' then (db\<lparr>ev_next := Suc (ev_next db)\<rparr>, fresh E db) else (db, en_uuid5 E (''beyvra:'' @ s)))"

section \<open>The payload\<close>

definition normalized_instrument :: "row \<Rightarrow> string" where
  "normalized_instrument data =
     (let i = upper (or_text (row_get data ''instrument'') (row_get data ''instrument_id''))
      in if CHR ''-'' \<notin> set i \<and> endswith i ''USD'' then take (length i - 3) i @ ''-USD'' else i)"

definition side_of :: "string \<Rightarrow> order_side option" where
  "side_of s = (if s = ''BUY'' then Some Buy else if s = ''SELL'' then Some Sell else None)"

definition placed_type :: "string \<Rightarrow> order_type option" where
  "placed_type s = (if s = ''MARKET'' then Some OrdMarket else if s = ''LIMIT'' then Some OrdLimit else None)"

text \<open>
  A quantity or limit price that was read: a NaN raises in the comparison with zero, an infinite one is
  denied by the risk engine with the code given, as are the finite ones out of its range.
\<close>

definition positive_number :: "decimal \<Rightarrow> string \<Rightarrow> (foundation_error, rat) res" where
  "positive_number d code =
     (case d of
        NaN \<Rightarrow> Inl FArithmeticError
      | Inf neg \<Rightarrow> Inl (FValueError (if neg then ''VALIDATION_ERROR'' else code))
      | Finite s c e \<Rightarrow> if dec_value d \<le> 0 then Inl (FValueError ''VALIDATION_ERROR'') else Inr (dec_value d))"

definition normalized_payload :: "sim_settings \<Rightarrow> row \<Rightarrow> (foundation_error, order_payload) res" where
  "normalized_payload S data =
     (let instrument = normalized_instrument data;
          side = upper (or_text (row_get data ''side'') JNull);
          kind = upper (text_or (row_get data ''order_type'') ''MARKET'')
      in case (parse_decimal (py_text (row_get data ''quantity'')), map_of (se_prices S) instrument,
               if kind = ''LIMIT'' then map_option Some (parse_decimal (py_text (row_get data ''limit_price''))) else Some None) of
           (Some q, Some price, Some l) \<Rightarrow>
             (case (side_of side, placed_type kind) of
                (Some sd, Some ty) \<Rightarrow>
                  rbind (positive_number q ''QUANTITY_OUT_OF_RANGE'') (\<lambda>quantity.
                  rbind (case l of None \<Rightarrow> Inr None
                           | Some x \<Rightarrow> rbind (positive_number x ''PRICE_BAND_EXCEEDED'') (\<lambda>y. Inr (Some y))) (\<lambda>limit.
                    Inr \<lparr>opl_instrument_id = instrument, opl_side = sd, opl_order_type = ty, opl_quantity = quantity,
                         opl_price = price, opl_limit_price = limit\<rparr>))
              | _ \<Rightarrow> Inl (FValueError ''VALIDATION_ERROR''))
         | _ \<Rightarrow> Inl (FValueError ''VALIDATION_ERROR''))"

section \<open>Evaluation\<close>

definition compliance_decision ::
  "py_env \<Rightarrow> timestamp \<Rightarrow> nat \<Rightarrow> desk \<Rightarrow> (foundation_error, desk \<times> eligibility_value option) res" where
  "compliance_decision E now user d =
     (case obj_first (\<lambda>p. cpf_user p = user) (cd_profiles (dk_compliance d)) of
        None \<Rightarrow> Inr (d, None)
      | Some p \<Rightarrow>
          rbind (in_compliance (get_eligibility E now (cpf_account_id p) CapTrading True '''') d) (\<lambda>(d1, v).
            Inr (d1, Some v)))"

definition new_sim_account :: "uuid \<Rightarrow> string \<Rightarrow> string \<Rightarrow> string \<Rightarrow> simulated_account" where
  "new_sim_account i tenant subject account =
     \<lparr>sa_id = i, sa_tenant_ref = tenant, sa_subject_ref = subject, sa_account_ref = account, sa_status = ''ACTIVE'',
      sa_quote_currency = ''USD'', sa_total_balance = 10000, sa_pending_balance = 0\<rparr>"

definition account_for ::
  "py_env \<Rightarrow> nat \<Rightarrow> 'a sim_db_scheme \<Rightarrow> (foundation_error, 'a sim_db_scheme \<times> simulated_account) res" where
  "account_for E user db =
     (let (tenant, subject, account) = refs (str_nat user) ''default'';
          same = (\<lambda>a. sa_tenant_ref a = tenant \<and> sa_subject_ref a = subject \<and> sa_account_ref a = account)
      in rbind (get_or_insert same (new_sim_account (fresh E db) tenant subject account) (sd_accounts db)) (\<lambda>(t, a).
           let db1 = db\<lparr>sd_accounts := t,
                 ev_next := if length t = length (sd_accounts db) then ev_next db else Suc (ev_next db)\<rparr>
           in rbind (ensure_paper_identity a db1) (\<lambda>(db2, _). Inr (db2, a))))"

fun control_text :: "control_state \<Rightarrow> string" where
  "control_text CtlActive = ''ACTIVE''"
| "control_text CtlCloseOnly = ''CLOSE_ONLY''"
| "control_text CtlCancelOnly = ''CANCEL_ONLY''"
| "control_text CtlHalted = ''HALTED''"
| "control_text CtlMaintenance = ''MAINTENANCE''"

text \<open>The newest control of the platform or the instrument, whichever of the two it is.\<close>

definition control_of :: "string \<Rightarrow> trading_control list \<Rightarrow> control_state" where
  "control_of instrument cs =
     (case obj_last_by tc_created_at
             (filter (\<lambda>c. tc_scope c \<in> {ScopePlatform, ScopeInstrument} \<and> tc_scope_ref c \<in> {''*'', instrument}) cs) of
        None \<Rightarrow> CtlActive
      | Some c \<Rightarrow> tc_state c)"

definition effective_control :: "control_state \<Rightarrow> order_side \<Rightarrow> string" where
  "effective_control s side =
     (if s = CtlCancelOnly \<or> (s = CtlCloseOnly \<and> side = Buy) then ''HALTED'' else control_text s)"

definition order_risk_inputs ::
  "desk_settings \<Rightarrow> trading_account \<Rightarrow> order_payload \<Rightarrow> rat \<Rightarrow> rat \<Rightarrow> control_state \<Rightarrow> risk_inputs" where
  "order_risk_inputs S ident p available notional state =
     \<lparr>ri_account_status = Some (if ta_trading_enabled ident then ta_status ident else ''RESTRICTED''),
      ri_simulation_eligible = Some True, ri_kyc_status = None, ri_jurisdiction_allowed = None,
      ri_instrument_status = Some ''ACTIVE'', ri_market_status = Some ''OPEN'',
      ri_control_state = Some (effective_control state (opl_side p)),
      ri_market_data_stale = se_market_data_stale (ds_sim S), ri_provider_health = Some ''HEALTHY'',
      ri_compliance_eligible = True, ri_quantity = opl_quantity p, ri_min_quantity = 1 / 10000,
      ri_max_quantity = Some 100, ri_notional = notional, ri_min_notional = 1, ri_max_notional = Some 1000000,
      ri_available_funds = (if opl_side p = Buy then Funds available else Unbounded), ri_daily_notional = 0,
      ri_daily_notional_limit = Some 1000000, ri_daily_loss = 0, ri_daily_loss_limit = Some 10000,
      ri_projected_position = Some (opl_quantity p), ri_position_limit = Some 100,
      ri_reference_price = Some (opl_price p), ri_order_price = Some (or_default (opl_limit_price p) (opl_price p)),
      ri_price_band_percent = Some 5, ri_manual_review_required = False\<rparr>"

record order_evaluation =
  oev_payload :: order_payload
  oev_account :: simulated_account
  oev_risk :: risk_result
  oev_surveillance :: surveillance_decision
  oev_available :: rat
  oev_notional :: rat

text \<open>\<open>hash\<close> is \<open>payload_hash\<close> of the dictionary of the inputs.\<close>

definition evaluate_request ::
  "desk_settings \<Rightarrow> (risk_inputs \<Rightarrow> string) \<Rightarrow> py_env \<Rightarrow> timestamp \<Rightarrow> nat \<Rightarrow> row \<Rightarrow> desk \<Rightarrow>
   (foundation_error, desk \<times> order_evaluation) res" where
  "evaluate_request S hash E now user data d =
     rbind (normalized_payload (ds_sim S) data) (\<lambda>p.
     rbind (in_sim (account_for E user) d) (\<lambda>(d1, a).
     rbind (in_sim (ensure_paper_identity a) d1) (\<lambda>(d2, ident).
       let available = available_quote a (sd_reservations (dk_sim d2));
           notional = dmul (opl_quantity p) (opl_price p);
           state = control_of (opl_instrument_id p) (dk_controls d2);
           risk = evaluate_order hash (order_risk_inputs S ident p available notional state)
       in rbind (surveil_order (ds_surveillance S) E now ''default'' (sa_account_ref a) p '''' '''' ''''
                   (se_market_data_stale (ds_sim S)) (sd_orders (dk_sim d2)) (dk_surveillance d2)) (\<lambda>s.
          Inr (d2, \<lparr>oev_payload = p, oev_account = a, oev_risk = risk, oev_surveillance = s,
                    oev_available = available, oev_notional = notional\<rparr>)))))"

fun decision_text :: "decision \<Rightarrow> string" where
  "decision_text Allow = ''ALLOW''"
| "decision_text Deny = ''DENY''"
| "decision_text Review = ''REVIEW''"

definition preview_order ::
  "desk_settings \<Rightarrow> (risk_inputs \<Rightarrow> string) \<Rightarrow> py_env \<Rightarrow> timestamp \<Rightarrow> nat \<Rightarrow> row \<Rightarrow> desk \<Rightarrow>
   (foundation_error, desk \<times> json) res" where
  "preview_order S hash E now user data d =
     rbind (evaluate_request S hash E now user data d) (\<lambda>(d1, v).
       let p = oev_payload v; risk = oev_risk v; s = oev_surveillance v; passed = rk_decision risk = Allow
       in Inr (d1, JObj
           [(''decision'', JStr (decision_text (if passed then svd_decision s else rk_decision risk))),
            (''reason_codes'', reasons_json (if passed then svd_reason_codes s else rk_reason_codes risk)),
            (''policy_version'', JStr (if passed then svd_policy_version s else rk_policy_version risk)),
            (''inputs_hash'', JStr (rk_inputs_hash risk)), (''instrument'', JStr (opl_instrument_id p)),
            (''side'', JStr (side_text (opl_side p))), (''order_type'', JStr (order_type_text (opl_order_type p))),
            (''quantity'', JStr (en_dtext E (opl_quantity p))), (''price'', JStr (en_dtext E (opl_price p))),
            (''notional'', JStr (en_dtext E (oev_notional v))),
            (''estimated_fee'', JStr (en_dtext E (dmul (oev_notional v) fee_rate))),
            (''available_simulated_balance'', JStr (en_dtext E (oev_available v))), (''simulation'', JBool True)]))"

section \<open>Creation\<close>

definition first_code :: "string list \<Rightarrow> string \<Rightarrow> string" where
  "first_code codes d = (case codes of [] \<Rightarrow> d | c # _ \<Rightarrow> c)"

definition persist_rejection ::
  "py_env \<Rightarrow> timestamp \<Rightarrow> nat \<Rightarrow> order_evaluation \<Rightarrow> desk \<Rightarrow> (foundation_error, desk \<times> unit) res" where
  "persist_rejection E now user v d =
     (let (tenant, subject, account) = refs (str_nat user) ''default''
      in in_surveillance (\<lambda>db. Inr (persist_findings E now tenant account (opl_instrument_id (oev_payload v)) None subject
                                 (svd_findings (oev_surveillance v)) db, ())) d)"

definition new_order :: "py_env \<Rightarrow> timestamp \<Rightarrow> nat \<Rightarrow> order_payload \<Rightarrow> uuid \<Rightarrow> trading_order" where
  "new_order E now user p i =
     (let (tenant, subject, account) = refs (str_nat user) ''default''
      in \<lparr>to_id = i, to_tenant_ref = tenant, to_subject_ref = subject, to_account_ref = account,
          to_instrument_id = opl_instrument_id p, to_order_type = opl_order_type p, to_side = opl_side p,
          to_quantity = opl_quantity p, to_limit_price = opl_limit_price p, to_stop_price = None,
          to_filled_quantity = 0, to_average_fill_price = None, to_risk_decision_id = None, to_reservation_id = None,
          to_state = OrdPending, to_simulation = True, to_eligibility_policy_version = '''',
          to_eligibility_result = '''', to_eligibility_reason_codes = [], to_eligibility_evaluated_at = None,
          to_idempotency_key = '''', to_created_at = now, to_updated_at = now\<rparr>)"

text \<open>The decision recorded on the order; it is not tested again.\<close>

definition with_eligibility :: "eligibility_value option \<Rightarrow> trading_order \<Rightarrow> trading_order" where
  "with_eligibility v ord =
     (case v of
        None \<Rightarrow> ord
      | Some e \<Rightarrow> ord\<lparr>to_eligibility_policy_version := ev_policy_version e,
          to_eligibility_result := eligibility_text (ev_result e), to_eligibility_reason_codes := ev_reason_codes e,
          to_eligibility_evaluated_at := Some (ev_evaluated_at e)\<rparr>)"

text \<open>What the table keeps of an order: its decimals rounded to their columns.\<close>

definition order_row :: "py_env \<Rightarrow> trading_order \<Rightarrow> trading_order" where
  "order_row E ord = ord\<lparr>to_quantity := en_col E (to_quantity ord), to_limit_price := map_option (en_col E) (to_limit_price ord)\<rparr>"

definition insert_order :: "py_env \<Rightarrow> timestamp \<Rightarrow> nat \<Rightarrow> order_payload \<Rightarrow> desk \<Rightarrow> desk \<times> trading_order" where
  "insert_order E now user p d =
     (let s = dk_sim d; ord = new_order E now user p (fresh E s)
      in (d\<lparr>dk_sim := s\<lparr>sd_orders := sd_orders s @ [order_row E ord], ev_next := Suc (ev_next s)\<rparr>\<rparr>, ord))"

definition route_data :: "py_env \<Rightarrow> order_payload \<Rightarrow> uuid \<Rightarrow> row" where
  "route_data E p correlation =
     [(''instrument'', JStr (opl_instrument_id p)), (''side'', JStr (side_text (opl_side p))),
      (''order_type'', JStr (order_type_text (opl_order_type p))), (''quantity'', JStr (en_dtext E (opl_quantity p))),
      (''reference_price'', JStr (en_dtext E (opl_price p))), (''mode'', JStr ''SIMULATION''),
      (''correlation_id'', JStr (str_uuid correlation))]"

definition new_risk_decision :: "timestamp \<Rightarrow> trading_order \<Rightarrow> risk_result \<Rightarrow> uuid \<Rightarrow> order_risk_decision" where
  "new_risk_decision now ord k i =
     \<lparr>rdc_id = i, rdc_tenant_ref = to_tenant_ref ord, rdc_subject_ref = to_subject_ref ord,
      rdc_account_ref = to_account_ref ord, rdc_order_id = Some (to_id ord), rdc_decision = rk_decision k,
      rdc_reason_codes = rk_reason_codes k, rdc_policy_version = rk_policy_version k,
      rdc_inputs_hash = rk_inputs_hash k, rdc_created_at = now\<rparr>"


definition store_order :: "py_env \<Rightarrow> timestamp \<Rightarrow> trading_order \<Rightarrow> desk \<Rightarrow> desk" where
  "store_order E now ord d =
     (let s = dk_sim d
      in d\<lparr>dk_sim := s\<lparr>sd_orders := upd_where (\<lambda>x. to_id x = to_id ord) (\<lambda>_. (order_row E ord)\<lparr>to_updated_at := now\<rparr>)
                        (sd_orders s)\<rparr>\<rparr>)"

definition price_text :: "desk_settings \<Rightarrow> py_env \<Rightarrow> string \<Rightarrow> string option" where
  "price_text S E i = map_option (en_dtext E) (map_of (se_prices (ds_sim S)) i)"

text \<open>The risk decision of the order, with its audit.\<close>

definition record_risk :: "py_env \<Rightarrow> timestamp \<Rightarrow> trading_order \<Rightarrow> risk_result \<Rightarrow> uuid \<Rightarrow> desk \<Rightarrow> desk \<times> uuid" where
  "record_risk E now ord k correlation d =
     (let s = dk_sim d; i = fresh E s;
          s1 = audit_ref E now (to_subject_ref ord) ''simulation.risk.decided'' ''risk_decision'' (str_uuid i) correlation
                 (decision_text (rk_decision k)) (s\<lparr>ev_next := Suc (ev_next s)\<rparr>)
      in (d\<lparr>dk_sim := s1, dk_risks := dk_risks d @ [new_risk_decision now ord k i]\<rparr>, i))"

text \<open>The two events of a new order and the audit of the user.\<close>

definition announce_order :: "py_env \<Rightarrow> desk_settings \<Rightarrow> timestamp \<Rightarrow> trading_order \<Rightarrow> uuid \<Rightarrow> desk \<Rightarrow> desk" where
  "announce_order E S now ord correlation d =
     d\<lparr>dk_sim :=
        audit_ref E now (to_subject_ref ord) ''simulation.order.submitted'' ''simulation_order'' (str_uuid (to_id ord))
          correlation ''simulation''
          (emit now ''execution'' (str_uuid (to_id ord)) ''trading.execution.submitted.v1''
             (event_payload E (ds_sim S) ord [(''execution_mode'', JStr ''SIMULATION'')]) (to_tenant_ref ord) correlation
             (emit now ''order'' (str_uuid (to_id ord)) ''trading.order.created.v1''
                (event_payload E (ds_sim S) ord []) (to_tenant_ref ord) correlation (dk_sim d)))\<rparr>"

datatype placement = Placed json nat "uuid option" | Refused string

text \<open>The last part of the creation: risk decision, reservation, events and the completed request.\<close>

definition finish_order ::
  "desk_settings \<Rightarrow> py_env \<Rightarrow> timestamp \<Rightarrow> foundation_idempotency \<Rightarrow> order_evaluation \<Rightarrow> trading_order \<Rightarrow> uuid \<Rightarrow> desk \<Rightarrow>
   (foundation_error, desk \<times> placement) res" where
  "finish_order S E now r v ord correlation d =
     (let (d1, risk_id) = record_risk E now ord (oev_risk v) correlation d
      in rbind (in_sim (reserve_funds E (sa_id (oev_account v)) (to_id ord) (to_instrument_id ord) (to_side ord)
                  (to_quantity ord) (opl_price (oev_payload v))) d1) (\<lambda>(d2, rsv).
         let ord1 = ord\<lparr>to_risk_decision_id := Some risk_id, to_reservation_id := Some (rsv_id rsv), to_updated_at := now\<rparr>;
             d3 = announce_order E S now ord1 correlation (store_order E now ord1 d2);
             body = serialize_order E ord1
         in Inr (d3\<lparr>dk_requests := complete_idempotent_request r 201 body ''simulation_order'' (str_uuid (to_id ord1))
                   (dk_requests d3)\<rparr>, Placed body 201 (Some (to_id ord1)))))"

definition place_order ::
  "desk_settings \<Rightarrow> py_env \<Rightarrow> (string \<Rightarrow> uuid option) \<Rightarrow> timestamp \<Rightarrow> nat \<Rightarrow> string \<Rightarrow> foundation_idempotency \<Rightarrow>
   order_evaluation \<Rightarrow> desk \<Rightarrow> (foundation_error, desk \<times> placement) res" where
  "place_order S E read_uuid now user correlation_id r v d =
     (let p = oev_payload v; (d1, ord0) = insert_order E now user p d
      in rbind (compliance_decision E now user d1) (\<lambda>(d2, e).
         let ord1 = with_eligibility e ord0;
             d3 = (if e = None then d2 else store_order E now ord1 d2);
             (s, correlation) = correlation_uuid E read_uuid correlation_id (dk_sim d3)
         in rbind (in_routes (preview_route (ds_execution S) (price_text S E) E now (str_nat user)
                     (route_data E p correlation) (Some correlation) True (Some (to_id ord1))) (d3\<lparr>dk_sim := s\<rparr>)) (\<lambda>(d4, _).
            finish_order S E now r v ord1 correlation d4)))"

text \<open>What follows from an evaluation: a denial raises, a finding of surveillance is kept and refuses.\<close>

definition upon_evaluation ::
  "py_env \<Rightarrow> timestamp \<Rightarrow> nat \<Rightarrow> order_evaluation \<Rightarrow> (desk \<Rightarrow> (foundation_error, desk \<times> placement) res) \<Rightarrow> desk \<Rightarrow>
   (foundation_error, desk \<times> placement) res" where
  "upon_evaluation E now user v proceed d =
     (if rk_decision (oev_risk v) \<noteq> Allow
      then Inl (FValueError (first_code (rk_reason_codes (oev_risk v)) ''ORDER_REVIEW_REQUIRED''))
      else if svd_decision (oev_surveillance v) \<noteq> Allow
      then rbind (persist_rejection E now user v d) (\<lambda>(d1, _).
             Inr (d1, Refused (first_code (svd_reason_codes (oev_surveillance v)) ''ORDER_REJECTED'')))
      else proceed d)"

definition create_allowed ::
  "desk_settings \<Rightarrow> (risk_inputs \<Rightarrow> string) \<Rightarrow> py_env \<Rightarrow> (string \<Rightarrow> uuid option) \<Rightarrow> timestamp \<Rightarrow> nat \<Rightarrow> row \<Rightarrow> string \<Rightarrow>
   foundation_idempotency \<Rightarrow> desk \<Rightarrow> (foundation_error, desk \<times> placement) res" where
  "create_allowed S hash E read_uuid now user data correlation_id r d =
     rbind (in_sim (account_for E user) d) (\<lambda>(d1, _).
     rbind (evaluate_request S hash E now user data d1) (\<lambda>(d2, v).
       upon_evaluation E now user v (place_order S E read_uuid now user correlation_id r v) d2))"

definition create_transaction ::
  "desk_settings \<Rightarrow> (risk_inputs \<Rightarrow> string) \<Rightarrow> py_env \<Rightarrow> (string \<Rightarrow> uuid option) \<Rightarrow> timestamp \<Rightarrow> nat \<Rightarrow> row \<Rightarrow> string \<Rightarrow> string \<Rightarrow>
   desk \<Rightarrow> (foundation_error, desk \<times> placement) res" where
  "create_transaction S hash E read_uuid now user data key correlation_id d =
     rbind (begin_idempotent_request (en_sha E) now key ''default'' (str_nat user) ''/api/v1/trading/orders'' ''POST''
              (JObj data) (seconds 86400) (dk_requests d)) (\<lambda>(rq, r, fresh_request).
       case (fresh_request, fi_response_body r) of
         (False, Some b) \<Rightarrow> Inr (d, Placed b 200 None)
       | _ \<Rightarrow>
           rbind (evaluate_request S hash E now user data (d\<lparr>dk_requests := rq\<rparr>)) (\<lambda>(d1, v).
             upon_evaluation E now user v (create_allowed S hash E read_uuid now user data correlation_id r) d1))"

text \<open>
  The compliance decision is made and kept before the transaction, the inline execution runs after its commit:
  an error of either leaves what was committed.
\<close>

definition create_order ::
  "desk_settings \<Rightarrow> (risk_inputs \<Rightarrow> string) \<Rightarrow> py_env \<Rightarrow> (string \<Rightarrow> uuid option) \<Rightarrow> timestamp \<Rightarrow> nat \<Rightarrow> row \<Rightarrow> string \<Rightarrow> string \<Rightarrow>
   desk \<Rightarrow> desk \<times> (foundation_error, json \<times> nat) res" where
  "create_order S hash E read_uuid now user data key correlation_id d =
     (case compliance_decision E now user d of
        Inl e \<Rightarrow> (d, Inl e)
      | Inr (d0, None) \<Rightarrow> (d0, Inl (FValueError ''KYC_REQUIRED''))
      | Inr (d0, Some v) \<Rightarrow>
          if ev_result v \<noteq> EligAllowed
          then (d0, Inl (FValueError (first_code (ev_reason_codes v) ''COMPLIANCE_NOT_ELIGIBLE'')))
          else
            (case create_transaction S hash E read_uuid now user data key correlation_id d0 of
               Inl e \<Rightarrow> (d0, Inl e)
             | Inr (d1, Refused code) \<Rightarrow> (d1, Inl (FValueError code))
             | Inr (d1, Placed body status None) \<Rightarrow> (d1, Inr (body, status))
             | Inr (d1, Placed body status (Some i)) \<Rightarrow>
                 if \<not> se_inline (ds_sim S) then (d1, Inr (body, status))
                 else
                   (case process_created_order E (ds_sim S) now i '''' (dk_processed d1, dk_sim d1) of
                      Inl e \<Rightarrow> (d1, Inl e)
                    | Inr ((t, s), _) \<Rightarrow> (d1\<lparr>dk_processed := t, dk_sim := s\<rparr>, Inr (body, status)))))"

end
