(* ===== verification/Order_Facts.thy ===== *)
theory Order_Facts
  imports Order_Creation Compliance_Facts
begin

text \<open>
  What a placed order went through: frames of the steps of \<open>create\<close>, the checks a success implies, and the
  replay of a request.
\<close>

section \<open>Frames\<close>

text \<open>The book of orders and reservations, and what decides about an order, are untouched; identifiers advance.\<close>

definition book_kept :: "desk \<Rightarrow> desk \<Rightarrow> bool" where
  "book_kept d d' \<longleftrightarrow>
     sd_orders (dk_sim d') = sd_orders (dk_sim d) \<and> sd_reservations (dk_sim d') = sd_reservations (dk_sim d) \<and>
     cd_profiles (dk_compliance d') = cd_profiles (dk_compliance d) \<and>
     cd_overrides (dk_compliance d') = cd_overrides (dk_compliance d) \<and>
     cd_restrictions (dk_compliance d') = cd_restrictions (dk_compliance d) \<and>
     dk_surveillance d' = dk_surveillance d \<and> dk_controls d' = dk_controls d \<and> dk_requests d' = dk_requests d"

definition ids_advance :: "desk \<Rightarrow> desk \<Rightarrow> bool" where
  "ids_advance d d' \<longleftrightarrow> ev_next (dk_sim d) \<le> ev_next (dk_sim d')"

lemma book_kept_trans: "book_kept d d1 \<Longrightarrow> book_kept d1 d2 \<Longrightarrow> book_kept d d2"
  by (simp add: book_kept_def)

lemma ids_advance_trans: "ids_advance d d1 \<Longrightarrow> ids_advance d1 d2 \<Longrightarrow> ids_advance d d2"
  by (simp add: ids_advance_def)

lemma compliance_decision_kept:
  assumes "compliance_decision E now user d = Inr (d', v)"
  shows "book_kept d d' \<and> ids_advance d d'"
  using assms
  by (auto simp: compliance_decision_def in_compliance_def get_eligibility_def evaluate_eligibility_def lend_events_def
      rbind_eq_Inr Let_def book_kept_def ids_advance_def compliance_audit_def split: option.splits if_splits)

lemma compliance_decision_allowed:
  assumes "compliance_decision E now user d = Inr (d', Some v)"
  shows "\<exists>p \<in> set (cd_profiles (dk_compliance d)). cpf_user p = user \<and> v = eligibility now p CapTrading (dk_compliance d)"
proof -
  from assms obtain p where p: "obj_first (\<lambda>p. cpf_user p = user) (cd_profiles (dk_compliance d)) = Some p"
    by (auto simp: compliance_decision_def split: option.splits)
  let ?c = "(lend_events (dk_sim d) (dk_compliance d))\<lparr>cd_orders := sd_orders (dk_sim d)\<rparr>"
  from assms p obtain q where q: "get_row (\<lambda>x. cpf_account_id x = cpf_account_id p) (cd_profiles (dk_compliance d)) = Inr q"
    "v = eligibility now q CapTrading ?c"
    by (auto simp: compliance_decision_def in_compliance_def get_eligibility_def evaluate_eligibility_def lend_events_def
        rbind_eq_Inr Let_def)
  from p have p1: "p \<in> set (cd_profiles (dk_compliance d))" "cpf_user p = user" by (auto dest: obj_first_Some)
  from q(1) have "filter (\<lambda>x. cpf_account_id x = cpf_account_id p) (cd_profiles (dk_compliance d)) = [q]"
    by (auto simp: get_row_def obj_get_Inr_filter split: sum.splits)
  moreover from p1 have "p \<in> set (filter (\<lambda>x. cpf_account_id x = cpf_account_id p) (cd_profiles (dk_compliance d)))"
    by simp
  ultimately have "q = p" by simp
  moreover have "eligibility now p CapTrading ?c = eligibility now p CapTrading (dk_compliance d)"
    by (rule eligibility_cong) (simp_all add: lend_events_def)
  ultimately show ?thesis using q(2) p1 by blast
qed

lemma ensure_paper_identity_kept:
  assumes "ensure_paper_identity a s = Inr (s', t)"
  shows "sd_orders s' = sd_orders s \<and> sd_reservations s' = sd_reservations s \<and> ev_next s' = ev_next s"
  using assms by (auto simp: ensure_paper_identity_def rbind_eq_Inr split: option.splits if_splits)

lemma account_for_kept:
  assumes "account_for E user s = Inr (s', a)"
  shows "sd_orders s' = sd_orders s \<and> sd_reservations s' = sd_reservations s \<and> ev_next s \<le> ev_next s'"
  using assms
  by (auto simp: account_for_def Let_def rbind_eq_Inr refs_def dest!: ensure_paper_identity_kept split: if_splits)

section \<open>Evaluation\<close>

text \<open>What an evaluation computed, over the desk it started from.\<close>

definition evaluated ::
  "desk_settings \<Rightarrow> (risk_inputs \<Rightarrow> string) \<Rightarrow> py_env \<Rightarrow> timestamp \<Rightarrow> nat \<Rightarrow> row \<Rightarrow> desk \<Rightarrow> order_evaluation \<Rightarrow> bool" where
  "evaluated S hash E now user data d v \<longleftrightarrow>
     (let p = oev_payload v; a = oev_account v; available = available_quote a (sd_reservations (dk_sim d));
          notional = dmul (opl_quantity p) (opl_price p)
      in normalized_payload (ds_sim S) data = Inr p \<and>
         sa_account_ref a = snd (snd (refs (str_nat user) ''default'')) \<and>
         (\<exists>ident. oev_risk v = evaluate_order hash
            (order_risk_inputs S ident p available notional (control_of (opl_instrument_id p) (dk_controls d)))) \<and>
         surveil_order (ds_surveillance S) E now ''default'' (sa_account_ref a) p '''' '''' ''''
           (se_market_data_stale (ds_sim S)) (sd_orders (dk_sim d)) (dk_surveillance d) = Inr (oev_surveillance v))"

lemma evaluated_kept: "book_kept d d' \<Longrightarrow> evaluated S hash E now user data d' v = evaluated S hash E now user data d v"
  by (simp add: evaluated_def book_kept_def)

lemma account_for_ref:
  assumes "account_for E user s = Inr (s', a)"
  shows "sa_account_ref a = snd (snd (refs (str_nat user) ''default''))"
proof -
  from assms obtain t where "get_or_insert (\<lambda>a. sa_tenant_ref a = ''default'' \<and> sa_subject_ref a = str_nat user \<and>
      sa_account_ref a = ''sim:'' @ str_nat user)
      (new_sim_account (fresh E s) ''default'' (str_nat user) (''sim:'' @ str_nat user)) (sd_accounts s) = Inr (t, a)"
    by (auto simp: account_for_def rbind_eq_Inr refs_def)
  then show ?thesis
    by (auto simp: get_or_insert_def refs_def new_sim_account_def filter_eq_Cons_iff split: list.splits)
qed

lemma evaluate_request_facts:
  assumes "evaluate_request S hash E now user data d = Inr (d', v)"
  shows "book_kept d d' \<and> ids_advance d d' \<and> evaluated S hash E now user data d v"
proof -
  from assms obtain p s1 a s2 ident where
    p: "normalized_payload (ds_sim S) data = Inr p" and a: "account_for E user (dk_sim d) = Inr (s1, a)" and
    i: "ensure_paper_identity a s1 = Inr (s2, ident)" and d': "d' = d\<lparr>dk_sim := s2\<rparr>" and
    v: "oev_payload v = p" "oev_account v = a" and
    r: "oev_risk v = evaluate_order hash (order_risk_inputs S ident p (available_quote a (sd_reservations s2))
      (dmul (opl_quantity p) (opl_price p)) (control_of (opl_instrument_id p) (dk_controls d)))" and
    su: "surveil_order (ds_surveillance S) E now ''default'' (sa_account_ref a) p '''' '''' ''''
      (se_market_data_stale (ds_sim S)) (sd_orders s2) (dk_surveillance d) = Inr (oev_surveillance v)"
    by (auto simp: evaluate_request_def in_sim_def rbind_eq_Inr Let_def)
  note k = account_for_kept [OF a] ensure_paper_identity_kept [OF i]
  have "evaluated S hash E now user data d v"
    using p r su k account_for_ref [OF a] by (auto simp: evaluated_def v Let_def)
  with k show ?thesis by (simp add: d' book_kept_def ids_advance_def)
qed

text \<open>What passing means.\<close>

definition passed_checks :: "desk_settings \<Rightarrow> timestamp \<Rightarrow> nat \<Rightarrow> order_payload \<Rightarrow> desk \<Rightarrow> bool" where
  "passed_checks S now user p d \<longleftrightarrow>
     (let account = snd (snd (refs (str_nat user) ''default''))
      in effective_control (control_of (opl_instrument_id p) (dk_controls d)) (opl_side p) \<notin> {''HALTED'', ''MAINTENANCE''} \<and>
         \<not> se_market_data_stale (ds_sim S) \<and>
         1 / 10000 \<le> opl_quantity p \<and> opl_quantity p \<le> 100 \<and>
         1 \<le> dmul (opl_quantity p) (opl_price p) \<and> dmul (opl_quantity p) (opl_price p) \<le> 1000000 \<and>
         trading_restrictions_of now ''default'' account (opl_instrument_id p) (opl_side p) '''' '''' ''''
           (sv_restrictions (dk_surveillance d)) = [] \<and>
         (sus_self_trade_prevention (ds_surveillance S) \<longrightarrow> self_trade ''default'' account p (sd_orders (dk_sim d)) = None))"

lemma surveil_order_Allow:
  assumes "surveil_order S E now tenant account p ac ve ju stale orders db = Inr s" "svd_decision s = Allow"
  shows "trading_restrictions_of now tenant account (opl_instrument_id p) (opl_side p) ac ve ju (sv_restrictions db) = []"
    "sus_enabled S" "sus_self_trade_prevention S \<Longrightarrow> self_trade tenant account p orders = None"
  using assms
  by (auto simp: surveil_order_def surveillance_verdict_def Let_def split: if_splits option.splits)

lemma evaluate_order_Allow: "rk_decision (evaluate_order hash i) = Allow \<Longrightarrow> risk_reasons i = []"
  by (auto simp: evaluate_order_def Let_def split: if_splits)

lemma evaluated_passed:
  assumes "evaluated S hash E now user data d v" "rk_decision (oev_risk v) = Allow" "svd_decision (oev_surveillance v) = Allow"
  shows "passed_checks S now user (oev_payload v) d"
proof -
  define p where "p = oev_payload v"
  define av where "av = available_quote (oev_account v) (sd_reservations (dk_sim d))"
  from assms(1) obtain ident where
    "oev_risk v = evaluate_order hash (order_risk_inputs S ident p av (dmul (opl_quantity p) (opl_price p))
       (control_of (opl_instrument_id p) (dk_controls d)))"
    by (auto simp: evaluated_def Let_def p_def av_def)
  with assms(2) have r: "risk_reasons (order_risk_inputs S ident p av (dmul (opl_quantity p) (opl_price p))
       (control_of (opl_instrument_id p) (dk_controls d))) = []"
    by (simp add: evaluate_order_Allow)
  from assms(1) have su: "surveil_order (ds_surveillance S) E now ''default'' (snd (snd (refs (str_nat user) ''default''))) p
      '''' '''' '''' (se_market_data_stale (ds_sim S)) (sd_orders (dk_sim d)) (dk_surveillance d) = Inr (oev_surveillance v)"
    by (auto simp: evaluated_def Let_def p_def)
  show ?thesis
    using r surveil_order_Allow [OF su assms(3)]
    unfolding passed_checks_def Let_def p_def [symmetric] av_def [symmetric] risk_reasons_def append_is_Nil_conv code_if_Nil
    by (cases "opl_side p") (simp_all add: order_risk_inputs_def or_default_def)
qed

section \<open>Placing\<close>

text \<open>No identifier that is still to be handed out belongs to an order.\<close>

definition unused_ids :: "py_env \<Rightarrow> desk \<Rightarrow> bool" where
  "unused_ids E d \<longleftrightarrow> (\<forall>n \<ge> ev_next (dk_sim d). \<forall>ord \<in> set (sd_orders (dk_sim d)). to_id ord \<noteq> en_uuid4 E n)"

lemma unused_ids_kept: "unused_ids E d \<Longrightarrow> book_kept d d' \<Longrightarrow> ids_advance d d' \<Longrightarrow> unused_ids E d'"
  by (auto simp: unused_ids_def book_kept_def ids_advance_def)

lemma store_order_snoc:
  assumes "sd_orders (dk_sim d) = os @ [x]" "to_id x = to_id ord" "\<forall>y \<in> set os. to_id y \<noteq> to_id ord"
  shows "sd_orders (dk_sim (store_order E now ord d)) = os @ [(order_row E ord)\<lparr>to_updated_at := now\<rparr>]"
  using assms by (auto simp: store_order_def upd_where_def Let_def intro!: map_idI)

lemma store_order_frame [simp]:
  "sd_reservations (dk_sim (store_order E now ord d)) = sd_reservations (dk_sim d)"
  "dk_requests (store_order E now ord d) = dk_requests d"
  by (simp_all add: store_order_def Let_def)

lemma in_routes_frame:
  assumes "in_routes f d = Inr (d', x)"
  shows "sd_orders (dk_sim d') = sd_orders (dk_sim d) \<and> sd_reservations (dk_sim d') = sd_reservations (dk_sim d) \<and>
    dk_requests d' = dk_requests d"
  using assms by (auto simp: in_routes_def rbind_eq_Inr lend_events_def)

lemma record_risk_frame:
  assumes "record_risk E now ord k correlation d = (d', i)"
  shows "sd_orders (dk_sim d') = sd_orders (dk_sim d) \<and> sd_reservations (dk_sim d') = sd_reservations (dk_sim d) \<and>
    dk_requests d' = dk_requests d"
  using assms by (auto simp: record_risk_def Let_def audit_ref_def)

lemma announce_order_frame [simp]:
  "sd_orders (dk_sim (announce_order E S now ord correlation d)) = sd_orders (dk_sim d)"
  "sd_reservations (dk_sim (announce_order E S now ord correlation d)) = sd_reservations (dk_sim d)"
  "dk_requests (announce_order E S now ord correlation d) = dk_requests d"
  by (simp_all add: announce_order_def audit_ref_def emit_def)

lemma correlation_uuid_frame:
  assumes "correlation_uuid E read_uuid t s = (s', c)"
  shows "sd_orders s' = sd_orders s \<and> sd_reservations s' = sd_reservations s"
  using assms by (auto simp: correlation_uuid_def split: option.splits if_splits)

text \<open>The funds an order needs: the notional with the fee, or the quantity to sell.\<close>

definition needed_funds :: "order_payload \<Rightarrow> rat" where
  "needed_funds p = (case opl_side p of Buy \<Rightarrow> dmul (dmul (opl_quantity p) (opl_price p)) (dadd 1 fee_rate) | Sell \<Rightarrow> opl_quantity p)"

lemma reserve_funds_facts:
  assumes "reserve_funds E i o' instrument side q price s = Inr (s', r)"
  shows "sd_orders s' = sd_orders s \<and> sd_reservations s' = sd_reservations s @ [r] \<and> rsv_order_id r = o' \<and>
    rsv_account r = i \<and> rsv_state r = ResActive \<and>
    rsv_original_amount r = en_col E (case side of Buy \<Rightarrow> dmul (dmul q price) (dadd 1 fee_rate) | Sell \<Rightarrow> q) \<and>
    (side = Buy \<longrightarrow> (\<exists>a. sa_id a = i \<and> dmul (dmul q price) (dadd 1 fee_rate) \<le> available_quote a (sd_reservations s)))"
proof -
  from assms obtain a amount asset where a: "get_row (\<lambda>a. sa_id a = i) (sd_accounts s) = Inr a"
    "reservation_need a instrument side q price s = Inr (amount, asset)" "r = new_reservation E (fresh E s) i o' asset amount"
    "s' = s\<lparr>sd_reservations := sd_reservations s @ [r], ev_next := Suc (ev_next s)\<rparr>"
    by (auto simp: reserve_funds_def rbind_eq_Inr Let_def split: if_splits)
  from a(1) have "sa_id a = i" by (auto simp: get_row_def obj_get_Inr_filter filter_eq_Cons_iff split: sum.splits)
  with a(2-) show ?thesis
    by (cases side) (auto simp: reservation_need_def new_reservation_def Let_def not_less split: if_splits option.splits)
qed

text \<open>The row of a placed order, and its reservation.\<close>

definition placed_row :: "py_env \<Rightarrow> nat \<Rightarrow> order_payload \<Rightarrow> uuid \<Rightarrow> simulated_reservation \<Rightarrow> trading_order \<Rightarrow> bool" where
  "placed_row E user p i rsv ord \<longleftrightarrow>
     to_id ord = i \<and> to_tenant_ref ord = ''default'' \<and> to_subject_ref ord = str_nat user \<and>
     to_account_ref ord = snd (snd (refs (str_nat user) ''default'')) \<and>
     to_instrument_id ord = opl_instrument_id p \<and> to_side ord = opl_side p \<and> to_order_type ord = opl_order_type p \<and>
     to_quantity ord = en_col E (opl_quantity p) \<and> to_limit_price ord = map_option (en_col E) (opl_limit_price p) \<and>
     to_filled_quantity ord = 0 \<and> to_state ord = OrdPending \<and> to_simulation ord \<and> to_risk_decision_id ord \<noteq> None \<and>
     to_reservation_id ord = Some (rsv_id rsv) \<and> rsv_order_id rsv = i \<and> rsv_state rsv = ResActive \<and>
     rsv_original_amount rsv = en_col E (needed_funds p)"

lemma with_eligibility_sel [simp]:
  "to_id (with_eligibility e ord) = to_id ord" "to_tenant_ref (with_eligibility e ord) = to_tenant_ref ord"
  "to_subject_ref (with_eligibility e ord) = to_subject_ref ord" "to_account_ref (with_eligibility e ord) = to_account_ref ord"
  "to_instrument_id (with_eligibility e ord) = to_instrument_id ord" "to_side (with_eligibility e ord) = to_side ord"
  "to_order_type (with_eligibility e ord) = to_order_type ord" "to_quantity (with_eligibility e ord) = to_quantity ord"
  "to_limit_price (with_eligibility e ord) = to_limit_price ord" "to_state (with_eligibility e ord) = to_state ord"
  "to_simulation (with_eligibility e ord) = to_simulation ord"
  "to_filled_quantity (with_eligibility e ord) = to_filled_quantity ord"
  by (simp_all add: with_eligibility_def split: option.split)


lemma new_order_sel:
  "to_id (new_order E now user p i) = i" "to_tenant_ref (new_order E now user p i) = ''default''"
  "to_subject_ref (new_order E now user p i) = str_nat user"
  "to_account_ref (new_order E now user p i) = snd (snd (refs (str_nat user) ''default''))"
  "to_instrument_id (new_order E now user p i) = opl_instrument_id p" "to_side (new_order E now user p i) = opl_side p"
  "to_order_type (new_order E now user p i) = opl_order_type p" "to_quantity (new_order E now user p i) = opl_quantity p"
  "to_limit_price (new_order E now user p i) = opl_limit_price p" "to_state (new_order E now user p i) = OrdPending"
  "to_simulation (new_order E now user p i)" "to_filled_quantity (new_order E now user p i) = 0"
  by (simp_all add: new_order_def refs_def)

definition placed_to :: "py_env \<Rightarrow> nat \<Rightarrow> order_payload \<Rightarrow> desk \<Rightarrow> desk \<Rightarrow> trading_order \<Rightarrow> simulated_reservation \<Rightarrow> bool" where
  "placed_to E user p d d' ord rsv \<longleftrightarrow>
     sd_orders (dk_sim d') = sd_orders (dk_sim d) @ [ord] \<and>
     sd_reservations (dk_sim d') = sd_reservations (dk_sim d) @ [rsv] \<and>
     placed_row E user p (to_id ord) rsv ord \<and> to_id ord \<notin> to_id ` set (sd_orders (dk_sim d)) \<and>
     (opl_side p = Buy \<longrightarrow> (\<exists>a. sa_id a = rsv_account rsv \<and> needed_funds p \<le> available_quote a (sd_reservations (dk_sim d))))"

lemma finish_order_facts:
  assumes "finish_order S E now r v ord c d = Inr (d', pl)" "sd_orders (dk_sim d) = os @ [x]" "to_id x = to_id ord"
    "\<forall>y \<in> set os. to_id y \<noteq> to_id ord"
  shows "\<exists>ord1 rsv. pl = Placed (serialize_order E ord1) 201 (Some (to_id ord)) \<and>
    dk_requests d' = complete_idempotent_request r 201 (serialize_order E ord1) ''simulation_order'' (str_uuid (to_id ord)) (dk_requests d) \<and>
    sd_orders (dk_sim d') = os @ [order_row E ord1] \<and> sd_reservations (dk_sim d') = sd_reservations (dk_sim d) @ [rsv] \<and>
    (\<exists>ri. ord1 = ord\<lparr>to_risk_decision_id := Some ri, to_reservation_id := Some (rsv_id rsv), to_updated_at := now\<rparr>) \<and>
    rsv_order_id rsv = to_id ord \<and> rsv_state rsv = ResActive \<and>
    rsv_original_amount rsv = en_col E (case to_side ord of
        Buy \<Rightarrow> dmul (dmul (to_quantity ord) (opl_price (oev_payload v))) (dadd 1 fee_rate) | Sell \<Rightarrow> to_quantity ord) \<and>
    (to_side ord = Buy \<longrightarrow> (\<exists>a. sa_id a = rsv_account rsv \<and>
       dmul (dmul (to_quantity ord) (opl_price (oev_payload v))) (dadd 1 fee_rate) \<le> available_quote a (sd_reservations (dk_sim d))))"
proof -
  obtain d1 ri where d1: "record_risk E now ord (oev_risk v) c d = (d1, ri)" by fastforce
  from assms(1) obtain s rsv where
    rs: "reserve_funds E (sa_id (oev_account v)) (to_id ord) (to_instrument_id ord) (to_side ord) (to_quantity ord)
      (opl_price (oev_payload v)) (dk_sim d1) = Inr (s, rsv)" and
    out: "(let ord1 = ord\<lparr>to_risk_decision_id := Some ri, to_reservation_id := Some (rsv_id rsv), to_updated_at := now\<rparr>;
        d3 = announce_order E S now ord1 c (store_order E now ord1 (d1\<lparr>dk_sim := s\<rparr>)); body = serialize_order E ord1
      in (d3\<lparr>dk_requests := complete_idempotent_request r 201 body ''simulation_order'' (str_uuid (to_id ord1))
         (dk_requests d3)\<rparr>, Placed body 201 (Some (to_id ord1)))) = (d', pl)"
    by (auto simp: finish_order_def d1 in_sim_def rbind_eq_Inr Let_def)
  define ord1 where "ord1 = ord\<lparr>to_risk_decision_id := Some ri, to_reservation_id := Some (rsv_id rsv), to_updated_at := now\<rparr>"
  note f = record_risk_frame [OF d1] reserve_funds_facts [OF rs]
  have "sd_orders (dk_sim (store_order E now ord1 (d1\<lparr>dk_sim := s\<rparr>))) = os @ [(order_row E ord1)\<lparr>to_updated_at := now\<rparr>]"
    using f assms(2-4) by (intro store_order_snoc [where x = x]) (simp_all add: ord1_def)
  then have "sd_orders (dk_sim d') = os @ [order_row E ord1]" "pl = Placed (serialize_order E ord1) 201 (Some (to_id ord))"
    "dk_requests d' = complete_idempotent_request r 201 (serialize_order E ord1) ''simulation_order'' (str_uuid (to_id ord)) (dk_requests d)"
    "sd_reservations (dk_sim d') = sd_reservations (dk_sim d) @ [rsv]"
    using out f by (auto simp: Let_def ord1_def order_row_def)
  then show ?thesis using f by (intro exI [of _ ord1] exI [of _ rsv]) (auto simp: ord1_def)
qed

lemma maybe_stored:
  assumes "sd_orders (dk_sim d) = os @ [x]" "to_id x = to_id ord" "\<forall>y \<in> set os. to_id y \<noteq> to_id ord"
  shows "\<exists>x. sd_orders (dk_sim (if b then d else store_order E now ord d)) = os @ [x] \<and> to_id x = to_id ord"
  using assms store_order_snoc [OF assms] by (cases b) (auto simp: order_row_def)

lemma place_order_facts:
  assumes "place_order S E read_uuid now user correlation_id r v d = Inr (d', pl)" "unused_ids E d"
  shows "\<exists>ord rsv body. placed_to E user (oev_payload v) d d' ord rsv \<and> pl = Placed body 201 (Some (to_id ord)) \<and>
    dk_requests d' = complete_idempotent_request r 201 body ''simulation_order'' (str_uuid (to_id ord)) (dk_requests d)"
proof -
  let ?p = "oev_payload v" and ?os = "sd_orders (dk_sim d)" and ?i = "fresh E (dk_sim d)"
  let ?fresh_row = "new_order E now user ?p ?i" and ?dins = "fst (insert_order E now user (oev_payload v) d)"
  from assms(1) obtain d2 e where e: "compliance_decision E now user ?dins = Inr (d2, e)"
    by (auto simp: place_order_def insert_order_def Let_def rbind_eq_Inr)
  let ?ord = "with_eligibility e ?fresh_row"
  let ?dst = "if e = None then d2 else store_order E now ?ord d2"
  obtain s c where c: "correlation_uuid E read_uuid correlation_id (dk_sim ?dst) = (s, c)" by fastforce
  from assms(1) e c obtain d4 x where
    d4: "in_routes (preview_route (ds_execution S) (price_text S E) E now (str_nat user)
             (route_data E ?p c) (Some c) True (Some (to_id ?ord))) (?dst\<lparr>dk_sim := s\<rparr>) = Inr (d4, x)" and
    fin: "finish_order S E now r v ?ord c d4 = Inr (d', pl)"
    by (auto simp: place_order_def insert_order_def Let_def rbind_eq_Inr simp del: with_eligibility_sel)
  have new: "\<forall>y \<in> set ?os. to_id y \<noteq> to_id ?ord" using assms(2) by (simp add: unused_ids_def fresh_def new_order_sel)
  note k2 = compliance_decision_kept [OF e, THEN conjunct1, unfolded book_kept_def]
  have "sd_orders (dk_sim d2) = ?os @ [order_row E ?fresh_row]" using k2 by (simp add: insert_order_def Let_def)
  moreover have "to_id (order_row E ?fresh_row) = to_id ?ord" by (simp add: order_row_def)
  ultimately have row: "sd_orders (dk_sim d2) = ?os @ [order_row E ?fresh_row]" "to_id (order_row E ?fresh_row) = to_id ?ord" .
  from maybe_stored [OF row new] have "\<exists>x. sd_orders (dk_sim ?dst) = ?os @ [x] \<and> to_id x = to_id ?ord" .
  moreover have "sd_reservations (dk_sim ?dst) = sd_reservations (dk_sim d)" "dk_requests ?dst = dk_requests d"
    using k2 by (simp_all add: insert_order_def Let_def)
  ultimately obtain x where q: "sd_orders (dk_sim d4) = ?os @ [x]" "to_id x = to_id ?ord"
    "sd_reservations (dk_sim d4) = sd_reservations (dk_sim d)" "dk_requests d4 = dk_requests d"
    using in_routes_frame [OF d4] correlation_uuid_frame [OF c] by auto
  from finish_order_facts [OF fin q(1,2) new] obtain ord1 rsv ri where
    f: "pl = Placed (serialize_order E ord1) 201 (Some (to_id ?ord))"
    "dk_requests d' = complete_idempotent_request r 201 (serialize_order E ord1) ''simulation_order'' (str_uuid (to_id ?ord)) (dk_requests d4)"
    "sd_orders (dk_sim d') = ?os @ [order_row E ord1]" "sd_reservations (dk_sim d') = sd_reservations (dk_sim d4) @ [rsv]" and
    o1: "ord1 = ?ord\<lparr>to_risk_decision_id := Some ri, to_reservation_id := Some (rsv_id rsv), to_updated_at := now\<rparr>" and
    rs: "rsv_order_id rsv = to_id ?ord" "rsv_state rsv = ResActive"
    "rsv_original_amount rsv = en_col E (case to_side ?ord of
        Buy \<Rightarrow> dmul (dmul (to_quantity ?ord) (opl_price ?p)) (dadd 1 fee_rate) | Sell \<Rightarrow> to_quantity ?ord)"
    "to_side ?ord = Buy \<longrightarrow> (\<exists>a. sa_id a = rsv_account rsv \<and>
       dmul (dmul (to_quantity ?ord) (opl_price ?p)) (dadd 1 fee_rate) \<le> available_quote a (sd_reservations (dk_sim d4)))"
    by blast
  have "placed_row E user ?p (to_id ?ord) rsv (order_row E ord1)"
    using rs by (cases "opl_side ?p") (simp_all add: placed_row_def order_row_def o1 new_order_sel needed_funds_def)
  moreover have "to_id ord1 = to_id ?ord" by (simp add: o1)
  moreover from this new have "to_id ord1 \<notin> to_id ` set ?os" by auto
  ultimately have "placed_to E user ?p d d' (order_row E ord1) rsv"
    using f q(3) rs(4)
    by (cases "opl_side ?p") (simp_all add: placed_to_def order_row_def new_order_sel needed_funds_def)
  then show ?thesis using f q(4)
    by (intro exI [of _ "order_row E ord1"] exI [of _ rsv] exI [of _ "serialize_order E ord1"])
      (simp add: order_row_def o1)
qed

section \<open>The whole creation\<close>

lemma passed_checks_kept: "book_kept d d' \<Longrightarrow> passed_checks S now user p d' = passed_checks S now user p d"
  by (simp add: passed_checks_def book_kept_def)

lemma placed_to_kept: "book_kept d d1 \<Longrightarrow> placed_to E user p d1 d' ord rsv = placed_to E user p d d' ord rsv"
  by (simp add: placed_to_def book_kept_def)

lemma persist_rejection_book:
  assumes "persist_rejection E now user v d = Inr (d', u)"
  shows "sd_orders (dk_sim d') = sd_orders (dk_sim d) \<and> sd_reservations (dk_sim d') = sd_reservations (dk_sim d)"
  using assms by (auto simp: persist_rejection_def in_surveillance_def rbind_eq_Inr lend_events_def refs_def)

text \<open>A decided request: placed by a desk that differs from the first only where the book is kept, or refused.\<close>

lemma upon_evaluation_cases:
  assumes "upon_evaluation E now user v proceed d = Inr (d', pl)"
  obtains (placed) "rk_decision (oev_risk v) = Allow" "svd_decision (oev_surveillance v) = Allow" "proceed d = Inr (d', pl)"
  | (refused) code u where "pl = Refused code" "persist_rejection E now user v d = Inr (d', u)"
  using assms by (auto simp: upon_evaluation_def rbind_eq_Inr split: if_splits)

lemma create_allowed_facts:
  assumes "create_allowed S hash E read_uuid now user data correlation_id r d = Inr (d', pl)" "unused_ids E d"
  shows "(\<exists>p ord rsv body. normalized_payload (ds_sim S) data = Inr p \<and> passed_checks S now user p d \<and>
      placed_to E user p d d' ord rsv \<and> pl = Placed body 201 (Some (to_id ord)) \<and>
      dk_requests d' = complete_idempotent_request r 201 body ''simulation_order'' (str_uuid (to_id ord)) (dk_requests d)) \<or>
    (\<exists>code. pl = Refused code) \<and> sd_orders (dk_sim d') = sd_orders (dk_sim d) \<and>
      sd_reservations (dk_sim d') = sd_reservations (dk_sim d)"
proof -
  from assms(1) obtain s a d2 v where a: "account_for E user (dk_sim d) = Inr (s, a)" and
    v: "evaluate_request S hash E now user data (d\<lparr>dk_sim := s\<rparr>) = Inr (d2, v)" and
    u: "upon_evaluation E now user v (place_order S E read_uuid now user correlation_id r v) d2 = Inr (d', pl)"
    by (auto simp: create_allowed_def in_sim_def rbind_eq_Inr)
  note ev = evaluate_request_facts [OF v]
  have k0: "book_kept d (d\<lparr>dk_sim := s\<rparr>)" "ids_advance d (d\<lparr>dk_sim := s\<rparr>)"
    using account_for_kept [OF a] by (simp_all add: book_kept_def ids_advance_def)
  with ev have k: "book_kept d d2" "ids_advance d d2" by (blast intro: book_kept_trans ids_advance_trans)+
  from u show ?thesis
  proof (cases rule: upon_evaluation_cases)
    case placed
    from place_order_facts [OF placed(3) unused_ids_kept [OF assms(2) k]] obtain ord rsv body where
      f: "placed_to E user (oev_payload v) d2 d' ord rsv" "pl = Placed body 201 (Some (to_id ord))"
      "dk_requests d' = complete_idempotent_request r 201 body ''simulation_order'' (str_uuid (to_id ord)) (dk_requests d2)"
      by blast
    have e: "evaluated S hash E now user data d v" using ev evaluated_kept [OF k0(1)] by blast
    then have "normalized_payload (ds_sim S) data = Inr (oev_payload v)" by (simp add: evaluated_def Let_def)
    with evaluated_passed [OF e placed(1,2)] show ?thesis using f placed_to_kept [OF k(1)] k(1) by (auto simp: book_kept_def)
  next
    case (refused code u)
    then show ?thesis using persist_rejection_book [OF refused(2)] k(1) by (auto simp: book_kept_def)
  qed
qed

lemma create_transaction_facts:
  assumes "create_transaction S hash E read_uuid now user data key correlation_id d = Inr (d', pl)" "unused_ids E d"
  obtains (replayed) body where "pl = Placed body 200 None" "d' = d"
  | (placed) p ord rsv body rq r n where "normalized_payload (ds_sim S) data = Inr p" "passed_checks S now user p d"
      "placed_to E user p d d' ord rsv" "pl = Placed body 201 (Some (to_id ord))"
      "begin_idempotent_request (en_sha E) now key ''default'' (str_nat user) ''/api/v1/trading/orders'' ''POST''
         (JObj data) (seconds 86400) (dk_requests d) = Inr (rq, r, n)"
      "dk_requests d' = complete_idempotent_request r 201 body ''simulation_order'' (str_uuid (to_id ord)) rq"
  | (refused) code where "pl = Refused code" "sd_orders (dk_sim d') = sd_orders (dk_sim d)"
      "sd_reservations (dk_sim d') = sd_reservations (dk_sim d)"
proof -
  from assms(1) obtain rq r n where b: "begin_idempotent_request (en_sha E) now key ''default'' (str_nat user)
      ''/api/v1/trading/orders'' ''POST'' (JObj data) (seconds 86400) (dk_requests d) = Inr (rq, r, n)"
    by (auto simp: create_transaction_def rbind_eq_Inr)
  let ?dr = "d\<lparr>dk_requests := rq\<rparr>"
  show thesis
  proof (cases "n \<or> fi_response_body r = None")
    case False
    with assms(1) b replayed show thesis by (auto simp: create_transaction_def rbind_eq_Inr)
  next
    case True
    with assms(1) b obtain d1 v where v: "evaluate_request S hash E now user data ?dr = Inr (d1, v)" and
      u: "upon_evaluation E now user v (create_allowed S hash E read_uuid now user data correlation_id r) d1 = Inr (d', pl)"
      by (auto simp: create_transaction_def rbind_eq_Inr split: option.splits bool.splits)
    from evaluate_request_facts [OF v] have k: "book_kept ?dr d1" "ids_advance ?dr d1" by blast+
    have "unused_ids E ?dr" using assms(2) by (simp add: unused_ids_def)
    from unused_ids_kept [OF this k] have un: "unused_ids E d1" .
    have pd: "passed_checks S now user p d1 = passed_checks S now user p d" for p
      using passed_checks_kept [OF k(1)] by (simp add: passed_checks_def)
    have td: "placed_to E user p d1 d' ord rsv = placed_to E user p d d' ord rsv" for p ord rsv
      using placed_to_kept [OF k(1)] by (simp add: placed_to_def)
    from u show thesis
    proof (cases rule: upon_evaluation_cases)
      case placed: placed
      from create_allowed_facts [OF placed(3) un] show thesis
        using that(2) [OF _ _ _ _ b] that(3) k(1) by (auto simp: pd td book_kept_def)
    next
      case (refused code u)
      then show thesis using that(3) persist_rejection_book [OF refused(2)] k(1) by (auto simp: book_kept_def)
    qed
  qed
qed

text \<open>The unique row of a scope, after the reservation and after the completion of the request.\<close>

lemma begun_scope:
  assumes "begin_idempotent_request sha now key t a e m data ttl q = Inr (q', r, n)"
  shows "filter (request_scope key t a e (upper m)) (fr_rows q') = [r] \<and> fi_request_hash r = foundation_request_hash sha data"
proof (cases "obj_exists (request_scope key t a e (upper m)) (fr_rows q)")
  case True
  with assms show ?thesis
    by (auto simp: begin_idempotent_request_def begin_scoped_request_def Let_def obj_get_Inr_filter
        split: sum.splits if_splits)
next
  case False
  then have "filter (request_scope key t a e (upper m)) (fr_rows q) = []"
    by (auto simp: obj_exists_def list_ex_iff filter_empty_conv)
  with False assms show ?thesis
    by (auto simp: begin_idempotent_request_def begin_scoped_request_def Let_def request_scope_def)
qed

lemma filter_upd_where_kept:
  assumes "filter P t = [r]" "Q r" "\<And>x. P (f x) = P x"
  shows "filter P (upd_where Q f t) = [f r]"
proof -
  have "filter P (upd_where Q f t) = upd_where Q f (filter P t)" for t
    using assms(3) by (induction t) (auto simp: upd_where_def)
  with assms(1,2) show ?thesis by (simp add: upd_where_def)
qed

lemma completed_replays:
  assumes "begin_idempotent_request sha now key t a e m data ttl q = Inr (q', r, n)"
  shows "\<exists>r'. begin_idempotent_request sha later key t a e m data ttl' (complete_idempotent_request r st body ty i q') =
      Inr (complete_idempotent_request r st body ty i q', r', False) \<and> fi_response_body r' = Some body"
proof -
  let ?P = "request_scope key t a e (upper m)"
  let ?f = "\<lambda>x. x\<lparr>fi_response_status := Some st, fi_response_body := Some body, fi_resource_type := ty, fi_resource_id := i\<rparr>"
  from begun_scope [OF assms] have "filter ?P (fr_rows q') = [r]" and h: "fi_request_hash r = foundation_request_hash sha data"
    by blast+
  then have f: "filter ?P (fr_rows (complete_idempotent_request r st body ty i q')) = [?f r]"
    by (simp add: complete_idempotent_request_def filter_upd_where_kept request_scope_def)
  then have "?f r \<in> set (filter ?P (fr_rows (complete_idempotent_request r st body ty i q')))" by simp
  then have "obj_exists ?P (fr_rows (complete_idempotent_request r st body ty i q'))"
    by (auto simp: obj_exists_def list_ex_iff)
  then show ?thesis
    unfolding begin_idempotent_request_def begin_scoped_request_def Let_def obj_get_def f by (simp add: h)
qed

end
