(* ===== verification/Order_Properties.thy ===== *)
theory Order_Properties
  imports Order_Facts
begin

text \<open>
  A desk on which an order is placed: one trader in good standing, no order yet, empty routing tables and a venue
  whose routing is off. Seeding the routing fixtures succeeds on any tables without duplicate keys.
\<close>

section \<open>Seeding\<close>

definition capability_key :: "provider_capability \<Rightarrow> string \<times> string \<times> string option \<times> string \<times> string" where
  "capability_key c = (pc_provider c, pc_asset_class c, pc_venue c, pc_capability_type c, pc_source_version c)"

definition venue_capability_key :: "venue_capability \<Rightarrow> string \<times> string \<times> string \<times> string \<times> string" where
  "venue_capability_key c = (vc_venue c, vc_asset_class c, vc_order_type c, vc_time_in_force c, vc_source_version c)"

definition capabilities_unique :: "'a route_db_scheme \<Rightarrow> bool" where
  "capabilities_unique db \<longleftrightarrow>
     distinct (map capability_key (rd_capabilities db)) \<and> distinct (map venue_capability_key (rd_venue_capabilities db))"

definition seeded :: "'a route_db_scheme \<Rightarrow> 'a route_db_scheme \<Rightarrow> bool" where
  "seeded db db' \<longleftrightarrow> capabilities_unique db' \<and>
     (\<exists>t u n. db' = db\<lparr>rd_capabilities := t, rd_venue_capabilities := u, ev_next := n\<rparr>)"

lemma seeded_refl: "capabilities_unique db \<Longrightarrow> seeded db db"
  by (auto simp: seeded_def intro!: exI [of _ "rd_capabilities db"] exI [of _ "rd_venue_capabilities db"] exI [of _ "ev_next db"])

lemma seeded_trans: "seeded db db1 \<Longrightarrow> seeded db1 db2 \<Longrightarrow> seeded db db2"
  unfolding seeded_def by (elim conjE exE, intro conjI, assumption, rule exI, rule exI, rule exI, simp)

lemma get_or_insert_unique:
  assumes "distinct (map k t)" "\<And>x. P x \<longleftrightarrow> k x = k r"
  shows "\<exists>t' r'. get_or_insert P r t = Inr (t', r') \<and> distinct (map k t')"
proof -
  have d: "distinct (map k (filter P t))" using assms(1) by (simp add: distinct_map_filter)
  consider "filter P t = []" | x where "filter P t = [x]" | x y zs where "filter P t = x # y # zs"
    by (cases "filter P t" rule: remdups_adj.cases) auto
  then show ?thesis
  proof cases
    case 1
    then have "k r \<notin> k ` set t" using assms(2) by (auto simp: filter_empty_conv)
    with 1 assms(1) show ?thesis by (simp add: get_or_insert_def)
  next
    case 2
    with assms(1) show ?thesis by (simp add: get_or_insert_def)
  next
    case (3 x y zs)
    then have "{x, y} \<subseteq> set (filter P t)" by simp
    then have "k x = k y" using assms(2) by auto
    with 3 d show ?thesis by simp
  qed
qed

lemma seed_provider_capability_ok:
  assumes "capabilities_unique db"
  shows "\<exists>db'. seed_provider_capability E now p v a c db = Inr db' \<and> seeded db db'"
proof -
  let ?r = "\<lparr>pc_id = fresh E db, pc_provider = p, pc_asset_class = a, pc_venue = Some v, pc_capability_type = c,
    pc_enabled = True, pc_source_version = ''fixture-v1'', pc_effective_from = now, pc_effective_to = None, pc_verified_at = now\<rparr>"
  from assms have "distinct (map capability_key (rd_capabilities db))" by (simp add: capabilities_unique_def)
  from get_or_insert_unique [OF this, of "\<lambda>x. pc_provider x = p \<and> pc_asset_class x = a \<and> pc_venue x = Some v \<and>
      pc_capability_type x = c \<and> pc_source_version x = ''fixture-v1''" ?r]
  obtain t' r' where "get_or_insert (\<lambda>x. pc_provider x = p \<and> pc_asset_class x = a \<and> pc_venue x = Some v \<and>
      pc_capability_type x = c \<and> pc_source_version x = ''fixture-v1'') ?r (rd_capabilities db) = Inr (t', r')"
      "distinct (map capability_key t')" by (auto simp: capability_key_def)
  with assms show ?thesis
    by (auto simp: seed_provider_capability_def seeded_def capabilities_unique_def
        intro!: exI [of _ t'] exI [of _ "rd_venue_capabilities db"])
qed

lemma seed_venue_capability_ok:
  assumes "capabilities_unique db"
  shows "\<exists>db'. seed_venue_capability E now v a ty db = Inr db' \<and> seeded db db'"
proof -
  let ?r = "\<lparr>vc_id = fresh E db, vc_venue = v, vc_asset_class = a, vc_order_type = ty, vc_time_in_force = ''DAY'',
    vc_minimum_quantity = 1 / 10000, vc_quantity_increment = 1 / 10000, vc_price_increment = 1 / 100,
    vc_effective_from = now, vc_effective_to = None, vc_source_version = ''fixture-v1''\<rparr>"
  from assms have "distinct (map venue_capability_key (rd_venue_capabilities db))" by (simp add: capabilities_unique_def)
  from get_or_insert_unique [OF this, of "\<lambda>c. vc_venue c = v \<and> vc_asset_class c = a \<and> vc_order_type c = ty \<and>
             vc_time_in_force c = ''DAY'' \<and> vc_source_version c = ''fixture-v1''" ?r]
  obtain t' r' where "get_or_insert (\<lambda>c. vc_venue c = v \<and> vc_asset_class c = a \<and> vc_order_type c = ty \<and>
             vc_time_in_force c = ''DAY'' \<and> vc_source_version c = ''fixture-v1'') ?r (rd_venue_capabilities db) = Inr (t', r')"
      "distinct (map venue_capability_key t')" by (auto simp: venue_capability_key_def)
  with assms show ?thesis
    by (auto simp: seed_venue_capability_def seeded_def capabilities_unique_def
        intro!: exI [of _ t'] exI [of _ "rd_capabilities db"])
qed

lemma for_each_seeded:
  assumes "\<And>x db. capabilities_unique db \<Longrightarrow> \<exists>db'. f x db = Inr db' \<and> seeded db db'" "capabilities_unique db"
  shows "\<exists>db'. for_each f xs db = Inr db' \<and> seeded db db'"
  using assms(2)
proof (induction xs arbitrary: db)
  case Nil
  then show ?case by (simp add: seeded_refl)
next
  case (Cons x xs)
  from assms(1) [OF Cons.prems] obtain db1 where 1: "f x db = Inr db1" "seeded db db1" by blast
  then have "capabilities_unique db1" by (simp add: seeded_def)
  from Cons.IH [OF this] 1 show ?case by (auto intro: seeded_trans)
qed

lemma seed_asset_ok:
  assumes "capabilities_unique db"
  shows "\<exists>db'. seed_asset E now p v a db = Inr db' \<and> seeded db db'"
proof -
  from for_each_seeded [of "seed_provider_capability E now p v a", OF seed_provider_capability_ok assms]
  obtain db1 where 1: "for_each (seed_provider_capability E now p v a) fixture_capabilities db = Inr db1" "seeded db db1"
    by blast
  then have "capabilities_unique db1" by (simp add: seeded_def)
  from for_each_seeded [of "seed_venue_capability E now v a", OF seed_venue_capability_ok this] 1 show ?thesis
    by (fastforce simp: seed_asset_def intro: seeded_trans)
qed

lemma fixture_provider_id [simp]: "xp_provider_id (fixture_provider now f) = fst f"
  by (simp add: fixture_provider_def split: prod.split)

lemma seed_providers_ok:
  assumes "distinct (map fst fs)" "\<forall>f \<in> set fs. \<forall>p \<in> set (rd_providers db). xp_provider_id p \<noteq> fst f" "capabilities_unique db"
  shows "\<exists>t u n. seed_providers E now venue fs db = Inr (db\<lparr>rd_providers := rd_providers db @ map (fixture_provider now) fs,
      rd_capabilities := t, rd_venue_capabilities := u, ev_next := n\<rparr>, map (fixture_provider now) fs)"
  using assms
proof (induction fs arbitrary: db)
  case Nil
  then show ?case
    by (auto intro!: exI [of _ "rd_capabilities db"] exI [of _ "rd_venue_capabilities db"] exI [of _ "ev_next db"])
next
  case (Cons f fs)
  let ?p = "fixture_provider now f"
  let ?db = "db\<lparr>rd_providers := rd_providers db @ [?p]\<rparr>"
  from Cons.prems(2) have i: "get_or_insert (\<lambda>p. xp_provider_id p = fst f) ?p (rd_providers db) = Inr (rd_providers db @ [?p], ?p)"
    by (simp add: get_or_insert_def filter_False)
  have "capabilities_unique ?db" using Cons.prems(3) by (simp add: capabilities_unique_def)
  from for_each_seeded [of "seed_asset E now (fst f) venue", OF seed_asset_ok this] obtain db1 where
    1: "for_each (seed_asset E now (fst f) venue) fixture_assets ?db = Inr db1" and se: "seeded ?db db1" by blast
  from se obtain t u n where un: "capabilities_unique db1" and
    e: "db1 = ?db\<lparr>rd_capabilities := t, rd_venue_capabilities := u, ev_next := n\<rparr>" unfolding seeded_def by blast
  have "\<forall>g \<in> set fs. \<forall>p \<in> set (rd_providers db1). xp_provider_id p \<noteq> fst g"
    using Cons.prems(1,2) by (auto simp: e)
  with Cons.IH [of db1] Cons.prems(1) un have "\<exists>t u n. seed_providers E now venue fs db1 = Inr (db1\<lparr>rd_providers := rd_providers db1 @ map (fixture_provider now) fs,
      rd_capabilities := t, rd_venue_capabilities := u, ev_next := n\<rparr>, map (fixture_provider now) fs)" by simp
  then show ?case
    by (elim exE, intro exI) (simp add: i 1 e)
qed

lemma seed_fixture_capabilities_ok:
  assumes "rd_venues db = [v]" "xv_venue_id v = xv_venue_id fixture_venue" "rd_providers db = []" "capabilities_unique db"
  shows "\<exists>t u n. seed_fixture_capabilities E now db = Inr (db\<lparr>rd_providers := map (fixture_provider now) fixture_providers,
      rd_capabilities := t, rd_venue_capabilities := u, ev_next := n\<rparr>, map (fixture_provider now) fixture_providers, v)"
proof -
  have g: "get_or_insert (\<lambda>v. xv_venue_id v = xv_venue_id fixture_venue) fixture_venue (rd_venues db) = Inr (rd_venues db, v)"
    using assms(1,2) by (simp add: get_or_insert_def)
  have "distinct (map fst fixture_providers)" by (simp add: fixture_providers_def)
  from seed_providers_ok [OF this, of db E now "xv_venue_id v"] assms(3,4) have
    "\<exists>t u n. seed_providers E now (xv_venue_id v) fixture_providers db = Inr (db\<lparr>rd_providers := map (fixture_provider now) fixture_providers,
      rd_capabilities := t, rd_venue_capabilities := u, ev_next := n\<rparr>, map (fixture_provider now) fixture_providers)" by simp
  then show ?thesis by (elim exE, intro exI) (simp add: seed_fixture_capabilities_def g)
qed


lemma sort_remdups_nonempty: "x \<in> set xs \<Longrightarrow> sort (remdups xs) \<noteq> []"
  using set_sort [of id "remdups xs"] by (metis emptyE set_empty set_remdups set_sort)

lemma closed_candidate:
  assumes "economics_of p r = Inr e" "\<not> xv_routing_enabled v"
  shows "\<exists>db' c. generate_candidate S now p v r db = Inr (db', c) \<and> rc_reasons c \<noteq> [] \<and>
    rd_policies db' = rd_policies db \<and> rd_decisions db' = rd_decisions db \<and> rd_candidates db' = rd_candidates db"
proof -
  obtain db1 b where b: "is_routable now p db = (db1, b)" by fastforce
  then have "rd_policies db1 = rd_policies db \<and> rd_decisions db1 = rd_decisions db \<and> rd_candidates db1 = rd_candidates db"
    by (auto simp: is_routable_def get_or_create_health_def Let_def split: option.splits)
  moreover from assms(2) have "venue_validate now v r db = Inr [''VENUE_NOT_ROUTABLE'']" by (simp add: venue_validate_def)
  ultimately show ?thesis unfolding generate_candidate_def assms(1)
    by (simp only: rbind_Inr Let_def b prod.case sum.case) (intro exI conjI, rule refl, simp_all add: sort_remdups_nonempty [of "''VENUE_NOT_ROUTABLE''"])
qed

lemma rbind_ok: "\<exists>x. m = Inr x \<Longrightarrow> (\<And>x. m = Inr x \<Longrightarrow> \<exists>y. f x = Inr y) \<Longrightarrow> \<exists>y. rbind m f = Inr y"
  by auto

lemma closed_route:
  assumes "economics_of (fixture_provider now (''simulation'', ''SIMULATION'', 10)) r = Inr e" "\<not> xv_routing_enabled v"
    "rq_mode r = ''SIMULATION''" "rd_policies db = []" "rd_decisions db = []" "rd_candidates db = []"
  shows "\<exists>db' x. route S E now subject r ord True None (map (fixture_provider now) fixture_providers) v db = Inr (db', x)"
proof -
  obtain db1 p where p: "active_policy E now (rq_asset_class r) (rq_mode r) db = Inr (db1, p)"
      "rd_decisions db1 = []" "rd_candidates db1 = []"
    using assms(4-6) by (simp add: active_policy_def obj_exists_def Let_def)
  from closed_candidate [OF assms(1,2), of S now db1] p obtain db2 c where
    c: "generate_candidate S now (fixture_provider now (''simulation'', ''SIMULATION'', 10)) v r db1 = Inr (db2, c)"
      "rc_reasons c \<noteq> []" "rd_decisions db2 = []" "rd_candidates db2 = []" by auto
  have g: "generate_candidates S now (map (fixture_provider now) fixture_providers) v r db1 = Inr (db2, [c])"
    using c assms(3) by (simp add: fixture_providers_def) (simp add: fixture_provider_def)
  have live: "rq_mode r \<noteq> ''LIVE''" using assms(3) by simp
  have sc: "score_candidates p [c] = Inr [c\<lparr>rc_score := - 1\<rparr>]" using c(2) by (simp add: score_candidate_def)
  have sd: "save_decision dn db2 = Inr (db2\<lparr>rd_decisions := [dn], ev_next := Suc (ev_next db2)\<rparr>)" for dn
    using c(3) by (simp add: save_decision_def obj_exists_def)
  have ac: "\<exists>s. for_each (add_candidate E now i r) [y] (db2\<lparr>rd_decisions := [dn], ev_next := n\<rparr>) = Inr s" for i y dn n
    using c(4) by (simp add: add_candidate_def save_candidate_def obj_exists_def)
  have "\<exists>z. persist_route E now subject r ord None [c\<lparr>rc_score := - 1\<rparr>] p sel db2 = Inr z" for sel
    unfolding persist_route_def Let_def sd rbind_Inr by (rule rbind_ok [OF ac]) (simp add: split_beta)
  then have z: "\<exists>y. rbind (persist_route E now subject r ord None [c\<lparr>rc_score := - 1\<rparr>] p sel db2) (\<lambda>(db3, d). Inr (f db3 d)) = Inr y"
    for sel and f :: "'a route_db_scheme \<Rightarrow> routing_decision \<Rightarrow> 'a route_db_scheme \<times> route_result"
    by (rule rbind_ok) (simp add: split_beta)
  have "\<exists>y. route S E now subject r ord True None (map (fixture_provider now) fixture_providers) v db = Inr y"
    unfolding route_def p(1) g sc rbind_Inr prod.case Let_def if_not_P [OF live] simp_thms if_False by (rule z)
  then show ?thesis by (metis surj_pair)
qed

section \<open>A desk at rest\<close>

definition order_py :: py_env where
  "order_py = \<lparr>en_sha = (\<lambda>s. ''''), en_uuid4 = (\<lambda>n. n), en_uuid5 = (\<lambda>s. 0),
     en_dtext = (\<lambda>x. if x = 1 then ''1'' else ''100''), en_iso_date = (\<lambda>d. ''''), en_iso_time = (\<lambda>t. ''''),
     en_col = (\<lambda>x. x), en_ratio_col = (\<lambda>x. x)\<rparr>"

definition order_settings :: desk_settings where
  "order_settings = \<lparr>ds_sim = \<lparr>se_prices = [(''BTC-USD'', 100)], se_price_source = ''fixture'', se_scenario = ''FILL'',
       se_inline = False, se_market_data_stale = False\<rparr>,
     ds_surveillance = \<lparr>sus_enabled = True, sus_self_trade_prevention = True\<rparr>,
     ds_execution = \<lparr>xs_all_execution_halted = False, xs_real_trading_enabled = False, xs_external_execution_enabled = False,
       xs_live_broker_routing_enabled = False, xs_fix_live_session_enabled = False, xs_paper_trading_allowed = True,
       xs_simulation_allowed = True\<rparr>,
     ds_simulated_trading_enabled = True, ds_deployment_env = ''test'', ds_real_money_enabled = False\<rparr>"

definition empty_outbox :: foundation_outbox where
  "empty_outbox = \<lparr>ob_next_pk = 1, ob_next_uuid = 100, ob_rows = []\<rparr>"

definition trader_profile :: compliance_profile where
  "trader_profile = \<lparr>cpf_account_id = 1, cpf_organization = 7, cpf_user = 5, cpf_account_state = CcActive,
     cpf_kyc_state = CkApproved, cpf_aml_state = CaCleared, cpf_sanctions_state = CsClear,
     cpf_jurisdiction_state = CjSupported, cpf_jurisdiction_evidence_ref = ''J-1'', cpf_kyc_evidence_ref = ''K-1'',
     cpf_aml_evidence_ref = ''A-1'', cpf_sanctions_evidence_ref = ''S-1'', cpf_kyc_expires_at = None,
     cpf_kyc_next_review_at = None, cpf_aml_next_review_at = None, cpf_jurisdiction_next_review_at = None,
     cpf_version = 1, cpf_updated_at = 0\<rparr>"

definition paper :: simulated_account where
  "paper = new_sim_account 1 ''default'' (str_nat 5) (''sim:'' @ str_nat 5)"

definition closed_venue :: execution_venue where
  "closed_venue = fixture_venue\<lparr>xv_routing_enabled := False\<rparr>"

definition order_desk :: desk where
  "order_desk = \<lparr>
     dk_sim = \<lparr>ev_outbox = empty_outbox, ev_next = 10, pd_trades = [], pd_fees = [], pd_allocations = [],
       pd_obligations = [], pd_instructions = [], pd_effects = [], pd_confirmations = [], pd_calendars = [],
       pd_exceptions = [], pd_corrections = [], pd_audits = [], vd_lots = [], vd_dispositions = [], vd_cost_basis = [],
       vd_adjustments = [], vd_realized = [], vd_income = [], vd_audits = [], sd_orders = [], sd_accounts = [paper],
       sd_trading_accounts = [paper_identity paper], sd_reservations = [], sd_trades = [], sd_positions = [], sd_routing = [],
       sd_quality = [], sd_audits = []\<rparr>,
     dk_compliance = \<lparr>ev_outbox = empty_outbox, ev_next = 0, cd_profiles = [trader_profile], cd_restrictions = [],
       cd_cases = [], cd_case_events = [], cd_overrides = [], cd_decisions = [], cd_audits = [], cd_memberships = [],
       cd_organizations = [], cd_orders = []\<rparr>,
     dk_surveillance = \<lparr>ev_outbox = empty_outbox, ev_next = 0, sv_rules = [], sv_restrictions = [], sv_events = [],
       sv_cases = [], sv_case_links = [], sv_timeline = [], sv_audits = [], sv_dead_letters = [],
       sv_requests = \<lparr>fr_next_pk = 1, fr_rows = []\<rparr>, sv_application_audits = []\<rparr>,
     dk_routes = \<lparr>ev_outbox = empty_outbox, ev_next = 0, rd_providers = [], rd_venues = [closed_venue], rd_capabilities = [],
       rd_venue_capabilities = [], rd_policies = [], rd_health = [], rd_decisions = [], rd_candidates = [],
       rd_executions = [], rd_outcomes = [], rd_orders = [], rd_audits = []\<rparr>,
     dk_controls = [], dk_risks = [], dk_requests = \<lparr>fr_next_pk = 1, fr_rows = []\<rparr>, dk_processed = []\<rparr>"

definition order_body :: row where
  "order_body = [(''instrument'', JStr ''BTCUSD''), (''side'', JStr ''BUY''), (''quantity'', JStr ''1'')]"

section \<open>An order on it\<close>

definition wanted_order :: order_payload where
  "wanted_order = \<lparr>opl_instrument_id = ''BTC-USD'', opl_side = Buy, opl_order_type = OrdMarket, opl_quantity = 1,
     opl_price = 100, opl_limit_price = None\<rparr>"

definition unused_routes :: "'a route_db_scheme \<Rightarrow> bool" where
  "unused_routes db \<longleftrightarrow> rd_venues db = [closed_venue] \<and> rd_providers db = [] \<and> rd_capabilities db = [] \<and>
     rd_venue_capabilities db = [] \<and> rd_policies db = [] \<and> rd_decisions db = [] \<and> rd_candidates db = []"

lemma wanted_payload: "normalized_payload (ds_sim order_settings) order_body = Inr wanted_order"
  by code_simp

lemma wanted_data:
  "row_get (route_data order_py wanted_order c) ''instrument'' = JStr ''BTC-USD''"
  "row_get (route_data order_py wanted_order c) ''side'' = JStr ''BUY''"
  "row_get (route_data order_py wanted_order c) ''quantity'' = JStr ''1''"
  "row_get (route_data order_py wanted_order c) ''reference_price'' = JStr ''100''"
  "row_get (route_data order_py wanted_order c) ''market_data_stale'' = JNull"
  "map_of (route_data order_py wanted_order c) ''mode'' = Some (JStr ''SIMULATION'')"
  by (simp_all add: row_get_def route_data_def wanted_order_def order_py_def)

lemma wanted_text: "parse_decimal ''1'' = Some (Finite False 1 0)" "parse_decimal ''100'' = Some (Finite False 100 0)"
  "upper ''BTC-USD'' = ''BTC-USD''" "upper ''BUY'' = ''BUY''" "upper ''SIMULATION'' = ''SIMULATION''"
  "dec_value (Finite False 1 0) = 1" "dec_value (Finite False 100 0) = 100"
  by code_simp+

lemma rnd_integer: "\<bar>of_int k :: rat\<bar> < 10 ^ 10 \<Longrightarrow> rnd (of_int k) = of_int k"
  by (rule grid_rnd) (simp_all add: grid_def)

lemma wanted_economics:
  assumes "rq_reference_price r = 100" "rq_quantity r = 1" "rq_side r = ''BUY''"
  shows "\<exists>e. economics_of (fixture_provider now (''simulation'', ''SIMULATION'', 10)) r = Inr e"
proof -
  have k: "provider_constants ''simulation'' = Some (0, 1 / 1000, 1, 1)" by (simp add: provider_constants_def)
  have "dmul 100 1 = (100 :: rat)" by (simp add: dmul_def rnd_integer [of 100, simplified])
  then show ?thesis
    unfolding economics_of_def fixture_provider_id fst_conv k option.case prod.case assms Let_def by simp
qed

lemma wanted_route:
  assumes "unused_routes db"
  shows "\<exists>y. preview_route (ds_execution order_settings) prices order_py now subject (route_data order_py wanted_order c)
     (Some c) True ord db = Inr y"
proof -
  let ?S = "ds_execution order_settings" and ?data = "route_data order_py wanted_order c"
  let ?r = "preview_request order_py ?data ''SIMULATION'' ''BTC-USD'' 1 100 c"
  have v: "rd_venues db = [closed_venue]" "xv_venue_id closed_venue = xv_venue_id fixture_venue" "rd_providers db = []"
    "capabilities_unique db" "\<not> xv_routing_enabled closed_venue"
    using assms by (simp_all add: unused_routes_def closed_venue_def capabilities_unique_def)
  from seed_fixture_capabilities_ok [OF v(1-4), of order_py now] obtain db1 where
    s: "seed_fixture_capabilities order_py now db = Inr (db1, map (fixture_provider now) fixture_providers, closed_venue)" and
    e: "rd_policies db1 = []" "rd_decisions db1 = []" "rd_candidates db1 = []"
    using assms by (auto simp: unused_routes_def)
  have r: "rq_reference_price ?r = 100" "rq_quantity ?r = 1" "rq_side ?r = ''BUY''" "rq_mode ?r = ''SIMULATION''"
    by (simp_all add: preview_request_def wanted_data text_or_def truthy_def py_text_def wanted_text)
  from wanted_economics [OF r(1-3), of now] obtain x where
    "economics_of (fixture_provider now (''simulation'', ''SIMULATION'', 10)) ?r = Inr x" by blast
  from closed_route [OF this v(5) r(4) e] have
    ro: "\<exists>y. route ?S order_py now subject ?r ord True None (map (fixture_provider now) fixture_providers) closed_venue db1 = Inr y"
    by blast
  have m: "assert_safe_mode ?S (JStr ''SIMULATION'') = Inr ''SIMULATION''"
    by (simp add: assert_safe_mode_def truthy_def order_settings_def wanted_text py_text_def)
  have i: "upper (text_or (row_get ?data ''instrument'') x) = ''BTC-USD''" "upper (text_or (row_get ?data ''side'') '''') = ''BUY''"
    "py_text (row_get ?data ''quantity'') = ''1''" "preview_price prices ?data ''BTC-USD'' = ''100''" for x
    by (simp_all add: wanted_data text_or_def truthy_def py_text_def wanted_text preview_price_def)
  show ?thesis
    unfolding preview_route_def wanted_data(6) option.case m rbind_Inr Let_def i wanted_text(1,2) prod.case
    using ro by (simp add: not_positive_def is_finite_def wanted_text(6,7) wanted_data(5) s)
qed

definition cleared :: "desk \<Rightarrow> bool" where
  "cleared d \<longleftrightarrow> cd_profiles (dk_compliance d) = [trader_profile] \<and> cd_overrides (dk_compliance d) = [] \<and>
     cd_restrictions (dk_compliance d) = []"

lemma cleared_frame [simp]: "cleared (d\<lparr>dk_sim := s\<rparr>) = cleared d" "cleared (d\<lparr>dk_requests := q\<rparr>) = cleared d"
  "cleared (d\<lparr>dk_routes := t\<rparr>) = cleared d"
  by (simp_all add: cleared_def)

definition waiting :: "desk \<Rightarrow> bool" where
  "waiting d \<longleftrightarrow>
     cleared d \<and> sd_accounts (dk_sim d) = [paper] \<and>
     sd_trading_accounts (dk_sim d) = [paper_identity paper] \<and> sd_reservations (dk_sim d) = [] \<and> dk_controls d = [] \<and>
     sv_rules (dk_surveillance d) = [] \<and> sv_restrictions (dk_surveillance d) = [] \<and> unused_routes (dk_routes d)"

lemma cleared_compliance:
  assumes "cleared d"
  shows "\<exists>d' v. compliance_decision order_py now 5 d = Inr (d', Some v) \<and> ev_result v = EligAllowed \<and>
    cleared d' \<and> (waiting d \<longrightarrow> waiting d') \<and> sd_orders (dk_sim d') = sd_orders (dk_sim d) \<and> dk_requests d' = dk_requests d"
  using assms
  by (simp add: cleared_def waiting_def compliance_decision_def in_compliance_def get_eligibility_def evaluate_eligibility_def
      get_row_def obj_get_def lend_events_def trader_profile_def eligibility_def graded_reasons_def effective_profile_states_def
      expired_controls_def overrides_of_def active_restrictions_of_def restrictions_of_def effective_kyc_def effective_aml_def
      effective_sanctions_def reached_def compliance_audit_def Let_def del: One_nat_def)

lemma waiting_compliance:
  assumes "waiting d"
  shows "\<exists>d' v. compliance_decision order_py now 5 d = Inr (d', Some v) \<and> ev_result v = EligAllowed \<and> waiting d' \<and>
    sd_orders (dk_sim d') = sd_orders (dk_sim d) \<and> dk_requests d' = dk_requests d"
  using cleared_compliance [of d now] assms by (auto simp: waiting_def)

lemma waiting_account:
  assumes "waiting d"
  shows "in_sim (ensure_paper_identity paper) d = Inr (d, paper_identity paper)" "in_sim (account_for E 5) d = Inr (d, paper)"
proof -
  from assms have e: "ensure_paper_identity paper (dk_sim d) = Inr (dk_sim d, paper_identity paper)"
    by (simp add: waiting_def ensure_paper_identity_def get_row_def obj_get_def identity_matches_def paper_identity_def)
  then show "in_sim (ensure_paper_identity paper) d = Inr (d, paper_identity paper)" by (simp add: in_sim_def)
  from assms have "get_or_insert (\<lambda>a. sa_tenant_ref a = ''default'' \<and> sa_subject_ref a = str_nat 5 \<and> sa_account_ref a = ''sim:'' @ str_nat 5)
      (new_sim_account i ''default'' (str_nat 5) (''sim:'' @ str_nat 5)) (sd_accounts (dk_sim d)) = Inr ([paper], paper)" for i
    by (simp add: waiting_def get_or_insert_def paper_def new_sim_account_def)
  moreover have "(dk_sim d)\<lparr>sd_accounts := sd_accounts (dk_sim d)\<rparr> = dk_sim d" by simp
  with assms have same: "(dk_sim d)\<lparr>sd_accounts := [paper]\<rparr> = dk_sim d" by (simp add: waiting_def)
  ultimately show "in_sim (account_for E 5) d = Inr (d, paper)" using e assms
    by (simp add: in_sim_def account_for_def refs_def Let_def waiting_def same)
qed

definition wanted_evaluation :: order_evaluation where
  "wanted_evaluation =
     (let notional = dmul 1 100; free = available_quote paper []
      in \<lparr>oev_payload = wanted_order, oev_account = paper,
          oev_risk = evaluate_order (\<lambda>_. ''h'') (order_risk_inputs order_settings (paper_identity paper) wanted_order free notional CtlActive),
          oev_surveillance = surveillance_verdict Allow [] None, oev_available = free, oev_notional = notional\<rparr>)"

lemma wanted_amounts: "dmul 1 100 = 100" "available_quote paper [] = 10000" "dmul 100 (dadd 1 fee_rate) = 1001 / 10"
proof -
  show "dmul 1 100 = 100" by (simp add: dmul_def rnd_integer [of 100, simplified])
  show "available_quote paper [] = 10000"
    by (simp add: available_quote_def reserved_sum_def sum_where_def paper_def new_sim_account_def dsub_def rnd_integer [of 10000, simplified])
  have r: "rnd (1001 / 1000) = 1001 / 1000" "rnd (1001 / 10) = (1001 / 10 :: rat)"
    by (rule grid_rnd; simp add: grid_def)+
  have a: "dadd 1 fee_rate = 1001 / 1000" by (simp add: dadd_def fee_rate_def r)
  show "dmul 100 (dadd 1 fee_rate) = 1001 / 10" unfolding dmul_def a by (simp add: r)
qed

lemma waiting_evaluation:
  assumes "waiting d" "sd_orders (dk_sim d) = []"
  shows "evaluate_request order_settings (\<lambda>_. ''h'') order_py now 5 order_body d = Inr (d, wanted_evaluation)"
proof -
  have "trading_restrictions_of now ''default'' (sa_account_ref paper) i s '''' '''' '''' [] = []" for i s
    by (simp add: trading_restrictions_of_def)
  then have "surveil_order (ds_surveillance order_settings) order_py now ''default'' (sa_account_ref paper) wanted_order '''' '''' ''''
      (se_market_data_stale (ds_sim order_settings)) (sd_orders (dk_sim d)) (dk_surveillance d) = Inr (surveillance_verdict Allow [] None)"
    using assms by (simp add: surveil_order_def waiting_def order_settings_def self_trade_def current_rule_def wanted_order_def Let_def)
  with assms show ?thesis
    by (simp add: evaluate_request_def wanted_payload waiting_account wanted_evaluation_def control_of_def Let_def waiting_def wanted_order_def)
qed

lemma wanted_evaluation_allows: "rk_decision (oev_risk wanted_evaluation) = Allow" "svd_decision (oev_surveillance wanted_evaluation) = Allow"
proof -
  have "dmul 100 5 = 500" "ddiv 500 100 = 5" "dsub 100 100 = 0" "dadd 100 0 = 100"
    by (simp_all add: dec_ops rnd_integer [of 500, simplified] rnd_integer [of 5, simplified]
        rnd_integer [of 0, simplified] rnd_integer [of 100, simplified])
  then have "risk_reasons (order_risk_inputs order_settings (paper_identity paper) wanted_order 10000 100 CtlActive) = []"
    unfolding risk_reasons_def append_is_Nil_conv code_if_Nil
    by (simp add: order_risk_inputs_def or_default_def paper_identity_def paper_def new_sim_account_def effective_control_def
        wanted_order_def order_settings_def price_band_exceeded_def)
  then show "rk_decision (oev_risk wanted_evaluation) = Allow"
    by (simp add: wanted_evaluation_def evaluate_order_def wanted_amounts code_if_def order_risk_inputs_def)
  show "svd_decision (oev_surveillance wanted_evaluation) = Allow" by (simp add: wanted_evaluation_def surveillance_verdict_def Let_def)
qed

lemma waiting_finish:
  assumes "sd_accounts (dk_sim d) = [paper]" "sd_reservations (dk_sim d) = []" "ord = with_eligibility e (new_order order_py now 5 wanted_order i)"
  shows "\<exists>d' body. finish_order S order_py now r wanted_evaluation ord c d = Inr (d', Placed body 201 (Some i)) \<and>
    dk_compliance d' = dk_compliance d"
proof -
  obtain d1 ri where k: "record_risk order_py now ord (oev_risk wanted_evaluation) c d = (d1, ri)" by fastforce
  then have kc: "dk_compliance d1 = dk_compliance d" by (auto simp: record_risk_def Let_def)
  from k have s: "sd_accounts (dk_sim d1) = [paper]" "sd_reservations (dk_sim d1) = []"
    using assms(1,2) by (auto simp: record_risk_def audit_ref_def Let_def)
  have o: "to_id ord = i" "to_instrument_id ord = ''BTC-USD''" "to_side ord = Buy" "to_quantity ord = 1"
    by (simp_all add: assms(3) new_order_sel) (simp_all add: wanted_order_def)
  have w: "sa_id (oev_account wanted_evaluation) = sa_id paper" "opl_price (oev_payload wanted_evaluation) = 100"
    by (simp_all add: wanted_evaluation_def wanted_order_def Let_def)
  have "\<exists>y. reserve_funds order_py (sa_id paper) i ''BTC-USD'' Buy 1 100 (dk_sim d1) = Inr y"
    using s by (simp add: reserve_funds_def get_row_def obj_get_def reservation_need_def wanted_amounts obj_exists_def Let_def)
  then obtain t rsv where "reserve_funds order_py (sa_id paper) i ''BTC-USD'' Buy 1 100 (dk_sim d1) = Inr (t, rsv)" by auto
  then show ?thesis using kc by (simp add: finish_order_def k o w in_sim_def store_order_def announce_order_def Let_def)
qed

lemma wanted_payload_of: "oev_payload wanted_evaluation = wanted_order"
  by (simp add: wanted_evaluation_def Let_def)

lemma waiting_place:
  assumes "waiting d" "sd_orders (dk_sim d) = []"
  shows "\<exists>d' body i. place_order order_settings order_py read_uuid now 5 cid r wanted_evaluation d = Inr (d', Placed body 201 (Some i)) \<and>
    cleared d'"
proof -
  obtain d1 ord0 where i: "insert_order order_py now 5 wanted_order d = (d1, ord0)" by fastforce
  then have w1: "waiting d1" and o0: "\<exists>i. ord0 = new_order order_py now 5 wanted_order i"
    using assms(1) by (auto simp: insert_order_def waiting_def Let_def)
  from waiting_compliance [OF w1, of now] obtain d2 v where
    c: "compliance_decision order_py now 5 d1 = Inr (d2, Some v)" and w2: "waiting d2" by blast
  define d3 where "d3 = store_order order_py now (with_eligibility (Some v) ord0) d2"
  have w3: "waiting d3" using w2 by (simp add: d3_def store_order_def waiting_def Let_def)
  obtain s c where u: "correlation_uuid order_py read_uuid cid (dk_sim d3) = (s, c)" by fastforce
  have w4: "waiting (d3\<lparr>dk_sim := s\<rparr>)"
    using w3 u by (auto simp: correlation_uuid_def waiting_def split: option.splits if_splits)
  let ?f = "preview_route (ds_execution order_settings) (price_text order_settings order_py) order_py now (str_nat 5)
    (route_data order_py wanted_order c) (Some c) True (Some (to_id (with_eligibility (Some v) ord0)))"
  have "unused_routes ((lend_events (dk_sim (d3\<lparr>dk_sim := s\<rparr>)) (dk_routes (d3\<lparr>dk_sim := s\<rparr>)))\<lparr>rd_audits := sd_audits (dk_sim (d3\<lparr>dk_sim := s\<rparr>))\<rparr>)"
    using w4 by (simp add: waiting_def unused_routes_def lend_events_def)
  from wanted_route [OF this] obtain db x where
    "?f ((lend_events (dk_sim (d3\<lparr>dk_sim := s\<rparr>)) (dk_routes (d3\<lparr>dk_sim := s\<rparr>)))\<lparr>rd_audits := sd_audits (dk_sim (d3\<lparr>dk_sim := s\<rparr>))\<rparr>) = Inr (db, x)"
    by (metis surj_pair)
  then obtain d4 where ro: "in_routes ?f (d3\<lparr>dk_sim := s\<rparr>) = Inr (d4, x)" and
    d4: "d4 = (d3\<lparr>dk_sim := s\<rparr>)\<lparr>dk_routes := db, dk_sim := (lend_events db s)\<lparr>sd_audits := rd_audits db,
      sd_routing := map routing_view (rd_decisions db)\<rparr>\<rparr>"
    by (simp add: in_routes_def)
  have "sd_accounts (dk_sim d4) = [paper]" "sd_reservations (dk_sim d4) = []"
    using w4 by (simp_all add: d4 waiting_def lend_events_def)
  note fin = waiting_finish [OF this]
  from o0 obtain i0 where "with_eligibility (Some v) ord0 = with_eligibility (Some v) (new_order order_py now 5 wanted_order i0)" by blast
  from fin [OF this, of order_settings r c] obtain d' body where
    f: "finish_order order_settings order_py now r wanted_evaluation (with_eligibility (Some v) ord0) c d4 = Inr (d', Placed body 201 (Some i0))" and
    "dk_compliance d' = dk_compliance d4" by blast
  moreover have "cleared d4" using w4 by (simp add: waiting_def cleared_def d4)
  ultimately have "cleared d'" by (simp add: cleared_def)
  moreover have "place_order order_settings order_py read_uuid now 5 cid r wanted_evaluation d = Inr (d', Placed body 201 (Some i0))"
    using f by (simp add: place_order_def wanted_payload_of i c d3_def [symmetric] u ro del: with_eligibility_sel)
  ultimately show ?thesis by blast
qed

lemma waiting_create:
  assumes "waiting d" "sd_orders (dk_sim d) = []" "fr_rows (dk_requests d) = []"
  shows "\<exists>d' body. create_order order_settings (\<lambda>_. ''h'') order_py read_uuid now 5 order_body ''k'' cid d = (d', Inr (body, 201)) \<and> cleared d'"
proof -
  from waiting_compliance [OF assms(1), of now] assms(2,3) obtain d0 v where
    c: "compliance_decision order_py now 5 d = Inr (d0, Some v)" "ev_result v = EligAllowed" and
    w: "waiting d0" "sd_orders (dk_sim d0) = []" "fr_rows (dk_requests d0) = []" by metis
  obtain rq r where b: "begin_idempotent_request (en_sha order_py) now ''k'' ''default'' (str_nat 5) ''/api/v1/trading/orders'' ''POST''
      (JObj order_body) (seconds 86400) (dk_requests d0) = Inr (rq, r, True)"
    using w(3) by (simp add: begin_idempotent_request_def begin_scoped_request_def obj_exists_def Let_def)
  let ?dr = "d0\<lparr>dk_requests := rq\<rparr>"
  have wr: "waiting ?dr" "sd_orders (dk_sim ?dr) = []" using w by (simp_all add: waiting_def)
  from waiting_place [OF wr, of read_uuid now cid r] obtain d' body i where
    "place_order order_settings order_py read_uuid now 5 cid r wanted_evaluation ?dr = Inr (d', Placed body 201 (Some i))" "cleared d'" by blast
  from this(1) have a: "create_allowed order_settings (\<lambda>_. ''h'') order_py read_uuid now 5 order_body cid r ?dr = Inr (d', Placed body 201 (Some i))"
    by (simp add: create_allowed_def waiting_account [OF wr(1)] waiting_evaluation [OF wr] upon_evaluation_def wanted_evaluation_allows)
  then have "create_transaction order_settings (\<lambda>_. ''h'') order_py read_uuid now 5 order_body ''k'' cid d0 = Inr (d', Placed body 201 (Some i))"
    by (simp add: create_transaction_def b waiting_evaluation [OF wr] upon_evaluation_def wanted_evaluation_allows)
  then have "create_order order_settings (\<lambda>_. ''h'') order_py read_uuid now 5 order_body ''k'' cid d = (d', Inr (body, 201))"
    by (simp add: create_order_def c) (simp add: order_settings_def)
  with \<open>cleared d'\<close> show ?thesis by blast
qed

lemma order_desk_waiting: "waiting order_desk" "sd_orders (dk_sim order_desk) = []" "fr_rows (dk_requests order_desk) = []"
  "unused_ids order_py order_desk"
  by (simp_all add: waiting_def cleared_def order_desk_def unused_routes_def unused_ids_def)

section \<open>Placed orders\<close>

text \<open>
  C14. A new simulated order (without inline execution) is placed only for a user whose compliance profile may
  trade at that instant, with a well-formed payload inside the limits of quantity and notional, with no halt, no
  restriction in force on its tenant, account or instrument and no resting order of the account it would trade
  with. Exactly one pending order, the one asked for, and one active reservation of the funds it needs are
  added, and a buy is covered by the free balance. Repeating the request while the user may trade answers the
  stored response and adds nothing.
\<close>

theorem placed_order_checked:
  assumes "create_order S hash E read_uuid now user data key correlation_id d = (d', Inr (body, 201))"
    and "\<not> se_inline (ds_sim S)" and "unused_ids E d"
  shows "(\<exists>p ord rsv. normalized_payload (ds_sim S) data = Inr p \<and>
      (\<exists>q \<in> set (cd_profiles (dk_compliance d)). cpf_user q = user \<and>
         ev_result (eligibility now q CapTrading (dk_compliance d)) = EligAllowed) \<and>
      passed_checks S now user p d \<and> placed_to E user p d d' ord rsv) \<and>
    (\<forall>later c d2 v. compliance_decision E later user d' = Inr (d2, Some v) \<and> ev_result v = EligAllowed \<longrightarrow>
       create_order S hash E read_uuid later user data key c d' = (d2, Inr (body, 200)) \<and> book_kept d' d2)"
proof -
  from assms(1,2) obtain d0 v i where e: "compliance_decision E now user d = Inr (d0, Some v)" "ev_result v = EligAllowed" and
    t: "create_transaction S hash E read_uuid now user data key correlation_id d0 = Inr (d', Placed body 201 i)"
    by (auto simp: create_order_def split: sum.splits option.splits if_splits placement.splits)
  note k = compliance_decision_kept [OF e(1)]
  from k assms(3) have un: "unused_ids E d0" by (blast intro: unused_ids_kept)
  from t un show ?thesis
  proof (cases rule: create_transaction_facts)
    case (placed p ord rsv b rq r n)
    then have b: "b = body" by simp
    have again: "create_order S hash E read_uuid later user data key c d' = (d2, Inr (body, 200)) \<and> book_kept d' d2"
      if d2: "compliance_decision E later user d' = Inr (d2, Some w)" "ev_result w = EligAllowed" for later c d2 w
    proof -
      have k2: "book_kept d' d2" using compliance_decision_kept [OF d2(1)] by blast
      then have q: "dk_requests d2 = complete_idempotent_request r 201 body ''simulation_order'' (str_uuid (to_id ord)) rq"
        using placed(6) b by (simp add: book_kept_def)
      from completed_replays [OF placed(5), of later "seconds 86400" 201 body "''simulation_order''" "str_uuid (to_id ord)"]
      have "create_transaction S hash E read_uuid later user data key c d2 = Inr (d2, Placed body 200 None)"
        unfolding create_transaction_def q by (auto simp: q [symmetric])
      with d2 k2 show ?thesis by (simp add: create_order_def)
    qed
    have "passed_checks S now user p d" "placed_to E user p d d' ord rsv"
      using placed(2,3) k passed_checks_kept placed_to_kept by blast+
    moreover have "\<exists>q \<in> set (cd_profiles (dk_compliance d)). cpf_user q = user \<and>
        ev_result (eligibility now q CapTrading (dk_compliance d)) = EligAllowed"
      using compliance_decision_allowed [OF e(1)] e(2) by blast
    ultimately show ?thesis using placed(1) again by blast
  qed simp_all
qed

theorem placed_order_checked_witness:
  "\<exists>d' body ord rsv d2.
     create_order order_settings (\<lambda>_. ''h'') order_py (\<lambda>_. None) 0 5 order_body ''k'' ''c'' order_desk = (d', Inr (body, 201)) \<and>
     placed_to order_py 5 wanted_order order_desk d' ord rsv \<and>
     create_order order_settings (\<lambda>_. ''h'') order_py (\<lambda>_. None) 60 5 order_body ''k'' ''r'' d' = (d2, Inr (body, 200)) \<and>
     book_kept d' d2"
proof -
  from waiting_create [OF order_desk_waiting(1-3), of "\<lambda>_. None" 0 "''c''"] obtain d' body where
    c: "create_order order_settings (\<lambda>_. ''h'') order_py (\<lambda>_. None) 0 5 order_body ''k'' ''c'' order_desk = (d', Inr (body, 201))"
    and d: "cleared d'" by blast
  have "\<not> se_inline (ds_sim order_settings)" by (simp add: order_settings_def)
  note t = placed_order_checked [OF c this order_desk_waiting(4)]
  from cleared_compliance [OF d, of 60] obtain d2 v where "compliance_decision order_py 60 5 d' = Inr (d2, Some v) \<and> ev_result v = EligAllowed"
    by blast
  with t have "create_order order_settings (\<lambda>_. ''h'') order_py (\<lambda>_. None) 60 5 order_body ''k'' ''r'' d' = (d2, Inr (body, 200)) \<and>
    book_kept d' d2" by blast
  with t c show ?thesis by (auto simp: wanted_payload)
qed

end
